(* ===== verification/Prelude.thy ===== *)
theory Prelude
  imports Main "HOL-Library.Char_ord" "HOL-Library.List_Lexorder"
begin

text \<open>
  Shared vocabulary of the development: the JavaScript values the services read from
  \<^verbatim>\<open>jsonb\<close> columns, the string and path functions of the language's standard library,
  exceptions as values, the relational primitives of the SQL the services issue, and the
  generic lemmas and interface locales the components use.

  Strings are lists of code units below 256; on those \<open>trim\<close> and \<open>toLowerCase\<close> are the
  functions of the language. Points in time are microseconds, the resolution of a
  \<^verbatim>\<open>timestamptz\<close>.
\<close>

section \<open>Collections of facts\<close>

named_theorems js_simps \<open>evaluation of the JavaScript and SQL primitives\<close>
named_theorems guard_simps \<open>characterisations of the guards of the operations\<close>

type_synonym timestamp = int
type_synonym uuid = string

abbreviation seconds :: "int \<Rightarrow> timestamp" where
  "seconds n \<equiv> n * 1000000"

section \<open>JavaScript values\<close>

datatype json =
    JNull
  | JBool bool
  | JNum int
  | JStr string
  | JArr "json list"
  | JObj "(string \<times> json) list"

text \<open>An expression of type \<^verbatim>\<open>unknown\<close> may also be \<^verbatim>\<open>undefined\<close>, which is \<open>None\<close>.\<close>

type_synonym unknown = "json option"

definition get_prop :: "(string \<times> json) list \<Rightarrow> string \<Rightarrow> unknown" where
  "get_prop fields k = map_of fields k"

text \<open>\<^verbatim>\<open>value && typeof value === "object" && !Array.isArray(value) ? value : {}\<close>\<close>

fun objectFields :: "unknown \<Rightarrow> (string \<times> json) list" where
  "objectFields (Some (JObj fs)) = fs"
| "objectFields _ = []"

fun is_object :: "unknown \<Rightarrow> bool" where
  "is_object (Some (JObj _)) = True"
| "is_object _ = False"

fun as_string :: "unknown \<Rightarrow> string option" where
  "as_string (Some (JStr s)) = Some s"
| "as_string _ = None"

fun as_array :: "unknown \<Rightarrow> json list option" where
  "as_array (Some (JArr xs)) = Some xs"
| "as_array _ = None"

fun as_int :: "unknown \<Rightarrow> int option" where
  "as_int (Some (JNum n)) = Some n"
| "as_int _ = None"

text \<open>\<^verbatim>\<open>a ?? b\<close> on values that may be undefined or null\<close>

fun nullish :: "unknown \<Rightarrow> unknown \<Rightarrow> unknown" where
  "nullish None y = y"
| "nullish (Some JNull) y = y"
| "nullish (Some x) y = Some x"

fun set_prop :: "(string \<times> json) list \<Rightarrow> string \<Rightarrow> json \<Rightarrow> (string \<times> json) list" where
  "set_prop [] k v = [(k, v)]"
| "set_prop ((k', v') # fs) k v = (if k' = k then (k, v) # fs else (k', v') # set_prop fs k v)"

text \<open>The \<^verbatim>\<open>jsonb\<close> concatenation \<^verbatim>\<open>a || b\<close> of two objects: the right operand wins.\<close>

definition obj_concat ::
    "(string \<times> json) list \<Rightarrow> (string \<times> json) list \<Rightarrow> (string \<times> json) list" where
  "obj_concat a b = foldl (\<lambda>acc (k, v). set_prop acc k v) a b"

lemma get_prop_Nil [simp]: "get_prop [] k = None"
  by (simp add: get_prop_def)

lemma get_prop_set_prop [simp]: "get_prop (set_prop fs k v) k' = (if k' = k then Some v else get_prop fs k')"
  unfolding get_prop_def by (induction fs k v rule: set_prop.induct) auto

lemma get_prop_obj_concat_single [simp]:
  "get_prop (obj_concat fs [(k, v)]) k' = (if k' = k then Some v else get_prop fs k')"
  by (simp add: obj_concat_def)

section \<open>Strings\<close>

definition is_ws :: "char \<Rightarrow> bool" where
  "is_ws c = (let n = (of_char c :: nat) in
     n = 9 \<or> n = 10 \<or> n = 11 \<or> n = 12 \<or> n = 13 \<or> n = 32 \<or> n = 160)"

definition trim :: "string \<Rightarrow> string" where
  "trim s = rev (dropWhile is_ws (rev (dropWhile is_ws s)))"

definition lower_char :: "char \<Rightarrow> char" where
  "lower_char c = (let n = (of_char c :: nat) in
     if (65 \<le> n \<and> n \<le> 90) \<or> (192 \<le> n \<and> n \<le> 222 \<and> n \<noteq> 215) then char_of (n + 32) else c)"

definition to_lower :: "string \<Rightarrow> string" where
  "to_lower s = map lower_char s"

text \<open>\<^verbatim>\<open>value.replace(/\/+$/, "")\<close>\<close>

definition strip_slashes :: "string \<Rightarrow> string" where
  "strip_slashes s = rev (dropWhile (\<lambda>c. c = CHR ''/'') (rev s))"

fun starts_with :: "string \<Rightarrow> string \<Rightarrow> bool" where
  "starts_with [] s = True"
| "starts_with (c # p) [] = False"
| "starts_with (c # p) (d # s) = (c = d \<and> starts_with p s)"

definition ends_with :: "string \<Rightarrow> string \<Rightarrow> bool" where
  "ends_with p s = starts_with (rev p) (rev s)"

fun split_on :: "char \<Rightarrow> string \<Rightarrow> string list" where
  "split_on c [] = [[]]"
| "split_on c (d # s) =
     (if d = c then [] # split_on c s
      else (case split_on c s of [] \<Rightarrow> [[d]] | w # ws \<Rightarrow> (d # w) # ws))"

fun join_with :: "string \<Rightarrow> string list \<Rightarrow> string" where
  "join_with sep [] = []"
| "join_with sep [w] = w"
| "join_with sep (w # ws) = w @ sep @ join_with sep ws"

text \<open>\<^verbatim>\<open>text.includes(pattern)\<close>\<close>

fun includes_text :: "string \<Rightarrow> string \<Rightarrow> bool" where
  "includes_text p [] \<longleftrightarrow> p = []"
| "includes_text p (c # s) \<longleftrightarrow> starts_with p (c # s) \<or> includes_text p s"

lemma starts_with_iff: "starts_with p s \<longleftrightarrow> (\<exists>t. s = p @ t)"
  by (induction p s rule: starts_with.induct) auto

lemma starts_with_append [simp]: "starts_with p (p @ t)"
  by (simp add: starts_with_iff)

lemma starts_with_refl [simp]: "starts_with p p"
  using starts_with_append [of p "[]"] by simp

lemma dropWhile_rev_keeps_head:
  assumes "s = [] \<or> \<not> P (hd s)"
  shows "rev (dropWhile P (rev s)) = [] \<or> \<not> P (hd (rev (dropWhile P (rev s))))"
proof (cases s)
  case Nil
  then show ?thesis by simp
next
  case (Cons c t)
  with assms have "\<not> P c" by simp
  have "dropWhile P (rev t @ [c]) = dropWhile P (rev t) @ [c]"
    using \<open>\<not> P c\<close> by (induction "rev t" rule: rev_induct) (auto simp: dropWhile_append)
  with Cons \<open>\<not> P c\<close> show ?thesis by simp
qed

lemma dropWhile_hd_id: "xs = [] \<or> \<not> P (hd xs) \<Longrightarrow> dropWhile P xs = xs"
  by (cases xs) auto

lemma hd_dropWhile_not: "dropWhile P xs = [] \<or> \<not> P (hd (dropWhile P xs))"
  using hd_dropWhile by blast

lemma trim_idem [simp]: "trim (trim s) = trim s"
proof -
  let ?u = "dropWhile is_ws s"
  let ?v = "rev (dropWhile is_ws (rev ?u))"
  have "?v = [] \<or> \<not> is_ws (hd ?v)"
    by (rule dropWhile_rev_keeps_head) (rule hd_dropWhile_not)
  then have "dropWhile is_ws ?v = ?v" by (rule dropWhile_hd_id)
  then show ?thesis by (simp add: trim_def)
qed

lemma trim_Nil [simp]: "trim [] = []"
  by (simp add: trim_def)

section \<open>Decimal numbers and the String function\<close>

fun show_nat :: "nat \<Rightarrow> string" where
  "show_nat n = (if n < 10 then [char_of (48 + n)]
                 else show_nat (n div 10) @ [char_of (48 + n mod 10)])"

declare show_nat.simps [simp del]

lemma show_nat_chars: "c \<in> set (show_nat n) \<Longrightarrow> \<exists>d<10. c = char_of (48 + d :: nat)"
proof (induction n rule: show_nat.induct)
  case (1 n)
  show ?case
  proof (cases "n < 10")
    case True
    with 1(2) have "c = char_of (48 + n)" by (simp add: show_nat.simps [of n])
    with True show ?thesis by blast
  next
    case False
    with 1(2) have "c \<in> set (show_nat (n div 10)) \<or> c = char_of (48 + n mod 10)"
      by (subst (asm) show_nat.simps) (auto simp only: if_False set_append list.set Un_iff insert_iff empty_iff)
    moreover have "n mod 10 < 10" by simp
    ultimately show ?thesis using 1(1) False by blast
  qed
qed

lemma show_nat_nonempty [simp]: "show_nat n \<noteq> []"
  by (subst show_nat.simps) simp

definition show_int :: "int \<Rightarrow> string" where
  "show_int i = (if i < 0 then ''-'' @ show_nat (nat (- i)) else show_nat (nat i))"

definition is_digit :: "char \<Rightarrow> bool" where
  "is_digit c = (let n = (of_char c :: nat) in 48 \<le> n \<and> n \<le> 57)"

definition is_alnum :: "char \<Rightarrow> bool" where
  "is_alnum c = (let n = (of_char c :: nat) in (48 \<le> n \<and> n \<le> 57) \<or> (65 \<le> n \<and> n \<le> 90) \<or> (97 \<le> n \<and> n \<le> 122))"

definition digits_value :: "string \<Rightarrow> nat" where
  "digits_value s = foldl (\<lambda>n c. 10 * n + (of_char c - 48)) 0 s"

text \<open>A stored time, the decimal text of its microseconds, read back; \<open>None\<close> where the text is not a number.\<close>

definition parse_ts :: "string \<Rightarrow> timestamp option" where
  "parse_ts t =
     (if t \<noteq> [] \<and> list_all is_digit t then Some (int (digits_value t))
      else case t of
        c # cs \<Rightarrow> if c = CHR ''-'' \<and> cs \<noteq> [] \<and> list_all is_digit cs
                  then Some (- int (digits_value cs)) else None
      | [] \<Rightarrow> None)"

lemma digits_value_snoc: "digits_value (s @ [c]) = 10 * digits_value s + (of_char c - 48)"
  by (simp add: digits_value_def)

lemma is_digit_char: "k < 10 \<Longrightarrow> is_digit (char_of (48 + k :: nat))"
  by (simp add: is_digit_def of_char_of)

lemma show_nat_digits: "list_all is_digit (show_nat n)"
  by (induction n rule: show_nat.induct) (subst show_nat.simps, simp add: is_digit_char)

lemma show_nat_0: "show_nat 0 = ''0''"
  by code_simp

lemma digits_value_show [simp]: "digits_value (show_nat n) = n"
proof (induction n rule: show_nat.induct)
  case (1 n)
  show ?case
  proof (cases "n < 10")
    case True
    then show ?thesis by (subst show_nat.simps) (simp add: digits_value_def of_char_of)
  next
    case False
    with 1 show ?thesis by (subst show_nat.simps) (simp add: digits_value_snoc of_char_of)
  qed
qed

lemma parse_show_int [simp]: "parse_ts (show_int t) = Some t"
  by (auto simp: parse_ts_def show_int_def show_nat_digits is_digit_def split: list.split)

fun js_String :: "json \<Rightarrow> string" where
  "js_String JNull = ''null''"
| "js_String (JBool b) = (if b then ''true'' else ''false'')"
| "js_String (JNum n) = show_int n"
| "js_String (JStr s) = s"
| "js_String (JArr xs) =
     join_with '','' (map (\<lambda>x. case x of JNull \<Rightarrow> [] | _ \<Rightarrow> js_String x) xs)"
| "js_String (JObj _) = ''[object Object]''"

text \<open>\<^verbatim>\<open>String(value ?? "")\<close>\<close>

definition string_or_empty :: "unknown \<Rightarrow> string" where
  "string_or_empty v = (case nullish v (Some (JStr [])) of None \<Rightarrow> [] | Some j \<Rightarrow> js_String j)"

lemma string_or_empty_simps [simp]:
  "string_or_empty None = []" "string_or_empty (Some JNull) = []"
  "string_or_empty (Some (JStr s)) = s"
  by (simp_all add: string_or_empty_def)

section \<open>POSIX paths\<close>

text \<open>
  \<^verbatim>\<open>path.posix.normalize\<close>: segments are resolved on a stack held in reverse; an empty
  segment and a dot are dropped, a double dot removes the segment above it, and is kept
  only where the path is relative and nothing is left to remove.
\<close>

fun norm_segments :: "bool \<Rightarrow> string list \<Rightarrow> string list \<Rightarrow> string list" where
  "norm_segments allowAbove stack [] = rev stack"
| "norm_segments allowAbove stack (w # ws) =
     (if w = [] \<or> w = ''.'' then norm_segments allowAbove stack ws
      else if w = ''..'' then
        (case stack of
           seg # rest \<Rightarrow>
             if seg \<noteq> ''..'' then norm_segments allowAbove rest ws
             else if allowAbove then norm_segments allowAbove (''..'' # stack) ws
             else norm_segments allowAbove stack ws
         | [] \<Rightarrow> if allowAbove then norm_segments allowAbove [''..''] ws else norm_segments allowAbove [] ws)
      else norm_segments allowAbove (w # stack) ws)"

definition path_normalize :: "string \<Rightarrow> string" where
  "path_normalize p =
     (if p = [] then ''.''
      else let absolute = starts_with ''/'' p;
               trailing = ends_with ''/'' p;
               body = join_with ''/'' (norm_segments (\<not> absolute) [] (split_on (CHR ''/'') p))
           in if body = [] then (if absolute then ''/'' else if trailing then ''./'' else ''.'')
              else let body' = (if trailing then body @ ''/'' else body)
                   in if absolute then ''/'' @ body' else body')"

text \<open>\<^verbatim>\<open>path.posix.join(a, b)\<close>\<close>

definition path_join :: "string \<Rightarrow> string \<Rightarrow> string" where
  "path_join a b =
     (let parts = filter (\<lambda>w. w \<noteq> []) [a, b]
      in if parts = [] then ''.'' else path_normalize (join_with ''/'' parts))"

lemma path_normalize_nonempty: "path_normalize p \<noteq> []"
  by (simp add: path_normalize_def Let_def)

section \<open>Sets and sorting of strings\<close>

text \<open>\<^verbatim>\<open>[...new Set(xs)]\<close> keeps the first occurrence of each element.\<close>

definition uniq :: "'a list \<Rightarrow> 'a list" where
  "uniq xs = rev (remdups (rev xs))"

lemma set_uniq [simp]: "set (uniq xs) = set xs"
  by (simp add: uniq_def)

lemma distinct_uniq [simp]: "distinct (uniq xs)"
  by (simp add: uniq_def)

definition sorted_set :: "'a::linorder list \<Rightarrow> 'a list" where
  "sorted_set xs = sort (uniq xs)"

lemma sorted_set_facts [simp]:
  "set (sorted_set xs) = set xs" "distinct (sorted_set xs)" "sorted (sorted_set xs)"
  by (simp_all add: sorted_set_def)

lemma sorted_set_eqI: "set xs = set ys \<Longrightarrow> sorted_set xs = sorted_set ys"
  by (rule sorted_distinct_set_unique) simp_all

text \<open>A string that is present and not empty, as a condition of the language tests it.\<close>

definition nonempty :: "string option \<Rightarrow> string option" where
  "nonempty v = (case v of Some (c # cs) \<Rightarrow> v | _ \<Rightarrow> None)"

section \<open>Exceptions\<close>

text \<open>
  A thrown value is \<open>Inl\<close>. The services distinguish a plain error, an error carrying an
  HTTP status and possibly the id of the job that is in the way, and an error carrying a
  code (\<^verbatim>\<open>JOB_LEASE_LOST\<close>).
\<close>

datatype exn =
    PlainError (exn_message: string)
  | StatusError nat (exn_message: string) (exn_job: "uuid option")
  | CodedError string (exn_message: string)

type_synonym 'a result = "exn + 'a"

definition and_then :: "'a result \<Rightarrow> ('a \<Rightarrow> 'b result) \<Rightarrow> 'b result" where
  "and_then m f = (case m of Inl e \<Rightarrow> Inl e | Inr x \<Rightarrow> f x)"

lemma and_then_simps [simp]:
  "and_then (Inl e) f = Inl e" "and_then (Inr x) f = f x"
  by (simp_all add: and_then_def)

lemma and_then_Inr_iff [guard_simps]:
  "and_then m f = Inr y \<longleftrightarrow> (\<exists>x. m = Inr x \<and> f x = Inr y)"
  by (cases m) auto

lemma and_then_InrE:
  assumes "and_then m f = Inr y"
  obtains x where "m = Inr x" "f x = Inr y"
  using assms by (auto simp: and_then_Inr_iff)

text \<open>A loop over rows whose body may throw.\<close>

fun each :: "('a \<Rightarrow> 's \<Rightarrow> 's result) \<Rightarrow> 'a list \<Rightarrow> 's \<Rightarrow> 's result" where
  "each f [] s = Inr s"
| "each f (x # xs) s = and_then (f x s) (each f xs)"

text \<open>A loop that only checks: it throws at the first row the check rejects.\<close>

fun check_all :: "('a \<Rightarrow> unit result) \<Rightarrow> 'a list \<Rightarrow> unit result" where
  "check_all f [] = Inr ()"
| "check_all f (x # xs) = and_then (f x) (\<lambda>_. check_all f xs)"

lemma check_all_ok: "check_all f xs = Inr () \<longleftrightarrow> (\<forall>x\<in>set xs. f x = Inr ())"
  by (induction xs) (auto simp: and_then_Inr_iff)

lemma unit_result_cases: "(r :: unit result) = Inr () \<or> (\<exists>e. r = Inl e)"
  by (cases r) auto

section \<open>Relational primitives\<close>

text \<open>A table is the list of its rows; an update rewrites the rows its predicate selects.\<close>

definition update_where :: "('r \<Rightarrow> bool) \<Rightarrow> ('r \<Rightarrow> 'r) \<Rightarrow> 'r list \<Rightarrow> 'r list" where
  "update_where P f rows = map (\<lambda>r. if P r then f r else r) rows"

definition first_row :: "'r list \<Rightarrow> 'r option" where
  "first_row rows = (case rows of [] \<Rightarrow> None | r # _ \<Rightarrow> Some r)"

lemma first_row_simps [simp]: "first_row [] = None" "first_row (r # rs) = Some r"
  by (simp_all add: first_row_def)

lemma first_row_None_iff [simp]: "first_row rows = None \<longleftrightarrow> rows = []"
  by (cases rows) auto

lemma first_row_SomeD: "first_row rows = Some r \<Longrightarrow> r \<in> set rows"
  by (cases rows) auto

lemma update_where_none: "\<forall>r\<in>set rows. \<not> P r \<Longrightarrow> update_where P f rows = rows"
  unfolding update_where_def by (induction rows) auto

lemma update_where_Nil [simp]: "update_where P f [] = []"
  by (simp add: update_where_def)

lemma update_where_Cons [simp]:
  "update_where P f (r # rows) = (if P r then f r else r) # update_where P f rows"
  by (simp add: update_where_def)

lemma set_update_where: "set (update_where P f rows) = (\<lambda>r. if P r then f r else r) ` set rows"
  by (simp add: update_where_def)

lemma length_update_where [simp]: "length (update_where P f rows) = length rows"
  by (simp add: update_where_def)

lemma map_update_where:
  "(\<And>r. g (f r) = g r) \<Longrightarrow> map g (update_where P f rows) = map g rows"
  by (simp add: update_where_def)

lemma list_ex_update_where: "list_ex Q rows \<Longrightarrow> (\<And>r. Q r \<Longrightarrow> Q (f r)) \<Longrightarrow> list_ex Q (update_where P f rows)"
  by (induction rows) auto

lemma list_all2_update_where:
  "(\<And>r. P r \<Longrightarrow> R r (f r)) \<Longrightarrow> (\<And>r. R r r) \<Longrightarrow> list_all2 R rows (update_where P f rows)"
  by (induction rows) auto

lemma filter_eq_Nil_iff: "filter P xs = [] \<longleftrightarrow> (\<forall>x\<in>set xs. \<not> P x)"
  by (simp add: filter_empty_conv)

subsection \<open>Tables with a primary key\<close>

text \<open>
  The interface of a table whose rows carry a primary key: what a lookup returns after an
  update that keeps the key, and that such an update keeps the key unique.
\<close>

locale keyed_table =
  fixes key :: "'r \<Rightarrow> 'k"
begin

definition lookup :: "'r list \<Rightarrow> 'k \<Rightarrow> 'r option" where
  "lookup rows k = find (\<lambda>r. key r = k) rows"

definition keys_unique :: "'r list \<Rightarrow> bool" where
  "keys_unique rows = distinct (map key rows)"

lemma lookup_in: "lookup rows k = Some r \<Longrightarrow> r \<in> set rows \<and> key r = k"
  unfolding lookup_def by (auto simp: find_Some_iff)

lemma in_lookup: "keys_unique rows \<Longrightarrow> r \<in> set rows \<Longrightarrow> lookup rows (key r) = Some r"
  unfolding lookup_def keys_unique_def
  by (induction rows) (auto simp: image_iff)

lemma lookup_update:
  assumes "\<And>r. key (f r) = key r"
  shows "lookup (update_where P f rows) k
       = map_option (\<lambda>r. if P r then f r else r) (lookup rows k)"
  unfolding lookup_def using assms by (induction rows) auto

lemma keys_update:
  assumes "\<And>r. key (f r) = key r"
  shows "map key (update_where P f rows) = map key rows"
  using assms by (simp add: map_update_where)

lemma unique_update:
  assumes "\<And>r. key (f r) = key r"
  shows "keys_unique (update_where P f rows) = keys_unique rows"
  unfolding keys_unique_def by (simp add: keys_update [OF assms])

lemma filter_key: "keys_unique rows \<Longrightarrow> r \<in> set rows \<Longrightarrow> filter (\<lambda>q. key q = key r) rows = [r]"
  unfolding keys_unique_def by (induction rows) (auto simp: filter_empty_conv image_iff)

lemma same_key_same_row:
  "keys_unique rows \<Longrightarrow> r \<in> set rows \<Longrightarrow> r' \<in> set rows \<Longrightarrow> key r = key r' \<Longrightarrow> r = r'"
  by (metis in_lookup option.inject)

end

section \<open>Conflict relations\<close>

text \<open>
  What admission asks of a conflict relation between resource claims: it is symmetric. Then
  admitting a claim that conflicts with none of the admitted ones keeps the admitted
  claims pairwise compatible, whatever the order in which they are compared.
\<close>

locale conflict_relation =
  fixes conflicts :: "'c \<Rightarrow> 'c \<Rightarrow> bool"
  assumes conflict_sym: "conflicts a b \<Longrightarrow> conflicts b a"
begin

definition compatible :: "'c list \<Rightarrow> bool" where
  "compatible cs = sorted_wrt (\<lambda>a b. \<not> conflicts a b) cs"

lemma compatible_admit:
  assumes "compatible cs" and "\<forall>c\<in>set cs. \<not> conflicts x c"
  shows "compatible (cs @ [x])"
proof -
  have "\<forall>c\<in>set cs. \<not> conflicts c x"
    using assms(2) conflict_sym by blast
  with assms(1) show ?thesis by (simp add: compatible_def sorted_wrt_append)
qed

lemma compatible_filter: "compatible cs \<Longrightarrow> compatible (filter P cs)"
  by (simp add: compatible_def sorted_wrt_filter)

lemma compatible_pair:
  assumes "compatible cs" and "i < length cs" and "j < length cs" and "i \<noteq> j"
  shows "\<not> conflicts (cs ! i) (cs ! j)"
proof (cases "i < j")
  case True
  with assms show ?thesis by (auto simp: compatible_def sorted_wrt_iff_nth_less)
next
  case False
  with assms have "\<not> conflicts (cs ! j) (cs ! i)"
    by (auto simp: compatible_def sorted_wrt_iff_nth_less)
  then show ?thesis using conflict_sym by blast
qed

end

section \<open>Transition systems\<close>

text \<open>Invariants of a step relation, by rule induction over its runs.\<close>

locale transition_system =
  fixes step :: "'s \<Rightarrow> 's \<Rightarrow> bool"
begin

inductive run :: "'s \<Rightarrow> 's \<Rightarrow> bool" where
  refl: "run s s"
| step: "run s t \<Longrightarrow> step t u \<Longrightarrow> run s u"

lemma run_trans:
  assumes "run s t" and "run t u"
  shows "run s u"
  using assms(2,1) by (induction rule: run.induct) (auto intro: run.step)

lemma run_invariant:
  assumes "run s t" and "I s" and "\<And>a b. I a \<Longrightarrow> step a b \<Longrightarrow> I b"
  shows "I t"
  using assms by (induction rule: run.induct) auto

lemma run_measure_mono:
  fixes m :: "'s \<Rightarrow> nat"
  assumes "run s t" and "\<And>a b. step a b \<Longrightarrow> m a \<le> m b"
  shows "m s \<le> m t"
  using assms(1) by (induction rule: run.induct) (auto dest: assms(2))

end

end
