(* ===== verification/Mutation_Scope.thy ===== *)
theory Mutation_Scope
  imports Prelude
begin

text \<open>
  The resource claims of remote Docker mutations (\<^verbatim>\<open>services/dockerMutationScope.ts\<close>): which
  Docker objects, host paths and Compose projects an action touches, when two claims
  conflict, how a claim is widened through the inventory snapshot, and the advisory keys
  under which it is admitted.
\<close>

section \<open>Claims\<close>

datatype mutation_target_kind =
  HostPath | ComposeProject | Container | Image | Network | Volume | RegistryAuth

record mutation_target =
  mt_hostId :: uuid
  mt_kind :: mutation_target_kind
  mt_value :: string

record mutation_scope =
  ms_type :: string
  ms_hostIds :: "uuid list"
  ms_targets :: "mutation_target list"

text \<open>A parsed action or a row of \<^verbatim>\<open>operation_jobs\<close>; the former has \<^verbatim>\<open>hostId\<close>, the latter \<^verbatim>\<open>host_id\<close>.\<close>

record action_like =
  al_type :: string
  al_hostId :: unknown
  al_host_id :: unknown
  al_payload :: unknown

record resource_snapshot =
  rs_host_id :: uuid
  rs_kind :: string
  rs_external_id :: string
  rs_name :: string
  rs_data :: json

definition RECONCILABLE_DOCKER_MUTATION_TYPES :: "string list" where
  "RECONCILABLE_DOCKER_MUTATION_TYPES =
    [''host.mkdir'', ''git.clone'', ''git.pull'', ''git.cloneDeploy'',
     ''container.run'', ''container.clone'', ''container.start'', ''container.stop'',
     ''container.restart'', ''container.rename'', ''container.update'', ''container.remove'',
     ''image.pull'', ''image.remove'', ''image.prune'', ''image.cleanup'',
     ''network.create'', ''network.remove'', ''network.prune'',
     ''volume.create'', ''volume.remove'', ''volume.prune'',
     ''compose.deployPath'', ''compose.writeDeployPath'', ''registry.login'']"

section \<open>Building a claim\<close>

definition stringValue :: "unknown \<Rightarrow> string" where
  "stringValue v = (case as_string v of Some s \<Rightarrow> trim s | None \<Rightarrow> [])"

definition normalizedPath :: "unknown \<Rightarrow> string" where
  "normalizedPath v = (let input = stringValue v in if input \<noteq> [] then path_normalize input else [])"

definition normalizedProject :: "unknown \<Rightarrow> string" where
  "normalizedProject v = to_lower (stringValue v)"

definition normalizedTarget :: "mutation_target_kind \<Rightarrow> unknown \<Rightarrow> string" where
  "normalizedTarget kind v =
     (case kind of
        HostPath \<Rightarrow> normalizedPath v
      | ComposeProject \<Rightarrow> normalizedProject v
      | _ \<Rightarrow> stringValue v)"

definition has_target :: "mutation_target list \<Rightarrow> uuid \<Rightarrow> mutation_target_kind \<Rightarrow> string \<Rightarrow> bool" where
  "has_target targets hostId kind v =
     list_ex (\<lambda>t. mt_hostId t = hostId \<and> mt_kind t = kind \<and> mt_value t = v) targets"

text \<open>
  The part of both \<^verbatim>\<open>addTarget\<close> functions after the value is normalised: the target is
  appended unless present, and a host path also claims every path of its host.
\<close>

definition push_target ::
    "mutation_target list \<Rightarrow> uuid \<Rightarrow> mutation_target_kind \<Rightarrow> string \<Rightarrow> mutation_target list" where
  "push_target targets hostId kind v =
     (let targets1 = (if has_target targets hostId kind v then targets
                      else targets @ [\<lparr>mt_hostId = hostId, mt_kind = kind, mt_value = v\<rparr>])
      in if kind = HostPath \<and> v \<noteq> ''*'' \<and> \<not> has_target targets1 hostId HostPath ''*''
         then targets1 @ [\<lparr>mt_hostId = hostId, mt_kind = HostPath, mt_value = ''*''\<rparr>]
         else targets1)"

definition addTarget ::
    "mutation_target list \<Rightarrow> uuid \<Rightarrow> mutation_target_kind \<Rightarrow> unknown \<Rightarrow> mutation_target list" where
  "addTarget targets hostId kind v =
     (let normalized = normalizedTarget kind v
      in if hostId = [] \<or> normalized = [] then targets
         else push_target targets hostId kind normalized)"

definition star :: unknown where
  "star = Some (JStr ''*'')"

definition addContainerRunTargets ::
    "mutation_target list \<Rightarrow> uuid \<Rightarrow> (string \<times> json) list \<Rightarrow> mutation_target list" where
  "addContainerRunTargets targets hostId payload =
     (let targets1 = addTarget targets hostId Container (get_prop payload ''name'');
          targets2 = addTarget targets1 hostId Image (get_prop payload ''image'');
          targets3 = addTarget targets2 hostId Network (get_prop payload ''network'')
      in case as_array (get_prop payload ''volumes'') of
           None \<Rightarrow> targets3
         | Some raws \<Rightarrow>
             foldl (\<lambda>ts raw. addTarget ts hostId Volume
                      (get_prop (objectFields (Some raw)) ''volumeName'')) targets3 raws)"

text \<open>The fail-closed claim on every resource kind of a host that the deployments make.\<close>

definition addEveryResource :: "mutation_target list \<Rightarrow> uuid \<Rightarrow> mutation_target list" where
  "addEveryResource targets hostId =
     foldl (\<lambda>ts kind. addTarget ts hostId kind star) targets [Container, Image, Network, Volume]"

definition addDeployTargets ::
    "mutation_target list \<Rightarrow> uuid \<Rightarrow> unknown \<Rightarrow> unknown \<Rightarrow> mutation_target list" where
  "addDeployTargets targets hostId directory projectName =
     (let targets1 = addTarget targets hostId HostPath directory;
          targets2 = addTarget targets1 hostId ComposeProject projectName;
          targets3 = addTarget targets2 hostId RegistryAuth star
      in addEveryResource targets3 hostId)"

definition addCloneTargets ::
    "mutation_target list \<Rightarrow> uuid \<Rightarrow> (string \<times> json) list \<Rightarrow> mutation_target list" where
  "addCloneTargets targets hostId payload =
     (let targetHostId = stringValue (get_prop payload ''targetHostId'');
          containerId = get_prop payload ''containerId'';
          targetName = stringValue (get_prop payload ''targetName'');
          targets1 = addTarget targets hostId Container containerId;
          targets2 = addTarget targets1 targetHostId Container
            (Some (JStr (if targetName \<noteq> [] then targetName
                         else ''clone-of:'' @ stringValue containerId)))
      in addTarget targets2 targetHostId RegistryAuth star)"

definition addCleanupTargets ::
    "mutation_target list \<Rightarrow> uuid \<Rightarrow> (string \<times> json) list \<Rightarrow> mutation_target list" where
  "addCleanupTargets targets hostId payload =
     (case as_array (get_prop payload ''targets'') of
        None \<Rightarrow> targets
      | Some raws \<Rightarrow>
          foldl (\<lambda>ts raw.
             let target = objectFields (Some raw);
                 ts1 = addTarget ts hostId Image (get_prop target ''imageId'')
             in addTarget ts1 hostId Image (get_prop target ''reference'')) targets raws)"

text \<open>The \<^verbatim>\<open>switch\<close> of \<open>dockerMutationScope\<close>.\<close>

definition mutationTargets :: "string \<Rightarrow> uuid \<Rightarrow> (string \<times> json) list \<Rightarrow> mutation_target list" where
  "mutationTargets type hostId payload =
     (let get = get_prop payload in
      if type = ''host.mkdir'' then addTarget [] hostId HostPath (get ''path'')
      else if type = ''git.clone'' \<or> type = ''git.pull''
        then addTarget [] hostId HostPath (get ''directory'')
      else if type = ''git.cloneDeploy''
        then addDeployTargets [] hostId (get ''directory'') (get ''projectName'')
      else if type = ''compose.deployPath'' \<or> type = ''compose.writeDeployPath''
        then addDeployTargets [] hostId (get ''workingDir'') (get ''projectName'')
      else if type = ''container.run''
        then addTarget (addContainerRunTargets [] hostId payload) hostId RegistryAuth star
      else if type = ''container.clone'' then addCloneTargets [] hostId payload
      else if type = ''container.start'' \<or> type = ''container.stop''
            \<or> type = ''container.restart'' \<or> type = ''container.remove''
        then addTarget [] hostId Container (get ''containerId'')
      else if type = ''container.rename''
        then addTarget (addTarget [] hostId Container (get ''containerId''))
               hostId Container (get ''name'')
      else if type = ''container.update''
        then addTarget (addTarget (addTarget [] hostId Container (get ''containerId''))
               hostId Image (get ''targetImage'')) hostId RegistryAuth star
      else if type = ''image.pull''
        then addTarget (addTarget [] hostId Image (get ''image'')) hostId RegistryAuth star
      else if type = ''image.remove'' then addTarget [] hostId Image (get ''imageId'')
      else if type = ''image.cleanup'' then addCleanupTargets [] hostId payload
      else if type = ''image.prune'' then addTarget [] hostId Image star
      else if type = ''network.create'' then addTarget [] hostId Network (get ''name'')
      else if type = ''network.remove'' then addTarget [] hostId Network (get ''networkId'')
      else if type = ''network.prune'' then addTarget [] hostId Network star
      else if type = ''volume.create'' \<or> type = ''volume.remove''
        then addTarget [] hostId Volume (nullish (get ''name'') (get ''volumeName''))
      else if type = ''volume.prune'' then addTarget [] hostId Volume star
      else if type = ''registry.login'' then addTarget [] hostId RegistryAuth star
      else [])"

definition dockerMutationScope :: "action_like \<Rightarrow> mutation_scope option" where
  "dockerMutationScope input =
     (let type = trim (al_type input) in
      if type \<notin> set RECONCILABLE_DOCKER_MUTATION_TYPES then None
      else let hostId = stringValue (nullish (al_hostId input) (al_host_id input)) in
      if hostId = [] then None
      else let targets = mutationTargets type hostId (objectFields (al_payload input)) in
      if targets = [] then None
      else Some \<lparr>ms_type = type, ms_hostIds = sorted_set (map mt_hostId targets),
                 ms_targets = targets\<rparr>)"

section \<open>Conflicts\<close>

definition pathsOverlap :: "string \<Rightarrow> string \<Rightarrow> bool" where
  "pathsOverlap left right =
     (left = right
      \<or> (let leftPrefix = (if ends_with ''/'' left then left else left @ ''/'');
             rightPrefix = (if ends_with ''/'' right then right else right @ ''/'')
         in starts_with rightPrefix left \<or> starts_with leftPrefix right))"

definition targetsConflict :: "mutation_target \<Rightarrow> mutation_target \<Rightarrow> bool" where
  "targetsConflict left right =
     (if mt_hostId left \<noteq> mt_hostId right \<or> mt_kind left \<noteq> mt_kind right then False
      else if mt_value left = ''*'' \<or> mt_value right = ''*'' then True
      else if mt_kind left = HostPath then pathsOverlap (mt_value left) (mt_value right)
      else mt_value left = mt_value right)"

definition dockerMutationScopesConflict :: "mutation_scope \<Rightarrow> mutation_scope \<Rightarrow> bool" where
  "dockerMutationScopesConflict left right =
     list_ex (\<lambda>l. list_ex (\<lambda>r. targetsConflict l r) (ms_targets right)) (ms_targets left)"

section \<open>Admission keys\<close>

definition hostAdmissionKey :: "uuid \<Rightarrow> string" where
  "hostAdmissionKey hostId = ''docker-mutation-admission:'' @ hostId"

definition targetAdmissionKeys :: "mutation_target \<Rightarrow> string list" where
  "targetAdmissionKeys t =
     (if mt_kind t = HostPath
      then [''deployment-target:path:'' @ mt_hostId t @ '':'' @ mt_value t]
      else if mt_kind t = ComposeProject
      then [''deployment-target:project:'' @ mt_hostId t @ '':'' @ mt_value t]
      else [])"

definition dockerMutationAdmissionKeys :: "mutation_scope \<Rightarrow> string list" where
  "dockerMutationAdmissionKeys scope =
     sorted_set (map hostAdmissionKey (ms_hostIds scope))
     @ sorted_set (concat (map targetAdmissionKeys (ms_targets scope)))"

section \<open>Canonicalisation through the inventory\<close>

definition existingReferenceTypes :: "string list" where
  "existingReferenceTypes =
    [''git.pull'', ''container.clone'', ''container.start'', ''container.stop'',
     ''container.restart'', ''container.rename'', ''container.update'', ''container.remove'',
     ''image.remove'', ''image.cleanup'', ''network.remove'', ''volume.remove'']"

definition futureResourceCreatingTypes :: "string list" where
  "futureResourceCreatingTypes =
    [''git.cloneDeploy'', ''compose.deployPath'', ''compose.writeDeployPath'']"

fun kind_name :: "mutation_target_kind \<Rightarrow> string" where
  "kind_name HostPath = ''host-path''"
| "kind_name ComposeProject = ''compose-project''"
| "kind_name Container = ''container''"
| "kind_name Image = ''image''"
| "kind_name Network = ''network''"
| "kind_name Volume = ''volume''"
| "kind_name RegistryAuth = ''registry-auth''"

definition composeProjectFromSnapshot :: "json \<Rightarrow> string" where
  "composeProjectFromSnapshot value =
     (let data = objectFields (Some value);
          labels = nullish (get_prop data ''Labels'') (get_prop data ''labels'')
      in if is_object labels
         then to_lower (stringValue (get_prop (objectFields labels) ''com.docker.compose.project''))
         else case as_string labels of
             None \<Rightarrow> []
           | Some text \<Rightarrow>
               (case find (\<lambda>label. trim (hd (split_on (CHR ''='') label))
                                   = ''com.docker.compose.project'')
                       (split_on (CHR '','') text) of
                  None \<Rightarrow> []
                | Some label \<Rightarrow>
                    to_lower (trim (join_with ''='' (tl (split_on (CHR ''='') label))))))"

text \<open>An inventory row matching a claimed object: its id, its name and its project are claimed.\<close>

definition addSnapshotRow ::
    "uuid \<Rightarrow> mutation_target_kind \<Rightarrow> mutation_target list \<Rightarrow> resource_snapshot
     \<Rightarrow> mutation_target list" where
  "addSnapshotRow hostId kind targets row =
     (let targets1 = addTarget targets hostId kind (Some (JStr (rs_external_id row)));
          targets2 = addTarget targets1 hostId kind (Some (JStr (rs_name row)));
          project = composeProjectFromSnapshot (rs_data row)
      in if project \<noteq> [] then addTarget targets2 hostId ComposeProject (Some (JStr project))
         else targets2)"

definition matchingSnapshots ::
    "resource_snapshot list \<Rightarrow> uuid \<Rightarrow> mutation_target_kind \<Rightarrow> string list
     \<Rightarrow> resource_snapshot list" where
  "matchingSnapshots snapshots hostId kind values =
     filter (\<lambda>row. rs_host_id row = hostId \<and> rs_kind row = kind_name kind
        \<and> (rs_external_id row \<in> set values \<or> rs_name row \<in> set values)) snapshots"

definition canonicalizeValues ::
    "resource_snapshot list \<Rightarrow> string \<Rightarrow> uuid \<Rightarrow> mutation_target_kind \<Rightarrow> string list
     \<Rightarrow> mutation_target list \<Rightarrow> mutation_target list" where
  "canonicalizeValues snapshots type hostId kind values targets =
     (if values = [] then targets
      else let rows = matchingSnapshots snapshots hostId kind values;
               targets1 = foldl (addSnapshotRow hostId kind) targets rows;
               matched = (\<lambda>v. list_ex (\<lambda>row. v = rs_external_id row \<or> v = rs_name row) rows)
           in if type \<in> set existingReferenceTypes \<and> list_ex (\<lambda>v. \<not> matched v) values
              then addTarget targets1 hostId kind star
              else targets1)"

definition claimedValues ::
    "mutation_target list \<Rightarrow> uuid \<Rightarrow> mutation_target_kind \<Rightarrow> string list" where
  "claimedValues targets hostId kind =
     map mt_value (filter (\<lambda>t. mt_hostId t = hostId \<and> mt_kind t = kind
                                \<and> mt_value t \<noteq> ''*'') targets)"

text \<open>One iteration over \<^verbatim>\<open>snapshotKinds\<close>: aliases of the claimed objects are claimed too.\<close>

definition canonicalizeKind ::
    "resource_snapshot list \<Rightarrow> string \<Rightarrow> uuid \<Rightarrow> mutation_target list
     \<Rightarrow> mutation_target_kind \<Rightarrow> mutation_target list" where
  "canonicalizeKind snapshots type hostId targets kind =
     canonicalizeValues snapshots type hostId kind (claimedValues targets hostId kind) targets"

definition managed_kind :: "string \<Rightarrow> mutation_target_kind" where
  "managed_kind k = (if k = ''container'' then Container
                     else if k = ''network'' then Network else Volume)"

definition addManagedRow ::
    "uuid \<Rightarrow> mutation_target list \<Rightarrow> resource_snapshot \<Rightarrow> mutation_target list" where
  "addManagedRow hostId targets row =
     (let kind = managed_kind (rs_kind row);
          targets1 = addTarget targets hostId kind (Some (JStr (rs_external_id row)));
          targets2 = addTarget targets1 hostId kind (Some (JStr (rs_name row)));
          data = objectFields (Some (rs_data row))
      in if rs_kind row = ''container''
         then addTarget targets2 hostId Image
                (nullish (get_prop data ''Image'') (get_prop data ''image''))
         else targets2)"

text \<open>One iteration over the claimed Compose projects of a host.\<close>

definition canonicalizeProject ::
    "resource_snapshot list \<Rightarrow> string \<Rightarrow> uuid \<Rightarrow> mutation_target list \<Rightarrow> string
     \<Rightarrow> mutation_target list" where
  "canonicalizeProject snapshots type hostId targets project =
     (let managed = filter (\<lambda>row. rs_host_id row = hostId
             \<and> (rs_kind row = ''container'' \<or> rs_kind row = ''network''
                \<or> rs_kind row = ''volume'')) snapshots;
          projectRows = filter (\<lambda>row. composeProjectFromSnapshot (rs_data row) = project) managed;
          targets1 = foldl (addManagedRow hostId) targets projectRows
      in if projectRows = [] \<or> type \<in> set futureResourceCreatingTypes
         then addEveryResource targets1 hostId
         else targets1)"

definition canonicalizeHost ::
    "resource_snapshot list \<Rightarrow> string \<Rightarrow> mutation_target list \<Rightarrow> uuid \<Rightarrow> mutation_target list" where
  "canonicalizeHost snapshots type targets hostId =
     (let targets1 = foldl (canonicalizeKind snapshots type hostId) targets
                       [Container, Image, Network, Volume];
          projects = map mt_value (filter (\<lambda>t. mt_hostId t = hostId
                                             \<and> mt_kind t = ComposeProject) targets1)
      in foldl (canonicalizeProject snapshots type hostId) targets1 projects)"

definition canonicalizeDockerMutationScope ::
    "resource_snapshot list \<Rightarrow> mutation_scope \<Rightarrow> mutation_scope" where
  "canonicalizeDockerMutationScope snapshots scope =
     scope\<lparr>ms_targets := foldl (canonicalizeHost snapshots (ms_type scope))
             (ms_targets scope) (ms_hostIds scope)\<rparr>"

section \<open>Well-formed claims\<close>

text \<open>
  No target is claimed twice, hosts and values are never empty, and a host path is always
  accompanied by the claim on every path of its host.
\<close>

definition target :: "uuid \<Rightarrow> mutation_target_kind \<Rightarrow> string \<Rightarrow> mutation_target" where
  "target h k v = \<lparr>mt_hostId = h, mt_kind = k, mt_value = v\<rparr>"

definition targets_ok :: "mutation_target list \<Rightarrow> bool" where
  "targets_ok ts \<longleftrightarrow> distinct ts
     \<and> (\<forall>t\<in>set ts. mt_hostId t \<noteq> [] \<and> mt_value t \<noteq> []
          \<and> (mt_kind t = HostPath \<longrightarrow> target (mt_hostId t) HostPath ''*'' \<in> set ts))"

definition scope_wf :: "mutation_scope \<Rightarrow> bool" where
  "scope_wf sc \<longleftrightarrow> ms_targets sc \<noteq> [] \<and> targets_ok (ms_targets sc)
     \<and> ms_hostIds sc = sorted_set (map mt_hostId (ms_targets sc))"

lemma target_eq_iff [simp]:
  "target h k v = t \<longleftrightarrow> mt_hostId t = h \<and> mt_kind t = k \<and> mt_value t = v"
  by (cases t) (auto simp: target_def)

lemma target_sel [simp]:
  "mt_hostId (target h k v) = h" "mt_kind (target h k v) = k" "mt_value (target h k v) = v"
  by (simp_all add: target_def)

lemma has_target_iff: "has_target ts h k v \<longleftrightarrow> target h k v \<in> set ts"
proof -
  have "(\<exists>t\<in>set ts. mt_hostId t = h \<and> mt_kind t = k \<and> mt_value t = v)
      \<longleftrightarrow> (\<exists>t\<in>set ts. target h k v = t)"
    by simp
  also have "\<dots> \<longleftrightarrow> target h k v \<in> set ts" by blast
  finally show ?thesis by (simp add: has_target_def list_ex_iff)
qed

lemma push_target_alt:
  "push_target ts h k v =
     (let ts1 = (if target h k v \<in> set ts then ts else ts @ [target h k v])
      in if k = HostPath \<and> v \<noteq> ''*'' \<and> target h HostPath ''*'' \<notin> set ts1
         then ts1 @ [target h HostPath ''*''] else ts1)"
  by (simp add: push_target_def has_target_iff Let_def target_def [symmetric])

lemma set_push_target:
  "set (push_target ts h k v) =
     insert (target h k v) (set ts) \<union> (if k = HostPath then {target h HostPath ''*''} else {})"
  by (auto simp: push_target_alt Let_def)

lemma distinct_push_target: "distinct ts \<Longrightarrow> distinct (push_target ts h k v)"
  by (auto simp: push_target_alt Let_def)

lemma set_addTarget:
  "set (addTarget ts h k v) =
     (if h = [] \<or> normalizedTarget k v = [] then set ts
      else insert (target h k (normalizedTarget k v)) (set ts)
           \<union> (if k = HostPath then {target h HostPath ''*''} else {}))"
  by (simp add: addTarget_def set_push_target Let_def)

lemma addTarget_extends: "set ts \<subseteq> set (addTarget ts h k v)"
  by (auto simp: set_addTarget)

lemma addTarget_ok: "targets_ok ts \<Longrightarrow> targets_ok (addTarget ts h k v)"
  by (auto simp: targets_ok_def set_addTarget addTarget_def distinct_push_target Let_def
        set_push_target)

lemma targets_ok_Nil [simp]: "targets_ok []"
  by (simp add: targets_ok_def)

lemma ok_filterD: "targets_ok ts \<Longrightarrow> t \<in> set ts \<Longrightarrow> mt_hostId t \<noteq> [] \<and> mt_value t \<noteq> []"
  by (auto simp: targets_ok_def)

subsection \<open>Steps that only add targets\<close>

text \<open>
  Everything the module does to a list of targets is a chain of \<open>addTarget\<close>. A function
  that keeps what it is given and keeps it well-formed is \<^emph>\<open>growing\<close>.
\<close>

definition growing :: "(mutation_target list \<Rightarrow> mutation_target list) \<Rightarrow> bool" where
  "growing f \<longleftrightarrow> (\<forall>ts. set ts \<subseteq> set (f ts) \<and> (targets_ok ts \<longrightarrow> targets_ok (f ts)))"

named_theorems growing_intros \<open>steps that only add targets\<close>

lemma growingD: "growing f \<Longrightarrow> set ts \<subseteq> set (f ts)" "growing f \<Longrightarrow> targets_ok ts \<Longrightarrow> targets_ok (f ts)"
  by (auto simp: growing_def)

lemma growing_addTarget [growing_intros]: "growing (\<lambda>ts. addTarget ts h k v)"
  by (simp add: growing_def addTarget_extends addTarget_ok)

lemma growing_id [growing_intros]: "growing (\<lambda>ts. ts)"
  by (simp add: growing_def)

lemma growing_comp: "growing f \<Longrightarrow> growing g \<Longrightarrow> growing (\<lambda>ts. g (f ts))"
  unfolding growing_def by (meson subset_trans)

lemma growing_if: "growing f \<Longrightarrow> growing g \<Longrightarrow> growing (\<lambda>ts. if P ts then f ts else g ts)"
  by (auto simp: growing_def)

lemma growing_foldl: "(\<And>x. growing (\<lambda>ts. f ts x)) \<Longrightarrow> growing (\<lambda>ts. foldl f ts xs)"
proof (induction xs)
  case Nil
  then show ?case by (simp add: growing_id)
next
  case (Cons x xs)
  from growing_comp [OF Cons.prems [of x] Cons.IH [OF Cons.prems]]
  show ?case by simp
qed

text \<open>A loop whose bounds are read from the list it extends.\<close>

lemma growing_dep:
  assumes "\<And>a. growing (\<lambda>ts. f a ts)"
  shows "growing (\<lambda>ts. f (g ts) ts)"
  using assms by (simp add: growing_def)

lemma growing_addEveryResource [growing_intros]: "growing (\<lambda>ts. addEveryResource ts h)"
  unfolding addEveryResource_def by (rule growing_foldl) (rule growing_addTarget)

lemma growing_add2:
  "growing (\<lambda>ts. addTarget (addTarget ts h k v) h' k' v')"
  by (rule growing_comp [OF growing_addTarget growing_addTarget])

lemma growing_add3:
  "growing (\<lambda>ts. addTarget (addTarget (addTarget ts h k v) h' k' v') h'' k'' v'')"
  by (rule growing_comp [OF growing_add2 growing_addTarget])

lemma growing_addDeployTargets [growing_intros]: "growing (\<lambda>ts. addDeployTargets ts h d p)"
  unfolding addDeployTargets_def Let_def
  by (rule growing_comp [OF growing_add3 growing_addEveryResource])

lemma growing_addCloneTargets [growing_intros]: "growing (\<lambda>ts. addCloneTargets ts h p)"
  unfolding addCloneTargets_def Let_def by (rule growing_add3)

lemma growing_addCleanupTargets [growing_intros]: "growing (\<lambda>ts. addCleanupTargets ts h p)"
  unfolding addCleanupTargets_def Let_def
  by (cases "as_array (get_prop p ''targets'')")
     (simp_all add: growing_id growing_foldl growing_add2)

lemma growing_addContainerRunTargets [growing_intros]:
  "growing (\<lambda>ts. addContainerRunTargets ts h p)"
proof (cases "as_array (get_prop p ''volumes'')")
  case None
  then show ?thesis by (simp add: addContainerRunTargets_def Let_def growing_add3)
next
  case (Some raws)
  have "growing (\<lambda>ts. foldl (\<lambda>ts raw. addTarget ts h Volume
          (get_prop (objectFields (Some raw)) ''volumeName'')) ts raws)"
    by (rule growing_foldl) (rule growing_addTarget)
  from growing_comp [OF growing_add3 this] Some show ?thesis
    by (simp add: addContainerRunTargets_def Let_def)
qed

lemma growing_Nil_ok: "growing f \<Longrightarrow> targets_ok (f [])"
  by (simp add: growing_def)

lemma mutationTargets_ok: "targets_ok (mutationTargets type h p)"
proof -
  have run: "targets_ok (addTarget (addContainerRunTargets [] h p) h' k v)" for h' k v
    by (intro addTarget_ok growing_Nil_ok growing_intros)
  show ?thesis
    unfolding mutationTargets_def Let_def
    by (simp add: run addTarget_ok growing_Nil_ok [OF growing_addDeployTargets]
          growing_Nil_ok [OF growing_addCloneTargets] growing_Nil_ok [OF growing_addCleanupTargets])
qed

lemma dockerMutationScope_SomeD:
  assumes "dockerMutationScope a = Some sc"
  shows "scope_wf sc" "ms_type sc = trim (al_type a)"
    "ms_type sc \<in> set RECONCILABLE_DOCKER_MUTATION_TYPES"
    "ms_targets sc = mutationTargets (trim (al_type a))
       (stringValue (nullish (al_hostId a) (al_host_id a))) (objectFields (al_payload a))"
  using assms mutationTargets_ok
  by (auto simp: dockerMutationScope_def scope_wf_def Let_def split: if_splits)

subsection \<open>Canonicalisation only adds\<close>

lemma growing_addSnapshotRow: "growing (\<lambda>ts. addSnapshotRow h k ts row)"
  unfolding addSnapshotRow_def Let_def
  by (cases "composeProjectFromSnapshot (rs_data row) = []")
     (simp_all add: growing_add2 growing_add3)

lemma growing_addManagedRow: "growing (\<lambda>ts. addManagedRow h ts row)"
  unfolding addManagedRow_def Let_def
  by (cases "rs_kind row = ''container''") (simp_all add: growing_add2 growing_add3)

lemma growing_canonicalizeValues: "growing (\<lambda>ts. canonicalizeValues snaps type h k vs ts)"
proof -
  have rows: "growing (\<lambda>ts. foldl (addSnapshotRow h k) ts rows)" for rows
    by (rule growing_foldl [OF growing_addSnapshotRow])
  show ?thesis
    unfolding canonicalizeValues_def Let_def
    by (intro growing_if growing_id rows growing_comp [OF rows growing_addTarget])
qed

lemma growing_canonicalizeKind: "growing (\<lambda>ts. canonicalizeKind snaps type h ts k)"
  unfolding canonicalizeKind_def
  by (rule growing_dep [OF growing_canonicalizeValues])

lemma growing_canonicalizeProject: "growing (\<lambda>ts. canonicalizeProject snaps type h ts p)"
proof -
  have rows: "growing (\<lambda>ts. foldl (addManagedRow h) ts rows)" for rows
    by (rule growing_foldl [OF growing_addManagedRow])
  show ?thesis
    unfolding canonicalizeProject_def Let_def
    by (intro growing_if rows growing_comp [OF rows growing_addEveryResource])
qed

lemma growing_projects:
  "growing (\<lambda>ts. foldl (canonicalizeProject snaps type h) ts (ps ts))"
  by (rule growing_dep [OF growing_foldl [OF growing_canonicalizeProject]])

lemma growing_canonicalizeHost: "growing (\<lambda>ts. canonicalizeHost snaps type ts h)"
  unfolding canonicalizeHost_def Let_def
  by (rule growing_comp [OF growing_foldl [OF growing_canonicalizeKind] growing_projects])

lemma growing_canonical:
  "growing (\<lambda>ts. foldl (canonicalizeHost snaps type) ts hs)"
  by (rule growing_foldl [OF growing_canonicalizeHost])

lemma canonical_extends:
  "set (ms_targets sc) \<subseteq> set (ms_targets (canonicalizeDockerMutationScope snaps sc))"
  by (simp add: canonicalizeDockerMutationScope_def growingD(1) [OF growing_canonical])

lemma canonical_ok:
  "targets_ok (ms_targets sc) \<Longrightarrow> targets_ok (ms_targets (canonicalizeDockerMutationScope snaps sc))"
  by (simp add: canonicalizeDockerMutationScope_def growingD(2) [OF growing_canonical])

lemma canonical_sel [simp]:
  "ms_hostIds (canonicalizeDockerMutationScope snaps sc) = ms_hostIds sc"
  "ms_type (canonicalizeDockerMutationScope snaps sc) = ms_type sc"
  by (simp_all add: canonicalizeDockerMutationScope_def)

lemma foldl_reaches:
  assumes "\<And>x. growing (\<lambda>ts. f ts x)" and "x \<in> set xs"
    and "\<And>ts. set ts0 \<subseteq> set ts \<Longrightarrow> t \<in> set (f ts x)"
  shows "t \<in> set (foldl f ts0 xs)"
  using assms(2,3)
proof (induction xs arbitrary: ts0)
  case Nil
  then show ?case by simp
next
  case (Cons y ys)
  show ?case
  proof (cases "x = y")
    case True
    with Cons.prems(2) [of ts0] have "t \<in> set (f ts0 x)" by simp
    with True growingD(1) [OF growing_foldl [where f = f, OF assms(1)]] show ?thesis by auto
  next
    case False
    have "set ts0 \<subseteq> set (f ts0 y)" by (rule growingD(1) [OF assms(1)])
    with False Cons.prems show ?thesis by (auto intro!: Cons.IH)
  qed
qed

lemma canonical_reaches:
  assumes "h \<in> set (ms_hostIds sc)" and "k \<in> {Container, Image, Network, Volume}"
    and "\<And>ts. set (ms_targets sc) \<subseteq> set ts
           \<Longrightarrow> t \<in> set (canonicalizeKind snaps (ms_type sc) h ts k)"
  shows "t \<in> set (ms_targets (canonicalizeDockerMutationScope snaps sc))"
proof -
  let ?kinds = "foldl (canonicalizeKind snaps (ms_type sc) h)"
  have host: "t \<in> set (canonicalizeHost snaps (ms_type sc) ts h)"
    if sub: "set (ms_targets sc) \<subseteq> set ts" for ts
  proof -
    have "t \<in> set (?kinds ts [Container, Image, Network, Volume])"
      using assms(2,3) sub
      by (intro foldl_reaches [where x = k, OF growing_canonicalizeKind]) auto
    then show ?thesis
      unfolding canonicalizeHost_def Let_def using growingD(1) [OF growing_projects] by fast
  qed
  have "t \<in> set (foldl (canonicalizeHost snaps (ms_type sc)) (ms_targets sc) (ms_hostIds sc))"
    by (rule foldl_reaches [OF growing_canonicalizeHost assms(1)]) (rule host)
  then show ?thesis by (simp add: canonicalizeDockerMutationScope_def)
qed

lemma in_claimedValues:
  "target h k v \<in> set ts \<Longrightarrow> v \<noteq> ''*'' \<Longrightarrow> v \<in> set (claimedValues ts h k)"
  by (force simp: claimedValues_def image_iff intro: bexI [where x = "target h k v"])

lemma normalizedTarget_plain:
  "k \<in> {Container, Image, Network, Volume, RegistryAuth} \<Longrightarrow> trim v = v
   \<Longrightarrow> normalizedTarget k (Some (JStr v)) = v"
  by (auto simp: normalizedTarget_def stringValue_def)

lemma addSnapshotRow_alias:
  assumes "k \<in> {Container, Image, Network, Volume}" and "h \<noteq> []"
    and "w = rs_external_id row \<or> w = rs_name row" and "trim w = w" and "w \<noteq> []"
  shows "target h k w \<in> set (addSnapshotRow h k ts row)"
proof -
  have "normalizedTarget k (Some (JStr w)) = w"
    using assms by (intro normalizedTarget_plain) auto
  with assms show ?thesis
    by (auto simp: addSnapshotRow_def Let_def set_addTarget)
qed

lemma canonicalizeKind_alias:
  assumes k: "k \<in> {Container, Image, Network, Volume}" and h: "h \<noteq> []"
    and t: "target h k v \<in> set ts" "v \<noteq> ''*''"
    and row: "row \<in> set snaps" "rs_host_id row = h" "rs_kind row = kind_name k"
      "v = rs_external_id row \<or> v = rs_name row"
    and w: "w = rs_external_id row \<or> w = rs_name row" "trim w = w" "w \<noteq> []"
  shows "target h k w \<in> set (canonicalizeKind snaps type h ts k)"
proof -
  let ?vs = "claimedValues ts h k"
  have v: "v \<in> set ?vs" by (rule in_claimedValues [OF t])
  with row have "row \<in> set (matchingSnapshots snaps h k ?vs)"
    by (auto simp: matchingSnapshots_def)
  then have "target h k w \<in> set (foldl (addSnapshotRow h k) ts (matchingSnapshots snaps h k ?vs))"
    by (rule foldl_reaches [OF growing_addSnapshotRow])
       (rule addSnapshotRow_alias [OF k h w])
  with v show ?thesis
    using addTarget_extends [of "foldl (addSnapshotRow h k) ts (matchingSnapshots snaps h k ?vs)"]
    by (auto simp: canonicalizeKind_def canonicalizeValues_def Let_def)
qed

lemma normalizedTarget_star [simp]: "k \<in> {Container, Image, Network, Volume, RegistryAuth}
    \<Longrightarrow> normalizedTarget k star = ''*''"
  unfolding star_def by (rule normalizedTarget_plain) (auto simp: trim_def is_ws_def)

lemma canonicalizeKind_unknown:
  assumes k: "k \<in> {Container, Image, Network, Volume}" and h: "h \<noteq> []"
    and t: "target h k v \<in> set ts" "v \<noteq> ''*''"
    and type: "type \<in> set existingReferenceTypes"
    and none: "\<And>row. row \<in> set snaps \<Longrightarrow> rs_host_id row = h \<Longrightarrow> rs_kind row = kind_name k
        \<Longrightarrow> v \<noteq> rs_external_id row \<and> v \<noteq> rs_name row"
  shows "target h k ''*'' \<in> set (canonicalizeKind snaps type h ts k)"
proof -
  let ?vs = "claimedValues ts h k"
  have v: "v \<in> set ?vs" by (rule in_claimedValues [OF t])
  have "list_ex (\<lambda>v. \<not> list_ex (\<lambda>row. v = rs_external_id row \<or> v = rs_name row)
          (matchingSnapshots snaps h k ?vs)) ?vs"
    using v none by (auto simp: list_ex_iff matchingSnapshots_def intro!: bexI [of _ v])
  with v type k h show ?thesis
    by (auto simp: canonicalizeKind_def canonicalizeValues_def Let_def set_addTarget)
qed

subsection \<open>The hosts of a claim\<close>

definition hosts_within :: "uuid set \<Rightarrow> mutation_target list \<Rightarrow> bool" where
  "hosts_within H ts \<longleftrightarrow> mt_hostId ` set ts \<subseteq> H"

lemma addTarget_hosts: "h \<in> H \<Longrightarrow> hosts_within H ts \<Longrightarrow> hosts_within H (addTarget ts h k v)"
  by (auto simp: hosts_within_def set_addTarget)

lemma foldl_hosts:
  "(\<And>ts x. hosts_within H ts \<Longrightarrow> x \<in> set xs \<Longrightarrow> hosts_within H (f ts x))
   \<Longrightarrow> hosts_within H ts \<Longrightarrow> hosts_within H (foldl f ts xs)"
  by (induction xs arbitrary: ts) auto

lemma addEveryResource_hosts:
  "h \<in> H \<Longrightarrow> hosts_within H ts \<Longrightarrow> hosts_within H (addEveryResource ts h)"
  unfolding addEveryResource_def by (intro foldl_hosts addTarget_hosts)

lemma canonicalizeHost_hosts:
  assumes h: "h \<in> H" and ts: "hosts_within H ts"
  shows "hosts_within H (canonicalizeHost snaps type ts h)"
proof -
  have snap: "hosts_within H (addSnapshotRow h k ts row)" if "hosts_within H ts" for k ts row
    using h that by (simp add: addSnapshotRow_def Let_def addTarget_hosts)
  have kind: "hosts_within H (canonicalizeKind snaps type h ts k)" if "hosts_within H ts" for k ts
    using h that
    by (auto simp: canonicalizeKind_def canonicalizeValues_def Let_def
          intro!: addTarget_hosts foldl_hosts snap)
  have row: "hosts_within H (addManagedRow h ts row)" if "hosts_within H ts" for ts row
    using h that by (simp add: addManagedRow_def Let_def addTarget_hosts)
  have project: "hosts_within H (canonicalizeProject snaps type h ts p)"
    if "hosts_within H ts" for ts p
    using h that unfolding canonicalizeProject_def Let_def
    by (auto intro!: addEveryResource_hosts foldl_hosts row)
  show ?thesis
    unfolding canonicalizeHost_def Let_def using ts
    by (intro foldl_hosts kind project)
qed

lemma canonical_hosts:
  assumes "hosts_within (set (ms_hostIds sc)) (ms_targets sc)"
  shows "hosts_within (set (ms_hostIds sc)) (ms_targets (canonicalizeDockerMutationScope snaps sc))"
  using assms unfolding canonicalizeDockerMutationScope_def
  by (auto intro!: foldl_hosts canonicalizeHost_hosts)

lemma scope_wf_hosts: "scope_wf sc \<Longrightarrow> hosts_within (set (ms_hostIds sc)) (ms_targets sc)"
  by (auto simp: scope_wf_def hosts_within_def)

section \<open>Conflicts\<close>

lemma pathsOverlap_sym: "pathsOverlap a b \<Longrightarrow> pathsOverlap b a"
  by (auto simp: pathsOverlap_def Let_def)

lemma targetsConflict_sym: "targetsConflict a b \<Longrightarrow> targetsConflict b a"
  by (auto simp: targetsConflict_def pathsOverlap_sym split: if_splits)

lemma scopesConflict_iff:
  "dockerMutationScopesConflict a b
   \<longleftrightarrow> (\<exists>l\<in>set (ms_targets a). \<exists>r\<in>set (ms_targets b). targetsConflict l r)"
  by (simp add: dockerMutationScopesConflict_def list_ex_iff)

lemma scopesConflict_sym: "dockerMutationScopesConflict a b \<Longrightarrow> dockerMutationScopesConflict b a"
  unfolding scopesConflict_iff using targetsConflict_sym by blast

lemma scopesConflict_mono:
  assumes "dockerMutationScopesConflict a b"
    and "set (ms_targets a) \<subseteq> set (ms_targets a')" "set (ms_targets b) \<subseteq> set (ms_targets b')"
  shows "dockerMutationScopesConflict a' b'"
  using assms unfolding scopesConflict_iff by blast

lemma conflict_same_target:
  "t \<in> set (ms_targets a) \<Longrightarrow> t \<in> set (ms_targets b) \<Longrightarrow> dockerMutationScopesConflict a b"
  unfolding scopesConflict_iff by (rule bexI, rule bexI) (auto simp: targetsConflict_def pathsOverlap_def)

lemma conflict_star:
  assumes "target h k ''*'' \<in> set (ms_targets a)" and "t \<in> set (ms_targets b)"
    and "mt_hostId t = h" "mt_kind t = k"
  shows "dockerMutationScopesConflict a b"
  unfolding scopesConflict_iff using assms
  by (intro bexI [of _ "target h k ''*''"] bexI [of _ t]) (auto simp: targetsConflict_def)

lemma conflict_common_host:
  assumes "dockerMutationScopesConflict a b"
    and "hosts_within A (ms_targets a)" and "hosts_within B (ms_targets b)"
  shows "\<exists>h. h \<in> A \<and> h \<in> B"
proof -
  from assms(1) obtain l r where "l \<in> set (ms_targets a)" "r \<in> set (ms_targets b)"
    "mt_hostId l = mt_hostId r"
    by (auto simp: scopesConflict_iff targetsConflict_def split: if_splits)
  with assms(2,3) show ?thesis by (auto simp: hosts_within_def)
qed

interpretation docker_conflict: conflict_relation dockerMutationScopesConflict
  by unfold_locales (rule scopesConflict_sym)

section \<open>Properties\<close>

text \<open>Concrete inputs at which the properties below are applied.\<close>

definition example_action :: "string \<Rightarrow> (string \<times> json) list \<Rightarrow> action_like" where
  "example_action type payload =
     \<lparr>al_type = type, al_hostId = Some (JStr ''h1''), al_host_id = None,
      al_payload = Some (JObj payload)\<rparr>"

definition example_snapshot :: resource_snapshot where
  "example_snapshot = \<lparr>rs_host_id = ''h1'', rs_kind = ''container'',
     rs_external_id = ''c0ffee'', rs_name = ''web'', rs_data = JObj []\<rparr>"

definition example_scope :: "string \<Rightarrow> mutation_target list \<Rightarrow> mutation_scope" where
  "example_scope type ts = \<lparr>ms_type = type, ms_hostIds = [''h1''], ms_targets = ts\<rparr>"

lemma example_scope_sel [simp]:
  "ms_type (example_scope type ts) = type" "ms_hostIds (example_scope type ts) = [''h1'']"
  "ms_targets (example_scope type ts) = ts"
  by (simp_all add: example_scope_def)

lemma example_scope_wf:
  assumes "targets_ok ts" and "ts \<noteq> []" and "mt_hostId ` set ts = {''h1''}"
  shows "scope_wf (example_scope type ts)"
proof -
  have "sorted_set (map mt_hostId ts) = sorted_set [''h1'']"
    by (rule sorted_set_eqI) (simp add: assms(3))
  then show ?thesis using assms by (simp add: scope_wf_def sorted_set_def uniq_def)
qed

text \<open>
  C12: every claim \<open>dockerMutationScope\<close> builds is well-formed: it names at least one target,
  no target twice, no empty host or value; a host path always comes with the claim on all
  paths of its host; its host ids are exactly the hosts of its targets, sorted and without
  repetition; and its type is one of the reconcilable mutation types.
\<close>

theorem dockerMutationScope_wellformed:
  assumes "dockerMutationScope a = Some sc"
  shows "ms_targets sc \<noteq> [] \<and> targets_ok (ms_targets sc)
    \<and> ms_hostIds sc = sorted_set (map mt_hostId (ms_targets sc))
    \<and> ms_type sc \<in> set RECONCILABLE_DOCKER_MUTATION_TYPES"
  using dockerMutationScope_SomeD [OF assms] by (simp add: scope_wf_def)

theorem dockerMutationScope_wellformed_witness:
  "\<exists>sc. dockerMutationScope (example_action ''volume.prune'' []) = Some sc
     \<and> targets_ok (ms_targets sc) \<and> ms_hostIds sc = [''h1'']"
proof -
  have sc: "dockerMutationScope (example_action ''volume.prune'' [])
      = Some (example_scope ''volume.prune'' [target ''h1'' Volume ''*''])"
    by code_simp
  from dockerMutationScope_wellformed [OF sc] sc show ?thesis by simp
qed

text \<open>
  host-path mutations of one host are serialised whatever their paths: two actions
  whose claims both contain a path of the same host always conflict, because a lexical path
  is no authority on a remote host with symbolic links.
\<close>

theorem host_path_mutations_serialise:
  assumes "dockerMutationScope a = Some sa" and "dockerMutationScope b = Some sb"
    and "ta \<in> set (ms_targets sa)" "mt_kind ta = HostPath"
    and "tb \<in> set (ms_targets sb)" "mt_kind tb = HostPath"
    and "mt_hostId ta = mt_hostId tb"
  shows "dockerMutationScopesConflict sa sb"
proof -
  have "target (mt_hostId ta) HostPath ''*'' \<in> set (ms_targets sa)"
    using dockerMutationScope_SomeD(1) [OF assms(1)] assms(3,4)
    by (auto simp: scope_wf_def targets_ok_def)
  then show ?thesis by (rule conflict_star [OF _ assms(5)]) (use assms in auto)
qed

lemma example_git_pull:
  "dockerMutationScope (example_action ''git.pull'' [(''directory'', JStr ''/srv/a'')])
   = Some (example_scope ''git.pull'' [target ''h1'' HostPath ''/srv/a'', target ''h1'' HostPath ''*''])"
  "dockerMutationScope (example_action ''host.mkdir'' [(''path'', JStr ''/opt/b'')])
   = Some (example_scope ''host.mkdir'' [target ''h1'' HostPath ''/opt/b'', target ''h1'' HostPath ''*''])"
  by code_simp+

theorem host_path_mutations_serialise_witness:
  "dockerMutationScopesConflict
     (example_scope ''git.pull'' [target ''h1'' HostPath ''/srv/a'', target ''h1'' HostPath ''*''])
     (example_scope ''host.mkdir'' [target ''h1'' HostPath ''/opt/b'', target ''h1'' HostPath ''*''])"
  by (rule host_path_mutations_serialise [OF example_git_pull,
        where ta = "target ''h1'' HostPath ''/srv/a''" and tb = "target ''h1'' HostPath ''/opt/b''"])
     simp_all

text \<open>
  Widening two claims through any inventory snapshots never loses a conflict between
  them, and keeps a well-formed claim's targets well-formed and on its own hosts.
\<close>

theorem canonicalization_keeps_conflicts:
  assumes "scope_wf a" and "dockerMutationScopesConflict a b"
  shows "dockerMutationScopesConflict (canonicalizeDockerMutationScope snaps a)
           (canonicalizeDockerMutationScope snaps' b)
    \<and> targets_ok (ms_targets (canonicalizeDockerMutationScope snaps a))
    \<and> mt_hostId ` set (ms_targets (canonicalizeDockerMutationScope snaps a)) \<subseteq> set (ms_hostIds a)"
  using assms scopesConflict_mono [OF assms(2) canonical_extends canonical_extends]
    canonical_ok [of a snaps] canonical_hosts [OF scope_wf_hosts [OF assms(1)], of snaps]
  by (simp add: scope_wf_def hosts_within_def)

theorem canonicalization_keeps_conflicts_witness:
  "dockerMutationScopesConflict
     (canonicalizeDockerMutationScope [example_snapshot]
        (example_scope ''volume.prune'' [target ''h1'' Volume ''*'']))
     (canonicalizeDockerMutationScope []
        (example_scope ''volume.remove'' [target ''h1'' Volume ''data'']))"
proof -
  have "scope_wf (example_scope ''volume.prune'' [target ''h1'' Volume ''*''])"
    by (rule example_scope_wf) (simp_all add: targets_ok_def)
  moreover have "dockerMutationScopesConflict
     (example_scope ''volume.prune'' [target ''h1'' Volume ''*''])
     (example_scope ''volume.remove'' [target ''h1'' Volume ''data''])"
    by (simp add: scopesConflict_iff targetsConflict_def)
  ultimately show ?thesis using canonicalization_keeps_conflicts by blast
qed

text \<open>
  An action submitted by name cannot overlap one submitted by id. If the inventory has a
  row for an object, a claim naming the object by one of its two aliases and a claim naming
  it by either of them conflict once both are canonicalised.
\<close>

theorem alias_claims_conflict:
  assumes "row \<in> set snaps" "rs_host_id row = h" "rs_kind row = kind_name k"
    and "k \<in> {Container, Image, Network, Volume}"
    and "v \<in> {rs_external_id row, rs_name row}" "w \<in> {rs_external_id row, rs_name row}"
    and "v \<noteq> ''*''" "v \<noteq> []" "trim v = v" "w \<noteq> ''*''"
    and "scope_wf a" "target h k v \<in> set (ms_targets a)"
    and "scope_wf b" "target h k w \<in> set (ms_targets b)"
  shows "dockerMutationScopesConflict (canonicalizeDockerMutationScope snaps a)
           (canonicalizeDockerMutationScope snaps b)"
proof (rule conflict_same_target)
  have h: "h \<noteq> []" "h \<in> set (ms_hostIds b)"
    using assms(13,14) scope_wf_hosts [OF assms(13)]
    by (force simp: scope_wf_def targets_ok_def hosts_within_def)+
  show "target h k v \<in> set (ms_targets (canonicalizeDockerMutationScope snaps a))"
    using canonical_extends assms(12) by blast
  show "target h k v \<in> set (ms_targets (canonicalizeDockerMutationScope snaps b))"
  proof (rule canonical_reaches [OF h(2) assms(4)])
    fix ts assume "set (ms_targets b) \<subseteq> set ts"
    with assms(14) have "target h k w \<in> set ts" by blast
    then show "target h k v \<in> set (canonicalizeKind snaps (ms_type b) h ts k)"
      using assms(1-10) h by (intro canonicalizeKind_alias [where v = w and row = row]) auto
  qed
qed

theorem alias_claims_conflict_witness:
  "dockerMutationScopesConflict
     (canonicalizeDockerMutationScope [example_snapshot]
        (example_scope ''container.stop'' [target ''h1'' Container ''web'']))
     (canonicalizeDockerMutationScope [example_snapshot]
        (example_scope ''container.remove'' [target ''h1'' Container ''c0ffee'']))"
  by (rule alias_claims_conflict [where row = example_snapshot and h = "''h1''" and k = Container
        and v = "''web''" and w = "''c0ffee''"])
     (simp_all add: example_snapshot_def trim_def is_ws_def example_scope_wf targets_ok_def)

text \<open>
  A reference to an object the inventory does not know fails closed. For an action that
  refers to existing objects, a claimed value without inventory row widens the claim to every
  object of that kind on the host, so it conflicts with every claim on that kind there.
\<close>

theorem unknown_reference_fails_closed:
  assumes "scope_wf a" "ms_type a \<in> set existingReferenceTypes"
    and "k \<in> {Container, Image, Network, Volume}"
    and "target h k v \<in> set (ms_targets a)" "v \<noteq> ''*''"
    and "\<And>row. row \<in> set snaps \<Longrightarrow> rs_host_id row = h \<Longrightarrow> rs_kind row = kind_name k
        \<Longrightarrow> v \<noteq> rs_external_id row \<and> v \<noteq> rs_name row"
    and "t \<in> set (ms_targets b)" "mt_hostId t = h" "mt_kind t = k"
  shows "dockerMutationScopesConflict (canonicalizeDockerMutationScope snaps a) b"
proof (rule conflict_star [OF _ assms(7-9)])
  have h: "h \<noteq> []" "h \<in> set (ms_hostIds a)"
    using assms(1,4) scope_wf_hosts [OF assms(1)]
    by (force simp: scope_wf_def targets_ok_def hosts_within_def)+
  show "target h k ''*'' \<in> set (ms_targets (canonicalizeDockerMutationScope snaps a))"
  proof (rule canonical_reaches [OF h(2) assms(3)])
    fix ts assume "set (ms_targets a) \<subseteq> set ts"
    with assms(4) have "target h k v \<in> set ts" by blast
    then show "target h k ''*'' \<in> set (canonicalizeKind snaps (ms_type a) h ts k)"
      by (rule canonicalizeKind_unknown [OF assms(3) h(1) _ assms(5,2,6)])
  qed
qed

theorem unknown_reference_fails_closed_witness:
  "dockerMutationScopesConflict
     (canonicalizeDockerMutationScope [example_snapshot]
        (example_scope ''container.stop'' [target ''h1'' Container ''ghost'']))
     (example_scope ''container.remove'' [target ''h1'' Container ''db''])"
  by (rule unknown_reference_fails_closed [where k = Container and v = "''ghost''" and h = "''h1''"
        and t = "target ''h1'' Container ''db''"])
     (simp_all add: example_snapshot_def example_scope_wf targets_ok_def existingReferenceTypes_def)

text \<open>
  The advisory keys of a claim come in the global order of admission: first the keys of
  its hosts, then the keys of its paths and projects, each group sorted and the whole
  without repetition, so admissions that take them in this order cannot deadlock.
\<close>

theorem admission_keys_global_order:
  "\<exists>hosts targets. dockerMutationAdmissionKeys sc = hosts @ targets
     \<and> sorted hosts \<and> sorted targets \<and> distinct (hosts @ targets)
     \<and> set hosts = hostAdmissionKey ` set (ms_hostIds sc)
     \<and> list_all (starts_with ''deployment-target:'') targets"
proof -
  let ?H = "sorted_set (map hostAdmissionKey (ms_hostIds sc))"
  let ?T = "sorted_set (concat (map targetAdmissionKeys (ms_targets sc)))"
  have T: "\<forall>k\<in>set ?T. starts_with ''deployment-target:'' k"
    by (auto simp: targetAdmissionKeys_def split: if_splits)
  moreover have "\<forall>k\<in>set ?H. \<not> starts_with ''deployment-target:'' k"
    by (auto simp: hostAdmissionKey_def)
  ultimately have "distinct (?H @ ?T)" by auto
  with T show ?thesis
    by (intro exI [of _ ?H] exI [of _ ?T])
       (simp add: dockerMutationAdmissionKeys_def list_all_iff)
qed

text \<open>
  Two well-formed claims whose canonical forms conflict, through whatever inventories
  they were widened, share a host admission key: the transactions that admit them exclude
  each other.
\<close>

theorem conflicting_claims_share_admission_key:
  assumes "scope_wf a" "scope_wf b"
    and "dockerMutationScopesConflict (canonicalizeDockerMutationScope snaps a)
         (canonicalizeDockerMutationScope snaps' b)"
  shows "\<exists>h. hostAdmissionKey h \<in> set (dockerMutationAdmissionKeys a)
         \<and> hostAdmissionKey h \<in> set (dockerMutationAdmissionKeys b)"
proof -
  obtain h where "h \<in> set (ms_hostIds a)" "h \<in> set (ms_hostIds b)"
    using conflict_common_host [OF assms(3) canonical_hosts [OF scope_wf_hosts [OF assms(1)]]
        canonical_hosts [OF scope_wf_hosts [OF assms(2)]]] by blast
  then show ?thesis by (auto simp: dockerMutationAdmissionKeys_def)
qed

theorem conflicting_claims_share_admission_key_witness:
  "\<exists>h. hostAdmissionKey h \<in> set (dockerMutationAdmissionKeys
          (example_scope ''container.stop'' [target ''h1'' Container ''web'']))
     \<and> hostAdmissionKey h \<in> set (dockerMutationAdmissionKeys
          (example_scope ''container.remove'' [target ''h1'' Container ''web'']))"
proof (rule conflicting_claims_share_admission_key)
  show "dockerMutationScopesConflict
     (canonicalizeDockerMutationScope [] (example_scope ''container.stop'' [target ''h1'' Container ''web'']))
     (canonicalizeDockerMutationScope [] (example_scope ''container.remove'' [target ''h1'' Container ''web'']))"
    by (rule scopesConflict_mono [OF _ canonical_extends canonical_extends])
       (simp add: scopesConflict_iff targetsConflict_def)
qed (simp_all add: example_scope_wf targets_ok_def)

end
