(* ===== verification/Store.thy ===== *)
theory Store
  imports Mutation_Scope
begin

text \<open>
  The PostgreSQL state the services share: one record per table, with the columns the
  modelled statements read or write, and the database as the record of its tables. A service
  function is a function on the database; a transaction that throws leaves it unchanged
  (\<^verbatim>\<open>db/pool.ts\<close>). Functions of code outside the model are the fields of \<open>externs\<close>, which
  every theorem quantifies over.
\<close>

section \<open>Tables\<close>

datatype job_status = Queued | Running | Completed | Failed | Canceled

record job_row =
  j_id :: uuid
  j_type :: string
  j_status :: job_status
  j_host_id :: "uuid option"
  j_payload :: json
  j_result :: "json option"
  j_progress :: json
  j_error :: "string option"
  j_created_by :: "uuid option"
  j_idempotency_key :: "string option"
  j_attempt_count :: nat
  j_lease_owner :: "uuid option"
  j_lease_expires_at :: "timestamp option"
  j_created_at :: timestamp
  j_updated_at :: timestamp
  j_started_at :: "timestamp option"
  j_completed_at :: "timestamp option"

record docker_host_row =
  dh_id :: uuid
  dh_deleted_at :: "timestamp option"
  dh_tags :: "string list"

record stack_row =
  cs_id :: uuid
  cs_host_id :: uuid
  cs_name :: string
  cs_project_name :: string
  cs_compose_yaml :: string
  cs_env :: string
  cs_status :: string
  cs_source_type :: "string option"
  cs_source_repository_url :: "string option"
  cs_source_branch :: "string option"
  cs_source_working_dir :: "string option"
  cs_source_compose_path :: "string option"
  cs_source_current_commit_sha :: "string option"
  cs_source_latest_commit_sha :: "string option"
  cs_source_checked_at :: "timestamp option"
  cs_source_check_error :: "string option"
  cs_source_environment_encrypted :: "string option"
  cs_source_environment_binding :: "string option"
  cs_deployment_source_id :: "uuid option"
  cs_current_version_id :: "uuid option"
  cs_last_deploy_error :: "string option"
  cs_updated_at :: timestamp

record version_row =
  sv_id :: uuid
  sv_stack_id :: uuid
  sv_version_number :: int
  sv_compose_yaml :: string
  sv_env :: string
  sv_source :: string
  sv_note :: "string option"
  sv_created_by :: "uuid option"
  sv_created_at :: timestamp

record deployment_source_row =
  ds_id :: uuid
  ds_source_type :: string
  ds_name :: string
  ds_source_locator :: string
  ds_branch :: "string option"
  ds_compose_path :: "string option"
  ds_working_dir :: "string option"
  ds_project_name :: string
  ds_compose_yaml :: "string option"
  ds_env_encrypted :: "string option"
  ds_credential_username :: "string option"
  ds_credential_secret_encrypted :: "string option"
  ds_default_host_id :: "uuid option"
  ds_metadata :: "(string \<times> json) list"
  ds_last_deployed_at :: "timestamp option"
  ds_updated_at :: timestamp

record analysis_row =
  da_id :: uuid
  da_host_id :: uuid
  da_source_id :: "uuid option"
  da_source_type :: string
  da_source_locator :: "string option"
  da_status :: string
  da_display_name :: "string option"
  da_branch :: "string option"
  da_compose_path :: "string option"
  da_working_dir :: "string option"
  da_project_name :: "string option"
  da_compose_yaml :: "string option"
  da_env_encrypted :: "string option"
  da_credential_username :: "string option"
  da_credential_secret_encrypted :: "string option"
  da_variables :: json
  da_deployed_at :: "timestamp option"
  da_expires_at :: timestamp
  da_error :: "string option"
  da_updated_at :: timestamp

record repository_row =
  gr_id :: uuid
  gr_repository_url :: string
  gr_compose_path :: string
  gr_host_clone_url :: "string option"
  gr_host_clone_directory :: "string option"
  gr_latest_commit_sha :: "string option"
  gr_last_deployed_at :: "timestamp option"
  gr_last_deployed_commit_sha :: "string option"
  gr_update_checked_at :: "timestamp option"
  gr_update_check_error :: "string option"
  gr_last_error :: "string option"
  gr_updated_at :: timestamp

record binding_row =
  gb_operation_job_id :: uuid
  gb_repository_id :: uuid
  gb_stack_id :: uuid
  gb_source_repository_url :: string
  gb_source_branch :: string
  gb_source_compose_path :: string
  gb_source_commit_sha :: string
  gb_compose_sha256 :: string
  gb_custom_compose :: bool
  gb_created_at :: timestamp

record clone_binding_row =
  gc_operation_job_id :: uuid
  gc_repository_id :: uuid
  gc_host_id :: uuid
  gc_stack_id :: "uuid option"
  gc_source_repository_url :: string
  gc_clone_repository_url :: string
  gc_source_branch :: string
  gc_source_commit_sha :: string
  gc_source_compose_path :: string
  gc_compose_yaml :: string
  gc_compose_sha256 :: string
  gc_project_name :: string
  gc_working_dir :: string
  gc_environment_encrypted :: string
  gc_environment_binding :: string
  gc_created_at :: timestamp

record attempt_row =
  ra_id :: uuid
  ra_recovery_point_id :: "uuid option"
  ra_backup_id :: "uuid option"
  ra_target_host_id :: uuid
  ra_operation_job_id :: "uuid option"
  ra_migration_run_id :: "uuid option"
  ra_restore_scope :: string
  ra_allowed_path_roots :: json
  ra_retain_on_success :: bool
  ra_status :: string
  ra_heartbeat_at :: timestamp
  ra_cleanup_not_before :: "timestamp option"
  ra_reconciliation_token :: "uuid option"
  ra_reconciliation_started_at :: "timestamp option"
  ra_last_error :: "string option"
  ra_created_at :: timestamp
  ra_completed_at :: "timestamp option"
  ra_updated_at :: timestamp

record resource_row =
  rr_attempt_id :: uuid
  rr_kind :: string
  rr_resource_name :: string
  rr_status :: string
  rr_last_error :: "string option"
  rr_created_at :: timestamp
  rr_updated_at :: timestamp

record migration_row =
  mr_id :: uuid
  mr_mode :: string
  mr_status :: string
  mr_source_host_id :: uuid
  mr_target_host_id :: uuid
  mr_source_app_identity :: json
  mr_plan :: json
  mr_recovery_point_id :: "uuid option"
  mr_error :: "string option"
  mr_completed_at :: "timestamp option"

record point_row =
  rp_id :: uuid
  rp_host_id :: uuid
  rp_status :: string
  rp_error :: "string option"
  rp_completed_at :: "timestamp option"
  rp_app_identity :: json
  rp_metadata :: "(string \<times> json) list"
  rp_migration_run_id :: "uuid option"
  rp_last_drill_at :: "timestamp option"
  rp_last_drill_status :: "string option"
  rp_last_drill_error :: "string option"

record artifact_row =
  rf_recovery_point_id :: uuid
  rf_status :: string
  rf_error :: "string option"
  rf_completed_at :: "timestamp option"

record recovery_schedule_row =
  rk_id :: uuid
  rk_last_drill_at :: "timestamp option"
  rk_last_drill_status :: "string option"
  rk_last_drill_error :: "string option"
  rk_updated_at :: timestamp

record backup_row =
  bk_id :: uuid
  bk_status :: string
  bk_error :: "string option"
  bk_completed_at :: "timestamp option"
  bk_metadata :: "(string \<times> json) list"
  bk_last_drill_at :: "timestamp option"
  bk_last_drill_status :: "string option"

record backup_schedule_row =
  bs_id :: uuid
  bs_last_status :: "string option"
  bs_last_error :: "string option"
  bs_updated_at :: timestamp

datatype worker_state = WorkerActive | WorkerDraining | WorkerStopped

record worker_row =
  wi_id :: uuid
  wi_version :: string
  wi_hostname :: string
  wi_status :: worker_state
  wi_started_at :: timestamp
  wi_last_heartbeat_at :: timestamp
  wi_stopped_at :: "timestamp option"

record registry_row =
  rg_id :: uuid
  rg_url :: string
  rg_insecure :: bool

record audit_row =
  ae_id :: uuid
  ae_user_id :: "uuid option"
  ae_host_id :: "uuid option"
  ae_action :: string
  ae_target_kind :: "string option"
  ae_target_id :: "string option"
  ae_details :: json
  ae_ip_address :: "string option"
  ae_user_agent :: "string option"
  ae_created_at :: timestamp

record login_row =
  la_identifier :: string
  la_ip_address :: "string option"
  la_attempted_at :: timestamp
  la_success :: bool

datatype role = Owner | Admin | Operator | Viewer

record user_row =
  us_id :: uuid
  us_name :: "string option"
  us_username :: "string option"
  us_email :: string
  us_password_hash :: string
  us_role :: role
  us_is_active :: bool
  us_last_login_at :: "timestamp option"
  us_created_at :: timestamp

record session_row =
  se_id :: uuid
  se_user_id :: uuid
  se_token_hash :: string
  se_expires_at :: timestamp
  se_ip_address :: "string option"
  se_user_agent :: "string option"
  se_last_seen_at :: "timestamp option"
  se_created_at :: timestamp

text \<open>
  The database. \<open>d_locks\<close> are the transaction-level advisory keys the running transaction
  holds, in the order it first acquired them.
\<close>

record db =
  d_jobs :: "job_row list"
  d_hosts :: "docker_host_row list"
  d_snapshots :: "resource_snapshot list"
  d_stacks :: "stack_row list"
  d_versions :: "version_row list"
  d_sources :: "deployment_source_row list"
  d_analyses :: "analysis_row list"
  d_repositories :: "repository_row list"
  d_bindings :: "binding_row list"
  d_clone_bindings :: "clone_binding_row list"
  d_attempts :: "attempt_row list"
  d_resources :: "resource_row list"
  d_migrations :: "migration_row list"
  d_points :: "point_row list"
  d_artifacts :: "artifact_row list"
  d_recovery_schedules :: "recovery_schedule_row list"
  d_backups :: "backup_row list"
  d_backup_schedules :: "backup_schedule_row list"
  d_workers :: "worker_row list"
  d_registries :: "registry_row list"
  d_audit :: "audit_row list"
  d_logins :: "login_row list"
  d_users :: "user_row list"
  d_sessions :: "session_row list"
  d_locks :: "string list"

definition empty_db :: db where
  "empty_db = \<lparr>d_jobs = [], d_hosts = [], d_snapshots = [], d_stacks = [], d_versions = [], d_sources = [], d_analyses = [],
     d_repositories = [], d_bindings = [], d_clone_bindings = [], d_attempts = [],
     d_resources = [], d_migrations = [], d_points = [], d_artifacts = [],
     d_recovery_schedules = [], d_backups = [], d_backup_schedules = [], d_workers = [],
     d_registries = [], d_audit = [], d_logins = [], d_users = [], d_sessions = [], d_locks = []\<rparr>"

section \<open>SQL expressions\<close>

text \<open>
  \<^verbatim>\<open>column ->> key\<close>. The text of an array or an object starts with a bracket and equals none
  of the texts it is compared with, so it is represented by the absence of a value.
\<close>

fun json_text :: "json \<Rightarrow> string option" where
  "json_text (JStr s) = Some s"
| "json_text (JNum n) = Some (show_int n)"
| "json_text (JBool b) = Some (if b then ''true'' else ''false'')"
| "json_text _ = None"

definition text_prop :: "(string \<times> json) list \<Rightarrow> string \<Rightarrow> string option" where
  "text_prop fs k = Option.bind (get_prop fs k) json_text"

definition payload_text :: "json \<Rightarrow> string \<Rightarrow> string option" where
  "payload_text payload k = text_prop (objectFields (Some payload)) k"

text \<open>\<^verbatim>\<open>error LIKE 'prefix%'\<close>, false on a null column.\<close>

definition like_prefix :: "string \<Rightarrow> string option \<Rightarrow> bool" where
  "like_prefix p v = (case v of None \<Rightarrow> False | Some s \<Rightarrow> starts_with p s)"

definition opt_in :: "'a option \<Rightarrow> 'a list \<Rightarrow> bool" where
  "opt_in v xs = (case v of None \<Rightarrow> False | Some x \<Rightarrow> x \<in> set xs)"

definition coalesce :: "'a option \<Rightarrow> 'a option \<Rightarrow> 'a option" where
  "coalesce a b = (case a of Some _ \<Rightarrow> a | None \<Rightarrow> b)"

text \<open>\<^verbatim>\<open>pg_advisory_xact_lock\<close>: a key already held is held once.\<close>

definition advisory_lock :: "string \<Rightarrow> db \<Rightarrow> db" where
  "advisory_lock key s = (if key \<in> set (d_locks s) then s else s\<lparr>d_locks := d_locks s @ [key]\<rparr>)"

definition advisory_locks :: "string list \<Rightarrow> db \<Rightarrow> db" where
  "advisory_locks keys s = fold advisory_lock keys s"

text \<open>
  \<^verbatim>\<open>withTransaction\<close>: commit the state of a callback that returns, roll back one that
  throws; the transaction's advisory locks are released either way.
\<close>

definition withTransaction :: "(db \<Rightarrow> ('a \<times> db) result) \<Rightarrow> db \<Rightarrow> 'a result \<times> db" where
  "withTransaction fn s =
     (case fn (s\<lparr>d_locks := []\<rparr>) of
        Inl e \<Rightarrow> (Inl e, s)
      | Inr (x, s') \<Rightarrow> (Inr x, s'\<lparr>d_locks := d_locks s\<rparr>))"

section \<open>Actions and rows as claims\<close>

record docker_action =
  a_type :: string
  a_hostId :: uuid
  a_payload :: "(string \<times> json) list"

definition action_claim :: "docker_action \<Rightarrow> action_like" where
  "action_claim a = \<lparr>al_type = a_type a, al_hostId = Some (JStr (a_hostId a)),
     al_host_id = None, al_payload = Some (JObj (a_payload a))\<rparr>"

definition opt_json :: "string option \<Rightarrow> json" where
  "opt_json v = (case v of None \<Rightarrow> JNull | Some s \<Rightarrow> JStr s)"

definition row_claim :: "job_row \<Rightarrow> action_like" where
  "row_claim r = \<lparr>al_type = j_type r, al_hostId = None,
     al_host_id = Some (opt_json (j_host_id r)), al_payload = Some (j_payload r)\<rparr>"

section \<open>Code outside the model\<close>

text \<open>\<^verbatim>\<open>recoveryAppIdentitySchema\<close>: the label, which no operation reads, is left out.\<close>

datatype app_identity =
    StackApp uuid "string option"
  | ComposeApp string "uuid option"
  | GitApp uuid "string option"
  | StandaloneApp "string list"

text \<open>
  Cryptographic primitives, schema validation, YAML, URL redaction and random identifiers:
  functions the services call and the development is parametric in.
\<close>

record externs =
  x_sha256 :: "string \<Rightarrow> string"
  x_decryptSecret :: "string \<Rightarrow> string result"
  x_deploymentEnvironmentBinding :: "string \<Rightarrow> string"
  x_inspectGitComposeSourceIntegrity :: "string \<Rightarrow> string \<Rightarrow> unit result"
  x_parseAction :: "docker_action \<Rightarrow> docker_action result"
  x_parseIdentity :: "json \<Rightarrow> app_identity result"
  x_imageAuthorities :: "string \<Rightarrow> string \<Rightarrow> string list result"
  x_canonicalAuthority :: "string \<Rightarrow> string result"
  x_savedRegistryAuthority :: "string \<Rightarrow> bool \<Rightarrow> string"
  x_sanitizeFields :: "json \<Rightarrow> json"
  x_sanitizeText :: "string \<Rightarrow> string"

section \<open>Lemmas\<close>

interpretation jobs: keyed_table j_id .

lemma advisory_lock_frame [simp]:
  "d_jobs (advisory_lock k s) = d_jobs s" "d_hosts (advisory_lock k s) = d_hosts s"
  "d_snapshots (advisory_lock k s) = d_snapshots s" "d_stacks (advisory_lock k s) = d_stacks s"
  "d_analyses (advisory_lock k s) = d_analyses s" "d_bindings (advisory_lock k s) = d_bindings s"
  "d_clone_bindings (advisory_lock k s) = d_clone_bindings s"
  "d_attempts (advisory_lock k s) = d_attempts s"
  "d_resources (advisory_lock k s) = d_resources s"
  "d_migrations (advisory_lock k s) = d_migrations s"
  "d_points (advisory_lock k s) = d_points s" "d_versions (advisory_lock k s) = d_versions s" "d_sources (advisory_lock k s) = d_sources s"
  by (simp_all add: advisory_lock_def)

lemma advisory_locks_simps [simp]:
  "advisory_locks [] s = s" "advisory_locks (k # ks) s = advisory_locks ks (advisory_lock k s)"
  by (simp_all add: advisory_locks_def)

lemma advisory_locks_frame [simp]:
  "d_jobs (advisory_locks ks s) = d_jobs s" "d_hosts (advisory_locks ks s) = d_hosts s"
  "d_snapshots (advisory_locks ks s) = d_snapshots s" "d_stacks (advisory_locks ks s) = d_stacks s"
  "d_analyses (advisory_locks ks s) = d_analyses s" "d_bindings (advisory_locks ks s) = d_bindings s"
  "d_clone_bindings (advisory_locks ks s) = d_clone_bindings s"
  "d_attempts (advisory_locks ks s) = d_attempts s"
  "d_resources (advisory_locks ks s) = d_resources s"
  "d_migrations (advisory_locks ks s) = d_migrations s"
  "d_points (advisory_locks ks s) = d_points s" "d_versions (advisory_locks ks s) = d_versions s" "d_sources (advisory_locks ks s) = d_sources s"
  by (induction ks arbitrary: s) simp_all

lemma advisory_lock_update: "\<exists>L. advisory_lock k s = s\<lparr>d_locks := L\<rparr>"
  unfolding advisory_lock_def
  by (cases "k \<in> set (d_locks s)") (rule exI [of _ "d_locks s"], simp, rule exI, simp)

lemma advisory_locks_update: "\<exists>L. advisory_locks ks s = s\<lparr>d_locks := L\<rparr>"
proof (induction ks arbitrary: s)
  case Nil
  show ?case by (rule exI [of _ "d_locks s"]) simp
next
  case (Cons k ks)
  obtain a where a: "advisory_lock k s = s\<lparr>d_locks := a\<rparr>" using advisory_lock_update ..
  obtain L where L: "advisory_locks ks (advisory_lock k s) = (advisory_lock k s)\<lparr>d_locks := L\<rparr>"
    using Cons.IH ..
  have "advisory_locks (k # ks) s = (advisory_lock k s)\<lparr>d_locks := L\<rparr>" using L by simp
  also have "\<dots> = s\<lparr>d_locks := L\<rparr>" unfolding a by simp
  finally show ?case ..
qed

lemma withTransaction_Inl: "withTransaction fn s = (Inl e, s') \<Longrightarrow> s' = s"
  by (auto simp: withTransaction_def split: sum.splits)

lemma withTransaction_Inr:
  "withTransaction fn s = (Inr x, s') \<longleftrightarrow>
     (\<exists>t. fn (s\<lparr>d_locks := []\<rparr>) = Inr (x, t) \<and> s' = t\<lparr>d_locks := d_locks s\<rparr>)"
  by (auto simp: withTransaction_def split: sum.splits)

end
