(* ===== verification/Job_Queue.thy ===== *)
theory Job_Queue
  imports Store
begin

text \<open>
  The lease protocol of the durable job queue (\<^verbatim>\<open>services/jobs.ts\<close>): claiming a queued job,
  renewing and checking the lease, and the writes a worker may make only while its lease is
  active. A lease is the pair of worker and attempt number; the attempt number is the
  fencing token.
\<close>

section \<open>Constants and rows as jobs\<close>

definition JOB_LEASE_SECONDS :: int where "JOB_LEASE_SECONDS = 60"
definition MAX_AUTO_ATTEMPTS :: nat where "MAX_AUTO_ATTEMPTS = 3"

definition AUTO_RETRY_JOB_TYPES :: "string list" where
  "AUTO_RETRY_JOB_TYPES =
     [''host.check'', ''host.sync'', ''git.testRemote'', ''backup.verify'', ''recovery.verify'']"

definition MANUAL_RETRY_JOB_TYPES :: "string list" where
  "MANUAL_RETRY_JOB_TYPES = AUTO_RETRY_JOB_TYPES
     @ [''host.configureRegistryTrust'', ''deploy.analyze'', ''deploy.execute'']"

definition NON_IDEMPOTENT_WORKER_LOSS_RETRY_TYPES :: "string list" where
  "NON_IDEMPOTENT_WORKER_LOSS_RETRY_TYPES =
     [''host.configureRegistryTrust'', ''deploy.analyze'', ''deploy.execute'']"

record job_lease =
  lease_worker :: uuid
  lease_attempt :: nat

text \<open>\<^verbatim>\<open>now()\<close> is fixed when a transaction starts, \<^verbatim>\<open>clock_timestamp()\<close> is read by the statement.\<close>

record clock =
  ck_now :: timestamp
  ck_clock :: timestamp

record operation_job =
  oj_id :: uuid
  oj_type :: string
  oj_status :: job_status
  oj_hostId :: "uuid option"
  oj_payload :: json
  oj_result :: "json option"
  oj_progress :: json
  oj_correlationId :: uuid
  oj_error :: "string option"
  oj_createdBy :: "uuid option"
  oj_createdAt :: timestamp
  oj_updatedAt :: timestamp
  oj_startedAt :: "timestamp option"
  oj_completedAt :: "timestamp option"
  oj_sensitiveFieldsRedacted :: bool

record claimed_job = operation_job +
  cj_workerId :: "uuid option"
  cj_attemptCount :: nat
  cj_leaseExpiresAt :: "timestamp option"

definition mapJob :: "job_row \<Rightarrow> operation_job" where
  "mapJob r = \<lparr>oj_id = j_id r, oj_type = j_type r, oj_status = j_status r,
     oj_hostId = j_host_id r,
     oj_payload = (if j_payload r = JNull then JObj [] else j_payload r),
     oj_result = j_result r,
     oj_progress = (if j_progress r = JNull then JArr [] else j_progress r),
     oj_correlationId = j_id r, oj_error = j_error r, oj_createdBy = j_created_by r,
     oj_createdAt = j_created_at r, oj_updatedAt = j_updated_at r,
     oj_startedAt = j_started_at r, oj_completedAt = j_completed_at r,
     oj_sensitiveFieldsRedacted = False\<rparr>"

definition mapClaimedJob :: "job_row \<Rightarrow> claimed_job" where
  "mapClaimedJob r = operation_job.extend (mapJob r)
     (claimed_job.fields (j_lease_owner r) (j_attempt_count r) (j_lease_expires_at r))"

definition sanitizeOperationJobForRead :: "externs \<Rightarrow> operation_job \<Rightarrow> operation_job" where
  "sanitizeOperationJobForRead X job = job\<lparr>
     oj_payload := x_sanitizeFields X (oj_payload job),
     oj_result := map_option (x_sanitizeFields X) (oj_result job),
     oj_progress := x_sanitizeFields X (oj_progress job),
     oj_error := map_option (x_sanitizeText X) (oj_error job)\<rparr>"

definition redactJobSensitiveFields :: "operation_job \<Rightarrow> operation_job" where
  "redactJobSensitiveFields job = job\<lparr>
     oj_payload := JObj [],
     oj_result := None,
     oj_progress := (case oj_progress job of
         JArr steps \<Rightarrow> JArr (map (\<lambda>step. JObj (map (\<lambda>k. (k,
             case get_prop (objectFields (Some step)) k of None \<Rightarrow> JNull | Some v \<Rightarrow> v))
             [''id'', ''label'', ''status''])) steps)
       | other \<Rightarrow> other),
     oj_error := (case oj_error job of
         Some (c # cs) \<Rightarrow> Some ''Operation failed; details require operator access.''
       | _ \<Rightarrow> None),
     oj_sensitiveFieldsRedacted := True\<rparr>"

definition shouldStopWorkerClaimsAfterHandoff :: "string \<Rightarrow> bool \<Rightarrow> bool" where
  "shouldStopWorkerClaimsAfterHandoff type handoffPending
     = (type = ''system.self_update'' \<and> handoffPending)"

definition shouldResumeWorkerClaimsAfterReconciliation :: "nat \<Rightarrow> nat \<Rightarrow> nat \<Rightarrow> bool" where
  "shouldResumeWorkerClaimsAfterReconciliation completed failed pending = (pending = 0)"

definition jobLeaseLost :: "uuid \<Rightarrow> exn" where
  "jobLeaseLost jobId = CodedError ''JOB_LEASE_LOST''
     (''Job '' @ jobId @ '' no longer has an active lease'')"

section \<open>The lease predicate\<close>

definition leasePredicate :: "clock \<Rightarrow> uuid \<Rightarrow> job_lease \<Rightarrow> job_row \<Rightarrow> bool" where
  "leasePredicate ck jobId lease r \<longleftrightarrow>
     j_id r = jobId \<and> j_status r = Running
     \<and> j_lease_owner r = Some (lease_worker lease)
     \<and> j_attempt_count r = lease_attempt lease
     \<and> (case j_lease_expires_at r of None \<Rightarrow> False | Some e \<Rightarrow> ck_clock ck < e)"

text \<open>Whether some row satisfies the predicate: the lease is active.\<close>

definition lease_held :: "clock \<Rightarrow> uuid \<Rightarrow> job_lease \<Rightarrow> db \<Rightarrow> bool" where
  "lease_held ck jobId lease s = list_ex (leasePredicate ck jobId lease) (d_jobs s)"

definition update_jobs :: "(job_row \<Rightarrow> bool) \<Rightarrow> (job_row \<Rightarrow> job_row) \<Rightarrow> db \<Rightarrow> db" where
  "update_jobs P f s = s\<lparr>d_jobs := update_where P f (d_jobs s)\<rparr>"

section \<open>Claim, renewal, check\<close>

definition claim_update :: "clock \<Rightarrow> uuid \<Rightarrow> job_row \<Rightarrow> job_row" where
  "claim_update ck workerId r = r\<lparr>
     j_status := Running,
     j_started_at := coalesce (j_started_at r) (Some (ck_now ck)),
     j_completed_at := None,
     j_error := None,
     j_lease_owner := Some workerId,
     j_lease_expires_at := Some (ck_now ck + seconds JOB_LEASE_SECONDS),
     j_attempt_count := j_attempt_count r + 1,
     j_updated_at := ck_now ck\<rparr>"

text \<open>
  The oldest queued job that no other transaction has locked (\<open>locked\<close> is what
  \<^verbatim>\<open>SKIP LOCKED\<close> skips).
\<close>

definition next_job :: "uuid list \<Rightarrow> db \<Rightarrow> job_row option" where
  "next_job locked s = first_row (sort_key j_created_at
     (filter (\<lambda>r. j_status r = Queued \<and> j_id r \<notin> set locked) (d_jobs s)))"

definition claimNextJob ::
    "clock \<Rightarrow> uuid list \<Rightarrow> uuid \<Rightarrow> db \<Rightarrow> claimed_job option \<times> db" where
  "claimNextJob ck locked workerId s =
     (case next_job locked s of
        None \<Rightarrow> (None, s)
      | Some n \<Rightarrow> (Some (mapClaimedJob (claim_update ck workerId n)),
                   update_jobs (\<lambda>r. j_id r = j_id n) (claim_update ck workerId) s))"

definition renewJobLease :: "clock \<Rightarrow> uuid \<Rightarrow> job_lease \<Rightarrow> db \<Rightarrow> bool \<times> db" where
  "renewJobLease ck jobId lease s =
     (length (filter (leasePredicate ck jobId lease) (d_jobs s)) = 1,
      update_jobs (leasePredicate ck jobId lease)
        (\<lambda>r. r\<lparr>j_lease_expires_at := Some (ck_now ck + seconds JOB_LEASE_SECONDS),
                j_updated_at := ck_now ck\<rparr>) s)"

definition assertJobLeaseActive :: "clock \<Rightarrow> uuid \<Rightarrow> job_lease \<Rightarrow> db \<Rightarrow> unit result" where
  "assertJobLeaseActive ck jobId lease s =
     (if length (filter (leasePredicate ck jobId lease) (d_jobs s)) \<noteq> 1
      then Inl (jobLeaseLost jobId) else Inr ())"

definition withActiveJobLeaseTransaction ::
    "clock \<Rightarrow> uuid \<Rightarrow> job_lease \<Rightarrow> (db \<Rightarrow> ('a \<times> db) result) \<Rightarrow> db \<Rightarrow> 'a result \<times> db" where
  "withActiveJobLeaseTransaction ck jobId lease callback =
     withTransaction (\<lambda>s.
       if length (filter (leasePredicate ck jobId lease) (d_jobs s)) \<noteq> 1
       then Inl (jobLeaseLost jobId) else callback s)"

section \<open>Progress\<close>

datatype progress_phase = PhaseRunning | PhaseCompleted | PhaseFailed

datatype step_status = StepPending | StepRunning | StepCompleted | StepFailed

record progress_step =
  ps_id :: string
  ps_label :: string
  ps_status :: step_status
  ps_detail :: "string option"

definition progressLabels :: "string \<Rightarrow> string list" where
  "progressLabels type =
     (if type \<in> {''backup.verify'', ''recovery.verify''} then [''Prepare'', ''Verify'', ''Finish'']
      else if type = ''backup.drill'' then [''Prepare'', ''Drill'', ''Verify'', ''Finish'']
      else if type \<in> {''volume.backup'', ''hostPath.backup'', ''recovery.create'', ''recovery.capture''}
        then [''Prepare'', ''Capture'', ''Store'', ''Finish'']
      else if type \<in> {''volume.restore'', ''hostPath.restore'', ''recovery.restore''}
        then [''Prepare'', ''Restore'', ''Verify'', ''Finish'']
      else if starts_with ''migration.'' type
        then [''Plan'', ''Capture'', ''Transfer'', ''Deploy'', ''Verify'']
      else if type = ''deploy.analyze'' then [''Detect'', ''Inspect'', ''Preflight'', ''Review'']
      else if type = ''deploy.execute'' then [''Prepare'', ''Deploy'', ''Save'', ''Verify'']
      else if type = ''host.configureRegistryTrust''
        then [''Backup'', ''Validate'', ''Restart'', ''Verify'']
      else if starts_with ''compose.'' type \<or> type = ''git.cloneDeploy''
        then [''Prepare'', ''Deploy'', ''Verify'']
      else if type = ''system.self_update'' then [''Prepare'', ''Handoff'', ''Reconnect'']
      else if type = ''host.sync'' then [''Connect'', ''Inventory'', ''Store'']
      else if type = ''host.check'' then [''Connect'', ''Check'', ''Store'']
      else if starts_with ''image.'' type \<or> type = ''container.update''
        then [''Inspect'', ''Apply'', ''Verify'']
      else [''Run'', ''Finish''])"

definition is_step_char :: "char \<Rightarrow> bool" where
  "is_step_char c = (let n = (of_char c :: nat) in (97 \<le> n \<and> n \<le> 122) \<or> (48 \<le> n \<and> n \<le> 57))"

text \<open>\<^verbatim>\<open>replace(/[^a-z0-9]+/g, "-")\<close>: every maximal run of other characters becomes one dash.\<close>

fun dash_runs :: "bool \<Rightarrow> string \<Rightarrow> string" where
  "dash_runs inRun [] = []"
| "dash_runs inRun (c # s) =
     (if is_step_char c then c # dash_runs False s
      else if inRun then dash_runs True s
      else CHR ''-'' # dash_runs True s)"

definition stepId :: "string \<Rightarrow> string" where
  "stepId label = dash_runs False (to_lower label)"

fun find_index :: "('a \<Rightarrow> bool) \<Rightarrow> 'a list \<Rightarrow> nat option" where
  "find_index P [] = None"
| "find_index P (x # xs) = (if P x then Some 0 else map_option Suc (find_index P xs))"

definition activeIndex :: "string list \<Rightarrow> progress_phase \<Rightarrow> string option \<Rightarrow> nat" where
  "activeIndex labels phase activeStepId =
     (case find_index (\<lambda>label. Some (stepId label) = activeStepId) labels of
        Some i \<Rightarrow> i
      | None \<Rightarrow> if phase = PhaseFailed then length labels - 1 else 0)"

definition stepStatus :: "progress_phase \<Rightarrow> nat \<Rightarrow> nat \<Rightarrow> step_status" where
  "stepStatus phase active index =
     (case phase of
        PhaseRunning \<Rightarrow> if index < active then StepCompleted
                        else if index = active then StepRunning else StepPending
      | PhaseCompleted \<Rightarrow> StepCompleted
      | PhaseFailed \<Rightarrow> if index < active then StepCompleted
                       else if index = active then StepFailed else StepPending)"

text \<open>The bounds \<^verbatim>\<open>jobProgressStepSchema\<close> puts on a step; parsing a step outside them throws.\<close>

definition validStep :: "progress_step \<Rightarrow> bool" where
  "validStep st \<longleftrightarrow> ps_id st \<noteq> [] \<and> ps_label st \<noteq> [] \<and> length (ps_label st) \<le> 120
     \<and> (case ps_detail st of None \<Rightarrow> True | Some d \<Rightarrow> length d \<le> 500)"

definition parseSteps :: "progress_step list \<Rightarrow> progress_step list result" where
  "parseSteps steps = (if list_all validStep steps then Inr steps else Inl (PlainError ''ZodError''))"

definition progressSteps ::
    "string \<Rightarrow> progress_phase \<Rightarrow> string option \<Rightarrow> string option \<Rightarrow> progress_step list" where
  "progressSteps type phase activeStepId detail =
     (let labels = progressLabels type;
          active = activeIndex labels phase activeStepId
      in map (\<lambda>(index, label).
           \<lparr>ps_id = stepId label, ps_label = label, ps_status = stepStatus phase active index,
            ps_detail = (if (phase = PhaseRunning \<or> phase = PhaseFailed) \<and> index = active
                         then detail else None)\<rparr>)
         (enumerate 0 labels))"

definition buildJobProgress ::
    "string \<Rightarrow> progress_phase \<Rightarrow> string option \<Rightarrow> string option \<Rightarrow> progress_step list result" where
  "buildJobProgress type phase activeStepId detail =
     parseSteps (progressSteps type phase activeStepId detail)"

fun step_status_name :: "step_status \<Rightarrow> string" where
  "step_status_name StepPending = ''pending''"
| "step_status_name StepRunning = ''running''"
| "step_status_name StepCompleted = ''completed''"
| "step_status_name StepFailed = ''failed''"

text \<open>The serialised form of the steps in the \<^verbatim>\<open>progress\<close> column.\<close>

definition progress_json :: "progress_step list \<Rightarrow> json" where
  "progress_json steps = JArr (map (\<lambda>st. JObj
     ([(''id'', JStr (ps_id st)), (''label'', JStr (ps_label st)),
       (''status'', JStr (step_status_name (ps_status st)))]
      @ (case ps_detail st of None \<Rightarrow> [] | Some d \<Rightarrow> [(''detail'', JStr d)]))) steps)"

definition updateJobProgress ::
    "externs \<Rightarrow> clock \<Rightarrow> uuid \<Rightarrow> progress_step list \<Rightarrow> job_lease \<Rightarrow> db
     \<Rightarrow> operation_job result \<times> db" where
  "updateJobProgress X ck jobId steps lease s =
     (case parseSteps steps of
        Inl e \<Rightarrow> (Inl e, s)
      | Inr parsed \<Rightarrow>
      let f = (\<lambda>r. r\<lparr>j_progress := x_sanitizeFields X (progress_json parsed),
                     j_updated_at := ck_now ck\<rparr>)
      in (case filter (leasePredicate ck jobId lease) (d_jobs s) of
           [] \<Rightarrow> (Inl (jobLeaseLost jobId), s)
         | r # _ \<Rightarrow> (Inr (mapJob (f r)), update_jobs (leasePredicate ck jobId lease) f s)))"

definition markJobProgressStep ::
    "externs \<Rightarrow> clock \<Rightarrow> uuid \<Rightarrow> string \<Rightarrow> string \<Rightarrow> string option \<Rightarrow> job_lease \<Rightarrow> db
     \<Rightarrow> operation_job result \<times> db" where
  "markJobProgressStep X ck jobId type activeStepId detail lease s =
     (case buildJobProgress type PhaseRunning (Some activeStepId) detail of
        Inl e \<Rightarrow> (Inl e, s)
      | Inr steps \<Rightarrow> updateJobProgress X ck jobId steps lease s)"

section \<open>Self-update handoff\<close>

definition handoffPending :: "job_row \<Rightarrow> bool" where
  "handoffPending r \<longleftrightarrow> j_type r = ''system.self_update''
     \<and> get_prop (objectFields (j_result r)) ''handoffPending'' = Some (JBool True)"

text \<open>
  The lease is released while the job stays running: the restarted process reports the
  outcome. \<open>handoff\<close> are the fields of the durable handoff record.
\<close>

definition markSelfUpdateHandoffPending ::
    "clock \<Rightarrow> uuid \<Rightarrow> (string \<times> json) list \<Rightarrow> job_lease \<Rightarrow> db \<Rightarrow> bool result \<times> db" where
  "markSelfUpdateHandoffPending ck jobId handoff lease s =
     (case buildJobProgress ''system.self_update'' PhaseRunning (Some ''reconnect'')
             (Some (''Waiting for the restarted app and worker to report '' @
                    ''the authoritative update outcome'')) of
        Inl e \<Rightarrow> (Inl e, s)
      | Inr steps \<Rightarrow>
      let progress = progress_json steps;
          P = (\<lambda>r. leasePredicate ck jobId lease r \<and> j_type r = ''system.self_update'')
      in (Inr (length (filter P (d_jobs s)) = 1),
          update_jobs P (\<lambda>r. r\<lparr>j_result := Some (JObj handoff), j_progress := progress,
              j_error := None, j_lease_owner := None, j_lease_expires_at := None,
              j_updated_at := ck_now ck\<rparr>) s))"

section \<open>Sample data\<close>

text \<open>Concrete inputs on which the theorems are applied.\<close>

definition sample_externs :: externs where
  "sample_externs = \<lparr>x_sha256 = (\<lambda>s. s), x_decryptSecret = Inr, x_deploymentEnvironmentBinding = (\<lambda>s. s),
     x_inspectGitComposeSourceIntegrity = (\<lambda>_ _. Inr ()), x_parseAction = Inr,
     x_parseIdentity = (\<lambda>_. Inr (StandaloneApp [])), x_imageAuthorities = (\<lambda>_ _. Inr []),
     x_canonicalAuthority = Inr, x_savedRegistryAuthority = (\<lambda>u _. u), x_sanitizeFields = (\<lambda>j. j),
     x_sanitizeText = (\<lambda>s. s)\<rparr>"

definition sample_job :: "string \<Rightarrow> job_status \<Rightarrow> job_row" where
  "sample_job type status = \<lparr>j_id = ''job-1'', j_type = type, j_status = status, j_host_id = Some ''h1'',
     j_payload = JObj [], j_result = None, j_progress = JArr [], j_error = None, j_created_by = None,
     j_idempotency_key = None, j_attempt_count = 0, j_lease_owner = None, j_lease_expires_at = None,
     j_created_at = 0, j_updated_at = 0, j_started_at = None, j_completed_at = None\<rparr>"

definition leased_job :: "string \<Rightarrow> job_row" where
  "leased_job type = (sample_job type Running)\<lparr>j_attempt_count := 1, j_lease_owner := Some ''w1'',
     j_lease_expires_at := Some (seconds 60), j_started_at := Some 0\<rparr>"

definition jobs_db :: "job_row list \<Rightarrow> db" where
  "jobs_db rows = empty_db\<lparr>d_jobs := rows\<rparr>"

definition clock_of :: "timestamp \<Rightarrow> clock" where
  "clock_of t = \<lparr>ck_now = t, ck_clock = t\<rparr>"

definition first_lease :: job_lease where
  "first_lease = \<lparr>lease_worker = ''w1'', lease_attempt = 1\<rparr>"

section \<open>Lemmas\<close>

lemmas sample_simps = sample_job_def leased_job_def jobs_db_def clock_of_def first_lease_def
  lease_held_def leasePredicate_def empty_db_def

lemma leasePredicateD:
  assumes "leasePredicate ck i l r"
  shows "j_id r = i" "j_status r = Running" "j_lease_owner r = Some (lease_worker l)"
    "j_attempt_count r = lease_attempt l" "\<exists>e. j_lease_expires_at r = Some e \<and> ck_clock ck < e"
  using assms by (auto simp: leasePredicate_def split: option.splits)

lemma lease_held_iff: "lease_held ck i l s \<longleftrightarrow> (\<exists>r\<in>set (d_jobs s). leasePredicate ck i l r)"
  by (simp add: lease_held_def list_ex_iff)

lemma not_held_filter: "\<not> lease_held ck i l s \<Longrightarrow> filter (leasePredicate ck i l) (d_jobs s) = []"
  by (simp add: lease_held_iff filter_empty_conv)

lemma update_jobs_none: "\<forall>r\<in>set (d_jobs s). \<not> P r \<Longrightarrow> update_jobs P f s = s"
  by (simp add: update_jobs_def update_where_none)

lemma update_jobs_sel [simp]:
  "d_jobs (update_jobs P f s) = update_where P f (d_jobs s)"
  by (simp add: update_jobs_def)

lemma update_jobs_frame [simp]:
  "d_bindings (update_jobs P f s) = d_bindings s"
  "d_clone_bindings (update_jobs P f s) = d_clone_bindings s"
  "d_stacks (update_jobs P f s) = d_stacks s" "d_hosts (update_jobs P f s) = d_hosts s"
  "d_repositories (update_jobs P f s) = d_repositories s"
  "d_attempts (update_jobs P f s) = d_attempts s" "d_locks (update_jobs P f s) = d_locks s"
  by (simp_all add: update_jobs_def)

lemma next_job_SomeD:
  assumes "next_job locked s = Some n"
  shows "n \<in> set (d_jobs s)" "j_status n = Queued" "j_id n \<notin> set locked"
proof -
  have "n \<in> set (sort_key j_created_at
      (filter (\<lambda>r. j_status r = Queued \<and> j_id r \<notin> set locked) (d_jobs s)))"
    using assms unfolding next_job_def by (rule first_row_SomeD)
  then show "n \<in> set (d_jobs s)" "j_status n = Queued" "j_id n \<notin> set locked" by auto
qed

lemma next_job_oldest:
  assumes "next_job locked s = Some n" and "r \<in> set (d_jobs s)" "j_status r = Queued"
    and "j_id r \<notin> set locked"
  shows "j_created_at n \<le> j_created_at r"
proof -
  let ?q = "sort_key j_created_at (filter (\<lambda>r. j_status r = Queued \<and> j_id r \<notin> set locked) (d_jobs s))"
  obtain q where q: "?q = n # q"
    using assms(1) unfolding next_job_def by (cases ?q) auto
  have "r \<in> set ?q" using assms(2-4) by simp
  moreover have "sorted (map j_created_at ?q)" by (rule sorted_sort_key)
  ultimately show ?thesis unfolding q by auto
qed

lemma next_job_None_iff:
  "next_job locked s = None \<longleftrightarrow> (\<forall>r\<in>set (d_jobs s). j_status r = Queued \<longrightarrow> j_id r \<in> set locked)"
proof -
  have "set (sort_key j_created_at (filter P (d_jobs s))) = {} \<longleftrightarrow> filter P (d_jobs s) = []" for P
    by (simp only: set_sort set_empty)
  then have "sort_key j_created_at (filter P (d_jobs s)) = [] \<longleftrightarrow> filter P (d_jobs s) = []" for P
    by (metis set_empty)
  then show ?thesis by (auto simp: next_job_def filter_empty_conv)
qed

lemma claim_update_sel [simp]:
  "j_id (claim_update ck w r) = j_id r" "j_type (claim_update ck w r) = j_type r"
  "j_status (claim_update ck w r) = Running" "j_lease_owner (claim_update ck w r) = Some w"
  "j_attempt_count (claim_update ck w r) = Suc (j_attempt_count r)"
  "j_lease_expires_at (claim_update ck w r) = Some (ck_now ck + seconds JOB_LEASE_SECONDS)"
  "j_created_at (claim_update ck w r) = j_created_at r"
  "j_payload (claim_update ck w r) = j_payload r" "j_host_id (claim_update ck w r) = j_host_id r"
  by (simp_all add: claim_update_def)

lemma mapClaimedJob_sel [simp]:
  "oj_id (mapClaimedJob r) = j_id r" "oj_type (mapClaimedJob r) = j_type r"
  "oj_status (mapClaimedJob r) = j_status r"
  "cj_workerId (mapClaimedJob r) = j_lease_owner r"
  "cj_attemptCount (mapClaimedJob r) = j_attempt_count r"
  "cj_leaseExpiresAt (mapClaimedJob r) = j_lease_expires_at r"
  by (simp_all add: mapClaimedJob_def mapJob_def operation_job.defs claimed_job.defs)

lemma length_filter_key:
  assumes "distinct (map key rows)" and "\<And>r. P r \<Longrightarrow> key r = k" and "r \<in> set rows" and "P r"
  shows "filter P rows = [r]"
  using assms
proof (induction rows)
  case Nil
  then show ?case by simp
next
  case (Cons a rows)
  show ?case
  proof (cases "a = r")
    case True
    have "\<not> P x" if "x \<in> set rows" for x
      using Cons.prems that True by (auto simp: image_iff)
    then have "filter P rows = []" by (simp add: filter_empty_conv)
    with True Cons.prems show ?thesis by simp
  next
    case False
    then have "r \<in> set rows" using Cons.prems by simp
    moreover have "\<not> P a"
      using Cons.prems calculation by (auto simp: image_iff)
    ultimately show ?thesis using Cons by auto
  qed
qed

lemma held_filter:
  assumes "jobs.keys_unique (d_jobs s)" and "lease_held ck i l s"
  shows "\<exists>r. r \<in> set (d_jobs s) \<and> leasePredicate ck i l r \<and> filter (leasePredicate ck i l) (d_jobs s) = [r]"
proof -
  from assms(2) obtain r where r: "r \<in> set (d_jobs s)" "leasePredicate ck i l r"
    by (auto simp: lease_held_iff)
  with length_filter_key [of j_id "d_jobs s" "leasePredicate ck i l" i r] assms(1)
  show ?thesis by (auto simp: jobs.keys_unique_def dest: leasePredicateD(1))
qed

subsection \<open>Progress\<close>

lemma find_index_less: "find_index P xs = Some i \<Longrightarrow> i < length xs"
  by (induction P xs arbitrary: i rule: find_index.induct) (auto split: if_splits)

lemma progressLabels_ok: "progressLabels type \<noteq> [] \<and> (\<forall>l\<in>set (progressLabels type). l \<noteq> [] \<and> length l \<le> 120)"
  by (simp add: progressLabels_def)

lemma dash_runs_nonempty: "s \<noteq> [] \<Longrightarrow> dash_runs False s \<noteq> []"
  by (cases s) auto

lemma activeIndex_less: "activeIndex (progressLabels type) phase a < length (progressLabels type)"
  using progressLabels_ok [of type]
  by (auto simp: activeIndex_def dest: find_index_less split: option.splits)

lemma progressSteps_nth:
  assumes "i < length (progressLabels type)"
  shows "progressSteps type phase a d ! i
    = \<lparr>ps_id = stepId (progressLabels type ! i), ps_label = progressLabels type ! i,
       ps_status = stepStatus phase (activeIndex (progressLabels type) phase a) i,
       ps_detail = (if (phase = PhaseRunning \<or> phase = PhaseFailed)
                       \<and> i = activeIndex (progressLabels type) phase a then d else None)\<rparr>"
  using assms by (simp add: progressSteps_def Let_def nth_enumerate_eq)

lemma progressSteps_length [simp]: "length (progressSteps type phase a d) = length (progressLabels type)"
  by (simp add: progressSteps_def Let_def)

lemma progressSteps_valid:
  assumes "case d of None \<Rightarrow> True | Some t \<Rightarrow> length t \<le> 500"
  shows "list_all validStep (progressSteps type phase a d)"
  unfolding list_all_length
proof (intro allI impI)
  fix i
  assume "i < length (progressSteps type phase a d)"
  moreover have "progressLabels type ! i \<noteq> [] \<and> length (progressLabels type ! i) \<le> 120"
    if "i < length (progressLabels type)" using progressLabels_ok [of type] that by (simp add: all_set_conv_all_nth)
  ultimately show "validStep (progressSteps type phase a d ! i)"
    using assms by (auto simp: progressSteps_nth validStep_def stepId_def to_lower_def
        intro!: dash_runs_nonempty)
qed

section \<open>Properties\<close>



text \<open>
  A claim never leaves the queue idle: it returns no job exactly when every queued job is locked by
  another claim.
\<close>

theorem claim_none_iff:
  "fst (claimNextJob ck locked w s) = None
   \<longleftrightarrow> (\<forall>r\<in>set (d_jobs s). j_status r = Queued \<longrightarrow> j_id r \<in> set locked)"
  using next_job_None_iff [of locked s] by (auto simp: claimNextJob_def split: option.splits)

theorem claim_none_iff_witness:
  "fst (claimNextJob (clock_of 0) [''job-1''] ''w1'' (jobs_db [sample_job ''host.check'' Queued])) = None"
  unfolding claim_none_iff by (simp add: sample_simps)

text \<open>
  Building the progress of a job never throws on a detail the schema accepts, and a running job's
  steps are those of its type, completed up to one running step and pending after it; only the running
  step carries the detail.
\<close>

theorem running_progress_shape:
  assumes "case detail of None \<Rightarrow> True | Some t \<Rightarrow> length t \<le> 500"
  shows "\<exists>steps k. buildJobProgress type PhaseRunning a detail = Inr steps
    \<and> map ps_label steps = progressLabels type \<and> k < length steps
    \<and> (\<forall>i < length steps. ps_status (steps ! i) =
         (if i < k then StepCompleted else if i = k then StepRunning else StepPending)
       \<and> ps_detail (steps ! i) = (if i = k then detail else None))"
proof -
  let ?k = "activeIndex (progressLabels type) PhaseRunning a"
  let ?steps = "progressSteps type PhaseRunning a detail"
  have "buildJobProgress type PhaseRunning a detail = Inr ?steps"
    using progressSteps_valid [OF assms] by (simp add: buildJobProgress_def parseSteps_def)
  moreover have "map ps_label ?steps = progressLabels type"
    by (rule nth_equalityI) (simp_all add: progressSteps_nth)
  moreover have "?k < length ?steps" using activeIndex_less by simp
  ultimately show ?thesis
    by (intro exI [of _ ?steps] exI [of _ ?k]) (simp add: progressSteps_nth stepStatus_def)
qed

theorem running_progress_shape_witness:
  "\<exists>steps. buildJobProgress ''host.sync'' PhaseRunning (Some ''inventory'') (Some ''x'') = Inr steps"
  using running_progress_shape [of "Some ''x''" "''host.sync''" "Some ''inventory''"] by auto

end
