(* ===== verification/Remote_Proof.thy ===== *)
theory Remote_Proof
  imports Job_Queue
begin

text \<open>
  Durable evidence of remote mutations (\<^verbatim>\<open>services/remoteMutationProof.ts\<close>): before a command
  is sent to a host its exact operation id is written into the job's result under the
  active lease, and its terminal state is written the same way when the host answers. Also
  the classification of failed jobs whose remote outcome is unknown (\<^verbatim>\<open>services/jobs.ts\<close>,
  \<^verbatim>\<open>services/remoteOutcomeReconciliation.ts\<close>).
\<close>

section \<open>Proofs\<close>

definition REMOTE_MUTATION_PROOF_KEY :: string where
  "REMOTE_MUTATION_PROOF_KEY = ''remoteMutationProof''"

definition REMOTE_OUTCOME_RECONCILIATION_KEY :: string where
  "REMOTE_OUTCOME_RECONCILIATION_KEY = ''remoteOutcomeReconciliation''"

definition REMOTE_MUTATION_MAX_TIMEOUT_MS :: int where
  "REMOTE_MUTATION_MAX_TIMEOUT_MS = 10 * 60000"

datatype transport = Ssh | Agent
datatype terminal_state = TCompleted | TFailed | TTimedOut

fun transport_name :: "transport \<Rightarrow> string" where
  "transport_name Ssh = ''ssh''"
| "transport_name Agent = ''agent''"

fun terminal_name :: "terminal_state \<Rightarrow> string" where
  "terminal_name TCompleted = ''completed''"
| "terminal_name TFailed = ''failed''"
| "terminal_name TTimedOut = ''timed_out''"

record remote_mutation_proof =
  rm_operationId :: string
  rm_jobId :: string
  rm_attemptCount :: int
  rm_sequence :: int
  rm_phase :: string
  rm_transport :: string
  rm_timeoutMs :: int
  rm_status :: string
  rm_terminalState :: "string option"

text \<open>
  The context a mutation runs in; the fence it belongs to is the job, the lease and the
  number of operations dispatched so far, which is the value \<^verbatim>\<open>sequenceByFence\<close> has for it.
\<close>

record mutation_context =
  mc_operationId :: string
  mc_jobId :: uuid
  mc_attemptCount :: nat
  mc_sequence :: nat
  mc_phase :: string
  mc_dispatched :: bool

record execution_fence =
  ef_jobId :: "uuid option"
  ef_attemptCount :: "nat option"
  ef_lease :: job_lease
  ef_sequence :: nat

definition boundedTimeoutMs :: "int option \<Rightarrow> int" where
  "boundedTimeoutMs timeoutMs =
     (let requested = (case timeoutMs of Some t \<Rightarrow> t | None \<Rightarrow> 120000)
      in max 1000 (min requested REMOTE_MUTATION_MAX_TIMEOUT_MS))"

definition operation_digest :: "externs \<Rightarrow> uuid \<Rightarrow> nat \<Rightarrow> nat \<Rightarrow> string \<Rightarrow> string" where
  "operation_digest X jobId attempt sequence phase =
     x_sha256 X (join_with [CHR 0x00] [jobId, show_nat attempt, show_nat sequence, phase])"

definition nextContext :: "externs \<Rightarrow> execution_fence option \<Rightarrow> string \<Rightarrow> mutation_context option" where
  "nextContext X fence phase =
     (case fence of
        None \<Rightarrow> None
      | Some f \<Rightarrow>
          (case (ef_jobId f, ef_attemptCount f) of
             (Some jobId, Some attempt) \<Rightarrow>
               if jobId = [] \<or> attempt < 1 then None
               else Some \<lparr>mc_operationId = operation_digest X jobId attempt 0 phase,
                          mc_jobId = jobId, mc_attemptCount = attempt, mc_sequence = 0,
                          mc_phase = take 160 phase, mc_dispatched = False\<rparr>
           | _ \<Rightarrow> None))"

text \<open>\<^verbatim>\<open>COALESCE(result, '{}') || object\<close>\<close>

definition jsonb_merge :: "json option \<Rightarrow> (string \<times> json) list \<Rightarrow> json" where
  "jsonb_merge r fs =
     (case r of
        None \<Rightarrow> JObj (obj_concat [] fs)
      | Some (JObj gs) \<Rightarrow> JObj (obj_concat gs fs)
      | Some (JArr xs) \<Rightarrow> JArr (xs @ [JObj fs])
      | Some j \<Rightarrow> JArr [j, JObj fs])"

text \<open>A timestamp inside a JSON value, as the text of its microsecond count.\<close>

definition ts_json :: "timestamp \<Rightarrow> json" where
  "ts_json t = JStr (show_int t)"

definition dispatched_proof :: "mutation_context \<Rightarrow> transport \<Rightarrow> int \<Rightarrow> (string \<times> json) list" where
  "dispatched_proof ctx tr timeout =
     [(''operationId'', JStr (mc_operationId ctx)), (''jobId'', JStr (mc_jobId ctx)),
      (''attemptCount'', JNum (int (mc_attemptCount ctx))),
      (''sequence'', JNum (int (mc_sequence ctx))),
      (''phase'', JStr (mc_phase ctx)), (''transport'', JStr (transport_name tr)),
      (''timeoutMs'', JNum timeout), (''status'', JStr ''dispatched'')]"

definition dispatch_lost :: "mutation_context \<Rightarrow> exn" where
  "dispatch_lost ctx = CodedError ''JOB_LEASE_LOST''
     (''Job '' @ mc_jobId ctx @ '' cannot dispatch remote operation '' @ mc_operationId ctx)"

definition terminal_lost :: "mutation_context \<Rightarrow> exn" where
  "terminal_lost ctx = CodedError ''JOB_LEASE_LOST''
     (''Job '' @ mc_jobId ctx @ '' lost remote operation '' @ mc_operationId ctx)"

text \<open>
  \<^verbatim>\<open>recordRemoteMutationDispatch\<close>: the context and the fence's sequence number move on before
  the write, so they are part of the result also when the write throws.
\<close>

definition dispatch_context :: "externs \<Rightarrow> execution_fence \<Rightarrow> mutation_context \<Rightarrow> mutation_context" where
  "dispatch_context X fence ctx =
     (let sequence = ef_sequence fence + 1 in
      ctx\<lparr>mc_sequence := sequence,
          mc_operationId := operation_digest X (mc_jobId ctx) (mc_attemptCount ctx) sequence
                              (mc_phase ctx),
          mc_dispatched := False\<rparr>)"

definition write_dispatch ::
    "clock \<Rightarrow> mutation_context \<Rightarrow> transport \<Rightarrow> int \<Rightarrow> db \<Rightarrow> (unit \<times> db) result" where
  "write_dispatch ck ctx tr timeout s =
     (let P = (\<lambda>r. j_id r = mc_jobId ctx \<and> j_status r = Running
                   \<and> j_attempt_count r = mc_attemptCount ctx);
          proof = obj_concat (dispatched_proof ctx tr timeout)
                    [(''dispatchedAt'', ts_json (ck_clock ck))];
          f = (\<lambda>r. r\<lparr>j_result := Some (jsonb_merge (j_result r)
                           [(REMOTE_MUTATION_PROOF_KEY, JObj proof)]),
                      j_updated_at := ck_now ck\<rparr>)
      in if filter P (d_jobs s) = [] then Inl (dispatch_lost ctx)
         else Inr ((), update_jobs P f s))"

definition recordRemoteMutationDispatch ::
    "externs \<Rightarrow> clock \<Rightarrow> execution_fence \<Rightarrow> mutation_context \<Rightarrow> transport \<Rightarrow> int option \<Rightarrow> db
     \<Rightarrow> int result \<times> execution_fence \<times> mutation_context \<times> db" where
  "recordRemoteMutationDispatch X ck fence ctx tr timeoutMs s =
     (let ctx1 = dispatch_context X fence ctx;
          fence1 = fence\<lparr>ef_sequence := ef_sequence fence + 1\<rparr>;
          timeout = boundedTimeoutMs timeoutMs
      in case withActiveJobLeaseTransaction ck (mc_jobId ctx) (ef_lease fence)
                (write_dispatch ck ctx1 tr timeout) s of
           (Inl e, s') \<Rightarrow> (Inl e, fence1, ctx1, s')
         | (Inr _, s') \<Rightarrow> (Inr timeout, fence1, ctx1\<lparr>mc_dispatched := True\<rparr>, s'))"

definition stored_proof :: "json option \<Rightarrow> unknown" where
  "stored_proof result = get_prop (objectFields result) REMOTE_MUTATION_PROOF_KEY"

definition write_terminal ::
    "clock \<Rightarrow> mutation_context \<Rightarrow> terminal_state \<Rightarrow> db \<Rightarrow> (unit \<times> db) result" where
  "write_terminal ck ctx state s =
     (let P = (\<lambda>r. j_id r = mc_jobId ctx \<and> j_status r = Running
                   \<and> j_attempt_count r = mc_attemptCount ctx
                   \<and> text_prop (objectFields (stored_proof (j_result r))) ''operationId''
                       = Some (mc_operationId ctx));
          f = (\<lambda>r. r\<lparr>j_result := Some (jsonb_merge (j_result r)
                [(REMOTE_MUTATION_PROOF_KEY,
                  jsonb_merge (stored_proof (j_result r))
                    [(''status'', JStr ''terminal''),
                     (''terminalState'', JStr (terminal_name state)),
                     (''completedAt'', ts_json (ck_clock ck))])]),
                j_updated_at := ck_now ck\<rparr>)
      in if filter P (d_jobs s) = [] then Inl (terminal_lost ctx)
         else Inr ((), update_jobs P f s))"

definition recordRemoteMutationTerminal ::
    "clock \<Rightarrow> execution_fence \<Rightarrow> mutation_context \<Rightarrow> terminal_state \<Rightarrow> db
     \<Rightarrow> unit result \<times> mutation_context \<times> db" where
  "recordRemoteMutationTerminal ck fence ctx state s =
     (if \<not> mc_dispatched ctx then (Inr (), ctx, s)
      else case withActiveJobLeaseTransaction ck (mc_jobId ctx) (ef_lease fence)
                  (write_terminal ck ctx state) s of
             (Inl e, s') \<Rightarrow> (Inl e, ctx, s')
           | (Inr _, s') \<Rightarrow> (Inr (), ctx\<lparr>mc_dispatched := False\<rparr>, s'))"

definition is_hex :: "char \<Rightarrow> bool" where
  "is_hex c = (let n = (of_char c :: nat) in (48 \<le> n \<and> n \<le> 57) \<or> (97 \<le> n \<and> n \<le> 102))"

definition hex_string :: "nat \<Rightarrow> string \<Rightarrow> bool" where
  "hex_string n s \<longleftrightarrow> length s = n \<and> list_all is_hex s"

definition remoteMutationProofFromResult :: "json option \<Rightarrow> remote_mutation_proof option" where
  "remoteMutationProofFromResult result =
     (if \<not> is_object result \<or> \<not> is_object (stored_proof result) then None
      else let proof = objectFields (stored_proof result); get = get_prop proof in
        case (as_string (get ''operationId''), as_string (get ''jobId''),
              as_int (get ''attemptCount''), as_int (get ''sequence''), as_string (get ''phase''),
              as_string (get ''transport''), as_int (get ''timeoutMs''), as_string (get ''status'')) of
          (Some operationId, Some jobId, Some attempt, Some sequence, Some phase, Some tr,
           Some timeout, Some status) \<Rightarrow>
            if \<not> hex_string 64 operationId \<or> jobId = [] \<or> attempt < 1 \<or> sequence < 1 \<or> phase = []
               \<or> (tr \<noteq> ''ssh'' \<and> tr \<noteq> ''agent'')
               \<or> timeout < 1000 \<or> REMOTE_MUTATION_MAX_TIMEOUT_MS < timeout
               \<or> (status \<noteq> ''dispatched'' \<and> status \<noteq> ''terminal'')
            then None
            else if status = ''terminal''
               \<and> get ''terminalState'' \<noteq> Some (JStr ''completed'')
               \<and> get ''terminalState'' \<noteq> Some (JStr ''failed'')
               \<and> get ''terminalState'' \<noteq> Some (JStr ''timed_out'')
            then None
            else Some \<lparr>rm_operationId = operationId, rm_jobId = jobId, rm_attemptCount = attempt,
                       rm_sequence = sequence, rm_phase = phase, rm_transport = tr,
                       rm_timeoutMs = timeout, rm_status = status,
                       rm_terminalState = as_string (get ''terminalState'')\<rparr>
        | _ \<Rightarrow> None)"

section \<open>Unknown remote outcomes\<close>

definition reconciliationState :: "json option \<Rightarrow> (string \<times> json) list option" where
  "reconciliationState result =
     (if \<not> is_object result then None
      else let value = get_prop (objectFields result) REMOTE_OUTCOME_RECONCILIATION_KEY
           in if is_object value then Some (objectFields value) else None)"

definition hasReconciledRemoteOutcome :: "json option \<Rightarrow> bool" where
  "hasReconciledRemoteOutcome result =
     (case reconciliationState result of
        None \<Rightarrow> False
      | Some st \<Rightarrow> get_prop st ''status'' = Some (JStr ''reconciled''))"

definition WORKER_LOST :: string where "WORKER_LOST = ''WORKER_LOST''"
definition REMOTE_OUTCOME_UNKNOWN :: string where
  "REMOTE_OUTCOME_UNKNOWN = ''REMOTE_OUTCOME_UNKNOWN:''"

definition isAmbiguousRemoteOutcome :: "job_row \<Rightarrow> bool" where
  "isAmbiguousRemoteOutcome row \<longleftrightarrow> j_status row = Failed
     \<and> (like_prefix WORKER_LOST (j_error row) \<or> like_prefix REMOTE_OUTCOME_UNKNOWN (j_error row))"

definition isUnreconciledRemoteOutcome :: "job_row \<Rightarrow> bool" where
  "isUnreconciledRemoteOutcome row \<longleftrightarrow>
     isAmbiguousRemoteOutcome row \<and> \<not> hasReconciledRemoteOutcome (j_result row)"

definition completedDeploymentProofNeedsReconciliation :: "job_row \<Rightarrow> bool" where
  "completedDeploymentProofNeedsReconciliation row =
     (case remoteMutationProofFromResult (j_result row) of
        None \<Rightarrow> False
      | Some p \<Rightarrow>
          rm_jobId p = j_id row \<and> rm_attemptCount p = int (j_attempt_count row)
          \<and> rm_status p = ''terminal'' \<and> rm_terminalState p = Some ''completed''
          \<and> ((j_type row = ''compose.deploy'' \<and> rm_phase p = ''compose.deploy'')
             \<or> (j_type row \<in> {''compose.deployPath'', ''compose.writeDeployPath'',
                                ''deploy.execute'', ''git.cloneDeploy''}
                \<and> rm_phase p = ''compose.deployPath.up'')))"

section \<open>Concrete operations\<close>

definition sample_fence :: "nat \<Rightarrow> execution_fence" where
  "sample_fence n = \<lparr>ef_jobId = Some ''job-1'', ef_attemptCount = Some 1, ef_lease = first_lease, ef_sequence = n\<rparr>"

definition sample_context :: "nat \<Rightarrow> bool \<Rightarrow> mutation_context" where
  "sample_context n sent = \<lparr>mc_operationId = (if sent then replicate 64 CHR ''a'' else []), mc_jobId = ''job-1'',
     mc_attemptCount = 1, mc_sequence = n, mc_phase = ''compose.deploy'', mc_dispatched = sent\<rparr>"

definition sample_dispatch :: "int result \<times> execution_fence \<times> mutation_context \<times> db" where
  "sample_dispatch = recordRemoteMutationDispatch (sample_externs\<lparr>x_sha256 := (\<lambda>_. replicate 64 CHR ''a'')\<rparr>)
     (clock_of 1) (sample_fence 0) (sample_context 0 False) Ssh (Some 5) (jobs_db [leased_job ''compose.deploy''])"

section \<open>Lemmas\<close>

text \<open>The proof a dispatch record stands for, and the same proof once the command is terminal.\<close>

definition dispatched :: "mutation_context \<Rightarrow> transport \<Rightarrow> int \<Rightarrow> remote_mutation_proof" where
  "dispatched ctx tr timeout = \<lparr>rm_operationId = mc_operationId ctx, rm_jobId = mc_jobId ctx,
     rm_attemptCount = int (mc_attemptCount ctx), rm_sequence = int (mc_sequence ctx),
     rm_phase = mc_phase ctx, rm_transport = transport_name tr, rm_timeoutMs = timeout,
     rm_status = ''dispatched'', rm_terminalState = None\<rparr>"

definition settled :: "terminal_state \<Rightarrow> remote_mutation_proof \<Rightarrow> remote_mutation_proof" where
  "settled state p = p\<lparr>rm_status := ''terminal'', rm_terminalState := Some (terminal_name state)\<rparr>"

lemma boundedTimeoutMs_bounds: "1000 \<le> boundedTimeoutMs t \<and> boundedTimeoutMs t \<le> REMOTE_MUTATION_MAX_TIMEOUT_MS"
  by (simp add: boundedTimeoutMs_def REMOTE_MUTATION_MAX_TIMEOUT_MS_def)

text \<open>A result column the merge keeps an object.\<close>

definition mergeable :: "json option \<Rightarrow> bool" where
  "mergeable result \<longleftrightarrow> result = None \<or> is_object result"

lemma merge_object: "mergeable result \<Longrightarrow> is_object (Some (jsonb_merge result fs))"
  by (cases result; cases "the result") (auto simp: mergeable_def jsonb_merge_def)

lemma stored_proof_merge:
  "mergeable result \<Longrightarrow> stored_proof (Some (jsonb_merge result [(REMOTE_MUTATION_PROOF_KEY, v)])) = Some v"
  by (cases result; cases "the result") (auto simp: mergeable_def jsonb_merge_def stored_proof_def)

definition valid_context :: "mutation_context \<Rightarrow> bool" where
  "valid_context ctx \<longleftrightarrow> hex_string 64 (mc_operationId ctx) \<and> mc_jobId ctx \<noteq> [] \<and> 1 \<le> mc_attemptCount ctx
     \<and> 1 \<le> mc_sequence ctx \<and> mc_phase ctx \<noteq> []"

lemma read_dispatched:
  assumes "mergeable result" and "valid_context ctx" and "timeout = boundedTimeoutMs t"
  shows "remoteMutationProofFromResult (Some (jsonb_merge result [(REMOTE_MUTATION_PROOF_KEY,
      JObj (obj_concat (dispatched_proof ctx tr timeout) [(''dispatchedAt'', at)]))])) = Some (dispatched ctx tr timeout)"
  using assms boundedTimeoutMs_bounds [of t]
  by (cases tr) (auto simp: remoteMutationProofFromResult_def merge_object stored_proof_merge valid_context_def
      dispatched_proof_def dispatched_def get_prop_def [of "_ # _"])

lemma read_settled:
  assumes "mergeable result" and "valid_context ctx" and "timeout = boundedTimeoutMs t"
  shows "remoteMutationProofFromResult (Some (jsonb_merge result [(REMOTE_MUTATION_PROOF_KEY,
      jsonb_merge (Some (JObj (obj_concat (dispatched_proof ctx tr timeout) [(''dispatchedAt'', at)])))
        [(''status'', JStr ''terminal''), (''terminalState'', JStr (terminal_name state)), (''completedAt'', done_at)])]))
    = Some (settled state (dispatched ctx tr timeout))"
proof -
  have m: "jsonb_merge (Some (JObj fs)) [(a, x), (b, y), (c, z)] = JObj (set_prop (set_prop (set_prop fs a x) b y) c z)"
    for fs a b c and x y z :: json by (simp add: jsonb_merge_def obj_concat_def)
  show ?thesis
    using assms boundedTimeoutMs_bounds [of t] unfolding m
    by (cases tr; cases state) (auto simp: remoteMutationProofFromResult_def merge_object stored_proof_merge valid_context_def
        dispatched_proof_def dispatched_def settled_def get_prop_def [of "_ # _"])
qed

lemma leased_update:
  assumes "withActiveJobLeaseTransaction ck i l (\<lambda>s. if filter P (d_jobs s) = [] then Inl e
      else Inr ((), update_jobs P f s)) s = (Inr (), s')"
    and "jobs.keys_unique (d_jobs s)" and "r \<in> set (d_jobs s)" and "\<And>q. P q \<Longrightarrow> j_id q = j_id r"
    and "\<And>q. j_id (f q) = j_id q"
  shows "P r" and "f r \<in> set (d_jobs s')" and "jobs.keys_unique (d_jobs s')"
proof -
  have sel: "filter P (d_jobs s) \<noteq> []" and s': "d_jobs s' = update_where P f (d_jobs s)"
    using assms(1) by (auto simp: withActiveJobLeaseTransaction_def withTransaction_Inr split: if_splits)
  then obtain q where q: "q \<in> set (d_jobs s)" "P q" by (auto simp: filter_eq_Nil_iff)
  have "r = q" using jobs.same_key_same_row [OF assms(2,3) q(1)] assms(4) [OF q(2)] by simp
  with q(2) show r: "P r" by simp
  show "f r \<in> set (d_jobs s')"
    unfolding s' set_update_where by (rule image_eqI [of _ _ r]) (simp_all add: r assms(3))
  show "jobs.keys_unique (d_jobs s')" unfolding s' using jobs.unique_update [of f P "d_jobs s"] assms(2,5) by blast
qed

lemma dispatch_written:
  assumes "recordRemoteMutationDispatch X ck fence ctx tr t s = (Inr timeout, fence1, ctx1, s1)"
    and "jobs.keys_unique (d_jobs s)" and "r \<in> set (d_jobs s)" and "j_id r = mc_jobId ctx"
  shows "timeout = boundedTimeoutMs t" and "ctx1 = (dispatch_context X fence ctx)\<lparr>mc_dispatched := True\<rparr>"
    and "jobs.keys_unique (d_jobs s1)"
    and "\<exists>q\<in>set (d_jobs s1). j_id q = j_id r \<and> j_result q = Some (jsonb_merge (j_result r) [(REMOTE_MUTATION_PROOF_KEY,
        JObj (obj_concat (dispatched_proof ctx1 tr timeout) [(''dispatchedAt'', ts_json (ck_clock ck))]))])"
proof -
  let ?c = "dispatch_context X fence ctx"
  have id: "mc_jobId ?c = mc_jobId ctx" by (simp add: dispatch_context_def Let_def)
  show eqs: "timeout = boundedTimeoutMs t" "ctx1 = ?c\<lparr>mc_dispatched := True\<rparr>"
    using assms(1) by (auto simp: recordRemoteMutationDispatch_def Let_def split: prod.splits sum.splits)
  have w: "withActiveJobLeaseTransaction ck (mc_jobId ctx) (ef_lease fence) (write_dispatch ck ?c tr timeout) s = (Inr (), s1)"
    using assms(1) by (auto simp: recordRemoteMutationDispatch_def Let_def split: prod.splits sum.splits)
  note up = leased_update [OF w [unfolded write_dispatch_def [abs_def] Let_def] assms(2,3)]
  show "jobs.keys_unique (d_jobs s1)" by (rule up(3)) (simp_all add: assms(4) id)
  have p: "dispatched_proof (?c\<lparr>mc_dispatched := True\<rparr>) tr timeout = dispatched_proof ?c tr timeout"
    by (simp add: dispatched_proof_def)
  show "\<exists>q\<in>set (d_jobs s1). j_id q = j_id r \<and> j_result q = Some (jsonb_merge (j_result r) [(REMOTE_MUTATION_PROOF_KEY,
        JObj (obj_concat (dispatched_proof ctx1 tr timeout) [(''dispatchedAt'', ts_json (ck_clock ck))]))])"
    by (rule bexI [OF _ up(2)]) (simp_all add: eqs(2) p assms(4) id)
qed

lemma terminal_written:
  assumes "recordRemoteMutationTerminal ck fence ctx state s = (Inr (), ctx2, s2)" and "mc_dispatched ctx"
    and "jobs.keys_unique (d_jobs s)" and "r \<in> set (d_jobs s)" and "j_id r = mc_jobId ctx"
  shows "\<exists>q\<in>set (d_jobs s2). j_id q = j_id r \<and> j_result q = Some (jsonb_merge (j_result r) [(REMOTE_MUTATION_PROOF_KEY,
        jsonb_merge (stored_proof (j_result r)) [(''status'', JStr ''terminal''),
          (''terminalState'', JStr (terminal_name state)), (''completedAt'', ts_json (ck_clock ck))])])"
proof -
  have w: "withActiveJobLeaseTransaction ck (mc_jobId ctx) (ef_lease fence) (write_terminal ck ctx state) s = (Inr (), s2)"
    using assms(1,2) by (auto simp: recordRemoteMutationTerminal_def split: prod.splits sum.splits)
  note up = leased_update [OF w [unfolded write_terminal_def [abs_def] Let_def] assms(3,4)]
  show ?thesis by (rule bexI [OF _ up(2)]) (simp_all add: assms(5))
qed

section \<open>Properties\<close>

text \<open>
  The evidence of a remote mutation survives as written. When a dispatch and then its terminal state are
  recorded under the lease, reading the job's result back after the first gives the dispatched operation, with
  the digest, the next sequence number of the fence and a timeout between one second and ten minutes, and after the
  second the same operation with its terminal state.
\<close>

theorem dispatch_proof_roundtrip:
  assumes "jobs.keys_unique (d_jobs s)" and "r \<in> set (d_jobs s)" and "j_id r = mc_jobId ctx" and "mergeable (j_result r)"
    and "hex_string 64 (mc_operationId ctx1)" and "mc_jobId ctx \<noteq> []" and "1 \<le> mc_attemptCount ctx" and "mc_phase ctx \<noteq> []"
    and "recordRemoteMutationDispatch X ck fence ctx tr t s = (Inr timeout, fence1, ctx1, s1)"
    and "recordRemoteMutationTerminal ck' fence1 ctx1 state s1 = (Inr (), ctx2, s2)"
  shows "1000 \<le> timeout \<and> timeout \<le> 600000 \<and> mc_sequence ctx1 = ef_sequence fence + 1
    \<and> mc_operationId ctx1 = operation_digest X (mc_jobId ctx) (mc_attemptCount ctx) (ef_sequence fence + 1) (mc_phase ctx)
    \<and> (\<exists>q\<in>set (d_jobs s1). j_id q = j_id r
         \<and> remoteMutationProofFromResult (j_result q) = Some (dispatched ctx1 tr timeout))
    \<and> (\<exists>q\<in>set (d_jobs s2). j_id q = j_id r
         \<and> remoteMutationProofFromResult (j_result q) = Some (settled state (dispatched ctx1 tr timeout)))"
proof -
  note d = dispatch_written [OF assms(9,1,2,3)]
  let ?proof = "JObj (obj_concat (dispatched_proof ctx1 tr timeout) [(''dispatchedAt'', ts_json (ck_clock ck))])"
  have ctx1: "mc_jobId ctx1 = mc_jobId ctx" "mc_attemptCount ctx1 = mc_attemptCount ctx" "mc_phase ctx1 = mc_phase ctx"
    "mc_sequence ctx1 = ef_sequence fence + 1" "mc_dispatched ctx1"
    "mc_operationId ctx1 = operation_digest X (mc_jobId ctx) (mc_attemptCount ctx) (ef_sequence fence + 1) (mc_phase ctx)"
    by (simp_all add: d(2) dispatch_context_def Let_def)
  have valid: "valid_context ctx1" using assms(5-8) ctx1 by (simp add: valid_context_def)
  obtain q where q: "q \<in> set (d_jobs s1)" "j_id q = j_id r"
    "j_result q = Some (jsonb_merge (j_result r) [(REMOTE_MUTATION_PROOF_KEY, ?proof)])" using d(4) by blast
  obtain q2 where q2: "q2 \<in> set (d_jobs s2)" "j_id q2 = j_id q"
    "j_result q2 = Some (jsonb_merge (j_result q) [(REMOTE_MUTATION_PROOF_KEY, jsonb_merge (stored_proof (j_result q))
       [(''status'', JStr ''terminal''), (''terminalState'', JStr (terminal_name state)),
        (''completedAt'', ts_json (ck_clock ck'))])])"
    using terminal_written [OF assms(10) ctx1(5) d(3) q(1)] q(2) assms(3) ctx1(1) by auto
  have "remoteMutationProofFromResult (j_result q) = Some (dispatched ctx1 tr timeout)"
    unfolding q(3) by (rule read_dispatched [OF assms(4) valid d(1)])
  moreover have "mergeable (j_result q)" using merge_object [OF assms(4)] by (simp add: q(3) mergeable_def)
  then have "remoteMutationProofFromResult (j_result q2) = Some (settled state (dispatched ctx1 tr timeout))"
    using read_settled [OF _ valid d(1)] unfolding q2(3) by (simp add: q(3) stored_proof_merge [OF assms(4)])
  ultimately show ?thesis
    using boundedTimeoutMs_bounds [of t] q q2 ctx1 d(1) by (auto simp: REMOTE_MUTATION_MAX_TIMEOUT_MS_def)
qed

theorem dispatch_proof_roundtrip_witness:
  "\<exists>q. d_jobs (snd (snd (recordRemoteMutationTerminal (clock_of 2) (sample_fence 1) (sample_context 1 True) TCompleted
       (snd (snd (snd sample_dispatch)))))) = [q]
   \<and> remoteMutationProofFromResult (j_result q)
     = Some \<lparr>rm_operationId = replicate 64 CHR ''a'', rm_jobId = ''job-1'', rm_attemptCount = 1, rm_sequence = 1,
         rm_phase = ''compose.deploy'', rm_transport = ''ssh'', rm_timeoutMs = 1000, rm_status = ''terminal'',
         rm_terminalState = Some ''completed''\<rparr>"
proof -
  let ?s = "jobs_db [leased_job ''compose.deploy'']"
  let ?t = "recordRemoteMutationTerminal (clock_of 2) (sample_fence 1) (sample_context 1 True) TCompleted (snd (snd (snd sample_dispatch)))"
  have "fst sample_dispatch = Inr 1000" "fst (snd sample_dispatch) = sample_fence 1"
    "fst (snd (snd sample_dispatch)) = sample_context 1 True" "fst ?t = Inr ()"
    and len: "length (d_jobs (snd (snd ?t))) = 1" and hex: "hex_string 64 (mc_operationId (sample_context 1 True))"
    by code_simp+
  then have d: "sample_dispatch = (Inr 1000, sample_fence 1, sample_context 1 True, snd (snd (snd sample_dispatch)))"
    and t: "?t = (Inr (), fst (snd ?t), snd (snd ?t))"
    by (simp_all add: prod_eq_iff)
  have u: "jobs.keys_unique (d_jobs ?s)" and r: "leased_job ''compose.deploy'' \<in> set (d_jobs ?s)"
    and i: "j_id (leased_job ''compose.deploy'') = mc_jobId (sample_context 0 False)"
    and m: "mergeable (j_result (leased_job ''compose.deploy''))"
    by (simp_all add: sample_simps jobs.keys_unique_def mergeable_def sample_context_def)
  from len obtain q where q: "d_jobs (snd (snd ?t)) = [q]" by (auto simp: length_Suc_conv)
  from dispatch_proof_roundtrip [OF u r i m hex _ _ _ d [THEN trans [OF sample_dispatch_def [symmetric]]] t] q show ?thesis
    by (simp add: settled_def dispatched_def sample_context_def)
qed

end
