(* ===== verification/Deployment_Binding.thy ===== *)
theory Deployment_Binding
  imports Remote_Proof
begin

text \<open>
  The durable source bindings of GitHub deployments: \<^verbatim>\<open>services/githubDeploymentBinding.ts\<close>
  for deployments through the API and \<^verbatim>\<open>services/githubCloneDeploymentBinding.ts\<close> for
  host clones. A binding ties a job to the exact repository, stack and commit it deploys; it
  is applied when the job completes, discarded when it fails, and retained while the remote
  outcome is unknown.
\<close>

section \<open>Bindings of API deployments\<close>

datatype resolution_status = Deployed | DeployFailed

datatype binding_resolution =
    NotApplicable
  | Resolution resolution_status (br_repositoryId: uuid) (br_stackId: uuid)
      (br_candidateCommit: string) (br_deployedCommit: "string option") (br_composeSha256: string)
      (br_customCompose: bool)

definition lockGithubDeploymentBinding :: "uuid \<Rightarrow> db \<Rightarrow> binding_row option" where
  "lockGithubDeploymentBinding jobId s =
     first_row (filter (\<lambda>b. gb_operation_job_id b = jobId) (d_bindings s))"

definition bindingResolution :: "binding_row \<Rightarrow> resolution_status \<Rightarrow> binding_resolution" where
  "bindingResolution b status =
     Resolution status (gb_repository_id b) (gb_stack_id b) (gb_source_commit_sha b)
       (if status = Deployed \<and> \<not> gb_custom_compose b then Some (gb_source_commit_sha b) else None)
       (gb_compose_sha256 b) (gb_custom_compose b)"

definition is_commit_sha :: "string \<Rightarrow> bool" where
  "is_commit_sha c \<longleftrightarrow> hex_string 40 c \<or> hex_string 64 c"

definition identity_changed :: exn where
  "identity_changed = PlainError (REMOTE_OUTCOME_UNKNOWN @ '' GitHub deployment identity changed before '' @
     ''completion; authoritative reconciliation must retain the target locks.'')"

text \<open>The stack and the repository still are what the binding recorded.\<close>

definition binding_matches :: "externs \<Rightarrow> binding_row \<Rightarrow> stack_row \<Rightarrow> repository_row \<Rightarrow> bool" where
  "binding_matches X b stack repository \<longleftrightarrow>
     is_commit_sha (gb_source_commit_sha b)
     \<and> hex_string 64 (gb_compose_sha256 b)
     \<and> x_sha256 X (cs_compose_yaml stack) = gb_compose_sha256 b
     \<and> cs_source_repository_url stack = Some (gb_source_repository_url b)
     \<and> cs_source_branch stack = Some (gb_source_branch b)
     \<and> cs_source_compose_path stack = Some (gb_source_compose_path b)
     \<and> gr_repository_url repository = gb_source_repository_url b
     \<and> gr_compose_path repository = gb_source_compose_path b"

definition deployed_commit :: "binding_row \<Rightarrow> string option" where
  "deployed_commit b = (if gb_custom_compose b then None else Some (gb_source_commit_sha b))"

definition delete_binding :: "uuid \<Rightarrow> db \<Rightarrow> db" where
  "delete_binding jobId s =
     s\<lparr>d_bindings := filter (\<lambda>b. gb_operation_job_id b \<noteq> jobId) (d_bindings s)\<rparr>"

definition applyLockedGithubDeploymentBinding ::
    "externs \<Rightarrow> clock \<Rightarrow> uuid \<Rightarrow> binding_row \<Rightarrow> db \<Rightarrow> (binding_resolution \<times> db) result" where
  "applyLockedGithubDeploymentBinding X ck jobId b s =
     (case (first_row (filter (\<lambda>st. cs_id st = gb_stack_id b) (d_stacks s)),
            first_row (filter (\<lambda>g. gr_id g = gb_repository_id b) (d_repositories s))) of
        (Some stack, Some repository) \<Rightarrow>
          if \<not> binding_matches X b stack repository then Inl identity_changed
          else Inr (bindingResolution b Deployed,
            delete_binding jobId (s\<lparr>
              d_stacks := update_where (\<lambda>st. cs_id st = gb_stack_id b)
                (\<lambda>st. st\<lparr>cs_status := ''deployed'',
                   cs_source_current_commit_sha := deployed_commit b,
                   cs_last_deploy_error := None, cs_updated_at := ck_now ck\<rparr>) (d_stacks s),
              d_repositories := update_where (\<lambda>g. gr_id g = gb_repository_id b)
                (\<lambda>g. g\<lparr>gr_last_deployed_at := Some (ck_now ck),
                   gr_last_deployed_commit_sha := deployed_commit b,
                   gr_update_check_error := None, gr_last_error := None,
                   gr_updated_at := ck_now ck\<rparr>) (d_repositories s)\<rparr>))
      | _ \<Rightarrow> Inl identity_changed)"

definition recordLockedGithubDeploymentFailure ::
    "clock \<Rightarrow> uuid \<Rightarrow> binding_row \<Rightarrow> string \<Rightarrow> bool \<Rightarrow> db \<Rightarrow> binding_resolution \<times> db" where
  "recordLockedGithubDeploymentFailure ck jobId b message discard s =
     (let s1 = s\<lparr>
        d_stacks := update_where (\<lambda>st. cs_id st = gb_stack_id b)
          (\<lambda>st. st\<lparr>cs_last_deploy_error := Some message, cs_updated_at := ck_now ck\<rparr>) (d_stacks s),
        d_repositories := update_where (\<lambda>g. gr_id g = gb_repository_id b)
          (\<lambda>g. g\<lparr>gr_last_error := Some message, gr_updated_at := ck_now ck\<rparr>) (d_repositories s)\<rparr>
      in (bindingResolution b DeployFailed, if discard then delete_binding jobId s1 else s1))"

definition githubDeploymentFailureNeedsReconciliation :: "string \<Rightarrow> bool" where
  "githubDeploymentFailureNeedsReconciliation message \<longleftrightarrow>
     starts_with WORKER_LOST message \<or> starts_with REMOTE_OUTCOME_UNKNOWN message"

definition applyGithubDeploymentBinding ::
    "externs \<Rightarrow> clock \<Rightarrow> uuid \<Rightarrow> db \<Rightarrow> (binding_resolution option \<times> db) result" where
  "applyGithubDeploymentBinding X ck jobId s =
     (case lockGithubDeploymentBinding jobId s of
        None \<Rightarrow> Inr (None, s)
      | Some b \<Rightarrow> and_then (applyLockedGithubDeploymentBinding X ck jobId b s)
                    (\<lambda>(r, s'). Inr (Some r, s')))"

definition discardGithubDeploymentBinding :: "uuid \<Rightarrow> db \<Rightarrow> db" where
  "discardGithubDeploymentBinding jobId s = delete_binding jobId s"

definition failGithubDeploymentBinding :: "clock \<Rightarrow> uuid \<Rightarrow> string \<Rightarrow> db \<Rightarrow> db" where
  "failGithubDeploymentBinding ck jobId message s =
     (case lockGithubDeploymentBinding jobId s of
        None \<Rightarrow> s
      | Some b \<Rightarrow> snd (recordLockedGithubDeploymentFailure ck jobId b message True s))"

definition retainGithubDeploymentBinding :: "clock \<Rightarrow> uuid \<Rightarrow> string \<Rightarrow> db \<Rightarrow> db" where
  "retainGithubDeploymentBinding ck jobId message s =
     (case lockGithubDeploymentBinding jobId s of
        None \<Rightarrow> s
      | Some b \<Rightarrow> snd (recordLockedGithubDeploymentFailure ck jobId b message False s))"

definition reconciliation_message :: "string \<Rightarrow> string \<Rightarrow> string option \<Rightarrow> string" where
  "reconciliation_message what phase state = join_with '' ''
     [what @ '' deployment did not complete.'',
      ''Authoritative remote reconciliation observed'',
      ''phase '' @ [CHR 0x27] @ phase @ [CHR 0x27] @ '' with state '' @ [CHR 0x27]
        @ (case state of Some st \<Rightarrow> st | None \<Rightarrow> ''unknown'') @ [CHR 0x27] @ ''.'']"

definition resolveGithubDeploymentBindingAfterReconciliation ::
    "externs \<Rightarrow> clock \<Rightarrow> uuid \<Rightarrow> string \<Rightarrow> string option \<Rightarrow> db \<Rightarrow> (binding_resolution \<times> db) result" where
  "resolveGithubDeploymentBindingAfterReconciliation X ck jobId phase state s =
     (case lockGithubDeploymentBinding jobId s of
        None \<Rightarrow> Inr (NotApplicable, s)
      | Some b \<Rightarrow>
          if phase = ''compose.deploy'' \<and> state = Some ''completed''
          then applyLockedGithubDeploymentBinding X ck jobId b s
          else Inr (recordLockedGithubDeploymentFailure ck jobId b
                 (reconciliation_message ''GitHub'' phase state) True s))"

section \<open>Bindings of host clones\<close>

record clone_execution_input =
  ce_repositoryId :: uuid
  ce_hostId :: uuid
  ce_cloneRepositoryUrl :: string
  ce_sourceBranch :: string
  ce_sourceCommitSha :: string
  ce_sourceComposePath :: string
  ce_composeSha256 :: string
  ce_projectName :: string
  ce_workingDir :: string
  ce_environment :: string

datatype clone_resolution =
    CloneNotApplicable
  | CloneResolution resolution_status uuid (cr_stackId: "uuid option") (cr_commit: string)
      string string string string

definition lockGithubCloneDeploymentBinding :: "uuid \<Rightarrow> db \<Rightarrow> clone_binding_row option" where
  "lockGithubCloneDeploymentBinding jobId s =
     first_row (filter (\<lambda>b. gc_operation_job_id b = jobId) (d_clone_bindings s))"

definition cloneBindingResolution ::
    "clone_binding_row \<Rightarrow> resolution_status \<Rightarrow> uuid option \<Rightarrow> clone_resolution" where
  "cloneBindingResolution b status stackId =
     CloneResolution status (gc_repository_id b) stackId (gc_source_commit_sha b)
       (gc_compose_sha256 b) (gc_environment_binding b) (gc_project_name b) (gc_working_dir b)"

text \<open>\<^verbatim>\<open>services/files.ts\<close>: an absolute path without control characters, normalised.\<close>

definition normalizeRemotePath :: "string \<Rightarrow> string result" where
  "normalizeRemotePath v =
     (let trimmed = trim v in
      if trimmed = [] \<or> CHR 0x00 \<in> set trimmed \<or> CHR 0x0D \<in> set trimmed \<or> CHR 0x0A \<in> set trimmed
      then Inl (PlainError ''Path contains invalid characters'')
      else if \<not> starts_with ''/'' trimmed
      then Inl (PlainError ''Use an absolute Linux path, for example /home/user/app'')
      else Inr (path_normalize trimmed))"

definition corrupt_binding :: exn where
  "corrupt_binding = PlainError
     ''The tracked clone deployment binding is corrupt. Queue a fresh deployment.''"

definition validateExecutionBinding ::
    "externs \<Rightarrow> clone_binding_row \<Rightarrow> clone_execution_input result" where
  "validateExecutionBinding X b =
     and_then (x_decryptSecret X (gc_environment_encrypted b)) (\<lambda>environment.
     and_then (normalizeRemotePath (gc_working_dir b)) (\<lambda>normalizedWorkingDir.
       if \<not> is_commit_sha (gc_source_commit_sha b)
          \<or> \<not> hex_string 64 (gc_compose_sha256 b)
          \<or> \<not> hex_string 64 (gc_environment_binding b)
          \<or> x_sha256 X (gc_compose_yaml b) \<noteq> gc_compose_sha256 b
          \<or> x_deploymentEnvironmentBinding X environment \<noteq> gc_environment_binding b
       then Inl corrupt_binding
       else and_then (x_inspectGitComposeSourceIntegrity X (gc_compose_yaml b)
              (gc_source_compose_path b)) (\<lambda>_.
         Inr \<lparr>ce_repositoryId = gc_repository_id b, ce_hostId = gc_host_id b,
              ce_cloneRepositoryUrl = gc_clone_repository_url b,
              ce_sourceBranch = gc_source_branch b,
              ce_sourceCommitSha = gc_source_commit_sha b,
              ce_sourceComposePath = gc_source_compose_path b,
              ce_composeSha256 = gc_compose_sha256 b, ce_projectName = gc_project_name b,
              ce_workingDir = normalizedWorkingDir, ce_environment = environment\<rparr>)))"

record clone_action_identity =
  ca_repositoryId :: "uuid option"
  ca_hostId :: uuid
  ca_repositoryUrl :: string
  ca_directory :: string
  ca_branch :: "string option"
  ca_composePath :: string
  ca_projectName :: string
  ca_sourceCommitSha :: "string option"
  ca_composeSha256 :: "string option"

definition assertActionMatchesBinding ::
    "clone_action_identity \<Rightarrow> clone_execution_input \<Rightarrow> unit result" where
  "assertActionMatchesBinding a b =
     (let mismatch = Inl (PlainError
            ''The tracked clone job no longer matches its durable source binding.'') in
      if ca_repositoryId a \<noteq> Some (ce_repositoryId b) \<or> ca_hostId a \<noteq> ce_hostId b
         \<or> ca_repositoryUrl a \<noteq> ce_cloneRepositoryUrl b then mismatch
      else and_then (normalizeRemotePath (ca_directory a)) (\<lambda>directory.
        if directory \<noteq> ce_workingDir b
           \<or> ca_branch a \<noteq> Some (ce_sourceBranch b)
           \<or> ca_composePath a \<noteq> ce_sourceComposePath b
           \<or> ca_projectName a \<noteq> ce_projectName b
           \<or> ca_sourceCommitSha a \<noteq> Some (ce_sourceCommitSha b)
           \<or> ca_composeSha256 a \<noteq> Some (ce_composeSha256 b)
        then mismatch else Inr ()))"

definition loadGithubCloneDeploymentBindingForExecution ::
    "externs \<Rightarrow> uuid \<Rightarrow> clone_action_identity \<Rightarrow> db \<Rightarrow> clone_execution_input result" where
  "loadGithubCloneDeploymentBindingForExecution X jobId a s =
     (case lockGithubCloneDeploymentBinding jobId s of
        None \<Rightarrow> Inl (PlainError ''The tracked clone job is missing its durable source binding.'')
      | Some row \<Rightarrow> and_then (validateExecutionBinding X row) (\<lambda>b.
          and_then (assertActionMatchesBinding a b) (\<lambda>_. Inr b)))"

definition linkGithubCloneDeploymentStack :: "uuid \<Rightarrow> uuid \<Rightarrow> db \<Rightarrow> db result" where
  "linkGithubCloneDeploymentStack jobId stackId s =
     (let P = (\<lambda>b. gc_operation_job_id b = jobId
            \<and> (gc_stack_id b = None \<or> gc_stack_id b = Some stackId)
            \<and> list_ex (\<lambda>st. cs_id st = stackId \<and> cs_host_id st = gc_host_id b
                            \<and> cs_project_name st = gc_project_name b) (d_stacks s))
      in if length (filter P (d_clone_bindings s)) \<noteq> 1
         then Inl (PlainError ''The tracked clone stack no longer matches its durable deployment binding.'')
         else Inr (s\<lparr>d_clone_bindings :=
                update_where P (\<lambda>b. b\<lparr>gc_stack_id := Some stackId\<rparr>) (d_clone_bindings s)\<rparr>))"

definition bound_clone_stack :: "clone_binding_row \<Rightarrow> stack_row \<Rightarrow> bool" where
  "bound_clone_stack b st =
     (case gc_stack_id b of
        Some i \<Rightarrow> cs_id st = i
      | None \<Rightarrow> cs_host_id st = gc_host_id b \<and> cs_project_name st = gc_project_name b)"

definition lockBoundCloneStack :: "clone_binding_row \<Rightarrow> db \<Rightarrow> stack_row option" where
  "lockBoundCloneStack b s = first_row (filter (bound_clone_stack b) (d_stacks s))"

definition clone_identity_changed :: exn where
  "clone_identity_changed = PlainError (REMOTE_OUTCOME_UNKNOWN @
     '' Tracked clone deployment identity changed before completion; '' @
     ''authoritative reconciliation must retain the target locks.'')"

definition clone_binding_matches ::
    "externs \<Rightarrow> clone_binding_row \<Rightarrow> clone_execution_input \<Rightarrow> string \<Rightarrow> string
     \<Rightarrow> stack_row \<Rightarrow> repository_row \<Rightarrow> bool" where
  "clone_binding_matches X b expected stackEnvironment expectedComposePath stack repository \<longleftrightarrow>
     cs_host_id stack = gc_host_id b
     \<and> cs_project_name stack = gc_project_name b
     \<and> x_sha256 X (cs_compose_yaml stack) = gc_compose_sha256 b
     \<and> cs_env stack = ce_environment expected
     \<and> cs_source_type stack = Some ''git''
     \<and> cs_source_repository_url stack = Some (gc_clone_repository_url b)
     \<and> cs_source_branch stack = Some (gc_source_branch b)
     \<and> cs_source_working_dir stack = Some (gc_working_dir b)
     \<and> cs_source_compose_path stack = Some expectedComposePath
     \<and> (cs_source_current_commit_sha stack = None
        \<or> cs_source_current_commit_sha stack = Some (gc_source_commit_sha b))
     \<and> cs_source_environment_binding stack = Some (gc_environment_binding b)
     \<and> x_deploymentEnvironmentBinding X stackEnvironment = gc_environment_binding b
     \<and> stackEnvironment = ce_environment expected
     \<and> gr_repository_url repository = gc_source_repository_url b
     \<and> gr_compose_path repository = gc_source_compose_path b
     \<and> gr_host_clone_url repository = Some (gc_clone_repository_url b)
     \<and> gr_host_clone_directory repository = Some (gc_working_dir b)"

definition delete_clone_binding :: "uuid \<Rightarrow> db \<Rightarrow> db" where
  "delete_clone_binding jobId s =
     s\<lparr>d_clone_bindings := filter (\<lambda>b. gc_operation_job_id b \<noteq> jobId) (d_clone_bindings s)\<rparr>"

definition stack_environment :: "externs \<Rightarrow> stack_row option \<Rightarrow> string result" where
  "stack_environment X stack =
     (case Option.bind stack cs_source_environment_encrypted of
        Some (c # cs) \<Rightarrow> x_decryptSecret X (c # cs)
      | _ \<Rightarrow> Inr [])"

definition applyLockedGithubCloneDeploymentBinding ::
    "externs \<Rightarrow> clock \<Rightarrow> uuid \<Rightarrow> clone_binding_row \<Rightarrow> db \<Rightarrow> (clone_resolution \<times> db) result" where
  "applyLockedGithubCloneDeploymentBinding X ck jobId b s =
     and_then (validateExecutionBinding X b) (\<lambda>expected.
     let stack = lockBoundCloneStack b s;
         repository = first_row (filter (\<lambda>g. gr_id g = gc_repository_id b) (d_repositories s)) in
     and_then (stack_environment X stack) (\<lambda>stackEnvironment.
     and_then (normalizeRemotePath (path_join (gc_working_dir b) (gc_source_compose_path b)))
       (\<lambda>expectedComposePath.
       case (stack, repository) of
         (Some st, Some g) \<Rightarrow>
           if \<not> clone_binding_matches X b expected stackEnvironment expectedComposePath st g
           then Inl clone_identity_changed
           else Inr (cloneBindingResolution b Deployed (Some (cs_id st)),
             delete_clone_binding jobId (s\<lparr>
               d_stacks := update_where (\<lambda>r. cs_id r = cs_id st)
                 (\<lambda>r. r\<lparr>cs_status := ''deployed'',
                    cs_source_current_commit_sha := Some (gc_source_commit_sha b),
                    cs_last_deploy_error := None, cs_updated_at := ck_now ck\<rparr>) (d_stacks s),
               d_repositories := update_where (\<lambda>r. gr_id r = gc_repository_id b)
                 (\<lambda>r. r\<lparr>gr_last_deployed_at := Some (ck_now ck),
                    gr_last_deployed_commit_sha := Some (gc_source_commit_sha b),
                    gr_latest_commit_sha := coalesce (gr_latest_commit_sha r)
                                              (Some (gc_source_commit_sha b)),
                    gr_update_checked_at := Some (ck_now ck),
                    gr_update_check_error := None, gr_last_error := None,
                    gr_updated_at := ck_now ck\<rparr>) (d_repositories s)\<rparr>))
       | _ \<Rightarrow> Inl clone_identity_changed)))"

definition recordLockedGithubCloneDeploymentFailure ::
    "clock \<Rightarrow> uuid \<Rightarrow> clone_binding_row \<Rightarrow> string \<Rightarrow> bool \<Rightarrow> db \<Rightarrow> clone_resolution \<times> db" where
  "recordLockedGithubCloneDeploymentFailure ck jobId b message discard s =
     (let s1 = s\<lparr>
        d_stacks := update_where (bound_clone_stack b)
          (\<lambda>st. st\<lparr>cs_last_deploy_error := Some message, cs_updated_at := ck_now ck\<rparr>) (d_stacks s),
        d_repositories := update_where (\<lambda>g. gr_id g = gc_repository_id b)
          (\<lambda>g. g\<lparr>gr_last_error := Some message, gr_updated_at := ck_now ck\<rparr>) (d_repositories s)\<rparr>
      in (cloneBindingResolution b DeployFailed (gc_stack_id b),
          if discard then delete_clone_binding jobId s1 else s1))"

definition applyGithubCloneDeploymentBinding ::
    "externs \<Rightarrow> clock \<Rightarrow> uuid \<Rightarrow> db \<Rightarrow> (clone_resolution option \<times> db) result" where
  "applyGithubCloneDeploymentBinding X ck jobId s =
     (case lockGithubCloneDeploymentBinding jobId s of
        None \<Rightarrow> Inr (None, s)
      | Some b \<Rightarrow> and_then (applyLockedGithubCloneDeploymentBinding X ck jobId b s)
                    (\<lambda>(r, s'). Inr (Some r, s')))"

definition discardGithubCloneDeploymentBinding :: "uuid \<Rightarrow> db \<Rightarrow> db" where
  "discardGithubCloneDeploymentBinding jobId s = delete_clone_binding jobId s"

definition failGithubCloneDeploymentBinding :: "clock \<Rightarrow> uuid \<Rightarrow> string \<Rightarrow> db \<Rightarrow> db" where
  "failGithubCloneDeploymentBinding ck jobId message s =
     (case lockGithubCloneDeploymentBinding jobId s of
        None \<Rightarrow> s
      | Some b \<Rightarrow> snd (recordLockedGithubCloneDeploymentFailure ck jobId b message True s))"

definition retainGithubCloneDeploymentBinding :: "clock \<Rightarrow> uuid \<Rightarrow> string \<Rightarrow> db \<Rightarrow> db" where
  "retainGithubCloneDeploymentBinding ck jobId message s =
     (case lockGithubCloneDeploymentBinding jobId s of
        None \<Rightarrow> s
      | Some b \<Rightarrow> snd (recordLockedGithubCloneDeploymentFailure ck jobId b message False s))"

definition resolveGithubCloneDeploymentBindingAfterReconciliation ::
    "externs \<Rightarrow> clock \<Rightarrow> uuid \<Rightarrow> string \<Rightarrow> string option \<Rightarrow> db \<Rightarrow> (clone_resolution \<times> db) result" where
  "resolveGithubCloneDeploymentBindingAfterReconciliation X ck jobId phase state s =
     (case lockGithubCloneDeploymentBinding jobId s of
        None \<Rightarrow> Inr (CloneNotApplicable, s)
      | Some b \<Rightarrow>
          if phase = ''compose.deployPath.up'' \<and> state = Some ''completed''
          then applyLockedGithubCloneDeploymentBinding X ck jobId b s
          else Inr (recordLockedGithubCloneDeploymentFailure ck jobId b
                 (reconciliation_message ''Tracked clone'' phase state) True s))"

section \<open>Lemmas\<close>

lemma delete_binding_frame [simp]:
  "d_jobs (delete_binding j s) = d_jobs s" "d_clone_bindings (delete_binding j s) = d_clone_bindings s"
  "d_stacks (delete_binding j s) = d_stacks s" "d_repositories (delete_binding j s) = d_repositories s"
  "d_attempts (delete_binding j s) = d_attempts s" "d_migrations (delete_binding j s) = d_migrations s"
  "d_locks (delete_binding j s) = d_locks s"
  "d_bindings (delete_binding j s) = filter (\<lambda>b. gb_operation_job_id b \<noteq> j) (d_bindings s)"
  by (simp_all add: delete_binding_def)

lemma delete_clone_binding_frame [simp]:
  "d_jobs (delete_clone_binding j s) = d_jobs s" "d_bindings (delete_clone_binding j s) = d_bindings s"
  "d_stacks (delete_clone_binding j s) = d_stacks s"
  "d_repositories (delete_clone_binding j s) = d_repositories s"
  "d_attempts (delete_clone_binding j s) = d_attempts s"
  "d_migrations (delete_clone_binding j s) = d_migrations s"
  "d_locks (delete_clone_binding j s) = d_locks s"
  "d_clone_bindings (delete_clone_binding j s)
     = filter (\<lambda>b. gc_operation_job_id b \<noteq> j) (d_clone_bindings s)"
  by (simp_all add: delete_clone_binding_def)

lemma discard_frame [simp]:
  "d_jobs (discardGithubDeploymentBinding j s) = d_jobs s"
  "d_jobs (discardGithubCloneDeploymentBinding j s) = d_jobs s"
  by (simp_all add: discardGithubDeploymentBinding_def discardGithubCloneDeploymentBinding_def)

lemma fail_binding_frame [simp]:
  "d_jobs (failGithubDeploymentBinding ck j m s) = d_jobs s"
  "d_jobs (failGithubCloneDeploymentBinding ck j m s) = d_jobs s"
  "d_clone_bindings (failGithubDeploymentBinding ck j m s) = d_clone_bindings s"
  "d_bindings (failGithubCloneDeploymentBinding ck j m s) = d_bindings s"
  by (simp_all add: failGithubDeploymentBinding_def failGithubCloneDeploymentBinding_def
      recordLockedGithubDeploymentFailure_def recordLockedGithubCloneDeploymentFailure_def Let_def
      split: option.split)

lemma retain_binding_frame [simp]:
  "d_jobs (retainGithubDeploymentBinding ck j m s) = d_jobs s"
  "d_jobs (retainGithubCloneDeploymentBinding ck j m s) = d_jobs s"
  "d_bindings (retainGithubDeploymentBinding ck j m s) = d_bindings s"
  "d_clone_bindings (retainGithubDeploymentBinding ck j m s) = d_clone_bindings s"
  "d_bindings (retainGithubCloneDeploymentBinding ck j m s) = d_bindings s"
  "d_clone_bindings (retainGithubCloneDeploymentBinding ck j m s) = d_clone_bindings s"
  by (simp_all add: retainGithubDeploymentBinding_def retainGithubCloneDeploymentBinding_def
      recordLockedGithubDeploymentFailure_def recordLockedGithubCloneDeploymentFailure_def Let_def
      split: option.split)

lemma lock_binding_NoneD:
  "lockGithubDeploymentBinding j s = None \<Longrightarrow> \<forall>b\<in>set (d_bindings s). gb_operation_job_id b \<noteq> j"
  by (auto simp: lockGithubDeploymentBinding_def filter_empty_conv)

lemma lock_clone_binding_NoneD:
  "lockGithubCloneDeploymentBinding j s = None
   \<Longrightarrow> \<forall>b\<in>set (d_clone_bindings s). gc_operation_job_id b \<noteq> j"
  by (auto simp: lockGithubCloneDeploymentBinding_def filter_empty_conv)

lemma fail_binding_gone:
  "b \<in> set (d_bindings (failGithubDeploymentBinding ck j m s)) \<Longrightarrow> gb_operation_job_id b \<noteq> j"
  by (auto simp: failGithubDeploymentBinding_def recordLockedGithubDeploymentFailure_def Let_def
      dest: lock_binding_NoneD split: option.splits)

lemma fail_clone_binding_gone:
  "b \<in> set (d_clone_bindings (failGithubCloneDeploymentBinding ck j m s))
   \<Longrightarrow> gc_operation_job_id b \<noteq> j"
  by (auto simp: failGithubCloneDeploymentBinding_def recordLockedGithubCloneDeploymentFailure_def
      Let_def dest: lock_clone_binding_NoneD split: option.splits)

lemma apply_locked_cases:
  assumes "applyLockedGithubDeploymentBinding X ck j b s = Inr (r, s')"
  obtains stack repository where
    "first_row (filter (\<lambda>st. cs_id st = gb_stack_id b) (d_stacks s)) = Some stack"
    "first_row (filter (\<lambda>g. gr_id g = gb_repository_id b) (d_repositories s)) = Some repository"
    "binding_matches X b stack repository"
    "r = bindingResolution b Deployed"
    "d_jobs s' = d_jobs s" "d_locks s' = d_locks s" "d_clone_bindings s' = d_clone_bindings s"
    "d_bindings s' = filter (\<lambda>b. gb_operation_job_id b \<noteq> j) (d_bindings s)"
    "d_stacks s' = update_where (\<lambda>st. cs_id st = gb_stack_id b)
       (\<lambda>st. st\<lparr>cs_status := ''deployed'', cs_source_current_commit_sha := deployed_commit b,
                cs_last_deploy_error := None, cs_updated_at := ck_now ck\<rparr>) (d_stacks s)"
    "d_repositories s' = update_where (\<lambda>g. gr_id g = gb_repository_id b)
       (\<lambda>g. g\<lparr>gr_last_deployed_at := Some (ck_now ck), gr_last_deployed_commit_sha := deployed_commit b,
               gr_update_check_error := None, gr_last_error := None,
               gr_updated_at := ck_now ck\<rparr>) (d_repositories s)"
proof -
  let ?st = "first_row (filter (\<lambda>st. cs_id st = gb_stack_id b) (d_stacks s))"
  let ?g = "first_row (filter (\<lambda>g. gr_id g = gb_repository_id b) (d_repositories s))"
  obtain stack repository where 1: "?st = Some stack" "?g = Some repository"
    using assms unfolding applyLockedGithubDeploymentBinding_def by (cases ?st; cases ?g) auto
  with assms have 2: "binding_matches X b stack repository"
    unfolding applyLockedGithubDeploymentBinding_def by (auto split: if_splits)
  from assms have "r = bindingResolution b Deployed" and "s' = delete_binding j (s\<lparr>
      d_stacks := update_where (\<lambda>st. cs_id st = gb_stack_id b)
       (\<lambda>st. st\<lparr>cs_status := ''deployed'', cs_source_current_commit_sha := deployed_commit b,
                cs_last_deploy_error := None, cs_updated_at := ck_now ck\<rparr>) (d_stacks s),
      d_repositories := update_where (\<lambda>g. gr_id g = gb_repository_id b)
       (\<lambda>g. g\<lparr>gr_last_deployed_at := Some (ck_now ck), gr_last_deployed_commit_sha := deployed_commit b,
               gr_update_check_error := None, gr_last_error := None,
               gr_updated_at := ck_now ck\<rparr>) (d_repositories s)\<rparr>)"
    unfolding applyLockedGithubDeploymentBinding_def by (simp_all add: 1 2)
  with 1 2 show ?thesis by (intro that [of stack repository]) simp_all
qed

lemma apply_clone_cases:
  assumes "applyLockedGithubCloneDeploymentBinding X ck j b s = Inr (r, s')"
  obtains expected env path stack repository where
    "validateExecutionBinding X b = Inr expected" "lockBoundCloneStack b s = Some stack"
    "stack_environment X (Some stack) = Inr env"
    "first_row (filter (\<lambda>g. gr_id g = gc_repository_id b) (d_repositories s)) = Some repository"
    "clone_binding_matches X b expected env path stack repository"
    "r = cloneBindingResolution b Deployed (Some (cs_id stack))"
    "d_jobs s' = d_jobs s" "d_locks s' = d_locks s" "d_bindings s' = d_bindings s"
    "d_clone_bindings s' = filter (\<lambda>b. gc_operation_job_id b \<noteq> j) (d_clone_bindings s)"
    "d_stacks s' = update_where (\<lambda>st. cs_id st = cs_id stack)
       (\<lambda>st. st\<lparr>cs_status := ''deployed'', cs_source_current_commit_sha := Some (gc_source_commit_sha b),
                cs_last_deploy_error := None, cs_updated_at := ck_now ck\<rparr>) (d_stacks s)"
proof (cases "lockBoundCloneStack b s")
  case None
  with assms show ?thesis
    by (auto simp: applyLockedGithubCloneDeploymentBinding_def and_then_Inr_iff Let_def)
next
  case (Some stack)
  show ?thesis
  proof (cases "first_row (filter (\<lambda>g. gr_id g = gc_repository_id b) (d_repositories s))")
    case None
    with Some assms show ?thesis
      by (auto simp: applyLockedGithubCloneDeploymentBinding_def and_then_Inr_iff Let_def)
  next
    case (Some repository)
    with \<open>lockBoundCloneStack b s = Some stack\<close> assms show ?thesis
      by (auto simp: applyLockedGithubCloneDeploymentBinding_def and_then_Inr_iff Let_def
          split: if_splits intro: that [of _ stack _ repository])
  qed
qed

lemma apply_binding_frame:
  assumes "applyGithubDeploymentBinding X ck j s = Inr (r, s')"
  shows "d_jobs s' = d_jobs s" "d_locks s' = d_locks s" "d_clone_bindings s' = d_clone_bindings s"
    "\<forall>b\<in>set (d_bindings s'). gb_operation_job_id b \<noteq> j"
    "set (d_bindings s') \<subseteq> set (d_bindings s)"
  using assms unfolding applyGithubDeploymentBinding_def
  by (auto simp: and_then_Inr_iff elim!: apply_locked_cases dest: lock_binding_NoneD split: option.splits)

lemma apply_clone_binding_frame:
  assumes "applyGithubCloneDeploymentBinding X ck j s = Inr (r, s')"
  shows "d_jobs s' = d_jobs s" "d_locks s' = d_locks s" "d_bindings s' = d_bindings s"
    "\<forall>b\<in>set (d_clone_bindings s'). gc_operation_job_id b \<noteq> j"
    "set (d_clone_bindings s') \<subseteq> set (d_clone_bindings s)"
  using assms unfolding applyGithubCloneDeploymentBinding_def
  by (auto simp: and_then_Inr_iff elim!: apply_clone_cases dest: lock_clone_binding_NoneD
      split: option.splits)

lemma apply_binding_other_tables:
  assumes "applyGithubDeploymentBinding X ck j s = Inr (r, s')"
  shows "d_attempts s' = d_attempts s" "d_migrations s' = d_migrations s"
  using assms unfolding applyGithubDeploymentBinding_def applyLockedGithubDeploymentBinding_def
  by (auto simp: and_then_Inr_iff split: option.splits if_splits)

lemma apply_clone_binding_other_tables:
  assumes "applyGithubCloneDeploymentBinding X ck j s = Inr (r, s')"
  shows "d_attempts s' = d_attempts s" "d_migrations s' = d_migrations s"
proof -
  have "d_attempts s' = d_attempts s \<and> d_migrations s' = d_migrations s"
    if "applyLockedGithubCloneDeploymentBinding X ck j b s = Inr (q, s')" for b q
    using that unfolding applyLockedGithubCloneDeploymentBinding_def Let_def
    by (cases "lockBoundCloneStack b s";
        cases "first_row (filter (\<lambda>g. gr_id g = gc_repository_id b) (d_repositories s))")
      (auto simp: and_then_Inr_iff split: if_splits)
  with assms show "d_attempts s' = d_attempts s" "d_migrations s' = d_migrations s"
    unfolding applyGithubCloneDeploymentBinding_def by (auto simp: and_then_Inr_iff split: option.splits)
qed

end
