(* ===== verification/Job_Finalization.thy ===== *)
theory Job_Finalization
  imports Deployment_Binding
begin

text \<open>
  The ends of a job (\<^verbatim>\<open>services/jobs.ts\<close>): completion under the lease with the finalisation
  of the restore attempt, the migration and the source bindings linked to it, failure,
  cancellation before start, and the recovery of jobs whose worker was lost.
\<close>

section \<open>Completion identities\<close>

record migration_identity =
  mi_migrationRunId :: uuid
  mi_recoveryPointId :: uuid
  mi_sourceLeftStopped :: bool

datatype disposition = Retained | Cleaned

record backup_restore_identity =
  bi_backupId :: uuid
  bi_targetHostId :: uuid
  bi_disposition :: disposition

definition contains :: "string \<Rightarrow> string \<Rightarrow> bool" where
  "contains needle hay = list_ex (\<lambda>n. starts_with needle (drop n hay)) [0..<Suc (length hay)]"

definition parseMigrationCompletionIdentity ::
    "job_row \<Rightarrow> (string \<times> json) list \<Rightarrow> migration_identity option result" where
  "parseMigrationCompletionIdentity row result =
     (if j_type row \<noteq> ''migration.execute'' then Inr None
      else let payload = objectFields (Some (j_payload row)) in
        case (get_prop payload ''migrationRunId'', get_prop result ''recoveryPointId'',
              get_prop result ''sourceLeftStopped'', get_prop payload ''strategy'') of
          (Some (JStr run), Some (JStr point), Some (JBool stopped), Some (JStr strategy)) \<Rightarrow>
            if get_prop result ''migrationRunId'' \<noteq> Some (JStr run)
               \<or> get_prop result ''strategy'' \<noteq> Some (JStr strategy)
            then Inl (PlainError ''Migration completion result does not match its linked operation'')
            else Inr (Some \<lparr>mi_migrationRunId = run, mi_recoveryPointId = point,
                            mi_sourceLeftStopped = stopped\<rparr>)
        | _ \<Rightarrow> Inl (PlainError ''Migration completion result does not match its linked operation''))"

definition backup_restore_types :: "string list" where
  "backup_restore_types = [''volume.restore'', ''hostPath.restore'', ''volume.clone'', ''backup.drill'']"

definition parseBackupRestoreCompletionIdentity ::
    "job_row \<Rightarrow> (string \<times> json) list \<Rightarrow> backup_restore_identity option result" where
  "parseBackupRestoreCompletionIdentity row result =
     (if j_type row \<notin> set backup_restore_types then Inr None
      else let payload = objectFields (Some (j_payload row));
               payloadBackupId = get_prop payload ''backupId'';
               clone = (j_type row = ''volume.clone'');
               backupId = (if clone then get_prop result ''backupId'' else payloadBackupId);
               targetHostId = (if clone then get_prop payload ''targetHostId''
                               else Some (opt_json (j_host_id row)));
               mismatch = Inl (PlainError
                 ''Backup restore completion result does not match its linked operation'')
           in case (as_string backupId, as_string targetHostId) of
                (Some backup, Some host) \<Rightarrow>
                  if (as_string payloadBackupId \<noteq> None \<and> payloadBackupId \<noteq> Some (JStr backup))
                     \<or> (clone \<and> get_prop result ''targetHostId'' \<noteq> Some (JStr host))
                     \<or> (j_type row = ''backup.drill''
                        \<and> get_prop result ''backupId'' \<noteq> Some (JStr backup))
                  then mismatch
                  else Inr (Some \<lparr>bi_backupId = backup, bi_targetHostId = host,
                      bi_disposition = (if j_type row = ''backup.drill'' then Cleaned else Retained)\<rparr>)
              | _ \<Rightarrow> mismatch)"

section \<open>Restore attempts\<close>

definition assertExactlyOneRestoreAttempt ::
    "attempt_row list \<Rightarrow> string \<Rightarrow> attempt_row result" where
  "assertExactlyOneRestoreAttempt attempts description =
     (case attempts of
        [a] \<Rightarrow> Inr a
      | _ \<Rightarrow> Inl (PlainError (description @ '' requires exactly one authoritative restore attempt'')))"

definition retain_attempt :: "clock \<Rightarrow> attempt_row \<Rightarrow> attempt_row" where
  "retain_attempt ck a = a\<lparr>ra_status := ''retained'', ra_cleanup_not_before := None,
     ra_reconciliation_token := None, ra_reconciliation_started_at := None,
     ra_last_error := None, ra_completed_at := Some (ck_now ck), ra_updated_at := ck_now ck\<rparr>"

definition retainExactRestoreAttempt ::
    "clock \<Rightarrow> attempt_row \<Rightarrow> uuid \<Rightarrow> uuid \<Rightarrow> uuid option \<Rightarrow> db \<Rightarrow> db result" where
  "retainExactRestoreAttempt ck attempt jobId pointId runId s =
     (let P = (\<lambda>a. ra_id a = ra_id attempt \<and> ra_operation_job_id a = Some jobId
            \<and> ra_recovery_point_id a = Some pointId \<and> ra_backup_id a = None
            \<and> ra_migration_run_id a = runId \<and> ra_retain_on_success a
            \<and> ra_status a = ''awaiting_disposition'')
      in if length (filter P (d_attempts s)) \<noteq> 1
         then Inl (PlainError ''Successful restore attempt could not be durably retained'')
         else Inr (s\<lparr>d_attempts := update_where P (retain_attempt ck) (d_attempts s)\<rparr>))"

definition retainExactBackupRestoreAttempt ::
    "clock \<Rightarrow> attempt_row \<Rightarrow> uuid \<Rightarrow> uuid \<Rightarrow> uuid \<Rightarrow> db \<Rightarrow> db result" where
  "retainExactBackupRestoreAttempt ck attempt jobId backupId hostId s =
     (let P = (\<lambda>a. ra_id a = ra_id attempt \<and> ra_operation_job_id a = Some jobId
            \<and> ra_recovery_point_id a = None \<and> ra_backup_id a = Some backupId
            \<and> ra_target_host_id a = hostId \<and> ra_migration_run_id a = None
            \<and> ra_retain_on_success a \<and> ra_status a = ''awaiting_disposition'')
      in if length (filter P (d_attempts s)) \<noteq> 1
         then Inl (PlainError ''Successful backup restore attempt could not be durably retained'')
         else Inr (s\<lparr>d_attempts := update_where P (retain_attempt ck) (d_attempts s)\<rparr>))"

definition attempts_of :: "uuid \<Rightarrow> db \<Rightarrow> attempt_row list" where
  "attempts_of jobId s = sort_key ra_created_at
     (filter (\<lambda>a. ra_operation_job_id a = Some jobId) (d_attempts s))"

definition finalizeBackupRestore ::
    "clock \<Rightarrow> job_row \<Rightarrow> backup_restore_identity \<Rightarrow> attempt_row list \<Rightarrow> db
     \<Rightarrow> (attempt_row option \<times> db) result" where
  "finalizeBackupRestore ck row identity attempts s =
     (case filter (\<lambda>h. dh_id h = bi_targetHostId identity) (d_hosts s) of
        [host] \<Rightarrow>
          if ''demo'' \<in> set (dh_tags host)
          then if attempts \<noteq> []
               then Inl (PlainError ''Demo backup restore completion must not have a durable remote attempt'')
               else Inr (None, s)
          else and_then (assertExactlyOneRestoreAttempt attempts ''Backup restore completion'')
            (\<lambda>attempt.
              if ra_recovery_point_id attempt \<noteq> None
                 \<or> ra_backup_id attempt \<noteq> Some (bi_backupId identity)
                 \<or> ra_target_host_id attempt \<noteq> bi_targetHostId identity
                 \<or> ra_operation_job_id attempt \<noteq> Some (j_id row)
                 \<or> ra_migration_run_id attempt \<noteq> None
                 \<or> ra_restore_scope attempt \<noteq> ''backup:'' @ bi_backupId identity
              then Inl (PlainError ''Backup restore attempt does not match its exact operation identity'')
              else if bi_disposition identity = Cleaned
              then if ra_retain_on_success attempt \<or> ra_status attempt \<noteq> ''cleaned''
                   then Inl (PlainError ''Backup drill completion requires its exact restore attempt to be cleaned'')
                   else Inr (Some attempt, s)
              else if \<not> ra_retain_on_success attempt \<or> ra_status attempt \<noteq> ''awaiting_disposition''
              then Inl (PlainError ''Backup restore completion requires its exact attempt to await retention'')
              else and_then (retainExactBackupRestoreAttempt ck attempt (j_id row)
                     (bi_backupId identity) (bi_targetHostId identity) s)
                   (\<lambda>s'. Inr (Some attempt, s')))
      | _ \<Rightarrow> Inl (PlainError ''Backup restore completion target host is no longer authoritative''))"

definition finalizeMigrationAttempt ::
    "clock \<Rightarrow> job_row \<Rightarrow> migration_identity option \<Rightarrow> attempt_row \<Rightarrow> db
     \<Rightarrow> (attempt_row option \<times> db) result" where
  "finalizeMigrationAttempt ck row identity attempt s =
     (let mismatch = Inl (PlainError (''Migration completion restore attempt does not match its '' @
            ''exact operation identity'')) in
      case identity of
        None \<Rightarrow> mismatch
      | Some m \<Rightarrow>
          if ra_recovery_point_id attempt \<noteq> Some (mi_recoveryPointId m)
             \<or> ra_backup_id attempt \<noteq> None
             \<or> ra_operation_job_id attempt \<noteq> Some (j_id row)
             \<or> ra_migration_run_id attempt \<noteq> Some (mi_migrationRunId m)
             \<or> ra_restore_scope attempt \<noteq> mi_recoveryPointId m
             \<or> \<not> ra_retain_on_success attempt
             \<or> ra_status attempt \<noteq> ''awaiting_disposition''
          then mismatch
          else and_then (retainExactRestoreAttempt ck attempt (j_id row) (mi_recoveryPointId m)
                 (Some (mi_migrationRunId m)) s)
               (\<lambda>s'. Inr (Some attempt, s')))"

definition finalizeRecoveryRestore ::
    "clock \<Rightarrow> job_row \<Rightarrow> attempt_row \<Rightarrow> db \<Rightarrow> (attempt_row option \<times> db) result" where
  "finalizeRecoveryRestore ck row attempt s =
     (let payload = objectFields (Some (j_payload row));
          drill = (get_prop payload ''drill'' = Some (JBool True));
          mismatch = Inl (PlainError ''Recovery restore attempt does not match its exact operation identity'')
      in case as_string (get_prop payload ''recoveryPointId'') of
           None \<Rightarrow> mismatch
         | Some point \<Rightarrow>
             if ra_recovery_point_id attempt \<noteq> Some point
                \<or> ra_backup_id attempt \<noteq> None
                \<or> Some (ra_target_host_id attempt) \<noteq> j_host_id row
                \<or> ra_operation_job_id attempt \<noteq> Some (j_id row)
                \<or> ra_migration_run_id attempt \<noteq> None
                \<or> ra_restore_scope attempt \<noteq> point
             then mismatch
             else if drill
             then if ra_retain_on_success attempt \<or> ra_status attempt \<noteq> ''cleaned''
                  then Inl (PlainError ''Recovery drill completion requires its exact restore attempt to be cleaned'')
                  else Inr (Some attempt, s)
             else if \<not> ra_retain_on_success attempt \<or> ra_status attempt \<noteq> ''awaiting_disposition''
             then Inl (PlainError ''Recovery restore completion requires its exact attempt to await retention'')
             else and_then (retainExactRestoreAttempt ck attempt (j_id row) point None s)
                  (\<lambda>s'. Inr (Some attempt, s')))"

definition finalizeSuccessfulRestoreAttempt ::
    "clock \<Rightarrow> job_row \<Rightarrow> migration_identity option \<Rightarrow> backup_restore_identity option \<Rightarrow> db
     \<Rightarrow> (attempt_row option \<times> db) result" where
  "finalizeSuccessfulRestoreAttempt ck row migrationIdentity backupIdentity s =
     (let attempts = attempts_of (j_id row) s in
      if j_type row \<noteq> ''recovery.restore'' \<and> j_type row \<noteq> ''migration.execute''
         \<and> backupIdentity = None
      then if attempts \<noteq> []
           then Inl (PlainError ''Operation job type does not support a bound restore attempt'')
           else Inr (None, s)
      else case backupIdentity of
        Some identity \<Rightarrow> finalizeBackupRestore ck row identity attempts s
      | None \<Rightarrow>
          and_then (assertExactlyOneRestoreAttempt attempts
             (if j_type row = ''migration.execute'' then ''Migration completion''
              else ''Recovery restore completion''))
          (\<lambda>attempt.
            if j_type row = ''migration.execute''
            then finalizeMigrationAttempt ck row migrationIdentity attempt s
            else finalizeRecoveryRestore ck row attempt s))"

section \<open>Migrations\<close>

definition restart_pending :: "uuid \<Rightarrow> point_row \<Rightarrow> bool" where
  "restart_pending runId p \<longleftrightarrow> rp_migration_run_id p = Some runId
     \<and> text_prop (rp_metadata p) ''sourceRestartPending'' = Some ''true''"

definition safely_blocked :: "(string \<times> json) list \<Rightarrow> bool" where
  "safely_blocked m \<longleftrightarrow>
     get_prop m ''sourceRestartReconciliationState'' = Some (JStr ''blocked_target_cleanup'')
     \<and> get_prop m ''sourceRestartTargetCleanupBlocked'' = Some (JBool True)
     \<and> (case as_array (get_prop m ''sourceRestartContainerIds'') of None \<Rightarrow> False | Some ids \<Rightarrow> ids \<noteq> [])"

definition resolved_metadata :: "string \<Rightarrow> (string \<times> json) list \<Rightarrow> (string \<times> json) list" where
  "resolved_metadata resolvedAt m =
     (let dropped = [''sourceRestartReconciliationToken'', ''sourceRestartReconciliationStartedAt'',
            ''sourceRestartReconciliationError'', ''sourceRestartReconciliationFailedAt'',
            ''sourceRestartTargetCleanupBlocked'', ''sourceRestartTargetCleanupBlockedAt'',
            ''sourceRestartTargetCleanupError'', ''sourceRestartTargetCleanupCompletedAt'',
            ''sourceRestartRearmedAt''];
          ids = (case get_prop m ''sourceRestartContainerIds'' of None \<Rightarrow> JArr [] | Some v \<Rightarrow> v)
      in obj_concat (filter (\<lambda>(k, _). k \<notin> set dropped) m)
           [(''sourceRestartPending'', JBool False), (''sourceRestartContainerIds'', JArr []),
            (''sourceLeftStopped'', JBool True), (''sourceStoppedIds'', ids),
            (''stoppedContainerIds'', ids), (''restartFailedIds'', JArr []),
            (''sourceRestartResolvedAt'', JStr resolvedAt),
            (''sourceRestartResolution'', JStr ''intentionally_left_stopped''),
            (''sourceRestartReconciliationState'', JStr ''completed'')])"

text \<open>The same condition as the \<^verbatim>\<open>WHERE\<close> clause states it, on the text of the values.\<close>

definition blocked_in_sql :: "(string \<times> json) list \<Rightarrow> bool" where
  "blocked_in_sql m \<longleftrightarrow>
     text_prop m ''sourceRestartReconciliationState'' = Some ''blocked_target_cleanup''
     \<and> text_prop m ''sourceRestartTargetCleanupBlocked'' = Some ''true''
     \<and> (case as_array (get_prop m ''sourceRestartContainerIds'') of None \<Rightarrow> False | Some ids \<Rightarrow> ids \<noteq> [])"

definition resolveStoppedSource :: "clock \<Rightarrow> migration_identity \<Rightarrow> db \<Rightarrow> db result" where
  "resolveStoppedSource ck identity s =
     (let Q = (\<lambda>q. rp_id q = mi_recoveryPointId identity
             \<and> restart_pending (mi_migrationRunId identity) q \<and> blocked_in_sql (rp_metadata q))
      in if length (filter Q (d_points s)) \<noteq> 1
         then Inl (PlainError ''Migration stopped-source disposition could not resolve its exact obligation'')
         else Inr (s\<lparr>d_points := update_where Q
                (\<lambda>q. q\<lparr>rp_metadata := resolved_metadata (show_int (ck_clock ck)) (rp_metadata q)\<rparr>)
                (d_points s)\<rparr>))"

definition settleSourceObligation :: "clock \<Rightarrow> migration_identity \<Rightarrow> db \<Rightarrow> db result" where
  "settleSourceObligation ck identity s =
     (let pending = filter (restart_pending (mi_migrationRunId identity)) (d_points s);
          unbound = Inl (PlainError (''Migration stopped-source disposition is not bound to its '' @
            ''exact final recovery point''))
      in if \<not> mi_sourceLeftStopped identity
         then if pending \<noteq> []
              then Inl (PlainError ''Migration reported no stopped source but has a pending restart obligation'')
              else Inr s
         else (case pending of
                 [p] \<Rightarrow>
                   if rp_id p \<noteq> mi_recoveryPointId identity then unbound
                   else if \<not> safely_blocked (rp_metadata p)
                   then Inl (PlainError ''Migration stopped-source obligation is not safely blocked on target cleanup'')
                   else resolveStoppedSource ck identity s
               | _ \<Rightarrow> unbound))"

definition finalizeLinkedMigrationSuccess ::
    "clock \<Rightarrow> migration_identity \<Rightarrow> uuid option \<Rightarrow> db \<Rightarrow> db result" where
  "finalizeLinkedMigrationSuccess ck identity restoreTargetHostId s =
     (let P = (\<lambda>m. mr_id m = mi_migrationRunId identity \<and> mr_mode m = ''execute''
            \<and> mr_status m = ''running'' \<and> mr_recovery_point_id m = Some (mi_recoveryPointId identity))
      in (case filter P (d_migrations s) of
            [run] \<Rightarrow>
              if restoreTargetHostId \<noteq> Some (mr_target_host_id run)
              then Inl (PlainError ''Migration restore attempt target does not match its linked migration run'')
              else settleSourceObligation ck identity
                (s\<lparr>d_migrations := update_where P (\<lambda>m. m\<lparr>mr_status := ''completed'',
                      mr_error := None, mr_completed_at := Some (ck_now ck)\<rparr>) (d_migrations s)\<rparr>)
          | _ \<Rightarrow> Inl (PlainError ''Migration completion did not update its active linked run'')))"

section \<open>Completion\<close>

definition complete_update :: "clock \<Rightarrow> json \<Rightarrow> job_row \<Rightarrow> job_row" where
  "complete_update ck resultValue r = r\<lparr>j_status := Completed, j_result := Some resultValue,
     j_error := None, j_completed_at := Some (ck_now ck), j_lease_owner := None,
     j_lease_expires_at := None, j_updated_at := ck_now ck\<rparr>"

definition finalizeCompletion ::
    "externs \<Rightarrow> clock \<Rightarrow> job_row \<Rightarrow> (string \<times> json) list \<Rightarrow> db \<Rightarrow> db result" where
  "finalizeCompletion X ck row safeResult s =
     and_then (parseMigrationCompletionIdentity row safeResult) (\<lambda>migration.
     and_then (parseBackupRestoreCompletionIdentity row safeResult) (\<lambda>backup.
     and_then (finalizeSuccessfulRestoreAttempt ck row migration backup s) (\<lambda>(attempt, s1).
     and_then (case migration of
                 None \<Rightarrow> Inr s1
               | Some m \<Rightarrow> finalizeLinkedMigrationSuccess ck m
                             (map_option ra_target_host_id attempt) s1) (\<lambda>s2.
     and_then (applyGithubDeploymentBinding X ck (j_id row) s2) (\<lambda>(_, s3).
     and_then (applyGithubCloneDeploymentBinding X ck (j_id row) s3) (\<lambda>(_, s4).
       Inr s4))))))"

definition completeJob ::
    "externs \<Rightarrow> clock \<Rightarrow> uuid \<Rightarrow> (string \<times> json) list \<Rightarrow> job_lease \<Rightarrow> db \<Rightarrow> bool result \<times> db" where
  "completeJob X ck jobId resultValue lease =
     withTransaction (\<lambda>s.
       let safeResult = x_sanitizeFields X (JObj resultValue);
           P = leasePredicate ck jobId lease
       in case filter P (d_jobs s) of
            [r] \<Rightarrow> and_then (finalizeCompletion X ck (complete_update ck safeResult r)
                      (objectFields (Some safeResult))
                      (update_jobs P (complete_update ck safeResult) s))
                    (\<lambda>s'. Inr (True, s'))
          | _ \<Rightarrow> Inr (False, update_jobs P (complete_update ck safeResult) s))"

section \<open>Linked failures\<close>

definition fail_analysis :: "clock \<Rightarrow> job_row \<Rightarrow> string \<Rightarrow> db \<Rightarrow> db" where
  "fail_analysis ck row message s =
     (case as_string (get_prop (objectFields (Some (j_payload row))) ''analysisId'') of
        Some analysisId \<Rightarrow>
          if j_type row = ''deploy.analyze'' \<or> j_type row = ''deploy.execute''
          then s\<lparr>d_analyses := update_where
                 (\<lambda>a. da_id a = analysisId
                      \<and> da_status a \<in> {''queued'', ''analyzing'', ''ready'', ''deploying''})
                 (\<lambda>a. a\<lparr>da_status := ''failed'', da_error := Some message, da_updated_at := ck_now ck\<rparr>)
                 (d_analyses s)\<rparr>
          else s
      | None \<Rightarrow> s)"

definition fail_backup :: "clock \<Rightarrow> job_row \<Rightarrow> string \<Rightarrow> db \<Rightarrow> db" where
  "fail_backup ck row message s =
     (case as_string (get_prop (objectFields (Some (j_payload row))) ''backupId'') of
        Some backupId \<Rightarrow>
          if j_type row \<in> {''volume.backup'', ''hostPath.backup'', ''volume.clone''}
          then s\<lparr>d_backups := update_where
                   (\<lambda>b. bk_id b = backupId \<and> bk_status b \<in> {''queued'', ''running''})
                   (\<lambda>b. b\<lparr>bk_status := ''failed'', bk_error := Some message,
                           bk_completed_at := Some (ck_now ck)\<rparr>) (d_backups s),
                 d_backup_schedules := update_where
                   (\<lambda>sch. list_ex (\<lambda>b. bk_id b = backupId
                            \<and> text_prop (bk_metadata b) ''scheduleId'' = Some (bs_id sch)) (d_backups s))
                   (\<lambda>sch. sch\<lparr>bs_last_status := Some ''failed'', bs_last_error := Some message,
                               bs_updated_at := ck_now ck\<rparr>) (d_backup_schedules s)\<rparr>
          else if j_type row = ''backup.drill''
          then s\<lparr>d_backups := update_where (\<lambda>b. bk_id b = backupId)
                   (\<lambda>b. b\<lparr>bk_last_drill_at := Some (ck_now ck),
                           bk_last_drill_status := Some ''failed''\<rparr>) (d_backups s)\<rparr>
          else s
      | None \<Rightarrow> s)"

definition in_flight :: "string \<Rightarrow> bool" where
  "in_flight status \<longleftrightarrow> status = ''queued'' \<or> status = ''running''"

definition fail_artifacts :: "clock \<Rightarrow> (uuid \<Rightarrow> bool) \<Rightarrow> string \<Rightarrow> db \<Rightarrow> db" where
  "fail_artifacts ck P message s = s\<lparr>d_artifacts := update_where
     (\<lambda>a. P (rf_recovery_point_id a) \<and> in_flight (rf_status a))
     (\<lambda>a. a\<lparr>rf_status := ''failed'', rf_error := Some message,
             rf_completed_at := Some (ck_now ck)\<rparr>) (d_artifacts s)\<rparr>"

definition fail_capture :: "clock \<Rightarrow> job_row \<Rightarrow> string \<Rightarrow> db \<Rightarrow> db" where
  "fail_capture ck row message s =
     (case as_string (get_prop (objectFields (Some (j_payload row))) ''recoveryPointId'') of
        Some pointId \<Rightarrow>
          if j_type row = ''recovery.create'' \<or> j_type row = ''recovery.capture''
          then fail_artifacts ck (\<lambda>i. i = pointId) message (s\<lparr>d_points := update_where
                 (\<lambda>p. rp_id p = pointId \<and> in_flight (rp_status p))
                 (\<lambda>p. p\<lparr>rp_status := ''failed'',
                    rp_error := Some (case rp_error p of
                        Some (c # cs) \<Rightarrow>
                          if text_prop (rp_metadata p) ''sourceLeftStopped'' = Some ''true''
                          then (c # cs) @ ''; '' @ message else message
                      | _ \<Rightarrow> message),
                    rp_completed_at := Some (ck_now ck)\<rparr>) (d_points s)\<rparr>)
          else s
      | None \<Rightarrow> s)"

definition fail_drill :: "clock \<Rightarrow> job_row \<Rightarrow> string \<Rightarrow> db \<Rightarrow> db" where
  "fail_drill ck row message s =
     (let payload = objectFields (Some (j_payload row)) in
      case as_string (get_prop payload ''recoveryPointId'') of
        Some pointId \<Rightarrow>
          if j_type row = ''recovery.restore'' \<and> get_prop payload ''drill'' = Some (JBool True)
          then s\<lparr>d_points := update_where (\<lambda>p. rp_id p = pointId)
                   (\<lambda>p. p\<lparr>rp_last_drill_at := Some (ck_now ck), rp_last_drill_status := Some ''failed'',
                           rp_last_drill_error := Some message\<rparr>) (d_points s),
                 d_recovery_schedules := update_where
                   (\<lambda>sch. list_ex (\<lambda>p. rp_id p = pointId
                            \<and> text_prop (rp_metadata p) ''scheduleId'' = Some (rk_id sch)) (d_points s))
                   (\<lambda>sch. sch\<lparr>rk_last_drill_at := Some (ck_now ck),
                               rk_last_drill_status := Some ''failed'',
                               rk_last_drill_error := Some message,
                               rk_updated_at := ck_now ck\<rparr>) (d_recovery_schedules s)\<rparr>
          else s
      | None \<Rightarrow> s)"

definition compensation_evidence :: string where
  "compensation_evidence =
     ''Automatic migration compensation remains armed. Reconciliation evidence:''"

definition fail_migration :: "clock \<Rightarrow> job_row \<Rightarrow> string \<Rightarrow> db \<Rightarrow> db" where
  "fail_migration ck row message s =
     (case as_string (get_prop (objectFields (Some (j_payload row))) ''migrationRunId'') of
        Some runId \<Rightarrow>
          if j_type row = ''migration.execute''
          then let linked = Option.bind (first_row (filter (\<lambda>m. mr_id m = runId) (d_migrations s)))
                              mr_recovery_point_id;
                   of_run = (\<lambda>p. rp_migration_run_id p = Some runId \<or> Some (rp_id p) = linked);
                   s1 = s\<lparr>d_migrations := update_where
                      (\<lambda>m. mr_id m = runId \<and> in_flight (mr_status m))
                      (\<lambda>m. m\<lparr>mr_status := ''failed'',
                        mr_error := Some (case mr_error m of
                            Some e \<Rightarrow> if contains compensation_evidence e
                                      then e @ [CHR 0x0A] @ message else message
                          | None \<Rightarrow> message),
                        mr_completed_at := Some (ck_now ck)\<rparr>) (d_migrations s)\<rparr>;
                   s2 = s1\<lparr>d_points := update_where (\<lambda>p. of_run p \<and> in_flight (rp_status p))
                      (\<lambda>p. p\<lparr>rp_status := ''failed'', rp_error := Some message,
                              rp_completed_at := Some (ck_now ck)\<rparr>) (d_points s1)\<rparr>
               in fail_artifacts ck (\<lambda>i. list_ex (\<lambda>p. rp_id p = i \<and> of_run p) (d_points s2)) message s2
          else s
      | None \<Rightarrow> s)"

definition finalizeLinkedOperationFailure :: "clock \<Rightarrow> job_row \<Rightarrow> string \<Rightarrow> db \<Rightarrow> db" where
  "finalizeLinkedOperationFailure ck row message s =
     fail_migration ck row message
       (fail_drill ck row message
         (fail_capture ck row message
           (fail_backup ck row message
             (fail_analysis ck row message s))))"

section \<open>Failure, cancellation, recovery of lost workers\<close>

definition fail_update :: "clock \<Rightarrow> string \<Rightarrow> job_row \<Rightarrow> job_row" where
  "fail_update ck message r = r\<lparr>j_status := Failed, j_error := Some message,
     j_completed_at := Some (ck_now ck), j_lease_owner := None, j_lease_expires_at := None,
     j_updated_at := ck_now ck\<rparr>"

definition failure_message :: "job_row \<Rightarrow> string \<Rightarrow> string" where
  "failure_message row sanitized =
     (if \<not> githubDeploymentFailureNeedsReconciliation sanitized
         \<and> completedDeploymentProofNeedsReconciliation row
      then REMOTE_OUTCOME_UNKNOWN @ '' The remote Compose deployment completed, but local '' @
           ''finalization failed: '' @ sanitized
      else sanitized)"

definition settle_bindings :: "clock \<Rightarrow> uuid \<Rightarrow> string \<Rightarrow> db \<Rightarrow> db" where
  "settle_bindings ck jobId message s =
     (if githubDeploymentFailureNeedsReconciliation message
      then retainGithubCloneDeploymentBinding ck jobId message
             (retainGithubDeploymentBinding ck jobId message s)
      else failGithubCloneDeploymentBinding ck jobId message
             (failGithubDeploymentBinding ck jobId message s))"

definition failJob ::
    "externs \<Rightarrow> clock \<Rightarrow> uuid \<Rightarrow> string \<Rightarrow> job_lease \<Rightarrow> db \<Rightarrow> bool result \<times> db" where
  "failJob X ck jobId rawMessage lease =
     withTransaction (\<lambda>s.
       let sanitized = x_sanitizeText X rawMessage;
           P = leasePredicate ck jobId lease;
           s1 = update_jobs P (fail_update ck sanitized) s
       in case filter P (d_jobs s) of
            [] \<Rightarrow> Inr (False, s)
          | r # _ \<Rightarrow>
              let row = fail_update ck sanitized r;
                  message = failure_message row sanitized;
                  s2 = (if message \<noteq> sanitized
                        then update_jobs (\<lambda>q. j_id q = jobId \<and> j_status q = Failed)
                               (\<lambda>q. q\<lparr>j_error := Some message, j_updated_at := ck_now ck\<rparr>) s1
                        else s1)
              in Inr (True, settle_bindings ck jobId message
                              (finalizeLinkedOperationFailure ck row message s2)))"

definition cancellationMessage :: string where
  "cancellationMessage = ''Canceled before start''"

definition cancel_update :: "clock \<Rightarrow> job_row \<Rightarrow> job_row" where
  "cancel_update ck r = r\<lparr>j_status := Canceled, j_error := Some cancellationMessage,
     j_completed_at := Some (ck_now ck), j_lease_owner := None, j_lease_expires_at := None,
     j_updated_at := ck_now ck\<rparr>"

text \<open>\<open>onCanceled\<close> is the caller's callback inside the transaction.\<close>

definition cancelQueuedJob ::
    "clock \<Rightarrow> uuid \<Rightarrow> (operation_job \<Rightarrow> db \<Rightarrow> db result) \<Rightarrow> db
     \<Rightarrow> (operation_job option \<times> bool) result \<times> db" where
  "cancelQueuedJob ck jobId onCanceled =
     withTransaction (\<lambda>s.
       let P = (\<lambda>r. j_id r = jobId \<and> j_status r = Queued)
       in case filter P (d_jobs s) of
            r # _ \<Rightarrow>
              let row = cancel_update ck r;
                  s1 = update_jobs P (cancel_update ck) s;
                  s2 = finalizeLinkedOperationFailure ck row cancellationMessage s1;
                  s3 = discardGithubCloneDeploymentBinding jobId
                         (discardGithubDeploymentBinding jobId s2)
              in and_then (onCanceled (mapJob row) s3) (\<lambda>s4. Inr ((Some (mapJob row), True), s4))
          | [] \<Rightarrow> Inr ((map_option mapJob (first_row (filter (\<lambda>r. j_id r = jobId) (d_jobs s))),
                        False), s))"

definition lease_expired :: "clock \<Rightarrow> job_row \<Rightarrow> bool" where
  "lease_expired ck r \<longleftrightarrow>
     (case j_lease_expires_at r of
        Some e \<Rightarrow> e \<le> ck_now ck
      | None \<Rightarrow> j_lease_owner r = None
          \<and> (case j_started_at r of Some t \<Rightarrow> t | None \<Rightarrow> j_updated_at r) \<le> ck_now ck - seconds 120)"

text \<open>
  \<^verbatim>\<open>NOT (type = 'system.self_update' AND result @> '{"handoffPending":true}')\<close>: for a self-update
  whose result is null the containment is unknown, so is its negation, and the row is
  filtered out.
\<close>

definition not_handed_off :: "job_row \<Rightarrow> bool" where
  "not_handed_off r \<longleftrightarrow> j_type r \<noteq> ''system.self_update'' \<or> (j_result r \<noteq> None \<and> \<not> handoffPending r)"

definition recoverable :: "clock \<Rightarrow> uuid list \<Rightarrow> job_row \<Rightarrow> bool" where
  "recoverable ck locked r \<longleftrightarrow> j_status r = Running \<and> not_handed_off r \<and> lease_expired ck r
     \<and> j_id r \<notin> set locked"

text \<open>\<^verbatim>\<open>ORDER BY lease_expires_at ASC, created_at ASC ... LIMIT 100\<close>: nulls sort last.\<close>

definition expired_jobs :: "clock \<Rightarrow> uuid list \<Rightarrow> db \<Rightarrow> job_row list" where
  "expired_jobs ck locked s = take 100
     (sort_key (\<lambda>r. if j_lease_expires_at r = None then 1 else (0 :: nat))
       (sort_key (\<lambda>r. case j_lease_expires_at r of None \<Rightarrow> 0 | Some e \<Rightarrow> e)
         (sort_key j_created_at (filter (recoverable ck locked) (d_jobs s)))))"

definition lost_message :: "job_row \<Rightarrow> string" where
  "lost_message r = WORKER_LOST @ '': Worker lease expired during attempt ''
     @ show_nat (j_attempt_count r)"

definition requeue_lost :: "clock \<Rightarrow> string \<Rightarrow> job_row \<Rightarrow> job_row" where
  "requeue_lost ck message r = r\<lparr>j_status := Queued, j_started_at := None, j_lease_owner := None,
     j_lease_expires_at := None, j_error := Some message, j_progress := JArr [],
     j_updated_at := ck_now ck\<rparr>"

definition auto_retryable :: "job_row \<Rightarrow> bool" where
  "auto_retryable r \<longleftrightarrow> j_type r \<in> set AUTO_RETRY_JOB_TYPES \<and> j_attempt_count r < MAX_AUTO_ATTEMPTS"

definition recover_one :: "clock \<Rightarrow> (nat \<times> nat) \<times> db \<Rightarrow> job_row \<Rightarrow> (nat \<times> nat) \<times> db" where
  "recover_one ck = (\<lambda>((requeued, failed), s) r.
     let message = lost_message r;
         P = (\<lambda>q. j_id q = j_id r \<and> j_status q = Running)
     in if auto_retryable r
        then ((requeued + 1, failed), update_jobs P (requeue_lost ck message) s)
        else ((requeued, failed + 1),
              retainGithubCloneDeploymentBinding ck (j_id r) message
                (retainGithubDeploymentBinding ck (j_id r) message
                  (finalizeLinkedOperationFailure ck r message
                    (update_jobs P (fail_update ck message) s)))))"

definition recoverExpiredJobs :: "clock \<Rightarrow> uuid list \<Rightarrow> db \<Rightarrow> (nat \<times> nat) \<times> db" where
  "recoverExpiredJobs ck locked s = foldl (recover_one ck) ((0, 0), s) (expired_jobs ck locked s)"

text \<open>What the loop makes of a running job, and what it leaves alone.\<close>

definition recovered :: "clock \<Rightarrow> job_row \<Rightarrow> job_row" where
  "recovered ck r = (if auto_retryable r then requeue_lost ck (lost_message r) r
                     else fail_update ck (lost_message r) r)"

text \<open>A migration whose restore attempt awaits its disposition, as the theorems apply to it.\<close>

definition sample_migration_db :: db where
  "sample_migration_db = (jobs_db [(leased_job ''migration.execute'')\<lparr>j_payload :=
       JObj [(''migrationRunId'', JStr ''run-1''), (''strategy'', JStr ''copy'')]\<rparr>])\<lparr>
     d_attempts := [\<lparr>ra_id = ''att-1'', ra_recovery_point_id = Some ''point-1'', ra_backup_id = None,
       ra_target_host_id = ''h2'', ra_operation_job_id = Some ''job-1'', ra_migration_run_id = Some ''run-1'',
       ra_restore_scope = ''point-1'', ra_allowed_path_roots = JArr [], ra_retain_on_success = True, ra_status = ''awaiting_disposition'',
       ra_heartbeat_at = 0, ra_cleanup_not_before = None, ra_reconciliation_token = None, ra_reconciliation_started_at = None,
       ra_last_error = None, ra_created_at = 0, ra_completed_at = None, ra_updated_at = 0\<rparr>],
     d_migrations := [\<lparr>mr_id = ''run-1'', mr_mode = ''execute'', mr_status = ''running'',
       mr_source_host_id = ''h1'', mr_target_host_id = ''h2'', mr_source_app_identity = JNull,
       mr_plan = JNull, mr_recovery_point_id = Some ''point-1'', mr_error = None,
       mr_completed_at = None\<rparr>]\<rparr>"

definition sample_migration_result :: "(string \<times> json) list" where
  "sample_migration_result = [(''migrationRunId'', JStr ''run-1''), (''strategy'', JStr ''copy''),
     (''recoveryPointId'', JStr ''point-1''), (''sourceLeftStopped'', JBool False)]"

section \<open>Lemmas\<close>

lemma fail_parts_frame [simp]:
  "d_jobs (fail_analysis ck r m s) = d_jobs s" "d_jobs (fail_backup ck r m s) = d_jobs s"
  "d_jobs (fail_artifacts ck P m s) = d_jobs s" "d_jobs (fail_capture ck r m s) = d_jobs s"
  "d_jobs (fail_drill ck r m s) = d_jobs s" "d_jobs (fail_migration ck r m s) = d_jobs s"
  "d_bindings (fail_analysis ck r m s) = d_bindings s" "d_bindings (fail_backup ck r m s) = d_bindings s"
  "d_bindings (fail_artifacts ck P m s) = d_bindings s" "d_bindings (fail_capture ck r m s) = d_bindings s"
  "d_bindings (fail_drill ck r m s) = d_bindings s" "d_bindings (fail_migration ck r m s) = d_bindings s"
  "d_clone_bindings (fail_analysis ck r m s) = d_clone_bindings s"
  "d_clone_bindings (fail_backup ck r m s) = d_clone_bindings s"
  "d_clone_bindings (fail_artifacts ck P m s) = d_clone_bindings s"
  "d_clone_bindings (fail_capture ck r m s) = d_clone_bindings s"
  "d_clone_bindings (fail_drill ck r m s) = d_clone_bindings s"
  "d_clone_bindings (fail_migration ck r m s) = d_clone_bindings s"
  by (simp_all add: fail_analysis_def fail_backup_def fail_artifacts_def fail_capture_def
      fail_drill_def fail_migration_def Let_def split: option.split)

lemma finalize_failure_frame [simp]:
  "d_jobs (finalizeLinkedOperationFailure ck r m s) = d_jobs s"
  "d_bindings (finalizeLinkedOperationFailure ck r m s) = d_bindings s"
  "d_clone_bindings (finalizeLinkedOperationFailure ck r m s) = d_clone_bindings s"
  by (simp_all add: finalizeLinkedOperationFailure_def)

lemma settle_bindings_jobs [simp]: "d_jobs (settle_bindings ck j m s) = d_jobs s"
  by (simp add: settle_bindings_def)

lemma retain_attempt_frame:
  "retainExactRestoreAttempt ck a j p m s = Inr s' \<Longrightarrow> d_jobs s' = d_jobs s"
  "retainExactBackupRestoreAttempt ck a j b h s = Inr s' \<Longrightarrow> d_jobs s' = d_jobs s"
  by (auto simp: retainExactRestoreAttempt_def retainExactBackupRestoreAttempt_def Let_def
      split: if_splits)

lemma backup_restore_frame:
  "finalizeBackupRestore ck r i as s = Inr (a, s') \<Longrightarrow> d_jobs s' = d_jobs s"
  by (auto simp: finalizeBackupRestore_def and_then_Inr_iff
      dest: retain_attempt_frame split: if_splits list.splits)

lemma migration_attempt_frame:
  "finalizeMigrationAttempt ck r m at s = Inr (a, s') \<Longrightarrow> d_jobs s' = d_jobs s"
  by (auto simp: finalizeMigrationAttempt_def Let_def and_then_Inr_iff
      dest: retain_attempt_frame split: if_splits option.splits)

lemma recovery_restore_frame:
  "finalizeRecoveryRestore ck r at s = Inr (a, s') \<Longrightarrow> d_jobs s' = d_jobs s"
  by (auto simp: finalizeRecoveryRestore_def Let_def and_then_Inr_iff
      dest: retain_attempt_frame split: if_splits option.splits)

lemma restore_attempt_frame:
  assumes "finalizeSuccessfulRestoreAttempt ck r m b s = Inr (a, s')"
  shows "d_jobs s' = d_jobs s"
  using assms
  by (auto simp: finalizeSuccessfulRestoreAttempt_def Let_def and_then_Inr_iff
      dest: backup_restore_frame migration_attempt_frame recovery_restore_frame
      split: option.splits if_splits)

lemma settle_obligation_frame:
  "settleSourceObligation ck m s = Inr s' \<Longrightarrow> d_jobs s' = d_jobs s"
  "settleSourceObligation ck m s = Inr s' \<Longrightarrow> d_migrations s' = d_migrations s"
  by (auto simp: settleSourceObligation_def resolveStoppedSource_def Let_def
      split: if_splits list.splits)

lemma migration_success_frame:
  assumes "finalizeLinkedMigrationSuccess ck m h s = Inr s'"
  shows "d_jobs s' = d_jobs s"
  using assms by (auto simp: finalizeLinkedMigrationSuccess_def Let_def
      dest: settle_obligation_frame split: if_splits list.splits)

lemma finalizeCompletion_jobs:
  assumes "finalizeCompletion X ck r res s = Inr s'"
  shows "d_jobs s' = d_jobs s"
  using assms
  by (auto simp: finalizeCompletion_def and_then_Inr_iff
      dest!: restore_attempt_frame migration_success_frame apply_binding_frame(1)
        apply_clone_binding_frame(1) split: option.splits)

lemma complete_update_sel [simp]:
  "j_id (complete_update ck v r) = j_id r" "j_type (complete_update ck v r) = j_type r"
  "j_payload (complete_update ck v r) = j_payload r" "j_host_id (complete_update ck v r) = j_host_id r"
  "j_status (complete_update ck v r) = Completed" "j_result (complete_update ck v r) = Some v"
  "j_lease_owner (complete_update ck v r) = None" "j_lease_expires_at (complete_update ck v r) = None"
  "j_attempt_count (complete_update ck v r) = j_attempt_count r"
  by (simp_all add: complete_update_def)

lemma fail_update_sel [simp]:
  "j_id (fail_update ck m r) = j_id r" "j_type (fail_update ck m r) = j_type r"
  "j_payload (fail_update ck m r) = j_payload r" "j_host_id (fail_update ck m r) = j_host_id r"
  "j_status (fail_update ck m r) = Failed" "j_error (fail_update ck m r) = Some m"
  "j_result (fail_update ck m r) = j_result r"
  "j_lease_owner (fail_update ck m r) = None" "j_lease_expires_at (fail_update ck m r) = None"
  "j_attempt_count (fail_update ck m r) = j_attempt_count r"
  by (simp_all add: fail_update_def)

lemma requeue_lost_sel [simp]:
  "j_id (requeue_lost ck m r) = j_id r" "j_type (requeue_lost ck m r) = j_type r"
  "j_payload (requeue_lost ck m r) = j_payload r" "j_host_id (requeue_lost ck m r) = j_host_id r"
  "j_status (requeue_lost ck m r) = Queued" "j_error (requeue_lost ck m r) = Some m"
  "j_lease_owner (requeue_lost ck m r) = None" "j_lease_expires_at (requeue_lost ck m r) = None"
  "j_attempt_count (requeue_lost ck m r) = j_attempt_count r"
  by (simp_all add: requeue_lost_def)

lemma cancel_update_sel [simp]:
  "j_id (cancel_update ck r) = j_id r" "j_type (cancel_update ck r) = j_type r"
  "j_payload (cancel_update ck r) = j_payload r" "j_host_id (cancel_update ck r) = j_host_id r"
  "j_status (cancel_update ck r) = Canceled" "j_error (cancel_update ck r) = Some cancellationMessage"
  "j_lease_owner (cancel_update ck r) = None" "j_lease_expires_at (cancel_update ck r) = None"
  "j_attempt_count (cancel_update ck r) = j_attempt_count r"
  by (simp_all add: cancel_update_def)

subsection \<open>The recovery loop\<close>

lemma recovered_sel [simp]:
  "j_id (recovered ck r) = j_id r" "j_type (recovered ck r) = j_type r"
  "j_attempt_count (recovered ck r) = j_attempt_count r"
  "j_error (recovered ck r) = Some (lost_message r)"
  "j_lease_owner (recovered ck r) = None" "j_lease_expires_at (recovered ck r) = None"
  "j_status (recovered ck r) \<noteq> Running"
  by (simp_all add: recovered_def)

lemma recover_one_jobs:
  assumes "distinct (map j_id (d_jobs s))" and "r \<in> set (d_jobs s)" and "j_status r = Running"
  shows "d_jobs (snd (recover_one ck (c, s) r))
       = update_where (\<lambda>q. j_id q = j_id r) (recovered ck) (d_jobs s)"
proof -
  have "q = r" if "q \<in> set (d_jobs s)" "j_id q = j_id r" for q
    using jobs.same_key_same_row [of "d_jobs s" q r] assms that by (simp add: jobs.keys_unique_def)
  then have "update_where (\<lambda>q. j_id q = j_id r \<and> j_status q = Running) f (d_jobs s)
      = update_where (\<lambda>q. j_id q = j_id r) (recovered ck) (d_jobs s)"
    if "f r = recovered ck r" for f
    unfolding update_where_def using assms(3) that by auto
  then show ?thesis
    by (cases c) (auto simp: recover_one_def Let_def recovered_def)
qed

lemma recover_fold_jobs:
  assumes "distinct (map j_id (d_jobs s))" and "distinct (map j_id rows)"
    and "\<forall>r\<in>set rows. r \<in> set (d_jobs s) \<and> j_status r = Running"
  shows "d_jobs (snd (foldl (recover_one ck) (c, s) rows))
       = update_where (\<lambda>q. j_id q \<in> j_id ` set rows) (recovered ck) (d_jobs s)"
  using assms
proof (induction rows arbitrary: c s)
  case Nil
  then show ?case by (simp add: update_where_none)
next
  case (Cons r rows)
  obtain c1 s1 where one: "recover_one ck (c, s) r = (c1, s1)" by (cases "recover_one ck (c, s) r")
  have s1: "d_jobs s1 = update_where (\<lambda>q. j_id q = j_id r) (recovered ck) (d_jobs s)"
    using recover_one_jobs [of s r ck c] Cons.prems one by simp
  have keep: "q \<in> set (d_jobs s1)" if "q \<in> set rows" for q
    using Cons.prems that unfolding s1 set_update_where by (force simp: image_iff)
  have "d_jobs (snd (foldl (recover_one ck) (c1, s1) rows))
      = update_where (\<lambda>q. j_id q \<in> j_id ` set rows) (recovered ck) (d_jobs s1)"
    using Cons.prems keep by (intro Cons.IH) (simp_all add: s1 map_update_where)
  also have "\<dots> = update_where (\<lambda>q. j_id q \<in> j_id ` set (r # rows)) (recovered ck) (d_jobs s)"
    using Cons.prems(2) unfolding s1 update_where_def by (auto simp: image_iff)
  finally show ?case by (simp add: one)
qed

lemma expired_jobs_sub:
  "set (expired_jobs ck locked s) \<subseteq> {r \<in> set (d_jobs s). recoverable ck locked r}"
  by (auto simp: expired_jobs_def dest!: in_set_takeD)

lemma distinct_insort_key_map:
  "distinct (map g (insort_key f x xs)) \<longleftrightarrow> g x \<notin> g ` set xs \<and> distinct (map g xs)"
  by (induction xs) (auto simp: set_insort_key)

lemma distinct_sort_key_map: "distinct (map g (sort_key f xs)) = distinct (map g xs)"
  by (induction xs) (simp_all add: distinct_insort_key_map)

lemma expired_jobs_distinct:
  assumes "distinct (map j_id (d_jobs s))"
  shows "distinct (map j_id (expired_jobs ck locked s))"
proof -
  have "distinct (map j_id (filter (recoverable ck locked) (d_jobs s)))"
    using assms by (simp add: distinct_map_filter)
  then show ?thesis
    unfolding expired_jobs_def take_map [symmetric]
    by (intro distinct_take) (simp add: distinct_sort_key_map)
qed

lemma expired_jobs_length: "length (expired_jobs ck locked s) \<le> 100"
  by (simp add: expired_jobs_def)

lemma recoverExpiredJobs_jobs:
  assumes "distinct (map j_id (d_jobs s))"
  shows "d_jobs (snd (recoverExpiredJobs ck locked s))
       = update_where (\<lambda>q. j_id q \<in> j_id ` set (expired_jobs ck locked s)) (recovered ck) (d_jobs s)"
  unfolding recoverExpiredJobs_def using assms expired_jobs_sub [of ck locked s]
  by (intro recover_fold_jobs expired_jobs_distinct) (auto simp: recoverable_def)

lemma recover_counts:
  "fst (foldl (recover_one ck) ((a, b), s) rows)
   = (a + length (filter auto_retryable rows), b + length (filter (\<lambda>r. \<not> auto_retryable r) rows))"
  by (induction rows arbitrary: a b s) (auto simp: recover_one_def Let_def)

subsection \<open>Completion\<close>

lemma completeJob_True:
  assumes "completeJob X ck i v l s = (Inr True, s')"
  obtains r s1 where "filter (leasePredicate ck i l) (d_jobs s) = [r]"
    "finalizeCompletion X ck (complete_update ck (x_sanitizeFields X (JObj v)) r)
       (objectFields (Some (x_sanitizeFields X (JObj v))))
       (update_jobs (leasePredicate ck i l) (complete_update ck (x_sanitizeFields X (JObj v)))
         (s\<lparr>d_locks := []\<rparr>)) = Inr s1" "s' = s1\<lparr>d_locks := d_locks s\<rparr>"
  using assms
  by (auto simp: completeJob_def withTransaction_Inr Let_def and_then_Inr_iff split: list.splits)

lemma finalizeCompletion_bindings:
  assumes "finalizeCompletion X ck row res s = Inr s'"
  shows "(\<forall>b\<in>set (d_bindings s'). gb_operation_job_id b \<noteq> j_id row)
    \<and> (\<forall>b\<in>set (d_clone_bindings s'). gc_operation_job_id b \<noteq> j_id row)"
proof -
  obtain s2 x s3 y where "applyGithubDeploymentBinding X ck (j_id row) s2 = Inr (x, s3)"
    and "applyGithubCloneDeploymentBinding X ck (j_id row) s3 = Inr (y, s')"
    using assms by (auto simp: finalizeCompletion_def and_then_Inr_iff)
  then show ?thesis
    using apply_binding_frame(4) apply_clone_binding_frame(3,4) by metis
qed

lemma held_row:
  assumes "filter (leasePredicate ck i l) rows = [r]"
  shows "r \<in> set rows" "leasePredicate ck i l r"
proof -
  have "r \<in> set (filter (leasePredicate ck i l) rows)" using assms by simp
  then show "r \<in> set rows" "leasePredicate ck i l r" by simp_all
qed

subsection \<open>Failure\<close>

lemma settle_bindings_effect:
  "githubDeploymentFailureNeedsReconciliation m
   \<Longrightarrow> d_bindings (settle_bindings ck i m s) = d_bindings s
     \<and> d_clone_bindings (settle_bindings ck i m s) = d_clone_bindings s"
  "\<not> githubDeploymentFailureNeedsReconciliation m
   \<Longrightarrow> (\<forall>b\<in>set (d_bindings (settle_bindings ck i m s)). gb_operation_job_id b \<noteq> i)
     \<and> (\<forall>b\<in>set (d_clone_bindings (settle_bindings ck i m s)). gc_operation_job_id b \<noteq> i)"
  by (auto simp: settle_bindings_def dest: fail_binding_gone fail_clone_binding_gone)

lemma failJob_held:
  assumes "filter (leasePredicate ck i l) (d_jobs s) = [r]"
  shows "\<exists>s3. failJob X ck i raw l s = (Inr True, (settle_bindings ck i
        (failure_message (fail_update ck (x_sanitizeText X raw) r) (x_sanitizeText X raw)) s3)\<lparr>d_locks := d_locks s\<rparr>)
    \<and> (if failure_message (fail_update ck (x_sanitizeText X raw) r) (x_sanitizeText X raw) \<noteq> x_sanitizeText X raw
       then (fail_update ck (x_sanitizeText X raw) r)\<lparr>j_error := Some (failure_message
           (fail_update ck (x_sanitizeText X raw) r) (x_sanitizeText X raw)), j_updated_at := ck_now ck\<rparr>
       else fail_update ck (x_sanitizeText X raw) r) \<in> set (d_jobs s3)
    \<and> d_bindings s3 = d_bindings s \<and> d_clone_bindings s3 = d_clone_bindings s"
proof -
  let ?m = "x_sanitizeText X raw"
  let ?f = "fail_update ck ?m"
  let ?msg = "failure_message (?f r) ?m"
  let ?s1 = "update_jobs (leasePredicate ck i l) ?f (s\<lparr>d_locks := []\<rparr>)"
  let ?s2 = "if ?msg \<noteq> ?m then update_jobs (\<lambda>q. j_id q = i \<and> j_status q = Failed)
      (\<lambda>q. q\<lparr>j_error := Some ?msg, j_updated_at := ck_now ck\<rparr>) ?s1 else ?s1"
  let ?s3 = "finalizeLinkedOperationFailure ck (?f r) ?msg ?s2"
  note row = held_row [OF assms]
  have "?f r \<in> set (d_jobs ?s1)"
    using row by (auto simp: set_update_where intro: image_eqI [of _ _ r])
  then have "(if ?msg \<noteq> ?m then (?f r)\<lparr>j_error := Some ?msg, j_updated_at := ck_now ck\<rparr> else ?f r)
      \<in> set (d_jobs ?s2)"
    using leasePredicateD(1) [OF row(2)]
    by (auto simp: set_update_where [of "\<lambda>q. j_id q = i \<and> j_status q = Failed"]
        intro!: image_eqI [of _ _ "?f r"])
  moreover have "failJob X ck i raw l s = (Inr True, (settle_bindings ck i ?msg ?s3)\<lparr>d_locks := d_locks s\<rparr>)"
    by (simp add: failJob_def withTransaction_def Let_def assms)
  ultimately show ?thesis by (intro exI [of _ ?s3]) simp
qed

subsection \<open>Migrations\<close>

lemma filter_one_in: "length (filter P xs) = 1 \<Longrightarrow> \<exists>x\<in>set xs. P x"
  by (metis filter_False length_0_conv zero_neq_one)

lemma retainExact_retained:
  assumes "retainExactRestoreAttempt ck a j p m s = Inr s'"
  shows "\<exists>q\<in>set (d_attempts s'). ra_id q = ra_id a \<and> ra_status q = ''retained''"
proof -
  let ?P = "\<lambda>q. ra_id q = ra_id a \<and> ra_operation_job_id q = Some j
            \<and> ra_recovery_point_id q = Some p \<and> ra_backup_id q = None
            \<and> ra_migration_run_id q = m \<and> ra_retain_on_success q
            \<and> ra_status q = ''awaiting_disposition''"
  have one: "length (filter ?P (d_attempts s)) = 1"
    and s': "d_attempts s' = update_where ?P (retain_attempt ck) (d_attempts s)"
    using assms by (auto simp: retainExactRestoreAttempt_def Let_def split: if_splits)
  obtain q where "q \<in> set (d_attempts s)" "?P q" using filter_one_in [OF one] by blast
  then show ?thesis
    unfolding s' set_update_where by (intro bexI [of _ "retain_attempt ck q"]) (auto simp: retain_attempt_def)
qed

lemma settle_obligation_attempts: "settleSourceObligation ck m s = Inr s' \<Longrightarrow> d_attempts s' = d_attempts s"
  by (auto simp: settleSourceObligation_def resolveStoppedSource_def Let_def split: if_splits list.splits)

lemma migration_success_effect:
  assumes "finalizeLinkedMigrationSuccess ck m h s = Inr s'"
  shows "d_attempts s' = d_attempts s"
    "\<exists>q\<in>set (d_migrations s'). mr_id q = mi_migrationRunId m \<and> mr_status q = ''completed''"
proof -
  let ?P = "\<lambda>q. mr_id q = mi_migrationRunId m \<and> mr_mode q = ''execute''
            \<and> mr_status q = ''running'' \<and> mr_recovery_point_id q = Some (mi_recoveryPointId m)"
  let ?f = "\<lambda>q. q\<lparr>mr_status := ''completed'', mr_error := None, mr_completed_at := Some (ck_now ck)\<rparr>"
  obtain run where run: "filter ?P (d_migrations s) = [run]"
    and settle: "settleSourceObligation ck m (s\<lparr>d_migrations := update_where ?P ?f (d_migrations s)\<rparr>) = Inr s'"
    using assms by (auto simp: finalizeLinkedMigrationSuccess_def Let_def split: list.splits if_splits)
  show "d_attempts s' = d_attempts s" using settle_obligation_attempts [OF settle] by simp
  have "run \<in> set (filter ?P (d_migrations s))" using run by simp
  then have "run \<in> set (d_migrations s)" "?P run" by simp_all
  then have "?f run \<in> set (update_where ?P ?f (d_migrations s))"
    unfolding set_update_where by (intro image_eqI [of _ _ run]) auto
  then show "\<exists>q\<in>set (d_migrations s'). mr_id q = mi_migrationRunId m \<and> mr_status q = ''completed''"
    using settle_obligation_frame(2) [OF settle] \<open>?P run\<close> by (intro bexI [of _ "?f run"]) simp_all
qed

lemma migration_attempt_effect:
  assumes "finalizeMigrationAttempt ck row (Some m) a s = Inr (x, s')"
  shows "ra_migration_run_id a = Some (mi_migrationRunId m)" "ra_status a = ''awaiting_disposition''"
    "\<exists>q\<in>set (d_attempts s'). ra_id q = ra_id a \<and> ra_status q = ''retained''"
  using assms
  by (auto simp: finalizeMigrationAttempt_def Let_def and_then_Inr_iff dest: retainExact_retained
      split: if_splits)

lemma migration_restore_attempt:
  assumes "finalizeSuccessfulRestoreAttempt ck row (Some m) None s = Inr (x, s')"
    and "j_type row = ''migration.execute''"
  obtains a where "attempts_of (j_id row) s = [a]" "finalizeMigrationAttempt ck row (Some m) a s = Inr (x, s')"
  using assms
  by (auto simp: finalizeSuccessfulRestoreAttempt_def Let_def and_then_Inr_iff
      assertExactlyOneRestoreAttempt_def split: list.splits)

lemma parse_migration_identity:
  assumes "parseMigrationCompletionIdentity row res = Inr mo" and "j_type row = ''migration.execute''"
  shows "\<exists>m. mo = Some m \<and> get_prop (objectFields (Some (j_payload row))) ''migrationRunId''
    = Some (JStr (mi_migrationRunId m))"
  using assms by (auto simp: parseMigrationCompletionIdentity_def Let_def
      split: option.splits json.splits if_splits)

lemma migration_finalize_effect:
  assumes "finalizeCompletion X ck row res s = Inr s'" and "j_type row = ''migration.execute''"
  shows "\<exists>a run. attempts_of (j_id row) s = [a]
    \<and> get_prop (objectFields (Some (j_payload row))) ''migrationRunId'' = Some (JStr run)
    \<and> ra_migration_run_id a = Some run \<and> ra_status a = ''awaiting_disposition''
    \<and> (\<exists>q\<in>set (d_attempts s'). ra_id q = ra_id a \<and> ra_status q = ''retained'')
    \<and> (\<exists>m\<in>set (d_migrations s'). mr_id m = run \<and> mr_status m = ''completed'')"
proof -
  have none: "parseBackupRestoreCompletionIdentity row res = Inr None"
    using assms(2) by (simp add: parseBackupRestoreCompletionIdentity_def backup_restore_types_def)
  obtain mo where mo: "parseMigrationCompletionIdentity row res = Inr mo"
    using assms(1) by (auto simp: finalizeCompletion_def and_then_Inr_iff)
  then obtain m where m: "mo = Some m"
    "get_prop (objectFields (Some (j_payload row))) ''migrationRunId'' = Some (JStr (mi_migrationRunId m))"
    using parse_migration_identity [OF _ assms(2)] by blast
  obtain x s1 s2 y s3 z where 1: "finalizeSuccessfulRestoreAttempt ck row (Some m) None s = Inr (x, s1)"
    and 2: "finalizeLinkedMigrationSuccess ck m (map_option ra_target_host_id x) s1 = Inr s2"
    and 3: "applyGithubDeploymentBinding X ck (j_id row) s2 = Inr (y, s3)"
    and 4: "applyGithubCloneDeploymentBinding X ck (j_id row) s3 = Inr (z, s')"
    using assms(1) by (auto simp: finalizeCompletion_def and_then_Inr_iff mo m(1) none)
  obtain a where a: "attempts_of (j_id row) s = [a]" "finalizeMigrationAttempt ck row (Some m) a s = Inr (x, s1)"
    using migration_restore_attempt [OF 1 assms(2)] by blast
  have "d_attempts s' = d_attempts s1" "d_migrations s' = d_migrations s2"
    using apply_clone_binding_other_tables [OF 4] apply_binding_other_tables [OF 3]
      migration_success_effect(1) [OF 2] by simp_all
  then show ?thesis
    using a(1) m(2) migration_attempt_effect [OF a(2)] migration_success_effect(2) [OF 2] by auto
qed

section \<open>Properties\<close>

text \<open>
  C8: completion is atomic. When it succeeds, the caller held the only active lease, the job is
  completed with the sanitised result and without lease, every other job is as before, and no source
  binding of the job is left; when finalising a linked operation throws, the database is as it was and
  the lease is still active.
\<close>

theorem completion_atomic:
  assumes "jobs.keys_unique (d_jobs s)" and "completeJob X ck i v l s = (res, s')" and "res \<noteq> Inr False"
  shows "lease_held ck i l s
    \<and> (case res of
         Inl e \<Rightarrow> s' = s
       | Inr _ \<Rightarrow> d_jobs s' = update_where (\<lambda>r. j_id r = i)
             (complete_update ck (x_sanitizeFields X (JObj v))) (d_jobs s)
           \<and> (\<forall>b\<in>set (d_bindings s'). gb_operation_job_id b \<noteq> i)
           \<and> (\<forall>b\<in>set (d_clone_bindings s'). gc_operation_job_id b \<noteq> i))"
proof (cases res)
  case (Inl e)
  with assms(2) have "filter (leasePredicate ck i l) (d_jobs s) \<noteq> []" and "s' = s"
    by (auto simp: completeJob_def withTransaction_def Let_def split: sum.splits list.splits)
  then show ?thesis using Inl not_held_filter by auto
next
  case (Inr b)
  with assms(3) have "completeJob X ck i v l s = (Inr True, s')" using assms(2) by simp
  then obtain r s1 where r: "filter (leasePredicate ck i l) (d_jobs s) = [r]"
    and fin: "finalizeCompletion X ck (complete_update ck (x_sanitizeFields X (JObj v)) r)
       (objectFields (Some (x_sanitizeFields X (JObj v))))
       (update_jobs (leasePredicate ck i l) (complete_update ck (x_sanitizeFields X (JObj v)))
         (s\<lparr>d_locks := []\<rparr>)) = Inr s1" and s': "s' = s1\<lparr>d_locks := d_locks s\<rparr>"
    by (rule completeJob_True)
  note row = held_row [OF r]
  have "(leasePredicate ck i l q) = (j_id q = i)" if "q \<in> set (d_jobs s)" for q
    using that row jobs.same_key_same_row [OF assms(1) that row(1)] leasePredicateD(1) by metis
  then have "update_where (leasePredicate ck i l) f (d_jobs s) = update_where (\<lambda>q. j_id q = i) f (d_jobs s)"
    for f by (simp add: update_where_def)
  moreover have "lease_held ck i l s" using row by (auto simp: lease_held_iff)
  ultimately show ?thesis
    using Inr finalizeCompletion_jobs [OF fin] finalizeCompletion_bindings [OF fin]
      leasePredicateD(1) [OF row(2)] by (simp add: s')
qed

theorem completion_atomic_witness:
  "lease_held (clock_of 1) ''job-1'' first_lease (jobs_db [leased_job ''host.check''])
   \<and> fst (completeJob sample_externs (clock_of 1) ''job-1'' [] first_lease (jobs_db [leased_job ''host.check'']))
     = Inr True"
proof -
  let ?s = "jobs_db [leased_job ''host.check'']"
  let ?r = "completeJob sample_externs (clock_of 1) ''job-1'' [] first_lease ?s"
  have r: "fst ?r = Inr True"
    by (simp add: completeJob_def withTransaction_def sample_simps sample_externs_def Let_def
        finalizeCompletion_def parseMigrationCompletionIdentity_def
        parseBackupRestoreCompletionIdentity_def backup_restore_types_def
        finalizeSuccessfulRestoreAttempt_def attempts_of_def applyGithubDeploymentBinding_def
        lockGithubDeploymentBinding_def applyGithubCloneDeploymentBinding_def
        lockGithubCloneDeploymentBinding_def complete_update_def update_jobs_def)
  have "jobs.keys_unique (d_jobs ?s)" by (simp add: sample_simps jobs.keys_unique_def)
  from completion_atomic [OF this surjective_pairing [of ?r]] r show ?thesis by simp
qed

text \<open>
  A migration is reported successful only with its exact evidence: the job has exactly one restore
  attempt, made for the migration run its payload names and awaiting disposition; completion retains
  that attempt and completes that run.
\<close>

theorem migration_completion_exact:
  assumes "completeJob X ck i v l s = (Inr True, s')" and "r \<in> set (d_jobs s)"
    and "leasePredicate ck i l r" and "j_type r = ''migration.execute''"
  shows "\<exists>a run. attempts_of i s = [a]
    \<and> get_prop (objectFields (Some (j_payload r))) ''migrationRunId'' = Some (JStr run)
    \<and> ra_migration_run_id a = Some run \<and> ra_status a = ''awaiting_disposition''
    \<and> (\<exists>q\<in>set (d_attempts s'). ra_id q = ra_id a \<and> ra_status q = ''retained'')
    \<and> (\<exists>m\<in>set (d_migrations s'). mr_id m = run \<and> mr_status m = ''completed'')"
proof -
  obtain q s1 where q: "filter (leasePredicate ck i l) (d_jobs s) = [q]"
    and fin: "finalizeCompletion X ck (complete_update ck (x_sanitizeFields X (JObj v)) q)
       (objectFields (Some (x_sanitizeFields X (JObj v))))
       (update_jobs (leasePredicate ck i l) (complete_update ck (x_sanitizeFields X (JObj v)))
         (s\<lparr>d_locks := []\<rparr>)) = Inr s1" and s': "s' = s1\<lparr>d_locks := d_locks s\<rparr>"
    using assms(1) by (rule completeJob_True)
  have "r \<in> set (filter (leasePredicate ck i l) (d_jobs s))" using assms(2,3) by simp
  then have "r = q" using q by simp
  moreover have "attempts_of i (update_jobs P f (s\<lparr>d_locks := k\<rparr>)) = attempts_of i s" for P f k
    by (simp add: attempts_of_def)
  ultimately show ?thesis
    using migration_finalize_effect [OF fin] assms(4) leasePredicateD(1) [OF assms(3)] by (simp add: s')
qed

lemmas completion_simps = completeJob_def withTransaction_def sample_externs_def Let_def finalizeCompletion_def
  parseMigrationCompletionIdentity_def parseBackupRestoreCompletionIdentity_def backup_restore_types_def
  finalizeSuccessfulRestoreAttempt_def attempts_of_def applyGithubDeploymentBinding_def
  lockGithubDeploymentBinding_def applyGithubCloneDeploymentBinding_def
  lockGithubCloneDeploymentBinding_def complete_update_def update_jobs_def

theorem migration_completion_exact_witness:
  "\<exists>m\<in>set (d_migrations (snd (completeJob sample_externs (clock_of 1) ''job-1'' sample_migration_result
      first_lease sample_migration_db))). mr_id m = ''run-1'' \<and> mr_status m = ''completed''"
proof -
  let ?c = "completeJob sample_externs (clock_of 1) ''job-1'' sample_migration_result first_lease
      sample_migration_db"
  have ok: "?c = (Inr True, snd ?c)"
    by (simp add: completion_simps sample_migration_db_def sample_migration_result_def sample_simps
        get_prop_def assertExactlyOneRestoreAttempt_def finalizeMigrationAttempt_def
        retainExactRestoreAttempt_def finalizeLinkedMigrationSuccess_def settleSourceObligation_def
        retain_attempt_def)
  from migration_completion_exact [OF ok, where r = "hd (d_jobs sample_migration_db)"]
  show ?thesis by (auto simp: sample_migration_db_def sample_simps get_prop_def)
qed

text \<open>
  C9: a failure is recorded without hiding a remote effect. A job whose lease is active becomes failed
  and gives up the lease. If the failure leaves the remote outcome open, because its message says so or
  because the stored proof shows that the remote deployment completed, the job is marked as an unknown
  outcome and every source binding is kept, so the target stays locked; otherwise the job's bindings
  are gone.
\<close>

theorem failure_keeps_unknown_outcomes:
  assumes "jobs.keys_unique (d_jobs s)" and "r \<in> set (d_jobs s)" and "leasePredicate ck i l r"
    and "failJob X ck i raw l s = (res, s')"
  shows "res = Inr True
    \<and> (\<exists>q\<in>set (d_jobs s'). j_id q = i \<and> j_status q = Failed \<and> j_lease_owner q = None
         \<and> (if githubDeploymentFailureNeedsReconciliation (x_sanitizeText X raw)
                \<or> completedDeploymentProofNeedsReconciliation r
            then isAmbiguousRemoteOutcome q \<and> d_bindings s' = d_bindings s
              \<and> d_clone_bindings s' = d_clone_bindings s
            else j_error q = Some (x_sanitizeText X raw)
              \<and> (\<forall>b\<in>set (d_bindings s'). gb_operation_job_id b \<noteq> i)
              \<and> (\<forall>b\<in>set (d_clone_bindings s'). gc_operation_job_id b \<noteq> i)))"
proof -
  let ?m = "x_sanitizeText X raw"
  let ?f = "fail_update ck ?m"
  let ?msg = "failure_message (?f r) ?m"
  let ?q = "if ?msg \<noteq> ?m then (?f r)\<lparr>j_error := Some ?msg, j_updated_at := ck_now ck\<rparr> else ?f r"
  have one: "filter (leasePredicate ck i l) (d_jobs s) = [r]"
    using length_filter_key [of j_id "d_jobs s" "leasePredicate ck i l" i r] assms(1-3) leasePredicateD(1)
    by (auto simp: jobs.keys_unique_def)
  from failJob_held [OF one, of X raw] obtain s3 where
    run: "failJob X ck i raw l s = (Inr True, (settle_bindings ck i ?msg s3)\<lparr>d_locks := d_locks s\<rparr>)"
    and q: "?q \<in> set (d_jobs s3)"
    and frame: "d_bindings s3 = d_bindings s" "d_clone_bindings s3 = d_clone_bindings s" by blast
  then have res: "res = Inr True" and s': "s' = (settle_bindings ck i ?msg s3)\<lparr>d_locks := d_locks s\<rparr>"
    using assms(4) by simp_all
  have proof_same: "completedDeploymentProofNeedsReconciliation (?f r)
      = completedDeploymentProofNeedsReconciliation r"
    by (simp add: completedDeploymentProofNeedsReconciliation_def split: option.split)
  have open_msg: "githubDeploymentFailureNeedsReconciliation ?msg
      \<longleftrightarrow> githubDeploymentFailureNeedsReconciliation ?m \<or> completedDeploymentProofNeedsReconciliation r"
    by (auto simp: failure_message_def proof_same githubDeploymentFailureNeedsReconciliation_def)
  have same_msg: "?msg = ?m" if "\<not> githubDeploymentFailureNeedsReconciliation ?msg"
    using that by (auto simp: failure_message_def githubDeploymentFailureNeedsReconciliation_def)
  define msg q where "msg = ?msg" and "q = ?q"
  have q': "q \<in> set (d_jobs s')" "j_id q = i" "j_status q = Failed" "j_lease_owner q = None"
    "j_error q = Some msg"
    using q leasePredicateD(1) [OF assms(3)] by (simp_all add: s' q_def msg_def)
  show ?thesis
  proof (cases "githubDeploymentFailureNeedsReconciliation msg")
    case True
    then have "isAmbiguousRemoteOutcome q"
      using q' by (auto simp: isAmbiguousRemoteOutcome_def like_prefix_def
          githubDeploymentFailureNeedsReconciliation_def)
    with True res q' settle_bindings_effect(1) [OF True, of ck i s3] open_msg show ?thesis
      by (intro conjI bexI [of _ q]) (simp_all add: s' frame msg_def)
  next
    case False
    with res q' settle_bindings_effect(2) [OF False, of ck i s3] open_msg same_msg show ?thesis
      by (intro conjI bexI [of _ q]) (simp_all add: s' frame msg_def)
  qed
qed

theorem failure_keeps_unknown_outcomes_witness:
  "\<exists>q\<in>set (d_jobs (snd (failJob sample_externs (clock_of 1) ''job-1'' ''REMOTE_OUTCOME_UNKNOWN: timeout''
      first_lease (jobs_db [leased_job ''compose.deploy''])))). j_status q = Failed \<and> isAmbiguousRemoteOutcome q"
proof -
  let ?s = "jobs_db [leased_job ''compose.deploy'']"
  let ?c = "failJob sample_externs (clock_of 1) ''job-1'' ''REMOTE_OUTCOME_UNKNOWN: timeout'' first_lease ?s"
  have u: "jobs.keys_unique (d_jobs ?s)" "leased_job ''compose.deploy'' \<in> set (d_jobs ?s)"
    "leasePredicate (clock_of 1) ''job-1'' first_lease (leased_job ''compose.deploy'')"
    by (simp_all add: sample_simps jobs.keys_unique_def)
  have open_msg: "githubDeploymentFailureNeedsReconciliation (x_sanitizeText sample_externs ''REMOTE_OUTCOME_UNKNOWN: timeout'')"
    by (simp add: githubDeploymentFailureNeedsReconciliation_def sample_externs_def REMOTE_OUTCOME_UNKNOWN_def)
  from failure_keeps_unknown_outcomes [OF u surjective_pairing [of ?c]] open_msg show ?thesis by auto
qed

text \<open>
  C11: the recovery pass settles every expired job it takes, at most one hundred of them: a job of one of
  the automatically retried types with an attempt left goes back to the queue, any other one fails with
  \<^verbatim>\<open>WORKER_LOST\<close>, which is an unknown remote outcome; both give up their lease and keep their attempt
  number, the counts add up, and no other job changes.
\<close>

theorem recovery_settles_expired:
  assumes "jobs.keys_unique (d_jobs s)" and "recoverExpiredJobs ck locked s = ((requeued, failed), s')"
  shows "requeued + failed = min 100 (length (filter (recoverable ck locked) (d_jobs s)))
    \<and> length (d_jobs s') = length (d_jobs s)
    \<and> (\<forall>n < length (d_jobs s). let r = d_jobs s ! n; r' = d_jobs s' ! n in
         if r \<in> set (expired_jobs ck locked s)
         then j_id r' = j_id r \<and> j_attempt_count r' = j_attempt_count r \<and> j_lease_owner r' = None
           \<and> (if auto_retryable r then j_status r' = Queued else isAmbiguousRemoteOutcome r')
         else r' = r)"
proof -
  let ?E = "expired_jobs ck locked s"
  have s': "d_jobs s' = update_where (\<lambda>q. j_id q \<in> j_id ` set ?E) (recovered ck) (d_jobs s)"
    using recoverExpiredJobs_jobs [of s ck locked] assms by (simp add: jobs.keys_unique_def)
  have counts: "requeued + failed = length ?E"
    using assms(2) recover_counts [of ck 0 0 s ?E]
    by (simp add: recoverExpiredJobs_def sum_length_filter_compl)
  have len: "length ?E = min 100 (length (filter (recoverable ck locked) (d_jobs s)))"
    by (simp add: expired_jobs_def min.commute)
  have same: "(j_id r \<in> j_id ` set ?E) = (r \<in> set ?E)" if "r \<in> set (d_jobs s)" for r
    using that jobs.same_key_same_row [OF assms(1)] expired_jobs_sub [of ck locked s] by auto
  have lost: "isAmbiguousRemoteOutcome (recovered ck r)" if "\<not> auto_retryable r" for r
    using that by (simp add: isAmbiguousRemoteOutcome_def recovered_def lost_message_def like_prefix_def)
  have queued: "j_status (recovered ck r) = Queued" if "auto_retryable r" for r
    using that by (simp add: recovered_def)
  show ?thesis
    using counts len same lost queued by (auto simp: s' update_where_def Let_def)
qed

theorem recovery_settles_expired_witness:
  "fst (recoverExpiredJobs (clock_of (seconds 61)) [] (jobs_db [leased_job ''compose.deploy''])) = (0, 1)
   \<and> length (filter (recoverable (clock_of (seconds 61)) []) [leased_job ''compose.deploy'']) = 1"
proof -
  let ?s = "jobs_db [leased_job ''compose.deploy'']"
  let ?c = "recoverExpiredJobs (clock_of (seconds 61)) [] ?s"
  have u: "jobs.keys_unique (d_jobs ?s)" by (simp add: sample_simps jobs.keys_unique_def)
  have "recoverable (clock_of (seconds 61)) [] (leased_job ''compose.deploy'')"
    by (simp add: recoverable_def not_handed_off_def lease_expired_def sample_simps)
  moreover have "fst (fst ?c) = 0"
    by (simp add: recoverExpiredJobs_def recover_one_def Let_def expired_jobs_def
        auto_retryable_def AUTO_RETRY_JOB_TYPES_def sample_simps recoverable_def not_handed_off_def
        lease_expired_def)
  ultimately show ?thesis
    using recovery_settles_expired [OF u, of "clock_of (seconds 61)" "[]" "fst (fst ?c)" "snd (fst ?c)" "snd ?c"]
    by (simp add: jobs_db_def prod_eq_iff)
qed

text \<open>
  A pass that finds at most one hundred expired jobs leaves none behind: no job it could take is
  still recoverable afterwards.
\<close>

theorem recovery_leaves_none:
  assumes "jobs.keys_unique (d_jobs s)" and "length (filter (recoverable ck locked) (d_jobs s)) \<le> 100"
  shows "filter (recoverable ck locked) (d_jobs (snd (recoverExpiredJobs ck locked s))) = []"
proof -
  have "set (expired_jobs ck locked s) = set (filter (recoverable ck locked) (d_jobs s))"
    using assms(2) by (simp add: expired_jobs_def)
  moreover have "\<not> recoverable ck locked (recovered ck r)" for r by (simp add: recoverable_def)
  ultimately show ?thesis
    using recoverExpiredJobs_jobs [of s ck locked] assms(1)
    by (auto simp: jobs.keys_unique_def filter_empty_conv set_update_where split: if_splits)
qed

theorem recovery_leaves_none_witness:
  "filter (recoverable (clock_of (seconds 61)) []) (d_jobs (snd (recoverExpiredJobs (clock_of (seconds 61)) []
     (jobs_db [leased_job ''host.check''])))) = []"
  by (rule recovery_leaves_none) (simp_all add: sample_simps jobs.keys_unique_def)

end
