(* ===== verification/Recovery_Admission.thy ===== *)
theory Recovery_Admission
  imports Job_Queue
begin

text \<open>
  Admission of recovery, migration, backup and restore operations
  (\<^verbatim>\<open>services/recoveryOperationAdmission.ts\<close>): the claims such an operation makes on its source
  and its target, when two operations conflict, the check a generic Docker mutation makes
  against them, and the admission lock of a proposed operation.
\<close>

section \<open>Scopes and keys\<close>

definition RECOVERY_SOURCE_SCOPE_METADATA_KEY :: string where
  "RECOVERY_SOURCE_SCOPE_METADATA_KEY = ''operationSourceScopeKeys''"
definition MIGRATION_SOURCE_SCOPE_PLAN_KEY :: string where
  "MIGRATION_SOURCE_SCOPE_PLAN_KEY = ''_operationSourceScopeKeys''"
definition MIGRATION_TARGET_SCOPE_PLAN_KEY :: string where
  "MIGRATION_TARGET_SCOPE_PLAN_KEY = ''_operationTargetScopeKeys''"
definition RECOVERY_DOCKER_SCOPES_PAYLOAD_KEY :: string where
  "RECOVERY_DOCKER_SCOPES_PAYLOAD_KEY = ''_recoveryDockerMutationScopes''"

datatype admission_kind = Capture | Verify | Restore | Migration

record recovery_source_context =
  rc_containerIds :: "string list"
  rc_volumeNames :: "string list"
  rc_projectName :: "string option"
  rc_stackId :: "uuid option"
  rc_workingDir :: "string option"

record recovery_admission =
  ad_kind :: admission_kind
  ad_recoveryPointId :: "uuid option"
  ad_sourceScopeKeys :: "string list"
  ad_targetScopeKeys :: "string list"
  ad_sourceDockerScopes :: "mutation_scope list"
  ad_targetDockerScopes :: "mutation_scope list"

definition normalizedScopePart :: "string option \<Rightarrow> string" where
  "normalizedScopePart v = to_lower (trim (case v of None \<Rightarrow> [] | Some s \<Rightarrow> s))"

fun identity_projectName :: "app_identity \<Rightarrow> string option" where
  "identity_projectName (StackApp _ p) = p"
| "identity_projectName (ComposeApp p _) = Some p"
| "identity_projectName (GitApp _ p) = p"
| "identity_projectName (StandaloneApp _) = None"

fun identity_stackId :: "app_identity \<Rightarrow> uuid option" where
  "identity_stackId (StackApp i _) = Some i"
| "identity_stackId (ComposeApp _ i) = i"
| "identity_stackId _ = None"

fun identity_containerIds :: "app_identity \<Rightarrow> string list" where
  "identity_containerIds (StandaloneApp ids) = ids"
| "identity_containerIds _ = []"

subsection \<open>The digest of an identity\<close>

definition hex_digit :: "nat \<Rightarrow> char" where
  "hex_digit n = char_of (if n < 10 then 48 + n else 87 + n)"

text \<open>String quoting of \<^verbatim>\<open>JSON.stringify\<close>.\<close>

definition json_escape :: "char \<Rightarrow> string" where
  "json_escape c =
     (let n = (of_char c :: nat) in
      if n = 34 then [CHR 0x5C, CHR 0x22]
      else if n = 92 then [CHR 0x5C, CHR 0x5C]
      else if n = 8 then [CHR 0x5C, CHR ''b'']
      else if n = 12 then [CHR 0x5C, CHR ''f'']
      else if n = 10 then [CHR 0x5C, CHR ''n'']
      else if n = 13 then [CHR 0x5C, CHR ''r'']
      else if n = 9 then [CHR 0x5C, CHR ''t'']
      else if n < 32 then [CHR 0x5C] @ ''u00'' @ [hex_digit (n div 16), hex_digit (n mod 16)]
      else [c])"

definition json_quote :: "string \<Rightarrow> string" where
  "json_quote s = [CHR 0x22] @ concat (map json_escape s) @ [CHR 0x22]"

definition json_object :: "(string \<times> string) list \<Rightarrow> string" where
  "json_object fs = ''{'' @ join_with '','' (map (\<lambda>(k, v). json_quote k @ '':'' @ v) fs) @ ''}''"

definition opt_field :: "string \<Rightarrow> string option \<Rightarrow> (string \<times> string) list" where
  "opt_field k v = (case v of None \<Rightarrow> [] | Some s \<Rightarrow> [(k, json_quote s)])"

fun stable_identity :: "app_identity \<Rightarrow> string" where
  "stable_identity (StackApp i p) = json_object
     ([(''kind'', json_quote ''stack''), (''stackId'', json_quote i)] @ opt_field ''projectName'' p)"
| "stable_identity (ComposeApp p i) = json_object
     ([(''kind'', json_quote ''compose''), (''projectName'', json_quote p)] @ opt_field ''stackId'' i)"
| "stable_identity (GitApp i p) = json_object
     ([(''kind'', json_quote ''git''), (''repositoryId'', json_quote i)] @ opt_field ''projectName'' p)"
| "stable_identity (StandaloneApp ids) = json_object
     [(''kind'', json_quote ''standalone''),
      (''containerIds'', ''['' @ join_with '','' (map json_quote (sort ids)) @ '']'')]"

definition identityFallback :: "externs \<Rightarrow> app_identity \<Rightarrow> string" where
  "identityFallback X identity = x_sha256 X (stable_identity identity)"

definition uniqueScopeKeys :: "string list \<Rightarrow> string list" where
  "uniqueScopeKeys values = sorted_set (filter (\<lambda>k. k \<noteq> []) (map trim values))"

subsection \<open>Targets\<close>

definition recoveryTargetValue :: "mutation_target_kind \<Rightarrow> string \<Rightarrow> string" where
  "recoveryTargetValue kind raw =
     (case kind of
        HostPath \<Rightarrow> path_normalize (trim raw)
      | ComposeProject \<Rightarrow> normalizedScopePart (Some raw)
      | _ \<Rightarrow> trim raw)"

definition addRecoveryTarget ::
    "mutation_target list \<Rightarrow> uuid \<Rightarrow> mutation_target_kind \<Rightarrow> string \<Rightarrow> mutation_target list" where
  "addRecoveryTarget targets hostId kind raw =
     (let v = recoveryTargetValue kind raw in
      if hostId = [] \<or> v = [] \<or> (kind = HostPath \<and> v = ''.'') then targets
      else push_target targets hostId kind v)"

definition conservativeRecoveryDockerMutationScope :: "mutation_scope \<Rightarrow> mutation_scope" where
  "conservativeRecoveryDockerMutationScope scope =
     (let targets = foldl (\<lambda>ts t. addRecoveryTarget ts (mt_hostId t) (mt_kind t) (mt_value t)) []
            (ms_targets scope)
      in scope\<lparr>ms_hostIds := sorted_set (ms_hostIds scope @ map mt_hostId targets),
               ms_targets := targets\<rparr>)"

definition or_else :: "'a option \<Rightarrow> 'a option \<Rightarrow> 'a option" where
  "or_else a b = (case a of None \<Rightarrow> b | Some _ \<Rightarrow> a)"

definition buildRecoverySourceDockerMutationScope ::
    "externs \<Rightarrow> uuid \<Rightarrow> app_identity \<Rightarrow> recovery_source_context \<Rightarrow> mutation_scope" where
  "buildRecoverySourceDockerMutationScope X hostId identity context =
     (let projectName = or_else (rc_projectName context) (identity_projectName identity);
          containerIds = rc_containerIds context @ identity_containerIds identity;
          t1 = foldl (\<lambda>ts c. addRecoveryTarget ts hostId Container c) [] containerIds;
          t2 = foldl (\<lambda>ts v. addRecoveryTarget ts hostId Volume v) t1 (rc_volumeNames context);
          t3 = (case projectName of
                  Some (c # cs) \<Rightarrow> addRecoveryTarget t2 hostId ComposeProject (c # cs)
                | _ \<Rightarrow> t2);
          t4 = (case rc_workingDir context of
                  Some (c # cs) \<Rightarrow> addRecoveryTarget t3 hostId HostPath (c # cs)
                | _ \<Rightarrow> t3);
          t5 = (if t4 = [] then addRecoveryTarget t4 hostId ComposeProject
                  (''recovery-identity-'' @ identityFallback X identity) else t4)
      in \<lparr>ms_type = ''compose.deployPath'', ms_hostIds = [hostId], ms_targets = t5\<rparr>)"

definition buildRecoverySourceOperationScopeKeys ::
    "externs \<Rightarrow> uuid \<Rightarrow> app_identity \<Rightarrow> recovery_source_context \<Rightarrow> string list" where
  "buildRecoverySourceOperationScopeKeys X hostId identity context =
     (let prefix = ''recovery-source:'' @ hostId;
          projectName = normalizedScopePart
            (or_else (rc_projectName context) (identity_projectName identity));
          stackId = normalizedScopePart (or_else (rc_stackId context) (identity_stackId identity));
          containerIds = uniqueScopeKeys (rc_containerIds context @ identity_containerIds identity);
          volumeNames = uniqueScopeKeys (rc_volumeNames context);
          keys = map (\<lambda>i. prefix @ '':container:'' @ i) containerIds
            @ map (\<lambda>v. prefix @ '':volume:'' @ v) volumeNames
            @ (if projectName \<noteq> [] then [prefix @ '':project:'' @ projectName] else [])
            @ (if stackId \<noteq> [] then [prefix @ '':stack:'' @ stackId] else [])
            @ (case rc_workingDir context of
                 Some (c # cs) \<Rightarrow> [prefix @ '':path:'' @ path_normalize (c # cs)]
               | _ \<Rightarrow> [])
            @ (case identity of
                 GitApp r _ \<Rightarrow> [prefix @ '':repository:'' @ normalizedScopePart (Some r)]
               | _ \<Rightarrow> [])
            @ [prefix @ '':identity:'' @ identityFallback X identity]
      in uniqueScopeKeys keys)"

definition targetKey :: "mutation_target \<Rightarrow> string" where
  "targetKey t = join_with '':''
     [''recovery-target'', mt_hostId t, kind_name (mt_kind t), mt_value t]"

definition buildRecoveryTargetOperationScopeKeys :: "mutation_scope \<Rightarrow> string list" where
  "buildRecoveryTargetOperationScopeKeys scope = uniqueScopeKeys (map targetKey (ms_targets scope))"

section \<open>Stored scopes\<close>

definition stringArray :: "unknown \<Rightarrow> string list" where
  "stringArray v =
     (case as_array v of
        None \<Rightarrow> []
      | Some xs \<Rightarrow> uniqueScopeKeys (List.map_filter (\<lambda>x. as_string (Some x)) xs))"

definition kind_of_name :: "string \<Rightarrow> mutation_target_kind option" where
  "kind_of_name s = find (\<lambda>k. kind_name k = s)
     [HostPath, ComposeProject, Container, Image, Network, Volume, RegistryAuth]"

text \<open>\<^verbatim>\<open>validTarget\<close> and \<^verbatim>\<open>validScope\<close>, returning what a valid value decodes to.\<close>

definition decode_target :: "json \<Rightarrow> mutation_target option" where
  "decode_target v =
     (let get = get_prop (objectFields (Some v)) in
      case (as_string (get ''hostId''), as_string (get ''kind''), as_string (get ''value'')) of
        (Some h, Some k, Some x) \<Rightarrow>
          map_option (\<lambda>kind. \<lparr>mt_hostId = h, mt_kind = kind, mt_value = x\<rparr>) (kind_of_name k)
      | _ \<Rightarrow> None)"

definition all_some :: "'a option list \<Rightarrow> 'a list option" where
  "all_some xs = (if list_all (\<lambda>x. x \<noteq> None) xs then Some (map the xs) else None)"

definition decode_scope :: "json \<Rightarrow> mutation_scope option" where
  "decode_scope v =
     (let get = get_prop (objectFields (Some v)) in
      case (as_string (get ''type''), as_array (get ''hostIds''), as_array (get ''targets'')) of
        (Some t, Some hs, Some ts) \<Rightarrow>
          (case (all_some (map (\<lambda>h. as_string (Some h)) hs), all_some (map decode_target ts)) of
             (Some hosts, Some targets) \<Rightarrow>
               Some \<lparr>ms_type = t, ms_hostIds = hosts, ms_targets = targets\<rparr>
           | _ \<Rightarrow> None)
      | _ \<Rightarrow> None)"

definition decode_scopes :: "unknown \<Rightarrow> mutation_scope list" where
  "decode_scopes v =
     (case as_array v of
        None \<Rightarrow> []
      | Some xs \<Rightarrow> map conservativeRecoveryDockerMutationScope (List.map_filter decode_scope xs))"

text \<open>The pair of the source scopes and the target scopes.\<close>

definition storedRecoveryDockerScopes :: "unknown \<Rightarrow> mutation_scope list \<times> mutation_scope list" where
  "storedRecoveryDockerScopes v =
     (let record = objectFields v
      in (decode_scopes (get_prop record ''source''), decode_scopes (get_prop record ''target'')))"

definition encode_target :: "mutation_target \<Rightarrow> json" where
  "encode_target t = JObj [(''hostId'', JStr (mt_hostId t)),
     (''kind'', JStr (kind_name (mt_kind t))), (''value'', JStr (mt_value t))]"

definition encode_scope :: "mutation_scope \<Rightarrow> json" where
  "encode_scope sc = JObj [(''type'', JStr (ms_type sc)),
     (''hostIds'', JArr (map JStr (ms_hostIds sc))),
     (''targets'', JArr (map encode_target (ms_targets sc)))]"

definition persist_update ::
    "clock \<Rightarrow> mutation_scope list \<Rightarrow> mutation_scope list \<Rightarrow> job_row \<Rightarrow> job_row" where
  "persist_update ck sourceScopes targetScopes r =
     (let evidence = JObj
            [(''source'', JArr (map (encode_scope \<circ> conservativeRecoveryDockerMutationScope) sourceScopes)),
             (''target'', JArr (map (encode_scope \<circ> conservativeRecoveryDockerMutationScope) targetScopes))]
      in r\<lparr>j_payload := JObj (set_prop (objectFields (Some (j_payload r)))
             RECOVERY_DOCKER_SCOPES_PAYLOAD_KEY evidence),
           j_updated_at := ck_now ck\<rparr>)"

definition persistRecoveryDockerMutationScopes ::
    "clock \<Rightarrow> uuid \<Rightarrow> mutation_scope list \<Rightarrow> mutation_scope list \<Rightarrow> db \<Rightarrow> db result" where
  "persistRecoveryDockerMutationScopes ck jobId sourceScopes targetScopes s =
     (if length (filter (\<lambda>r. j_id r = jobId) (d_jobs s)) \<noteq> 1
         \<or> list_ex (\<lambda>r. j_id r = jobId \<and> \<not> is_object (Some (j_payload r))) (d_jobs s)
      then Inl (PlainError ''Failed to persist recovery operation resource intent'')
      else Inr (update_jobs (\<lambda>r. j_id r = jobId) (persist_update ck sourceScopes targetScopes) s))"

section \<open>Existing operations\<close>

definition point_context :: "(string \<times> json) list \<Rightarrow> recovery_source_context" where
  "point_context metadata = \<lparr>rc_containerIds = [], rc_volumeNames = [],
     rc_projectName = as_string (get_prop metadata ''projectName''),
     rc_stackId = as_string (get_prop metadata ''stackId''), rc_workingDir = None\<rparr>"

definition no_context :: recovery_source_context where
  "no_context = \<lparr>rc_containerIds = [], rc_volumeNames = [], rc_projectName = None,
     rc_stackId = None, rc_workingDir = None\<rparr>"

text \<open>A job with the recovery point and the migration run its payload names, if any.\<close>

record operation_row =
  or_job :: job_row
  or_point :: "point_row option"
  or_migration :: "migration_row option"

definition join_operation :: "db \<Rightarrow> job_row \<Rightarrow> operation_row" where
  "join_operation s r = \<lparr>or_job = r,
     or_point = first_row (filter (\<lambda>p. payload_text (j_payload r) ''recoveryPointId'' = Some (rp_id p))
                  (d_points s)),
     or_migration = first_row (filter (\<lambda>m. payload_text (j_payload r) ''migrationRunId'' = Some (mr_id m))
                  (d_migrations s))\<rparr>"

definition stored_scopes :: "job_row \<Rightarrow> mutation_scope list \<times> mutation_scope list" where
  "stored_scopes r = storedRecoveryDockerScopes
     (get_prop (objectFields (Some (j_payload r))) RECOVERY_DOCKER_SCOPES_PAYLOAD_KEY)"

text \<open>The source claims derived from an identity when none are stored.\<close>

definition source_fallback ::
    "externs \<Rightarrow> (uuid \<times> json \<times> recovery_source_context) option
     \<Rightarrow> (string list \<times> mutation_scope list) result" where
  "source_fallback X source =
     (case source of
        None \<Rightarrow> Inr ([], [])
      | Some (hostId, identity, context) \<Rightarrow>
          and_then (x_parseIdentity X identity) (\<lambda>app.
            Inr (buildRecoverySourceOperationScopeKeys X hostId app context,
                 [buildRecoverySourceDockerMutationScope X hostId app context])))"

definition stored_or :: "'a list \<Rightarrow> 'a list \<Rightarrow> 'a list" where
  "stored_or stored fallback = (if stored \<noteq> [] then stored else fallback)"

definition operationScopesFromRow :: "externs \<Rightarrow> operation_row \<Rightarrow> recovery_admission option result" where
  "operationScopesFromRow X row =
     (let job = or_job row;
          type = j_type job;
          payload = objectFields (Some (j_payload job));
          (sources, targets) = stored_scopes job;
          recoveryPointId = (case as_string (get_prop payload ''recoveryPointId'') of
              Some p \<Rightarrow> Some p
            | None \<Rightarrow> Option.bind (or_migration row) mr_recovery_point_id)
      in if type = ''recovery.create'' \<or> type = ''recovery.capture''
         then let metadata = (case or_point row of None \<Rightarrow> [] | Some p \<Rightarrow> rp_metadata p) in
           and_then (source_fallback X (map_option (\<lambda>p. (rp_host_id p, rp_app_identity p,
                       point_context metadata)) (or_point row))) (\<lambda>(keys, scopes).
             Inr (Some \<lparr>ad_kind = Capture, ad_recoveryPointId = recoveryPointId,
               ad_sourceScopeKeys = stored_or
                 (stringArray (get_prop metadata RECOVERY_SOURCE_SCOPE_METADATA_KEY)) keys,
               ad_targetScopeKeys = [],
               ad_sourceDockerScopes = stored_or sources scopes, ad_targetDockerScopes = []\<rparr>))
         else if type = ''recovery.verify''
         then Inr (Some \<lparr>ad_kind = Verify, ad_recoveryPointId = recoveryPointId,
               ad_sourceScopeKeys = [], ad_targetScopeKeys = [],
               ad_sourceDockerScopes = [], ad_targetDockerScopes = []\<rparr>)
         else if type = ''recovery.restore''
         then Inr (Some \<lparr>ad_kind = Restore, ad_recoveryPointId = recoveryPointId,
               ad_sourceScopeKeys = [],
               ad_targetScopeKeys = concat (map buildRecoveryTargetOperationScopeKeys targets),
               ad_sourceDockerScopes = [], ad_targetDockerScopes = targets\<rparr>)
         else if type = ''migration.execute''
         then let plan = (case or_migration row of None \<Rightarrow> []
                          | Some m \<Rightarrow> objectFields (Some (mr_plan m))) in
           and_then (source_fallback X (map_option (\<lambda>m. (mr_source_host_id m,
                       mr_source_app_identity m, no_context)) (or_migration row))) (\<lambda>(keys, scopes).
             Inr (Some \<lparr>ad_kind = Migration, ad_recoveryPointId = recoveryPointId,
               ad_sourceScopeKeys = stored_or
                 (stringArray (get_prop plan MIGRATION_SOURCE_SCOPE_PLAN_KEY)) keys,
               ad_targetScopeKeys = stringArray (get_prop plan MIGRATION_TARGET_SCOPE_PLAN_KEY),
               ad_sourceDockerScopes = stored_or sources scopes, ad_targetDockerScopes = targets\<rparr>))
         else Inr None)"

section \<open>Conflicts of operations\<close>

definition scopesOverlap :: "string list \<Rightarrow> string list \<Rightarrow> bool" where
  "scopesOverlap left right = list_ex (\<lambda>v. v \<in> set left) right"

definition dockerScopesOverlap :: "mutation_scope list \<Rightarrow> mutation_scope list \<Rightarrow> bool" where
  "dockerScopesOverlap left right =
     list_ex (\<lambda>l. list_ex (\<lambda>r. dockerMutationScopesConflict l r) right) left"

definition changes_source :: "admission_kind \<Rightarrow> bool" where
  "changes_source k \<longleftrightarrow> k = Capture \<or> k = Migration"

definition operationsConflict :: "recovery_admission \<Rightarrow> recovery_admission \<Rightarrow> bool" where
  "operationsConflict proposed existing =
     (if scopesOverlap (ad_sourceScopeKeys proposed) (ad_targetScopeKeys existing)
         \<or> dockerScopesOverlap (ad_sourceDockerScopes proposed) (ad_targetDockerScopes existing)
         \<or> scopesOverlap (ad_targetScopeKeys proposed) (ad_sourceScopeKeys existing)
         \<or> dockerScopesOverlap (ad_targetDockerScopes proposed) (ad_sourceDockerScopes existing)
      then True
      else if (scopesOverlap (ad_sourceScopeKeys proposed) (ad_sourceScopeKeys existing)
               \<or> dockerScopesOverlap (ad_sourceDockerScopes proposed) (ad_sourceDockerScopes existing))
              \<and> changes_source (ad_kind proposed) \<and> changes_source (ad_kind existing)
      then True
      else if ad_recoveryPointId proposed \<noteq> None \<and> ad_recoveryPointId proposed \<noteq> Some []
              \<and> ad_recoveryPointId proposed = ad_recoveryPointId existing
              \<and> (ad_kind proposed = Capture \<or> ad_kind existing = Capture)
      then True
      else scopesOverlap (ad_targetScopeKeys proposed) (ad_targetScopeKeys existing)
           \<or> dockerScopesOverlap (ad_targetDockerScopes proposed) (ad_targetDockerScopes existing))"

definition admissionConflict :: "string \<Rightarrow> uuid option \<Rightarrow> exn" where
  "admissionConflict message activeJobId = StatusError 409 message activeJobId"

section \<open>Claims of other jobs\<close>

definition stackRemoteDirectory :: "uuid \<Rightarrow> string" where
  "stackRemoteDirectory stackId = path_join ''/tmp/composebastion'' stackId"

text \<open>\<open>extra\<close> are further payload fields of the caller (\<^verbatim>\<open>_scopeKnown\<close> in \<^verbatim>\<open>services/jobs.ts\<close>).\<close>

definition deploy_path_claim ::
    "(string \<times> json) list \<Rightarrow> uuid \<Rightarrow> string \<Rightarrow> string \<Rightarrow> mutation_scope option" where
  "deploy_path_claim extra hostId workingDir projectName = dockerMutationScope
     \<lparr>al_type = ''compose.deployPath'', al_hostId = None, al_host_id = Some (JStr hostId),
      al_payload = Some (JObj ([(''workingDir'', JStr workingDir),
        (''projectName'', JStr projectName)] @ extra))\<rparr>"

text \<open>The claim of a Compose stack job, through the stack its payload names.\<close>

definition stack_claim :: "(string \<times> json) list \<Rightarrow> db \<Rightarrow> string \<Rightarrow> string \<Rightarrow> mutation_scope option" where
  "stack_claim extra s stackId hostId =
     (if stackId = [] \<or> hostId = [] then None
      else case first_row (filter (\<lambda>st. cs_id st = stackId \<and> cs_host_id st = hostId) (d_stacks s)) of
        None \<Rightarrow> None
      | Some st \<Rightarrow> deploy_path_claim extra (cs_host_id st)
          (case nonempty (cs_source_working_dir st) of
             Some d \<Rightarrow> d | None \<Rightarrow> stackRemoteDirectory (cs_id st)) (cs_project_name st))"

text \<open>The claim of a deployment, through the analysis its payload names.\<close>

definition analysis_claim :: "(string \<times> json) list \<Rightarrow> db \<Rightarrow> string \<Rightarrow> string \<Rightarrow> mutation_scope option" where
  "analysis_claim extra s analysisId hostId =
     (if analysisId = [] \<or> hostId = [] then None
      else case first_row (filter (\<lambda>a. da_id a = analysisId \<and> da_host_id a = hostId) (d_analyses s)) of
        None \<Rightarrow> None
      | Some a \<Rightarrow>
          (case (nonempty (da_working_dir a), nonempty (da_project_name a)) of
             (Some d, Some p) \<Rightarrow> deploy_path_claim extra (da_host_id a) d p
           | _ \<Rightarrow> None))"

definition is_stack_job :: "string \<Rightarrow> bool" where
  "is_stack_job type \<longleftrightarrow> type = ''compose.deploy'' \<or> type = ''compose.stop'' \<or> type = ''compose.remove''"

definition payload_string :: "json \<Rightarrow> string \<Rightarrow> string" where
  "payload_string payload k = string_or_empty (get_prop (objectFields (Some payload)) k)"

definition host_string :: "job_row \<Rightarrow> string" where
  "host_string r = (case j_host_id r of None \<Rightarrow> [] | Some h \<Rightarrow> h)"

definition resolvedDirectDockerMutationScopes :: "db \<Rightarrow> job_row \<Rightarrow> mutation_scope list" where
  "resolvedDirectDockerMutationScopes s r =
     (let (sources, targets) = stored_scopes r in
      if sources \<noteq> [] \<or> targets \<noteq> [] then sources @ targets
      else case dockerMutationScope (row_claim r) of
        Some direct \<Rightarrow> [direct]
      | None \<Rightarrow>
          if is_stack_job (j_type r)
          then (case stack_claim [] s (payload_string (j_payload r) ''stackId'') (host_string r) of
                  None \<Rightarrow> [] | Some sc \<Rightarrow> [sc])
          else if j_type r = ''deploy.execute''
          then (case analysis_claim [] s (payload_string (j_payload r) ''analysisId'') (host_string r) of
                  None \<Rightarrow> [] | Some sc \<Rightarrow> [sc])
          else [])"

definition resource_kind :: "string \<Rightarrow> mutation_target_kind option" where
  "resource_kind k =
     (if k = ''volume'' then Some Volume else if k = ''network'' then Some Network
      else if k = ''container'' then Some Container else if k = ''directory'' then Some HostPath
      else if k = ''compose_project'' then Some ComposeProject else None)"

definition attemptDockerScope :: "attempt_row \<Rightarrow> resource_row list \<Rightarrow> mutation_scope option" where
  "attemptDockerScope attempt resources =
     (let hostId = ra_target_host_id attempt;
          targets = foldl (\<lambda>ts res. case resource_kind (rr_kind res) of
                None \<Rightarrow> ts
              | Some k \<Rightarrow> addRecoveryTarget ts hostId k (rr_resource_name res)) [] resources
      in if targets \<noteq> []
         then Some \<lparr>ms_type = ''compose.deployPath'', ms_hostIds = [hostId], ms_targets = targets\<rparr>
         else None)"

definition activeRestoreAttemptScopes :: "db \<Rightarrow> uuid list \<Rightarrow> mutation_scope list" where
  "activeRestoreAttemptScopes s hostIds =
     List.map_filter
       (\<lambda>a. attemptDockerScope a (sort_key rr_kind (sort_key rr_resource_name
          (filter (\<lambda>res. rr_attempt_id res = ra_id a
             \<and> rr_status res \<noteq> ''cleaned'' \<and> rr_status res \<noteq> ''preserved_unrelated'') (d_resources s)))))
       (sort_key ra_id (filter (\<lambda>a. ra_status a \<in> {''active'', ''awaiting_disposition'',
             ''cleanup_pending'', ''reconciling''}
           \<and> (hostIds = [] \<or> ra_target_host_id a \<in> set hostIds)) (d_attempts s)))"

section \<open>The check of a generic Docker mutation\<close>

definition recovery_job_types :: "string list" where
  "recovery_job_types = [''recovery.create'', ''recovery.capture'', ''recovery.restore'',
     ''migration.execute'', ''volume.backup'', ''volume.restore'', ''volume.clone'',
     ''hostPath.backup'', ''hostPath.restore'', ''backup.drill'']"

definition is_active :: "job_row \<Rightarrow> bool" where
  "is_active r \<longleftrightarrow> j_status r = Queued \<or> j_status r = Running"

definition touches_hosts :: "db \<Rightarrow> uuid list \<Rightarrow> job_row \<Rightarrow> bool" where
  "touches_hosts s hostIds r \<longleftrightarrow>
     opt_in (j_host_id r) hostIds
     \<or> opt_in (payload_text (j_payload r) ''targetHostId'') hostIds
     \<or> list_ex (\<lambda>m. payload_text (j_payload r) ''migrationRunId'' = Some (mr_id m)
          \<and> (mr_source_host_id m \<in> set hostIds \<or> mr_target_host_id m \<in> set hostIds)) (d_migrations s)"

definition reject_conflict ::
    "db \<Rightarrow> mutation_scope list \<Rightarrow> exn \<Rightarrow> mutation_scope \<Rightarrow> unit result" where
  "reject_conflict s requested e candidate =
     (if list_ex (\<lambda>sc. dockerMutationScopesConflict sc
           (canonicalizeDockerMutationScope (d_snapshots s) candidate)) requested
      then Inl e else Inr ())"

definition pending_restart :: "point_row \<Rightarrow> bool" where
  "pending_restart p \<longleftrightarrow> text_prop (rp_metadata p) ''sourceRestartPending'' = Some ''true''"

definition check_obligation ::
    "externs \<Rightarrow> db \<Rightarrow> mutation_scope list \<Rightarrow> exn \<Rightarrow> point_row \<Rightarrow> unit result" where
  "check_obligation X s requested e p =
     and_then (x_parseIdentity X (rp_app_identity p)) (\<lambda>app.
       reject_conflict s requested e
         (buildRecoverySourceDockerMutationScope X (rp_host_id p) app (point_context (rp_metadata p))))"

definition assertDockerMutationDoesNotConflictWithRecovery ::
    "externs \<Rightarrow> mutation_scope \<Rightarrow> db \<Rightarrow> unit result" where
  "assertDockerMutationDoesNotConflictWithRecovery X requested s =
     (let conservative = conservativeRecoveryDockerMutationScope requested;
          hostIds = uniq (ms_hostIds conservative);
          canonical = [canonicalizeDockerMutationScope (d_snapshots s) conservative];
          active = sort_key j_id (filter (\<lambda>r. is_active r \<and> j_type r \<in> set recovery_job_types
                     \<and> touches_hosts s hostIds r) (d_jobs s));
          points = sort_key rp_id (filter (\<lambda>p. pending_restart p \<and> rp_host_id p \<in> set hostIds) (d_points s))
      in and_then (check_all (\<lambda>r.
             check_all (reject_conflict s canonical (admissionConflict
               (''This Docker mutation conflicts with an active recovery, migration, backup, '' @
                ''restore, clone, or drill resource intent.'') (Some (j_id r))))
               (fst (stored_scopes r) @ snd (stored_scopes r))) active) (\<lambda>_.
         and_then (check_all (reject_conflict s canonical (admissionConflict
             (''This Docker mutation conflicts with a restore attempt awaiting '' @
              ''exact-resource reconciliation.'') None))
             (activeRestoreAttemptScopes s hostIds)) (\<lambda>_.
           check_all (check_obligation X s canonical (admissionConflict
             (''This Docker mutation conflicts with an unresolved migration source restart or '' @
              ''target-cleanup obligation.'') None)) points)))"

section \<open>Admission of a recovery operation\<close>

definition recovery_operation_types :: "string list" where
  "recovery_operation_types = [''recovery.create'', ''recovery.capture'', ''recovery.verify'',
     ''recovery.restore'', ''migration.execute'']"

definition conservative_admission :: "recovery_admission \<Rightarrow> recovery_admission" where
  "conservative_admission a = a\<lparr>
     ad_sourceDockerScopes := map conservativeRecoveryDockerMutationScope (ad_sourceDockerScopes a),
     ad_targetDockerScopes := map conservativeRecoveryDockerMutationScope (ad_targetDockerScopes a)\<rparr>"

definition truthy_id :: "uuid option \<Rightarrow> uuid list" where
  "truthy_id v = (case v of Some (c # cs) \<Rightarrow> [c # cs] | _ \<Rightarrow> [])"

definition admission_lock_keys :: "recovery_admission \<Rightarrow> string list" where
  "admission_lock_keys a =
     (let scopes = ad_sourceDockerScopes a @ ad_targetDockerScopes a;
          hostKeys = map hostAdmissionKey (sorted_set (concat (map ms_hostIds scopes)));
          scopedKeys = filter (\<lambda>k. k \<notin> set hostKeys)
             (uniqueScopeKeys (concat (map dockerMutationAdmissionKeys scopes)));
          recoveryKeys = uniqueScopeKeys (ad_sourceScopeKeys a @ ad_targetScopeKeys a
             @ map (\<lambda>p. ''recovery-point:'' @ p) (truthy_id (ad_recoveryPointId a)))
      in hostKeys @ scopedKeys @ recoveryKeys)"

definition concerns :: "uuid list \<Rightarrow> uuid option \<Rightarrow> operation_row \<Rightarrow> bool" where
  "concerns hostIds pointId row \<longleftrightarrow>
     hostIds = []
     \<or> opt_in (j_host_id (or_job row)) hostIds
     \<or> opt_in (map_option rp_host_id (or_point row)) hostIds
     \<or> opt_in (map_option mr_source_host_id (or_migration row)) hostIds
     \<or> opt_in (map_option mr_target_host_id (or_migration row)) hostIds
     \<or> (pointId \<noteq> None \<and> payload_text (j_payload (or_job row)) ''recoveryPointId'' = pointId)"

definition check_existing ::
    "externs \<Rightarrow> recovery_admission \<Rightarrow> operation_row \<Rightarrow> unit result" where
  "check_existing X admission row =
     and_then (operationScopesFromRow X row) (\<lambda>existing.
       case existing of
         None \<Rightarrow> Inr ()
       | Some e \<Rightarrow>
           if operationsConflict admission e
           then Inl (admissionConflict (''A conflicting recovery or migration operation is already '' @
                  ''queued or running for this application, recovery point, or exact target resource.'')
                  (Some (j_id (or_job row))))
           else Inr ())"

definition check_source_obligation ::
    "externs \<Rightarrow> recovery_admission \<Rightarrow> point_row \<Rightarrow> unit result" where
  "check_source_obligation X admission p =
     and_then (x_parseIdentity X (rp_app_identity p)) (\<lambda>app.
       let stored = stringArray (get_prop (rp_metadata p) RECOVERY_SOURCE_SCOPE_METADATA_KEY);
           fallback = buildRecoverySourceOperationScopeKeys X (rp_host_id p) app
                        (point_context (rp_metadata p))
       in if scopesOverlap (ad_sourceScopeKeys admission) (stored_or stored fallback)
          then Inl (admissionConflict (''The source application has an unresolved restart or '' @
                 ''target-cleanup obligation. Reconcile it before starting another capture or migration.'')
                 None)
          else Inr ())"

definition lockRecoveryOperationAdmission ::
    "externs \<Rightarrow> recovery_admission \<Rightarrow> db \<Rightarrow> db result" where
  "lockRecoveryOperationAdmission X proposed s0 =
     (let admission = conservative_admission proposed;
          scopes = ad_sourceDockerScopes admission @ ad_targetDockerScopes admission;
          hostIds = sorted_set (concat (map ms_hostIds scopes));
          s = advisory_locks (admission_lock_keys admission) s0;
          active = filter (concerns hostIds (ad_recoveryPointId admission))
             (map (join_operation s) (sort_key j_id (filter (\<lambda>r. is_active r
                \<and> j_type r \<in> set recovery_operation_types) (d_jobs s))));
          sourceHosts = concat (map ms_hostIds (ad_sourceDockerScopes admission));
          obligations = sort_key rp_id (filter (\<lambda>p. pending_restart p
             \<and> (sourceHosts = [] \<or> rp_host_id p \<in> set sourceHosts)) (d_points s));
          canonical = map (canonicalizeDockerMutationScope (d_snapshots s)) scopes;
          direct = sort_key j_id (filter (\<lambda>r. is_active r
             \<and> j_type r \<notin> set recovery_operation_types
             \<and> (opt_in (j_host_id r) hostIds
                \<or> opt_in (payload_text (j_payload r) ''targetHostId'') hostIds)) (d_jobs s))
      in and_then (check_all (check_existing X admission) active) (\<lambda>_.
         and_then (if changes_source (ad_kind admission)
                   then check_all (check_source_obligation X admission) obligations
                   else Inr ()) (\<lambda>_.
         and_then (if canonical = [] then Inr ()
                   else and_then (check_all (\<lambda>r. check_all (reject_conflict s canonical
                          (admissionConflict (''This recovery or migration operation conflicts with an '' @
                             ''active Docker mutation for an exact source or target resource.'') (Some (j_id r))))
                          (resolvedDirectDockerMutationScopes s r)) direct) (\<lambda>_.
                        check_all (reject_conflict s canonical (admissionConflict
                          (''A prior restore attempt still owns an overlapping target resource or is '' @
                           ''awaiting exact-resource reconciliation.'') None))
                          (activeRestoreAttemptScopes s hostIds))) (\<lambda>_.
         Inr s))))"

section \<open>Concrete operations\<close>

text \<open>A restore that owns one volume, and the database of an unrelated volume job on the same host.\<close>

definition sample_restore :: recovery_admission where
  "sample_restore = \<lparr>ad_kind = Restore, ad_recoveryPointId = Some ''point-1'',
     ad_sourceScopeKeys = [], ad_targetScopeKeys = [], ad_sourceDockerScopes = [],
     ad_targetDockerScopes = [example_scope ''compose.deployPath'' [target ''h1'' Volume ''data'']]\<rparr>"

definition sample_volume_job :: job_row where
  "sample_volume_job = (sample_job ''volume.create'' Running)\<lparr>j_payload := JObj [(''name'', JStr ''cache'')]\<rparr>"

section \<open>Lemmas\<close>

subsection \<open>Conservative claims\<close>

lemma is_ws_lower [simp]: "is_ws (lower_char c) = is_ws c"
  by (cases "of_char c < (256 :: nat)") (auto simp: is_ws_def lower_char_def Let_def of_char_of)

lemma lower_char_idem [simp]: "lower_char (lower_char c) = lower_char c"
  by (auto simp: lower_char_def Let_def of_char_of)

lemma dropWhile_ws_lower: "dropWhile is_ws (to_lower s) = to_lower (dropWhile is_ws s)"
  by (induction s) (auto simp: to_lower_def)

lemma trim_lower: "trim (to_lower s) = to_lower (trim s)"
proof -
  have "rev (to_lower s) = to_lower (rev s)" for s by (simp add: to_lower_def rev_map)
  then show ?thesis by (simp add: trim_def dropWhile_ws_lower)
qed

lemma normalizedScopePart_idem [simp]:
  "normalizedScopePart (Some (normalizedScopePart (Some s))) = normalizedScopePart (Some s)"
  by (simp add: normalizedScopePart_def trim_lower) (simp add: to_lower_def)

lemma set_addRecoveryTarget: "set (addRecoveryTarget ts h k v) = set ts \<union> set (addRecoveryTarget [] h k v)"
  by (auto simp: addRecoveryTarget_def Let_def set_push_target)

lemma conservative_targets:
  "set (ms_targets (conservativeRecoveryDockerMutationScope sc))
   = (\<Union>t\<in>set (ms_targets sc). set (addRecoveryTarget [] (mt_hostId t) (mt_kind t) (mt_value t)))"
proof -
  have all: "set (foldl (\<lambda>ts t. addRecoveryTarget ts (mt_hostId t) (mt_kind t) (mt_value t)) ts0 ts)
      = set ts0 \<union> (\<Union>t\<in>set ts. set (addRecoveryTarget [] (mt_hostId t) (mt_kind t) (mt_value t)))" for ts0 ts
  proof (induction ts arbitrary: ts0)
    case (Cons t ts)
    then show ?case by (simp add: set_addRecoveryTarget [of ts0] Un_assoc)
  qed simp
  show ?thesis using all [of "[]" "ms_targets sc"] by (simp add: conservativeRecoveryDockerMutationScope_def Let_def)
qed

lemma recoveryTargetValue_star: "path_normalize (trim ''*'') = ''*''"
  by code_simp

lemma recovery_target_again:
  assumes "t \<in> set (addRecoveryTarget [] h k v)" and "mt_kind t = HostPath \<longrightarrow> mt_value t = ''*''"
  shows "t \<in> set (addRecoveryTarget [] (mt_hostId t) (mt_kind t) (mt_value t))"
  using assms
  by (cases k) (auto simp: addRecoveryTarget_def Let_def set_push_target recoveryTargetValue_star
      recoveryTargetValue_def split: if_splits)

lemma conservative_twice:
  assumes "dockerMutationScopesConflict x (conservativeRecoveryDockerMutationScope sc)"
  shows "dockerMutationScopesConflict x
    (conservativeRecoveryDockerMutationScope (conservativeRecoveryDockerMutationScope sc))"
proof -
  obtain l r u where c: "l \<in> set (ms_targets x)" "targetsConflict l r" and u: "u \<in> set (ms_targets sc)"
    and r: "r \<in> set (addRecoveryTarget [] (mt_hostId u) (mt_kind u) (mt_value u))"
    using assms by (auto simp: scopesConflict_iff conservative_targets)
  have again: "t \<in> set (ms_targets (conservativeRecoveryDockerMutationScope (conservativeRecoveryDockerMutationScope sc)))"
    if "t \<in> set (addRecoveryTarget [] (mt_hostId u) (mt_kind u) (mt_value u))" "mt_kind t = HostPath \<longrightarrow> mt_value t = ''*''"
    for t using u that recovery_target_again [OF that] unfolding conservative_targets by blast
  show ?thesis
  proof (cases "mt_kind r = HostPath")
    case False
    then show ?thesis using c again [OF r] by (auto simp: scopesConflict_iff)
  next
    case True
    then have "target (mt_hostId r) HostPath ''*'' \<in> set (addRecoveryTarget [] (mt_hostId u) (mt_kind u) (mt_value u))"
      using r by (auto simp: addRecoveryTarget_def Let_def set_push_target split: if_splits)
    from again [OF this] True c show ?thesis
      by (intro scopesConflict_sym [OF conflict_star [of "mt_hostId r" HostPath _ l]])
         (auto simp: targetsConflict_def split: if_splits)
  qed
qed

lemma conservative_mono:
  assumes "set (ms_targets a) \<subseteq> set (ms_targets b)"
  shows "set (ms_targets (conservativeRecoveryDockerMutationScope a))
    \<subseteq> set (ms_targets (conservativeRecoveryDockerMutationScope b))"
  using assms unfolding conservative_targets by blast

subsection \<open>Stored claims\<close>

lemma kind_of_name_kind [simp]: "kind_of_name (kind_name k) = Some k"
  by (cases k) (simp_all add: kind_of_name_def)

lemma decode_encode_target [simp]: "decode_target (encode_target t) = Some t"
  by (simp add: decode_target_def encode_target_def get_prop_def)

lemma all_some_map [simp]: "all_some (map (\<lambda>x. Some (f x)) xs) = Some (map f xs)"
  by (simp add: all_some_def list_all_iff)

lemma decode_encode_scope [simp]: "decode_scope (encode_scope sc) = Some sc"
  by (simp add: decode_scope_def encode_scope_def get_prop_def comp_def)

lemma decode_encode_scopes [simp]:
  "decode_scopes (Some (JArr (map (encode_scope \<circ> f) xs)))
   = map (conservativeRecoveryDockerMutationScope \<circ> f) xs"
  by (induction xs) (simp_all add: decode_scopes_def List.map_filter_simps)

lemma persist_SomeD:
  assumes "persistRecoveryDockerMutationScopes ck i src tgt s = Inr s'"
  shows "d_jobs s' = update_where (\<lambda>r. j_id r = i) (persist_update ck src tgt) (d_jobs s)
    \<and> (\<exists>r\<in>set (d_jobs s). j_id r = i)"
proof -
  have "length (filter (\<lambda>r. j_id r = i) (d_jobs s)) = 1"
    and s': "s' = update_jobs (\<lambda>r. j_id r = i) (persist_update ck src tgt) s"
    using assms by (auto simp: persistRecoveryDockerMutationScopes_def split: if_splits)
  then have "filter (\<lambda>r. j_id r = i) (d_jobs s) \<noteq> []" by auto
  with s' show ?thesis by (simp add: filter_eq_Nil_iff)
qed

lemma stored_scopes_persist:
  "stored_scopes (persist_update ck src tgt r)
   = (map (conservativeRecoveryDockerMutationScope \<circ> conservativeRecoveryDockerMutationScope) src,
      map (conservativeRecoveryDockerMutationScope \<circ> conservativeRecoveryDockerMutationScope) tgt)"
  by (simp add: stored_scopes_def persist_update_def storedRecoveryDockerScopes_def get_prop_def [of "[_, _]"])

subsection \<open>Symmetry of operation conflicts\<close>

lemma scopesOverlap_sym: "scopesOverlap a b = scopesOverlap b a"
  by (auto simp: scopesOverlap_def list_ex_iff)

lemma dockerScopesOverlap_sym: "dockerScopesOverlap a b = dockerScopesOverlap b a"
  unfolding dockerScopesOverlap_def list_ex_iff using scopesConflict_sym by blast

interpretation operation_conflict: conflict_relation operationsConflict
  by unfold_locales
    (auto simp: operationsConflict_def scopesOverlap_sym dockerScopesOverlap_sym split: if_splits)

subsection \<open>Checks against other operations\<close>

lemma reject_conflict_ok:
  "reject_conflict s requested e candidate = Inr () \<longleftrightarrow>
     (\<forall>sc\<in>set requested. \<not> dockerMutationScopesConflict sc (canonicalizeDockerMutationScope (d_snapshots s) candidate))"
  by (auto simp: reject_conflict_def list_ex_iff)

lemma claims_advisory:
  "stack_claim extra (advisory_locks ks s) = stack_claim extra s"
  "analysis_claim extra (advisory_locks ks s) = analysis_claim extra s"
  by (simp_all add: fun_eq_iff stack_claim_def analysis_claim_def)

lemma resolvedDirect_advisory [simp]:
  "resolvedDirectDockerMutationScopes (advisory_locks ks s) = resolvedDirectDockerMutationScopes s"
  by (rule ext) (unfold resolvedDirectDockerMutationScopes_def claims_advisory, rule refl)

lemma recovery_reads_advisory [simp]:
  "join_operation (advisory_locks ks s) = join_operation s"
  "activeRestoreAttemptScopes (advisory_locks ks s) = activeRestoreAttemptScopes s"
  "reject_conflict (advisory_locks ks s) = reject_conflict s"
  by (simp_all add: fun_eq_iff join_operation_def activeRestoreAttemptScopes_def reject_conflict_def)

lemma check_existing_ok:
  "check_existing X admission row = Inr () \<longleftrightarrow>
     (\<exists>existing. operationScopesFromRow X row = Inr existing
        \<and> (\<forall>e. existing = Some e \<longrightarrow> \<not> operationsConflict admission e))"
  by (auto simp: check_existing_def and_then_Inr_iff split: option.splits)

section \<open>Properties\<close>

text \<open>
  Persisted intents protect what they claim. After the claims of a recovery operation are written into its
  job, the claims read back for the job are exactly as many, in the same order, and every mutation that
  conflicts with a persisted claim conflicts with the claim read back for it; no other job changes.
\<close>

theorem persisted_intent_read_back:
  assumes "persistRecoveryDockerMutationScopes ck i src tgt s = Inr s'"
  shows "(\<exists>r\<in>set (d_jobs s'). j_id r = i
      \<and> list_all2 (\<lambda>sc c. \<forall>x. dockerMutationScopesConflict x (conservativeRecoveryDockerMutationScope sc)
            \<longrightarrow> dockerMutationScopesConflict x c) src (fst (stored_scopes r))
      \<and> list_all2 (\<lambda>sc c. \<forall>x. dockerMutationScopesConflict x (conservativeRecoveryDockerMutationScope sc)
            \<longrightarrow> dockerMutationScopesConflict x c) tgt (snd (stored_scopes r)))
    \<and> filter (\<lambda>r. j_id r \<noteq> i) (d_jobs s') = filter (\<lambda>r. j_id r \<noteq> i) (d_jobs s)"
proof -
  obtain r where r: "r \<in> set (d_jobs s)" "j_id r = i"
    and s': "d_jobs s' = update_where (\<lambda>r. j_id r = i) (persist_update ck src tgt) (d_jobs s)"
    using persist_SomeD [OF assms] by blast
  have id: "j_id (persist_update ck src tgt q) = j_id q" for q by (simp add: persist_update_def)
  have in': "persist_update ck src tgt r \<in> set (d_jobs s')"
    unfolding s' set_update_where by (rule image_eqI [of _ _ r]) (simp_all add: r)
  have kept: "list_all2 (\<lambda>sc c. \<forall>x. dockerMutationScopesConflict x (conservativeRecoveryDockerMutationScope sc)
            \<longrightarrow> dockerMutationScopesConflict x c) scs
        (map (conservativeRecoveryDockerMutationScope \<circ> conservativeRecoveryDockerMutationScope) scs)" for scs
    by (induction scs) (simp_all add: conservative_twice)
  have others: "filter (\<lambda>r. j_id r \<noteq> i) (update_where (\<lambda>r. j_id r = i) (persist_update ck src tgt) rows)
      = filter (\<lambda>r. j_id r \<noteq> i) rows" for rows
    by (induction rows) (simp_all add: id)
  show ?thesis
    by (intro conjI bexI [OF _ in']) (simp_all add: id r(2) stored_scopes_persist kept s' others)
qed

theorem persisted_intent_read_back_witness:
  "\<exists>r\<in>set (d_jobs (projr (persistRecoveryDockerMutationScopes (clock_of 0) ''job-1''
       [example_scope ''volume.prune'' [target ''h1'' Volume ''data'']] [] (jobs_db [sample_job ''volume.backup'' Queued])))).
     list_ex (dockerMutationScopesConflict (example_scope ''volume.remove'' [target ''h1'' Volume ''data'']))
       (fst (stored_scopes r))"
proof -
  let ?sc = "example_scope ''volume.prune'' [target ''h1'' Volume ''data'']"
  let ?x = "example_scope ''volume.remove'' [target ''h1'' Volume ''data'']"
  let ?e = "persistRecoveryDockerMutationScopes (clock_of 0) ''job-1'' [?sc] [] (jobs_db [sample_job ''volume.backup'' Queued])"
  have "\<not> isl ?e" and c: "dockerMutationScopesConflict ?x (conservativeRecoveryDockerMutationScope ?sc)"
    by code_simp+
  then have "?e = Inr (projr ?e)" by simp
  from persisted_intent_read_back [OF this] obtain r d ds where r: "r \<in> set (d_jobs (projr ?e))"
    and d: "fst (stored_scopes r) = d # ds"
      "\<forall>x. dockerMutationScopesConflict x (conservativeRecoveryDockerMutationScope ?sc) \<longrightarrow> dockerMutationScopesConflict x d"
    unfolding list_all2_Cons1 by blast
  show ?thesis by (rule bexI [OF _ r]) (use c d in simp)
qed

text \<open>
  C18: an admitted recovery operation is unopposed. When the admission of a recovery, restore or migration
  returns, it has only taken its advisory keys; every active recovery operation that concerns its hosts or its
  recovery point has readable claims, and neither operation conflicts with the other; no active job with a
  direct claim on one of its hosts and no unsettled restore attempt there claims a resource it claims.
\<close>

theorem recovery_admission_unopposed:
  fixes proposed s
  defines "admission \<equiv> conservative_admission proposed"
  defines "scopes \<equiv> ad_sourceDockerScopes admission @ ad_targetDockerScopes admission"
  defines "hosts \<equiv> sorted_set (concat (map ms_hostIds scopes))"
  defines "canonical \<equiv> canonicalizeDockerMutationScope (d_snapshots s)"
  assumes "lockRecoveryOperationAdmission X proposed s = Inr s'"
  shows "s' = advisory_locks (admission_lock_keys admission) s
    \<and> (\<forall>r\<in>set (d_jobs s). is_active r \<and> j_type r \<in> set recovery_operation_types
          \<and> concerns hosts (ad_recoveryPointId proposed) (join_operation s r)
        \<longrightarrow> (\<exists>existing. operationScopesFromRow X (join_operation s r) = Inr existing
              \<and> (\<forall>e. existing = Some e \<longrightarrow> \<not> operationsConflict admission e \<and> \<not> operationsConflict e admission)))
    \<and> (\<forall>r\<in>set (d_jobs s). is_active r \<and> j_type r \<notin> set recovery_operation_types
          \<and> (opt_in (j_host_id r) hosts \<or> opt_in (payload_text (j_payload r) ''targetHostId'') hosts)
        \<longrightarrow> (\<forall>sc\<in>set scopes. \<forall>d\<in>set (resolvedDirectDockerMutationScopes s r).
              \<not> dockerMutationScopesConflict (canonical sc) (canonical d)))
    \<and> (\<forall>sc\<in>set scopes. \<forall>d\<in>set (activeRestoreAttemptScopes s hosts).
          \<not> dockerMutationScopesConflict (canonical sc) (canonical d))"
proof -
  let ?direct = "\<lambda>r. is_active r \<and> j_type r \<notin> set recovery_operation_types
    \<and> (opt_in (j_host_id r) hosts \<or> opt_in (payload_text (j_payload r) ''targetHostId'') hosts)"
  have point: "ad_recoveryPointId admission = ad_recoveryPointId proposed"
    by (simp add: admission_def conservative_admission_def)
  have s': "s' = advisory_locks (admission_lock_keys admission) s"
    and active: "check_all (check_existing X admission) (filter (concerns hosts (ad_recoveryPointId proposed))
        (map (join_operation s) (sort_key j_id (filter (\<lambda>r. is_active r
           \<and> j_type r \<in> set recovery_operation_types) (d_jobs s))))) = Inr ()"
    and direct: "scopes \<noteq> [] \<longrightarrow> check_all (\<lambda>r. check_all (reject_conflict s (map canonical scopes)
        (admissionConflict (''This recovery or migration operation conflicts with an '' @
           ''active Docker mutation for an exact source or target resource.'') (Some (j_id r))))
        (resolvedDirectDockerMutationScopes s r)) (sort_key j_id (filter ?direct (d_jobs s))) = Inr ()"
    and attempts: "scopes \<noteq> [] \<longrightarrow> check_all (reject_conflict s (map canonical scopes)
        (admissionConflict (''A prior restore attempt still owns an overlapping target resource or is '' @
           ''awaiting exact-resource reconciliation.'') None)) (activeRestoreAttemptScopes s hosts) = Inr ()"
    using assms(5) unfolding lockRecoveryOperationAdmission_def Let_def admission_def [symmetric] scopes_def [symmetric]
      hosts_def [symmetric]
    by (auto simp add: and_then_Inr_iff canonical_def point split: if_splits)
  show ?thesis
  proof (intro conjI)
    show "\<forall>r\<in>set (d_jobs s). is_active r \<and> j_type r \<in> set recovery_operation_types
          \<and> concerns hosts (ad_recoveryPointId proposed) (join_operation s r)
        \<longrightarrow> (\<exists>existing. operationScopesFromRow X (join_operation s r) = Inr existing
              \<and> (\<forall>e. existing = Some e \<longrightarrow> \<not> operationsConflict admission e \<and> \<not> operationsConflict e admission))"
    proof (intro ballI impI)
      fix r
      assume "r \<in> set (d_jobs s)" "is_active r \<and> j_type r \<in> set recovery_operation_types
        \<and> concerns hosts (ad_recoveryPointId proposed) (join_operation s r)"
      then have "check_existing X admission (join_operation s r) = Inr ()"
        using active by (auto simp: check_all_ok)
      then show "\<exists>existing. operationScopesFromRow X (join_operation s r) = Inr existing
          \<and> (\<forall>e. existing = Some e \<longrightarrow> \<not> operationsConflict admission e \<and> \<not> operationsConflict e admission)"
        using operation_conflict.conflict_sym unfolding check_existing_ok by blast
    qed
    show "\<forall>r\<in>set (d_jobs s). ?direct r \<longrightarrow> (\<forall>sc\<in>set scopes. \<forall>d\<in>set (resolvedDirectDockerMutationScopes s r).
              \<not> dockerMutationScopesConflict (canonical sc) (canonical d))"
    proof (intro ballI impI)
      fix r sc d
      assume "r \<in> set (d_jobs s)" "?direct r" "sc \<in> set scopes" "d \<in> set (resolvedDirectDockerMutationScopes s r)"
      then show "\<not> dockerMutationScopesConflict (canonical sc) (canonical d)"
        using direct by (force simp: check_all_ok reject_conflict_ok canonical_def)
    qed
    show "\<forall>sc\<in>set scopes. \<forall>d\<in>set (activeRestoreAttemptScopes s hosts).
          \<not> dockerMutationScopesConflict (canonical sc) (canonical d)"
      using attempts by (force simp: check_all_ok reject_conflict_ok canonical_def)
  qed (fact s')
qed

theorem recovery_admission_unopposed_witness:
  "resolvedDirectDockerMutationScopes (jobs_db [sample_volume_job]) sample_volume_job
      = [example_scope ''volume.create'' [target ''h1'' Volume ''cache'']]
   \<and> \<not> dockerMutationScopesConflict
       (canonicalizeDockerMutationScope [] (example_scope ''compose.deployPath'' [target ''h1'' Volume ''data'']))
       (canonicalizeDockerMutationScope [] (example_scope ''volume.create'' [target ''h1'' Volume ''cache'']))"
proof -
  let ?s = "jobs_db [sample_volume_job]"
  let ?e = "lockRecoveryOperationAdmission sample_externs sample_restore ?s"
  have direct: "resolvedDirectDockerMutationScopes ?s sample_volume_job
      = [example_scope ''volume.create'' [target ''h1'' Volume ''cache'']]"
    and scopes: "ad_sourceDockerScopes (conservative_admission sample_restore)
        @ ad_targetDockerScopes (conservative_admission sample_restore)
      = [example_scope ''compose.deployPath'' [target ''h1'' Volume ''data'']]"
    and row: "is_active sample_volume_job \<and> j_type sample_volume_job \<notin> set recovery_operation_types
      \<and> j_host_id sample_volume_job = Some ''h1''"
    and hosts: "sorted_set (concat (map ms_hostIds [example_scope ''compose.deployPath'' [target ''h1'' Volume ''data'']])) = [''h1'']"
    and "\<not> isl ?e"
    by code_simp+
  then have "?e = Inr (projr ?e)" by simp
  from recovery_admission_unopposed [OF this, unfolded scopes hosts] direct row show ?thesis
    by (auto simp: jobs_db_def empty_db_def opt_in_def)
qed

end
