(* ===== verification/Job_Admission.thy ===== *)
theory Job_Admission
  imports Recovery_Admission Remote_Proof
begin

text \<open>
  Admission of jobs (\<^verbatim>\<open>services/jobs.ts\<close>): the host locks of an enqueue, the single-flight
  scope of an action and the search for a job that excludes it, enqueueing, and the guards of
  user-visible changes to a stack or a repository. The manual retry is in \<open>Job_Retry\<close>.
\<close>

section \<open>Hosts of an action\<close>

definition actionHostIds :: "docker_action \<Rightarrow> uuid list" where
  "actionHostIds a =
     sorted_set (a_hostId a # truthy_id (as_string (get_prop (a_payload a) ''targetHostId'')))"

definition host_available :: "docker_host_row \<Rightarrow> bool" where
  "host_available h \<longleftrightarrow> dh_deleted_at h = None"

definition lockJobHostsForEnqueue :: "docker_action \<Rightarrow> db \<Rightarrow> db result" where
  "lockJobHostsForEnqueue a s =
     (let hostIds = actionHostIds a;
          selected = filter (\<lambda>h. dh_id h \<in> set hostIds \<and> host_available h) (d_hosts s)
      in if length selected \<noteq> length hostIds
         then Inl (StatusError 409 ''One or more Docker hosts are unavailable or were deleted.'' None)
         else Inr (advisory_locks (map hostAdmissionKey hostIds) s))"

section \<open>Single-flight scopes\<close>

definition CROSS_TARGET_JOB_TYPES :: "string list" where
  "CROSS_TARGET_JOB_TYPES = RECONCILABLE_DOCKER_MUTATION_TYPES
     @ [''compose.deploy'', ''compose.stop'', ''compose.remove'', ''deploy.analyze'', ''deploy.execute'']"

definition strip_scheme :: "string \<Rightarrow> string" where
  "strip_scheme s =
     (if starts_with ''http://'' (to_lower s) then drop 7 s
      else if starts_with ''https://'' (to_lower s) then drop 8 s else s)"

definition normalizedRegistry :: "unknown \<Rightarrow> string" where
  "normalizedRegistry v = to_lower (strip_slashes (strip_scheme (trim (string_or_empty v))))"

definition normalizedJobTargetPath :: "unknown \<Rightarrow> string" where
  "normalizedJobTargetPath v =
     (let t = trim (string_or_empty v) in if t \<noteq> [] then path_normalize t else t)"

text \<open>The claim of an action or a job row, also when it is made through a stack or an analysis.\<close>

definition scope_known :: "(string \<times> json) list" where
  "scope_known = [(''_scopeKnown'', JBool True)]"

definition resolveDockerMutationScopeForJob :: "db \<Rightarrow> action_like \<Rightarrow> mutation_scope option" where
  "resolveDockerMutationScopeForJob s input =
     (case dockerMutationScope input of
        Some direct \<Rightarrow> Some direct
      | None \<Rightarrow>
          let type = al_type input;
              hostId = string_or_empty (nullish (al_hostId input) (al_host_id input));
              payload = objectFields (al_payload input)
          in if is_stack_job type
             then stack_claim scope_known s (string_or_empty (get_prop payload ''stackId'')) hostId
             else if type = ''deploy.analyze'' \<and> hostId \<noteq> []
             then deploy_path_claim [] hostId ''*'' ''*''
             else if type = ''deploy.execute''
             then analysis_claim scope_known s (string_or_empty (get_prop payload ''analysisId'')) hostId
             else None)"

text \<open>\<^verbatim>\<open>===\<close> on values read from JSON: objects and arrays are never identical.\<close>

fun strict_equal :: "unknown \<Rightarrow> unknown \<Rightarrow> bool" where
  "strict_equal (Some (JArr _)) _ = False"
| "strict_equal (Some (JObj _)) _ = False"
| "strict_equal x y = (x = y)"

record single_flight =
  sf_key :: string
  sf_keys :: "string list option"
  sf_types :: "string list"
  sf_hostId :: "uuid option"
  sf_hostIds :: "uuid list"
  sf_dockerScope :: "mutation_scope option"
  sf_matches :: "job_row \<Rightarrow> bool"
  sf_conflictMessage :: string

definition payload_prop :: "job_row \<Rightarrow> string \<Rightarrow> unknown" where
  "payload_prop r k = get_prop (objectFields (Some (j_payload r))) k"

text \<open>\<^verbatim>\<open>`prefix${value}`\<close>\<close>

definition js_text :: "unknown \<Rightarrow> string" where
  "js_text v = (case v of None \<Rightarrow> ''undefined'' | Some j \<Rightarrow> js_String j)"

definition direct_conflict :: "mutation_scope \<Rightarrow> job_row \<Rightarrow> bool" where
  "direct_conflict sc r =
     (case dockerMutationScope (row_claim r) of
        None \<Rightarrow> False
      | Some candidate \<Rightarrow> dockerMutationScopesConflict sc candidate)"

definition singleFlightScope :: "docker_action \<Rightarrow> single_flight option" where
  "singleFlightScope a =
     (if a_type a = ''system.self_update''
      then Some \<lparr>sf_key = ''system.self_update'', sf_keys = None,
             sf_types = [''system.self_update''], sf_hostId = None, sf_hostIds = [],
             sf_dockerScope = None, sf_matches = (\<lambda>_. True),
             sf_conflictMessage = ''A ComposeBastion self-update is already queued or running.''\<rparr>
      else if a_type a = ''deploy.analyze'' \<or> a_type a = ''deploy.execute''
      then let analysisId = get_prop (a_payload a) ''analysisId'' in
           Some \<lparr>sf_key = ''deployment:'' @ js_text analysisId, sf_keys = None,
             sf_types = [''deploy.analyze'', ''deploy.execute''], sf_hostId = None, sf_hostIds = [],
             sf_dockerScope = None,
             sf_matches = (\<lambda>r. strict_equal (payload_prop r ''analysisId'') analysisId),
             sf_conflictMessage = ''This deployment already has an analysis or deployment '' @
               ''job queued or running.''\<rparr>
      else if a_type a = ''host.configureRegistryTrust''
      then let registry = normalizedRegistry (get_prop (a_payload a) ''registry'') in
           Some \<lparr>sf_key = ''registry-trust:'' @ a_hostId a @ '':'' @ registry, sf_keys = None,
             sf_types = [''host.configureRegistryTrust''], sf_hostId = Some (a_hostId a),
             sf_hostIds = [], sf_dockerScope = None,
             sf_matches = (\<lambda>r. normalizedRegistry (payload_prop r ''registry'') = registry),
             sf_conflictMessage = ''Registry trust configuration for this host and registry is '' @
               ''already queued or running.''\<rparr>
      else if is_stack_job (a_type a)
      then let stackId = get_prop (a_payload a) ''stackId'' in
           Some \<lparr>sf_key = ''compose-stack:'' @ a_hostId a @ '':'' @ js_text stackId, sf_keys = None,
             sf_types = [''compose.deploy'', ''compose.stop'', ''compose.remove''],
             sf_hostId = Some (a_hostId a), sf_hostIds = [], sf_dockerScope = None,
             sf_matches = (\<lambda>r. strict_equal (payload_prop r ''stackId'') stackId),
             sf_conflictMessage = ''This Compose stack already has a deployment, stop, or removal '' @
               ''job queued or running.''\<rparr>
      else case dockerMutationScope (action_claim a) of
        Some sc \<Rightarrow>
          let keys = dockerMutationAdmissionKeys sc in
          Some \<lparr>sf_key = hd keys, sf_keys = Some keys,
             sf_types = RECONCILABLE_DOCKER_MUTATION_TYPES, sf_hostId = None,
             sf_hostIds = ms_hostIds sc, sf_dockerScope = Some sc, sf_matches = direct_conflict sc,
             sf_conflictMessage = ''Another remote mutation for the same Docker resource, host path, '' @
               ''or Compose project is already queued or running.''\<rparr>
      | None \<Rightarrow> None)"

text \<open>The resolved claim replaces the scope's claim, hosts, keys and job types.\<close>

definition resolve_scope :: "mutation_scope option \<Rightarrow> single_flight \<Rightarrow> single_flight" where
  "resolve_scope resolved scope =
     (case resolved of
        None \<Rightarrow> scope
      | Some sc \<Rightarrow>
          let keys = sorted_set ((case sf_keys scope of Some ks \<Rightarrow> ks | None \<Rightarrow> [sf_key scope])
                       @ dockerMutationAdmissionKeys sc)
          in scope\<lparr>sf_dockerScope := Some sc, sf_hostIds := ms_hostIds sc, sf_keys := Some keys,
                   sf_key := hd keys, sf_types := uniq (sf_types scope @ CROSS_TARGET_JOB_TYPES)\<rparr>)"

definition scope_keys :: "single_flight \<Rightarrow> string list" where
  "scope_keys scope = (case sf_keys scope of Some ks \<Rightarrow> ks | None \<Rightarrow> [sf_key scope])"

definition on_hosts :: "uuid list \<Rightarrow> job_row \<Rightarrow> bool" where
  "on_hosts hostIds r \<longleftrightarrow>
     opt_in (j_host_id r) hostIds \<or> opt_in (payload_text (j_payload r) ''targetHostId'') hostIds"

definition hostPredicate :: "single_flight \<Rightarrow> job_row \<Rightarrow> bool" where
  "hostPredicate scope r =
     (case sf_hostId scope of
        Some h \<Rightarrow> j_host_id r = Some h
      | None \<Rightarrow> if sf_hostIds scope \<noteq> [] then on_hosts (sf_hostIds scope) r else True)"

definition scope_matches :: "db \<Rightarrow> mutation_scope option \<Rightarrow> single_flight \<Rightarrow> job_row \<Rightarrow> bool" where
  "scope_matches s requested scope r \<longleftrightarrow>
     sf_matches scope r
     \<or> (case requested of
          None \<Rightarrow> False
        | Some req \<Rightarrow>
            (case resolveDockerMutationScopeForJob s (row_claim r) of
               None \<Rightarrow> False
             | Some candidate \<Rightarrow> dockerMutationScopesConflict req
                 (canonicalizeDockerMutationScope (d_snapshots s) candidate)))"

definition active_rows :: "db \<Rightarrow> single_flight \<Rightarrow> job_row list" where
  "active_rows s scope =
     filter (\<lambda>r. is_active r \<and> j_type r \<in> set (sf_types scope) \<and> hostPredicate scope r) (d_jobs s)"

text \<open>\<^verbatim>\<open>ORDER BY completed_at DESC\<close>: nulls come first.\<close>

definition by_completion_desc :: "job_row list \<Rightarrow> job_row list" where
  "by_completion_desc rows =
     filter (\<lambda>r. j_completed_at r = None) rows
     @ sort_key (\<lambda>r. case j_completed_at r of None \<Rightarrow> 0 | Some t \<Rightarrow> - t)
         (filter (\<lambda>r. j_completed_at r \<noteq> None) rows)"

definition ambiguous_rows :: "db \<Rightarrow> single_flight \<Rightarrow> job_row list" where
  "ambiguous_rows s scope = by_completion_desc
     (filter (\<lambda>r. isAmbiguousRemoteOutcome r \<and> j_type r \<in> set (sf_types scope)
        \<and> hostPredicate scope r) (d_jobs s))"

definition conflictError :: "string \<Rightarrow> uuid option \<Rightarrow> exn" where
  "conflictError message activeJobId =
     StatusError 409 message (case activeJobId of Some (c # cs) \<Rightarrow> Some (c # cs) | _ \<Rightarrow> None)"

definition truthy_eq :: "string option \<Rightarrow> string option \<Rightarrow> bool" where
  "truthy_eq wanted actual \<longleftrightarrow> wanted \<noteq> None \<and> wanted \<noteq> Some [] \<and> wanted = actual"

definition judge_rows ::
    "db \<Rightarrow> mutation_scope option \<Rightarrow> single_flight \<Rightarrow> string option \<Rightarrow> uuid option
     \<Rightarrow> job_row option result" where
  "judge_rows s requested scope idempotencyKey revivedJobId =
     (case find (scope_matches s requested scope) (active_rows s scope) of
        Some row \<Rightarrow>
          if truthy_eq revivedJobId (Some (j_id row)) then Inr (Some row)
          else if truthy_eq idempotencyKey (j_idempotency_key row) then Inr (Some row)
          else Inl (StatusError 409 (sf_conflictMessage scope) (Some (j_id row)))
      | None \<Rightarrow>
          (case find (\<lambda>r. isUnreconciledRemoteOutcome r \<and> scope_matches s requested scope r)
                  (ambiguous_rows s scope) of
             Some unresolved \<Rightarrow> Inl (conflictError (''A prior remote operation on this target has '' @
               ''an unknown outcome. ComposeBastion will unlock it only after bounded quiescence '' @
               ''and authoritative target reconciliation.'') (Some (j_id unresolved)))
           | None \<Rightarrow> Inr None))"

text \<open>
  The active rows are read without an order; the model takes them in table order. The state
  returned differs from the given one in the advisory locks only.
\<close>

definition findActiveSingleFlightJob ::
    "externs \<Rightarrow> docker_action \<Rightarrow> string option \<Rightarrow> uuid option \<Rightarrow> db \<Rightarrow> (job_row option \<times> db) result" where
  "findActiveSingleFlightJob X a idempotencyKey revivedJobId s =
     (case singleFlightScope a of
        None \<Rightarrow> Inr (None, s)
      | Some initial \<Rightarrow>
          let scope = resolve_scope (resolveDockerMutationScopeForJob s (action_claim a)) initial;
              s1 = advisory_locks (scope_keys scope) s;
              requested = map_option (canonicalizeDockerMutationScope (d_snapshots s))
                            (sf_dockerScope scope)
          in and_then (case requested of
                 None \<Rightarrow> Inr ()
               | Some req \<Rightarrow> assertDockerMutationDoesNotConflictWithRecovery X req s) (\<lambda>_.
             and_then (judge_rows s requested scope idempotencyKey revivedJobId) (\<lambda>row.
             Inr (row, s1))))"

text \<open>\<open>operation\<close> is the external mutation that runs under the locks.\<close>

definition withSynchronousDockerMutationAdmission ::
    "externs \<Rightarrow> docker_action \<Rightarrow> (db \<Rightarrow> ('a \<times> db) result) \<Rightarrow> db \<Rightarrow> 'a result \<times> db" where
  "withSynchronousDockerMutationAdmission X a operation s =
     (case x_parseAction X a of
        Inl e \<Rightarrow> (Inl e, s)
      | Inr parsed \<Rightarrow>
          withTransaction (\<lambda>s0.
            and_then (lockJobHostsForEnqueue parsed s0) (\<lambda>s1.
            and_then (findActiveSingleFlightJob X parsed None None s1) (\<lambda>(_, s2).
            operation s2))) s)"

section \<open>Changes to stacks and repositories\<close>

definition blocks_change :: "job_row \<Rightarrow> bool" where
  "blocks_change r \<longleftrightarrow> is_active r \<or> isAmbiguousRemoteOutcome r"

definition reject_jobs :: "string \<Rightarrow> string \<Rightarrow> job_row list \<Rightarrow> unit result" where
  "reject_jobs activeMessage unresolvedMessage rows =
     (case find is_active rows of
        Some r \<Rightarrow> Inl (conflictError activeMessage (Some (j_id r)))
      | None \<Rightarrow>
          (case find isUnreconciledRemoteOutcome rows of
             Some r \<Rightarrow> Inl (conflictError unresolvedMessage (Some (j_id r)))
           | None \<Rightarrow> Inr ()))"

text \<open>The two binding tables of a \<^verbatim>\<open>UNION ALL\<close>: job id and creation time, oldest first.\<close>

definition oldest_binding ::
    "(binding_row \<Rightarrow> bool) \<Rightarrow> (clone_binding_row \<Rightarrow> bool) \<Rightarrow> db \<Rightarrow> uuid option" where
  "oldest_binding P Q s = map_option fst (first_row (sort_key snd
     (map (\<lambda>b. (gb_operation_job_id b, gb_created_at b)) (filter P (d_bindings s))
      @ map (\<lambda>b. (gc_operation_job_id b, gc_created_at b)) (filter Q (d_clone_bindings s)))))"

definition reject_binding :: "string \<Rightarrow> uuid option \<Rightarrow> unit result" where
  "reject_binding message b =
     (case b of None \<Rightarrow> Inr () | Some j \<Rightarrow> Inl (conflictError message (Some j)))"

definition lockComposeStackForMutation :: "uuid \<Rightarrow> db \<Rightarrow> (stack_row option \<times> db) result" where
  "lockComposeStackForMutation stackId s =
     (case first_row (filter (\<lambda>st. cs_id st = stackId) (d_stacks s)) of
        None \<Rightarrow> Inr (None, s)
      | Some stack \<Rightarrow>
          let s1 = advisory_lock (''compose-stack:'' @ cs_host_id stack @ '':'' @ stackId) s;
              operations = sort_key j_created_at (filter (\<lambda>r. is_stack_job (j_type r)
                  \<and> j_host_id r = Some (cs_host_id stack)
                  \<and> payload_text (j_payload r) ''stackId'' = Some stackId \<and> blocks_change r) (d_jobs s1))
          in and_then (reject_jobs
                 (''This Compose stack cannot be changed while a deployment, stop, or removal '' @
                  ''job is queued or running.'')
                 (''This Compose stack cannot be changed until its prior unknown remote outcome '' @
                  ''has been authoritatively reconciled.'') operations) (\<lambda>_.
             and_then (reject_binding
                 (''This Compose stack cannot be changed while its GitHub deployment outcome '' @
                  ''is unresolved.'')
                 (oldest_binding (\<lambda>b. gb_stack_id b = stackId)
                    (\<lambda>b. gc_stack_id b = Some stackId
                       \<or> (gc_host_id b = cs_host_id stack \<and> gc_project_name b = cs_project_name stack))
                    s1)) (\<lambda>_.
             Inr (Some stack, s1))))"

definition lockGithubRepositoryForMutation :: "uuid \<Rightarrow> db \<Rightarrow> repository_row option result" where
  "lockGithubRepositoryForMutation repositoryId s =
     (case first_row (filter (\<lambda>g. gr_id g = repositoryId) (d_repositories s)) of
        None \<Rightarrow> Inr None
      | Some repository \<Rightarrow>
          let cloneDeploy = sort_key j_created_at (filter (\<lambda>r. j_type r = ''git.cloneDeploy''
                  \<and> payload_text (j_payload r) ''repositoryId'' = Some repositoryId
                  \<and> blocks_change r) (d_jobs s))
          in and_then (reject_binding
                 (''This GitHub repository cannot be changed while its deployment outcome '' @
                  ''is unresolved.'')
                 (oldest_binding (\<lambda>b. gb_repository_id b = repositoryId)
                    (\<lambda>b. gc_repository_id b = repositoryId) s)) (\<lambda>_.
             and_then (reject_jobs
                 (''This GitHub repository cannot be changed while a clone/build deployment '' @
                  ''is queued or running.'')
                 (''This GitHub repository cannot be changed until its prior clone/build outcome '' @
                  ''has been authoritatively reconciled.'') cloneDeploy) (\<lambda>_.
             Inr (Some repository))))"

section \<open>Enqueueing\<close>

definition new_job ::
    "clock \<Rightarrow> uuid \<Rightarrow> docker_action \<Rightarrow> uuid option \<Rightarrow> string option \<Rightarrow> job_row" where
  "new_job ck newId a createdBy idempotencyKey = \<lparr>
     j_id = newId, j_type = a_type a, j_status = Queued, j_host_id = Some (a_hostId a),
     j_payload = JObj (a_payload a), j_result = None, j_progress = JArr [], j_error = None,
     j_created_by = createdBy, j_idempotency_key = idempotencyKey, j_attempt_count = 0,
     j_lease_owner = None, j_lease_expires_at = None, j_created_at = ck_now ck,
     j_updated_at = ck_now ck, j_started_at = None, j_completed_at = None\<rparr>"

text \<open>
  The insertion returns the row that has the idempotency key already, unchanged; \<open>newId\<close> is the
  generated identifier, and reusing one violates the primary key.
\<close>

definition jobInsert ::
    "clock \<Rightarrow> uuid \<Rightarrow> docker_action \<Rightarrow> uuid option \<Rightarrow> string option \<Rightarrow> db \<Rightarrow> (job_row \<times> db) result" where
  "jobInsert ck newId a createdBy idempotencyKey s =
     (let row = new_job ck newId a createdBy idempotencyKey in
      case (if idempotencyKey = None then None
            else find (\<lambda>r. j_idempotency_key r = idempotencyKey) (d_jobs s)) of
        Some existing \<Rightarrow> Inr (existing, s)
      | None \<Rightarrow>
          if newId \<in> j_id ` set (d_jobs s)
          then Inl (CodedError ''23505'' ''duplicate key value violates unique constraint'')
          else Inr (row, s\<lparr>d_jobs := d_jobs s @ [row]\<rparr>))"

definition enqueueJobInTransaction ::
    "externs \<Rightarrow> clock \<Rightarrow> uuid \<Rightarrow> docker_action \<Rightarrow> uuid option \<Rightarrow> string option \<Rightarrow> db
     \<Rightarrow> (operation_job \<times> db) result" where
  "enqueueJobInTransaction X ck newId a createdBy idempotencyKey s =
     and_then (x_parseAction X a) (\<lambda>parsed.
     and_then (lockJobHostsForEnqueue parsed s) (\<lambda>s1.
     and_then (findActiveSingleFlightJob X parsed idempotencyKey None s1) (\<lambda>(active, s2).
       case active of
         Some row \<Rightarrow> Inr (mapJob row, s2)
       | None \<Rightarrow>
           and_then (jobInsert ck newId parsed createdBy idempotencyKey s2) (\<lambda>(row, s3).
           Inr (sanitizeOperationJobForRead X (mapJob row), s3)))))"

text \<open>The wake-up notification changes no durable state.\<close>

definition enqueueJob ::
    "externs \<Rightarrow> clock \<Rightarrow> uuid \<Rightarrow> docker_action \<Rightarrow> uuid option \<Rightarrow> string option \<Rightarrow> db
     \<Rightarrow> operation_job result \<times> db" where
  "enqueueJob X ck newId a createdBy idempotencyKey s =
     (case x_parseAction X a of
        Inl e \<Rightarrow> (Inl e, s)
      | Inr parsed \<Rightarrow>
          (case withTransaction
                  (enqueueJobInTransaction X ck newId parsed createdBy idempotencyKey) s of
             (Inl e, s') \<Rightarrow> (Inl e, s')
           | (Inr job, s') \<Rightarrow> (Inr (sanitizeOperationJobForRead X job), s')))"

definition getJob :: "uuid \<Rightarrow> db \<Rightarrow> operation_job option" where
  "getJob jobId s = map_option mapJob (first_row (filter (\<lambda>r. j_id r = jobId) (d_jobs s)))"

text \<open>One page of \<^verbatim>\<open>ORDER BY created_at DESC\<close> and the total.\<close>

definition listJobs :: "nat \<Rightarrow> nat \<Rightarrow> db \<Rightarrow> operation_job list \<times> nat" where
  "listJobs limit offset s =
     (map mapJob (take limit (drop offset (sort_key (\<lambda>r. - j_created_at r) (d_jobs s)))),
      length (d_jobs s))"

end
