(* ===== verification/Job_Retry.thy ===== *)
theory Job_Retry
  imports Job_Admission
begin

text \<open>
  The manual retry of a failed or canceled job (\<^verbatim>\<open>services/jobs.ts\<close>): a second way into the
  queue, which passes the same admission as an enqueue. The unlocked reads that only route
  the retry are arguments of the model, so they may disagree with the state the transaction
  sees.
\<close>

section \<open>Guards\<close>

definition metadata_claimed :: "(string \<times> json) list \<Rightarrow> bool" where
  "metadata_claimed metadata =
     (case as_string (get_prop metadata ''deletionClaimToken'') of None \<Rightarrow> False | Some t \<Rightarrow> t \<noteq> [])"

definition lockRetryAdmissionResource :: "docker_action \<Rightarrow> db \<Rightarrow> bool" where
  "lockRetryAdmissionResource a s =
     (if a_type a = ''backup.verify''
      then (case first_row (filter (\<lambda>b. get_prop (a_payload a) ''backupId'' = Some (JStr (bk_id b)))
                   (d_backups s)) of
              None \<Rightarrow> False | Some b \<Rightarrow> \<not> metadata_claimed (bk_metadata b))
      else if a_type a = ''recovery.verify''
      then (case first_row (filter (\<lambda>p. get_prop (a_payload a) ''recoveryPointId'' = Some (JStr (rp_id p)))
                   (d_points s)) of
              None \<Rightarrow> False | Some p \<Rightarrow> \<not> metadata_claimed (rp_metadata p))
      else True)"

definition canRetryJob :: "job_row \<Rightarrow> bool" where
  "canRetryJob r \<longleftrightarrow>
     (j_status r = Failed \<or> j_status r = Canceled)
     \<and> (case j_host_id r of None \<Rightarrow> False | Some h \<Rightarrow> h \<noteq> [])
     \<and> j_type r \<in> set MANUAL_RETRY_JOB_TYPES
     \<and> j_attempt_count r < MAX_AUTO_ATTEMPTS
     \<and> \<not> (j_type r \<in> set NON_IDEMPOTENT_WORKER_LOSS_RETRY_TYPES
          \<and> (like_prefix WORKER_LOST (j_error r) \<or> like_prefix REMOTE_OUTCOME_UNKNOWN (j_error r)))"

definition is_deployment :: "string \<Rightarrow> bool" where
  "is_deployment type \<longleftrightarrow> type = ''deploy.analyze'' \<or> type = ''deploy.execute''"

definition deploymentAnalysisAllowsRetry ::
    "clock \<Rightarrow> docker_action \<Rightarrow> analysis_row option \<Rightarrow> bool" where
  "deploymentAnalysisAllowsRetry ck a row =
     (case row of
        None \<Rightarrow> False
      | Some an \<Rightarrow>
          if \<not> is_deployment (a_type a) \<or> \<not> ck_clock ck < da_expires_at an
             \<or> da_host_id an \<noteq> a_hostId a then False
          else if a_type a = ''deploy.analyze''
          then da_status an = ''queued'' \<or> da_status an = ''failed''
          else da_status an = ''deploying'' \<or> da_status an = ''failed'')"

definition analysis_of :: "docker_action \<Rightarrow> db \<Rightarrow> analysis_row option" where
  "analysis_of a s = first_row (filter
     (\<lambda>an. get_prop (a_payload a) ''analysisId'' = Some (JStr (da_id an))) (d_analyses s))"

text \<open>\<^verbatim>\<open>result -> key ->> 'status'\<close>\<close>

definition reconciliation_status :: "json option \<Rightarrow> string" where
  "reconciliation_status result =
     (case text_prop (objectFields (get_prop (objectFields result) REMOTE_OUTCOME_RECONCILIATION_KEY))
             ''status'' of
        None \<Rightarrow> [] | Some st \<Rightarrow> st)"

definition analysis_lost :: "analysis_row \<Rightarrow> bool" where
  "analysis_lost an \<longleftrightarrow> like_prefix (WORKER_LOST @ '':'') (da_error an)
     \<or> like_prefix REMOTE_OUTCOME_UNKNOWN (da_error an)"

definition job_lost :: "job_row \<Rightarrow> bool" where
  "job_lost r \<longleftrightarrow> like_prefix WORKER_LOST (j_error r) \<or> like_prefix REMOTE_OUTCOME_UNKNOWN (j_error r)"

definition deployment_blocks :: "analysis_row \<Rightarrow> job_row \<Rightarrow> bool" where
  "deployment_blocks an r \<longleftrightarrow>
     is_active r
     \<or> ((j_status r = Failed \<or> analysis_lost an) \<and> (job_lost r \<or> analysis_lost an)
        \<and> reconciliation_status (j_result r) \<noteq> ''reconciled'')"

definition deployment_conflicts ::
    "analysis_row \<Rightarrow> string \<Rightarrow> string \<Rightarrow> db \<Rightarrow> job_row list" where
  "deployment_conflicts analysis path project s = sort_key j_created_at
     (concat (map (\<lambda>an. filter (\<lambda>r. j_type r = ''deploy.execute''
           \<and> payload_text (j_payload r) ''analysisId'' = Some (da_id an)
           \<and> deployment_blocks an r) (d_jobs s))
        (filter (\<lambda>an. da_id an \<noteq> da_id analysis \<and> da_host_id an = da_host_id analysis
           \<and> (da_working_dir an = Some path \<or> map_option to_lower (da_project_name an) = Some project))
           (d_analyses s))))"

definition lockDeploymentRetryTargets :: "docker_action \<Rightarrow> analysis_row \<Rightarrow> db \<Rightarrow> db result" where
  "lockDeploymentRetryTargets a analysis s =
     (if a_type a \<noteq> ''deploy.execute'' then Inr s
      else
        let path = normalizedJobTargetPath (map_option JStr (da_working_dir analysis));
            project = to_lower (trim (string_or_empty (map_option JStr (da_project_name analysis))))
        in if path = [] \<or> project = []
           then Inl (conflictError (''This deployment cannot be retried until its working directory '' @
                  ''and project name are resolved.'') None)
           else
             let s1 = advisory_locks (sorted_set
                   [''deployment-target:path:'' @ da_host_id analysis @ '':'' @ path,
                    ''deployment-target:project:'' @ da_host_id analysis @ '':'' @ project]) s
             in (case deployment_conflicts analysis path project s1 of
                   r # _ \<Rightarrow> Inl (conflictError (''Another deployment for this host directory or '' @
                     ''Compose project is already queued or running.'') (Some (j_id r)))
                 | [] \<Rightarrow> Inr s1))"

section \<open>Registry credentials\<close>

definition registryAuthorityForRetry :: "externs \<Rightarrow> registry_row \<Rightarrow> string" where
  "registryAuthorityForRetry X row = x_savedRegistryAuthority X (rg_url row) (rg_insecure row)"

definition deploymentRegistryCredentialWasDeleted ::
    "externs \<Rightarrow> string list \<Rightarrow> timestamp \<Rightarrow> db \<Rightarrow> bool" where
  "deploymentRegistryCredentialWasDeleted X authorities originalCreatedAt s =
     list_ex (\<lambda>e. case payload_text (ae_details e) ''authority'' of
          Some (c # cs) \<Rightarrow> (case x_canonicalAuthority X (c # cs) of
                              Inl _ \<Rightarrow> True
                            | Inr authority \<Rightarrow> authority \<in> set authorities)
        | _ \<Rightarrow> True)
       (filter (\<lambda>e. ae_action e = ''registry.delete'' \<and> originalCreatedAt \<le> ae_created_at e) (d_audit s))"

definition deletedDeploymentRegistryCredentialError :: exn where
  "deletedDeploymentRegistryCredentialError = StatusError 409
     (''Registry credentials used by this deployment may have been deleted. '' @
      ''Analyze the deployment again before retrying.'') None"

text \<open>\<open>busy\<close> are the registry rows another transaction holds, on which \<^verbatim>\<open>NOWAIT\<close> fails.\<close>

definition lock_registry :: "uuid list \<Rightarrow> db \<Rightarrow> uuid \<Rightarrow> unit result" where
  "lock_registry busy s registryId =
     (if registryId \<in> set busy
      then Inl (StatusError 409 (''Registry credentials are being changed. '' @
             ''Retry the deployment after that change finishes.'') None)
      else if registryId \<notin> rg_id ` set (d_registries s)
      then Inl (StatusError 409 (''Registry credentials changed while this deployment retry was '' @
             ''being prepared. Analyze again.'') None)
      else Inr ())"

text \<open>
  \<open>mid\<close> is the state of the first audit read and of the unlocked registry enumeration, \<open>s\<close> the
  state once the registry rows are locked.
\<close>

definition lockDeploymentRetryRegistryCredentials ::
    "externs \<Rightarrow> uuid list \<Rightarrow> db \<Rightarrow> string option \<Rightarrow> string option \<Rightarrow> timestamp \<Rightarrow> db \<Rightarrow> unit result" where
  "lockDeploymentRetryRegistryCredentials X busy mid composeYaml encryptedEnvironment
       originalCreatedAt s =
     (case composeYaml of
        None \<Rightarrow> Inr ()
      | Some yaml \<Rightarrow>
          if trim yaml = [] then Inr ()
          else
            let environment = (case encryptedEnvironment of
                    Some (c # cs) \<Rightarrow> x_decryptSecret X (c # cs)
                  | _ \<Rightarrow> Inr [])
            in (case and_then environment (x_imageAuthorities X yaml) of
                 Inl _ \<Rightarrow> Inl (StatusError 409 (''The saved deployment definition is no longer valid. '' @
                   ''Analyze the deployment again before retrying.'') None)
               | Inr authorities \<Rightarrow>
                   if authorities = [] then Inr ()
                   else if deploymentRegistryCredentialWasDeleted X authorities originalCreatedAt mid
                   then Inl deletedDeploymentRegistryCredentialError
                   else
                     and_then (check_all (lock_registry busy s)
                       (sort (map rg_id (filter (\<lambda>row. registryAuthorityForRetry X row \<in> set authorities)
                          (d_registries mid))))) (\<lambda>_.
                     if deploymentRegistryCredentialWasDeleted X authorities originalCreatedAt s
                     then Inl deletedDeploymentRegistryCredentialError else Inr ())))"

section \<open>Requeueing\<close>

definition requeue_update :: "clock \<Rightarrow> uuid option \<Rightarrow> job_row \<Rightarrow> job_row" where
  "requeue_update ck createdBy r = r\<lparr>
     j_status := Queued, j_result := None, j_error := None, j_progress := JArr [],
     j_created_by := coalesce createdBy (j_created_by r), j_started_at := None,
     j_completed_at := None, j_lease_owner := None, j_lease_expires_at := None,
     j_updated_at := ck_now ck\<rparr>"

definition requeueable :: "uuid \<Rightarrow> job_row \<Rightarrow> bool" where
  "requeueable jobId r \<longleftrightarrow> j_id r = jobId \<and> (j_status r = Failed \<or> j_status r = Canceled)
     \<and> j_attempt_count r < MAX_AUTO_ATTEMPTS"

definition requeueJob :: "clock \<Rightarrow> uuid \<Rightarrow> uuid option \<Rightarrow> db \<Rightarrow> job_row option \<times> db" where
  "requeueJob ck jobId createdBy s =
     (map_option (requeue_update ck createdBy) (first_row (filter (requeueable jobId) (d_jobs s))),
      update_jobs (requeueable jobId) (requeue_update ck createdBy) s)"

section \<open>Retry\<close>

record retry_result =
  rt_original :: "operation_job option"
  rt_retried :: "operation_job option"

definition retried :: "operation_job option \<Rightarrow> operation_job option \<Rightarrow> retry_result" where
  "retried original new = \<lparr>rt_original = original, rt_retried = new\<rparr>"

definition retry_action :: "externs \<Rightarrow> job_row \<Rightarrow> docker_action result" where
  "retry_action X r = x_parseAction X
     \<lparr>a_type = j_type r, a_hostId = (case j_host_id r of None \<Rightarrow> [] | Some h \<Rightarrow> h),
      a_payload = objectFields (Some (j_payload r))\<rparr>"

definition job_of :: "uuid \<Rightarrow> db \<Rightarrow> job_row option" where
  "job_of jobId s = first_row (filter (\<lambda>r. j_id r = jobId) (d_jobs s))"

text \<open>\<open>onRetried\<close> is the caller's callback inside the transaction.\<close>

definition requeue_and_notify ::
    "clock \<Rightarrow> uuid \<Rightarrow> uuid option \<Rightarrow> (operation_job \<Rightarrow> operation_job \<Rightarrow> db \<Rightarrow> db result) \<Rightarrow> job_row \<Rightarrow> db
     \<Rightarrow> (retry_result \<times> db) result" where
  "requeue_and_notify ck jobId createdBy onRetried row s =
     (case requeueJob ck jobId createdBy s of
        (None, s1) \<Rightarrow> Inr (retried (Some (mapJob row)) None, s1)
      | (Some new, s1) \<Rightarrow>
          and_then (onRetried (mapJob row) (mapJob new) s1) (\<lambda>s2.
          Inr (retried (Some (mapJob row)) (Some (mapJob new)), s2)))"

text \<open>The states of the reads outside the locks: job row, analysis row, registries.\<close>

record retry_reads =
  rd_job :: db
  rd_analysis :: db
  rd_registries :: db
  rd_busy :: "uuid list"

definition same_definition :: "docker_action \<Rightarrow> analysis_row option \<Rightarrow> analysis_row option \<Rightarrow> bool" where
  "same_definition a before now \<longleftrightarrow> a_type a \<noteq> ''deploy.execute''
     \<or> (Option.bind now da_compose_yaml = Option.bind before da_compose_yaml
        \<and> Option.bind now da_env_encrypted = Option.bind before da_env_encrypted)"

text \<open>The job row is locked last and judged again.\<close>

definition retry_locked_deployment ::
    "externs \<Rightarrow> clock \<Rightarrow> uuid \<Rightarrow> uuid option
     \<Rightarrow> (operation_job \<Rightarrow> operation_job \<Rightarrow> db \<Rightarrow> db result) \<Rightarrow> docker_action \<Rightarrow> db
     \<Rightarrow> (retry_result \<times> db) result" where
  "retry_locked_deployment X ck jobId createdBy onRetried a s =
     (case job_of jobId s of
        None \<Rightarrow> Inr (retried None None, s)
      | Some row \<Rightarrow>
          if \<not> canRetryJob row then Inr (retried (Some (mapJob row)) None, s)
          else and_then (retry_action X row) (\<lambda>again.
            if a_type again \<noteq> a_type a \<or> \<not> is_deployment (a_type again)
               \<or> \<not> strict_equal (get_prop (a_payload again) ''analysisId'')
                    (get_prop (a_payload a) ''analysisId'')
               \<or> a_hostId again \<noteq> a_hostId a
            then Inr (retried (Some (mapJob row)) None, s)
            else requeue_and_notify ck jobId createdBy onRetried row s))"

definition retry_admitted_deployment ::
    "externs \<Rightarrow> clock \<Rightarrow> uuid \<Rightarrow> uuid option
     \<Rightarrow> (operation_job \<Rightarrow> operation_job \<Rightarrow> db \<Rightarrow> db result) \<Rightarrow> docker_action \<Rightarrow> analysis_row \<Rightarrow> db
     \<Rightarrow> (retry_result \<times> db) result" where
  "retry_admitted_deployment X ck jobId createdBy onRetried a analysis s =
     and_then (lockDeploymentRetryTargets a analysis s) (\<lambda>s1.
     and_then (findActiveSingleFlightJob X a None (Some jobId) s1) (\<lambda>(_, s2).
     retry_locked_deployment X ck jobId createdBy onRetried a s2))"

definition retry_deployment ::
    "externs \<Rightarrow> clock \<Rightarrow> retry_reads \<Rightarrow> uuid \<Rightarrow> uuid option
     \<Rightarrow> (operation_job \<Rightarrow> operation_job \<Rightarrow> db \<Rightarrow> db result) \<Rightarrow> job_row \<Rightarrow> docker_action \<Rightarrow> db
     \<Rightarrow> (retry_result \<times> db) result" where
  "retry_deployment X ck reads jobId createdBy onRetried preliminary a s =
     (let before = analysis_of a (rd_analysis reads);
          refused = (\<lambda>t. Inr (retried (Some (mapJob preliminary)) None, t)) in
      and_then (lockJobHostsForEnqueue a s) (\<lambda>s1.
      and_then (if a_type a = ''deploy.execute''
                then lockDeploymentRetryRegistryCredentials X (rd_busy reads) (rd_registries reads)
                       (Option.bind before da_compose_yaml) (Option.bind before da_env_encrypted)
                       (j_created_at preliminary) s1
                else Inr ()) (\<lambda>_.
      case analysis_of a s1 of
        None \<Rightarrow> refused s1
      | Some now \<Rightarrow>
          if \<not> deploymentAnalysisAllowsRetry ck a (Some now) \<or> \<not> same_definition a before (Some now)
          then refused s1
          else
            retry_admitted_deployment X ck jobId createdBy onRetried a now s1)))"

definition retry_other ::
    "externs \<Rightarrow> clock \<Rightarrow> uuid \<Rightarrow> uuid option
     \<Rightarrow> (operation_job \<Rightarrow> operation_job \<Rightarrow> db \<Rightarrow> db result) \<Rightarrow> docker_action \<Rightarrow> db
     \<Rightarrow> (retry_result \<times> db) result" where
  "retry_other X ck jobId createdBy onRetried a s =
     and_then (lockJobHostsForEnqueue a s) (\<lambda>s1.
       case job_of jobId s1 of
         None \<Rightarrow> Inr (retried None None, s1)
       | Some row \<Rightarrow>
           if \<not> canRetryJob row then Inr (retried (Some (mapJob row)) None, s1)
           else and_then (retry_action X row) (\<lambda>again.
             if \<not> lockRetryAdmissionResource again s1
             then Inr (retried (Some (mapJob row)) None, s1)
             else and_then (findActiveSingleFlightJob X again None None s1) (\<lambda>(_, s2).
               requeue_and_notify ck jobId createdBy onRetried row s2)))"

definition retryJob ::
    "externs \<Rightarrow> clock \<Rightarrow> retry_reads \<Rightarrow> uuid \<Rightarrow> uuid option
     \<Rightarrow> (operation_job \<Rightarrow> operation_job \<Rightarrow> db \<Rightarrow> db result) \<Rightarrow> db \<Rightarrow> retry_result result \<times> db" where
  "retryJob X ck reads jobId createdBy onRetried s =
     (case job_of jobId (rd_job reads) of
        None \<Rightarrow> (Inr (retried None None), s)
      | Some preliminary \<Rightarrow>
          if \<not> canRetryJob preliminary then (Inr (retried (Some (mapJob preliminary)) None), s)
          else (case retry_action X preliminary of
            Inl e \<Rightarrow> (Inl e, s)
          | Inr a \<Rightarrow>
              if is_deployment (a_type a)
              then withTransaction
                     (retry_deployment X ck reads jobId createdBy onRetried preliminary a) s
              else withTransaction (retry_other X ck jobId createdBy onRetried a) s))"

end
