(* ===== verification/Self_Update.thy ===== *)
theory Self_Update
  imports Job_Retry
begin

text \<open>
  The outcome of a self-update that was handed off to a detached script
  (\<^verbatim>\<open>services/selfUpdate.ts\<close>): parsing the outcome file, and the reconciliation of the jobs that
  stay running until the restarted process has read it. Reading the file over SSH is an
  argument of the model.
\<close>

section \<open>The outcome file\<close>

datatype rollback_state = NotRequired | RollbackSucceeded | RollbackFailed

record self_update_outcome =
  so_passed :: bool
  so_stage :: string
  so_rollback :: rollback_state
  so_targetVersion :: string
  so_exitCode :: nat

text \<open>\<^verbatim>\<open>contents.split(/\r?\n/)\<close>: a carriage return goes with the line feed that follows it.\<close>

fun drop_cr :: "string list \<Rightarrow> string list" where
  "drop_cr [] = []"
| "drop_cr [w] = [w]"
| "drop_cr (w # ws) = (if ends_with [CHR 0x0D] w then butlast w else w) # drop_cr ws"

definition split_lines :: "string \<Rightarrow> string list" where
  "split_lines contents = drop_cr (split_on (CHR 0x0A) contents)"

text \<open>The fields of the lines before the failing one, or the error of that line.\<close>

definition parse_line ::
    "string \<Rightarrow> (string \<times> string) list \<Rightarrow> (string \<times> string) list result" where
  "parse_line line fs =
     (if line = [] then Inr fs
      else let key = takeWhile (\<lambda>c. c \<noteq> CHR ''='') line;
               rest = dropWhile (\<lambda>c. c \<noteq> CHR ''='') line
           in if rest = [] \<or> key = []
              then Inl (PlainError ''Self-update outcome contains an invalid field'')
              else if map_of fs key \<noteq> None
              then Inl (PlainError ''Self-update outcome contains a duplicate field'')
              else Inr (fs @ [(key, tl rest)]))"

definition outcome_keys :: "string list" where
  "outcome_keys = [''schema'', ''job_id'', ''status'', ''stage'', ''rollback'', ''target_version'',
     ''exit_code'']"

definition is_lower :: "char \<Rightarrow> bool" where
  "is_lower c = (let n = (of_char c :: nat) in 97 \<le> n \<and> n \<le> 122)"

text \<open>\<^verbatim>\<open>/^[a-z][a-z0-9_]{0,63}$/\<close> and \<^verbatim>\<open>/^(?:0|[1-9][0-9]{0,2})$/\<close>\<close>

definition valid_stage :: "string \<Rightarrow> bool" where
  "valid_stage s = (case s of [] \<Rightarrow> False
     | c # cs \<Rightarrow> is_lower c \<and> length cs \<le> 63
         \<and> list_all (\<lambda>d. is_lower d \<or> is_digit d \<or> d = CHR ''_'') cs)"

definition valid_exit_code :: "string \<Rightarrow> bool" where
  "valid_exit_code s \<longleftrightarrow> s = ''0''
     \<or> (s \<noteq> [] \<and> hd s \<noteq> CHR ''0'' \<and> list_all is_digit s \<and> length s \<le> 3)"


definition parse_rollback :: "string option \<Rightarrow> rollback_state option" where
  "parse_rollback v =
     (if v = Some ''not_required'' then Some NotRequired
      else if v = Some ''succeeded'' then Some RollbackSucceeded
      else if v = Some ''failed'' then Some RollbackFailed else None)"

definition field_text :: "(string \<times> string) list \<Rightarrow> string \<Rightarrow> string" where
  "field_text fs k = (case map_of fs k of None \<Rightarrow> [] | Some v \<Rightarrow> v)"

definition judge_outcome ::
    "(string \<times> string) list \<Rightarrow> uuid \<Rightarrow> string \<Rightarrow> self_update_outcome result" where
  "judge_outcome fs expectedJobId expectedTargetVersion =
     (if list_ex (\<lambda>(k, _). k \<notin> set outcome_keys) fs \<or> length fs \<noteq> length outcome_keys
      then Inl (PlainError ''Self-update outcome has an unexpected schema'')
      else if map_of fs ''schema'' \<noteq> Some ''1'' \<or> map_of fs ''job_id'' \<noteq> Some expectedJobId
         \<or> map_of fs ''target_version'' \<noteq> Some expectedTargetVersion
      then Inl (PlainError ''Self-update outcome does not match the pending handoff'')
      else
        let status = map_of fs ''status'';
            stage = field_text fs ''stage'';
            exitText = field_text fs ''exit_code'';
            passed = (status = Some ''passed'');
            exitCode = digits_value exitText
        in (case parse_rollback (map_of fs ''rollback'') of
              None \<Rightarrow> Inl (PlainError ''Self-update outcome contains an invalid value'')
            | Some rollback \<Rightarrow>
                if (status \<noteq> Some ''passed'' \<and> status \<noteq> Some ''failed'') \<or> \<not> valid_stage stage
                   \<or> \<not> valid_exit_code exitText
                then Inl (PlainError ''Self-update outcome contains an invalid value'')
                else if (passed \<and> (stage \<noteq> ''complete'' \<or> rollback \<noteq> NotRequired \<or> exitCode \<noteq> 0))
                   \<or> (\<not> passed \<and> exitCode = 0)
                then Inl (PlainError ''Self-update outcome is internally inconsistent'')
                else Inr \<lparr>so_passed = passed, so_stage = stage, so_rollback = rollback,
                          so_targetVersion = expectedTargetVersion, so_exitCode = exitCode\<rparr>))"

definition parseSelfUpdateOutcome ::
    "string \<Rightarrow> uuid \<Rightarrow> string \<Rightarrow> self_update_outcome result" where
  "parseSelfUpdateOutcome contents expectedJobId expectedTargetVersion =
     and_then (each parse_line (split_lines contents) [])
       (\<lambda>fs. judge_outcome fs expectedJobId expectedTargetVersion)"

text \<open>
  The file the script's \<^verbatim>\<open>write_outcome\<close> publishes; \<open>jobId\<close> and the target version are written into
  the script when it is rendered.
\<close>

fun rollback_name :: "rollback_state \<Rightarrow> string" where
  "rollback_name NotRequired = ''not_required''"
| "rollback_name RollbackSucceeded = ''succeeded''"
| "rollback_name RollbackFailed = ''failed''"

definition write_outcome :: "uuid \<Rightarrow> self_update_outcome \<Rightarrow> string" where
  "write_outcome jobId outcome = concat (map (\<lambda>(k, v). k @ ''='' @ v @ [CHR 0x0A])
     [(''schema'', ''1''), (''job_id'', jobId), (''status'', if so_passed outcome then ''passed'' else ''failed''),
      (''stage'', so_stage outcome), (''rollback'', rollback_name (so_rollback outcome)),
      (''target_version'', so_targetVersion outcome), (''exit_code'', show_nat (so_exitCode outcome))])"

text \<open>A consistent outcome: it passed at the end without rollback and failure, or it failed with a code.\<close>

definition outcome_ok :: "self_update_outcome \<Rightarrow> bool" where
  "outcome_ok outcome \<longleftrightarrow> valid_stage (so_stage outcome) \<and> so_exitCode outcome \<le> 999
     \<and> (if so_passed outcome
        then so_stage outcome = ''complete'' \<and> so_rollback outcome = NotRequired \<and> so_exitCode outcome = 0
        else so_exitCode outcome \<noteq> 0)"

section \<open>Finalising a handoff\<close>

text \<open>\<^verbatim>\<open>replace("_", " ")\<close>: the first occurrence only.\<close>

fun replace_first :: "char \<Rightarrow> char \<Rightarrow> string \<Rightarrow> string" where
  "replace_first a b [] = []"
| "replace_first a b (c # s) = (if c = a then b # s else c # replace_first a b s)"

text \<open>\<^verbatim>\<open>result ->> 'handoffPending' = 'true'\<close>\<close>

definition awaiting_outcome :: "job_row \<Rightarrow> bool" where
  "awaiting_outcome r \<longleftrightarrow> j_type r = ''system.self_update'' \<and> j_status r = Running
     \<and> text_prop (objectFields (j_result r)) ''handoffPending'' = Some ''true''"

definition settle_handoff ::
    "clock \<Rightarrow> job_status \<Rightarrow> (string \<times> json) list \<Rightarrow> string option \<Rightarrow> progress_step list \<Rightarrow> job_row
     \<Rightarrow> job_row" where
  "settle_handoff ck status result error steps r = r\<lparr>
     j_status := status, j_result := Some (jsonb_merge (j_result r) result), j_error := error,
     j_progress := progress_json steps, j_completed_at := Some (ck_now ck),
     j_lease_owner := None, j_lease_expires_at := None, j_updated_at := ck_now ck\<rparr>"

definition outcome_error :: "self_update_outcome \<Rightarrow> string option" where
  "outcome_error outcome =
     (if so_passed outcome then None
      else Some (''Self-update failed during '' @ so_stage outcome @ ''; rollback ''
             @ replace_first (CHR ''_'') (CHR '' '') (rollback_name (so_rollback outcome)) @ ''.''))"

definition outcome_json :: "clock \<Rightarrow> self_update_outcome \<Rightarrow> (string \<times> json) list" where
  "outcome_json ck outcome =
     [(''handoffPending'', JBool False),
      (''outcome'', JObj [(''status'', JStr (if so_passed outcome then ''passed'' else ''failed'')),
         (''stage'', JStr (so_stage outcome)),
         (''rollback'', JStr (rollback_name (so_rollback outcome))),
         (''targetVersion'', JStr (so_targetVersion outcome)),
         (''exitCode'', JNum (int (so_exitCode outcome)))]),
      (''reconciledAt'', ts_json (ck_clock ck))]"

definition settle_where ::
    "clock \<Rightarrow> uuid \<Rightarrow> job_status \<Rightarrow> (string \<times> json) list \<Rightarrow> string option \<Rightarrow> db \<Rightarrow> bool result \<times> db" where
  "settle_where ck jobId status result error s =
     (case buildJobProgress ''system.self_update''
             (if status = Completed then PhaseCompleted else PhaseFailed) (Some ''reconnect'') error of
        Inl e \<Rightarrow> (Inl e, s)
      | Inr steps \<Rightarrow>
          let P = (\<lambda>r. j_id r = jobId \<and> awaiting_outcome r)
          in (Inr (length (filter P (d_jobs s)) = 1),
              update_jobs P (settle_handoff ck status result error steps) s))"

definition finalizePendingSelfUpdate ::
    "clock \<Rightarrow> uuid \<Rightarrow> self_update_outcome \<Rightarrow> db \<Rightarrow> bool result \<times> db" where
  "finalizePendingSelfUpdate ck jobId outcome s =
     settle_where ck jobId (if so_passed outcome then Completed else Failed)
       (outcome_json ck outcome) (outcome_error outcome) s"

definition failUnreconciledSelfUpdate :: "clock \<Rightarrow> uuid \<Rightarrow> string \<Rightarrow> db \<Rightarrow> bool result \<times> db" where
  "failUnreconciledSelfUpdate ck jobId message s =
     settle_where ck jobId Failed
       [(''handoffPending'', JBool False), (''reconciledAt'', ts_json (ck_clock ck))] (Some message) s"

section \<open>Age of a handoff\<close>

definition SELF_UPDATE_HANDOFF_TIMEOUT :: timestamp where
  "SELF_UPDATE_HANDOFF_TIMEOUT = seconds (30 * 60)"

definition stored_start :: "job_row \<Rightarrow> string option" where
  "stored_start r =
     (let get = (\<lambda>k. as_string (get_prop (objectFields (j_result r)) k))
      in case get ''handoffStartedAt'' of Some t \<Rightarrow> Some t | None \<Rightarrow> get ''handedOffAt'')"

definition pendingHandoffAge :: "clock \<Rightarrow> job_row \<Rightarrow> timestamp" where
  "pendingHandoffAge ck r =
     ck_clock ck - (case Option.bind (stored_start r) parse_ts of
                      Some t \<Rightarrow> t | None \<Rightarrow> j_updated_at r)"

definition refresh_handoff :: "clock \<Rightarrow> job_row \<Rightarrow> job_row \<Rightarrow> job_row" where
  "refresh_handoff ck row r = r\<lparr>
     j_result := Some (jsonb_merge (j_result r)
       [(''handoffStartedAt'', JStr (case stored_start row of
            Some t \<Rightarrow> t | None \<Rightarrow> show_int (j_updated_at row))),
        (''handedOffAt'', ts_json (ck_clock ck))]),
     j_updated_at := ck_now ck\<rparr>"

definition refreshBridgeCompatibilityHandoffLease :: "clock \<Rightarrow> job_row \<Rightarrow> db \<Rightarrow> db" where
  "refreshBridgeCompatibilityHandoffLease ck row s =
     update_jobs (\<lambda>r. j_id r = j_id row \<and> awaiting_outcome r) (refresh_handoff ck row) s"

section \<open>Reconciliation\<close>

text \<open>What the manager host answers when it is asked for the outcome file.\<close>

datatype outcome_probe = ProbeThrew | NotSsh | OutcomeFile string | NoOutcomeFile

record reconcile_counts =
  rc_completed :: nat
  rc_failed :: nat
  rc_pending :: nat

definition expected_action :: "externs \<Rightarrow> job_row \<Rightarrow> docker_action result" where
  "expected_action X row =
     and_then (retry_action X row) (\<lambda>a.
       if a_type a \<noteq> ''system.self_update''
       then Inl (PlainError ''Pending job is not a self-update'') else Inr a)"

definition count_failed :: "bool result \<Rightarrow> reconcile_counts \<Rightarrow> reconcile_counts" where
  "count_failed r c = (if r = Inr True then c\<lparr>rc_failed := rc_failed c + 1\<rparr> else c)"

definition fail_and_count ::
    "clock \<Rightarrow> job_row \<Rightarrow> string \<Rightarrow> reconcile_counts \<Rightarrow> db \<Rightarrow> reconcile_counts \<times> db" where
  "fail_and_count ck row message c s =
     (let (r, s') = failUnreconciledSelfUpdate ck (j_id row) message s in (count_failed r c, s'))"

definition wait_and_count ::
    "clock \<Rightarrow> job_row \<Rightarrow> reconcile_counts \<Rightarrow> db \<Rightarrow> reconcile_counts \<times> db" where
  "wait_and_count ck row c s =
     (c\<lparr>rc_pending := rc_pending c + 1\<rparr>, refreshBridgeCompatibilityHandoffLease ck row s)"

definition finalize_and_count ::
    "clock \<Rightarrow> job_row \<Rightarrow> self_update_outcome \<Rightarrow> reconcile_counts \<Rightarrow> db \<Rightarrow> reconcile_counts \<times> db" where
  "finalize_and_count ck row outcome c s =
     (let (r, s') = finalizePendingSelfUpdate ck (j_id row) outcome s
      in (if so_passed outcome
          then if r = Inr True then c\<lparr>rc_completed := rc_completed c + 1\<rparr> else c
          else count_failed r c, s'))"

text \<open>
  One iteration of the loop; \<open>probe\<close> is the host's answer for the parsed action. The messages
  are short enough that building the progress never throws (\<open>short_progress_ok\<close>).
\<close>

definition reconcile_one ::
    "externs \<Rightarrow> clock \<Rightarrow> (docker_action \<Rightarrow> job_row \<Rightarrow> outcome_probe) \<Rightarrow> reconcile_counts \<times> db \<Rightarrow> job_row
     \<Rightarrow> reconcile_counts \<times> db" where
  "reconcile_one X ck probe = (\<lambda>(c, s) row.
     let age = pendingHandoffAge ck row;
         threw = (if SELF_UPDATE_HANDOFF_TIMEOUT \<le> age
                  then fail_and_count ck row (''Self-update outcome could not be reconciled before '' @
                         ''the handoff timeout.'') c s
                  else wait_and_count ck row c s)
     in case expected_action X row of
          Inl _ \<Rightarrow> threw
        | Inr a \<Rightarrow>
            (case probe a row of
               ProbeThrew \<Rightarrow> threw
             | NotSsh \<Rightarrow> fail_and_count ck row (''Self-update outcome could not be reconciled because '' @
                 ''the manager host is no longer configured for SSH.'') c s
             | OutcomeFile contents \<Rightarrow>
                 (case parseSelfUpdateOutcome contents (j_id row)
                         (string_or_empty (get_prop (a_payload a) ''targetVersion'')) of
                    Inl _ \<Rightarrow> fail_and_count ck row
                      ''Self-update wrote an invalid authoritative outcome.'' c s
                  | Inr outcome \<Rightarrow> finalize_and_count ck row outcome c s)
             | NoOutcomeFile \<Rightarrow>
                 if age < SELF_UPDATE_HANDOFF_TIMEOUT then wait_and_count ck row c s
                 else fail_and_count ck row (''Self-update handoff timed out before an authoritative '' @
                        ''outcome was written.'') c s))"

definition pending_handoffs :: "db \<Rightarrow> job_row list" where
  "pending_handoffs s = take 20 (sort_key j_created_at (filter awaiting_outcome (d_jobs s)))"

definition reconcileSelfUpdateHandoffs ::
    "externs \<Rightarrow> clock \<Rightarrow> (docker_action \<Rightarrow> job_row \<Rightarrow> outcome_probe) \<Rightarrow> db \<Rightarrow> reconcile_counts \<times> db" where
  "reconcileSelfUpdateHandoffs X ck probe s =
     foldl (reconcile_one X ck probe) (\<lparr>rc_completed = 0, rc_failed = 0, rc_pending = 0\<rparr>, s)
       (pending_handoffs s)"

section \<open>Lemmas\<close>

subsection \<open>Decimal numbers\<close>

lemma of_char_digit: "k < 10 \<Longrightarrow> of_char (char_of (48 + k) :: char) = 48 + (k :: nat)"
  by (simp add: of_char_of)

lemma show_nat_hd: "0 < n \<Longrightarrow> hd (show_nat n) \<noteq> CHR ''0''"
proof (induction n rule: show_nat.induct)
  case (1 n)
  show ?case
  proof (cases "n < 10")
    case True
    with 1(2) have "of_char (hd (show_nat n)) \<noteq> (48 :: nat)"
      by (subst show_nat.simps) (simp add: of_char_of)
    then show ?thesis by auto
  next
    case False
    with 1 show ?thesis by (subst show_nat.simps) (simp add: hd_append)
  qed
qed

lemma show_nat_length: "n < 1000 \<Longrightarrow> length (show_nat n) \<le> 3"
  by (subst show_nat.simps, subst show_nat.simps, subst show_nat.simps) auto

lemma valid_exit_code_show: "n \<le> 999 \<Longrightarrow> valid_exit_code (show_nat n)"
  by (cases "n = 0") (auto simp: valid_exit_code_def show_nat_hd show_nat_digits show_nat_length show_nat_0)

subsection \<open>Parsing\<close>

lemma split_on_line: "c \<notin> set w \<Longrightarrow> split_on c (w @ c # s) = w # split_on c s"
  by (induction w) auto

lemma split_on_lines:
  "\<forall>w\<in>set ws. c \<notin> set w \<Longrightarrow> split_on c (concat (map (\<lambda>w. w @ [c]) ws)) = ws @ [[]]"
  by (induction ws) (simp_all add: split_on_line)

lemma drop_cr_id: "\<forall>w\<in>set ws. \<not> ends_with [CHR 0x0D] w \<Longrightarrow> drop_cr ws = ws"
  by (induction ws rule: drop_cr.induct) auto

lemma ends_with_mem: "ends_with [c] w \<Longrightarrow> c \<in> set w"
  by (cases w rule: rev_cases) (auto simp: ends_with_def)

lemma parse_line_field:
  assumes "k \<noteq> []" and "CHR ''='' \<notin> set k" and "k \<notin> fst ` set fs"
  shows "parse_line (k @ ''='' @ v) fs = Inr (fs @ [(k, v)])"
proof -
  have "takeWhile (\<lambda>c. c \<noteq> CHR ''='') (k @ ''='' @ v) = k" "dropWhile (\<lambda>c. c \<noteq> CHR ''='') (k @ ''='' @ v) = ''='' @ v"
    using assms(2) by (simp_all add: takeWhile_append dropWhile_append)
  moreover have "map_of fs k = None" using assms(3) by (simp add: map_of_eq_None_iff)
  ultimately show ?thesis using assms(1) by (simp add: parse_line_def Let_def)
qed

lemma parse_fields:
  assumes "distinct (map fst (fs @ new))" and "\<forall>k\<in>fst ` set new. k \<noteq> [] \<and> CHR ''='' \<notin> set k"
  shows "each parse_line (map (\<lambda>(k, v). k @ ''='' @ v) new @ [[]]) fs = Inr (fs @ new)"
  using assms
proof (induction new arbitrary: fs)
  case Nil
  then show ?case by (simp add: parse_line_def)
next
  case (Cons kv new)
  obtain k v where kv: "kv = (k, v)" by (cases kv)
  have "parse_line (k @ ''='' @ v) fs = Inr (fs @ [(k, v)])"
    using Cons.prems by (intro parse_line_field) (auto simp: kv)
  then show ?case using Cons.IH [of "fs @ [kv]"] Cons.prems by (simp add: kv)
qed

text \<open>A value that stays on its line.\<close>

definition line_value :: "string \<Rightarrow> bool" where
  "line_value v \<longleftrightarrow> CHR 0x0A \<notin> set v \<and> CHR 0x0D \<notin> set v"

lemma valid_stage_line: "valid_stage s \<Longrightarrow> line_value s"
  by (cases s) (auto simp: valid_stage_def line_value_def is_lower_def is_digit_def list_all_iff)

lemma digits_line: "list_all is_digit s \<Longrightarrow> line_value s"
  by (auto simp: line_value_def is_digit_def list_all_iff)

lemma parse_written:
  assumes "line_value jobId" and "line_value (so_targetVersion oc)" and "outcome_ok oc"
  shows "parseSelfUpdateOutcome (write_outcome jobId oc) jobId (so_targetVersion oc) = Inr oc"
proof -
  let ?fs = "[(''schema'', ''1''), (''job_id'', jobId), (''status'', if so_passed oc then ''passed'' else ''failed''),
      (''stage'', so_stage oc), (''rollback'', rollback_name (so_rollback oc)),
      (''target_version'', so_targetVersion oc), (''exit_code'', show_nat (so_exitCode oc))]"
  let ?ws = "map (\<lambda>(k, v). k @ ''='' @ v) ?fs"
  have vals: "\<forall>kv\<in>set ?fs. line_value (fst kv) \<and> line_value (snd kv)"
    using assms valid_stage_line [of "so_stage oc"] digits_line [OF show_nat_digits]
    by (cases "so_rollback oc") (auto simp: outcome_ok_def line_value_def)
  have lines: "\<forall>w\<in>set ?ws. CHR 0x0A \<notin> set w \<and> CHR 0x0D \<notin> set w"
    using vals unfolding line_value_def by auto
  have "write_outcome jobId oc = concat (map (\<lambda>w. w @ [CHR 0x0A]) ?ws)"
    unfolding write_outcome_def by simp
  then have "split_on (CHR 0x0A) (write_outcome jobId oc) = ?ws @ [[]]"
    using split_on_lines [of ?ws "CHR 0x0A"] lines by metis
  moreover have "\<forall>w\<in>set (?ws @ [[]]). \<not> ends_with [CHR 0x0D] w"
    using lines ends_with_mem [of "CHR 0x0D"] by force
  ultimately have "split_lines (write_outcome jobId oc) = ?ws @ [[]]"
    unfolding split_lines_def using drop_cr_id by metis
  then have "each parse_line (split_lines (write_outcome jobId oc)) [] = Inr ?fs"
    using parse_fields [of "[]" ?fs] by auto
  moreover have "judge_outcome ?fs jobId (so_targetVersion oc) = Inr oc"
    using assms(3) valid_exit_code_show [of "so_exitCode oc"]
    by (cases oc; cases "so_rollback oc") (auto simp: judge_outcome_def outcome_keys_def Let_def field_text_def
        parse_rollback_def outcome_ok_def split: if_splits)
  ultimately show ?thesis by (simp add: parseSelfUpdateOutcome_def)
qed

lemma digits_value_bound: "list_all is_digit s \<Longrightarrow> digits_value s < 10 ^ length s"
proof (induction s rule: rev_induct)
  case Nil
  then show ?case by (simp add: digits_value_def)
next
  case (snoc c s)
  then have "digits_value s < 10 ^ length s" "of_char c - 48 < (10 :: nat)" by (auto simp: is_digit_def Let_def)
  then show ?case by (simp add: digits_value_snoc)
qed

lemma valid_exit_code_bound: "valid_exit_code s \<Longrightarrow> digits_value s \<le> 999"
proof -
  assume v: "valid_exit_code s"
  then have "list_all is_digit s" "length s \<le> 3" by (auto simp: valid_exit_code_def is_digit_def)
  then have "digits_value s < 10 ^ 3"
    using digits_value_bound power_increasing [of "length s" 3 "10 :: nat"] by (meson le_trans less_le_trans one_le_numeral)
  then show "digits_value s \<le> 999" by simp
qed

lemma parse_sound:
  assumes "parseSelfUpdateOutcome contents jobId version = Inr oc"
  shows "outcome_ok oc \<and> so_targetVersion oc = version"
proof -
  obtain fs where "judge_outcome fs jobId version = Inr oc"
    using assms by (auto simp: parseSelfUpdateOutcome_def and_then_Inr_iff)
  then show ?thesis using valid_exit_code_bound [of "field_text fs ''exit_code''"]
    by (auto simp: judge_outcome_def Let_def outcome_ok_def split: if_splits option.splits)
qed

subsection \<open>Settling and refreshing\<close>

definition finished :: "job_row \<Rightarrow> bool" where
  "finished r \<longleftrightarrow> (j_status r = Completed \<or> j_status r = Failed) \<and> j_lease_owner r = None"

lemma short_progress_ok:
  assumes "case err of None \<Rightarrow> True | Some m \<Rightarrow> length m \<le> 500"
  shows "\<exists>steps. buildJobProgress type phase a err = Inr steps"
  using progressSteps_valid [OF assms] by (simp add: buildJobProgress_def parseSteps_def)

lemma outcome_error_short: "outcome_ok oc \<Longrightarrow> case outcome_error oc of None \<Rightarrow> True | Some m \<Rightarrow> length m \<le> 500"
proof -
  assume ok: "outcome_ok oc"
  have len: "length (replace_first a b w) = length w" for a b w by (induction w) auto
  have "length (so_stage oc) \<le> 64" using ok by (auto simp: outcome_ok_def valid_stage_def split: list.splits)
  then show ?thesis by (cases "so_rollback oc") (auto simp: outcome_error_def len)
qed

text \<open>One pass over a row: the rows awaiting its outcome are rewritten, to finished ones where it settles.\<close>

definition rewrites_row :: "job_row \<Rightarrow> bool \<Rightarrow> db \<Rightarrow> db \<Rightarrow> bool" where
  "rewrites_row row settles s s' \<longleftrightarrow> (\<exists>f. d_jobs s' = update_where (\<lambda>r. j_id r = j_id row \<and> awaiting_outcome r) f (d_jobs s)
     \<and> (\<forall>r. j_id (f r) = j_id r) \<and> (settles \<longrightarrow> (\<forall>r. finished (f r))))"

lemma rewrites_weaken: "rewrites_row row b s s' \<Longrightarrow> rewrites_row row False s s'"
  by (auto simp: rewrites_row_def)

lemma settle_rewrites:
  assumes "case err of None \<Rightarrow> True | Some m \<Rightarrow> length m \<le> 500" and "st = Completed \<or> st = Failed"
  shows "rewrites_row row True s (snd (settle_where ck (j_id row) st res err s))"
proof -
  obtain steps where "buildJobProgress ''system.self_update''
      (if st = Completed then PhaseCompleted else PhaseFailed) (Some ''reconnect'') err = Inr steps"
    using short_progress_ok [OF assms(1)] by blast
  then have "d_jobs (snd (settle_where ck (j_id row) st res err s))
      = update_where (\<lambda>r. j_id r = j_id row \<and> awaiting_outcome r) (settle_handoff ck st res err steps) (d_jobs s)"
    by (simp add: settle_where_def Let_def)
  then show ?thesis using assms(2)
    by (auto simp: rewrites_row_def settle_handoff_def finished_def intro!: exI [of _ "settle_handoff ck st res err steps"])
qed

lemma snd_count:
  "snd (fail_and_count ck row m c s) = snd (failUnreconciledSelfUpdate ck (j_id row) m s)"
  "snd (finalize_and_count ck row oc c s) = snd (finalizePendingSelfUpdate ck (j_id row) oc s)"
  by (simp_all add: fail_and_count_def finalize_and_count_def Let_def split: prod.split)

lemma fail_rewrites:
  "length m \<le> 500 \<Longrightarrow> rewrites_row row True s (snd (fail_and_count ck row m c s))"
  unfolding snd_count failUnreconciledSelfUpdate_def by (rule settle_rewrites) simp_all

lemma finalize_rewrites:
  "outcome_ok oc \<Longrightarrow> rewrites_row row True s (snd (finalize_and_count ck row oc c s))"
  unfolding snd_count finalizePendingSelfUpdate_def by (rule settle_rewrites) (simp_all add: outcome_error_short)

lemma wait_rewrites: "rewrites_row row False s (snd (wait_and_count ck row c s))"
  by (auto simp: rewrites_row_def wait_and_count_def refreshBridgeCompatibilityHandoffLease_def refresh_handoff_def
      intro!: exI [of _ "refresh_handoff ck row"])

lemma reconcile_one_rewrites:
  "rewrites_row row (SELF_UPDATE_HANDOFF_TIMEOUT \<le> pendingHandoffAge ck row) s (snd (reconcile_one X ck probe (c, s) row))"
proof -
  let ?overdue = "SELF_UPDATE_HANDOFF_TIMEOUT \<le> pendingHandoffAge ck row"
  have fail: "rewrites_row row ?overdue s (snd (fail_and_count ck row m c s))" if "length m \<le> 500" for m
    using fail_rewrites [OF that, of row s ck c] rewrites_weaken by (cases ?overdue) (auto dest: rewrites_weaken)
  have fin: "rewrites_row row ?overdue s (snd (finalize_and_count ck row oc c s))"
    if "parseSelfUpdateOutcome contents i v = Inr oc" for contents i v oc
    using finalize_rewrites [of oc row s ck c] parse_sound [OF that] by (cases ?overdue) (auto dest: rewrites_weaken)
  have wait: "rewrites_row row ?overdue s (snd (wait_and_count ck row c s))" if "\<not> ?overdue"
    using wait_rewrites [of row s ck c] that by simp
  let ?timeout = "''Self-update outcome could not be reconciled before the handoff timeout.''"
  have threw: "rewrites_row row ?overdue s (snd (if ?overdue then fail_and_count ck row ?timeout c s else wait_and_count ck row c s))"
    using fail [of ?timeout] wait by (cases ?overdue) simp_all
  show ?thesis
  proof (cases "expected_action X row")
    case (Inl e)
    with threw show ?thesis by (cases ?overdue) (simp_all add: reconcile_one_def Let_def)
  next
    case (Inr a)
    show ?thesis
    proof (cases "probe a row")
      case ProbeThrew
      with Inr threw show ?thesis by (cases ?overdue) (simp_all add: reconcile_one_def Let_def)
    next
      case NotSsh
      with Inr show ?thesis by (simp add: reconcile_one_def Let_def fail)
    next
      case (OutcomeFile contents)
      with Inr show ?thesis
        by (cases "parseSelfUpdateOutcome contents (j_id row) (string_or_empty (get_prop (a_payload a) ''targetVersion''))")
          (simp_all add: reconcile_one_def Let_def fail fin)
    next
      case NoOutcomeFile
      with Inr wait show ?thesis by (cases ?overdue) (simp_all add: reconcile_one_def Let_def fail_rewrites)
    qed
  qed
qed

lemma rewrites_keeps:
  assumes "rewrites_row row b s s'" and "q \<in> set (d_jobs s)" and "j_id q \<noteq> j_id row \<or> \<not> awaiting_outcome q"
  shows "q \<in> set (d_jobs s')"
  using assms by (auto simp: rewrites_row_def set_update_where image_iff intro!: bexI [of _ q])

lemma rewrites_finishes:
  assumes "rewrites_row row True s s'" and "row \<in> set (d_jobs s)" and "awaiting_outcome row"
  shows "\<exists>q\<in>set (d_jobs s'). j_id q = j_id row \<and> finished q"
  using assms by (force simp: rewrites_row_def set_update_where)

lemma finished_not_awaiting: "finished r \<Longrightarrow> \<not> awaiting_outcome r"
  by (auto simp: finished_def awaiting_outcome_def)

lemma reconcile_keeps:
  assumes "q \<in> set (d_jobs s)" and "j_id q \<notin> j_id ` set rows \<or> \<not> awaiting_outcome q"
  shows "q \<in> set (d_jobs (snd (foldl (reconcile_one X ck probe) (c, s) rows)))"
  using assms
proof (induction rows arbitrary: c s)
  case (Cons row rows)
  have "q \<in> set (d_jobs (snd (reconcile_one X ck probe (c, s) row)))"
    by (rule rewrites_keeps [OF reconcile_one_rewrites Cons.prems(1)]) (use Cons.prems(2) in auto)
  with Cons show ?case by (cases "reconcile_one X ck probe (c, s) row") auto
qed simp

lemma reconcile_settles:
  assumes "row \<in> set rows" and "distinct (map j_id rows)" and "row \<in> set (d_jobs s)" and "awaiting_outcome row"
    and "SELF_UPDATE_HANDOFF_TIMEOUT \<le> pendingHandoffAge ck row"
  shows "\<exists>q\<in>set (d_jobs (snd (foldl (reconcile_one X ck probe) (c, s) rows))). j_id q = j_id row \<and> finished q"
  using assms(1-3)
proof (induction rows arbitrary: c s)
  case (Cons r rows)
  obtain c1 s1 where step: "reconcile_one X ck probe (c, s) r = (c1, s1)" by (cases "reconcile_one X ck probe (c, s) r")
  have rw: "rewrites_row r (SELF_UPDATE_HANDOFF_TIMEOUT \<le> pendingHandoffAge ck r) s s1"
    using reconcile_one_rewrites [of r ck s X probe c] step by simp
  show ?case
  proof (cases "r = row")
    case True
    then obtain q where q: "q \<in> set (d_jobs s1)" "j_id q = j_id row" "finished q"
      using rewrites_finishes [of row s s1] rw assms(4,5) Cons.prems(3) by auto
    have "q \<in> set (d_jobs (snd (foldl (reconcile_one X ck probe) (c1, s1) rows)))"
      using reconcile_keeps [OF q(1)] finished_not_awaiting [OF q(3)] by blast
    with q step show ?thesis by auto
  next
    case False
    with Cons.prems(1) have "row \<in> set rows" by simp
    moreover from this have "j_id row \<in> j_id ` set rows" by (rule imageI)
    then have "j_id row \<noteq> j_id r" using Cons.prems(2) by (metis distinct.simps(2) list.simps(9) set_map)
    ultimately have "row \<in> set (d_jobs s1)" using rewrites_keeps [OF rw Cons.prems(3)] by blast
    with Cons.IH [of s1 c1] Cons.prems(2) \<open>row \<in> set rows\<close> step show ?thesis by simp
  qed
qed simp

lemma pending_distinct: "jobs.keys_unique (d_jobs s) \<Longrightarrow> distinct (map j_id (pending_handoffs s))"
  by (simp add: pending_handoffs_def jobs.keys_unique_def distinct_map distinct_take inj_on_def take_map [symmetric])

lemma awaiting_object: "awaiting_outcome r \<Longrightarrow> \<exists>fs. j_result r = Some (JObj fs)"
  by (cases "j_result r"; cases "the (j_result r)") (auto simp: awaiting_outcome_def text_prop_def)

text \<open>The recorded start of a handoff is readable, or none is recorded.\<close>

definition start_readable :: "job_row \<Rightarrow> bool" where
  "start_readable r \<longleftrightarrow> (case stored_start r of None \<Rightarrow> True | Some t \<Rightarrow> parse_ts t \<noteq> None)"

lemma stored_start_refresh:
  assumes "awaiting_outcome r"
  shows "stored_start (refresh_handoff ck r r)
    = Some (case stored_start r of Some t \<Rightarrow> t | None \<Rightarrow> show_int (j_updated_at r))"
proof -
  obtain fs where "j_result r = Some (JObj fs)" using awaiting_object [OF assms] by blast
  then show ?thesis
    by (simp add: stored_start_def [of "r\<lparr>j_result := x, j_updated_at := y\<rparr>" for x y] refresh_handoff_def jsonb_merge_def obj_concat_def ts_json_def)
qed

lemma refresh_age:
  assumes "awaiting_outcome r" and "start_readable r"
  shows "pendingHandoffAge ck' (refresh_handoff ck r r) = pendingHandoffAge ck' r"
  using assms stored_start_refresh [OF assms(1), of ck]
  by (auto simp: pendingHandoffAge_def start_readable_def split: option.split)

section \<open>Properties of the outcome\<close>

text \<open>
  The outcome file is read as it was written. Every consistent outcome the script writes for a job and a
  version, both free of line breaks, is parsed back exactly, and whatever text is accepted for a job stands for
  a consistent outcome of the expected version: a success has reached the last stage with exit code zero and
  without rollback, a failure has a nonzero code, codes are below one thousand.
\<close>

theorem outcome_file_roundtrip:
  assumes "line_value jobId" and "line_value (so_targetVersion oc)" and "outcome_ok oc"
  shows "parseSelfUpdateOutcome (write_outcome jobId oc) jobId (so_targetVersion oc) = Inr oc
    \<and> (\<forall>contents job version result. parseSelfUpdateOutcome contents job version = Inr result
         \<longrightarrow> outcome_ok result \<and> so_targetVersion result = version)"
  using parse_written [OF assms] parse_sound by blast

theorem outcome_file_roundtrip_witness:
  "parseSelfUpdateOutcome (write_outcome ''job-1'' \<lparr>so_passed = False, so_stage = ''verification'',
       so_rollback = RollbackSucceeded, so_targetVersion = ''1.4.0'', so_exitCode = 70\<rparr>) ''job-1'' ''1.4.0''
   = Inr \<lparr>so_passed = False, so_stage = ''verification'', so_rollback = RollbackSucceeded,
       so_targetVersion = ''1.4.0'', so_exitCode = 70\<rparr>"
proof -
  let ?o = "\<lparr>so_passed = False, so_stage = ''verification'', so_rollback = RollbackSucceeded,
       so_targetVersion = ''1.4.0'', so_exitCode = 70\<rparr>"
  have ok: "line_value ''job-1''" "line_value (so_targetVersion ?o)" "outcome_ok ?o" by code_simp+
  show ?thesis using outcome_file_roundtrip [OF ok] by simp
qed

text \<open>
  C19: a handed-off self-update is settled in time. Refreshing the lease of a pending handoff, which every pass does
  while it waits, does not make the handoff younger; and a pass that runs half an hour or more after the
  handoff began and takes the job leaves it completed or failed and without lease, whatever the manager host answers.
\<close>

theorem overdue_handoff_settled:
  assumes "jobs.keys_unique (d_jobs s)" and "r \<in> set (pending_handoffs s)" and "start_readable r"
  shows "pendingHandoffAge ck' (refresh_handoff ck r r) = pendingHandoffAge ck' r
    \<and> (seconds 1800 \<le> pendingHandoffAge ck' r
       \<longrightarrow> (\<exists>q\<in>set (d_jobs (snd (reconcileSelfUpdateHandoffs X ck' probe s))). j_id q = j_id r
             \<and> (j_status q = Completed \<or> j_status q = Failed) \<and> j_lease_owner q = None))"
proof -
  have r: "r \<in> set (d_jobs s)" "awaiting_outcome r"
    using assms(2) by (auto simp: pending_handoffs_def dest!: in_set_takeD)
  show ?thesis
    using refresh_age [OF r(2) assms(3)] reconcile_settles [OF assms(2) pending_distinct [OF assms(1)] r]
    by (auto simp: reconcileSelfUpdateHandoffs_def SELF_UPDATE_HANDOFF_TIMEOUT_def finished_def)
qed

definition handed_off_job :: job_row where
  "handed_off_job = (sample_job ''system.self_update'' Running)\<lparr>j_attempt_count := 1,
     j_result := Some (JObj [(''handoffPending'', JBool True), (''handedOffAt'', ts_json 0)])\<rparr>"

theorem overdue_handoff_settled_witness:
  "\<exists>q\<in>set (d_jobs (snd (reconcileSelfUpdateHandoffs sample_externs (clock_of (seconds 2000)) (\<lambda>_ _. NoOutcomeFile)
     (jobs_db [handed_off_job])))). j_id q = ''job-1'' \<and> (j_status q = Completed \<or> j_status q = Failed) \<and> j_lease_owner q = None"
proof -
  have "jobs.keys_unique (d_jobs (jobs_db [handed_off_job]))"
    by (simp add: jobs.keys_unique_def jobs_db_def)
  moreover have "pending_handoffs (jobs_db [handed_off_job]) = [handed_off_job]" "start_readable handed_off_job"
    "seconds 1800 \<le> pendingHandoffAge (clock_of (seconds 2000)) handed_off_job" "j_id handed_off_job = ''job-1''"
    by code_simp+
  ultimately show ?thesis
    using overdue_handoff_settled [of "jobs_db [handed_off_job]" handed_off_job "clock_of (seconds 2000)" "clock_of 0"
        sample_externs "\<lambda>_ _. NoOutcomeFile"] by simp
qed

end
