(* ===== verification/Workers.thy ===== *)
theory Workers
  imports Job_Queue
begin

text \<open>
  The worker registry and the readiness report built from it (\<^verbatim>\<open>services/jobs.ts\<close>).
\<close>

section \<open>Registration and heartbeats\<close>

definition WORKER_ACTIVE_WINDOW_SECONDS :: int where "WORKER_ACTIVE_WINDOW_SECONDS = 20"

definition update_workers :: "(worker_row \<Rightarrow> bool) \<Rightarrow> (worker_row \<Rightarrow> worker_row) \<Rightarrow> db \<Rightarrow> db" where
  "update_workers P f s = s\<lparr>d_workers := update_where P f (d_workers s)\<rparr>"

definition active_worker :: "clock \<Rightarrow> uuid \<Rightarrow> string \<Rightarrow> string \<Rightarrow> worker_row" where
  "active_worker ck workerId version hostname = \<lparr>wi_id = workerId, wi_version = version,
     wi_hostname = hostname, wi_status = WorkerActive, wi_started_at = ck_now ck,
     wi_last_heartbeat_at = ck_now ck, wi_stopped_at = None\<rparr>"

definition registerWorkerInstance :: "clock \<Rightarrow> uuid \<Rightarrow> string \<Rightarrow> string \<Rightarrow> db \<Rightarrow> db" where
  "registerWorkerInstance ck workerId version hostname s =
     (if list_ex (\<lambda>w. wi_id w = workerId) (d_workers s)
      then update_workers (\<lambda>w. wi_id w = workerId)
             (\<lambda>_. active_worker ck workerId version hostname) s
      else s\<lparr>d_workers := d_workers s @ [active_worker ck workerId version hostname]\<rparr>)"

definition is_active_worker :: "uuid \<Rightarrow> worker_row \<Rightarrow> bool" where
  "is_active_worker workerId w \<longleftrightarrow> wi_id w = workerId \<and> wi_status w = WorkerActive"

definition heartbeatWorker :: "clock \<Rightarrow> uuid \<Rightarrow> db \<Rightarrow> bool \<times> db" where
  "heartbeatWorker ck workerId s =
     (length (filter (is_active_worker workerId) (d_workers s)) = 1,
      update_workers (is_active_worker workerId) (\<lambda>w. w\<lparr>wi_last_heartbeat_at := ck_now ck\<rparr>) s)"

definition markWorkerDraining :: "clock \<Rightarrow> uuid \<Rightarrow> db \<Rightarrow> db" where
  "markWorkerDraining ck workerId =
     update_workers (is_active_worker workerId)
       (\<lambda>w. w\<lparr>wi_status := WorkerDraining, wi_last_heartbeat_at := ck_now ck\<rparr>)"

definition markWorkerStopped :: "clock \<Rightarrow> uuid \<Rightarrow> db \<Rightarrow> db" where
  "markWorkerStopped ck workerId =
     update_workers (\<lambda>w. wi_id w = workerId)
       (\<lambda>w. w\<lparr>wi_status := WorkerStopped, wi_stopped_at := Some (ck_now ck),
               wi_last_heartbeat_at := ck_now ck\<rparr>)"

abbreviation days :: "int \<Rightarrow> timestamp" where
  "days n \<equiv> seconds (n * 86400)"

definition worker_stale :: "clock \<Rightarrow> worker_row \<Rightarrow> bool" where
  "worker_stale ck w \<longleftrightarrow>
     (wi_status w = WorkerStopped
        \<and> (case wi_stopped_at w of None \<Rightarrow> False | Some t \<Rightarrow> t < ck_now ck - days 7))
     \<or> (wi_status w \<noteq> WorkerStopped \<and> wi_last_heartbeat_at w < ck_now ck - days 7)"

definition cleanupWorkerInstances :: "clock \<Rightarrow> db \<Rightarrow> db" where
  "cleanupWorkerInstances ck s = s\<lparr>d_workers := filter (\<lambda>w. \<not> worker_stale ck w) (d_workers s)\<rparr>"

section \<open>Readiness\<close>

datatype pool_state = PoolActive | PoolDraining | PoolAbsent | PoolStale

record worker_status =
  ws_queued :: nat
  ws_running :: nat
  ws_lastJobCompletedAt :: "timestamp option"
  ws_available :: bool
  ws_activeWorkers :: nat
  ws_lastHeartbeatAt :: "timestamp option"
  ws_state :: pool_state

definition fresh :: "clock \<Rightarrow> timestamp \<Rightarrow> bool" where
  "fresh ck t \<longleftrightarrow> ck_now ck - seconds WORKER_ACTIVE_WINDOW_SECONDS \<le> t"

definition latest :: "timestamp list \<Rightarrow> timestamp option" where
  "latest ts = (case ts of [] \<Rightarrow> None | t # ts' \<Rightarrow> Some (fold max ts' t))"

definition is_terminal :: "job_row \<Rightarrow> bool" where
  "is_terminal r \<longleftrightarrow> j_status r \<in> {Completed, Failed, Canceled}"

definition getWorkerStatus :: "clock \<Rightarrow> db \<Rightarrow> worker_status" where
  "getWorkerStatus ck s =
     (let count = (\<lambda>P. length (filter P (d_jobs s)));
          workers = d_workers s;
          activeWorkers = length (filter (\<lambda>w. wi_status w = WorkerActive
             \<and> fresh ck (wi_last_heartbeat_at w)) workers);
          recentDraining = length (filter (\<lambda>w. wi_status w = WorkerDraining
             \<and> fresh ck (wi_last_heartbeat_at w)) workers);
          lastHeartbeat = latest (map wi_last_heartbeat_at workers);
          lastIsFresh = (case lastHeartbeat of None \<Rightarrow> False | Some t \<Rightarrow> fresh ck t);
          blocked = count (\<lambda>r. j_status r = Running \<and> handoffPending r) > 0
      in \<lparr>ws_queued = count (\<lambda>r. j_status r = Queued),
          ws_running = count (\<lambda>r. j_status r = Running),
          ws_lastJobCompletedAt = latest (List.map_filter j_completed_at (filter is_terminal (d_jobs s))),
          ws_available = (activeWorkers > 0 \<and> \<not> blocked),
          ws_activeWorkers = activeWorkers,
          ws_lastHeartbeatAt = lastHeartbeat,
          ws_state = (if blocked \<and> activeWorkers > 0 then PoolDraining
                      else if activeWorkers > 0 then PoolActive
                      else if recentDraining > 0 then PoolDraining
                      else if lastIsFresh \<or> lastHeartbeat = None then PoolAbsent
                      else PoolStale)\<rparr>)"

section \<open>Lemmas\<close>

lemma fold_max_ge: "t \<le> fold max ts (t :: int)"
  by (induction ts arbitrary: t) (auto intro: order_trans [OF max.cobounded2])

lemma fold_max_member: "t' \<in> set ts \<Longrightarrow> t' \<le> fold max ts (t :: int)"
proof (induction ts arbitrary: t)
  case (Cons a ts)
  then show ?case
    by (auto intro: order_trans [OF max.cobounded1 fold_max_ge])
qed simp

lemma latest_ge: "t \<in> set ts \<Longrightarrow> \<exists>m. latest ts = Some m \<and> t \<le> m"
  by (cases ts) (auto simp: latest_def fold_max_ge fold_max_member)

lemma fresh_mono: "fresh ck t \<Longrightarrow> t \<le> t' \<Longrightarrow> fresh ck t'"
  by (simp add: fresh_def)

lemma fresh_not_stale: "wi_status w \<noteq> WorkerStopped \<Longrightarrow> fresh ck (wi_last_heartbeat_at w) \<Longrightarrow> \<not> worker_stale ck w"
  by (auto simp: fresh_def worker_stale_def WORKER_ACTIVE_WINDOW_SECONDS_def)

lemma latest_in: "latest ts = Some m \<Longrightarrow> m \<in> set ts"
proof -
  have "fold max us t \<in> insert t (set us)" for us and t :: int
    by (induction us arbitrary: t) (auto simp: max_def split: if_splits)
  then show "latest ts = Some m \<Longrightarrow> m \<in> set ts" by (cases ts) (auto simp: latest_def)
qed

lemma latest_fresh:
  "(case latest (map wi_last_heartbeat_at ws) of None \<Rightarrow> False | Some t \<Rightarrow> fresh ck t)
   \<longleftrightarrow> (\<exists>w\<in>set ws. fresh ck (wi_last_heartbeat_at w))"
proof (cases "latest (map wi_last_heartbeat_at ws)")
  case None
  then have "ws = []" by (cases ws) (auto simp: latest_def)
  with None show ?thesis by simp
next
  case (Some m)
  have "t \<le> m" if "t \<in> set (map wi_last_heartbeat_at ws)" for t using latest_ge [OF that] Some by auto
  with latest_in [OF Some] Some show ?thesis by (auto intro: fresh_mono)
qed

section \<open>Properties\<close>

text \<open>
  the readiness report is exact. Workers are available precisely when an active worker has sent a heartbeat in
  the last twenty seconds and no self-update waits for its outcome, and then the pool is reported active; it is
  reported stale precisely when workers are known and none of them, of whatever status, sent a recent heartbeat;
  and the cleanup of old registrations changes neither availability nor the number of active workers.
\<close>

theorem readiness_report_exact:
  "(ws_available (getWorkerStatus ck s) \<longleftrightarrow>
      (\<exists>w\<in>set (d_workers s). wi_status w = WorkerActive \<and> ck_now ck - seconds 20 \<le> wi_last_heartbeat_at w)
      \<and> (\<forall>r\<in>set (d_jobs s). \<not> (j_status r = Running \<and> handoffPending r)))
   \<and> (ws_state (getWorkerStatus ck s) = PoolActive \<longleftrightarrow> ws_available (getWorkerStatus ck s))
   \<and> (ws_state (getWorkerStatus ck s) = PoolStale \<longleftrightarrow>
        d_workers s \<noteq> [] \<and> (\<forall>w\<in>set (d_workers s). wi_last_heartbeat_at w < ck_now ck - seconds 20))
   \<and> ws_available (getWorkerStatus ck (cleanupWorkerInstances ck s)) = ws_available (getWorkerStatus ck s)
   \<and> ws_activeWorkers (getWorkerStatus ck (cleanupWorkerInstances ck s)) = ws_activeWorkers (getWorkerStatus ck s)"
proof -
  let ?live = "\<lambda>w. wi_status w = WorkerActive \<and> fresh ck (wi_last_heartbeat_at w)"
  have live: "fresh ck t \<longleftrightarrow> ck_now ck - seconds 20 \<le> t" for t by (simp add: fresh_def WORKER_ACTIVE_WINDOW_SECONDS_def)
  have some: "latest (map wi_last_heartbeat_at (d_workers s)) = None \<longleftrightarrow> d_workers s = []"
    by (cases "d_workers s") (simp_all add: latest_def)
  have kept: "filter ?live (filter (\<lambda>w. \<not> worker_stale ck w) ws) = filter ?live ws" for ws
    using fresh_not_stale by (auto simp: filter_filter intro!: filter_cong)
  have avail: "ws_available (getWorkerStatus ck s) \<longleftrightarrow> (\<exists>w\<in>set (d_workers s). ?live w)
      \<and> (\<forall>r\<in>set (d_jobs s). \<not> (j_status r = Running \<and> handoffPending r))"
    by (auto simp: getWorkerStatus_def Let_def filter_empty_conv)
  have active: "ws_state (getWorkerStatus ck s) = PoolActive \<longleftrightarrow> ws_available (getWorkerStatus ck s)"
    by (auto simp: getWorkerStatus_def Let_def)
  have stale: "ws_state (getWorkerStatus ck s) = PoolStale \<longleftrightarrow>
      d_workers s \<noteq> [] \<and> (\<forall>w\<in>set (d_workers s). \<not> fresh ck (wi_last_heartbeat_at w))"
    by (auto simp: getWorkerStatus_def Let_def latest_fresh some filter_empty_conv)
  have clean: "ws_activeWorkers (getWorkerStatus ck (cleanupWorkerInstances ck s)) = ws_activeWorkers (getWorkerStatus ck s)"
    "ws_available (getWorkerStatus ck (cleanupWorkerInstances ck s)) = ws_available (getWorkerStatus ck s)"
    using kept [of "d_workers s"] by (simp_all add: getWorkerStatus_def cleanupWorkerInstances_def Let_def del: filter_filter)
  show ?thesis using avail active stale clean by (simp add: live not_le)
qed

theorem readiness_report_exact_witness:
  "ws_available (getWorkerStatus (clock_of (seconds 30)) (registerWorkerInstance (clock_of (seconds 20)) ''w1'' ''1.0'' ''node'' empty_db))"
proof -
  let ?s = "registerWorkerInstance (clock_of (seconds 20)) ''w1'' ''1.0'' ''node'' empty_db"
  have "d_workers ?s = [active_worker (clock_of (seconds 20)) ''w1'' ''1.0'' ''node'']" "d_jobs ?s = []"
    by (simp_all add: registerWorkerInstance_def empty_db_def)
  then show ?thesis
    using readiness_report_exact [of "clock_of (seconds 30)" ?s] by (simp add: active_worker_def clock_of_def)
qed

end
