(* ===== verification/Job_Lifecycle.thy ===== *)
theory Job_Lifecycle
  imports Job_Finalization Self_Update Workers
begin

text \<open>
  The life of a job as a state machine. \<open>job_step\<close> is the specification: the transitions one
  row of \<^verbatim>\<open>operation_jobs\<close> may take and their guards. \<open>queue_step\<close> is the implementation: any
  operation of the queue, run by any process at any later time, interleaved with arbitrary
  changes to the other tables. Every operation refines the specification (\<open>step_refines\<close>), and
  the invariants of the queue are proved from it.
\<close>

section \<open>The specification of one job\<close>

definition same_job :: "job_row \<Rightarrow> job_row \<Rightarrow> bool" where
  "same_job r r' \<longleftrightarrow> j_id r' = j_id r \<and> j_type r' = j_type r \<and> j_host_id r' = j_host_id r
     \<and> j_payload r' = j_payload r \<and> j_idempotency_key r' = j_idempotency_key r
     \<and> j_created_at r' = j_created_at r"

definition no_lease :: "job_row \<Rightarrow> bool" where
  "no_lease r \<longleftrightarrow> j_lease_owner r = None \<and> j_lease_expires_at r = None"

definition lease_live :: "clock \<Rightarrow> job_row \<Rightarrow> bool" where
  "lease_live ck r \<longleftrightarrow> j_status r = Running \<and> j_lease_owner r \<noteq> None
     \<and> (case j_lease_expires_at r of None \<Rightarrow> False | Some e \<Rightarrow> ck_clock ck < e)"

inductive job_step :: "clock \<Rightarrow> job_row \<Rightarrow> job_row \<Rightarrow> bool" for ck where
  touch: "same_job r r' \<Longrightarrow> j_status r' = j_status r \<Longrightarrow> j_attempt_count r' = j_attempt_count r
     \<Longrightarrow> j_lease_owner r' = j_lease_owner r \<Longrightarrow> j_lease_expires_at r' = j_lease_expires_at r
     \<Longrightarrow> j_status r = Running \<or> j_error r' = j_error r \<Longrightarrow> job_step ck r r'"
| claim: "same_job r r' \<Longrightarrow> j_status r = Queued \<Longrightarrow> j_status r' = Running
     \<Longrightarrow> j_attempt_count r' = Suc (j_attempt_count r) \<Longrightarrow> j_lease_owner r' = Some w
     \<Longrightarrow> j_lease_expires_at r' = Some (ck_now ck + seconds JOB_LEASE_SECONDS) \<Longrightarrow> job_step ck r r'"
| renew: "same_job r r' \<Longrightarrow> lease_live ck r \<Longrightarrow> j_status r' = Running
     \<Longrightarrow> j_attempt_count r' = j_attempt_count r \<Longrightarrow> j_lease_owner r' = j_lease_owner r
     \<Longrightarrow> j_lease_expires_at r' = Some (ck_now ck + seconds JOB_LEASE_SECONDS) \<Longrightarrow> job_step ck r r'"
| handoff: "same_job r r' \<Longrightarrow> lease_live ck r \<Longrightarrow> j_type r = ''system.self_update''
     \<Longrightarrow> j_status r' = Running \<Longrightarrow> j_attempt_count r' = j_attempt_count r \<Longrightarrow> no_lease r' \<Longrightarrow> job_step ck r r'"
| finish: "same_job r r' \<Longrightarrow> lease_live ck r \<Longrightarrow> j_status r' = Completed \<or> j_status r' = Failed
     \<Longrightarrow> j_attempt_count r' = j_attempt_count r \<Longrightarrow> no_lease r' \<Longrightarrow> job_step ck r r'"
| settle: "same_job r r' \<Longrightarrow> awaiting_outcome r \<Longrightarrow> j_status r' = Completed \<or> j_status r' = Failed
     \<Longrightarrow> j_attempt_count r' = j_attempt_count r \<Longrightarrow> no_lease r' \<Longrightarrow> job_step ck r r'"
| requeue: "same_job r r' \<Longrightarrow> j_status r = Running \<Longrightarrow> lease_expired ck r \<Longrightarrow> auto_retryable r
     \<Longrightarrow> j_status r' = Queued \<Longrightarrow> j_attempt_count r' = j_attempt_count r \<Longrightarrow> no_lease r' \<Longrightarrow> job_step ck r r'"
| lose: "same_job r r' \<Longrightarrow> j_status r = Running \<Longrightarrow> lease_expired ck r \<Longrightarrow> \<not> auto_retryable r
     \<Longrightarrow> j_status r' = Failed \<Longrightarrow> j_error r' = Some (lost_message r)
     \<Longrightarrow> j_attempt_count r' = j_attempt_count r \<Longrightarrow> no_lease r' \<Longrightarrow> job_step ck r r'"
| cancel: "same_job r r' \<Longrightarrow> j_status r = Queued \<Longrightarrow> j_status r' = Canceled
     \<Longrightarrow> j_attempt_count r' = j_attempt_count r \<Longrightarrow> no_lease r' \<Longrightarrow> job_step ck r r'"
| retry: "same_job r r' \<Longrightarrow> canRetryJob r \<Longrightarrow> j_status r' = Queued
     \<Longrightarrow> j_attempt_count r' = j_attempt_count r \<Longrightarrow> no_lease r' \<Longrightarrow> job_step ck r r'"

inductive_cases job_stepE: "job_step ck r r'"

text \<open>A step of the table: every row takes a step, and new jobs may be appended.\<close>

definition new_row :: "job_row list \<Rightarrow> job_row \<Rightarrow> bool" where
  "new_row rows r \<longleftrightarrow> j_id r \<notin> j_id ` set rows \<and> j_status r = Queued \<and> j_attempt_count r = 0 \<and> no_lease r"

definition rows_step :: "clock \<Rightarrow> job_row list \<Rightarrow> job_row list \<Rightarrow> bool" where
  "rows_step ck = list_all2 (job_step ck)"

definition table_step :: "clock \<Rightarrow> job_row list \<Rightarrow> job_row list \<Rightarrow> bool" where
  "table_step ck rows rows' \<longleftrightarrow>
     (\<exists>moved. rows_step ck rows moved
        \<and> (rows' = moved \<or> (\<exists>r. new_row rows r \<and> rows' = moved @ [r])))"

section \<open>The operations as steps\<close>

definition keeps_jobs :: "(db \<Rightarrow> db result) \<Rightarrow> bool" where
  "keeps_jobs cb \<longleftrightarrow> (\<forall>s s'. cb s = Inr s' \<longrightarrow> d_jobs s' = d_jobs s)"

definition clock_at :: "timestamp \<Rightarrow> clock \<Rightarrow> bool" where
  "clock_at t ck \<longleftrightarrow> t \<le> ck_clock ck \<and> ck_now ck \<le> ck_clock ck"

text \<open>
  \<open>op_annotate\<close> stands for the other services that write evidence into the result of a job,
  \<open>op_other\<close> for every change to other tables.
\<close>

inductive queue_op :: "externs \<Rightarrow> clock \<Rightarrow> db \<Rightarrow> db \<Rightarrow> bool" for X ck s where
  op_enqueue: "queue_op X ck s (snd (enqueueJob X ck newId a createdBy key s))"
| op_claim: "queue_op X ck s (snd (claimNextJob ck locked w s))"
| op_renew: "queue_op X ck s (snd (renewJobLease ck i l s))"
| op_progress: "queue_op X ck s (snd (updateJobProgress X ck i steps l s))"
| op_mark: "queue_op X ck s (snd (markJobProgressStep X ck i type step detail l s))"
| op_handoff: "queue_op X ck s (snd (markSelfUpdateHandoffPending ck i handoff l s))"
| op_reconcile: "queue_op X ck s (snd (reconcileSelfUpdateHandoffs X ck probe s))"
| op_dispatch: "queue_op X ck s (snd (snd (snd (recordRemoteMutationDispatch X ck fence ctx tr timeout s))))"
| op_terminal: "queue_op X ck s (snd (snd (recordRemoteMutationTerminal ck fence ctx state s)))"
| op_complete: "queue_op X ck s (snd (completeJob X ck i result l s))"
| op_fail: "queue_op X ck s (snd (failJob X ck i message l s))"
| op_cancel: "(\<And>j. keeps_jobs (onCanceled j)) \<Longrightarrow> queue_op X ck s (snd (cancelQueuedJob ck i onCanceled s))"
| op_recover: "queue_op X ck s (snd (recoverExpiredJobs ck locked s))"
| op_retry: "(\<And>j k. keeps_jobs (onRetried j k))
     \<Longrightarrow> queue_op X ck s (snd (retryJob X ck reads i createdBy onRetried s))"
| op_annotate: "queue_op X ck s (update_jobs P (\<lambda>r. r\<lparr>j_result := f r, j_updated_at := ck_now ck\<rparr>) s)"
| op_other: "d_jobs s' = d_jobs s \<Longrightarrow> queue_op X ck s s'"

text \<open>A state is the time of the last step and the database; time does not go back.\<close>

inductive queue_step :: "externs \<Rightarrow> timestamp \<times> db \<Rightarrow> timestamp \<times> db \<Rightarrow> bool" for X where
  "clock_at t ck \<Longrightarrow> queue_op X ck s s' \<Longrightarrow> queue_step X (t, s) (ck_clock ck, s')"

inductive_cases queue_stepE: "queue_step X a b"

text \<open>What holds of every row, and of the table.\<close>

definition row_ok :: "job_row \<Rightarrow> bool" where
  "row_ok r \<longleftrightarrow>
     j_attempt_count r \<le> MAX_AUTO_ATTEMPTS
     \<and> (j_status r = Queued \<longrightarrow> j_attempt_count r < MAX_AUTO_ATTEMPTS)
     \<and> (j_status r \<noteq> Running \<longrightarrow> no_lease r)
     \<and> (j_status r = Running \<longrightarrow> 0 < j_attempt_count r)
     \<and> (j_lease_owner r = None \<longleftrightarrow> j_lease_expires_at r = None)"

definition queue_ok :: "db \<Rightarrow> bool" where
  "queue_ok s \<longleftrightarrow> jobs.keys_unique (d_jobs s) \<and> list_all row_ok (d_jobs s)"

section \<open>Refinement\<close>

lemma same_job_refl [simp]: "same_job r r"
  by (simp add: same_job_def)

lemma job_step_refl [simp]: "job_step ck r r"
  by (rule touch) simp_all

lemma job_step_same: "job_step ck r r' \<Longrightarrow> same_job r r'"
  by (auto elim: job_stepE)

lemma rows_step_refl: "rows_step ck rows rows"
  by (simp add: rows_step_def list_all2_refl)

lemma rows_step_update:
  assumes "\<And>r. r \<in> set rows \<Longrightarrow> P r \<Longrightarrow> job_step ck r (f r)"
  shows "rows_step ck rows (update_where P f rows)"
  unfolding rows_step_def using assms by (induction rows) auto

lemma rows_table: "rows_step ck rows rows' \<Longrightarrow> table_step ck rows rows'"
  unfolding table_step_def by blast

lemma table_step_refl: "table_step ck rows rows"
  by (rule rows_table) (rule rows_step_refl)

lemma table_step_append: "new_row rows r \<Longrightarrow> table_step ck rows (rows @ [r])"
  unfolding table_step_def by (intro exI [of _ rows]) (auto simp: rows_step_refl)

lemma lease_live_of_predicate: "leasePredicate ck i l r \<Longrightarrow> lease_live ck r"
  by (auto simp: leasePredicate_def lease_live_def)

lemma held_step:
  assumes "leasePredicate ck i l r"
  shows "same_job r r' \<Longrightarrow> j_status r' \<in> {Completed, Failed} \<Longrightarrow> j_attempt_count r' = j_attempt_count r
     \<Longrightarrow> no_lease r' \<Longrightarrow> job_step ck r r'"
  using lease_live_of_predicate [OF assms] by (auto intro: finish)

lemma withTransaction_jobs:
  assumes "\<And>x t. fn (s\<lparr>d_locks := []\<rparr>) = Inr (x, t) \<Longrightarrow> rows_step ck (d_jobs s) (d_jobs t)"
  shows "rows_step ck (d_jobs s) (d_jobs (snd (withTransaction fn s)))"
  using assms by (auto simp: withTransaction_def rows_step_refl split: sum.split)

subsection \<open>Claim, renewal and progress\<close>

lemma claim_refines: 
  assumes "jobs.keys_unique (d_jobs s)"
  shows "rows_step ck (d_jobs s) (d_jobs (snd (claimNextJob ck locked w s)))"
proof (cases "next_job locked s")
  case None
  then show ?thesis by (simp add: claimNextJob_def rows_step_refl)
next
  case (Some n)
  have "job_step ck r (claim_update ck w r)" if "r \<in> set (d_jobs s)" "j_id r = j_id n" for r
  proof -
    have "r = n"
      using jobs.same_key_same_row assms that next_job_SomeD(1) [OF Some] by blast
    then show ?thesis
      using next_job_SomeD(2) [OF Some]
      by (intro claim [of _ _ w]) (simp_all add: claim_update_def same_job_def)
  qed
  then have "rows_step ck (d_jobs s) (update_where (\<lambda>r. j_id r = j_id n) (claim_update ck w) (d_jobs s))"
    by (rule rows_step_update)
  with Some show ?thesis by (simp add: claimNextJob_def)
qed

lemma renew_refines: "rows_step ck (d_jobs s) (d_jobs (snd (renewJobLease ck i l s)))"
proof -
  let ?f = "\<lambda>r. r\<lparr>j_lease_expires_at := Some (ck_now ck + seconds JOB_LEASE_SECONDS),
                   j_updated_at := ck_now ck\<rparr>"
  have "job_step ck r (?f r)" if "leasePredicate ck i l r" for r
    using lease_live_of_predicate [OF that] leasePredicateD(2) [OF that]
    by (intro renew) (simp_all add: same_job_def)
  then have "rows_step ck (d_jobs s) (update_where (leasePredicate ck i l) ?f (d_jobs s))"
    by (intro rows_step_update) simp
  then show ?thesis by (simp add: renewJobLease_def)
qed

lemma touch_result: "job_step ck r (r\<lparr>j_result := v, j_updated_at := t\<rparr>)"
  by (rule touch) (simp_all add: same_job_def)

lemma progress_refines: "rows_step ck (d_jobs s) (d_jobs (snd (updateJobProgress X ck i steps l s)))"
proof -
  have "job_step ck r (r\<lparr>j_progress := v, j_updated_at := t\<rparr>)" for r v t
    by (rule touch) (simp_all add: same_job_def)
  then show ?thesis
    by (auto simp: updateJobProgress_def Let_def rows_step_refl
        intro!: rows_step_update split: sum.split list.split)
qed

lemma mark_refines:
  "rows_step ck (d_jobs s) (d_jobs (snd (markJobProgressStep X ck i type step detail l s)))"
  by (auto simp: markJobProgressStep_def rows_step_refl progress_refines split: sum.split)

lemma handoff_refines:
  "rows_step ck (d_jobs s) (d_jobs (snd (markSelfUpdateHandoffPending ck i handoff l s)))"
proof -
  have "job_step ck r (r\<lparr>j_result := v, j_progress := p, j_error := None, j_lease_owner := None,
      j_lease_expires_at := None, j_updated_at := t\<rparr>)"
    if "leasePredicate ck i l r" "j_type r = ''system.self_update''" for r v p t
    using lease_live_of_predicate [OF that(1)] leasePredicateD(2) [OF that(1)] that(2)
    by (intro handoff) (simp_all add: same_job_def no_lease_def)
  then show ?thesis
    by (auto simp: markSelfUpdateHandoffPending_def Let_def rows_step_refl
        intro!: rows_step_update split: sum.split)
qed

subsection \<open>Remote mutation proofs\<close>

lemma leased_transaction_refines:
  assumes "\<And>t x t'. d_jobs t = d_jobs s \<Longrightarrow> cb t = Inr (x, t') \<Longrightarrow> rows_step ck (d_jobs s) (d_jobs t')"
  shows "rows_step ck (d_jobs s) (d_jobs (snd (withActiveJobLeaseTransaction ck i l cb s)))"
  unfolding withActiveJobLeaseTransaction_def
  by (rule withTransaction_jobs) (auto split: if_splits dest: assms [rotated])

lemma write_refines:
  "write_dispatch ck ctx tr timeout t = Inr (x, t') \<Longrightarrow> rows_step ck (d_jobs t) (d_jobs t')"
  "write_terminal ck ctx state t = Inr (x, t') \<Longrightarrow> rows_step ck (d_jobs t) (d_jobs t')"
  by (auto simp: write_dispatch_def write_terminal_def Let_def touch_result
      intro!: rows_step_update split: if_splits)

lemma dispatch_refines:
  "rows_step ck (d_jobs s)
     (d_jobs (snd (snd (snd (recordRemoteMutationDispatch X ck fence ctx tr timeout s)))))"
proof -
  let ?w = "withActiveJobLeaseTransaction ck (mc_jobId ctx) (ef_lease fence)
      (write_dispatch ck (dispatch_context X fence ctx) tr (boundedTimeoutMs timeout)) s"
  have "rows_step ck (d_jobs s) (d_jobs (snd ?w))"
    by (rule leased_transaction_refines) (metis write_refines(1))
  then show ?thesis
    by (auto simp: recordRemoteMutationDispatch_def Let_def split: prod.split sum.split)
qed

lemma terminal_refines:
  "rows_step ck (d_jobs s) (d_jobs (snd (snd (recordRemoteMutationTerminal ck fence ctx state s))))"
proof -
  let ?w = "withActiveJobLeaseTransaction ck (mc_jobId ctx) (ef_lease fence) (write_terminal ck ctx state) s"
  have "rows_step ck (d_jobs s) (d_jobs (snd ?w))"
    by (rule leased_transaction_refines) (metis write_refines(2))
  then show ?thesis
    by (auto simp: recordRemoteMutationTerminal_def rows_step_refl split: prod.split sum.split)
qed

subsection \<open>Completion, failure, cancellation, recovery\<close>

lemma complete_refines: "rows_step ck (d_jobs s) (d_jobs (snd (completeJob X ck i result l s)))"
proof -
  let ?v = "x_sanitizeFields X (JObj result)"
  have step: "job_step ck r (complete_update ck ?v r)" if "leasePredicate ck i l r" for r
    using held_step [OF that] by (simp add: complete_update_def same_job_def no_lease_def)
  have upd: "rows_step ck (d_jobs s)
      (update_where (leasePredicate ck i l) (complete_update ck ?v) (d_jobs s))"
    by (rule rows_step_update) (rule step)
  show ?thesis
    unfolding completeJob_def
    by (rule withTransaction_jobs)
      (use upd in \<open>auto simp: Let_def and_then_Inr_iff dest!: finalizeCompletion_jobs split: list.splits\<close>)
qed

lemma fail_refines:
  assumes "jobs.keys_unique (d_jobs s)"
  shows "rows_step ck (d_jobs s) (d_jobs (snd (failJob X ck i message l s)))"
proof -
  let ?m = "x_sanitizeText X message"
  let ?f = "fail_update ck ?m" and ?P = "leasePredicate ck i l"
  have 1: "rows_step ck (d_jobs s) (update_where ?P ?f (d_jobs s))"
    by (rule rows_step_update, rule held_step) (simp_all add: fail_update_def same_job_def no_lease_def)
  have 2: "rows_step ck (d_jobs s)
      (update_where (\<lambda>q. j_id q = i \<and> j_status q = Failed) (\<lambda>q. q\<lparr>j_error := e, j_updated_at := t\<rparr>)
        (update_where ?P ?f (d_jobs s)))" if "r0 \<in> set (d_jobs s)" "?P r0" for e t r0
  proof -
    have "job_step ck r ((?f r)\<lparr>j_error := e, j_updated_at := t\<rparr>)" if "?P r" for r
      using held_step [OF that] by (simp add: fail_update_def same_job_def no_lease_def)
    moreover have "j_status r = Running" if "r \<in> set (d_jobs s)" "j_id r = i" for r
      using jobs.same_key_same_row [OF assms that(1)] \<open>r0 \<in> set (d_jobs s)\<close> \<open>?P r0\<close> that(2)
      by (metis leasePredicateD(1,2))
    ultimately have "list_all2 (job_step ck) (d_jobs s)
      (update_where (\<lambda>q. j_id q = i \<and> j_status q = Failed) (\<lambda>q. q\<lparr>j_error := e, j_updated_at := t\<rparr>)
        (update_where ?P ?f (d_jobs s)))"
      unfolding update_where_def list_all2_map2 map_map list_all2_same
      by (auto dest: leasePredicateD)
    then show ?thesis unfolding rows_step_def .
  qed
  show ?thesis
  proof (cases "filter ?P (d_jobs s)")
    case Nil
    then show ?thesis
      unfolding failJob_def by (intro withTransaction_jobs) (auto simp: Let_def rows_step_refl)
  next
    case (Cons r0 rs)
    then have "r0 \<in> set (filter ?P (d_jobs s))" by simp
    then have "r0 \<in> set (d_jobs s)" "?P r0" by simp_all
    note two = 2 [OF this]
    show ?thesis
      unfolding failJob_def
      by (rule withTransaction_jobs) (auto simp: Let_def Cons 1 two)
  qed
qed

lemma cancel_refines:
  assumes "\<And>j. keeps_jobs (onCanceled j)"
  shows "rows_step ck (d_jobs s) (d_jobs (snd (cancelQueuedJob ck i onCanceled s)))"
proof -
  have "job_step ck r (cancel_update ck r)" if "j_status r = Queued" for r
    using that by (intro cancel) (simp_all add: cancel_update_def same_job_def no_lease_def)
  then have "rows_step ck (d_jobs s)
      (update_where (\<lambda>r. j_id r = i \<and> j_status r = Queued) (cancel_update ck) (d_jobs s))"
    by (intro rows_step_update) simp
  with assms show ?thesis
    unfolding cancelQueuedJob_def
    by (intro withTransaction_jobs)
      (auto simp: Let_def and_then_Inr_iff keeps_jobs_def rows_step_refl split: list.splits)
qed

lemma recover_refines:
  assumes "jobs.keys_unique (d_jobs s)"
  shows "rows_step ck (d_jobs s) (d_jobs (snd (recoverExpiredJobs ck locked s)))"
proof -
  have "job_step ck r (recovered ck r)"
    if r: "r \<in> set (d_jobs s)" "j_id r \<in> j_id ` set (expired_jobs ck locked s)" for r
  proof -
    obtain q where q: "q \<in> set (d_jobs s)" "recoverable ck locked q" "j_id q = j_id r"
      using r(2) expired_jobs_sub [of ck locked s] by auto
    then have "q = r" using jobs.same_key_same_row assms r(1) by blast
    with q have "j_status r = Running" "lease_expired ck r" by (auto simp: recoverable_def)
    then show ?thesis
      by (cases "auto_retryable r")
        (auto simp: recovered_def requeue_lost_def fail_update_def same_job_def no_lease_def
          intro: requeue lose)
  qed
  then show ?thesis
    using recoverExpiredJobs_jobs [of s ck locked] assms
    by (auto simp: jobs.keys_unique_def intro: rows_step_update)
qed

subsection \<open>Enqueueing and retry\<close>

lemma lockJobHosts_jobs: "lockJobHostsForEnqueue a s = Inr s' \<Longrightarrow> d_jobs s' = d_jobs s"
  by (auto simp: lockJobHostsForEnqueue_def Let_def split: if_splits)

lemma findActive_jobs: "findActiveSingleFlightJob X a k rv s = Inr (row, s') \<Longrightarrow> d_jobs s' = d_jobs s"
  by (auto simp: findActiveSingleFlightJob_def Let_def and_then_Inr_iff split: option.splits)

lemma jobInsert_jobs:
  assumes "jobInsert ck newId a u k s = Inr (row, s')"
  shows "d_jobs s' = d_jobs s
    \<or> (new_row (d_jobs s) (new_job ck newId a u k) \<and> row = new_job ck newId a u k
       \<and> d_jobs s' = d_jobs s @ [row])"
  using assms
  by (auto simp: jobInsert_def Let_def new_row_def new_job_def no_lease_def split: option.splits if_splits)

lemma enqueue_in_transaction_jobs:
  assumes "enqueueJobInTransaction X ck newId a u k s = Inr (job, s')"
  shows "table_step ck (d_jobs s) (d_jobs s')"
proof -
  from assms obtain p s1 act s2 where p: "x_parseAction X a = Inr p"
    and "lockJobHostsForEnqueue p s = Inr s1" "findActiveSingleFlightJob X p k None s1 = Inr (act, s2)"
    and rest: "(case act of Some row \<Rightarrow> Inr (mapJob row, s2)
       | None \<Rightarrow> and_then (jobInsert ck newId p u k s2) (\<lambda>(row, s3).
           Inr (sanitizeOperationJobForRead X (mapJob row), s3))) = Inr (job, s')"
    by (auto simp: enqueueJobInTransaction_def and_then_Inr_iff)
  then have "d_jobs s2 = d_jobs s" by (simp add: lockJobHosts_jobs findActive_jobs)
  with rest show ?thesis
    by (auto simp: and_then_Inr_iff table_step_refl dest!: jobInsert_jobs intro: table_step_append
        split: option.splits)
qed

lemma enqueue_refines: "table_step ck (d_jobs s) (d_jobs (snd (enqueueJob X ck newId a u k s)))"
proof -
  have "table_step ck (d_jobs s)
      (d_jobs (snd (withTransaction (enqueueJobInTransaction X ck newId p u k) s)))" for p
    using enqueue_in_transaction_jobs [of X ck newId p u k "s\<lparr>d_locks := []\<rparr>"]
    by (auto simp: withTransaction_def table_step_refl split: sum.split)
  then show ?thesis
    by (auto simp: enqueueJob_def table_step_refl split: sum.split prod.split) (metis snd_conv)+
qed

lemma job_of_SomeD: "job_of i s = Some r \<Longrightarrow> r \<in> set (d_jobs s) \<and> j_id r = i"
  unfolding job_of_def by (drule first_row_SomeD) simp

lemma requeue_and_notify_jobs:
  assumes "requeue_and_notify ck i u cb row s = Inr (x, s')" and "\<And>j k. keeps_jobs (cb j k)"
    and "jobs.keys_unique (d_jobs s)" and "job_of i s = Some row" and "canRetryJob row"
  shows "rows_step ck (d_jobs s) (d_jobs s')"
proof -
  have "job_step ck r (requeue_update ck u r)" if "r \<in> set (d_jobs s)" "requeueable i r" for r
  proof -
    have "r = row"
      using jobs.same_key_same_row [of "d_jobs s" r row] assms(3) that job_of_SomeD [OF assms(4)]
      by (simp add: requeueable_def)
    with assms(5) show ?thesis
      by (intro retry) (simp_all add: requeue_update_def same_job_def no_lease_def)
  qed
  then have "rows_step ck (d_jobs s) (update_where (requeueable i) (requeue_update ck u) (d_jobs s))"
    by (rule rows_step_update)
  with assms(1,2) show ?thesis
    by (auto simp: requeue_and_notify_def requeueJob_def and_then_Inr_iff keeps_jobs_def
        split: option.splits)
qed

lemma lockDeploymentRetryTargets_jobs:
  "lockDeploymentRetryTargets a an s = Inr s' \<Longrightarrow> d_jobs s' = d_jobs s"
  by (auto simp: lockDeploymentRetryTargets_def Let_def split: if_splits list.splits)

lemma job_of_cong: "d_jobs s' = d_jobs s \<Longrightarrow> job_of i s' = job_of i s"
  by (simp add: job_of_def)

lemma retry_locked_jobs:
  assumes "retry_locked_deployment X ck i u cb a s = Inr (x, s')" and "\<And>j k. keeps_jobs (cb j k)"
    and "jobs.keys_unique (d_jobs s)"
  shows "rows_step ck (d_jobs s) (d_jobs s')"
  using assms requeue_and_notify_jobs [OF _ assms(2,3)]
  by (auto simp: retry_locked_deployment_def and_then_Inr_iff rows_step_refl
      split: option.splits if_splits)

lemma retry_admitted_jobs:
  assumes "retry_admitted_deployment X ck i u cb a an s = Inr (x, s')" and "\<And>j k. keeps_jobs (cb j k)"
    and "jobs.keys_unique (d_jobs s)"
  shows "rows_step ck (d_jobs s) (d_jobs s')"
proof -
  from assms(1) obtain s1 act s2 where "lockDeploymentRetryTargets a an s = Inr s1"
    and "findActiveSingleFlightJob X a None (Some i) s1 = Inr (act, s2)"
    and last: "retry_locked_deployment X ck i u cb a s2 = Inr (x, s')"
    by (auto simp: retry_admitted_deployment_def and_then_Inr_iff)
  then have "d_jobs s2 = d_jobs s" by (simp add: lockDeploymentRetryTargets_jobs findActive_jobs)
  with retry_locked_jobs [OF last assms(2)] assms(3) show ?thesis by simp
qed

lemma retry_deployment_jobs:
  assumes "retry_deployment X ck reads i u cb pre a s = Inr (x, s')" and "\<And>j k. keeps_jobs (cb j k)"
    and "jobs.keys_unique (d_jobs s)"
  shows "rows_step ck (d_jobs s) (d_jobs s')"
proof -
  from assms(1) obtain s1 where s1: "lockJobHostsForEnqueue a s = Inr s1"
    by (auto simp: retry_deployment_def Let_def and_then_Inr_iff)
  note j1 = lockJobHosts_jobs [OF s1]
  show ?thesis
  proof (cases "analysis_of a s1")
    case None
    with assms(1) s1 j1 show ?thesis
      by (auto simp: retry_deployment_def Let_def and_then_Inr_iff rows_step_refl)
  next
    case (Some now)
    show ?thesis
    proof (cases "\<not> deploymentAnalysisAllowsRetry ck a (Some now)
        \<or> \<not> same_definition a (analysis_of a (rd_analysis reads)) (Some now)")
      case True
      with assms(1) s1 j1 Some show ?thesis
        by (auto simp: retry_deployment_def Let_def and_then_Inr_iff rows_step_refl)
    next
      case False
      with assms(1) s1 Some have "retry_admitted_deployment X ck i u cb a now s1 = Inr (x, s')"
        by (auto simp: retry_deployment_def Let_def and_then_Inr_iff)
      from retry_admitted_jobs [OF this assms(2)] j1 assms(3) show ?thesis by simp
    qed
  qed
qed

lemma retry_other_jobs:
  assumes "retry_other X ck i u cb a s = Inr (x, s')" and "\<And>j k. keeps_jobs (cb j k)"
    and "jobs.keys_unique (d_jobs s)"
  shows "rows_step ck (d_jobs s) (d_jobs s')"
proof -
  have requeue: "rows_step ck (d_jobs s) (d_jobs s')"
    if "d_jobs s1 = d_jobs s" "job_of i s1 = Some row" "canRetryJob row"
      "findActiveSingleFlightJob X again None None s1 = Inr (act, s2)"
      "requeue_and_notify ck i u cb row s2 = Inr (x, s')" for s1 row again act s2
  proof -
    have "d_jobs s2 = d_jobs s" "job_of i s2 = Some row"
      using that(1,2) findActive_jobs [OF that(4)] job_of_cong [OF findActive_jobs [OF that(4)]] by simp_all
    with requeue_and_notify_jobs [OF that(5) assms(2)] that(3) assms(3) show ?thesis by simp
  qed
  from assms(1) obtain s1 where s1: "lockJobHostsForEnqueue a s = Inr s1"
    and rest: "(case job_of i s1 of None \<Rightarrow> Inr (retried None None, s1)
       | Some row \<Rightarrow>
           if \<not> canRetryJob row then Inr (retried (Some (mapJob row)) None, s1)
           else and_then (retry_action X row) (\<lambda>again.
             if \<not> lockRetryAdmissionResource again s1
             then Inr (retried (Some (mapJob row)) None, s1)
             else and_then (findActiveSingleFlightJob X again None None s1) (\<lambda>(_, s2).
               requeue_and_notify ck i u cb row s2))) = Inr (x, s')"
    by (auto simp: retry_other_def and_then_Inr_iff)
  note j1 = lockJobHosts_jobs [OF s1]
  show ?thesis
  proof (cases "job_of i s1")
    case None
    with rest j1 show ?thesis by (simp add: rows_step_refl)
  next
    case (Some row)
    with rest j1 show ?thesis
      by (auto simp: and_then_Inr_iff rows_step_refl intro: requeue [OF j1 Some] split: if_splits)
  qed
qed

lemma retry_refines:
  assumes "\<And>j k. keeps_jobs (cb j k)" and "jobs.keys_unique (d_jobs s)"
  shows "rows_step ck (d_jobs s) (d_jobs (snd (retryJob X ck reads i u cb s)))"
proof -
  have "rows_step ck (d_jobs s)
      (d_jobs (snd (withTransaction (retry_deployment X ck reads i u cb pre a) s)))" for pre a
    by (rule withTransaction_jobs) (use retry_deployment_jobs [OF _ assms(1)] assms(2) in fastforce)
  moreover have "rows_step ck (d_jobs s)
      (d_jobs (snd (withTransaction (retry_other X ck i u cb a) s)))" for a
    by (rule withTransaction_jobs) (use retry_other_jobs [OF _ assms(1)] assms(2) in fastforce)
  ultimately show ?thesis
    by (simp add: retryJob_def rows_step_refl split: option.split sum.split)
qed

subsection \<open>Reconciliation of handoffs\<close>

text \<open>Every row takes a step, and only rows with one of the given identifiers change.\<close>

definition moves_only :: "clock \<Rightarrow> uuid set \<Rightarrow> job_row list \<Rightarrow> job_row list \<Rightarrow> bool" where
  "moves_only ck ids = list_all2 (\<lambda>q q'. q' = q \<or> (j_id q \<in> ids \<and> job_step ck q q'))"

lemma moves_only_refl: "moves_only ck ids rows rows"
  by (simp add: moves_only_def list_all2_refl)

lemma moves_only_update:
  assumes "\<And>r. P r \<Longrightarrow> j_id r = i \<and> job_step ck r (f r)"
  shows "moves_only ck {i} rows (update_where P f rows)"
  unfolding moves_only_def update_where_def list_all2_map2 using assms by (intro list_all2_refl) auto

lemma moves_only_trans:
  assumes "moves_only ck ids a b" and "moves_only ck {i} b c" and "i \<notin> ids"
  shows "moves_only ck (insert i ids) a c"
  using assms(1,2) unfolding moves_only_def
proof (rule list_all2_trans [rotated])
  fix x y z
  assume "y = x \<or> j_id x \<in> ids \<and> job_step ck x y" and "z = y \<or> j_id y \<in> {i} \<and> job_step ck y z"
  then show "z = x \<or> j_id x \<in> insert i ids \<and> job_step ck x z"
    using assms(3) by (auto dest: job_step_same simp: same_job_def)
qed

lemma moves_only_table: "moves_only ck ids a b \<Longrightarrow> rows_step ck a b"
  unfolding rows_step_def moves_only_def by (auto elim: list_all2_mono)

lemma settle_where_moves: 
  "st = Completed \<or> st = Failed
   \<Longrightarrow> moves_only ck {i} (d_jobs s) (d_jobs (snd (settle_where ck i st v e s)))"
  by (auto simp: settle_where_def Let_def moves_only_refl settle_handoff_def same_job_def no_lease_def
      intro!: moves_only_update settle split: sum.split)

lemma reconcile_one_moves:
  "moves_only ck {j_id row} (d_jobs s) (d_jobs (snd (reconcile_one X ck probe (c, s) row)))"
proof -
  have f: "moves_only ck {j_id row} (d_jobs s) (d_jobs (snd (fail_and_count ck row m c s)))" for m
    using settle_where_moves [of Failed]
    by (auto simp: fail_and_count_def failUnreconciledSelfUpdate_def Let_def split: prod.split) (metis snd_conv)
  have w: "moves_only ck {j_id row} (d_jobs s) (d_jobs (snd (wait_and_count ck row c s)))"
    by (auto simp: wait_and_count_def refreshBridgeCompatibilityHandoffLease_def refresh_handoff_def
        same_job_def intro!: moves_only_update touch)
  have d: "moves_only ck {j_id row} (d_jobs s) (d_jobs (snd (finalize_and_count ck row o' c s)))" for o'
    using settle_where_moves [of "if so_passed o' then Completed else Failed" ck "j_id row" s
        "outcome_json ck o'" "outcome_error o'"]
    by (simp add: finalize_and_count_def finalizePendingSelfUpdate_def Let_def split: prod.split if_splits)
      (metis snd_conv)?
  show ?thesis
    using f w d by (simp add: reconcile_one_def Let_def split: sum.split outcome_probe.split)
qed

lemma reconcile_fold_moves:
  assumes "distinct (map j_id rows)" and "j_id ` set rows \<inter> ids = {}"
    and "moves_only ck ids (d_jobs s0) (d_jobs s)"
  shows "rows_step ck (d_jobs s0) (d_jobs (snd (foldl (reconcile_one X ck probe) (c, s) rows)))"
  using assms
proof (induction rows arbitrary: c s ids)
  case Nil
  then show ?case by (simp add: moves_only_table)
next
  case (Cons row rows)
  obtain c1 s1 where one: "reconcile_one X ck probe (c, s) row = (c1, s1)"
    by (cases "reconcile_one X ck probe (c, s) row")
  then have "moves_only ck (insert (j_id row) ids) (d_jobs s0) (d_jobs s1)"
    using moves_only_trans [OF Cons.prems(3) reconcile_one_moves [of ck row s X probe c, unfolded one]]
      Cons.prems(2) by simp
  with Cons.IH [of "insert (j_id row) ids" s1 c1] Cons.prems(1,2) one show ?case by simp
qed

lemma reconcile_refines:
  assumes "jobs.keys_unique (d_jobs s)"
  shows "rows_step ck (d_jobs s) (d_jobs (snd (reconcileSelfUpdateHandoffs X ck probe s)))"
proof -
  have "distinct (map j_id (pending_handoffs s))"
    using assms unfolding pending_handoffs_def take_map [symmetric] jobs.keys_unique_def
    by (intro distinct_take) (simp add: distinct_sort_key_map distinct_map_filter)
  then show ?thesis
    unfolding reconcileSelfUpdateHandoffs_def
    by (rule reconcile_fold_moves [of _ "{}"]) (simp_all add: moves_only_refl)
qed

lemmas operation_refines = claim_refines renew_refines progress_refines mark_refines
  handoff_refines reconcile_refines dispatch_refines terminal_refines complete_refines fail_refines
  cancel_refines recover_refines retry_refines rows_step_refl

text \<open>Only the enqueue adds a row.\<close>

lemma operation_cases:
  assumes "queue_op X ck s s'" and "jobs.keys_unique (d_jobs s)"
  shows "rows_step ck (d_jobs s) (d_jobs s') \<or> (\<exists>n a u k. s' = snd (enqueueJob X ck n a u k s))"
  using assms
proof (induction rule: queue_op.induct)
  case (op_enqueue newId a createdBy key)
  then show ?case by blast
qed (simp_all add: operation_refines touch_result rows_step_update)

lemma step_refines:
  assumes "queue_op X ck s s'" and "jobs.keys_unique (d_jobs s)"
  shows "table_step ck (d_jobs s) (d_jobs s')"
  using operation_cases [OF assms] by (auto intro: rows_table enqueue_refines)

section \<open>Invariants\<close>

lemma job_step_row_ok: "job_step ck r r' \<Longrightarrow> row_ok r \<Longrightarrow> row_ok r'"
  by (induction rule: job_step.induct)
    (auto simp: row_ok_def no_lease_def lease_live_def auto_retryable_def canRetryJob_def
      awaiting_outcome_def)

lemma table_step_unique:
  assumes "table_step ck rows rows'" and "jobs.keys_unique rows"
  shows "jobs.keys_unique rows'"
proof -
  have "map j_id moved = map j_id rows" if "rows_step ck rows moved" for moved
    using that unfolding rows_step_def by (induction rule: list_all2_induct) (auto dest: job_step_same simp: same_job_def)
  with assms show ?thesis
    unfolding table_step_def jobs.keys_unique_def new_row_def
    by (auto simp del: set_map simp: set_map [symmetric])
qed

lemma table_step_row_ok:
  assumes "table_step ck rows rows'" and "list_all row_ok rows"
  shows "list_all row_ok rows'"
proof -
  have "list_all row_ok moved" if "rows_step ck rows moved" for moved
    using that assms(2) unfolding rows_step_def by (induction rule: list_all2_induct) (auto dest: job_step_row_ok)
  moreover have "row_ok r" if "new_row rows r" for r
    using that by (auto simp: new_row_def row_ok_def no_lease_def MAX_AUTO_ATTEMPTS_def)
  ultimately show ?thesis using assms(1) unfolding table_step_def by auto
qed

lemma queue_op_ok: "queue_op X ck s s' \<Longrightarrow> queue_ok s \<Longrightarrow> queue_ok s'"
  using step_refines table_step_unique table_step_row_ok unfolding queue_ok_def by blast

lemma queue_step_ok: "queue_step X a b \<Longrightarrow> queue_ok (snd a) \<Longrightarrow> queue_ok (snd b)"
  by (auto elim!: queue_stepE dest: queue_op_ok)

interpretation queue: transition_system "queue_step X" for X .

lemma run_ok: "queue.run X a b \<Longrightarrow> queue_ok (snd a) \<Longrightarrow> queue_ok (snd b)"
  by (rule queue.run_invariant [where I = "\<lambda>a. queue_ok (snd a)"]) (auto intro: queue_step_ok)

text \<open>What a step does to the row of one identifier.\<close>

lemma table_step_row:
  assumes "table_step ck rows rows'" and "r \<in> set rows"
  shows "\<exists>r'\<in>set rows'. job_step ck r r'"
proof -
  obtain moved where m: "rows_step ck rows moved" "set moved \<subseteq> set rows'"
    using assms(1) unfolding table_step_def by (metis Un_upper1 order_refl set_append)
  obtain n where "n < length rows" "rows ! n = r" using assms(2) by (auto simp: in_set_conv_nth)
  with m show ?thesis by (auto simp: rows_step_def list_all2_conv_all_nth intro!: bexI [of _ "moved ! n"])
qed

lemma run_row_invariant:
  assumes "queue.run X a b" and "queue_ok (snd a)" and "\<exists>r\<in>set (d_jobs (snd a)). I (fst a) r"
    and step: "\<And>ck t r r'. I t r \<Longrightarrow> clock_at t ck \<Longrightarrow> job_step ck r r' \<Longrightarrow> I (ck_clock ck) r'"
  shows "\<exists>r\<in>set (d_jobs (snd b)). I (fst b) r"
proof -
  let ?J = "\<lambda>a. queue_ok (snd a) \<and> (\<exists>r\<in>set (d_jobs (snd a)). I (fst a) r)"
  have "?J b"
  proof (rule queue.run_invariant [where I = ?J, OF assms(1)])
    show "?J a" using assms(2,3) by simp
  next
    fix c d
    assume c: "?J c" and "queue_step X c d"
    then obtain t ck s s' where cd: "c = (t, s)" "d = (ck_clock ck, s')" "clock_at t ck" "queue_op X ck s s'"
      by (auto elim: queue_stepE)
    then have "table_step ck (d_jobs s) (d_jobs s')"
      using c step_refines by (auto simp: queue_ok_def)
    with c cd show "?J d"
      using table_step_row [of ck "d_jobs s" "d_jobs s'"] step queue_op_ok by fastforce
  qed
  then show ?thesis by simp
qed

section \<open>Fencing\<close>

text \<open>The lease is of an attempt already made, and is not active at the given time or later.\<close>

definition lease_gone :: "uuid \<Rightarrow> job_lease \<Rightarrow> timestamp \<Rightarrow> job_row \<Rightarrow> bool" where
  "lease_gone i l t r \<longleftrightarrow> j_id r = i \<and> lease_attempt l \<le> j_attempt_count r
     \<and> (\<forall>ck. t \<le> ck_clock ck \<longrightarrow> \<not> leasePredicate ck i l r)"

lemma lease_gone_step:
  assumes "lease_gone i l t r" and "clock_at t ck" and "job_step ck r r'"
  shows "lease_gone i l (ck_clock ck) r'"
  using assms(3,1,2)
proof (induction rule: job_step.induct)
  case (renew r r')
  then have "\<not> leasePredicate ck i l r" by (auto simp: lease_gone_def clock_at_def)
  with renew have "j_attempt_count r \<noteq> lease_attempt l \<or> j_lease_owner r \<noteq> Some (lease_worker l)"
    by (auto simp: leasePredicate_def lease_live_def lease_gone_def)
  with renew show ?case by (auto simp: lease_gone_def same_job_def leasePredicate_def)
qed (auto simp: lease_gone_def same_job_def leasePredicate_def no_lease_def clock_at_def split: option.splits)

lemma lease_gone_not_held:
  assumes "queue_ok s" and "r \<in> set (d_jobs s)" and "lease_gone i l t r" and "t \<le> ck_clock ck"
  shows "\<not> lease_held ck i l s"
proof
  assume "lease_held ck i l s"
  then obtain q where "q \<in> set (d_jobs s)" "leasePredicate ck i l q" by (auto simp: lease_held_iff)
  moreover have "q = r"
    using jobs.same_key_same_row [of "d_jobs s" q r] assms calculation leasePredicateD(1)
    by (auto simp: queue_ok_def lease_gone_def)
  ultimately show False using assms(3,4) by (auto simp: lease_gone_def)
qed

lemma lease_gone_intro:
  assumes "\<not> lease_held \<lparr>ck_now = n, ck_clock = t\<rparr> i l s" and "r \<in> set (d_jobs s)" and "j_id r = i"
    and "lease_attempt l \<le> j_attempt_count r"
  shows "lease_gone i l t r"
  using assms by (auto simp: lease_gone_def lease_held_iff leasePredicate_def split: option.splits)

lemma lease_gone_run:
  assumes "queue.run X (t, s) (t', s')" and "queue_ok s" and "r \<in> set (d_jobs s)" and "lease_gone i l t r"
    and "t' \<le> ck_clock ck"
  shows "\<not> lease_held ck i l s'"
proof -
  obtain r' where "r' \<in> set (d_jobs s')" "lease_gone i l t' r'"
    using run_row_invariant [OF assms(1), of "lease_gone i l"] assms lease_gone_step by auto
  moreover have "queue_ok s'" using run_ok [OF assms(1)] assms(2) by simp
  ultimately show ?thesis using assms(5) lease_gone_not_held by blast
qed

text \<open>
  The contract of a write that is fenced by a lease: without the lease it is refused and
  changes nothing. A worker that lost its lease can then never write through it again.
\<close>

locale fenced_operation =
  fixes op :: "clock \<Rightarrow> uuid \<Rightarrow> job_lease \<Rightarrow> db \<Rightarrow> 'a \<times> db" and accepted :: "'a \<Rightarrow> bool"
  assumes refused: "\<not> lease_held ck i l s \<Longrightarrow> \<not> accepted (fst (op ck i l s))"
    and unchanged: "\<not> lease_held ck i l s \<Longrightarrow> snd (op ck i l s) = s"
begin

lemma accepted_needs_lease: "accepted (fst (op ck i l s)) \<Longrightarrow> lease_held ck i l s"
  using refused by blast

lemma lost_worker_refused:
  assumes "queue.run X (t, s) (t', s')" and "queue_ok s" and "r \<in> set (d_jobs s)" and "lease_gone i l t r"
    and "t' \<le> ck_clock ck"
  shows "\<not> accepted (fst (op ck i l s')) \<and> snd (op ck i l s') = s'"
  using lease_gone_run [OF assms] refused unchanged by blast

end

lemma not_held_locks: "\<not> lease_held ck i l s \<Longrightarrow> filter (leasePredicate ck i l) (d_jobs (s\<lparr>d_locks := k\<rparr>)) = []"
  using not_held_filter by simp

lemma not_held_no_update: "\<not> lease_held ck i l s \<Longrightarrow> update_where (leasePredicate ck i l) f (d_jobs s) = d_jobs s"
  by (rule update_where_none) (simp add: lease_held_iff)

lemma db_locks_id [simp]: "s\<lparr>d_locks := k, d_locks := d_locks s\<rparr> = s"
  by simp

lemma not_held_update_jobs:
  "\<not> lease_held ck i l s \<Longrightarrow> update_jobs (\<lambda>r. leasePredicate ck i l r \<and> Q r) f s = s"
  "\<not> lease_held ck i l s \<Longrightarrow> update_jobs (leasePredicate ck i l) f s = s"
  by (rule update_jobs_none, simp add: lease_held_iff)+

lemma leased_transaction_lost:
  "\<not> lease_held ck i l s \<Longrightarrow> withActiveJobLeaseTransaction ck i l cb s = (Inl (jobLeaseLost i), s)"
  by (simp add: withActiveJobLeaseTransaction_def withTransaction_def not_held_filter)

interpretation renew: fenced_operation renewJobLease "\<lambda>b. b"
  by unfold_locales (simp_all add: renewJobLease_def not_held_filter not_held_update_jobs)

interpretation complete: fenced_operation "\<lambda>ck i l s. completeJob X ck i v l s" "\<lambda>r. r = Inr True" for X v
  by unfold_locales (simp_all add: completeJob_def withTransaction_def Let_def not_held_filter
      not_held_update_jobs update_jobs_def not_held_no_update)

interpretation fail: fenced_operation "\<lambda>ck i l s. failJob X ck i m l s" "\<lambda>r. r = Inr True" for X m
  by unfold_locales (simp_all add: failJob_def withTransaction_def Let_def not_held_filter)

interpretation progress: fenced_operation "\<lambda>ck i l s. updateJobProgress X ck i steps l s" "\<lambda>r. \<not> isl r" for X steps
  by unfold_locales (auto simp: updateJobProgress_def Let_def not_held_filter split: sum.split)

interpretation mark: fenced_operation "\<lambda>ck i l s. markJobProgressStep X ck i type step d l s" "\<lambda>r. \<not> isl r"
  for X type step d
  by unfold_locales
    (auto simp: markJobProgressStep_def progress.unchanged dest: progress.refused split: sum.split)

interpretation handoff: fenced_operation "\<lambda>ck i l s. markSelfUpdateHandoffPending ck i h l s"
    "\<lambda>r. r = Inr True" for h
  by unfold_locales
    (auto simp: markSelfUpdateHandoffPending_def Let_def not_held_update_jobs lease_held_iff
      filter_empty_conv split: sum.split)

interpretation leased: fenced_operation "\<lambda>ck i l s. withActiveJobLeaseTransaction ck i l cb s" "\<lambda>r. \<not> isl r" for cb
  by unfold_locales (simp_all add: leased_transaction_lost)

interpretation dispatch: fenced_operation "\<lambda>ck i l s.
    (case recordRemoteMutationDispatch X ck (fence\<lparr>ef_lease := l\<rparr>) (ctx\<lparr>mc_jobId := i\<rparr>) tr timeout s of
       (r, _, _, s') \<Rightarrow> (r, s'))" "\<lambda>r. \<not> isl r" for X fence ctx tr timeout
  by unfold_locales (simp_all add: recordRemoteMutationDispatch_def Let_def leased_transaction_lost)

lemma one_step: "queue_op X ck s s' \<Longrightarrow> clock_at t ck \<Longrightarrow> queue.run X (t, s) (ck_clock ck, s')"
  by (rule queue.run.step [OF queue.run.refl]) (rule queue_step.intros)

lemmas queue_sample_simps = sample_simps clock_at_def queue_ok_def jobs.keys_unique_def row_ok_def
  no_lease_def MAX_AUTO_ATTEMPTS_def

section \<open>Properties of the queue\<close>

text \<open>
  C3: Whatever operations the workers and the API run, in any order, with arbitrary changes to the other
  tables in between, every job keeps the shape of the state machine: identifiers stay unique, a job is
  attempted at most three times, a queued job has an attempt left, and a lease exists only on a
  running job.
\<close>
theorem queue_invariant:
  assumes "queue.run X (t, s) (t', s')" and "queue_ok s"
  shows "queue_ok s'"
  using run_ok [OF assms(1)] assms(2) by simp

theorem queue_invariant_witness:
  "queue_ok (snd (claimNextJob (clock_of 0) [] ''w1'' (jobs_db [sample_job ''host.check'' Queued])))"
  by (rule queue_invariant [OF one_step [where X = sample_externs and t = 0 and ck = "clock_of 0",
        OF op_claim]])
    (simp_all add: queue_sample_simps)

text \<open>
  A lease that is not active at some time, of an attempt that was made, is never active again: the
  attempt number fences off a worker that was paused while its job was recovered.
\<close>
theorem lost_lease_stays_lost:
  assumes "queue.run X (t, s) (t', s')" and "queue_ok s"
    and "r \<in> set (d_jobs s)" and "j_id r = i" and "lease_attempt l \<le> j_attempt_count r"
    and "\<not> lease_held \<lparr>ck_now = n, ck_clock = t\<rparr> i l s" and "t' \<le> ck_clock ck"
  shows "\<not> lease_held ck i l s'"
  using lease_gone_run [OF assms(1,2,3) lease_gone_intro [OF assms(6,3,4,5)] assms(7)] .

theorem lost_lease_stays_lost_witness:
  "\<not> lease_held (clock_of (seconds 70)) ''job-1'' first_lease
      (snd (recoverExpiredJobs (clock_of (seconds 61)) [] (jobs_db [leased_job ''host.check''])))"
  by (rule lost_lease_stays_lost [OF one_step [where X = sample_externs and t = "seconds 60"
          and ck = "clock_of (seconds 61)", OF op_recover], where r = "leased_job ''host.check''" and n = 0])
    (simp_all add: queue_sample_simps)

text \<open>
  C2: A worker whose lease is lost cannot write any more. Whatever happened since, renewal,
  completion, failure, progress, self-update handoff and the dispatch of a remote mutation are
  refused and leave the database as it is.
\<close>
theorem lost_worker_cannot_write:
  assumes "queue.run X (t, s) (t', s')" and "queue_ok s"
    and "r \<in> set (d_jobs s)" and "j_id r = i" and "lease_attempt l \<le> j_attempt_count r"
    and "\<not> lease_held \<lparr>ck_now = n, ck_clock = t\<rparr> i l s" and "t' \<le> ck_clock ck"
  shows "renewJobLease ck i l s' = (False, s')
    \<and> completeJob X ck i v l s' = (Inr False, s')
    \<and> failJob X ck i m l s' = (Inr False, s')
    \<and> snd (updateJobProgress X ck i steps l s') = s'
    \<and> snd (markSelfUpdateHandoffPending ck i h l s') = s'
    \<and> withActiveJobLeaseTransaction ck i l cb s' = (Inl (jobLeaseLost i), s')
    \<and> (case recordRemoteMutationDispatch X ck (fence\<lparr>ef_lease := l\<rparr>) (ctx\<lparr>mc_jobId := i\<rparr>) tr timeout s'
       of (res, _, ctx', s'') \<Rightarrow> isl res \<and> \<not> mc_dispatched ctx' \<and> s'' = s')"
proof -
  note lost = assms(1,2,3) lease_gone_intro [OF assms(6,3,4,5)] assms(7)
  have gone: "\<not> lease_held ck i l s'" by (rule lease_gone_run [OF lost])
  have "withActiveJobLeaseTransaction ck i l cb' s' = (Inl (jobLeaseLost i), s')" for cb' :: "db \<Rightarrow> ('x \<times> db) result"
    by (rule leased_transaction_lost [OF gone])
  moreover have "completeJob X ck i v l s' = (Inr False, s')" "failJob X ck i m l s' = (Inr False, s')"
    using gone by (simp_all add: completeJob_def failJob_def withTransaction_def Let_def not_held_filter
        update_jobs_def not_held_no_update)
  moreover have "renewJobLease ck i l s' = (False, s')"
    using renew.lost_worker_refused [OF lost] by (simp add: prod_eq_iff)
  ultimately show ?thesis
    using progress.lost_worker_refused [OF lost] handoff.lost_worker_refused [OF lost]
    by (simp add: recordRemoteMutationDispatch_def Let_def leased_transaction_lost [OF gone]
        dispatch_context_def)
qed

theorem lost_worker_cannot_write_witness:
  "completeJob sample_externs (clock_of (seconds 70)) ''job-1'' [] first_lease (jobs_db [leased_job ''host.check''])
     = (Inr False, jobs_db [leased_job ''host.check''])"
  by (rule lost_worker_cannot_write [where t = "seconds 60" and t' = "seconds 60"
        and s = "jobs_db [leased_job ''host.check'']" and r = "leased_job ''host.check''" and n = 0,
        THEN conjunct2, THEN conjunct1])
    (simp_all add: queue_sample_simps queue.run.refl)

text \<open>
  At most one lease of a job is active: two workers that both hold an active lease on it are the
  same worker in the same attempt, even if they read different clocks.
\<close>
theorem lease_exclusive:
  assumes "queue_ok s" and "lease_held ck i l s" and "lease_held ck' i l' s"
  shows "l = l'"
proof -
  obtain r r' where r: "r \<in> set (d_jobs s)" "leasePredicate ck i l r"
    and r': "r' \<in> set (d_jobs s)" "leasePredicate ck' i l' r'"
    using assms(2,3) by (auto simp: lease_held_iff)
  then have "r = r'"
    using jobs.same_key_same_row [of "d_jobs s" r r'] assms(1) leasePredicateD(1)
    by (auto simp: queue_ok_def)
  with leasePredicateD(3,4) [OF r(2)] leasePredicateD(3,4) [OF r'(2)] show ?thesis by simp
qed

theorem lease_exclusive_witness:
  "lease_held (clock_of 0) ''job-1'' first_lease (jobs_db [leased_job ''host.check''])
   \<and> lease_held (clock_of 1) ''job-1'' \<lparr>lease_worker = ''w1'', lease_attempt = 1\<rparr> (jobs_db [leased_job ''host.check''])
   \<and> first_lease = \<lparr>lease_worker = ''w1'', lease_attempt = 1\<rparr>"
proof -
  have ok: "queue_ok (jobs_db [leased_job ''host.check''])"
    and held: "lease_held (clock_of 0) ''job-1'' first_lease (jobs_db [leased_job ''host.check''])"
      "lease_held (clock_of 1) ''job-1'' \<lparr>lease_worker = ''w1'', lease_attempt = 1\<rparr>
        (jobs_db [leased_job ''host.check''])"
    by (simp_all add: queue_sample_simps)
  from lease_exclusive [OF ok held] held show ?thesis by blast
qed

text \<open>
  A completed job stays completed: no operation of the queue runs it again.
\<close>
theorem completed_is_final:
  assumes "queue.run X (t, s) (t', s')" and "queue_ok s"
    and "r \<in> set (d_jobs s)" and "j_status r = Completed"
  shows "\<exists>r'\<in>set (d_jobs s'). same_job r r' \<and> j_status r' = Completed"
proof -
  have "\<exists>r'\<in>set (d_jobs (snd (t', s'))). same_job r r' \<and> j_status r' = Completed"
    by (rule run_row_invariant [OF assms(1), of "\<lambda>_ r'. same_job r r' \<and> j_status r' = Completed"])
      (use assms in \<open>auto simp: same_job_def lease_live_def canRetryJob_def awaiting_outcome_def
         elim!: job_stepE\<close>)
  then show ?thesis by simp
qed

theorem completed_is_final_witness:
  "\<exists>r'\<in>set (d_jobs (snd (recoverExpiredJobs (clock_of 9) [] (jobs_db [sample_job ''host.check'' Completed])))).
     same_job (sample_job ''host.check'' Completed) r' \<and> j_status r' = Completed"
  by (rule completed_is_final [OF one_step [where X = sample_externs and t = 0
          and ck = "clock_of 9", OF op_recover]])
    (simp_all add: queue_sample_simps)

lemma ambiguous_not_retryable:
  assumes "isAmbiguousRemoteOutcome r" and "j_type r \<notin> set AUTO_RETRY_JOB_TYPES"
  shows "\<not> canRetryJob r"
  using assms
  by (auto simp: canRetryJob_def isAmbiguousRemoteOutcome_def MANUAL_RETRY_JOB_TYPES_def
      NON_IDEMPOTENT_WORKER_LOSS_RETRY_TYPES_def)

text \<open>
  C5: A failed job whose remote outcome is unknown is never replayed: unless its type is one of the
  five that are retried automatically, no operation of the queue, a manual retry included, queues it
  again, and its error keeps saying that the outcome is unknown.
\<close>
theorem unknown_outcome_never_replayed:
  assumes "queue.run X (t, s) (t', s')" and "queue_ok s"
    and "r \<in> set (d_jobs s)" and "isAmbiguousRemoteOutcome r" and "j_type r \<notin> set AUTO_RETRY_JOB_TYPES"
  shows "\<exists>r'\<in>set (d_jobs s'). same_job r r' \<and> isAmbiguousRemoteOutcome r' \<and> j_error r' = j_error r"
proof -
  let ?I = "\<lambda>r'. same_job r r' \<and> isAmbiguousRemoteOutcome r' \<and> j_error r' = j_error r"
  have step: "?I q'" if "?I q" "job_step ck q q'" for ck q q'
  proof -
    have "\<not> canRetryJob q"
      using ambiguous_not_retryable [of q] that(1) assms(5) by (auto simp: same_job_def)
    with that show ?thesis
      by (auto simp: same_job_def lease_live_def awaiting_outcome_def isAmbiguousRemoteOutcome_def
          elim!: job_stepE)
  qed
  have "\<exists>r'\<in>set (d_jobs (snd (t', s'))). ?I r'"
  proof (rule run_row_invariant [OF assms(1), of "\<lambda>_. ?I"])
    show "\<exists>r'\<in>set (d_jobs (snd (t, s))). ?I r'" using assms(3,4) by (intro bexI [of _ r]) simp_all
  next
    fix ck q q'
    assume "?I q" and "job_step ck q q'"
    then show "?I q'" by (rule step)
  qed (simp add: assms(2))
  then show ?thesis by simp
qed

theorem unknown_outcome_never_replayed_witness:
  "\<exists>r'\<in>set (d_jobs (snd (retryJob sample_externs (clock_of 9)
        \<lparr>rd_job = jobs_db [], rd_analysis = jobs_db [], rd_registries = jobs_db [], rd_busy = []\<rparr>
        ''job-1'' None (\<lambda>_ _. Inr)
        (jobs_db [(sample_job ''deploy.execute'' Failed)\<lparr>j_error := Some ''WORKER_LOST: x''\<rparr>])))).
     j_status r' = Failed \<and> j_error r' = Some ''WORKER_LOST: x''"
proof -
  let ?r = "(sample_job ''deploy.execute'' Failed)\<lparr>j_error := Some ''WORKER_LOST: x''\<rparr>"
  have "\<exists>r'\<in>set (d_jobs (snd (retryJob sample_externs (clock_of 9)
        \<lparr>rd_job = jobs_db [], rd_analysis = jobs_db [], rd_registries = jobs_db [], rd_busy = []\<rparr>
        ''job-1'' None (\<lambda>_ _. Inr) (jobs_db [?r])))).
     same_job ?r r' \<and> isAmbiguousRemoteOutcome r' \<and> j_error r' = j_error ?r"
    by (rule unknown_outcome_never_replayed [OF one_step [where X = sample_externs and t = 0
          and ck = "clock_of 9", OF op_retry]])
      (simp_all add: queue_sample_simps keeps_jobs_def isAmbiguousRemoteOutcome_def AUTO_RETRY_JOB_TYPES_def
        like_prefix_def WORKER_LOST_def)
  then show ?thesis by (auto simp: isAmbiguousRemoteOutcome_def)
qed

text \<open>
  C15: a self-update whose worker dies before it wrote any result is never recovered. The filter of the
  recovery pass is unknown on a null result, so the job stays running whatever the time, and it keeps
  refusing every later self-update as one already queued or running.
\<close>

theorem lost_self_update_not_recovered:
  assumes "jobs.keys_unique (d_jobs s)" and "r \<in> set (d_jobs s)"
    and "j_type r = ''system.self_update''" and "j_status r = Running" and "j_result r = None"
    and "a_type a = ''system.self_update''"
  shows "r \<in> set (d_jobs (snd (recoverExpiredJobs ck locked s)))
    \<and> (\<exists>i. findActiveSingleFlightJob X a None None (snd (recoverExpiredJobs ck locked s))
         = Inl (StatusError 409 ''A ComposeBastion self-update is already queued or running.'' (Some i)))"
proof -
  let ?s = "snd (recoverExpiredJobs ck locked s)"
  have "r \<notin> set (expired_jobs ck locked s)"
    using expired_jobs_sub [of ck locked s] assms(3,5) by (auto simp: recoverable_def not_handed_off_def)
  then have "j_id r \<notin> j_id ` set (expired_jobs ck locked s)"
    using jobs.same_key_same_row [OF assms(1) _ assms(2)] expired_jobs_sub [of ck locked s] by auto
  then have r: "r \<in> set (d_jobs ?s)"
    using recoverExpiredJobs_jobs [of s ck locked] assms(1,2)
    by (auto simp: jobs.keys_unique_def set_update_where intro!: image_eqI [of _ _ r])
  let ?Q = "\<lambda>q. is_active q \<and> j_type q = ''system.self_update''"
  have "r \<in> set (filter ?Q (d_jobs ?s))" using r assms(3,4) by (simp add: is_active_def)
  then obtain q qs where q: "filter ?Q (d_jobs ?s) = q # qs" by (cases "filter ?Q (d_jobs ?s)") auto
  have "dockerMutationScope (action_claim a) = None"
    using assms(6) by (simp add: dockerMutationScope_def action_claim_def Let_def trim_def is_ws_def
        RECONCILABLE_DOCKER_MUTATION_TYPES_def)
  then have "resolveDockerMutationScopeForJob ?s (action_claim a) = None"
    using assms(6) by (simp add: resolveDockerMutationScopeForJob_def action_claim_def is_stack_job_def Let_def)
  then have "findActiveSingleFlightJob X a None None ?s
      = Inl (StatusError 409 ''A ComposeBastion self-update is already queued or running.'' (Some (j_id q)))"
    using assms(6) q
    by (simp add: findActiveSingleFlightJob_def singleFlightScope_def resolve_scope_def Let_def judge_rows_def
        active_rows_def hostPredicate_def scope_matches_def truthy_eq_def)
  with r show ?thesis by blast
qed

theorem lost_self_update_not_recovered_witness:
  "leased_job ''system.self_update'' \<in> set (d_jobs (snd (recoverExpiredJobs (clock_of (seconds 999)) []
     (jobs_db [leased_job ''system.self_update'']))))"
  by (rule lost_self_update_not_recovered [where X = sample_externs
        and a = "\<lparr>a_type = ''system.self_update'', a_hostId = ''h1'', a_payload = []\<rparr>", THEN conjunct1])
    (simp_all add: queue_sample_simps)

end
