(* ===== verification/Single_Flight.thy ===== *)
theory Single_Flight
  imports Job_Lifecycle
begin

text \<open>
  Mutual exclusion of queued and running jobs: the claims of active jobs never conflict, on every run of
  the queue. The proof rests on the symmetry of the conflict relation (\<open>conflict_relation\<close>) and on the
  refinement of the queue's operations; the only operation that adds a claim is the enqueue.
\<close>

section \<open>Claims of the active jobs\<close>

definition active_scope :: "job_row \<Rightarrow> mutation_scope option" where
  "active_scope r = (if is_active r then dockerMutationScope (row_claim r) else None)"

definition active_scopes :: "job_row list \<Rightarrow> mutation_scope list" where
  "active_scopes rows = List.map_filter active_scope rows"

definition trimmed :: "string \<Rightarrow> bool" where
  "trimmed s \<longleftrightarrow> trim s = s"

text \<open>
  What \<^verbatim>\<open>dockerActionSchema\<close> guarantees of an action it accepts: the type is one of its literals, the
  host identifiers are UUIDs; neither has surrounding white space.
\<close>

definition action_trimmed :: "docker_action \<Rightarrow> bool" where
  "action_trimmed a \<longleftrightarrow> trimmed (a_type a) \<and> trimmed (a_hostId a)
     \<and> (case as_string (get_prop (a_payload a) ''targetHostId'') of None \<Rightarrow> True | Some h \<Rightarrow> trimmed h)"

definition schema_trims :: "externs \<Rightarrow> bool" where
  "schema_trims X \<longleftrightarrow> (\<forall>a b. x_parseAction X a = Inr b \<longrightarrow> action_trimmed b)"

definition row_trimmed :: "job_row \<Rightarrow> bool" where
  "row_trimmed r \<longleftrightarrow> trimmed (j_type r)
     \<and> (case j_host_id r of None \<Rightarrow> True | Some h \<Rightarrow> trimmed h)
     \<and> (case as_string (get_prop (objectFields (Some (j_payload r))) ''targetHostId'') of
          None \<Rightarrow> True | Some h \<Rightarrow> trimmed h)"

definition claims_ok :: "db \<Rightarrow> bool" where
  "claims_ok s \<longleftrightarrow> list_all row_trimmed (d_jobs s) \<and> docker_conflict.compatible (active_scopes (d_jobs s))"

definition start_job :: "uuid \<Rightarrow> string \<Rightarrow> job_row" where
  "start_job i container = (sample_job ''container.start'' Queued)\<lparr>j_id := i,
     j_payload := JObj [(''containerId'', JStr container)]\<rparr>"

definition keys_distinct :: "db \<Rightarrow> bool" where
  "keys_distinct s \<longleftrightarrow> (\<forall>r\<in>set (d_jobs s). \<forall>q\<in>set (d_jobs s).
     j_idempotency_key r \<noteq> None \<and> j_idempotency_key r = j_idempotency_key q \<longrightarrow> j_id r = j_id q)"

text \<open>Two hosts, a stack on the second one, a job that clones a container from the first to the second.\<close>

definition two_hosts :: "docker_host_row list" where
  "two_hosts = [\<lparr>dh_id = ''h1'', dh_deleted_at = None, dh_tags = []\<rparr>,
                \<lparr>dh_id = ''h2'', dh_deleted_at = None, dh_tags = []\<rparr>]"

definition sample_stack :: stack_row where
  "sample_stack = \<lparr>cs_id = ''stack-1'', cs_host_id = ''h2'', cs_name = ''app'', cs_project_name = ''app'', cs_compose_yaml = [],
     cs_env = [], cs_status = ''draft'', cs_source_type = None, cs_source_repository_url = None,
     cs_source_branch = None, cs_source_working_dir = None, cs_source_compose_path = None,
     cs_source_current_commit_sha = None, cs_source_latest_commit_sha = None, cs_source_checked_at = None,
     cs_source_check_error = None, cs_source_environment_encrypted = None,
     cs_source_environment_binding = None, cs_deployment_source_id = None, cs_current_version_id = None,
     cs_last_deploy_error = None, cs_updated_at = 0\<rparr>"

definition gap_db :: "job_row list \<Rightarrow> db" where
  "gap_db rows = (jobs_db rows)\<lparr>d_hosts := two_hosts, d_stacks := [sample_stack]\<rparr>"

definition clone_action :: docker_action where
  "clone_action = \<lparr>a_type = ''container.clone'', a_hostId = ''h1'',
     a_payload = [(''containerId'', JStr ''c1''), (''targetHostId'', JStr ''h2'')]\<rparr>"

definition deploy_action :: docker_action where
  "deploy_action = \<lparr>a_type = ''compose.deploy'', a_hostId = ''h2'', a_payload = [(''stackId'', JStr ''stack-1'')]\<rparr>"

definition clone_job :: job_row where
  "clone_job = new_job (clock_of 0) ''clone-1'' clone_action None None"

definition volume_job :: job_row where
  "volume_job = (sample_job ''volume.create'' Queued)\<lparr>j_payload := JObj [(''name'', JStr ''v1'')]\<rparr>"

definition deploy_job :: job_row where
  "deploy_job = new_job (clock_of 0) ''deploy-1'' deploy_action None None"

section \<open>Lemmas\<close>

lemma Nil_hosts [simp]: "hosts_within H []"
  by (simp add: hosts_within_def)

lemma addTargets_hosts:
  assumes "h \<in> H" and "hosts_within H ts"
  shows "hosts_within H (addDeployTargets ts h d p)" "hosts_within H (addCleanupTargets ts h q)"
    "hosts_within H (addContainerRunTargets ts h q)"
    "stringValue (get_prop q ''targetHostId'') \<in> H \<Longrightarrow> hosts_within H (addCloneTargets ts h q)"
  using assms
  by (auto simp: addDeployTargets_def addCleanupTargets_def addContainerRunTargets_def addCloneTargets_def
      Let_def intro!: addTarget_hosts foldl_hosts addEveryResource_hosts split: option.split)

lemma mutationTargets_hosts:
  "hosts_within {h, stringValue (get_prop p ''targetHostId'')} (mutationTargets type h p)"
  unfolding mutationTargets_def Let_def
  by (simp add: if_distrib [of "hosts_within H" for H] addTarget_hosts addTargets_hosts)

lemma row_scope_hosts:
  assumes "dockerMutationScope (row_claim r) = Some sc" and "row_trimmed r" and "h \<in> set (ms_hostIds sc)"
  shows "j_host_id r = Some h \<or> payload_text (j_payload r) ''targetHostId'' = Some h"
proof -
  note D = dockerMutationScope_SomeD [OF assms(1)]
  have ids: "set (ms_hostIds sc) = mt_hostId ` set (ms_targets sc)" "h \<noteq> []"
    using D(1) assms(3) by (auto simp: scope_wf_def targets_ok_def)
  let ?p = "objectFields (Some (j_payload r))"
  let ?h = "stringValue (nullish (al_hostId (row_claim r)) (al_host_id (row_claim r)))"
  have "hosts_within {?h, stringValue (get_prop ?p ''targetHostId'')} (ms_targets sc)"
    unfolding D(4) using mutationTargets_hosts by (simp add: row_claim_def)
  then have "h = ?h \<or> h = stringValue (get_prop ?p ''targetHostId'')"
    using assms(3) ids(1) by (auto simp: hosts_within_def)
  then show ?thesis
  proof
    assume "h = ?h"
    then have "j_host_id r = Some h"
      using assms(2) ids(2)
      by (auto simp: row_claim_def opt_json_def stringValue_def row_trimmed_def trimmed_def split: option.splits)
    then show ?thesis ..
  next
    assume "h = stringValue (get_prop ?p ''targetHostId'')"
    then obtain t where t: "as_string (get_prop ?p ''targetHostId'') = Some t" "h = trim t"
      using ids(2) by (auto simp: stringValue_def split: option.splits)
    then have "get_prop ?p ''targetHostId'' = Some (JStr t)"
      by (cases "get_prop ?p ''targetHostId''" rule: as_string.cases) auto
    then have "payload_text (j_payload r) ''targetHostId'' = Some t"
      by (simp add: payload_text_def text_prop_def)
    moreover have "h = t" using assms(2) t by (simp add: row_trimmed_def trimmed_def)
    ultimately show ?thesis by simp
  qed
qed

lemma row_claim_same: "same_job r r' \<Longrightarrow> row_claim r' = row_claim r"
  by (simp add: same_job_def row_claim_def)

lemma manual_types_direct: "set MANUAL_RETRY_JOB_TYPES \<inter> set RECONCILABLE_DOCKER_MUTATION_TYPES = {}"
  by (simp add: MANUAL_RETRY_JOB_TYPES_def AUTO_RETRY_JOB_TYPES_def RECONCILABLE_DOCKER_MUTATION_TYPES_def)

lemma retryable_no_scope:
  assumes "canRetryJob r" and "row_trimmed r"
  shows "dockerMutationScope (row_claim r) = None"
proof -
  have "j_type r \<notin> set RECONCILABLE_DOCKER_MUTATION_TYPES"
    using assms(1) manual_types_direct by (auto simp: canRetryJob_def)
  with assms(2) show ?thesis
    by (simp add: dockerMutationScope_def row_claim_def row_trimmed_def trimmed_def)
qed

lemma active_scope_step:
  assumes "job_step ck r r'" and "row_trimmed r"
  shows "active_scope r' = None \<or> active_scope r' = active_scope r"
proof (cases "is_active r' \<longrightarrow> is_active r")
  case True
  then show ?thesis
    using row_claim_same [OF job_step_same [OF assms(1)]] by (auto simp: active_scope_def)
next
  case False
  then have "canRetryJob r"
    using assms(1) by (auto simp: is_active_def lease_live_def elim!: job_stepE)
  then show ?thesis
    using retryable_no_scope assms(2) row_claim_same [OF job_step_same [OF assms(1)]]
    by (simp add: active_scope_def)
qed

lemma row_trimmed_step: "job_step ck r r' \<Longrightarrow> row_trimmed r \<Longrightarrow> row_trimmed r'"
  using job_step_same by (fastforce simp: same_job_def row_trimmed_def)

lemma map_filter_drop:
  assumes "list_all2 (\<lambda>x y. g y = None \<or> g y = g x) xs ys" and "sorted_wrt R (List.map_filter g xs)"
  shows "set (List.map_filter g ys) \<subseteq> set (List.map_filter g xs) \<and> sorted_wrt R (List.map_filter g ys)"
  using assms
proof (induction rule: list_all2_induct)
  case Nil
  then show ?case by (simp add: List.map_filter_simps)
next
  case (Cons x xs y ys)
  then show ?case by (cases "g x"; cases "g y") (auto simp: List.map_filter_simps)
qed

lemma moved_claims:
  assumes "list_all2 (job_step ck) rows moved" and "list_all row_trimmed rows"
    and "docker_conflict.compatible (active_scopes rows)"
  shows "list_all row_trimmed moved" "docker_conflict.compatible (active_scopes moved)"
    "set (active_scopes moved) \<subseteq> set (active_scopes rows)"
proof -
  have l: "list_all2 (\<lambda>x y. active_scope y = None \<or> active_scope y = active_scope x) rows moved"
    using assms(1,2) by (induction rule: list_all2_induct) (auto dest: active_scope_step)
  show "list_all row_trimmed moved"
    using assms(1,2) by (induction rule: list_all2_induct) (auto dest: row_trimmed_step)
  show "docker_conflict.compatible (active_scopes moved)"
    "set (active_scopes moved) \<subseteq> set (active_scopes rows)"
    using map_filter_drop [OF l] assms(3)
    by (simp_all add: docker_conflict.compatible_def active_scopes_def)
qed

subsection \<open>What the enqueue admits\<close>

lemma claim_of_new_job:
  "dockerMutationScope (row_claim (new_job ck n a u k)) = dockerMutationScope (action_claim a)"
  by (simp add: dockerMutationScope_def row_claim_def action_claim_def new_job_def opt_json_def Let_def)

lemma new_job_active: "is_active (new_job ck n a u k)"
  by (simp add: is_active_def new_job_def)

lemma direct_type_branch:
  assumes "dockerMutationScope (action_claim a) = Some sc" and "trimmed (a_type a)"
  shows "singleFlightScope a = Some \<lparr>sf_key = hd (dockerMutationAdmissionKeys sc),
      sf_keys = Some (dockerMutationAdmissionKeys sc), sf_types = RECONCILABLE_DOCKER_MUTATION_TYPES,
      sf_hostId = None, sf_hostIds = ms_hostIds sc, sf_dockerScope = Some sc,
      sf_matches = direct_conflict sc,
      sf_conflictMessage = ''Another remote mutation for the same Docker resource, host path, '' @
               ''or Compose project is already queued or running.''\<rparr>"
    (is "_ = Some ?scope")
proof -
  have "a_type a \<in> set RECONCILABLE_DOCKER_MUTATION_TYPES"
    using dockerMutationScope_SomeD(2,3) [OF assms(1)] assms(2) by (simp add: action_claim_def trimmed_def)
  then show ?thesis
    using assms(1)
    by (auto simp: singleFlightScope_def RECONCILABLE_DOCKER_MUTATION_TYPES_def is_stack_job_def Let_def)
qed

lemma find_None_all: "find P xs = None \<Longrightarrow> x \<in> set xs \<Longrightarrow> \<not> P x"
  by (auto simp: find_None_iff)

text \<open>An enqueue of a direct mutation that finds nothing in its way: no active or unresolved row matches.\<close>

lemma findActive_direct:
  assumes "findActiveSingleFlightJob X a k rv s = Inr (None, s')"
    and "dockerMutationScope (action_claim a) = Some sc" and "trimmed (a_type a)"
    and "r \<in> set (d_jobs s)" and "is_active r \<or> isUnreconciledRemoteOutcome r"
    and "j_type r \<in> set CROSS_TARGET_JOB_TYPES" and "on_hosts (ms_hostIds sc) r"
  shows "\<not> direct_conflict sc r"
    "resolveDockerMutationScopeForJob s (row_claim r) = Some cand
     \<Longrightarrow> \<not> dockerMutationScopesConflict (canonicalizeDockerMutationScope (d_snapshots s) sc)
            (canonicalizeDockerMutationScope (d_snapshots s) cand)"
proof -
  have res: "resolveDockerMutationScopeForJob s (action_claim a) = Some sc"
    using assms(2) by (simp add: resolveDockerMutationScopeForJob_def)
  define scope where "scope = resolve_scope (Some sc) (the (singleFlightScope a))"
  have scope: "sf_hostId scope = None" "sf_hostIds scope = ms_hostIds sc" "sf_matches scope = direct_conflict sc"
    "sf_dockerScope scope = Some sc" "set CROSS_TARGET_JOB_TYPES \<subseteq> set (sf_types scope)"
    by (simp_all add: scope_def direct_type_branch [OF assms(2,3)] resolve_scope_def Let_def)
  let ?req = "Some (canonicalizeDockerMutationScope (d_snapshots s) sc)"
  have judged: "judge_rows s ?req scope k rv = Inr None"
    using assms(1) scope(4)
    by (auto simp: findActiveSingleFlightJob_def direct_type_branch [OF assms(2,3)] res scope_def
        Let_def and_then_Inr_iff)
  have pred: "hostPredicate scope r" using assms(7) by (simp add: hostPredicate_def scope(1,2))
  have none: "find (scope_matches s ?req scope) (active_rows s scope) = None"
    "find (\<lambda>r. isUnreconciledRemoteOutcome r \<and> scope_matches s ?req scope r) (ambiguous_rows s scope) = None"
    using judged by (auto simp: judge_rows_def split: option.splits if_splits)
  have "\<not> scope_matches s ?req scope r"
  proof (cases "is_active r")
    case True
    then have "r \<in> set (active_rows s scope)" using assms(4,6) scope(5) pred by (auto simp: active_rows_def)
    then show ?thesis by (rule find_None_all [OF none(1)])
  next
    case False
    then have u: "isUnreconciledRemoteOutcome r" using assms(5) by simp
    then have "r \<in> set (ambiguous_rows s scope)"
      using assms(4,6) scope(5) pred
      by (auto simp: ambiguous_rows_def by_completion_desc_def isUnreconciledRemoteOutcome_def)
    then show ?thesis using find_None_all [OF none(2)] u by blast
  qed
  then show "\<not> direct_conflict sc r"
    "resolveDockerMutationScopeForJob s (row_claim r) = Some cand
     \<Longrightarrow> \<not> dockerMutationScopesConflict (canonicalizeDockerMutationScope (d_snapshots s) sc)
            (canonicalizeDockerMutationScope (d_snapshots s) cand)"
    by (auto simp: scope_matches_def scope(3))
qed

lemma admitted_compatible:
  assumes "findActiveSingleFlightJob X a k rv s = Inr (None, s')"
    and "dockerMutationScope (action_claim a) = Some sc" and "action_trimmed a"
    and "list_all row_trimmed (d_jobs s)" and "c \<in> set (active_scopes (d_jobs s))"
  shows "\<not> dockerMutationScopesConflict sc c"
proof
  assume conflict: "dockerMutationScopesConflict sc c"
  obtain r where r: "r \<in> set (d_jobs s)" "is_active r" "dockerMutationScope (row_claim r) = Some c"
    using assms(5) by (auto simp: active_scopes_def active_scope_def List.map_filter_def split: if_splits)
  have rt: "row_trimmed r" using assms(4) r(1) by (auto simp: list_all_iff)
  obtain h where h: "h \<in> set (ms_hostIds sc)" "h \<in> set (ms_hostIds c)"
    using conflict_common_host [OF conflict] scope_wf_hosts dockerMutationScope_SomeD(1) assms(2) r(3) by metis
  then have "on_hosts (ms_hostIds sc) r"
    using row_scope_hosts [OF r(3) rt h(2)] by (auto simp: on_hosts_def opt_in_def)
  moreover have "j_type r \<in> set CROSS_TARGET_JOB_TYPES"
    using dockerMutationScope_SomeD(2,3) [OF r(3)] rt
    by (simp add: row_claim_def row_trimmed_def trimmed_def CROSS_TARGET_JOB_TYPES_def)
  moreover have "trimmed (a_type a)" using assms(3) by (simp add: action_trimmed_def)
  ultimately have "\<not> direct_conflict sc r"
    using findActive_direct(1) [OF assms(1,2)] r by blast
  with conflict r(3) show False by (simp add: direct_conflict_def)
qed

lemma new_job_trimmed: "action_trimmed a \<Longrightarrow> row_trimmed (new_job ck n a u k)"
  by (simp add: action_trimmed_def row_trimmed_def new_job_def)

lemma active_scopes_append:
  "active_scopes (rows @ [r]) = active_scopes rows @ (case active_scope r of None \<Rightarrow> [] | Some c \<Rightarrow> [c])"
  by (simp add: active_scopes_def List.map_filter_def split: option.split)

lemma findActive_frame:
  "findActiveSingleFlightJob X a k rv s = Inr (row, s') \<Longrightarrow> d_snapshots s' = d_snapshots s"
  by (auto simp: findActiveSingleFlightJob_def Let_def and_then_Inr_iff split: option.splits)

lemma resolve_advisory:
  "resolveDockerMutationScopeForJob (advisory_locks ks s) = resolveDockerMutationScopeForJob s"
  by (simp add: fun_eq_iff resolveDockerMutationScopeForJob_def stack_claim_def analysis_claim_def Let_def
      split: option.split)

lemma resolve_locks:
  "resolveDockerMutationScopeForJob (s\<lparr>d_locks := k\<rparr>) = resolveDockerMutationScopeForJob s"
  by (simp add: fun_eq_iff resolveDockerMutationScopeForJob_def stack_claim_def analysis_claim_def Let_def
      split: option.split)

text \<open>The rows of a queue after an enqueue: unchanged, or extended by one admitted job.\<close>

lemma lockJobHosts_update:
  "lockJobHostsForEnqueue a s = Inr s1 \<Longrightarrow> \<exists>L. s1 = s\<lparr>d_locks := L\<rparr>"
  by (auto simp: lockJobHostsForEnqueue_def Let_def advisory_locks_update split: if_splits)

lemma enqueue_transaction_cases:
  assumes "enqueueJobInTransaction X ck n a u k s = Inr (job, s')"
  obtains "d_jobs s' = d_jobs s"
  | p L s2 where "x_parseAction X a = Inr p"
      "findActiveSingleFlightJob X p k None (s\<lparr>d_locks := L\<rparr>) = Inr (None, s2)"
      "d_jobs s' = d_jobs s @ [new_job ck n p u k]"
proof -
  from assms obtain p s1 act s2 where p: "x_parseAction X a = Inr p"
    and s1: "lockJobHostsForEnqueue p s = Inr s1" and f: "findActiveSingleFlightJob X p k None s1 = Inr (act, s2)"
    and rest: "(case act of Some row \<Rightarrow> Inr (mapJob row, s2)
       | None \<Rightarrow> and_then (jobInsert ck n p u k s2) (\<lambda>(row, s3).
           Inr (sanitizeOperationJobForRead X (mapJob row), s3))) = Inr (job, s')"
    by (auto simp: enqueueJobInTransaction_def and_then_Inr_iff)
  obtain L where L: "s1 = s\<lparr>d_locks := L\<rparr>" using lockJobHosts_update [OF s1] ..
  have j: "d_jobs s2 = d_jobs s" using findActive_jobs [OF f] L by simp
  show ?thesis
  proof (cases act)
    case (Some row)
    with rest j that(1) show ?thesis by simp
  next
    case None
    with rest obtain row where "jobInsert ck n p u k s2 = Inr (row, s')" by (auto simp: and_then_Inr_iff)
    from jobInsert_jobs [OF this] j that(1) that(2) [OF p, of L s2] f None L show ?thesis by auto
  qed
qed

lemma enqueue_cases:
  assumes "snd (enqueueJob X ck n a u k s) = s'"
  obtains "d_jobs s' = d_jobs s"
  | p q L s2 where "x_parseAction X q = Inr p"
      "findActiveSingleFlightJob X p k None (s\<lparr>d_locks := L\<rparr>) = Inr (None, s2)"
      "d_jobs s' = d_jobs s @ [new_job ck n p u k]"
proof (cases "x_parseAction X a")
  case (Inl e)
  with assms that(1) show ?thesis by (simp add: enqueueJob_def)
next
  case (Inr q)
  show ?thesis
  proof (cases "enqueueJobInTransaction X ck n q u k (s\<lparr>d_locks := []\<rparr>)")
    case (Inl e)
    with assms Inr that(1) show ?thesis by (simp add: enqueueJob_def withTransaction_def)
  next
    case (Inr r)
    obtain job t where r: "r = (job, t)" by (cases r)
    have "d_jobs s' = d_jobs t"
      using assms \<open>x_parseAction X a = Inr q\<close> Inr r by (auto simp: enqueueJob_def withTransaction_def)
    note jobs = this
    have "enqueueJobInTransaction X ck n q u k (s\<lparr>d_locks := []\<rparr>) = Inr (job, t)" using Inr r by simp
    then show ?thesis
    proof (rule enqueue_transaction_cases)
      assume "d_jobs t = d_jobs (s\<lparr>d_locks := []\<rparr>)"
      with jobs show ?thesis by (intro that(1)) simp
    next
      fix p L s2
      assume "x_parseAction X q = Inr p"
        "findActiveSingleFlightJob X p k None (s\<lparr>d_locks := []\<rparr>\<lparr>d_locks := L\<rparr>) = Inr (None, s2)"
        "d_jobs t = d_jobs (s\<lparr>d_locks := []\<rparr>) @ [new_job ck n p u k]"
      with jobs show ?thesis by (intro that(2) [of q p L s2]) simp_all
    qed
  qed
qed

lemma admitted_claims:
  assumes "findActiveSingleFlightJob X p k None s = Inr (None, s')" and "action_trimmed p"
    and "list_all row_trimmed (d_jobs s)" and "docker_conflict.compatible (active_scopes (d_jobs s))"
  shows "docker_conflict.compatible (active_scopes (d_jobs s @ [new_job ck n p u k]))"
proof (cases "dockerMutationScope (action_claim p)")
  case None
  then have "active_scope (new_job ck n p u k) = None" by (simp add: active_scope_def claim_of_new_job)
  with assms(4) show ?thesis by (simp add: active_scopes_append)
next
  case (Some sc)
  then have "active_scope (new_job ck n p u k) = Some sc"
    using new_job_active by (simp add: active_scope_def claim_of_new_job)
  then show ?thesis
    using docker_conflict.compatible_admit [OF assms(4), of sc] admitted_compatible [OF assms(1) Some assms(2,3)]
    by (simp add: active_scopes_append)
qed

lemma claims_ok_enqueue:
  assumes "schema_trims X" and "claims_ok s"
  shows "claims_ok (snd (enqueueJob X ck n a u k s))"
proof (rule enqueue_cases [OF refl, of X ck n a u k s])
  assume "d_jobs (snd (enqueueJob X ck n a u k s)) = d_jobs s"
  with assms(2) show ?thesis by (simp add: claims_ok_def)
next
  fix p q L s2
  assume e: "x_parseAction X q = Inr p"
    "findActiveSingleFlightJob X p k None (s\<lparr>d_locks := L\<rparr>) = Inr (None, s2)"
    "d_jobs (snd (enqueueJob X ck n a u k s)) = d_jobs s @ [new_job ck n p u k]"
  have p: "action_trimmed p" using assms(1) e(1) by (auto simp: schema_trims_def)
  show ?thesis
    using admitted_claims [OF e(2) p] new_job_trimmed [OF p] assms(2)
    by (simp add: claims_ok_def e(3))
qed

lemma claims_ok_op:
  assumes "schema_trims X" and "queue_op X ck s s'" and "queue_ok s" and "claims_ok s"
  shows "claims_ok s'"
  using operation_cases [OF assms(2)] moved_claims [of ck "d_jobs s" "d_jobs s'"]
    claims_ok_enqueue [OF assms(1,4)] assms(3,4)
  by (auto simp: queue_ok_def rows_step_def claims_ok_def)

lemma claims_ok_run:
  assumes "schema_trims X" and "queue.run X a b" and "queue_ok (snd a)" and "claims_ok (snd a)"
  shows "claims_ok (snd b)"
proof -
  have "queue_ok (snd b) \<and> claims_ok (snd b)"
  proof (rule queue.run_invariant [where I = "\<lambda>a. queue_ok (snd a) \<and> claims_ok (snd a)", OF assms(2)])
    fix c d
    assume "queue_ok (snd c) \<and> claims_ok (snd c)" and "queue_step X c d"
    then show "queue_ok (snd d) \<and> claims_ok (snd d)"
      using claims_ok_op [OF assms(1)] queue_op_ok by (auto elim!: queue_stepE)
  qed (use assms in simp)
  then show ?thesis ..
qed

lemma active_scopes_pair:
  assumes "docker_conflict.compatible (active_scopes rows)" and "i < length rows" "j < length rows" "i \<noteq> j"
    and "active_scope (rows ! i) = Some c" and "active_scope (rows ! j) = Some d"
  shows "\<not> dockerMutationScopesConflict c d"
proof -
  have le: "\<not> dockerMutationScopesConflict c d"
    if "i < j" "j < length rows" "active_scope (rows ! i) = Some c" "active_scope (rows ! j) = Some d"
    for i j c d
  proof -
    have "rows = take i rows @ rows ! i # drop (Suc i) rows" using that by (simp add: id_take_nth_drop)
    moreover have "rows ! j \<in> set (drop (Suc i) rows)"
      unfolding in_set_conv_nth using that by (intro exI [of _ "j - Suc i"]) simp
    ultimately obtain xs ys where "rows = xs @ rows ! i # ys" "rows ! j \<in> set ys" by blast
    then have "docker_conflict.compatible (active_scopes (xs @ rows ! i # ys))" "rows ! j \<in> set ys"
      using assms(1) by simp_all
    then show ?thesis
      using that(3,4)
      by (force simp: docker_conflict.compatible_def active_scopes_def List.map_filter_def sorted_wrt_append)
  qed
  show ?thesis
    using le [of i j c d] le [of j i d c] assms scopesConflict_sym by (metis nat_neq_iff)
qed

section \<open>Properties\<close>

text \<open>
  C1: active jobs never conflict. On every run of the queue, two different jobs that are queued or running
  and directly mutate a host have claims without a common Docker object, Compose project, registry login
  or host path.
\<close>

theorem active_claims_exclusive:
  assumes "schema_trims X" and "queue.run X (t, s) (t', s')" and "queue_ok s" and "claims_ok s"
    and "i < length (d_jobs s')" and "j < length (d_jobs s')" and "i \<noteq> j"
    and "is_active (d_jobs s' ! i)" and "is_active (d_jobs s' ! j)"
    and "dockerMutationScope (row_claim (d_jobs s' ! i)) = Some c"
    and "dockerMutationScope (row_claim (d_jobs s' ! j)) = Some d"
  shows "\<not> dockerMutationScopesConflict c d"
proof (rule active_scopes_pair)
  show "docker_conflict.compatible (active_scopes (d_jobs s'))"
    using claims_ok_run [OF assms(1,2)] assms(3,4) by (simp add: claims_ok_def)
  show "active_scope (d_jobs s' ! i) = Some c" using assms(8,10) unfolding active_scope_def by (simp only: if_True)
  show "active_scope (d_jobs s' ! j) = Some d" using assms(9,11) unfolding active_scope_def by (simp only: if_True)
qed (fact assms)+

lemma start_job_scope:
  "dockerMutationScope (row_claim (start_job ''a'' ''c1'')) = Some \<lparr>ms_type = ''container.start'',
     ms_hostIds = [''h1''], ms_targets = [target ''h1'' Container ''c1'']\<rparr>"
  "dockerMutationScope (row_claim (start_job ''b'' ''c2'')) = Some \<lparr>ms_type = ''container.start'',
     ms_hostIds = [''h1''], ms_targets = [target ''h1'' Container ''c2'']\<rparr>"
  by code_simp+

theorem active_claims_exclusive_witness:
  "\<not> dockerMutationScopesConflict
     \<lparr>ms_type = ''container.start'', ms_hostIds = [''h1''], ms_targets = [target ''h1'' Container ''c1'']\<rparr>
     \<lparr>ms_type = ''container.start'', ms_hostIds = [''h1''], ms_targets = [target ''h1'' Container ''c2'']\<rparr>"
proof -
  let ?X = "sample_externs\<lparr>x_parseAction := (\<lambda>_. Inl (PlainError ''x''))\<rparr>"
  let ?s = "jobs_db [start_job ''a'' ''c1'', start_job ''b'' ''c2'']"
  have X: "schema_trims ?X" by (simp add: schema_trims_def)
  have ok: "queue_ok ?s" by (simp add: queue_sample_simps start_job_def)
  have act: "is_active (start_job i c)" for i c by (simp add: is_active_def start_job_def sample_job_def)
  have tr: "row_trimmed (start_job i c)" for i c
    by (simp add: row_trimmed_def start_job_def sample_job_def trimmed_def trim_def is_ws_def get_prop_def)
  have "claims_ok ?s"
    using act tr start_job_scope
    by (simp add: claims_ok_def jobs_db_def active_scopes_def List.map_filter_simps active_scope_def
        docker_conflict.compatible_def dockerMutationScopesConflict_def targetsConflict_def)
  from active_claims_exclusive [OF X queue.run.refl [of ?X "(0, ?s)"] ok this, of 0 1] act start_job_scope
  show ?thesis by (simp add: jobs_db_def)
qed



lemma find_Some_in: "find P xs = Some x \<Longrightarrow> x \<in> set xs \<and> P x"
  by (auto simp: find_Some_iff)

lemma judge_key:
  assumes "findActiveSingleFlightJob X a k None s = Inr (Some row, s')"
  shows "row \<in> set (d_jobs s) \<and> j_idempotency_key row = k"
  using assms
  by (auto simp: findActiveSingleFlightJob_def judge_rows_def Let_def and_then_Inr_iff truthy_eq_def active_rows_def
      dest: find_Some_in split: option.splits if_splits)

lemma jobInsert_key:
  assumes "jobInsert ck n a u (Some k) s = Inr (row, s')"
  shows "row \<in> set (d_jobs s') \<and> j_idempotency_key row = Some k
    \<and> (d_jobs s' = d_jobs s
       \<or> (\<forall>r\<in>set (d_jobs s). j_idempotency_key r \<noteq> Some k) \<and> d_jobs s' = d_jobs s @ [row])"
  using assms
  by (auto simp: jobInsert_def Let_def new_job_def find_None_iff dest: find_Some_in
      split: option.splits if_splits)

lemma enqueue_transaction_key:
  assumes "enqueueJobInTransaction X ck n a u (Some k) s = Inr (job, s')"
  shows "\<exists>r\<in>set (d_jobs s'). j_idempotency_key r = Some k \<and> j_id r = oj_id job
    \<and> (d_jobs s' = d_jobs s
       \<or> (\<forall>q\<in>set (d_jobs s). j_idempotency_key q \<noteq> Some k) \<and> d_jobs s' = d_jobs s @ [r])"
proof -
  from assms obtain p s1 act s2 where s1: "lockJobHostsForEnqueue p s = Inr s1"
    and f: "findActiveSingleFlightJob X p (Some k) None s1 = Inr (act, s2)"
    and rest: "(case act of Some row \<Rightarrow> Inr (mapJob row, s2)
       | None \<Rightarrow> and_then (jobInsert ck n p u (Some k) s2) (\<lambda>(row, s3).
           Inr (sanitizeOperationJobForRead X (mapJob row), s3))) = Inr (job, s')"
    by (auto simp: enqueueJobInTransaction_def and_then_Inr_iff)
  have j: "d_jobs s1 = d_jobs s" "d_jobs s2 = d_jobs s"
    using findActive_jobs [OF f] lockJobHosts_jobs [OF s1] by simp_all
  show ?thesis
  proof (cases act)
    case (Some row)
    then show ?thesis using rest judge_key [of X p "Some k" s1 row s2] f j by (auto simp: mapJob_def)
  next
    case None
    with rest obtain row where ins: "jobInsert ck n p u (Some k) s2 = Inr (row, s')"
      and job: "job = sanitizeOperationJobForRead X (mapJob row)" by (auto simp: and_then_Inr_iff)
    from jobInsert_key [OF ins] j show ?thesis
      by (intro bexI [of _ row]) (auto simp: job sanitizeOperationJobForRead_def mapJob_def)
  qed
qed

lemma enqueue_key:
  assumes "enqueueJob X ck n a u (Some k) s = (Inr job, s')"
  shows "\<exists>r\<in>set (d_jobs s'). j_idempotency_key r = Some k \<and> j_id r = oj_id job
    \<and> (d_jobs s' = d_jobs s
       \<or> (\<forall>q\<in>set (d_jobs s). j_idempotency_key q \<noteq> Some k) \<and> d_jobs s' = d_jobs s @ [r])"
proof -
  obtain p j t where "enqueueJobInTransaction X ck n p u (Some k) (s\<lparr>d_locks := []\<rparr>) = Inr (j, t)"
    and "s' = t\<lparr>d_locks := d_locks s\<rparr>" and "job = sanitizeOperationJobForRead X j"
    using assms by (auto simp: enqueueJob_def withTransaction_def split: sum.splits prod.splits)
  then show ?thesis
    using enqueue_transaction_key [of X ck n p u k "s\<lparr>d_locks := []\<rparr>" j t]
    by (simp add: sanitizeOperationJobForRead_def)
qed

text \<open>
  enqueueing is idempotent in the key. After an enqueue with an idempotency key has returned a job, every
  later enqueue with that key that returns a job returns the same one and adds none, as long as no two rows
  share a key, which the unique index guarantees.
\<close>

theorem enqueue_idempotent:
  assumes "keys_distinct s" and "enqueueJob X ck n a u (Some k) s = (Inr job, s1)"
    and "enqueueJob X ck' n' a' u' (Some k) s1 = (Inr job', s2)"
  shows "oj_id job' = oj_id job \<and> d_jobs s2 = d_jobs s1"
proof -
  obtain r where r: "r \<in> set (d_jobs s1)" "j_idempotency_key r = Some k" "j_id r = oj_id job"
    and first: "d_jobs s1 = d_jobs s
       \<or> (\<forall>q\<in>set (d_jobs s). j_idempotency_key q \<noteq> Some k) \<and> d_jobs s1 = d_jobs s @ [r]"
    using enqueue_key [OF assms(2)] by blast
  obtain q where q: "q \<in> set (d_jobs s2)" "j_idempotency_key q = Some k" "j_id q = oj_id job'"
    and "d_jobs s2 = d_jobs s1
       \<or> (\<forall>q\<in>set (d_jobs s1). j_idempotency_key q \<noteq> Some k) \<and> d_jobs s2 = d_jobs s1 @ [q]"
    using enqueue_key [OF assms(3)] by blast
  then have same: "d_jobs s2 = d_jobs s1" using r by blast
  from first have "j_id q = j_id r"
  proof
    assume "d_jobs s1 = d_jobs s"
    with assms(1) q(1,2) r(1,2) same show ?thesis unfolding keys_distinct_def by (metis option.distinct(1))
  next
    assume "(\<forall>q\<in>set (d_jobs s). j_idempotency_key q \<noteq> Some k) \<and> d_jobs s1 = d_jobs s @ [r]"
    with q(1,2) same have "q = r" by auto
    then show ?thesis by (rule arg_cong)
  qed
  with same q(3) r(3) show ?thesis by simp
qed

theorem enqueue_idempotent_witness:
  "length (d_jobs (snd (enqueueJob sample_externs (clock_of 5) ''job-8'' clone_action None (Some ''k1'')
     (snd (enqueueJob sample_externs (clock_of 0) ''job-7'' clone_action None (Some ''k1'') (gap_db [])))))) = 1"
proof -
  let ?e1 = "enqueueJob sample_externs (clock_of 0) ''job-7'' clone_action None (Some ''k1'') (gap_db [])"
  let ?e2 = "enqueueJob sample_externs (clock_of 5) ''job-8'' clone_action None (Some ''k1'') (snd ?e1)"
  have "\<not> isl (fst ?e1)" "\<not> isl (fst ?e2)" "length (d_jobs (snd ?e1)) = 1" by code_simp+
  moreover have "keys_distinct (gap_db [])" by (simp add: keys_distinct_def gap_db_def jobs_db_def)
  ultimately show ?thesis
    using enqueue_idempotent [of "gap_db []" sample_externs "clock_of 0" "''job-7''" clone_action None "''k1''"
        "projr (fst ?e1)" "snd ?e1" "clock_of 5" "''job-8''" clone_action None "projr (fst ?e2)" "snd ?e2"]
    by (simp add: prod_eq_iff sum.collapse(2))
qed


end
