(* ===== verification/Recovery_Exclusion.thy ===== *)
theory Recovery_Exclusion
  imports Single_Flight
begin

text \<open>
  Mutual exclusion of generic Docker mutations (\<^verbatim>\<open>services/jobs.ts\<close>) and recovery operations
  (\<^verbatim>\<open>services/recoveryOperationAdmission.ts\<close>): what an admitted mutation spares, and where the two
  admissions disagree about the claim of a deployment analysis.
\<close>

section \<open>Concrete operations\<close>

definition analyze_action :: docker_action where
  "analyze_action = \<lparr>a_type = ''deploy.analyze'', a_hostId = ''h1'', a_payload = [(''analysisId'', JStr ''an-1'')]\<rparr>"

definition analyze_job :: job_row where
  "analyze_job = new_job (clock_of 0) ''analyze-1'' analyze_action None None"

text \<open>A queued restore whose claim on one volume of \<open>h1\<close> is persisted.\<close>

definition restore_job :: job_row where
  "restore_job = persist_update (clock_of 0) [] (ad_targetDockerScopes sample_restore)
     (sample_job ''recovery.restore'' Queued)"

section \<open>Lemmas\<close>

lemma resolve_new_job:
  "resolveDockerMutationScopeForJob s (row_claim (new_job ck n a u k))
   = resolveDockerMutationScopeForJob s (action_claim a)"
proof -
  have "al_type (row_claim (new_job ck n a u k)) = al_type (action_claim a)"
    "nullish (al_hostId (row_claim (new_job ck n a u k))) (al_host_id (row_claim (new_job ck n a u k)))
      = nullish (al_hostId (action_claim a)) (al_host_id (action_claim a))"
    "al_payload (row_claim (new_job ck n a u k)) = al_payload (action_claim a)"
    by (simp_all add: row_claim_def action_claim_def new_job_def opt_json_def)
  then show ?thesis by (simp add: resolveDockerMutationScopeForJob_def claim_of_new_job split: option.split)
qed

lemma resolved_is_single_flight:
  assumes "resolveDockerMutationScopeForJob s (action_claim a) = Some sc"
  shows "\<exists>initial. singleFlightScope a = Some initial"
proof (rule ccontr)
  assume "\<nexists>initial. singleFlightScope a = Some initial"
  then have "\<not> is_stack_job (a_type a)" "a_type a \<noteq> ''deploy.analyze''" "a_type a \<noteq> ''deploy.execute''"
    "dockerMutationScope (action_claim a) = None"
    by (auto simp: singleFlightScope_def Let_def split: option.splits if_splits)
  with assms show False by (simp add: resolveDockerMutationScopeForJob_def action_claim_def)
qed

lemma assert_recovery_locks:
  "assertDockerMutationDoesNotConflictWithRecovery X req (s\<lparr>d_locks := L\<rparr>)
   = assertDockerMutationDoesNotConflictWithRecovery X req s"
proof -
  have r: "reject_conflict (s\<lparr>d_locks := L\<rparr>) = reject_conflict s" "touches_hosts (s\<lparr>d_locks := L\<rparr>) = touches_hosts s"
    "activeRestoreAttemptScopes (s\<lparr>d_locks := L\<rparr>) = activeRestoreAttemptScopes s"
    by (simp_all add: fun_eq_iff reject_conflict_def touches_hosts_def activeRestoreAttemptScopes_def)
  have "check_obligation X (s\<lparr>d_locks := L\<rparr>) = check_obligation X s"
    by (simp add: fun_eq_iff check_obligation_def r)
  then show ?thesis by (simp add: assertDockerMutationDoesNotConflictWithRecovery_def r)
qed

lemma findActive_asserts:
  assumes "findActiveSingleFlightJob X a k rv s = Inr (row, s')"
    and "resolveDockerMutationScopeForJob s (action_claim a) = Some sc"
  shows "assertDockerMutationDoesNotConflictWithRecovery X (canonicalizeDockerMutationScope (d_snapshots s) sc) s = Inr ()"
proof -
  obtain initial where "singleFlightScope a = Some initial"
    using resolved_is_single_flight [OF assms(2)] ..
  with assms show ?thesis
    by (auto simp: findActiveSingleFlightJob_def Let_def and_then_Inr_iff resolve_scope_def)
qed

lemma assert_recovery_ok:
  fixes req s
  defines "claim \<equiv> conservativeRecoveryDockerMutationScope req"
  defines "widen \<equiv> canonicalizeDockerMutationScope (d_snapshots s)"
  assumes "assertDockerMutationDoesNotConflictWithRecovery X req s = Inr ()"
  shows "r \<in> set (d_jobs s) \<Longrightarrow> is_active r \<Longrightarrow> j_type r \<in> set recovery_job_types
      \<Longrightarrow> touches_hosts s (uniq (ms_hostIds claim)) r \<Longrightarrow> c \<in> set (fst (stored_scopes r) @ snd (stored_scopes r))
      \<Longrightarrow> \<not> dockerMutationScopesConflict (widen claim) (widen c)"
    and "c \<in> set (activeRestoreAttemptScopes s (uniq (ms_hostIds claim)))
      \<Longrightarrow> \<not> dockerMutationScopesConflict (widen claim) (widen c)"
    and "p \<in> set (d_points s) \<Longrightarrow> pending_restart p \<Longrightarrow> rp_host_id p \<in> set (uniq (ms_hostIds claim))
      \<Longrightarrow> \<exists>app. x_parseIdentity X (rp_app_identity p) = Inr app
        \<and> \<not> dockerMutationScopesConflict (widen claim)
             (widen (buildRecoverySourceDockerMutationScope X (rp_host_id p) app (point_context (rp_metadata p))))"
proof -
  note checks = assms(3) [unfolded assertDockerMutationDoesNotConflictWithRecovery_def Let_def and_then_Inr_iff
      check_all_ok reject_conflict_ok check_obligation_def]
  show "\<not> dockerMutationScopesConflict (widen claim) (widen c)"
    if "r \<in> set (d_jobs s)" "is_active r" "j_type r \<in> set recovery_job_types"
      "touches_hosts s (uniq (ms_hostIds claim)) r" "c \<in> set (fst (stored_scopes r) @ snd (stored_scopes r))"
    using checks that unfolding claim_def widen_def by (auto simp: check_all_ok reject_conflict_ok)
  show "\<not> dockerMutationScopesConflict (widen claim) (widen c)"
    if "c \<in> set (activeRestoreAttemptScopes s (uniq (ms_hostIds claim)))"
    using checks that unfolding claim_def widen_def by (auto simp: check_all_ok reject_conflict_ok)
  show "\<exists>app. x_parseIdentity X (rp_app_identity p) = Inr app
        \<and> \<not> dockerMutationScopesConflict (widen claim)
             (widen (buildRecoverySourceDockerMutationScope X (rp_host_id p) app (point_context (rp_metadata p))))"
    if "p \<in> set (d_points s)" "pending_restart p" "rp_host_id p \<in> set (uniq (ms_hostIds claim))"
    using checks that unfolding claim_def widen_def by (auto simp: check_all_ok reject_conflict_ok)
qed

section \<open>Properties\<close>

text \<open>
  C17: an admitted mutation spares recovery. When an enqueue adds a job with a claim, made directly or through a
  stack or a deployment analysis, then the widened claim conflicts with no claim an active recovery, migration,
  backup, restore, clone or drill job has persisted, with no unsettled restore attempt and with no source that
  waits for its restart on the claim's hosts.
\<close>

theorem admitted_mutation_spares_recovery:
  fixes s sc
  defines "widen \<equiv> canonicalizeDockerMutationScope (d_snapshots s)"
  defines "claim \<equiv> conservativeRecoveryDockerMutationScope (widen sc)"
  assumes "snd (enqueueJob X ck n a u k s) = s'" and "d_jobs s' \<noteq> d_jobs s"
    and "resolveDockerMutationScopeForJob s (row_claim (last (d_jobs s'))) = Some sc"
  shows "(\<forall>r\<in>set (d_jobs s). is_active r \<and> j_type r \<in> set recovery_job_types
        \<and> touches_hosts s (uniq (ms_hostIds claim)) r
      \<longrightarrow> (\<forall>c\<in>set (fst (stored_scopes r) @ snd (stored_scopes r)).
            \<not> dockerMutationScopesConflict (widen claim) (widen c)))
    \<and> (\<forall>c\<in>set (activeRestoreAttemptScopes s (uniq (ms_hostIds claim))).
          \<not> dockerMutationScopesConflict (widen claim) (widen c))
    \<and> (\<forall>p\<in>set (d_points s). pending_restart p \<and> rp_host_id p \<in> set (uniq (ms_hostIds claim))
        \<longrightarrow> (\<exists>app. x_parseIdentity X (rp_app_identity p) = Inr app
              \<and> \<not> dockerMutationScopesConflict (widen claim)
                   (widen (buildRecoverySourceDockerMutationScope X (rp_host_id p) app (point_context (rp_metadata p))))))"
proof (rule enqueue_cases [OF assms(3)])
  assume "d_jobs s' = d_jobs s"
  with assms(4) show ?thesis by simp
next
  fix p q L s2
  assume e: "findActiveSingleFlightJob X p k None (s\<lparr>d_locks := L\<rparr>) = Inr (None, s2)"
    "d_jobs s' = d_jobs s @ [new_job ck n p u k]"
  have "resolveDockerMutationScopeForJob (s\<lparr>d_locks := L\<rparr>) (action_claim p) = Some sc"
    using assms(5) e(2) by (simp add: resolve_new_job resolve_locks)
  from findActive_asserts [OF e(1) this]
  have "assertDockerMutationDoesNotConflictWithRecovery X (widen sc) s = Inr ()"
    by (simp add: assert_recovery_locks widen_def)
  from assert_recovery_ok [OF this] show ?thesis unfolding claim_def widen_def by blast
qed

theorem admitted_mutation_spares_recovery_witness:
  "snd (stored_scopes restore_job) = [example_scope ''compose.deployPath'' [target ''h1'' Volume ''data'']]
   \<and> \<not> dockerMutationScopesConflict
       (canonicalizeDockerMutationScope [] (example_scope ''volume.create'' [target ''h1'' Volume ''cache'']))
       (canonicalizeDockerMutationScope [] (example_scope ''compose.deployPath'' [target ''h1'' Volume ''data'']))"
proof -
  let ?a = "\<lparr>a_type = ''volume.create'', a_hostId = ''h1'', a_payload = [(''name'', JStr ''cache'')]\<rparr>"
  let ?s = "gap_db [restore_job]"
  let ?s' = "snd (enqueueJob sample_externs (clock_of 0) ''new-1'' ?a None None ?s)"
  let ?sc = "example_scope ''volume.create'' [target ''h1'' Volume ''cache'']"
  have "length (d_jobs ?s') = 2" and scope: "resolveDockerMutationScopeForJob ?s (row_claim (last (d_jobs ?s'))) = Some ?sc"
    and stored: "snd (stored_scopes restore_job) = [example_scope ''compose.deployPath'' [target ''h1'' Volume ''data'']]"
    and claim: "conservativeRecoveryDockerMutationScope (canonicalizeDockerMutationScope [] ?sc) = ?sc"
    and row: "is_active restore_job \<and> j_type restore_job \<in> set recovery_job_types
      \<and> touches_hosts ?s (uniq (ms_hostIds ?sc)) restore_job"
    by code_simp+
  then have "d_jobs ?s' \<noteq> d_jobs ?s" by (auto simp: gap_db_def jobs_db_def)
  moreover have "d_snapshots ?s = []" "restore_job \<in> set (d_jobs ?s)"
    by (simp_all add: gap_db_def jobs_db_def empty_db_def)
  ultimately show ?thesis
    using admitted_mutation_spares_recovery [OF refl _ scope] claim row stored by auto
qed


end
