(* ===== verification/Commands.thy ===== *)
theory Commands
  imports Prelude
begin

text \<open>
  The Docker command lines sent to hosts (\<^verbatim>\<open>services/commands.ts\<close>) and what a POSIX shell makes of them. Every
  value a user can choose is quoted; the properties say that the shell splits each command into exactly the
  intended arguments, with no expansion and no second command.
\<close>

section \<open>Quoting\<close>

definition quote_mark :: char where "quote_mark = CHR 0x27"

text \<open>\<^verbatim>\<open>value.replace(/'/g, "'\\''")\<close> between single quotes.\<close>

definition shQuote :: "string \<Rightarrow> string" where
  "shQuote v = [quote_mark]
     @ concat (map (\<lambda>c. if c = quote_mark then [quote_mark, CHR 0x5C, quote_mark, quote_mark] else [c]) v)
     @ [quote_mark]"

definition DOCKER_SSH_PATH :: string where
  "DOCKER_SSH_PATH = ''/usr/local/sbin:/usr/local/bin:/usr/sbin:/usr/bin:/sbin:/bin:/snap/bin''"

definition dockerEnvPrefix :: "string option \<Rightarrow> string" where
  "dockerEnvPrefix socketPath = ''PATH='' @ DOCKER_SSH_PATH @ '':$PATH DOCKER_HOST=''
     @ shQuote (''unix://'' @ (case socketPath of None \<Rightarrow> ''/var/run/docker.sock'' | Some p \<Rightarrow> p))"

definition withDockerEnv :: "string \<Rightarrow> string option \<Rightarrow> string" where
  "withDockerEnv command socketPath = dockerEnvPrefix socketPath @ '' '' @ command"

section \<open>Actions\<close>

record env_var = ev_key :: string ev_value :: string
record port_mapping = pm_hostPort :: nat pm_containerPort :: nat pm_protocol :: string
record volume_mount = vm_volumeName :: string vm_containerPath :: string vm_readOnly :: bool

record run_payload =
  rn_image :: string
  rn_name :: "string option"
  rn_restartPolicy :: string
  rn_ports :: "port_mapping list"
  rn_env :: "env_var list"
  rn_volumes :: "volume_mount list"
  rn_network :: "string option"
  rn_command :: "string option"

record network_payload =
  nw_name :: string
  nw_driver :: string
  nw_subnet :: "string option"
  nw_gateway :: "string option"
  nw_attachable :: bool
  nw_internal :: bool
  nw_labels :: "(string \<times> string) list"

datatype cli_action =
    ContainerRun run_payload
  | ContainerStart string
  | ContainerStop string "nat option"
  | ContainerRestart string "nat option"
  | ContainerRename string string
  | ContainerRemove string bool bool
  | ImagePull string
  | ImageRemove string bool
  | ImagePrune bool
  | NetworkCreate network_payload
  | NetworkRemove string
  | NetworkPrune
  | VolumeCreate string "(string \<times> string) list"
  | VolumeRemove string bool
  | VolumePrune
  | OtherAction string

text \<open>An optional string is used where it is truthy.\<close>

definition truthy :: "string option \<Rightarrow> string list" where
  "truthy v = (case v of None \<Rightarrow> [] | Some s \<Rightarrow> if s = [] then [] else [s])"

definition labelsToArgs :: "(string \<times> string) list \<Rightarrow> string list" where
  "labelsToArgs labels = map (\<lambda>(k, v). ''--label '' @ shQuote (k @ ''='' @ v)) labels"

definition env_text :: "env_var \<Rightarrow> string" where
  "env_text e = ev_key e @ ''='' @ ev_value e"

definition port_text :: "port_mapping \<Rightarrow> string" where
  "port_text p = show_nat (pm_hostPort p) @ '':'' @ show_nat (pm_containerPort p) @ ''/'' @ pm_protocol p"

definition mount_text :: "volume_mount \<Rightarrow> string" where
  "mount_text m = vm_volumeName m @ '':'' @ vm_containerPath m @ (if vm_readOnly m then '':ro'' else [])"

definition run_args :: "run_payload \<Rightarrow> string list" where
  "run_args p = [''docker run -d'']
     @ concat (map (\<lambda>n. [''--name'', shQuote n]) (truthy (rn_name p)))
     @ (if rn_restartPolicy p \<noteq> ''no'' then [''--restart'', shQuote (rn_restartPolicy p)] else [])
     @ concat (map (\<lambda>n. [''--network'', shQuote n]) (truthy (rn_network p)))
     @ concat (map (\<lambda>e. [''--env'', shQuote (env_text e)]) (rn_env p))
     @ concat (map (\<lambda>q. [''--publish'', shQuote (port_text q)]) (rn_ports p))
     @ concat (map (\<lambda>m. [''--volume'', shQuote (mount_text m)]) (rn_volumes p))
     @ [shQuote (rn_image p)]
     @ concat (map (\<lambda>c. [''sh'', ''-lc'', shQuote c]) (truthy (rn_command p)))"

definition network_args :: "network_payload \<Rightarrow> string list" where
  "network_args p = [''docker network create'', ''--driver'', shQuote (nw_driver p)]
     @ concat (map (\<lambda>n. [''--subnet'', shQuote n]) (truthy (nw_subnet p)))
     @ concat (map (\<lambda>n. [''--gateway'', shQuote n]) (truthy (nw_gateway p)))
     @ (if nw_attachable p then [''--attachable''] else [])
     @ (if nw_internal p then [''--internal''] else [])
     @ labelsToArgs (nw_labels p) @ [shQuote (nw_name p)]"

definition timeout_text :: "nat option \<Rightarrow> string" where
  "timeout_text t = (case t of None \<Rightarrow> [] | Some n \<Rightarrow> if n = 0 then [] else ''--time '' @ show_nat n)"

fun buildDockerActionCommand :: "cli_action \<Rightarrow> string result" where
  "buildDockerActionCommand (ContainerRun p) = Inr (join_with '' '' (run_args p))"
| "buildDockerActionCommand (ContainerStart c) = Inr (''docker start '' @ shQuote c)"
| "buildDockerActionCommand (ContainerStop c t) = Inr (trim (''docker stop '' @ timeout_text t @ '' '' @ shQuote c))"
| "buildDockerActionCommand (ContainerRestart c t) =
     Inr (trim (''docker restart '' @ timeout_text t @ '' '' @ shQuote c))"
| "buildDockerActionCommand (ContainerRename c n) = Inr (''docker rename '' @ shQuote c @ '' '' @ shQuote n)"
| "buildDockerActionCommand (ContainerRemove c force volumes) = Inr (join_with '' ''
     ([''docker rm''] @ (if force then [''--force''] else []) @ (if volumes then [''--volumes''] else []) @ [shQuote c]))"
| "buildDockerActionCommand (ImagePull i) = Inr (''docker pull '' @ shQuote i)"
| "buildDockerActionCommand (ImageRemove i force) =
     Inr (''docker image rm '' @ (if force then ''--force '' else []) @ shQuote i)"
| "buildDockerActionCommand (ImagePrune all) = Inr (''docker image prune --force'' @ (if all then '' --all'' else []))"
| "buildDockerActionCommand (NetworkCreate p) =
     (if nw_driver p = ''host'' \<or> nw_driver p = ''none''
      then Inl (PlainError (nw_driver p @ '' is a built-in Docker network type and cannot be created as a custom network.''))
      else Inr (join_with '' '' (network_args p)))"
| "buildDockerActionCommand (NetworkRemove n) = Inr (''docker network rm '' @ shQuote n)"
| "buildDockerActionCommand NetworkPrune = Inr ''docker network prune --force''"
| "buildDockerActionCommand (VolumeCreate n labels) =
     Inr (join_with '' '' ([''docker volume create''] @ labelsToArgs labels @ [shQuote n]))"
| "buildDockerActionCommand (VolumeRemove n force) =
     Inr (''docker volume rm '' @ (if force then ''--force '' else []) @ shQuote n)"
| "buildDockerActionCommand VolumePrune = Inr ''docker volume prune --force''"
| "buildDockerActionCommand (OtherAction type) =
     Inl (PlainError (''Action '' @ type @ '' does not map to a single Docker CLI command.''))"

datatype compose_action = Up | Stop | Down | Pull

datatype environment_file = EnvPath string | EnvRemoteInput

definition buildComposeCommand ::
    "string \<Rightarrow> string \<Rightarrow> compose_action \<Rightarrow> bool \<Rightarrow> environment_file option \<Rightarrow> bool \<Rightarrow> string" where
  "buildComposeCommand projectName remoteComposePath action removeVolumes environmentFile buildBeforeUp =
     (let envFile = (case environmentFile of
              None \<Rightarrow> []
            | Some (EnvPath p) \<Rightarrow> '' --env-file '' @ shQuote p
            | Some EnvRemoteInput \<Rightarrow> '' --env-file '' @ [CHR 0x22] @ ''$COMPOSEBASTION_REMOTE_INPUT'' @ [CHR 0x22]);
          base = ''docker compose'' @ envFile @ '' -p '' @ shQuote projectName @ '' -f '' @ shQuote remoteComposePath
      in case action of
           Pull \<Rightarrow> base @ '' pull''
         | Up \<Rightarrow> base @ '' up -d'' @ (if buildBeforeUp then '' --build'' else []) @ '' --remove-orphans --force-recreate''
         | Stop \<Rightarrow> base @ '' stop''
         | Down \<Rightarrow> base @ '' down --remove-orphans'' @ (if removeVolumes then '' --volumes'' else []))"

section \<open>The shell\<close>

text \<open>
  Token recognition of a POSIX shell on the part of its language that has no expansion and no operator: blanks
  separate words, a single quote quotes up to the next one, a backslash quotes one character. The
  scan has no result where the line uses anything else: an unquoted character with a meaning of its own,
  an open quote, or a null character, which no argument can hold.
\<close>

datatype sh_mode = Between | InWord string | Quoted string | Escaped string

definition is_plain :: "char \<Rightarrow> bool" where
  "is_plain c = (let n = (of_char c :: nat) in
     (48 \<le> n \<and> n \<le> 57) \<or> (65 \<le> n \<and> n \<le> 90) \<or> (97 \<le> n \<and> n \<le> 122) \<or> n \<in> {43, 44, 45, 46, 47, 58, 64, 95})"

definition is_blank :: "char \<Rightarrow> bool" where
  "is_blank c \<longleftrightarrow> c = CHR 0x20 \<or> c = CHR 0x09"

fun sh_scan :: "sh_mode \<Rightarrow> string \<Rightarrow> string list option" where
  "sh_scan Between [] = Some []"
| "sh_scan Between (c # s) =
     (if is_blank c then sh_scan Between s
      else if c = quote_mark then sh_scan (Quoted []) s
      else if c = CHR 0x5C then sh_scan (Escaped []) s
      else if is_plain c then sh_scan (InWord [c]) s else None)"
| "sh_scan (InWord w) [] = Some [w]"
| "sh_scan (InWord w) (c # s) =
     (if is_blank c then map_option (Cons w) (sh_scan Between s)
      else if c = quote_mark then sh_scan (Quoted w) s
      else if c = CHR 0x5C then sh_scan (Escaped w) s
      else if is_plain c then sh_scan (InWord (w @ [c])) s else None)"
| "sh_scan (Quoted w) [] = None"
| "sh_scan (Quoted w) (c # s) =
     (if c = quote_mark then sh_scan (InWord w) s
      else if c = CHR 0x00 then None else sh_scan (Quoted (w @ [c])) s)"
| "sh_scan (Escaped w) [] = None"
| "sh_scan (Escaped w) (c # s) =
     (if c = CHR 0x0A \<or> c = CHR 0x00 then None else sh_scan (InWord (w @ [c])) s)"

definition sh_words :: "string \<Rightarrow> string list option" where
  "sh_words line = sh_scan Between line"

section \<open>The intended arguments\<close>

fun docker_argv :: "cli_action \<Rightarrow> string list" where
  "docker_argv (ContainerRun p) = [''docker'', ''run'', ''-d'']
     @ concat (map (\<lambda>n. [''--name'', n]) (truthy (rn_name p)))
     @ (if rn_restartPolicy p \<noteq> ''no'' then [''--restart'', rn_restartPolicy p] else [])
     @ concat (map (\<lambda>n. [''--network'', n]) (truthy (rn_network p)))
     @ concat (map (\<lambda>e. [''--env'', env_text e]) (rn_env p))
     @ concat (map (\<lambda>q. [''--publish'', port_text q]) (rn_ports p))
     @ concat (map (\<lambda>m. [''--volume'', mount_text m]) (rn_volumes p))
     @ [rn_image p] @ concat (map (\<lambda>c. [''sh'', ''-lc'', c]) (truthy (rn_command p)))"
| "docker_argv (ContainerStart c) = [''docker'', ''start'', c]"
| "docker_argv (ContainerStop c t) = [''docker'', ''stop'']
     @ (case t of None \<Rightarrow> [] | Some n \<Rightarrow> if n = 0 then [] else [''--time'', show_nat n]) @ [c]"
| "docker_argv (ContainerRestart c t) = [''docker'', ''restart'']
     @ (case t of None \<Rightarrow> [] | Some n \<Rightarrow> if n = 0 then [] else [''--time'', show_nat n]) @ [c]"
| "docker_argv (ContainerRename c n) = [''docker'', ''rename'', c, n]"
| "docker_argv (ContainerRemove c force volumes) = [''docker'', ''rm'']
     @ (if force then [''--force''] else []) @ (if volumes then [''--volumes''] else []) @ [c]"
| "docker_argv (ImagePull i) = [''docker'', ''pull'', i]"
| "docker_argv (ImageRemove i force) = [''docker'', ''image'', ''rm''] @ (if force then [''--force''] else []) @ [i]"
| "docker_argv (ImagePrune all) = [''docker'', ''image'', ''prune'', ''--force''] @ (if all then [''--all''] else [])"
| "docker_argv (NetworkCreate p) = [''docker'', ''network'', ''create'', ''--driver'', nw_driver p]
     @ concat (map (\<lambda>n. [''--subnet'', n]) (truthy (nw_subnet p)))
     @ concat (map (\<lambda>n. [''--gateway'', n]) (truthy (nw_gateway p)))
     @ (if nw_attachable p then [''--attachable''] else [])
     @ (if nw_internal p then [''--internal''] else [])
     @ concat (map (\<lambda>(k, v). [''--label'', k @ ''='' @ v]) (nw_labels p)) @ [nw_name p]"
| "docker_argv (NetworkRemove n) = [''docker'', ''network'', ''rm'', n]"
| "docker_argv NetworkPrune = [''docker'', ''network'', ''prune'', ''--force'']"
| "docker_argv (VolumeCreate n labels) = [''docker'', ''volume'', ''create'']
     @ concat (map (\<lambda>(k, v). [''--label'', k @ ''='' @ v]) labels) @ [n]"
| "docker_argv (VolumeRemove n force) = [''docker'', ''volume'', ''rm''] @ (if force then [''--force''] else []) @ [n]"
| "docker_argv VolumePrune = [''docker'', ''volume'', ''prune'', ''--force'']"
| "docker_argv (OtherAction _) = []"

fun compose_argv :: "string \<Rightarrow> string \<Rightarrow> compose_action \<Rightarrow> bool \<Rightarrow> string option \<Rightarrow> bool \<Rightarrow> string list" where
  "compose_argv projectName remoteComposePath action removeVolumes envPath buildBeforeUp =
     [''docker'', ''compose''] @ (case envPath of None \<Rightarrow> [] | Some p \<Rightarrow> [''--env-file'', p])
     @ [''-p'', projectName, ''-f'', remoteComposePath]
     @ (case action of
          Pull \<Rightarrow> [''pull'']
        | Up \<Rightarrow> [''up'', ''-d''] @ (if buildBeforeUp then [''--build''] else []) @ [''--remove-orphans'', ''--force-recreate'']
        | Stop \<Rightarrow> [''stop'']
        | Down \<Rightarrow> [''down'', ''--remove-orphans''] @ (if removeVolumes then [''--volumes''] else []))"

definition no_null :: "string \<Rightarrow> bool" where
  "no_null w \<longleftrightarrow> CHR 0x00 \<notin> set w"

text \<open>No argument of a program can hold a null character.\<close>

definition passable :: "string list \<Rightarrow> bool" where
  "passable ws = (\<forall>w\<in>set ws. no_null w)"

lemma passable_simps [simp]:
  "passable []" "passable (w # ws) \<longleftrightarrow> no_null w \<and> passable ws"
  "passable (ws @ vs) \<longleftrightarrow> passable ws \<and> passable vs"
  "passable (concat (map f xs)) \<longleftrightarrow> (\<forall>x\<in>set xs. passable (f x))"
  by (auto simp: passable_def)

section \<open>Scanning\<close>

text \<open>The text \<open>p\<close> stands for the words \<open>ws\<close>, at the end of a line and before a blank.\<close>

definition denotes :: "string \<Rightarrow> string list \<Rightarrow> bool" where
  "denotes p ws \<longleftrightarrow> sh_scan Between p = Some ws
     \<and> (\<forall>s. sh_scan Between (p @ CHR 0x20 # s) = map_option (append ws) (sh_scan Between s))"

lemma denotes_words: "denotes p ws \<Longrightarrow> sh_words p = Some ws"
  by (simp add: denotes_def sh_words_def)

lemma map_option_append_append [simp]:
  "map_option (append xs) (map_option (append ys) r) = map_option (append (xs @ ys)) r"
  by (cases r) simp_all

lemma blank_space [simp]: "is_blank CHR 0x20"
  by (simp add: is_blank_def)

lemma scan_quoted:
  assumes "no_null v"
  shows "sh_scan (Quoted w)
      (concat (map (\<lambda>c. if c = quote_mark then [quote_mark, CHR 0x5C, quote_mark, quote_mark] else [c]) v) @ quote_mark # s)
    = sh_scan (InWord (w @ v)) s"
  using assms by (induction v arbitrary: w) (auto simp: no_null_def quote_mark_def is_blank_def)

lemma scan_shQuote:
  "no_null v \<Longrightarrow> sh_scan Between (shQuote v @ s) = sh_scan (InWord v) s"
  using scan_quoted [of v "[]" s] by (simp add: shQuote_def is_blank_def quote_mark_def)

lemma denotes_shQuote: "no_null v \<Longrightarrow> denotes (shQuote v) [v]"
  using scan_shQuote [of v "[]"] scan_shQuote [of v]
  by (auto simp: denotes_def fun_eq_iff intro!: option.map_cong0)

lemma denotes_space:
  assumes "denotes p ws" and "denotes q vs"
  shows "denotes (p @ CHR 0x20 # q) (ws @ vs)"
  using assms unfolding denotes_def by (metis (no_types, lifting) append.assoc append_Cons map_option_append_append option.simps(9))

lemma append_Nil_id: "append [] = (\<lambda>xs. xs)"
  by (rule ext) simp

lemma append_Cons_fun: "append (x # xs) = (\<lambda>ys. x # xs @ ys)"
  by (rule ext) simp

lemma denotes_empty: "denotes [] []"
  by (simp add: denotes_def append_Nil_id option.map_ident)

text \<open>A literal option or word of the code: characters without a meaning of their own.\<close>

lemma scan_plain:
  "\<forall>c\<in>set p. is_plain c \<Longrightarrow> sh_scan (InWord w) (p @ s) = sh_scan (InWord (w @ p)) s"
proof (induction p arbitrary: w)
  case (Cons c p)
  then have "is_plain c" by simp
  then have "\<not> is_blank c" "c \<noteq> quote_mark" "c \<noteq> CHR 0x5C"
    by (auto simp: is_plain_def is_blank_def quote_mark_def)
  with Cons show ?case by simp
qed simp

lemma denotes_plain:
  assumes "p \<noteq> []" and "\<forall>c\<in>set p. is_plain c"
  shows "denotes p [p]"
proof (cases p)
  case (Cons c q)
  with assms have "is_plain c" "\<forall>c\<in>set q. is_plain c" by auto
  moreover from this have "\<not> is_blank c" "c \<noteq> quote_mark" "c \<noteq> CHR 0x5C"
    by (auto simp: is_plain_def is_blank_def quote_mark_def)
  ultimately show ?thesis
    using scan_plain [of q "[c]"] scan_plain [of q "[c]" "[]"]
    by (auto simp: denotes_def Cons intro!: option.map_cong0)
qed (simp add: assms)

text \<open>The pieces a command is joined from, and the words they stand for together.\<close>

inductive pieces :: "string list \<Rightarrow> string list \<Rightarrow> bool" where
  none: "pieces [] []"
| more: "denotes p ws \<Longrightarrow> pieces ps vs \<Longrightarrow> pieces (p # ps) (ws @ vs)"

lemma pieces_append: "pieces ps ws \<Longrightarrow> pieces qs vs \<Longrightarrow> pieces (ps @ qs) (ws @ vs)"
  by (induction rule: pieces.induct) (auto intro: pieces.intros)

lemma pieces_one: "denotes p ws \<Longrightarrow> pieces [p] ws"
  using pieces.more [OF _ pieces.none] by fastforce

lemma pieces_concat:
  "(\<And>x. x \<in> set xs \<Longrightarrow> pieces (f x) (g x)) \<Longrightarrow> pieces (concat (map f xs)) (concat (map g xs))"
  by (induction xs) (auto intro: pieces.none pieces_append)

lemma pieces_join: "pieces ps ws \<Longrightarrow> denotes (join_with '' '' ps) ws"
proof (induction rule: pieces.induct)
  case none
  then show ?case by (simp add: denotes_empty)
next
  case (more p ws ps vs)
  show ?case
  proof (cases ps)
    case Nil
    with more.hyps(2) have "vs = []" by (auto elim: pieces.cases)
    with Nil more.hyps(1) show ?thesis by simp
  next
    case (Cons q qs)
    with denotes_space [OF more.hyps(1) more.IH] show ?thesis by simp
  qed
qed

lemma pieces_flag: "denotes flag [flag] \<Longrightarrow> no_null w \<Longrightarrow> pieces [flag, shQuote w] [flag, w]"
  using pieces_append [OF pieces_one pieces_one [OF denotes_shQuote], of flag "[flag]" w] by simp

lemma pieces_label:
  assumes "passable (concat (map (\<lambda>(k, v). [''--label'', k @ ''='' @ v]) labels))"
  shows "pieces (labelsToArgs labels) (concat (map (\<lambda>(k, v). [''--label'', k @ ''='' @ v]) labels))"
  using assms
proof (induction labels)
  case (Cons kv labels)
  obtain k v where kv: "kv = (k, v)" by force
  have "denotes (''--label'' @ CHR 0x20 # shQuote (k @ ''='' @ v)) ([''--label''] @ [k @ ''='' @ v])"
    using Cons.prems kv by (intro denotes_space denotes_plain denotes_shQuote) (simp_all add: is_plain_def)
  with Cons kv show ?case
    using pieces.more [of "''--label '' @ shQuote (k @ ''='' @ v)" "[''--label'', k @ ''='' @ v]"]
    by (simp add: labelsToArgs_def)
qed (simp add: labelsToArgs_def pieces.none)

text \<open>Texts of several literal words, and a line that ends in a quoted value.\<close>

lemma denotes_literals:
  "denotes ''docker run -d'' [''docker'', ''run'', ''-d'']"
  "denotes ''docker network create'' [''docker'', ''network'', ''create'']"
  "denotes ''docker volume create'' [''docker'', ''volume'', ''create'']"
  "denotes ''docker rm'' [''docker'', ''rm'']"
  by (simp_all add: denotes_def is_plain_def is_blank_def quote_mark_def append_Cons_fun option.map_comp o_def)

lemma denotes_flags:
  "denotes ''--name'' [''--name'']" "denotes ''--restart'' [''--restart'']" "denotes ''--network'' [''--network'']"
  "denotes ''--env'' [''--env'']" "denotes ''--publish'' [''--publish'']" "denotes ''--volume'' [''--volume'']"
  "denotes ''--driver'' [''--driver'']" "denotes ''--subnet'' [''--subnet'']" "denotes ''--gateway'' [''--gateway'']"
  "denotes ''--attachable'' [''--attachable'']" "denotes ''--internal'' [''--internal'']"
  "denotes ''--force'' [''--force'']" "denotes ''--volumes'' [''--volumes'']"
  "denotes ''sh'' [''sh'']" "denotes ''-lc'' [''-lc'']"
  by (simp_all add: denotes_plain is_plain_def)

lemma show_nat_plain: "c \<in> set (show_nat n) \<Longrightarrow> is_plain c"
  by (auto dest!: show_nat_chars simp: is_plain_def)

lemma denotes_show_nat: "denotes (show_nat n) [show_nat n]"
  by (rule denotes_plain) (auto simp: show_nat_plain show_nat_nonempty)

lemma trim_quoted: "\<not> is_ws c \<Longrightarrow> trim (c # s @ shQuote v) = c # s @ shQuote v"
  by (simp add: trim_def shQuote_def is_ws_def quote_mark_def)

lemma pieces_run:
  assumes "passable (docker_argv (ContainerRun p))"
  shows "pieces (run_args p) (docker_argv (ContainerRun p))"
  unfolding run_args_def docker_argv.simps
  using assms
  by (intro pieces_append pieces_concat)
     (auto intro!: pieces_one pieces_flag denotes_shQuote denotes_literals denotes_flags pieces.none
        pieces.more [of _ "[_]", simplified] split: if_splits)

lemma pieces_network:
  assumes "passable (docker_argv (NetworkCreate p))"
  shows "pieces (network_args p) (docker_argv (NetworkCreate p))"
proof -
  have head: "pieces [''docker network create'', ''--driver'', shQuote (nw_driver p)]
      [''docker'', ''network'', ''create'', ''--driver'', nw_driver p]"
    using assms pieces.more [OF denotes_literals(2) pieces_flag [OF denotes_flags(7)]] by simp
  show ?thesis
    unfolding network_args_def docker_argv.simps
    using assms
    by (intro pieces_append pieces_concat pieces_label head)
       (auto intro!: pieces_one pieces_flag denotes_shQuote denotes_flags pieces.none split: if_splits)
qed

lemma pieces_volume:
  assumes "passable (docker_argv (VolumeCreate n labels))"
  shows "pieces ([''docker volume create''] @ labelsToArgs labels @ [shQuote n]) (docker_argv (VolumeCreate n labels))"
  using assms unfolding docker_argv.simps
  by (intro pieces_append pieces_label pieces_one denotes_shQuote denotes_literals) auto

lemma denotes_timeout:
  "denotes (timeout_text t) (case t of None \<Rightarrow> [] | Some n \<Rightarrow> if n = 0 then [] else [''--time'', show_nat n])"
proof (cases t)
  case (Some n)
  have "denotes (''--time'' @ CHR 0x20 # show_nat n) ([''--time''] @ [show_nat n])"
    by (intro denotes_space denotes_show_nat denotes_plain) (simp_all add: is_plain_def)
  with Some show ?thesis by (simp add: timeout_text_def denotes_empty)
qed (simp add: timeout_text_def denotes_empty)

lemma denotes_timed:
  assumes "denotes p ws" and "no_null c"
  shows "denotes (p @ CHR 0x20 # timeout_text t @ CHR 0x20 # shQuote c)
    (ws @ (case t of None \<Rightarrow> [] | Some n \<Rightarrow> if n = 0 then [] else [''--time'', show_nat n]) @ [c])"
  using assms by (intro denotes_space denotes_timeout denotes_shQuote)

lemma denotes_stop:
  "denotes ''docker stop'' [''docker'', ''stop'']" "denotes ''docker restart'' [''docker'', ''restart'']"
  by (simp_all add: denotes_def is_plain_def is_blank_def quote_mark_def append_Cons_fun option.map_comp o_def)

lemmas scan_simps = scan_shQuote is_plain_def is_blank_def quote_mark_def sh_words_def

lemma scan_shQuote_end: "no_null v \<Longrightarrow> sh_scan Between (shQuote v) = Some [v]"
  using scan_shQuote [of v "[]"] by simp

text \<open>
  C34: For every Docker action, the shell splits the command line built from it into exactly the intended
  argument vector, whatever the names, images, environment values and commands the user chose, as long as none
  holds a null character: no value is split, expanded, or read as a second command.
\<close>

theorem docker_command_argv:
  assumes "buildDockerActionCommand a = Inr line" and "passable (docker_argv a)"
  shows "sh_words line = Some (docker_argv a)"
proof (cases a)
  case (ContainerRun p)
  with assms show ?thesis using denotes_words [OF pieces_join [OF pieces_run]] by (auto simp del: docker_argv.simps)
next
  case (ContainerStop c t)
  with assms show ?thesis
    using denotes_words [OF denotes_timed [OF denotes_stop(1)], of c t]
      trim_quoted [of "CHR ''d''" "''ocker stop '' @ timeout_text t @ '' ''" c] by (simp add: is_ws_def)
next
  case (ContainerRestart c t)
  with assms show ?thesis
    using denotes_words [OF denotes_timed [OF denotes_stop(2)], of c t]
      trim_quoted [of "CHR ''d''" "''ocker restart '' @ timeout_text t @ '' ''" c] by (simp add: is_ws_def)
next
  case (ContainerRemove c force volumes)
  have "pieces ([''docker rm''] @ (if force then [''--force''] else []) @ (if volumes then [''--volumes''] else []) @ [shQuote c])
      (docker_argv a)"
    using assms(2) unfolding ContainerRemove docker_argv.simps
    by (intro pieces_append pieces_one denotes_literals denotes_shQuote)
       (auto intro!: pieces_one pieces.none denotes_flags)
  from denotes_words [OF pieces_join [OF this]] show ?thesis using assms(1) ContainerRemove
    by (auto simp del: docker_argv.simps)
next
  case (NetworkCreate p)
  with assms show ?thesis
    using denotes_words [OF pieces_join [OF pieces_network]]
    by (auto simp del: docker_argv.simps split: if_splits)
next
  case (VolumeCreate n labels)
  with assms show ?thesis using denotes_words [OF pieces_join [OF pieces_volume]]
    by (auto simp del: docker_argv.simps)
qed (use assms in \<open>auto simp: scan_simps scan_shQuote_end split: if_splits\<close>)

theorem docker_command_argv_witness:
  "sh_words (''docker pull '' @ shQuote (''nginx'' @ [CHR 0x27] @ ''; reboot''))
     = Some [''docker'', ''pull'', ''nginx'' @ [CHR 0x27] @ ''; reboot'']"
  using docker_command_argv [of "ImagePull (''nginx'' @ [CHR 0x27] @ ''; reboot'')"] by (simp add: no_null_def)

text \<open>
  The Compose command line is split into exactly the intended argument vector for every project name,
  compose path and environment file path without a null character, for each of the four actions.
\<close>

theorem compose_command_argv:
  assumes "passable (compose_argv projectName remoteComposePath action removeVolumes envPath buildBeforeUp)"
  shows "sh_words (buildComposeCommand projectName remoteComposePath action removeVolumes
            (map_option EnvPath envPath) buildBeforeUp)
       = Some (compose_argv projectName remoteComposePath action removeVolumes envPath buildBeforeUp)"
  using assms
  by (cases action; cases envPath)
     (auto simp: buildComposeCommand_def scan_simps)

theorem compose_command_argv_witness:
  "sh_words (buildComposeCommand ''my app'' ''/srv/$x/compose.yml'' Up False (Some (EnvPath ''/tmp/e'')) True)
     = Some (compose_argv ''my app'' ''/srv/$x/compose.yml'' Up False (Some ''/tmp/e'') True)"
  using compose_command_argv [of "''my app''" "''/srv/$x/compose.yml''" Up False "Some ''/tmp/e''" True]
  by (simp add: no_null_def)

end
