(* ===== verification/Session.thy ===== *)
theory Session
  imports Job_Queue
begin

text \<open>
  Background work that talks to remote hosts, as a session: a program over the database, the remote side and a log of what
  was sent. Each statement runs after whatever other transactions did since the last one; a program may throw at any
  point. The locale at the end states properties of the log once, for every kind of session.
\<close>

section \<open>Programs\<close>

text \<open>What other transactions do before each statement, and the clock the statement sees.\<close>

type_synonym turns = "nat \<Rightarrow> clock \<times> (db \<Rightarrow> db)"

record ('h, 'l) session =
  ss_db :: db
  ss_host :: 'h
  ss_tick :: nat
  ss_log :: "'l list"

type_synonym ('e, 'h, 'l, 'a) program = "('h, 'l) session \<Rightarrow> ('e + 'a) \<times> ('h, 'l) session"

definition step_return :: "'a \<Rightarrow> ('e, 'h, 'l, 'a) program" where
  "step_return x s = (Inr x, s)"

definition step_throw :: "'e \<Rightarrow> ('e, 'h, 'l, 'a) program" where
  "step_throw e s = (Inl e, s)"

definition step_bind ::
    "('e, 'h, 'l, 'a) program \<Rightarrow> ('a \<Rightarrow> ('e, 'h, 'l, 'b) program) \<Rightarrow> ('e, 'h, 'l, 'b) program" where
  "step_bind m f s = (case m s of (Inl e, s') \<Rightarrow> (Inl e, s') | (Inr x, s') \<Rightarrow> f x s')"

definition step_catch ::
    "('e, 'h, 'l, 'a) program \<Rightarrow> ('e \<Rightarrow> ('e, 'h, 'l, 'a) program) \<Rightarrow> ('e, 'h, 'l, 'a) program" where
  "step_catch m f s = (case m s of (Inl e, s') \<Rightarrow> f e s' | (Inr x, s') \<Rightarrow> (Inr x, s'))"

fun step_each :: "('a \<Rightarrow> ('e, 'h, 'l, unit) program) \<Rightarrow> 'a list \<Rightarrow> ('e, 'h, 'l, unit) program" where
  "step_each f [] = step_return ()"
| "step_each f (x # xs) = step_bind (f x) (\<lambda>_. step_each f xs)"

fun step_map :: "('a \<Rightarrow> ('e, 'h, 'l, 'b) program) \<Rightarrow> 'a list \<Rightarrow> ('e, 'h, 'l, 'b list) program" where
  "step_map f [] = step_return []"
| "step_map f (x # xs) = step_bind (f x) (\<lambda>y. step_bind (step_map f xs) (\<lambda>ys. step_return (y # ys)))"

definition statement :: "turns \<Rightarrow> (clock \<Rightarrow> db \<Rightarrow> ('e + 'a) \<times> db) \<Rightarrow> ('e, 'h, 'l, 'a) program" where
  "statement turns f s =
     (let (ck, others) = turns (ss_tick s);
          (r, s') = f ck (others (ss_db s))
      in (r, s\<lparr>ss_db := s', ss_tick := ss_tick s + 1\<rparr>))"

text \<open>A statement that only reads.\<close>

definition reading :: "turns \<Rightarrow> (clock \<Rightarrow> db \<Rightarrow> 'e + 'a) \<Rightarrow> ('e, 'h, 'l, 'a) program" where
  "reading turns f = statement turns (\<lambda>ck s. (f ck s, s))"

text \<open>The time of the process, between two statements.\<close>

definition process_time :: "turns \<Rightarrow> ('e, 'h, 'l, timestamp) program" where
  "process_time turns s = (Inr (ck_clock (fst (turns (ss_tick s)))), s)"

text \<open>A call to the remote side, logged with its answer.\<close>

definition call :: "('h \<Rightarrow> 'r \<times> 'h) \<Rightarrow> ('r \<Rightarrow> db \<Rightarrow> 'l) \<Rightarrow> ('r \<Rightarrow> 'e + 'a) \<Rightarrow> ('e, 'h, 'l, 'a) program" where
  "call run entry answer s =
     (let (r, h) = run (ss_host s)
      in (answer r, s\<lparr>ss_host := h, ss_log := ss_log s @ [entry r (ss_db s)]\<rparr>))"

section \<open>Hosts\<close>

text \<open>The answer of a command, and the connection details of a host (\<^verbatim>\<open>hosts.ts\<close>).\<close>

record command_result =
  cr_code :: int
  cr_stdout :: string
  cr_stderr :: string

record host_connection =
  hc_connectionMode :: string
  hc_agent :: bool
  hc_dockerSocketPath :: string
  hc_tags :: "string list"

text \<open>\<^verbatim>\<open>a || b || c\<close> on strings\<close>

definition first_text :: "string \<Rightarrow> string \<Rightarrow> string \<Rightarrow> string" where
  "first_text a b c = (if a \<noteq> [] then a else if b \<noteq> [] then b else c)"

section \<open>Properties of the log\<close>

text \<open>
  A property of what a program adds to the log that holds of nothing and of two logs one after the other holds of a
  composed program when it holds of its parts.
\<close>

locale log_property =
  fixes good :: "'l list \<Rightarrow> bool"
  assumes good_Nil: "good []" and good_append: "good a \<Longrightarrow> good b \<Longrightarrow> good (a @ b)"
begin

definition logs :: "('e, 'h, 'l, 'a) program \<Rightarrow> bool" where
  "logs m \<longleftrightarrow> (\<forall>s r s'. m s = (r, s') \<longrightarrow> (\<exists>new. ss_log s' = ss_log s @ new \<and> good new))"

lemma logs_return: "logs (step_return x)"
  by (auto simp: logs_def step_return_def good_Nil)

lemma logs_throw: "logs (step_throw x)"
  by (auto simp: logs_def step_throw_def good_Nil)

lemma logs_statement: "logs (statement turns f)"
  by (auto simp: logs_def statement_def good_Nil split: prod.splits)

lemma logs_reading: "logs (reading turns f)"
  unfolding reading_def by (rule logs_statement)

lemma logs_process_time: "logs (process_time turns)"
  by (auto simp: logs_def process_time_def good_Nil)

lemma logs_call: "(\<And>r d. good [entry r d]) \<Longrightarrow> logs (call run entry answer)"
  by (auto simp: logs_def call_def split: prod.splits)

lemma logs_after:
  assumes "logs m" and "m s = (q, t)" and "\<exists>new. ss_log s' = ss_log t @ new \<and> good new"
  shows "\<exists>new. ss_log s' = ss_log s @ new \<and> good new"
  using assms good_append unfolding logs_def by (metis append_assoc)

lemma logs_bind_result:
  assumes "logs m" and "\<And>x s t. m s = (Inr x, t) \<Longrightarrow> logs (f x)"
  shows "logs (step_bind m f)"
  unfolding logs_def
proof (intro allI impI)
  fix s r s' assume run: "step_bind m f s = (r, s')"
  obtain q t where m: "m s = (q, t)" by force
  show "\<exists>new. ss_log s' = ss_log s @ new \<and> good new"
  proof (rule logs_after [OF assms(1) m], cases q)
    case (Inl e)
    with run m show "\<exists>new. ss_log s' = ss_log t @ new \<and> good new" by (auto simp: step_bind_def good_Nil)
  next
    case (Inr x)
    with run m have "f x t = (r, s')" by (simp add: step_bind_def)
    moreover have "logs (f x)" using assms(2) m Inr by simp
    ultimately show "\<exists>new. ss_log s' = ss_log t @ new \<and> good new" unfolding logs_def by blast
  qed
qed

lemma logs_bind: "logs m \<Longrightarrow> (\<And>x. logs (f x)) \<Longrightarrow> logs (step_bind m f)"
  by (rule logs_bind_result)

lemma logs_catch:
  assumes "logs m" and "\<And>x. logs (f x)"
  shows "logs (step_catch m f)"
  unfolding logs_def
proof (intro allI impI)
  fix s r s' assume run: "step_catch m f s = (r, s')"
  obtain q t where m: "m s = (q, t)" by force
  show "\<exists>new. ss_log s' = ss_log s @ new \<and> good new"
  proof (rule logs_after [OF assms(1) m], cases q)
    case (Inl e)
    with run m have "f e t = (r, s')" by (simp add: step_catch_def)
    with assms(2) show "\<exists>new. ss_log s' = ss_log t @ new \<and> good new" unfolding logs_def by blast
  next
    case (Inr x)
    with run m show "\<exists>new. ss_log s' = ss_log t @ new \<and> good new" by (auto simp: step_catch_def good_Nil)
  qed
qed

lemma logs_if: "(c \<Longrightarrow> logs m) \<Longrightarrow> (\<not> c \<Longrightarrow> logs n) \<Longrightarrow> logs (if c then m else n)"
  by simp

lemma logs_option:
  "(x = None \<Longrightarrow> logs m) \<Longrightarrow> (\<And>y. x = Some y \<Longrightarrow> logs (f y)) \<Longrightarrow> logs (case x of None \<Rightarrow> m | Some y \<Rightarrow> f y)"
  by (cases x) simp_all

lemma logs_sum:
  "(\<And>y. x = Inl y \<Longrightarrow> logs (f y)) \<Longrightarrow> (\<And>y. x = Inr y \<Longrightarrow> logs (g y)) \<Longrightarrow> logs (case x of Inl y \<Rightarrow> f y | Inr y \<Rightarrow> g y)"
  by (cases x) simp_all

lemma logs_pair: "(\<And>y z. x = (y, z) \<Longrightarrow> logs (f y z)) \<Longrightarrow> logs (case x of (y, z) \<Rightarrow> f y z)"
  by (cases x) simp

lemma logs_each: "(\<And>x. logs (f x)) \<Longrightarrow> logs (step_each f xs)"
  by (induction xs) (simp_all add: logs_return logs_bind)

lemma logs_map: "(\<And>x. logs (f x)) \<Longrightarrow> logs (step_map f xs)"
  by (induction xs) (simp_all add: logs_return logs_bind)

lemma logs_run: "logs m \<Longrightarrow> m s = (r, s') \<Longrightarrow> \<exists>new. ss_log s' = ss_log s @ new \<and> good new"
  unfolding logs_def by blast

lemmas logs_intros = logs_return logs_throw logs_statement logs_reading logs_process_time logs_bind logs_catch logs_each logs_map

end

section \<open>Moves of the database\<close>

text \<open>
  A program moves the database by a preorder when each of its statements does and other transactions do.
\<close>

locale db_preorder =
  fixes below :: "db \<Rightarrow> db \<Rightarrow> bool"
  assumes below_refl: "below d d" and below_trans: "below a b \<Longrightarrow> below b c \<Longrightarrow> below a c"
begin

definition moves :: "('e, 'h, 'l, 'a) program \<Rightarrow> bool" where
  "moves m \<longleftrightarrow> (\<forall>s r s'. m s = (r, s') \<longrightarrow> below (ss_db s) (ss_db s'))"

lemma moves_return: "moves (step_return x)"
  by (simp add: moves_def step_return_def below_refl)

lemma moves_throw: "moves (step_throw e)"
  by (simp add: moves_def step_throw_def below_refl)

lemma moves_process_time: "moves (process_time turns)"
  by (simp add: moves_def process_time_def below_refl)

lemma moves_bind: "moves m \<Longrightarrow> (\<And>x. moves (f x)) \<Longrightarrow> moves (step_bind m f)"
  unfolding moves_def step_bind_def by (auto split: prod.splits sum.splits dest: below_trans) (metis below_trans)

lemma moves_catch: "moves m \<Longrightarrow> (\<And>e. moves (f e)) \<Longrightarrow> moves (step_catch m f)"
  unfolding moves_def step_catch_def by (auto split: prod.splits sum.splits dest: below_trans) (metis below_trans)

lemma moves_statement:
  "(\<And>k d. below d (snd (turns k) d)) \<Longrightarrow> (\<And>ck d. below d (snd (f ck d))) \<Longrightarrow> moves (statement turns f)"
  unfolding moves_def statement_def Let_def by (auto split: prod.splits) (metis below_trans snd_conv)

lemma moves_reading: "(\<And>k d. below d (snd (turns k) d)) \<Longrightarrow> moves (reading turns f)"
  unfolding reading_def by (rule moves_statement) (simp_all add: below_refl)

lemma moves_if: "moves m \<Longrightarrow> moves n \<Longrightarrow> moves (if c then m else n)"
  by simp

lemma moves_option: "moves m \<Longrightarrow> (\<And>y. moves (f y)) \<Longrightarrow> moves (case x of None \<Rightarrow> m | Some y \<Rightarrow> f y)"
  by (cases x) simp_all

lemma moves_pair: "(\<And>y z. moves (f y z)) \<Longrightarrow> moves (case x of (y, z) \<Rightarrow> f y z)"
  by (cases x) simp

lemmas moves_intros = moves_return moves_throw moves_process_time moves_bind moves_catch moves_reading moves_if moves_option moves_pair

end

section \<open>Running programs\<close>

lemma step_bind_Inr:
  "step_bind m f s = (Inr y, s') \<longleftrightarrow> (\<exists>x t. m s = (Inr x, t) \<and> f x t = (Inr y, s'))"
  by (auto simp: step_bind_def split: prod.splits sum.splits)

lemma step_return_iff: "step_return x s = (r, s') \<longleftrightarrow> r = Inr x \<and> s' = s"
  by (auto simp: step_return_def)

lemma step_throw_iff: "step_throw e s = (r, s') \<longleftrightarrow> r = Inl e \<and> s' = s"
  by (auto simp: step_throw_def)

lemma bind_process_time: "step_bind (process_time turns) f s = f (ck_clock (fst (turns (ss_tick s)))) s"
  by (simp add: step_bind_def process_time_def)

lemma bind_reading:
  "step_bind (reading turns f) g s =
     (let s1 = s\<lparr>ss_db := snd (turns (ss_tick s)) (ss_db s), ss_tick := ss_tick s + 1\<rparr>
      in case f (fst (turns (ss_tick s))) (snd (turns (ss_tick s)) (ss_db s)) of Inl e \<Rightarrow> (Inl e, s1) | Inr x \<Rightarrow> g x s1)"
  by (simp add: step_bind_def reading_def statement_def Let_def case_prod_beta split: sum.split)

end
