(* ===== verification/Restore_Attempts.thy ===== *)
theory Restore_Attempts
  imports Job_Finalization Commands Session
begin

text \<open>
  Restore attempts and the cleanup of what they left on a host (\<^verbatim>\<open>services/recoveryRestoreAttempts.ts\<close>): the
  durable record of an attempt and its resources, the claim of a reconciler on an attempt, and the cleanup a
  reconciler runs on the remote host. A reconciler is a session: each statement runs after whatever other
  transactions did since the last one, each command goes to the host and is logged with its answer.
\<close>

section \<open>Constants\<close>

definition RESTORE_ATTEMPT_LABEL :: string where
  "RESTORE_ATTEMPT_LABEL = ''com.composebastion.recovery.restore-attempt''"

definition RESTORE_SCOPE_LABEL :: string where
  "RESTORE_SCOPE_LABEL = ''com.composebastion.recovery.restore-scope''"

abbreviation milliseconds :: "int \<Rightarrow> timestamp" where
  "milliseconds n \<equiv> n * 1000"

definition RECOVERY_RESTORE_MAX_REMOTE_MUTATION_MS :: int where
  "RECOVERY_RESTORE_MAX_REMOTE_MUTATION_MS = 10 * 60000"

definition RECOVERY_RESTORE_RECONCILIATION_MARGIN_MS :: int where
  "RECOVERY_RESTORE_RECONCILIATION_MARGIN_MS = 60000"

definition RECOVERY_RESTORE_QUIESCENCE_MS :: int where
  "RECOVERY_RESTORE_QUIESCENCE_MS = RECOVERY_RESTORE_MAX_REMOTE_MUTATION_MS + RECOVERY_RESTORE_RECONCILIATION_MARGIN_MS"

definition RECOVERY_RESTORE_CLEANUP_REMOTE_COMMAND_MS :: int where
  "RECOVERY_RESTORE_CLEANUP_REMOTE_COMMAND_MS = 60000"

definition RECOVERY_RESTORE_CLEANUP_CLAIM_MS :: int where
  "RECOVERY_RESTORE_CLEANUP_CLAIM_MS = RECOVERY_RESTORE_CLEANUP_REMOTE_COMMAND_MS + RECOVERY_RESTORE_RECONCILIATION_MARGIN_MS"

lemmas restore_constants =
  RECOVERY_RESTORE_QUIESCENCE_MS_def RECOVERY_RESTORE_CLEANUP_CLAIM_MS_def RECOVERY_RESTORE_MAX_REMOTE_MUTATION_MS_def
  RECOVERY_RESTORE_RECONCILIATION_MARGIN_MS_def RECOVERY_RESTORE_CLEANUP_REMOTE_COMMAND_MS_def

section \<open>The record of an attempt\<close>

text \<open>The ellipsis of the source, a code unit above 255, is represented by the code unit 133.\<close>

definition boundedDiagnostic :: "externs \<Rightarrow> string \<Rightarrow> string" where
  "boundedDiagnostic X value =
     (let sanitized = x_sanitizeText X value in
      if length sanitized \<le> 2048 then sanitized else take 2047 sanitized @ [CHR 0x85])"

text \<open>A statement runs by itself, or in a transaction that first checks the lease of the job.\<close>

definition fencedQuery ::
    "clock \<Rightarrow> (uuid \<times> job_lease) option \<Rightarrow> (db \<Rightarrow> ('a \<times> db) result) \<Rightarrow> db \<Rightarrow> 'a result \<times> db" where
  "fencedQuery ck executionFence text s =
     (case executionFence of
        None \<Rightarrow> (case text s of Inl e \<Rightarrow> (Inl e, s) | Inr (x, s') \<Rightarrow> (Inr x, s'))
      | Some (jobId, lease) \<Rightarrow> withActiveJobLeaseTransaction ck jobId lease text s)"

record attempt_context =
  ac_attemptToken :: uuid
  ac_recoveryPointId :: "uuid option"
  ac_backupId :: "uuid option"
  ac_targetHostId :: uuid
  ac_restoreScope :: string
  ac_operationJobId :: "uuid option"
  ac_migrationRunId :: "uuid option"
  ac_allowedPathRoots :: "string list option"
  ac_retainOnSuccess :: "bool option"

definition new_attempt :: "clock \<Rightarrow> attempt_context \<Rightarrow> attempt_row" where
  "new_attempt ck context =
     \<lparr>ra_id = ac_attemptToken context, ra_recovery_point_id = ac_recoveryPointId context,
      ra_backup_id = ac_backupId context, ra_target_host_id = ac_targetHostId context,
      ra_operation_job_id = ac_operationJobId context, ra_migration_run_id = ac_migrationRunId context,
      ra_restore_scope = ac_restoreScope context,
      ra_allowed_path_roots = JArr (map JStr (uniq (filter (\<lambda>v. v \<noteq> [])
        (map trim (case ac_allowedPathRoots context of None \<Rightarrow> [] | Some roots \<Rightarrow> roots))))),
      ra_retain_on_success = (case ac_retainOnSuccess context of None \<Rightarrow> True | Some b \<Rightarrow> b),
      ra_status = ''active'', ra_heartbeat_at = ck_now ck, ra_cleanup_not_before = None,
      ra_reconciliation_token = None, ra_reconciliation_started_at = None, ra_last_error = None,
      ra_created_at = ck_now ck, ra_completed_at = None, ra_updated_at = ck_now ck\<rparr>"

text \<open>The table has a primary key and exactly one owner per row.\<close>

definition insert_attempt :: "attempt_row \<Rightarrow> db \<Rightarrow> (unit \<times> db) result" where
  "insert_attempt a s =
     (if ra_id a \<in> ra_id ` set (d_attempts s)
      then Inl (PlainError ''duplicate key value violates unique constraint'')
      else if (ra_recovery_point_id a = None) = (ra_backup_id a = None)
      then Inl (PlainError ''new row violates check constraint recovery_restore_attempts_exactly_one_owner'')
      else Inr ((), s\<lparr>d_attempts := d_attempts s @ [a]\<rparr>))"

definition beginRecoveryRestoreAttempt ::
    "clock \<Rightarrow> attempt_context \<Rightarrow> (uuid \<times> job_lease) option \<Rightarrow> db \<Rightarrow> unit result \<times> db" where
  "beginRecoveryRestoreAttempt ck context executionFence s =
     (let owners = filter (\<lambda>v. v \<noteq> None \<and> v \<noteq> Some []) [ac_recoveryPointId context, ac_backupId context] in
      if length owners \<noteq> 1
      then (Inl (PlainError ''A restore attempt must have exactly one recovery-point or backup owner''), s)
      else fencedQuery ck executionFence (insert_attempt (new_attempt ck context)) s)"

definition open_attempt :: "uuid \<Rightarrow> attempt_row \<Rightarrow> bool" where
  "open_attempt attemptToken a \<longleftrightarrow> ra_id a = attemptToken \<and> ra_status a \<in> {''active'', ''awaiting_disposition''}"

definition beat :: "clock \<Rightarrow> uuid \<Rightarrow> db \<Rightarrow> (unit \<times> db) result" where
  "beat ck attemptToken s = Inr ((), s\<lparr>d_attempts := update_where (open_attempt attemptToken)
     (\<lambda>a. a\<lparr>ra_heartbeat_at := ck_now ck, ra_updated_at := ck_now ck\<rparr>) (d_attempts s)\<rparr>)"

definition same_resource :: "uuid \<Rightarrow> string \<Rightarrow> string \<Rightarrow> resource_row \<Rightarrow> bool" where
  "same_resource attemptToken kind resourceName r \<longleftrightarrow>
     rr_attempt_id r = attemptToken \<and> rr_kind r = kind \<and> rr_resource_name r = resourceName"

definition upsert_resource :: "clock \<Rightarrow> uuid \<Rightarrow> string \<Rightarrow> string \<Rightarrow> db \<Rightarrow> (unit \<times> db) result" where
  "upsert_resource ck attemptToken kind resourceName s =
     (if list_ex (same_resource attemptToken kind resourceName) (d_resources s)
      then Inr ((), s\<lparr>d_resources := update_where (same_resource attemptToken kind resourceName)
             (\<lambda>r. r\<lparr>rr_updated_at := ck_now ck\<rparr>) (d_resources s)\<rparr>)
      else Inr ((), s\<lparr>d_resources := d_resources s @
             [\<lparr>rr_attempt_id = attemptToken, rr_kind = kind, rr_resource_name = resourceName, rr_status = ''intended'',
               rr_last_error = None, rr_created_at = ck_now ck, rr_updated_at = ck_now ck\<rparr>]\<rparr>))"

text \<open>Two statements, each with its own clock; the second is not reached when the first throws.\<close>

definition in_sequence :: "(db \<Rightarrow> unit result \<times> db) \<Rightarrow> (db \<Rightarrow> unit result \<times> db) \<Rightarrow> db \<Rightarrow> unit result \<times> db" where
  "in_sequence f g s = (case f s of (Inl e, s') \<Rightarrow> (Inl e, s') | (Inr _, s') \<Rightarrow> g s')"

definition registerRecoveryRestoreResource ::
    "clock \<Rightarrow> clock \<Rightarrow> uuid \<Rightarrow> string \<Rightarrow> string \<Rightarrow> (uuid \<times> job_lease) option \<Rightarrow> db \<Rightarrow> unit result \<times> db" where
  "registerRecoveryRestoreResource ck ck' attemptToken kind resourceName executionFence =
     in_sequence (fencedQuery ck executionFence (upsert_resource ck attemptToken kind resourceName))
       (fencedQuery ck' executionFence (beat ck' attemptToken))"

definition observe_resource :: "clock \<Rightarrow> uuid \<Rightarrow> string \<Rightarrow> string \<Rightarrow> db \<Rightarrow> (unit \<times> db) result" where
  "observe_resource ck attemptToken kind resourceName s = Inr ((), s\<lparr>d_resources :=
     update_where (\<lambda>r. same_resource attemptToken kind resourceName r \<and> rr_status r = ''intended'')
       (\<lambda>r. r\<lparr>rr_status := ''observed'', rr_last_error := None, rr_updated_at := ck_now ck\<rparr>) (d_resources s)\<rparr>)"

definition markRecoveryRestoreResourceObserved ::
    "clock \<Rightarrow> clock \<Rightarrow> uuid \<Rightarrow> string \<Rightarrow> string \<Rightarrow> (uuid \<times> job_lease) option \<Rightarrow> db \<Rightarrow> unit result \<times> db" where
  "markRecoveryRestoreResourceObserved ck ck' attemptToken kind resourceName executionFence =
     in_sequence (fencedQuery ck executionFence (observe_resource ck attemptToken kind resourceName))
       (fencedQuery ck' executionFence (beat ck' attemptToken))"

definition markRecoveryRestoreAttemptAwaitingDisposition ::
    "clock \<Rightarrow> uuid \<Rightarrow> (uuid \<times> job_lease) option \<Rightarrow> db \<Rightarrow> unit result \<times> db" where
  "markRecoveryRestoreAttemptAwaitingDisposition ck attemptToken executionFence =
     fencedQuery ck executionFence (\<lambda>s. Inr ((), s\<lparr>d_attempts :=
       update_where (\<lambda>a. ra_id a = attemptToken \<and> ra_status a = ''active'')
         (\<lambda>a. a\<lparr>ra_status := ''awaiting_disposition'', ra_heartbeat_at := ck_now ck, ra_cleanup_not_before := None,
                 ra_last_error := None, ra_updated_at := ck_now ck\<rparr>) (d_attempts s)\<rparr>))"

definition markRecoveryRestoreAttemptCleanupPending :: "externs \<Rightarrow> clock \<Rightarrow> uuid \<Rightarrow> string \<Rightarrow> bool \<Rightarrow> db \<Rightarrow> db" where
  "markRecoveryRestoreAttemptCleanupPending X ck attemptToken error remoteOutcomeUnknown s =
     (let cleanupNotBefore = (if remoteOutcomeUnknown then ck_clock ck + milliseconds RECOVERY_RESTORE_QUIESCENCE_MS
                              else ck_clock ck) in
      s\<lparr>d_attempts := update_where (\<lambda>a. ra_id a = attemptToken \<and> ra_status a \<notin> {''retained'', ''cleaned''})
          (\<lambda>a. a\<lparr>ra_status := ''cleanup_pending'', ra_cleanup_not_before := Some cleanupNotBefore,
                  ra_last_error := Some (boundedDiagnostic X error), ra_updated_at := ck_now ck\<rparr>) (d_attempts s)\<rparr>)"

definition markRecoveryRestoreAttemptRetained ::
    "clock \<Rightarrow> uuid \<Rightarrow> (uuid \<times> job_lease) option \<Rightarrow> db \<Rightarrow> unit result \<times> db" where
  "markRecoveryRestoreAttemptRetained ck attemptToken executionFence s =
     (case fencedQuery ck executionFence (\<lambda>s. Inr (length (filter (open_attempt attemptToken) (d_attempts s)),
              s\<lparr>d_attempts := update_where (open_attempt attemptToken) (retain_attempt ck) (d_attempts s)\<rparr>)) s of
        (Inl e, s') \<Rightarrow> (Inl e, s')
      | (Inr rowCount, s') \<Rightarrow>
          (if rowCount \<noteq> 1 then Inl (PlainError ''Recovery restore attempt could not be durably retained'') else Inr (), s'))"

definition recoveryRestoreAttemptCleanupIsDeferred :: "clock \<Rightarrow> uuid \<Rightarrow> db \<Rightarrow> bool" where
  "recoveryRestoreAttemptCleanupIsDeferred ck attemptToken s =
     (case filter (\<lambda>a. ra_id a = attemptToken) (d_attempts s) of
        [] \<Rightarrow> False
      | a # _ \<Rightarrow> (case ra_cleanup_not_before a of None \<Rightarrow> False | Some t \<Rightarrow> ck_now ck < t))"

definition clean_attempt :: "clock \<Rightarrow> attempt_row \<Rightarrow> attempt_row" where
  "clean_attempt ck a = a\<lparr>ra_status := ''cleaned'', ra_cleanup_not_before := None, ra_reconciliation_token := None,
     ra_reconciliation_started_at := None, ra_last_error := None, ra_completed_at := Some (ck_now ck),
     ra_updated_at := ck_now ck\<rparr>"

definition markRecoveryRestoreAttemptCleaned ::
    "clock \<Rightarrow> uuid \<Rightarrow> (uuid \<times> job_lease) option \<Rightarrow> db \<Rightarrow> unit result \<times> db" where
  "markRecoveryRestoreAttemptCleaned ck attemptToken executionFence =
     fencedQuery ck executionFence (\<lambda>s. Inr ((), s\<lparr>d_attempts :=
       update_where (\<lambda>a. ra_id a = attemptToken \<and> ra_status a \<noteq> ''retained'') (clean_attempt ck) (d_attempts s)\<rparr>))"

section \<open>Claims of reconcilers\<close>

definition bound_to_completed :: "db \<Rightarrow> attempt_row \<Rightarrow> bool" where
  "bound_to_completed s a \<longleftrightarrow>
     list_ex (\<lambda>j. ra_operation_job_id a = Some (j_id j) \<and> j_status j = Completed) (d_jobs s)"

definition unsettled_completed :: "db \<Rightarrow> attempt_row \<Rightarrow> bool" where
  "unsettled_completed s a \<longleftrightarrow> ra_status a \<in> {''active'', ''awaiting_disposition''} \<and> bound_to_completed s a"

definition retain_completed :: "clock \<Rightarrow> db \<Rightarrow> attempt_row list \<Rightarrow> attempt_row list" where
  "retain_completed ck s = update_where (\<lambda>a. unsettled_completed s a \<and> ra_retain_on_success a)
     (\<lambda>a. a\<lparr>ra_status := ''retained'', ra_cleanup_not_before := None, ra_last_error := None,
             ra_completed_at := coalesce (ra_completed_at a) (Some (ck_now ck)), ra_updated_at := ck_now ck\<rparr>)"

definition release_completed :: "clock \<Rightarrow> db \<Rightarrow> attempt_row list \<Rightarrow> attempt_row list" where
  "release_completed ck s = update_where (\<lambda>a. unsettled_completed s a \<and> \<not> ra_retain_on_success a)
     (\<lambda>a. a\<lparr>ra_status := ''cleanup_pending'', ra_cleanup_not_before := Some (ck_now ck), ra_last_error := None,
             ra_updated_at := ck_now ck\<rparr>)"

definition settle_completed :: "clock \<Rightarrow> db \<Rightarrow> db" where
  "settle_completed ck s = s\<lparr>d_attempts := release_completed ck s (retain_completed ck s (d_attempts s))\<rparr>"

definition active_job :: "job_row \<Rightarrow> bool" where
  "active_job j \<longleftrightarrow> j_status j \<in> {Queued, Running}"

text \<open>An active job that restores the same recovery point onto the same host, directly or through a migration.\<close>

definition competing_job :: "db \<Rightarrow> attempt_row \<Rightarrow> job_row \<Rightarrow> bool" where
  "competing_job s a j \<longleftrightarrow> active_job j \<and> Some (j_id j) \<noteq> ra_operation_job_id a
     \<and> ((j_type j = ''recovery.restore'' \<and> j_host_id j = Some (ra_target_host_id a) \<and> ra_recovery_point_id a \<noteq> None
           \<and> payload_text (j_payload j) ''recoveryPointId'' = ra_recovery_point_id a)
        \<or> (j_type j = ''migration.execute'' \<and>
           list_ex (\<lambda>m. payload_text (j_payload j) ''migrationRunId'' = Some (mr_id m)
               \<and> mr_target_host_id m = ra_target_host_id a \<and> ra_recovery_point_id a \<noteq> None
               \<and> mr_recovery_point_id m = ra_recovery_point_id a) (d_migrations s)))"

definition claimable :: "clock \<Rightarrow> db \<Rightarrow> attempt_row \<Rightarrow> bool" where
  "claimable ck s a \<longleftrightarrow>
     ra_status a \<in> {''active'', ''awaiting_disposition'', ''cleanup_pending'', ''reconciling''}
     \<and> (case ra_cleanup_not_before a of
          Some t \<Rightarrow> t \<le> ck_now ck
        | None \<Rightarrow> ra_heartbeat_at a \<le> ck_now ck - milliseconds RECOVERY_RESTORE_QUIESCENCE_MS)
     \<and> (ra_status a \<noteq> ''reconciling''
        \<or> (case ra_reconciliation_started_at a of
             None \<Rightarrow> True
           | Some t \<Rightarrow> t \<le> ck_now ck - milliseconds RECOVERY_RESTORE_CLEANUP_CLAIM_MS))
     \<and> \<not> list_ex (\<lambda>j. ra_operation_job_id a = Some (j_id j) \<and> active_job j) (d_jobs s)
     \<and> \<not> list_ex (competing_job s a) (d_jobs s)"

definition claim_attempt :: "clock \<Rightarrow> uuid \<Rightarrow> attempt_row \<Rightarrow> attempt_row" where
  "claim_attempt ck token a = a\<lparr>ra_status := ''reconciling'', ra_reconciliation_token := Some token,
     ra_reconciliation_started_at := Some (ck_now ck), ra_updated_at := ck_now ck\<rparr>"

fun claim_each :: "clock \<Rightarrow> uuid list \<Rightarrow> attempt_row list \<Rightarrow> db \<Rightarrow> attempt_row list \<times> db" where
  "claim_each ck (token # tokens) (a # rest) s =
     (let updated = map (claim_attempt ck token) (filter (\<lambda>b. ra_id b = ra_id a) (d_attempts s));
          s' = s\<lparr>d_attempts := update_where (\<lambda>b. ra_id b = ra_id a) (claim_attempt ck token) (d_attempts s)\<rparr>;
          (claimed, s'') = claim_each ck tokens rest s'
      in (case updated of [] \<Rightarrow> claimed | u # _ \<Rightarrow> u # claimed, s''))"
| "claim_each ck _ _ s = ([], s)"

text \<open>\<open>locked\<close> are the attempts another transaction holds, and \<open>tokens\<close> the random tokens, one for each row.\<close>

definition claimRestoreAttempts ::
    "clock \<Rightarrow> uuid list \<Rightarrow> uuid list \<Rightarrow> nat \<Rightarrow> db \<Rightarrow> attempt_row list \<times> db" where
  "claimRestoreAttempts ck locked tokens limit s =
     (let s1 = settle_completed ck s;
          selected = take limit (filter (\<lambda>a. ra_id a \<notin> set locked)
            (sort_key ra_created_at (filter (claimable ck s1) (d_attempts s1))))
      in claim_each ck tokens selected s1)"

text \<open>The claim a statement of the reconciler checks.\<close>

definition holds_claim :: "attempt_row \<Rightarrow> attempt_row \<Rightarrow> bool" where
  "holds_claim attempt a \<longleftrightarrow> ra_id a = ra_id attempt \<and> ra_reconciliation_token attempt \<noteq> None
     \<and> ra_reconciliation_token a = ra_reconciliation_token attempt \<and> ra_status a = ''reconciling''"

section \<open>Sessions of a reconciler\<close>

text \<open>
  The remote side: the two transports, which give no result where the call throws, the script that removes an owned
  directory (\<^verbatim>\<open>remoteOwnedDirectory.ts\<close>), and the connection details of a host (\<^verbatim>\<open>hosts.ts\<close>).
\<close>

record 'h remote =
  rm_agent :: "string \<Rightarrow> 'h \<Rightarrow> command_result option \<times> 'h"
  rm_ssh :: "string \<Rightarrow> 'h \<Rightarrow> command_result option \<times> 'h"
  rm_cleanupDirectory :: "string \<Rightarrow> string \<Rightarrow> uuid \<Rightarrow> string \<Rightarrow> string result"
  rm_getHost :: "uuid \<Rightarrow> db \<Rightarrow> host_connection result"

record log_entry =
  le_command :: string
  le_result :: "command_result option"
  le_db :: db

datatype cleanup_error =
    ClaimLost
  | OutcomeUnknown
  | CleanupFailed string

type_synonym ('h, 'a) step = "(cleanup_error, 'h, log_entry, 'a) program"

definition send :: "string \<Rightarrow> (string \<Rightarrow> 'h \<Rightarrow> command_result option \<times> 'h) \<Rightarrow> ('h, command_result) step" where
  "send command run =
     call (run command) (\<lambda>r d. \<lparr>le_command = command, le_result = r, le_db = d\<rparr>)
       (\<lambda>r. case r of None \<Rightarrow> Inl OutcomeUnknown | Some result \<Rightarrow> Inr result)"

section \<open>Cleanup on the host\<close>

definition isAlreadyMissingOutput :: "string \<Rightarrow> bool" where
  "isAlreadyMissingOutput value = list_ex (\<lambda>p. includes_text p (to_lower value))
     [''no such container'', ''no such network'', ''no such volume'', ''no such file'', ''not found'', ''does not exist'']"

definition restoreOwnershipValue :: "attempt_row \<Rightarrow> string" where
  "restoreOwnershipValue attempt = ra_id attempt @ ''|'' @ ra_restore_scope attempt"

definition ownedDockerResourceLabelsField :: "string \<Rightarrow> string" where
  "ownedDockerResourceLabelsField kind = (if kind = ''container'' then ''.Config.Labels'' else ''.Labels'')"

definition ownedDockerResourceInspectCommand :: "string \<Rightarrow> string \<Rightarrow> string" where
  "ownedDockerResourceInspectCommand kind resourceReference =
     (let identityField = (if kind = ''volume'' then ''.Name'' else ''.Id'');
          labelsField = ownedDockerResourceLabelsField kind;
          label_text = (\<lambda>l. ''{{ index '' @ labelsField @ '' '' @ [CHR 0x22] @ l @ [CHR 0x22] @ '' }}'');
          format = ''{{'' @ identityField @ ''}}|'' @ label_text RESTORE_ATTEMPT_LABEL @ ''|'' @ label_text RESTORE_SCOPE_LABEL
      in ''docker '' @ kind @ '' inspect --format '' @ shQuote format @ '' '' @ shQuote resourceReference)"

text \<open>The identity and the ownership in the answer; none where it does not hold a separator after its first character.\<close>

definition parseOwnedDockerResourceBoundary :: "string \<Rightarrow> (string \<times> string) option" where
  "parseOwnedDockerResourceBoundary value =
     (let before = takeWhile (\<lambda>c. c \<noteq> CHR ''|'') value in
      if CHR ''|'' \<notin> set value \<or> before = [] then None
      else Some (trim before, trim (drop (length before + 1) value)))"

text \<open>The command goes to the transport of the host; a missing agent throws.\<close>

definition runHostDockerCommand ::
    "'h remote \<Rightarrow> host_connection \<Rightarrow> string \<Rightarrow> 'h \<Rightarrow> command_result option \<times> 'h" where
  "runHostDockerCommand R host command h =
     (if hc_connectionMode host = ''agent''
      then if \<not> hc_agent host then (None, h) else rm_agent R command h
      else rm_ssh R (withDockerEnv command (Some (hc_dockerSocketPath host))) h)"

definition renew_claim :: "attempt_row \<Rightarrow> clock \<Rightarrow> db \<Rightarrow> (cleanup_error + unit) \<times> db" where
  "renew_claim attempt ck s =
     (if length (filter (holds_claim attempt) (d_attempts s)) \<noteq> 1 then Inl ClaimLost else Inr (),
      s\<lparr>d_attempts := update_where (holds_claim attempt)
          (\<lambda>a. a\<lparr>ra_reconciliation_started_at := Some (ck_now ck), ra_heartbeat_at := ck_now ck,
                  ra_updated_at := ck_now ck\<rparr>) (d_attempts s)\<rparr>)"

definition renewRestoreAttemptClaim :: "turns \<Rightarrow> attempt_row \<Rightarrow> ('h, unit) step" where
  "renewRestoreAttemptClaim turns attempt = statement turns (renew_claim attempt)"

definition runClaimedRemoteCommand ::
    "turns \<Rightarrow> attempt_row \<Rightarrow> string \<Rightarrow> (string \<Rightarrow> 'h \<Rightarrow> command_result option \<times> 'h) \<Rightarrow> ('h, command_result) step" where
  "runClaimedRemoteCommand turns attempt command run =
     step_bind (renewRestoreAttemptClaim turns attempt) (\<lambda>_.
     step_bind (send command run) (\<lambda>result.
     step_bind (renewRestoreAttemptClaim turns attempt) (\<lambda>_.
       step_return result)))"

definition output_of :: "command_result \<Rightarrow> string" where
  "output_of r = cr_stderr r @ [CHR 0x0A] @ cr_stdout r"

definition removeAction :: "string \<Rightarrow> string" where
  "removeAction kind = (if kind = ''container'' then ''docker rm --force''
     else if kind = ''network'' then ''docker network rm'' else ''docker volume rm --force'')"

definition removeOwnedDockerResource ::
    "'h remote \<Rightarrow> turns \<Rightarrow> host_connection \<Rightarrow> attempt_row \<Rightarrow> string \<Rightarrow> string \<Rightarrow> ('h, string) step" where
  "removeOwnedDockerResource R turns host attempt kind capturedId =
     step_bind (runClaimedRemoteCommand turns attempt (removeAction kind @ '' '' @ shQuote capturedId)
                  (runHostDockerCommand R host)) (\<lambda>removed.
     if cr_code removed \<noteq> 0 \<and> \<not> isAlreadyMissingOutput (output_of removed)
     then step_throw (CleanupFailed (first_text (cr_stderr removed) (cr_stdout removed) (''Failed to remove restore '' @ kind)))
     else step_return ''cleaned'')"

text \<open>The object is inspected again by the identity in the first answer, and removed when the answer is the same.\<close>

definition confirmAndRemove ::
    "'h remote \<Rightarrow> turns \<Rightarrow> host_connection \<Rightarrow> attempt_row \<Rightarrow> string \<Rightarrow> command_result \<Rightarrow> string \<Rightarrow> ('h, string) step" where
  "confirmAndRemove R turns host attempt kind inspect capturedId =
     step_bind (runClaimedRemoteCommand turns attempt (ownedDockerResourceInspectCommand kind capturedId)
                  (runHostDockerCommand R host)) (\<lambda>boundary.
     if cr_code boundary \<noteq> 0 \<and> isAlreadyMissingOutput (output_of boundary) then step_return ''cleaned''
     else if cr_code boundary \<noteq> 0 \<or> trim (cr_stdout boundary) \<noteq> trim (cr_stdout inspect)
     then step_return ''preserved_unrelated''
     else removeOwnedDockerResource R turns host attempt kind capturedId)"

definition cleanupDockerResource ::
    "'h remote \<Rightarrow> turns \<Rightarrow> host_connection \<Rightarrow> attempt_row \<Rightarrow> string \<Rightarrow> string \<Rightarrow> ('h, string) step" where
  "cleanupDockerResource R turns host attempt kind resourceName =
     step_bind (runClaimedRemoteCommand turns attempt (ownedDockerResourceInspectCommand kind resourceName)
                  (runHostDockerCommand R host)) (\<lambda>inspect.
     if cr_code inspect \<noteq> 0
     then if isAlreadyMissingOutput (output_of inspect) then step_return ''cleaned''
          else step_throw (CleanupFailed (first_text (cr_stderr inspect) (cr_stdout inspect) (''Failed to inspect restore '' @ kind)))
     else case parseOwnedDockerResourceBoundary (trim (cr_stdout inspect)) of
            None \<Rightarrow> step_return ''preserved_unrelated''
          | Some (capturedId, ownership) \<Rightarrow>
              if capturedId = [] \<or> ownership \<noteq> restoreOwnershipValue attempt then step_return ''preserved_unrelated''
              else confirmAndRemove R turns host attempt kind inspect capturedId)"

subsection \<open>Directories\<close>

definition isSafeAbsoluteNonRootPath :: "string \<Rightarrow> bool" where
  "isSafeAbsoluteNonRootPath value =
     (if \<not> starts_with ''/'' value \<or> value = ''/'' then False
      else if ''..'' \<in> set (split_on (CHR ''/'') value) then False
      else path_normalize value = strip_slashes value \<and> path_normalize value \<noteq> ''/'')"

definition pathIsWithin :: "string \<Rightarrow> string \<Rightarrow> bool" where
  "pathIsWithin parent child \<longleftrightarrow> child = parent \<or> starts_with (strip_slashes parent @ ''/'') child"

fun string_of :: "json \<Rightarrow> string list" where
  "string_of (JStr s) = [s]"
| "string_of _ = []"

definition allowedPathRoots :: "attempt_row \<Rightarrow> string list" where
  "allowedPathRoots attempt = (case ra_allowed_path_roots attempt of
       JArr values \<Rightarrow> uniq (filter isSafeAbsoluteNonRootPath
         (map (\<lambda>v. strip_slashes (trim v)) (concat (map string_of values))))
     | _ \<Rightarrow> [])"

definition assertAttemptDirectoryIsSafe :: "attempt_row \<Rightarrow> string \<Rightarrow> string result" where
  "assertAttemptDirectoryIsSafe attempt targetPath =
     (let raw = strip_slashes (trim targetPath) in
      if \<not> isSafeAbsoluteNonRootPath raw
      then Inl (PlainError ''Restore directory ledger contains an unsafe, non-absolute, traversing, or root target'')
      else let roots = allowedPathRoots attempt in
           if roots = [] \<or> \<not> list_ex (\<lambda>root. pathIsWithin root raw) roots
           then Inl (PlainError ''Restore directory ledger target is outside this attempt's durable allowed path roots'')
           else Inr raw)"

definition isOwnedRemoteDirectorySafetyRefusal :: "int \<Rightarrow> bool" where
  "isOwnedRemoteDirectorySafetyRefusal code \<longleftrightarrow> code \<in> {73, 74, 75, 76, 77, 78, 79}"

definition of_result :: "'a result \<Rightarrow> ('h, 'a) step" where
  "of_result r = (case r of Inl e \<Rightarrow> step_throw (CleanupFailed (exn_message e)) | Inr x \<Rightarrow> step_return x)"

definition cleanupOwnedDirectory ::
    "'h remote \<Rightarrow> turns \<Rightarrow> host_connection \<Rightarrow> attempt_row \<Rightarrow> string \<Rightarrow> ('h, string) step" where
  "cleanupOwnedDirectory R turns host attempt targetPath =
     (if hc_connectionMode host \<noteq> ''ssh''
      then step_throw (CleanupFailed ''Owned restore directory cleanup requires the original SSH host mode'')
      else step_bind (of_result (assertAttemptDirectoryIsSafe attempt targetPath)) (\<lambda>normalizedTargetPath.
           step_bind (of_result (rm_cleanupDirectory R normalizedTargetPath (restoreOwnershipValue attempt) (ra_id attempt)
                        (''restore directory '' @ normalizedTargetPath))) (\<lambda>command.
           step_bind (runClaimedRemoteCommand turns attempt command (rm_ssh R)) (\<lambda>result.
             if isOwnedRemoteDirectorySafetyRefusal (cr_code result) then step_return ''preserved_unrelated''
             else if cr_code result \<noteq> 0
             then step_throw (CleanupFailed (first_text (cr_stderr result) (cr_stdout result) ''Failed to clean restore directory''))
             else step_return ''cleaned''))))"

subsection \<open>Resources of an attempt\<close>

text \<open>Lines end in a line feed; a carriage return before it is removed with the other white space.\<close>

definition outputNames :: "string \<Rightarrow> string list" where
  "outputNames stdout = uniq (filter (\<lambda>v. v \<noteq> []) (map trim (split_on (CHR 0x0A) stdout)))"

definition projectFilter :: "string \<Rightarrow> string" where
  "projectFilter projectName = shQuote (''label=com.docker.compose.project='' @ projectName)"

definition listCommand :: "string \<Rightarrow> string \<Rightarrow> string" where
  "listCommand kind projectName =
     (if kind = ''container''
      then ''docker ps --all --filter '' @ projectFilter projectName @ '' --format '' @ shQuote ''{{.Names}}''
      else ''docker '' @ kind @ '' ls --filter '' @ projectFilter projectName @ '' --format '' @ shQuote ''{{.Name}}'')"

fun listKinds ::
    "'h remote \<Rightarrow> turns \<Rightarrow> host_connection \<Rightarrow> string \<Rightarrow> attempt_row \<Rightarrow> string list \<Rightarrow> ('h, (string \<times> string) list) step" where
  "listKinds R turns host projectName attempt [] = step_return []"
| "listKinds R turns host projectName attempt (kind # kinds) =
     step_bind (runClaimedRemoteCommand turns attempt (listCommand kind projectName) (runHostDockerCommand R host)) (\<lambda>result.
     if cr_code result \<noteq> 0
     then step_throw (CleanupFailed (first_text (cr_stderr result) (cr_stdout result)
            (''Failed to inspect restore Compose '' @ kind @ '' resources'')))
     else step_bind (listKinds R turns host projectName attempt kinds) (\<lambda>rest.
            step_return (map (Pair kind) (outputNames (cr_stdout result)) @ rest)))"

definition listComposeProjectResources ::
    "'h remote \<Rightarrow> turns \<Rightarrow> host_connection \<Rightarrow> string \<Rightarrow> attempt_row \<Rightarrow> ('h, (string \<times> string) list) step" where
  "listComposeProjectResources R turns host projectName attempt =
     listKinds R turns host projectName attempt [''container'', ''network'', ''volume'']"

definition disposes :: "attempt_row \<Rightarrow> resource_row \<Rightarrow> db \<Rightarrow> resource_row \<Rightarrow> bool" where
  "disposes attempt resource s r \<longleftrightarrow> same_resource (ra_id attempt) (rr_kind resource) (rr_resource_name resource) r
     \<and> list_ex (holds_claim attempt) (d_attempts s)"

definition dispose :: "attempt_row \<Rightarrow> resource_row \<Rightarrow> string \<Rightarrow> clock \<Rightarrow> db \<Rightarrow> (cleanup_error + unit) \<times> db" where
  "dispose attempt resource status ck s =
     (if length (filter (disposes attempt resource s) (d_resources s)) \<noteq> 1 then Inl ClaimLost else Inr (),
      s\<lparr>d_resources := update_where (disposes attempt resource s)
          (\<lambda>r. r\<lparr>rr_status := status, rr_last_error := None, rr_updated_at := ck_now ck\<rparr>) (d_resources s)\<rparr>)"

definition markResourceDisposition :: "turns \<Rightarrow> attempt_row \<Rightarrow> resource_row \<Rightarrow> string \<Rightarrow> ('h, unit) step" where
  "markResourceDisposition turns attempt resource status = statement turns (dispose attempt resource status)"

text \<open>A \<^verbatim>\<open>Map\<close> keyed by kind and name: setting a key again keeps its place.\<close>

fun map_set :: "('k \<times> 'v) list \<Rightarrow> 'k \<Rightarrow> 'v \<Rightarrow> ('k \<times> 'v) list" where
  "map_set [] k v = [(k, v)]"
| "map_set ((k', v') # rest) k v = (if k' = k then (k, v) # rest else (k', v') # map_set rest k v)"

definition discovered_row :: "resource_row \<Rightarrow> string \<times> string \<Rightarrow> resource_row" where
  "discovered_row resource item = resource\<lparr>rr_kind := fst item, rr_resource_name := snd item\<rparr>"

fun discoverResources ::
    "'h remote \<Rightarrow> turns \<Rightarrow> host_connection \<Rightarrow> attempt_row \<Rightarrow> resource_row list \<Rightarrow> ((string \<times> string) \<times> resource_row) list
     \<Rightarrow> ('h, ((string \<times> string) \<times> resource_row) list) step" where
  "discoverResources R turns host attempt [] found = step_return found"
| "discoverResources R turns host attempt (resource # rest) found =
     (if rr_kind resource \<noteq> ''compose_project'' then discoverResources R turns host attempt rest found
      else step_bind (listComposeProjectResources R turns host (rr_resource_name resource) attempt) (\<lambda>discovered.
        discoverResources R turns host attempt rest
          (foldl (\<lambda>acc item. map_set acc item (discovered_row resource item)) found discovered)))"

definition docker_kind :: "string \<Rightarrow> bool" where
  "docker_kind kind \<longleftrightarrow> kind \<in> {''container'', ''network'', ''volume''}"

definition kind_order :: "resource_row \<Rightarrow> nat" where
  "kind_order r = (if rr_kind r = ''container'' then 0 else if rr_kind r = ''network'' then 1 else 2)"

fun cleanEach ::
    "'h remote \<Rightarrow> turns \<Rightarrow> host_connection \<Rightarrow> attempt_row \<Rightarrow> resource_row list \<Rightarrow> (string \<times> string) list \<Rightarrow> resource_row list
     \<Rightarrow> ('h, unit) step" where
  "cleanEach R turns host attempt rows seen [] = step_return ()"
| "cleanEach R turns host attempt rows seen (resource # rest) =
     (let key = (rr_kind resource, rr_resource_name resource) in
      if key \<in> set seen then cleanEach R turns host attempt rows seen rest
      else step_bind (cleanupDockerResource R turns host attempt (rr_kind resource) (rr_resource_name resource)) (\<lambda>disposition.
           step_bind (if rr_attempt_id resource = ra_id attempt \<and> rr_status resource \<noteq> ''cleaned''
                      then case find (\<lambda>c. rr_kind c = rr_kind resource \<and> rr_resource_name c = rr_resource_name resource) rows of
                             None \<Rightarrow> step_return ()
                           | Some stored \<Rightarrow> markResourceDisposition turns attempt stored disposition
                      else step_return ()) (\<lambda>_.
             cleanEach R turns host attempt rows (key # seen) rest)))"

definition pending_resources :: "attempt_row \<Rightarrow> db \<Rightarrow> resource_row list" where
  "pending_resources attempt s = sort_key (\<lambda>r. - rr_created_at r)
     (filter (\<lambda>r. rr_attempt_id r = ra_id attempt \<and> rr_status r \<notin> {''cleaned'', ''preserved_unrelated''}) (d_resources s))"

definition renew_and_mark :: "turns \<Rightarrow> attempt_row \<Rightarrow> resource_row \<Rightarrow> ('h, unit) step" where
  "renew_and_mark turns attempt resource =
     step_bind (renewRestoreAttemptClaim turns attempt) (\<lambda>_. markResourceDisposition turns attempt resource ''cleaned'')"

definition cleanDirectory :: "'h remote \<Rightarrow> turns \<Rightarrow> host_connection \<Rightarrow> attempt_row \<Rightarrow> resource_row \<Rightarrow> ('h, unit) step" where
  "cleanDirectory R turns host attempt resource =
     step_bind (cleanupOwnedDirectory R turns host attempt (rr_resource_name resource)) (\<lambda>disposition.
       markResourceDisposition turns attempt resource disposition)"

definition of_kind :: "string \<Rightarrow> resource_row list \<Rightarrow> resource_row list" where
  "of_kind kind rows = filter (\<lambda>r. rr_kind r = kind) rows"

definition cleanupAttemptResources :: "'h remote \<Rightarrow> turns \<Rightarrow> attempt_row \<Rightarrow> ('h, unit) step" where
  "cleanupAttemptResources R turns attempt =
     step_bind (statement turns (\<lambda>_ s. (case rm_getHost R (ra_target_host_id attempt) s of
         Inl e \<Rightarrow> Inl (CleanupFailed (exn_message e)) | Inr host \<Rightarrow> Inr host, s))) (\<lambda>host.
     step_bind (statement turns (\<lambda>_ s. (Inr (pending_resources attempt s), s))) (\<lambda>rows.
     if ''demo'' \<in> set (hc_tags host) then step_each (renew_and_mark turns attempt) rows
     else
     step_bind (discoverResources R turns host attempt rows []) (\<lambda>composeResources.
     step_bind (cleanEach R turns host attempt rows []
         (sort_key kind_order (map snd composeResources @ filter (\<lambda>r. docker_kind (rr_kind r)) rows))) (\<lambda>_.
     step_bind (step_each (\<lambda>r. markResourceDisposition turns attempt r ''cleaned'') (of_kind ''compose_project'' rows)) (\<lambda>_.
     step_bind (step_each (cleanDirectory R turns host attempt)
         (sort_key (\<lambda>r. - int (length (rr_resource_name r))) (of_kind ''directory'' rows))) (\<lambda>_.
       step_each (renew_and_mark turns attempt) (of_kind ''database'' rows)))))))"

section \<open>Settling a claimed attempt\<close>

definition remove_prop :: "(string \<times> json) list \<Rightarrow> string \<Rightarrow> (string \<times> json) list" where
  "remove_prop fs k = filter (\<lambda>(k', _). k' \<noteq> k) fs"

definition rearmed_metadata :: "string \<Rightarrow> (string \<times> json) list \<Rightarrow> (string \<times> json) list" where
  "rearmed_metadata now fs =
     obj_concat (foldl remove_prop fs [''sourceRestartReconciliationToken'', ''sourceRestartReconciliationStartedAt'',
         ''sourceRestartTargetCleanupBlockedAt''])
       [(''sourceRestartReconciliationState'', JStr ''pending''), (''sourceRestartTargetCleanupBlocked'', JBool False),
        (''sourceRestartTargetCleanupError'', JNull), (''sourceRestartTargetCleanupCompletedAt'', JStr now),
        (''sourceRestartRearmedAt'', JStr now)]"

definition restart_blocked :: "attempt_row \<Rightarrow> point_row \<Rightarrow> bool" where
  "restart_blocked attempt p \<longleftrightarrow> Some (rp_id p) = ra_recovery_point_id attempt
     \<and> rp_migration_run_id p = ra_migration_run_id attempt
     \<and> text_prop (rp_metadata p) ''sourceRestartPending'' = Some ''true''
     \<and> text_prop (rp_metadata p) ''sourceRestartReconciliationState'' = Some ''blocked_target_cleanup''
     \<and> text_prop (rp_metadata p) ''sourceRestartTargetCleanupBlocked'' = Some ''true''"

definition releaseSourceRestartAfterCleanup :: "clock \<Rightarrow> attempt_row \<Rightarrow> db \<Rightarrow> db" where
  "releaseSourceRestartAfterCleanup ck attempt s =
     (if ra_migration_run_id attempt = None \<or> ra_recovery_point_id attempt = None then s
      else s\<lparr>d_points := update_where (restart_blocked attempt)
             (\<lambda>p. p\<lparr>rp_metadata := rearmed_metadata (show_int (ck_clock ck)) (rp_metadata p)\<rparr>) (d_points s)\<rparr>)"

definition completeClaimedAttempt :: "clock \<Rightarrow> attempt_row \<Rightarrow> db \<Rightarrow> unit result \<times> db" where
  "completeClaimedAttempt ck attempt = withTransaction (\<lambda>s.
     if length (filter (holds_claim attempt) (d_attempts s)) \<noteq> 1
     then Inl (PlainError ''Recovery restore reconciliation lost its durable claim'')
     else Inr ((), releaseSourceRestartAfterCleanup ck attempt
            (s\<lparr>d_attempts := update_where (holds_claim attempt) (clean_attempt ck) (d_attempts s)\<rparr>)))"

fun error_text :: "cleanup_error \<Rightarrow> string" where
  "error_text ClaimLost = ''Recovery restore reconciliation lost its durable cleanup claim''"
| "error_text OutcomeUnknown =
     ''Recovery restore cleanup command outcome is unknown; retry is deferred until the command is quiescent''"
| "error_text (CleanupFailed message) = message"

definition failClaimedAttempt :: "externs \<Rightarrow> clock \<Rightarrow> attempt_row \<Rightarrow> cleanup_error \<Rightarrow> db \<Rightarrow> db" where
  "failClaimedAttempt X ck attempt error s =
     (let retryDelayMs = (if error = OutcomeUnknown then RECOVERY_RESTORE_QUIESCENCE_MS
                          else RECOVERY_RESTORE_RECONCILIATION_MARGIN_MS) in
      s\<lparr>d_attempts := update_where (holds_claim attempt)
          (\<lambda>a. a\<lparr>ra_status := ''cleanup_pending'', ra_cleanup_not_before := Some (ck_now ck + milliseconds retryDelayMs),
                  ra_reconciliation_token := None, ra_reconciliation_started_at := None,
                  ra_last_error := Some (boundedDiagnostic X (error_text error)), ra_updated_at := ck_now ck\<rparr>)
          (d_attempts s)\<rparr>)"

definition reconcile_attempt :: "externs \<Rightarrow> 'h remote \<Rightarrow> turns \<Rightarrow> attempt_row \<Rightarrow> ('h, log_entry) session \<Rightarrow> bool \<times> ('h, log_entry) session" where
  "reconcile_attempt X R turns attempt s =
     (case step_bind (cleanupAttemptResources R turns attempt) (\<lambda>_.
         statement turns (\<lambda>ck s. case completeClaimedAttempt ck attempt s of
             (Inl e, s') \<Rightarrow> (Inl (CleanupFailed (exn_message e)), s') | (Inr _, s') \<Rightarrow> (Inr (), s'))) s of
        (Inr _, s') \<Rightarrow> (True, s')
      | (Inl error, s') \<Rightarrow>
          (False, snd (statement turns (\<lambda>ck s. (Inr () :: cleanup_error + unit, failClaimedAttempt X ck attempt error s)) s')))"

fun reconcile_each :: "externs \<Rightarrow> 'h remote \<Rightarrow> turns \<Rightarrow> attempt_row list \<Rightarrow> ('h, log_entry) session \<Rightarrow> (nat \<times> nat) \<times> ('h, log_entry) session" where
  "reconcile_each X R turns [] s = ((0, 0), s)"
| "reconcile_each X R turns (attempt # rest) s =
     (let (ok, s1) = reconcile_attempt X R turns attempt s;
          ((cleaned, failed), s2) = reconcile_each X R turns rest s1
      in (if ok then (cleaned + 1, failed) else (cleaned, failed + 1), s2))"

definition reconcileRecoveryRestoreAttempts ::
    "externs \<Rightarrow> 'h remote \<Rightarrow> turns \<Rightarrow> uuid list \<Rightarrow> uuid list \<Rightarrow> nat \<Rightarrow> ('h, log_entry) session \<Rightarrow> (nat \<times> nat \<times> nat) \<times> ('h, log_entry) session" where
  "reconcileRecoveryRestoreAttempts X R turns locked tokens limit s =
     (let (r, s1) = statement turns (\<lambda>ck s. let (claimed, s') = claimRestoreAttempts ck locked tokens limit s in (Inr claimed :: cleanup_error + attempt_row list, s')) s;
          attempts = (case r of Inr claimed \<Rightarrow> claimed | Inl _ \<Rightarrow> []);
          ((cleaned, failed), s2) = reconcile_each X R turns attempts s1
      in ((length attempts, cleaned, failed), s2))"

section \<open>What a reconciler sends to a host\<close>

text \<open>The claim of the reconciler was in the database when the command was sent.\<close>

definition under_claim :: "attempt_row \<Rightarrow> log_entry \<Rightarrow> bool" where
  "under_claim attempt e = list_ex (holds_claim attempt) (d_attempts (le_db e))"

text \<open>The answer to an inspection that names an object owned by the attempt.\<close>

definition owned_answer :: "attempt_row \<Rightarrow> string \<Rightarrow> log_entry \<Rightarrow> bool" where
  "owned_answer attempt capturedId e = (case le_result e of
     None \<Rightarrow> False
   | Some r \<Rightarrow> cr_code r = 0
       \<and> parseOwnedDockerResourceBoundary (trim (cr_stdout r)) = Some (capturedId, restoreOwnershipValue attempt))"

definition under_root :: "attempt_row \<Rightarrow> string \<Rightarrow> bool" where
  "under_root attempt p \<longleftrightarrow> ''..'' \<notin> set (split_on (CHR ''/'') p)
     \<and> (\<exists>root\<in>set (allowedPathRoots attempt). \<exists>rest. split_on (CHR ''/'') p = split_on (CHR ''/'') root @ rest)"

text \<open>
  The commands a reconciler may send: listings and inspections; the removal of a directory under a root of the
  attempt; and the removal of a Docker object right after two inspections of it, by the recorded name and by its
  identity, that both name the attempt as its owner.
\<close>

inductive authorised :: "'h remote \<Rightarrow> attempt_row \<Rightarrow> log_entry list \<Rightarrow> bool" for R attempt where
  silent: "authorised R attempt []"
| look: "authorised R attempt l \<Longrightarrow> under_claim attempt e
    \<Longrightarrow> le_command e = listCommand kind name \<or> le_command e = ownedDockerResourceInspectCommand kind name
    \<Longrightarrow> authorised R attempt (l @ [e])"
| directory: "authorised R attempt l \<Longrightarrow> under_claim attempt e \<Longrightarrow> under_root attempt p
    \<Longrightarrow> rm_cleanupDirectory R p (restoreOwnershipValue attempt) (ra_id attempt) label = Inr (le_command e)
    \<Longrightarrow> authorised R attempt (l @ [e])"
| removal: "authorised R attempt (l @ [e1, e2]) \<Longrightarrow> under_claim attempt e
    \<Longrightarrow> le_command e1 = ownedDockerResourceInspectCommand kind name \<Longrightarrow> owned_answer attempt capturedId e1
    \<Longrightarrow> le_command e2 = ownedDockerResourceInspectCommand kind capturedId \<Longrightarrow> owned_answer attempt capturedId e2
    \<Longrightarrow> le_command e = removeAction kind @ '' '' @ shQuote capturedId
    \<Longrightarrow> authorised R attempt (l @ [e1, e2, e])"

lemma authorised_append:
  assumes "authorised R attempt b" and "authorised R attempt a"
  shows "authorised R attempt (a @ b)"
  using assms
proof (induction rule: authorised.induct)
  case silent
  then show ?case by simp
next
  case (look l e kind name)
  then show ?case using authorised.look [of R attempt "a @ l" e kind name] by simp
next
  case (directory l e p label)
  then show ?case using authorised.directory [of R attempt "a @ l" e p label] by simp
next
  case (removal l e1 e2 e kind name capturedId)
  then show ?case using authorised.removal [of R attempt "a @ l" e1 e2 e kind name capturedId] by simp
qed

interpretation authorised_log: log_property "authorised R attempt" for R attempt
  by unfold_locales (rule authorised.silent, rule authorised_append)

lemma sends_of_result: "log_property.logs (authorised R attempt) (of_result r)"
  by (cases r) (simp_all add: of_result_def authorised_log.logs_return authorised_log.logs_throw)

lemma renew_under_claim:
  assumes "renewRestoreAttemptClaim turns attempt s = (Inr (), s')"
  shows "list_ex (holds_claim attempt) (d_attempts (ss_db s'))" "ss_log s' = ss_log s"
proof -
  obtain ck others where t: "turns (ss_tick s) = (ck, others)" by force
  have one: "length (filter (holds_claim attempt) (d_attempts (others (ss_db s)))) = 1"
    using assms t by (auto simp: renewRestoreAttemptClaim_def statement_def renew_claim_def split: if_splits)
  then have held: "list_ex (holds_claim attempt) (d_attempts (others (ss_db s)))"
    by (metis filter_empty_conv list.size(3) list_ex_iff zero_neq_one)
  have "s' = s\<lparr>ss_db := snd (renew_claim attempt ck (others (ss_db s))), ss_tick := ss_tick s + 1\<rparr>"
    using assms t by (auto simp: renewRestoreAttemptClaim_def statement_def split: prod.splits)
  then show "ss_log s' = ss_log s" "list_ex (holds_claim attempt) (d_attempts (ss_db s'))"
    using held by (auto simp: renew_claim_def holds_claim_def intro!: list_ex_update_where)
qed

lemma run_claimed_cases:
  assumes "runClaimedRemoteCommand turns attempt command run s = (r, s')"
  obtains e where "r = Inl e" "ss_log s' = ss_log s"
        | e where "ss_log s' = ss_log s @ [e]" "le_command e = command" "under_claim attempt e"
            "\<And>x. r = Inr x \<Longrightarrow> le_result e = Some x"
proof -
  obtain q t where first: "renewRestoreAttemptClaim turns attempt s = (q, t)" by force
  show thesis
  proof (cases q)
    case (Inl e)
    have "ss_log t = ss_log s" using first
      by (auto simp: renewRestoreAttemptClaim_def statement_def split: prod.splits)
    with Inl first assms show thesis
      by (intro that(1) [of e]) (simp_all add: runClaimedRemoteCommand_def step_bind_def)
  next
    case (Inr u)
    note claim = renew_under_claim [OF first [unfolded Inr unit_eq [of u]]]
    obtain x h where run: "run command (ss_host t) = (x, h)" by force
    let ?e = "\<lparr>le_command = command, le_result = x, le_db = ss_db t\<rparr>"
    have entry: "under_claim attempt ?e" using claim by (simp add: under_claim_def)
    show thesis
    proof (cases x)
      case None
      with Inr first run claim assms entry that(2) [of ?e] show thesis
        by (auto simp: runClaimedRemoteCommand_def step_bind_def send_def call_def)
    next
      case (Some result)
      let ?t = "t\<lparr>ss_host := h, ss_log := ss_log t @ [?e]\<rparr>"
      obtain p v where last: "renewRestoreAttemptClaim turns attempt ?t = (p, v)" by force
      have "ss_log v = ss_log s @ [?e]" using last claim(2)
        by (auto simp: renewRestoreAttemptClaim_def statement_def split: prod.splits)
      with Some Inr first run last claim assms entry that(2) [of ?e] show thesis
        by (auto simp: runClaimedRemoteCommand_def step_bind_def send_def call_def step_return_def split: sum.splits)
    qed
  qed
qed

lemma sends_look:
  assumes "command = listCommand kind name \<or> command = ownedDockerResourceInspectCommand kind name"
  shows "log_property.logs (authorised R attempt) (runClaimedRemoteCommand turns attempt command run)"
  unfolding authorised_log.logs_def
proof (intro allI impI)
  fix s r s' assume "runClaimedRemoteCommand turns attempt command run s = (r, s')"
  then show "\<exists>new. ss_log s' = ss_log s @ new \<and> authorised R attempt new"
    by (rule run_claimed_cases) (use assms authorised.silent authorised.look [OF authorised.silent] in fastforce)+
qed

lemma bind_cases:
  assumes "step_bind m f s = (r, s')"
  obtains e where "m s = (Inl e, s')" "r = Inl e"
        | x t where "m s = (Inr x, t)" "f x t = (r, s')"
  using assms by (cases "m s"; cases "fst (m s)") (auto simp: step_bind_def)

lemma return_log: "step_return x s = (r, s') \<Longrightarrow> ss_log s' = ss_log s"
  by (simp add: step_return_def)

lemma throw_log: "step_throw x s = (r, s') \<Longrightarrow> ss_log s' = ss_log s"
  by (simp add: step_throw_def)

lemma run_claimed_ok:
  assumes "runClaimedRemoteCommand turns attempt command run s = (Inr x, s')"
  obtains e where "ss_log s' = ss_log s @ [e]" "le_command e = command" "under_claim attempt e" "le_result e = Some x"
  using assms by (cases rule: run_claimed_cases) auto

lemma removal_log:
  assumes "removeOwnedDockerResource R turns host attempt kind capturedId s = (r, s')"
  shows "ss_log s' = ss_log s
    \<or> (\<exists>e. ss_log s' = ss_log s @ [e] \<and> under_claim attempt e \<and> le_command e = removeAction kind @ '' '' @ shQuote capturedId)"
  using assms unfolding removeOwnedDockerResource_def
proof (cases rule: bind_cases)
  case (1 e)
  from 1(1) show ?thesis by (rule run_claimed_cases) auto
next
  case (2 x t)
  have "ss_log s' = ss_log t" using 2(2) by (auto dest: return_log throw_log split: if_splits)
  with 2(1) show ?thesis by (auto elim!: run_claimed_cases)
qed

lemma confirm_log:
  assumes first: "authorised R attempt [e1]" "le_command e1 = ownedDockerResourceInspectCommand kind name"
    "owned_answer attempt capturedId e1" "le_result e1 = Some inspect"
    and run: "confirmAndRemove R turns host attempt kind inspect capturedId t = (r, s')"
  shows "\<exists>new. ss_log s' = ss_log t @ new \<and> authorised R attempt (e1 # new)"
  using run unfolding confirmAndRemove_def
proof (cases rule: bind_cases)
  case (1 e)
  then obtain l where "ss_log s' = ss_log t @ l" "authorised R attempt l"
    using sends_look [of _ kind capturedId] unfolding authorised_log.logs_def by blast
  with authorised_append [OF _ first(1)] show ?thesis by fastforce
next
  case (2 boundary u)
  then obtain e2 where e2: "ss_log u = ss_log t @ [e2]" "le_command e2 = ownedDockerResourceInspectCommand kind capturedId"
    "under_claim attempt e2" "le_result e2 = Some boundary"
    by (auto elim: run_claimed_ok)
  have two: "authorised R attempt ([] @ [e1, e2])"
    using authorised.look [OF first(1) e2(3)] e2(2) by fastforce
  show ?thesis
  proof (cases "ss_log s' = ss_log u")
    case True
    with e2(1) two show ?thesis by auto
  next
    case False
    with 2(2) have same: "cr_code boundary = 0" "trim (cr_stdout boundary) = trim (cr_stdout inspect)"
      and rm: "removeOwnedDockerResource R turns host attempt kind capturedId u = (r, s')"
      by (auto dest: return_log split: if_splits)
    from removal_log [OF rm] False obtain e where "ss_log s' = ss_log u @ [e]" "under_claim attempt e"
      "le_command e = removeAction kind @ '' '' @ shQuote capturedId" by blast
    moreover have "owned_answer attempt capturedId e2"
      using first(3,4) same e2(4) by (simp add: owned_answer_def)
    ultimately show ?thesis
      using authorised.removal [OF two _ first(2,3) e2(2)] e2(1) by fastforce
  qed
qed

lemma sends_cleanupDockerResource: "log_property.logs (authorised R attempt) (cleanupDockerResource R turns host attempt kind name)"
  unfolding authorised_log.logs_def
proof (intro allI impI)
  fix s r s' assume "cleanupDockerResource R turns host attempt kind name s = (r, s')"
  then show "\<exists>new. ss_log s' = ss_log s @ new \<and> authorised R attempt new"
    unfolding cleanupDockerResource_def
  proof (cases rule: bind_cases)
    case (1 e)
    then show ?thesis using sends_look [of _ kind name] unfolding authorised_log.logs_def by blast
  next
    case (2 inspect t)
    then obtain e1 where e1: "ss_log t = ss_log s @ [e1]" "le_command e1 = ownedDockerResourceInspectCommand kind name"
      "under_claim attempt e1" "le_result e1 = Some inspect"
      by (auto elim: run_claimed_ok)
    have one: "authorised R attempt [e1]"
      using authorised.look [OF authorised.silent e1(3)] e1(2) by fastforce
    show ?thesis
    proof (cases "\<exists>capturedId. owned_answer attempt capturedId e1 \<and> capturedId \<noteq> []")
      case False
      then have "ss_log s' = ss_log t"
        using 2(2) e1(4) by (auto simp: owned_answer_def dest: return_log throw_log split: if_splits option.splits)
      with e1(1) one show ?thesis by auto
    next
      case True
      then obtain capturedId where owned: "owned_answer attempt capturedId e1" "capturedId \<noteq> []" by blast
      with 2(2) e1(4) have "confirmAndRemove R turns host attempt kind inspect capturedId t = (r, s')"
        by (simp add: owned_answer_def)
      with confirm_log [OF one e1(2) owned(1) e1(4)] e1(1) show ?thesis by fastforce
    qed
  qed
qed

lemma sends_list: "log_property.logs (authorised R attempt) (listKinds R turns host projectName attempt kinds)"
  by (induction kinds) (auto intro!: authorised_log.logs_bind authorised_log.logs_return authorised_log.logs_throw sends_look)

lemma sends_discover: "log_property.logs (authorised R attempt) (discoverResources R turns host attempt rows found)"
  by (induction rows arbitrary: found)
     (auto simp: listComposeProjectResources_def simp del: listKinds.simps intro!: authorised_log.logs_bind authorised_log.logs_return sends_list)

lemma sends_mark: "log_property.logs (authorised R attempt) (markResourceDisposition turns attempt resource status)"
  by (simp add: markResourceDisposition_def authorised_log.logs_statement)

lemma sends_renew: "log_property.logs (authorised R attempt) (renewRestoreAttemptClaim turns attempt)"
  by (simp add: renewRestoreAttemptClaim_def authorised_log.logs_statement)

lemma sends_cleanEach: "log_property.logs (authorised R attempt) (cleanEach R turns host attempt rows seen todo)"
  by (induction todo arbitrary: seen)
     (auto simp: Let_def intro!: authorised_log.logs_bind authorised_log.logs_return sends_cleanupDockerResource sends_mark split: option.splits)

lemma split_on_nonempty: "split_on c p \<noteq> []"
  by (induction p) (auto split: list.splits)

lemma split_on_prefix: "split_on c (p @ c # t) = split_on c p @ split_on c t"
  by (induction p) (auto simp: split_on_nonempty split: list.splits)

lemma safe_directory_under_root:
  assumes "assertAttemptDirectoryIsSafe attempt targetPath = Inr p"
  shows "under_root attempt p"
proof -
  from assms obtain root where root: "root \<in> set (allowedPathRoots attempt)" "pathIsWithin root p"
    and safe: "isSafeAbsoluteNonRootPath p"
    by (auto simp: assertAttemptDirectoryIsSafe_def Let_def list_ex_iff split: if_splits)
  have "isSafeAbsoluteNonRootPath root" "strip_slashes root = root"
    using root(1) by (auto simp: allowedPathRoots_def strip_slashes_def dropWhile_idem split: json.splits)
  then have "p = root \<or> (\<exists>t. p = root @ CHR ''/'' # t)"
    using root(2) by (auto simp: pathIsWithin_def starts_with_iff)
  then have "\<exists>rest. split_on (CHR ''/'') p = split_on (CHR ''/'') root @ rest"
    using split_on_prefix by fastforce
  moreover have "''..'' \<notin> set (split_on (CHR ''/'') p)"
    using safe by (simp add: isSafeAbsoluteNonRootPath_def split: if_splits)
  ultimately show ?thesis using root(1) unfolding under_root_def by blast
qed

lemma sends_directory:
  assumes "under_root attempt p" "rm_cleanupDirectory R p (restoreOwnershipValue attempt) (ra_id attempt) label = Inr command"
  shows "log_property.logs (authorised R attempt) (runClaimedRemoteCommand turns attempt command run)"
  unfolding authorised_log.logs_def
proof (intro allI impI)
  fix s r s' assume "runClaimedRemoteCommand turns attempt command run s = (r, s')"
  then show "\<exists>new. ss_log s' = ss_log s @ new \<and> authorised R attempt new"
    by (rule run_claimed_cases) (use assms authorised.silent authorised.directory [OF authorised.silent] in fastforce)+
qed

lemma sends_bind_result:
  assumes "\<And>x. r = Inr x \<Longrightarrow> log_property.logs (authorised R attempt) (f x)"
  shows "log_property.logs (authorised R attempt) (step_bind (of_result r) f)"
proof (cases r)
  case (Inl e)
  then show ?thesis
    by (auto simp: authorised_log.logs_def step_bind_def of_result_def step_throw_def intro: authorised.silent)
next
  case (Inr x)
  then have "step_bind (of_result r) f = f x"
    by (intro ext) (simp add: step_bind_def of_result_def step_return_def)
  with assms Inr show ?thesis by simp
qed

lemma sends_cleanupOwnedDirectory: "log_property.logs (authorised R attempt) (cleanupOwnedDirectory R turns host attempt targetPath)"
  unfolding cleanupOwnedDirectory_def
  by (rule authorised_log.logs_if, rule authorised_log.logs_throw, rule sends_bind_result, rule sends_bind_result, rule authorised_log.logs_bind,
      rule sends_directory, rule safe_directory_under_root, assumption, assumption)
     (intro authorised_log.logs_if authorised_log.logs_return authorised_log.logs_throw)

text \<open>
  C21: Whatever other transactions do meanwhile and whatever the host answers, every command a reconciler sends goes
  out while its claim on the attempt is in the database, and it only lists and inspects, removes a
  directory under a root recorded for the attempt, or removes a Docker object right after two inspections that
  name the attempt as its owner.
\<close>

theorem cleanup_commands_authorised:
  assumes "cleanupAttemptResources R turns attempt s = (r, s')"
  shows "\<exists>new. ss_log s' = ss_log s @ new \<and> authorised R attempt new"
proof -
  have "log_property.logs (authorised R attempt) (cleanupAttemptResources R turns attempt)"
    unfolding cleanupAttemptResources_def renew_and_mark_def cleanDirectory_def
    by (intro authorised_log.logs_bind authorised_log.logs_statement authorised_log.logs_each sends_discover sends_cleanEach sends_mark sends_renew
        sends_cleanupOwnedDirectory authorised_log.logs_if)
  with assms show ?thesis unfolding authorised_log.logs_def by blast
qed

text \<open>An attempt under reconciliation that left one container, on a host that answers every command alike.\<close>

definition sample_attempt :: "string \<Rightarrow> uuid option \<Rightarrow> attempt_row" where
  "sample_attempt status token =
     \<lparr>ra_id = ''att-1'', ra_recovery_point_id = Some ''point-1'', ra_backup_id = None, ra_target_host_id = ''h1'',
      ra_operation_job_id = None, ra_migration_run_id = None, ra_restore_scope = ''point-1'',
      ra_allowed_path_roots = JArr [], ra_retain_on_success = True, ra_status = status, ra_heartbeat_at = 0,
      ra_cleanup_not_before = Some 0, ra_reconciliation_token = token, ra_reconciliation_started_at = None,
      ra_last_error = None, ra_created_at = 0, ra_completed_at = None, ra_updated_at = 0\<rparr>"

definition attempts_db :: "attempt_row list \<Rightarrow> db" where
  "attempts_db rows = empty_db\<lparr>d_attempts := rows,
     d_resources := [\<lparr>rr_attempt_id = ''att-1'', rr_kind = ''container'', rr_resource_name = ''web'', rr_status = ''observed'',
       rr_last_error = None, rr_created_at = 0, rr_updated_at = 0\<rparr>]\<rparr>"

definition sample_remote :: "unit remote" where
  "sample_remote =
     \<lparr>rm_agent = \<lambda>_ h. (None, h),
      rm_ssh = \<lambda>_ h. (Some \<lparr>cr_code = 0, cr_stdout = ''c1|att-1|point-1'', cr_stderr = []\<rparr>, h),
      rm_cleanupDirectory = \<lambda>_ _ _ _. Inl (PlainError []),
      rm_getHost = \<lambda>_ _. Inr \<lparr>hc_connectionMode = ''ssh'', hc_agent = False, hc_dockerSocketPath = ''/var/run/docker.sock'',
        hc_tags = []\<rparr>\<rparr>"

definition sample_session :: "(unit, log_entry) session" where
  "sample_session = \<lparr>ss_db = attempts_db [sample_attempt ''reconciling'' (Some ''t1'')], ss_host = (), ss_tick = 0, ss_log = []\<rparr>"

theorem cleanup_commands_authorised_witness:
  "\<exists>new. map le_command new
      = [ownedDockerResourceInspectCommand ''container'' ''web'', ownedDockerResourceInspectCommand ''container'' ''c1'',
         ''docker rm --force '' @ shQuote ''c1'']
    \<and> authorised sample_remote (sample_attempt ''reconciling'' (Some ''t1'')) new"
proof -
  let ?run = "cleanupAttemptResources sample_remote (\<lambda>_. (clock_of 1, \<lambda>s. s)) (sample_attempt ''reconciling'' (Some ''t1''))
      sample_session"
  have "map le_command (ss_log (snd ?run))
      = [ownedDockerResourceInspectCommand ''container'' ''web'', ownedDockerResourceInspectCommand ''container'' ''c1'',
         ''docker rm --force '' @ shQuote ''c1'']"
    by code_simp
  moreover have "ss_log sample_session = []" by (simp add: sample_session_def)
  moreover obtain r s' where run: "?run = (r, s')" by force
  ultimately show ?thesis using cleanup_commands_authorised [OF run] by (intro exI [of _ "ss_log s'"]) simp
qed

end
