(* ===== verification/Restore_Lifecycle.thy ===== *)
theory Restore_Lifecycle
  imports Restore_Attempts
begin

text \<open>
  The life of a restore attempt: an abstract relation on one row, the refinement of it by every statement that
  writes attempts, the finality of settled attempts over all runs, the conditions of a claim, and the fencing of a
  reconciler that lost its claim.
\<close>

section \<open>The life of an attempt\<close>

abbreviation settled_status :: "string \<Rightarrow> bool" where
  "settled_status st \<equiv> st = ''retained'' \<or> st = ''cleaned''"

text \<open>
  A settled attempt keeps its status. An attempt becomes active only when it is created, awaits its disposition only
  after it was active, and is retained only from one of these two states.
\<close>

definition status_moves :: "string \<Rightarrow> string \<Rightarrow> bool" where
  "status_moves a b \<longleftrightarrow> a = b \<or>
     (\<not> settled_status a \<and> b \<noteq> ''active'' \<and> (b = ''awaiting_disposition'' \<longrightarrow> a = ''active'')
        \<and> (b = ''retained'' \<longrightarrow> a \<in> {''active'', ''awaiting_disposition''}))"

definition identity_of :: "attempt_row \<Rightarrow>
    uuid \<times> uuid option \<times> uuid option \<times> uuid \<times> uuid option \<times> uuid option \<times> string \<times> json \<times> bool \<times> timestamp" where
  "identity_of a = (ra_id a, ra_recovery_point_id a, ra_backup_id a, ra_target_host_id a, ra_operation_job_id a,
     ra_migration_run_id a, ra_restore_scope a, ra_allowed_path_roots a, ra_retain_on_success a, ra_created_at a)"

definition attempt_moves :: "attempt_row \<Rightarrow> attempt_row \<Rightarrow> bool" where
  "attempt_moves a b \<longleftrightarrow> identity_of b = identity_of a \<and> status_moves (ra_status a) (ra_status b)"

lemma attempt_moves_refl [simp]: "attempt_moves a a"
  by (simp add: attempt_moves_def status_moves_def)

lemma status_moves_trans: "status_moves a b \<Longrightarrow> status_moves b c \<Longrightarrow> status_moves a c"
proof (cases "a = b \<or> b = c")
  case False
  assume ab: "status_moves a b" and bc: "status_moves b c"
  have a: "\<not> settled_status a" "b \<noteq> ''active''" using ab False by (simp_all add: status_moves_def)
  have c: "c \<noteq> ''active''" "c \<noteq> ''awaiting_disposition''" using bc a(2) False by (auto simp: status_moves_def)
  have "a = ''active''" if "c = ''retained''"
  proof -
    have "b = ''awaiting_disposition''" using bc a(2) False that by (simp add: status_moves_def)
    then show ?thesis using ab False by (simp add: status_moves_def)
  qed
  with a(1) c show "status_moves a c" by (simp add: status_moves_def)
qed auto

lemma attempt_moves_trans: "attempt_moves a b \<Longrightarrow> attempt_moves b c \<Longrightarrow> attempt_moves a c"
  by (auto simp: attempt_moves_def dest: status_moves_trans)

text \<open>Every row moves, and fresh rows are active.\<close>

definition attempts_move :: "attempt_row list \<Rightarrow> attempt_row list \<Rightarrow> bool" where
  "attempts_move rows rows' \<longleftrightarrow> (\<exists>moved fresh. rows' = moved @ fresh \<and> list_all2 attempt_moves rows moved
     \<and> distinct (map ra_id fresh) \<and> (\<forall>a\<in>set fresh. ra_status a = ''active'' \<and> ra_id a \<notin> ra_id ` set rows))"

lemma attempts_move_all2: "list_all2 attempt_moves rows rows' \<Longrightarrow> attempts_move rows rows'"
  unfolding attempts_move_def by (intro exI [of _ rows'] exI [of _ "[]"]) simp

lemma attempts_move_refl [simp]: "attempts_move rows rows"
  by (rule attempts_move_all2) (simp add: list_all2_refl)

lemma attempts_move_update:
  "(\<And>a. P a \<Longrightarrow> attempt_moves a (f a)) \<Longrightarrow> attempts_move rows (update_where P f rows)"
  by (rule attempts_move_all2) (rule list_all2_update_where, auto)

lemma table_update_moves:
  "(\<And>a. P a \<Longrightarrow> attempt_moves a (f a))
    \<Longrightarrow> attempts_move (d_attempts s) (d_attempts (s\<lparr>d_attempts := update_where P f (d_attempts s)\<rparr>))"
  by (simp add: attempts_move_update)

lemma all2_moves_trans:
  "list_all2 attempt_moves a b \<Longrightarrow> list_all2 attempt_moves b c \<Longrightarrow> list_all2 attempt_moves a c"
  by (rule list_all2_trans [OF attempt_moves_trans])

section \<open>Statements that write attempts\<close>

inductive attempt_step :: "db \<Rightarrow> db \<Rightarrow> bool" where
  start: "attempt_step s (snd (beginRecoveryRestoreAttempt ck context fence s))"
| register: "attempt_step s (snd (registerRecoveryRestoreResource ck ck' token kind name fence s))"
| observe: "attempt_step s (snd (markRecoveryRestoreResourceObserved ck ck' token kind name fence s))"
| await: "attempt_step s (snd (markRecoveryRestoreAttemptAwaitingDisposition ck token fence s))"
| cleanup: "attempt_step s (markRecoveryRestoreAttemptCleanupPending X ck token err unknown s)"
| retain: "attempt_step s (snd (markRecoveryRestoreAttemptRetained ck token fence s))"
| cleaned: "attempt_step s (snd (markRecoveryRestoreAttemptCleaned ck token fence s))"
| claim: "attempt_step s (snd (claimRestoreAttempts ck locked tokens limit s))"
| renew: "attempt_step s (snd (renew_claim attempt ck s))"
| dispose: "attempt_step s (snd (dispose attempt resource status ck s))"
| complete: "attempt_step s (snd (completeClaimedAttempt ck attempt s))"
| fail: "attempt_step s (failClaimedAttempt X ck attempt e s)"
| retain_restore: "retainExactRestoreAttempt ck attempt jobId pointId runId s = Inr s' \<Longrightarrow> attempt_step s s'"
| retain_backup: "retainExactBackupRestoreAttempt ck attempt jobId backupId hostId s = Inr s' \<Longrightarrow> attempt_step s s'"
| other: "d_attempts s' = d_attempts s \<Longrightarrow> attempt_step s s'"

lemma fenced_attempts:
  assumes "\<And>s x t. text s = Inr (x, t) \<Longrightarrow> Q (d_attempts s) (d_attempts t)" and "\<And>rows. Q rows rows"
  shows "Q (d_attempts s) (d_attempts (snd (fencedQuery ck fence text s)))"
proof (cases fence)
  case None
  with assms show ?thesis by (auto simp: fencedQuery_def split: sum.splits)
next
  case (Some f)
  obtain jobId lease where f: "f = (jobId, lease)" by force
  have "Q (d_attempts s) (d_attempts t)" if "text (s\<lparr>d_locks := []\<rparr>) = Inr (x, t)" for x t
    using assms(1) [OF that] by simp
  with Some f assms(2) show ?thesis
    by (auto simp: fencedQuery_def withActiveJobLeaseTransaction_def withTransaction_def split: sum.splits)
qed

lemma sequence_attempts:
  assumes "\<And>s. d_attempts (snd (f s)) = d_attempts s" and "\<And>s. attempts_move (d_attempts s) (d_attempts (snd (g s)))"
  shows "attempts_move (d_attempts s) (d_attempts (snd (in_sequence f g s)))"
proof -
  obtain r t where f: "f s = (r, t)" by force
  with assms(1) [of s] have "d_attempts t = d_attempts s" by simp
  with f assms(2) [of t] show ?thesis by (cases r) (simp_all add: in_sequence_def)
qed

lemma begin_moves: "attempts_move (d_attempts s) (d_attempts (snd (beginRecoveryRestoreAttempt ck context fence s)))"
proof -
  have "attempts_move (d_attempts u) (d_attempts t)" if "insert_attempt (new_attempt ck context) u = Inr (x, t)" for u x t
  proof -
    have "d_attempts t = d_attempts u @ [new_attempt ck context]" "ra_id (new_attempt ck context) \<notin> ra_id ` set (d_attempts u)"
      using that by (auto simp: insert_attempt_def split: if_splits)
    then show ?thesis unfolding attempts_move_def
      by (intro exI [of _ "d_attempts u"] exI [of _ "[new_attempt ck context]"])
         (simp add: list_all2_refl new_attempt_def)
  qed
  then show ?thesis
    using fenced_attempts [of "insert_attempt (new_attempt ck context)" attempts_move s ck fence]
    by (simp add: beginRecoveryRestoreAttempt_def Let_def)
qed

lemma beat_moves: "attempts_move (d_attempts s) (d_attempts (snd (fencedQuery ck fence (beat ck token) s)))"
  by (rule fenced_attempts)
     (auto simp: beat_def attempt_moves_def identity_of_def status_moves_def intro!: attempts_move_update)

lemma register_moves: "attempts_move (d_attempts s) (d_attempts (snd (registerRecoveryRestoreResource ck ck' token kind name fence s)))"
  unfolding registerRecoveryRestoreResource_def
  by (rule sequence_attempts [OF _ beat_moves], rule fenced_attempts [where Q = "\<lambda>a b. b = a"])
     (auto simp: upsert_resource_def split: if_splits)

lemma observe_moves: "attempts_move (d_attempts s) (d_attempts (snd (markRecoveryRestoreResourceObserved ck ck' token kind name fence s)))"
  unfolding markRecoveryRestoreResourceObserved_def
  by (rule sequence_attempts [OF _ beat_moves], rule fenced_attempts [where Q = "\<lambda>a b. b = a"])
     (auto simp: observe_resource_def)

lemmas move_simps = attempt_moves_def identity_of_def status_moves_def open_attempt_def retain_attempt_def clean_attempt_def
  claim_attempt_def holds_claim_def

lemma await_moves:
  "attempts_move (d_attempts s) (d_attempts (snd (markRecoveryRestoreAttemptAwaitingDisposition ck token fence s)))"
  unfolding markRecoveryRestoreAttemptAwaitingDisposition_def
  by (rule fenced_attempts) (auto simp: move_simps intro!: attempts_move_update)

lemma cleaned_moves:
  "attempts_move (d_attempts s) (d_attempts (snd (markRecoveryRestoreAttemptCleaned ck token fence s)))"
  unfolding markRecoveryRestoreAttemptCleaned_def
  by (rule fenced_attempts) (auto simp: move_simps intro!: attempts_move_update)

lemma retain_moves:
  "attempts_move (d_attempts s) (d_attempts (snd (markRecoveryRestoreAttemptRetained ck token fence s)))"
proof -
  let ?q = "\<lambda>s. Inr (length (filter (open_attempt token) (d_attempts s)),
              s\<lparr>d_attempts := update_where (open_attempt token) (retain_attempt ck) (d_attempts s)\<rparr>) :: (nat \<times> db) result"
  have "attempts_move (d_attempts s) (d_attempts (snd (fencedQuery ck fence ?q s)))"
    by (rule fenced_attempts) (auto simp: move_simps intro!: attempts_move_update)
  then show ?thesis
    unfolding markRecoveryRestoreAttemptRetained_def by (auto split: prod.splits sum.splits)
qed

lemma exact_retain_moves:
  "retainExactRestoreAttempt ck attempt jobId pointId runId s = Inr s' \<Longrightarrow> attempts_move (d_attempts s) (d_attempts s')"
  "retainExactBackupRestoreAttempt ck attempt jobId backupId hostId s = Inr s' \<Longrightarrow> attempts_move (d_attempts s) (d_attempts s')"
  unfolding retainExactRestoreAttempt_def retainExactBackupRestoreAttempt_def Let_def
  by (auto simp: move_simps intro!: attempts_move_update split: if_splits)

lemma settle_moves: "list_all2 attempt_moves (d_attempts s) (d_attempts (settle_completed ck s))"
proof -
  have "list_all2 attempt_moves rows (retain_completed ck s rows)" for rows
    unfolding retain_completed_def
    by (rule list_all2_update_where) (auto simp: move_simps unsettled_completed_def)
  moreover have "list_all2 attempt_moves rows (release_completed ck s rows)" for rows
    unfolding release_completed_def
    by (rule list_all2_update_where) (auto simp: move_simps unsettled_completed_def)
  ultimately show ?thesis by (simp add: settle_completed_def all2_moves_trans [of _ "retain_completed ck s (d_attempts s)"])
qed

lemma claim_each_moves:
  assumes "\<forall>a\<in>set selected. \<forall>b\<in>set (d_attempts s). ra_id b = ra_id a \<longrightarrow> \<not> settled_status (ra_status b)"
  shows "list_all2 attempt_moves (d_attempts s) (d_attempts (snd (claim_each ck tokens selected s)))"
  using assms
proof (induction ck tokens selected s rule: claim_each.induct)
  case (1 ck token tokens a rest s)
  let ?P = "\<lambda>b. ra_id b = ra_id a"
  let ?s = "s\<lparr>d_attempts := update_where ?P (claim_attempt ck token) (d_attempts s)\<rparr>"
  have open_rows: "\<not> settled_status (ra_status b)" if "b \<in> set (d_attempts s)" "?P b" for b
    using 1(2) that by simp
  have "attempt_moves b (if ?P b then claim_attempt ck token b else b)" if "b \<in> set (d_attempts s)" for b
    using open_rows [OF that] by (simp add: attempt_moves_def identity_of_def claim_attempt_def status_moves_def)
  then have first: "list_all2 attempt_moves (d_attempts s) (d_attempts ?s)"
    by (simp add: update_where_def list_all2_map2 list.rel_refl_strong)
  have "\<forall>c\<in>set rest. \<forall>b\<in>set (d_attempts ?s). ra_id b = ra_id c \<longrightarrow> \<not> settled_status (ra_status b)"
  proof (intro ballI impI)
    fix c b' assume c: "c \<in> set rest" and "b' \<in> set (d_attempts ?s)" and id: "ra_id b' = ra_id c"
    then obtain b where b: "b \<in> set (d_attempts s)" "b' = (if ?P b then claim_attempt ck token b else b)"
      by (auto simp: set_update_where)
    then have "ra_id b = ra_id c" using id by (simp add: claim_attempt_def split: if_splits)
    with 1(2) c b show "\<not> settled_status (ra_status b')" by (simp add: claim_attempt_def)
  qed
  with 1(1) have "list_all2 attempt_moves (d_attempts ?s) (d_attempts (snd (claim_each ck tokens rest ?s)))"
    by simp
  from all2_moves_trans [OF first this] show ?case by (simp add: Let_def split_beta)
qed (simp_all add: list_all2_refl)

lemma moves_ids: "list_all2 attempt_moves rows rows' \<Longrightarrow> map ra_id rows' = map ra_id rows"
  by (induction rule: list_all2_induct) (simp_all add: attempt_moves_def identity_of_def)

lemma claim_moves:
  assumes "distinct (map ra_id (d_attempts s))"
  shows "list_all2 attempt_moves (d_attempts s) (d_attempts (snd (claimRestoreAttempts ck locked tokens limit s)))"
proof -
  let ?s = "settle_completed ck s"
  let ?selected = "take limit (filter (\<lambda>a. ra_id a \<notin> set locked)
            (sort_key ra_created_at (filter (claimable ck ?s) (d_attempts ?s))))"
  have "distinct (map ra_id (d_attempts ?s))" using assms moves_ids [OF settle_moves] by simp
  then have same: "a = b" if "a \<in> set (d_attempts ?s)" "b \<in> set (d_attempts ?s)" "ra_id b = ra_id a" for a b
    using that by (metis distinct_map inj_onD)
  have "a \<in> set (d_attempts ?s) \<and> claimable ck ?s a" if "a \<in> set ?selected" for a
    using that by (auto dest: in_set_takeD)
  then have "\<forall>a\<in>set ?selected. \<forall>b\<in>set (d_attempts ?s). ra_id b = ra_id a \<longrightarrow> \<not> settled_status (ra_status b)"
  proof (intro ballI impI)
    fix a b assume "a \<in> set ?selected" "b \<in> set (d_attempts ?s)" "ra_id b = ra_id a"
    with \<open>\<And>a. a \<in> set ?selected \<Longrightarrow> a \<in> set (d_attempts ?s) \<and> claimable ck ?s a\<close> same
    have "claimable ck ?s b" by blast
    then show "\<not> settled_status (ra_status b)" by (auto simp: claimable_def)
  qed
  from all2_moves_trans [OF settle_moves claim_each_moves [OF this]] show ?thesis
    by (simp add: claimRestoreAttempts_def Let_def)
qed

lemma attempts_move_ids:
  assumes "attempts_move rows rows'" and "distinct (map ra_id rows)"
  shows "distinct (map ra_id rows')"
proof -
  from assms(1) obtain moved fresh where "rows' = moved @ fresh" "map ra_id moved = map ra_id rows"
    "distinct (map ra_id fresh)" "\<forall>a\<in>set fresh. ra_id a \<notin> ra_id ` set rows"
    unfolding attempts_move_def using moves_ids by blast
  moreover from this have "ra_id ` set moved = ra_id ` set rows" by (metis list.set_map)
  ultimately have "rows' = moved @ fresh" "distinct (map ra_id moved)" "distinct (map ra_id fresh)"
    "\<forall>a\<in>set fresh. ra_id a \<notin> ra_id ` set moved"
    using assms(2) by simp_all
  then show ?thesis unfolding map_append distinct_append by (auto simp: image_iff) metis
qed

lemma complete_moves: "attempts_move (d_attempts s) (d_attempts (snd (completeClaimedAttempt ck attempt s)))"
proof -
  have "attempts_move (d_attempts s) (update_where (holds_claim attempt) (clean_attempt ck) (d_attempts s))"
    by (rule attempts_move_update) (simp add: move_simps)
  then show ?thesis
    by (simp add: completeClaimedAttempt_def withTransaction_def releaseSourceRestartAfterCleanup_def)
qed

lemma renew_moves: "attempts_move (d_attempts s) (d_attempts (snd (renew_claim attempt ck s)))"
  unfolding renew_claim_def snd_conv by (rule table_update_moves) (simp add: attempt_moves_def identity_of_def status_moves_def)

lemma fail_moves: "attempts_move (d_attempts s) (d_attempts (failClaimedAttempt X ck attempt e s))"
  unfolding failClaimedAttempt_def Let_def by (rule table_update_moves) (simp add: move_simps)

lemma cleanup_moves: "attempts_move (d_attempts s) (d_attempts (markRecoveryRestoreAttemptCleanupPending X ck token err unknown s))"
  unfolding markRecoveryRestoreAttemptCleanupPending_def Let_def
  by (rule table_update_moves) (simp add: attempt_moves_def identity_of_def status_moves_def)

lemma step_moves:
  assumes "attempt_step s t" and "distinct (map ra_id (d_attempts s))"
  shows "attempts_move (d_attempts s) (d_attempts t)"
  using assms
proof (induction rule: attempt_step.induct)
  case (claim s ck locked tokens limit)
  then show ?case by (intro attempts_move_all2 claim_moves)
next
  case (dispose s attempt resource status ck)
  then show ?case by (simp add: dispose_def)
qed (simp_all add: begin_moves register_moves observe_moves await_moves retain_moves cleaned_moves complete_moves
      renew_moves fail_moves cleanup_moves exact_retain_moves)

interpretation attempts: transition_system attempt_step .

lemma run_ids: "attempts.run s t \<Longrightarrow> distinct (map ra_id (d_attempts s)) \<Longrightarrow> distinct (map ra_id (d_attempts t))"
  by (erule attempts.run_invariant) (auto intro: attempts_move_ids step_moves)

lemma settled_kept:
  assumes "attempts_move rows rows'" and "a \<in> set rows" and "settled_status (ra_status a)"
  shows "\<exists>b\<in>set rows'. ra_id b = ra_id a \<and> ra_status b = ra_status a"
proof -
  from assms(1) obtain moved fresh where moved: "rows' = moved @ fresh" "list_all2 attempt_moves rows moved"
    unfolding attempts_move_def by blast
  from moved(2) assms(2) obtain b where "b \<in> set moved" "attempt_moves a b"
    by (metis in_set_conv_nth list_all2_conv_all_nth)
  with assms(3) have "ra_id b = ra_id a" "ra_status b = ra_status a"
    by (auto simp: attempt_moves_def identity_of_def status_moves_def)
  with moved(1) \<open>b \<in> set moved\<close> show ?thesis by auto
qed



text \<open>
  A restore attempt that was retained or cleaned stays so over every sequence of statements: no late failure
  report, reconciler or retry reopens it.
\<close>

theorem settled_attempts_final:
  assumes "attempts.run s t" and "distinct (map ra_id (d_attempts s))"
    and "a \<in> set (d_attempts s)" and "settled_status (ra_status a)"
  shows "\<exists>b\<in>set (d_attempts t). ra_id b = ra_id a \<and> ra_status b = ra_status a"
  using assms
proof (induction rule: attempts.run.induct)
  case (step s t u)
  then obtain b where b: "b \<in> set (d_attempts t)" "ra_id b = ra_id a" "ra_status b = ra_status a" by blast
  have "attempts_move (d_attempts t) (d_attempts u)"
    using step_moves [OF step.hyps(2)] run_ids [OF step.hyps(1) step.prems(1)] by blast
  from settled_kept [OF this b(1)] b(2,3) step.prems(3) show ?case by simp
qed auto

theorem settled_attempts_final_witness:
  "\<exists>b\<in>set (d_attempts (snd (claimRestoreAttempts (clock_of 1) [] [''t1''] 10 (attempts_db [sample_attempt ''cleaned'' None])))).
     ra_id b = ''att-1'' \<and> ra_status b = ''cleaned''"
  using settled_attempts_final [OF attempts.run.step [OF attempts.run.refl attempt_step.claim],
      of "attempts_db [sample_attempt ''cleaned'' None]" "sample_attempt ''cleaned'' None" "clock_of 1" "[]" "[''t1'']" 10]
  by (simp add: attempts_db_def sample_attempt_def)

section \<open>Claims\<close>

lemma claim_each_claimed:
  assumes "claim_each ck tokens selected s = (claimed, s')"
  shows "length claimed \<le> length selected
    \<and> (\<forall>c\<in>set claimed. ra_id c \<in> ra_id ` set selected \<and> ra_status c = ''reconciling''
          \<and> ra_reconciliation_started_at c = Some (ck_now ck) \<and> ra_reconciliation_token c \<in> Some ` set tokens)"
  using assms
proof (induction ck tokens selected s arbitrary: claimed s' rule: claim_each.induct)
  case (1 ck token tokens a rest s)
  let ?s = "s\<lparr>d_attempts := update_where (\<lambda>b. ra_id b = ra_id a) (claim_attempt ck token) (d_attempts s)\<rparr>"
  obtain more u where rec: "claim_each ck tokens rest ?s = (more, u)" by force
  note IH = 1(1) [OF refl refl rec]
  show ?case
  proof (cases "filter (\<lambda>b. ra_id b = ra_id a) (d_attempts s)")
    case Nil
    with 1(2) rec have "claimed = more" by (simp add: Let_def)
    with IH show ?thesis by auto
  next
    case (Cons b bs)
    then have "ra_id b = ra_id a" by (metis (mono_tags) filter_eq_ConsD)
    moreover from Cons 1(2) rec have "claimed = claim_attempt ck token b # more" by (simp add: Let_def)
    ultimately show ?thesis using IH by (auto simp: claim_attempt_def)
  qed
qed auto

text \<open>
  Nothing runs for the attempt: its job is over and no other active job restores its point onto its host; the job
  completed without keeping the result, or the time before which no cleanup may run has passed, or, where none was
  recorded, the attempt has been silent for eleven minutes; and no reconciler renewed a claim within two minutes.
\<close>

definition quiescent :: "clock \<Rightarrow> db \<Rightarrow> attempt_row \<Rightarrow> bool" where
  "quiescent ck s a \<longleftrightarrow> \<not> settled_status (ra_status a)
     \<and> \<not> list_ex (\<lambda>j. ra_operation_job_id a = Some (j_id j) \<and> active_job j) (d_jobs s)
     \<and> \<not> list_ex (competing_job s a) (d_jobs s)
     \<and> ((bound_to_completed s a \<and> \<not> ra_retain_on_success a)
        \<or> (case ra_cleanup_not_before a of Some t \<Rightarrow> t \<le> ck_now ck | None \<Rightarrow> ra_heartbeat_at a \<le> ck_now ck - seconds 660))
     \<and> (ra_status a \<noteq> ''reconciling''
        \<or> (case ra_reconciliation_started_at a of None \<Rightarrow> True | Some t \<Rightarrow> t \<le> ck_now ck - seconds 120))"

definition settled_row :: "clock \<Rightarrow> db \<Rightarrow> attempt_row \<Rightarrow> attempt_row" where
  "settled_row ck s a =
     (if unsettled_completed s a
      then if ra_retain_on_success a
           then a\<lparr>ra_status := ''retained'', ra_cleanup_not_before := None, ra_last_error := None,
                   ra_completed_at := coalesce (ra_completed_at a) (Some (ck_now ck)), ra_updated_at := ck_now ck\<rparr>
           else a\<lparr>ra_status := ''cleanup_pending'', ra_cleanup_not_before := Some (ck_now ck), ra_last_error := None,
                   ra_updated_at := ck_now ck\<rparr>
      else a)"

lemma settle_map: "d_attempts (settle_completed ck s) = map (settled_row ck s) (d_attempts s)"
  by (auto simp: settle_completed_def release_completed_def retain_completed_def update_where_def settled_row_def
      unsettled_completed_def bound_to_completed_def)

lemma settled_row_job [simp]:
  "ra_id (settled_row ck s a) = ra_id a" "ra_operation_job_id (settled_row ck s a) = ra_operation_job_id a"
  "ra_recovery_point_id (settled_row ck s a) = ra_recovery_point_id a"
  "ra_target_host_id (settled_row ck s a) = ra_target_host_id a"
  by (simp_all add: settled_row_def)

lemma settle_frame [simp]:
  "d_jobs (settle_completed ck s) = d_jobs s" "d_migrations (settle_completed ck s) = d_migrations s"
  by (simp_all add: settle_completed_def)

lemma competing_settled: "competing_job (settle_completed ck s) (settled_row ck s a) = competing_job s a"
  by (rule ext) (simp add: competing_job_def)

lemma claimable_quiescent:
  assumes "claimable ck (settle_completed ck s) (settled_row ck s a)"
  shows "quiescent ck s a"
proof -
  have jobs: "\<not> list_ex (\<lambda>j. ra_operation_job_id a = Some (j_id j) \<and> active_job j) (d_jobs s)"
    "\<not> list_ex (competing_job s a) (d_jobs s)"
    using assms by (simp_all add: claimable_def competing_settled)
  show ?thesis
  proof (cases "unsettled_completed s a")
    case True
    have "\<not> ra_retain_on_success a"
      using assms True by (auto simp: claimable_def settled_row_def)
    with True jobs show ?thesis by (auto simp: quiescent_def unsettled_completed_def)
  next
    case False
    with assms have "claimable ck (settle_completed ck s) a" by (simp add: settled_row_def)
    then show ?thesis using jobs unfolding claimable_def quiescent_def
      by (auto simp: restore_constants split: option.splits)
  qed
qed

text \<open>
  A reconciler claims at most the number of attempts it asked for, only quiescent ones that no other transaction
  holds, and marks each of them with a fresh token and the time of the claim.
\<close>

theorem claims_only_quiescent:
  assumes "claimRestoreAttempts ck locked tokens limit s = (claimed, s')"
  shows "length claimed \<le> limit \<and> (\<forall>c\<in>set claimed.
      ra_status c = ''reconciling'' \<and> ra_reconciliation_token c \<in> Some ` set tokens
      \<and> ra_reconciliation_started_at c = Some (ck_now ck) \<and> ra_id c \<notin> set locked
      \<and> (\<exists>a\<in>set (d_attempts s). ra_id a = ra_id c \<and> quiescent ck s a))"
proof -
  let ?s = "settle_completed ck s"
  let ?selected = "take limit (filter (\<lambda>a. ra_id a \<notin> set locked)
            (sort_key ra_created_at (filter (claimable ck ?s) (d_attempts ?s))))"
  have claimed: "claim_each ck tokens ?selected ?s = (claimed, s')"
    using assms by (simp add: claimRestoreAttempts_def Let_def)
  have "\<exists>a\<in>set (d_attempts s). ra_id a = ra_id b \<and> quiescent ck s a \<and> ra_id b \<notin> set locked" if "b \<in> set ?selected" for b
  proof -
    have "b \<in> set (d_attempts ?s)" "claimable ck ?s b" "ra_id b \<notin> set locked"
      using that by (auto dest: in_set_takeD)
    then show ?thesis using claimable_quiescent by (auto simp: settle_map)
  qed
  moreover have "length ?selected \<le> limit" by simp
  ultimately show ?thesis using claim_each_claimed [OF claimed] by (fastforce simp: image_iff)
qed

theorem claims_only_quiescent_witness:
  "quiescent (clock_of 1) (attempts_db [sample_attempt ''cleanup_pending'' None]) (sample_attempt ''cleanup_pending'' None)"
proof -
  let ?s = "attempts_db [sample_attempt ''cleanup_pending'' None]"
  obtain claimed s' where run: "claimRestoreAttempts (clock_of 1) [] [''t1''] 10 ?s = (claimed, s')" by force
  have "map ra_id (fst (claimRestoreAttempts (clock_of 1) [] [''t1''] 10 ?s)) = [''att-1'']" by code_simp
  with run have "\<exists>c. c \<in> set claimed" by (cases claimed) auto
  with claims_only_quiescent [OF run] show ?thesis by (auto simp: attempts_db_def)
qed

section \<open>A lost claim\<close>

lemma lost_claim_inert:
  assumes "\<not> list_ex (holds_claim attempt) (d_attempts s)"
  shows "renew_claim attempt ck s = (Inl ClaimLost, s)" "dispose attempt resource status ck s = (Inl ClaimLost, s)"
    "completeClaimedAttempt ck attempt s = (Inl (PlainError ''Recovery restore reconciliation lost its durable claim''), s)"
    "failClaimedAttempt X ck attempt e s = s"
proof -
  have none: "filter (holds_claim attempt) (d_attempts s) = []" "\<forall>a\<in>set (d_attempts s). \<not> holds_claim attempt a"
    using assms by (auto simp: list_ex_iff filter_empty_conv)
  then show "renew_claim attempt ck s = (Inl ClaimLost, s)" "failClaimedAttempt X ck attempt e s = s"
    by (simp_all add: renew_claim_def failClaimedAttempt_def update_where_none)
  show "completeClaimedAttempt ck attempt s = (Inl (PlainError ''Recovery restore reconciliation lost its durable claim''), s)"
    using none by (simp add: completeClaimedAttempt_def withTransaction_def)
  show "dispose attempt resource status ck s = (Inl ClaimLost, s)"
    using assms by (simp add: dispose_def disposes_def update_where_none)
qed

lemma claim_each_rows:
  assumes "claim_each ck tokens selected s = (claimed, s')" and "b \<in> set (d_attempts s')"
  shows "b \<in> set (d_attempts s) \<or> ra_reconciliation_token b \<in> Some ` set tokens"
  using assms
proof (induction ck tokens selected s arbitrary: claimed s' rule: claim_each.induct)
  case (1 ck token tokens a rest s)
  let ?s = "s\<lparr>d_attempts := update_where (\<lambda>b. ra_id b = ra_id a) (claim_attempt ck token) (d_attempts s)\<rparr>"
  obtain more u where rec: "claim_each ck tokens rest ?s = (more, u)" by force
  with 1(2) have "u = s'" by (simp add: Let_def)
  with 1(1) [OF refl refl] 1(3) rec have "b \<in> set (d_attempts ?s) \<or> ra_reconciliation_token b \<in> Some ` set tokens"
    by blast
  then show ?case by (auto simp: set_update_where claim_attempt_def split: if_splits)
qed auto

lemma claim_each_tokens:
  assumes "claim_each ck tokens selected s = (claimed, s')" and "b \<in> set (d_attempts s')"
    and "ra_id b \<in> ra_id ` set claimed"
  shows "ra_reconciliation_token b \<in> Some ` set tokens"
  using assms
proof (induction ck tokens selected s arbitrary: claimed s' rule: claim_each.induct)
  case (1 ck token tokens a rest s)
  let ?s = "s\<lparr>d_attempts := update_where (\<lambda>b. ra_id b = ra_id a) (claim_attempt ck token) (d_attempts s)\<rparr>"
  obtain more u where rec: "claim_each ck tokens rest ?s = (more, u)" by force
  with 1(2) have u: "u = s'" by (simp add: Let_def)
  have "ra_id b = ra_id a \<or> ra_id b \<in> ra_id ` set more"
    using 1(2,4) rec by (auto simp: Let_def claim_attempt_def dest!: filter_eq_ConsD split: list.splits)
  then show ?case
  proof
    assume "ra_id b = ra_id a"
    moreover have "b \<in> set (d_attempts ?s) \<or> ra_reconciliation_token b \<in> Some ` set tokens"
      using claim_each_rows [OF rec] 1(3) u by blast
    ultimately show ?thesis by (auto simp: set_update_where claim_attempt_def split: if_splits)
  next
    assume "ra_id b \<in> ra_id ` set more"
    with 1(1) [OF refl refl rec] 1(3) u show ?thesis by auto
  qed
qed auto

text \<open>
  C23: Once another reconciler claimed an attempt, the one that held it before can write nothing more: renewing,
  recording a disposition, completing and failing are refused and leave the database as it is.
\<close>

theorem superseded_reconciler_inert:
  assumes "claimRestoreAttempts ck locked tokens limit s = (claimed, s')"
    and "ra_id attempt \<in> ra_id ` set claimed" and "ra_reconciliation_token attempt \<notin> Some ` set tokens"
  shows "renew_claim attempt ck' s' = (Inl ClaimLost, s') \<and> dispose attempt resource status ck' s' = (Inl ClaimLost, s')
    \<and> completeClaimedAttempt ck' attempt s' = (Inl (PlainError ''Recovery restore reconciliation lost its durable claim''), s')
    \<and> failClaimedAttempt X ck' attempt e s' = s'"
proof -
  have "\<not> list_ex (holds_claim attempt) (d_attempts s')"
    using assms claim_each_tokens by (fastforce simp: claimRestoreAttempts_def Let_def list_ex_iff holds_claim_def)
  then show ?thesis by (simp add: lost_claim_inert)
qed

theorem superseded_reconciler_inert_witness:
  "fst (renew_claim (sample_attempt ''reconciling'' (Some ''t0'')) (clock_of 300000001)
     (snd (claimRestoreAttempts (clock_of 300000000) [] [''t1''] 10 (attempts_db [sample_attempt ''reconciling'' (Some ''t0'')]))))
   = Inl ClaimLost"
proof -
  let ?s = "attempts_db [sample_attempt ''reconciling'' (Some ''t0'')]"
  obtain claimed s' where run: "claimRestoreAttempts (clock_of 300000000) [] [''t1''] 10 ?s = (claimed, s')" by force
  have "map ra_id (fst (claimRestoreAttempts (clock_of 300000000) [] [''t1''] 10 ?s)) = [''att-1'']" by code_simp
  with run have "''att-1'' \<in> ra_id ` set claimed" by (cases claimed) auto
  with superseded_reconciler_inert [OF run, of "sample_attempt ''reconciling'' (Some ''t0'')"] run show ?thesis
    by (simp add: sample_attempt_def)
qed

end
