(* ===== verification/Stack_Versions.thy ===== *)
theory Stack_Versions
  imports Job_Admission
begin

text \<open>
  The version history of a Compose stack (\<^verbatim>\<open>services/stackVersions.ts\<close>, \<^verbatim>\<open>packages/shared/src/diffText.ts\<close>): recording
  a version under the lock of its stack, reading and comparing versions, and the rollback, which records the replaced
  and the restored content and enqueues the deployment in the same transaction. New identifiers are arguments.
\<close>

section \<open>Versions\<close>

record stack_version =
  ov_id :: uuid
  ov_stackId :: uuid
  ov_versionNumber :: int
  ov_composeYaml :: string
  ov_env :: string
  ov_source :: string
  ov_note :: "string option"
  ov_createdBy :: "uuid option"
  ov_createdAt :: timestamp

definition mapStackVersion :: "version_row \<Rightarrow> stack_version" where
  "mapStackVersion row = \<lparr>ov_id = sv_id row, ov_stackId = sv_stack_id row, ov_versionNumber = sv_version_number row,
     ov_composeYaml = sv_compose_yaml row, ov_env = sv_env row, ov_source = sv_source row, ov_note = sv_note row,
     ov_createdBy = sv_created_by row, ov_createdAt = sv_created_at row\<rparr>"

record stack_version_input =
  vi_stackId :: uuid
  vi_composeYaml :: string
  vi_env :: string
  vi_source :: string
  vi_createdBy :: "uuid option"
  vi_note :: "string option"

text \<open>\<^verbatim>\<open>SELECT COALESCE(MAX(version_number), 0) + 1\<close>, whose sum is a 32-bit integer.\<close>

definition version_numbers :: "uuid \<Rightarrow> db \<Rightarrow> int list" where
  "version_numbers stackId s = map sv_version_number (filter (\<lambda>v. sv_stack_id v = stackId) (d_versions s))"

definition highest :: "int list \<Rightarrow> int" where
  "highest ns = (case ns of [] \<Rightarrow> 0 | n # rest \<Rightarrow> fold max rest n)"

definition next_version :: "uuid \<Rightarrow> db \<Rightarrow> int result" where
  "next_version stackId s =
     (let n = highest (version_numbers stackId s) + 1 in
      if n > 2147483647 then Inl (CodedError ''22003'' ''integer out of range'') else Inr n)"

text \<open>The primary key and the unique number of a version within its stack.\<close>

definition insert_version :: "version_row \<Rightarrow> db \<Rightarrow> (version_row \<times> db) result" where
  "insert_version row s =
     (if sv_id row \<in> sv_id ` set (d_versions s)
         \<or> (sv_stack_id row, sv_version_number row) \<in> (\<lambda>v. (sv_stack_id v, sv_version_number v)) ` set (d_versions s)
      then Inl (CodedError ''23505'' ''duplicate key value violates unique constraint'')
      else Inr (row, s\<lparr>d_versions := d_versions s @ [row]\<rparr>))"

definition update_stack :: "uuid \<Rightarrow> (stack_row \<Rightarrow> stack_row) \<Rightarrow> db \<Rightarrow> db" where
  "update_stack stackId f s = s\<lparr>d_stacks := update_where (\<lambda>st. cs_id st = stackId) f (d_stacks s)\<rparr>"

definition recordStackVersionInTransaction ::
    "clock \<Rightarrow> uuid \<Rightarrow> stack_version_input \<Rightarrow> db \<Rightarrow> (stack_version \<times> db) result" where
  "recordStackVersionInTransaction ck newId input s =
     (if vi_stackId input \<notin> cs_id ` set (d_stacks s) then Inl (PlainError ''Compose stack not found'')
      else and_then (next_version (vi_stackId input) s) (\<lambda>versionNumber.
        and_then (insert_version \<lparr>sv_id = newId, sv_stack_id = vi_stackId input, sv_version_number = versionNumber,
             sv_compose_yaml = vi_composeYaml input, sv_env = vi_env input, sv_source = vi_source input,
             sv_note = vi_note input, sv_created_by = vi_createdBy input, sv_created_at = ck_now ck\<rparr> s) (\<lambda>(row, s1).
        Inr (mapStackVersion row, update_stack (vi_stackId input)
               (\<lambda>st. st\<lparr>cs_current_version_id := Some newId, cs_updated_at := ck_now ck\<rparr>) s1))))"

definition recordStackVersion :: "clock \<Rightarrow> uuid \<Rightarrow> stack_version_input \<Rightarrow> db \<Rightarrow> stack_version result \<times> db" where
  "recordStackVersion ck newId input = withTransaction (recordStackVersionInTransaction ck newId input)"

definition listStackVersions :: "uuid \<Rightarrow> db \<Rightarrow> stack_version list" where
  "listStackVersions stackId s =
     map mapStackVersion (sort_key (\<lambda>v. - sv_version_number v) (filter (\<lambda>v. sv_stack_id v = stackId) (d_versions s)))"

definition getStackVersion :: "uuid \<Rightarrow> uuid \<Rightarrow> db \<Rightarrow> stack_version result" where
  "getStackVersion stackId versionId s =
     (case first_row (filter (\<lambda>v. sv_stack_id v = stackId \<and> sv_id v = versionId) (d_versions s)) of
        None \<Rightarrow> Inl (PlainError ''Stack version not found'')
      | Some row \<Rightarrow> Inr (mapStackVersion row))"

section \<open>Differences\<close>

datatype diff_line =
    DiffAdd nat string
  | DiffRemove nat string
  | DiffChange nat string

text \<open>The loop over the line numbers; the text of a change holds both lines.\<close>

fun diff_lines :: "nat \<Rightarrow> string list \<Rightarrow> string list \<Rightarrow> diff_line list" where
  "diff_lines n [] [] = []"
| "diff_lines n [] (r # rs) = DiffAdd n r # diff_lines (n + 1) [] rs"
| "diff_lines n (l # ls) [] = DiffRemove n l # diff_lines (n + 1) ls []"
| "diff_lines n (l # ls) (r # rs) =
     (if l = r then [] else [DiffChange n (l @ '' -> '' @ r)]) @ diff_lines (n + 1) ls rs"

definition diffText :: "string \<Rightarrow> string \<Rightarrow> diff_line list" where
  "diffText before after = diff_lines 1 (split_on (CHR 0x0A) before) (split_on (CHR 0x0A) after)"

record version_diff =
  vd_fromVersionNumber :: int
  vd_toVersionNumber :: int
  vd_composeChanges :: "diff_line list"
  vd_envChanged :: bool

definition diffStackVersions :: "uuid \<Rightarrow> uuid \<Rightarrow> uuid \<Rightarrow> db \<Rightarrow> version_diff result" where
  "diffStackVersions stackId fromVersionId toVersionId s =
     and_then (getStackVersion stackId fromVersionId s) (\<lambda>from_version.
     and_then (getStackVersion stackId toVersionId s) (\<lambda>to_version.
       Inr \<lparr>vd_fromVersionNumber = ov_versionNumber from_version, vd_toVersionNumber = ov_versionNumber to_version,
            vd_composeChanges = diffText (ov_composeYaml from_version) (ov_composeYaml to_version),
            vd_envChanged = (ov_env from_version \<noteq> ov_env to_version)\<rparr>))"

section \<open>Rollback\<close>

text \<open>A truthy text column\<close>

definition truthy_text :: "string option \<Rightarrow> bool" where
  "truthy_text v \<longleftrightarrow> v \<noteq> None \<and> v \<noteq> Some []"

definition folder_backed :: exn where
  "folder_backed = StatusError 409 (''Rollback is unavailable for folder-backed Compose stacks because ComposeBastion '' @
     ''cannot safely overwrite source files it does not exclusively own. Restore the desired version in the source '' @
     ''folder or Git repository, then redeploy it.'') None"

definition rollback_input :: "uuid \<Rightarrow> string \<Rightarrow> string \<Rightarrow> uuid option \<Rightarrow> string option \<Rightarrow> string \<Rightarrow> stack_version_input" where
  "rollback_input stackId composeYaml env createdBy note otherwise =
     \<lparr>vi_stackId = stackId, vi_composeYaml = composeYaml, vi_env = env, vi_source = ''rollback'', vi_createdBy = createdBy,
      vi_note = (case note of None \<Rightarrow> Some otherwise | Some n \<Rightarrow> Some n)\<rparr>"

definition deploy_action :: "uuid \<Rightarrow> uuid \<Rightarrow> docker_action" where
  "deploy_action hostId stackId = \<lparr>a_type = ''compose.deploy'', a_hostId = hostId,
     a_payload = [(''stackId'', JStr stackId), (''pullBeforeDeploy'', JBool False)]\<rparr>"

text \<open>\<open>snapshotId\<close>, \<open>restoredId\<close> and \<open>jobId\<close> are the generated identifiers.\<close>

definition rollback_in_transaction ::
    "externs \<Rightarrow> clock \<Rightarrow> uuid \<Rightarrow> uuid \<Rightarrow> uuid \<Rightarrow> uuid \<Rightarrow> uuid \<Rightarrow> uuid option \<Rightarrow> string option
     \<Rightarrow> (stack_version \<times> operation_job \<Rightarrow> db \<Rightarrow> db result) \<Rightarrow> db \<Rightarrow> ((stack_version \<times> operation_job) \<times> db) result" where
  "rollback_in_transaction X ck snapshotId restoredId jobId stackId versionId createdBy note onQueued s =
     and_then (getStackVersion stackId versionId s) (\<lambda>version.
     and_then (lockComposeStackForMutation stackId s) (\<lambda>(locked, s1).
       case locked of
         None \<Rightarrow> Inl (PlainError ''Compose stack not found'')
       | Some row \<Rightarrow>
           if truthy_text (cs_source_working_dir row) \<or> truthy_text (cs_source_compose_path row) then Inl folder_backed
           else
             and_then (recordStackVersionInTransaction ck snapshotId (rollback_input stackId (cs_compose_yaml row)
                 (cs_env row) createdBy note (''Snapshot before rollback to v'' @ show_int (ov_versionNumber version))) s1)
               (\<lambda>(_, s2).
             let s3 = update_stack stackId (\<lambda>st. st\<lparr>cs_compose_yaml := ov_composeYaml version, cs_env := ov_env version,
                        cs_updated_at := ck_now ck\<rparr>) s2 in
             and_then (recordStackVersionInTransaction ck restoredId (rollback_input stackId (ov_composeYaml version)
                 (ov_env version) createdBy note (''Rolled back to v'' @ show_int (ov_versionNumber version))) s3)
               (\<lambda>(_, s4).
             and_then (enqueueJobInTransaction X ck jobId (deploy_action (cs_host_id row) stackId) createdBy None s4)
               (\<lambda>(job, s5).
             and_then (onQueued (version, job) s5) (\<lambda>s6.
             Inr ((version, job), s6)))))))"

definition rollbackStackVersion ::
    "externs \<Rightarrow> clock \<Rightarrow> uuid \<Rightarrow> uuid \<Rightarrow> uuid \<Rightarrow> uuid \<Rightarrow> uuid \<Rightarrow> uuid option \<Rightarrow> string option
     \<Rightarrow> (stack_version \<times> operation_job \<Rightarrow> db \<Rightarrow> db result) \<Rightarrow> db \<Rightarrow> (stack_version \<times> operation_job) result \<times> db" where
  "rollbackStackVersion X ck snapshotId restoredId jobId stackId versionId createdBy note onQueued =
     withTransaction (rollback_in_transaction X ck snapshotId restoredId jobId stackId versionId createdBy note onQueued)"

section \<open>Lemmas\<close>

interpretation stacks: keyed_table cs_id .

interpretation versions: keyed_table sv_id .

definition version_slot :: "version_row \<Rightarrow> uuid \<times> int" where
  "version_slot v = (sv_stack_id v, sv_version_number v)"

text \<open>
  What the history promises: stacks and versions have unique identifiers, a host has one stack per project, a stack has
  one version per number, numbers are positive, and the current version of a stack is one of its versions.
\<close>

definition current_ok :: "version_row list \<Rightarrow> stack_row \<Rightarrow> bool" where
  "current_ok vs st =
     (case cs_current_version_id st of None \<Rightarrow> True | Some i \<Rightarrow> \<exists>v\<in>set vs. sv_id v = i \<and> sv_stack_id v = cs_id st)"

definition stack_place :: "stack_row \<Rightarrow> uuid \<times> string" where
  "stack_place st = (cs_host_id st, cs_project_name st)"

definition history_wf :: "db \<Rightarrow> bool" where
  "history_wf s \<longleftrightarrow> stacks.keys_unique (d_stacks s) \<and> distinct (map stack_place (d_stacks s))
     \<and> versions.keys_unique (d_versions s) \<and> distinct (map version_slot (d_versions s))
     \<and> list_all (\<lambda>v. 0 < sv_version_number v) (d_versions s) \<and> list_all (current_ok (d_versions s)) (d_stacks s)"

lemma highest_ge: "n \<in> set ns \<Longrightarrow> n \<le> highest ns"
proof -
  have "m \<le> fold max ms m \<and> (\<forall>k\<in>set ms. k \<le> fold max ms m)" for m :: int and ms
  proof (induction ms arbitrary: m)
    case (Cons a ms)
    have "max a m \<le> fold max ms (max a m)" and "\<forall>k\<in>set ms. k \<le> fold max ms (max a m)" using Cons.IH by blast+
    then show ?case by auto
  qed simp
  then show "n \<in> set ns \<Longrightarrow> n \<le> highest ns" by (cases ns) (auto simp: highest_def)
qed

lemma highest_nonneg: "\<forall>n\<in>set ns. 0 < n \<Longrightarrow> 0 \<le> highest ns"
proof (cases ns)
  case (Cons n rest)
  assume "\<forall>n\<in>set ns. 0 < n"
  with Cons have "0 < n" by simp
  with highest_ge [of n ns] Cons show ?thesis by simp
qed (simp add: highest_def)

lemma highest_snoc: "highest (ns @ [highest ns + 1]) = highest ns + 1"
  by (cases ns) (simp_all add: highest_def)

lemma next_version_facts:
  assumes "next_version stackId s = Inr n" and "history_wf s"
  shows "0 < n" "n = highest (version_numbers stackId s) + 1" "(stackId, n) \<notin> version_slot ` set (d_versions s)"
proof -
  show n: "n = highest (version_numbers stackId s) + 1"
    using assms(1) by (auto simp: next_version_def Let_def split: if_splits)
  have "\<forall>m\<in>set (version_numbers stackId s). 0 < m"
    using assms(2) by (auto simp: version_numbers_def history_wf_def list_all_iff)
  then show "0 < n" using highest_nonneg n by fastforce
  show "(stackId, n) \<notin> version_slot ` set (d_versions s)"
  proof
    assume "(stackId, n) \<in> version_slot ` set (d_versions s)"
    then have "n \<in> set (version_numbers stackId s)" by (auto simp: version_slot_def version_numbers_def)
    then show False using highest_ge n by fastforce
  qed
qed

lemma version_slot_eq: "(\<lambda>v. (sv_stack_id v, sv_version_number v)) = version_slot"
  by (simp add: fun_eq_iff version_slot_def)

lemma insert_version_facts:
  assumes "insert_version row s = Inr (r, s')"
  shows "r = row" "s' = s\<lparr>d_versions := d_versions s @ [row]\<rparr>" "sv_id row \<notin> sv_id ` set (d_versions s)"
    "version_slot row \<notin> version_slot ` set (d_versions s)"
  using assms by (auto simp: insert_version_def version_slot_eq version_slot_def split: if_splits)

lemma insert_version_wf:
  assumes "insert_version row s = Inr (r, s')" and "history_wf s" and "0 < sv_version_number row"
  shows "history_wf s'"
proof -
  note f = insert_version_facts [OF assms(1)]
  have "list_all (current_ok (d_versions s @ [row])) (d_stacks s)"
    using assms(2) by (auto simp: history_wf_def list_all_iff current_ok_def split: option.splits)
  then show ?thesis
    using assms(2,3) f by (simp add: history_wf_def versions.keys_unique_def)
qed

lemma update_stack_facts [simp]:
  "d_versions (update_stack i f s) = d_versions s" "d_sources (update_stack i f s) = d_sources s"
  "d_stacks (update_stack i f s) = update_where (\<lambda>st. cs_id st = i) f (d_stacks s)" "d_jobs (update_stack i f s) = d_jobs s"
  by (simp_all add: update_stack_def)

lemma update_stack_wf:
  assumes "history_wf s" and "\<And>st. cs_id (f st) = cs_id st" and "\<And>st. stack_place (f st) = stack_place st"
    and "\<And>st. st \<in> set (d_stacks s) \<Longrightarrow> cs_id st = i \<Longrightarrow> current_ok (d_versions s) st \<Longrightarrow> current_ok (d_versions s) (f st)"
  shows "history_wf (update_stack i f s)"
proof -
  have "list_all (current_ok (d_versions s)) (update_where (\<lambda>st. cs_id st = i) f (d_stacks s))"
    using assms(1,4) by (auto simp: history_wf_def list_all_iff set_update_where)
  then show ?thesis
    using assms(1) stacks.unique_update [of f, OF assms(2)] map_update_where [of stack_place f, OF assms(3)]
    by (simp add: history_wf_def)
qed

definition recorded_row :: "clock \<Rightarrow> uuid \<Rightarrow> stack_version_input \<Rightarrow> int \<Rightarrow> version_row" where
  "recorded_row ck newId input n = \<lparr>sv_id = newId, sv_stack_id = vi_stackId input, sv_version_number = n,
     sv_compose_yaml = vi_composeYaml input, sv_env = vi_env input, sv_source = vi_source input,
     sv_note = vi_note input, sv_created_by = vi_createdBy input, sv_created_at = ck_now ck\<rparr>"

lemma record_version_facts:
  assumes "recordStackVersionInTransaction ck newId input s = Inr (v, s')" and "history_wf s"
  shows "d_versions s' = d_versions s @ [recorded_row ck newId input (highest (version_numbers (vi_stackId input) s) + 1)]"
    and "d_stacks s' = update_where (\<lambda>st. cs_id st = vi_stackId input)
       (\<lambda>st. st\<lparr>cs_current_version_id := Some newId, cs_updated_at := ck_now ck\<rparr>) (d_stacks s)"
    and "d_jobs s' = d_jobs s" and "history_wf s'" and "vi_stackId input \<in> cs_id ` set (d_stacks s)"
proof -
  obtain n row s1 where i: "vi_stackId input \<in> cs_id ` set (d_stacks s)" and n: "next_version (vi_stackId input) s = Inr n"
    and r: "insert_version (recorded_row ck newId input n) s = Inr (row, s1)"
    and s': "s' = update_stack (vi_stackId input) (\<lambda>st. st\<lparr>cs_current_version_id := Some newId, cs_updated_at := ck_now ck\<rparr>) s1"
    using assms(1) by (auto simp: recordStackVersionInTransaction_def and_then_Inr_iff recorded_row_def split: if_splits)
  note ins = insert_version_facts [OF r] and nv = next_version_facts [OF n assms(2)]
  show "vi_stackId input \<in> cs_id ` set (d_stacks s)" by (rule i)
  show "d_versions s' = d_versions s @ [recorded_row ck newId input (highest (version_numbers (vi_stackId input) s) + 1)]"
    and "d_stacks s' = update_where (\<lambda>st. cs_id st = vi_stackId input)
       (\<lambda>st. st\<lparr>cs_current_version_id := Some newId, cs_updated_at := ck_now ck\<rparr>) (d_stacks s)"
    and "d_jobs s' = d_jobs s"
    using ins nv s' by simp_all
  have "history_wf s1" using insert_version_wf [OF r assms(2)] nv(1) by (simp add: recorded_row_def)
  then show "history_wf s'"
    unfolding s' by (rule update_stack_wf) (auto simp: stack_place_def current_ok_def ins recorded_row_def)
qed

lemma lockComposeStack_cases:
  assumes "lockComposeStackForMutation stackId s = Inr (Some row, s')"
  obtains k where "row \<in> set (d_stacks s)" "cs_id row = stackId" "s' = advisory_lock k s"
proof -
  have "first_row (filter (\<lambda>st. cs_id st = stackId) (d_stacks s)) = Some row"
    and "s' = advisory_lock (''compose-stack:'' @ cs_host_id row @ '':'' @ stackId) s"
    using assms by (auto simp: lockComposeStackForMutation_def Let_def and_then_Inr_iff split: option.splits)
  then show ?thesis using that by (auto dest!: first_row_SomeD)
qed

lemma history_wf_frame: "d_stacks s' = d_stacks s \<Longrightarrow> d_versions s' = d_versions s \<Longrightarrow> history_wf s' = history_wf s"
  by (simp add: history_wf_def)

lemma findActive_no_key: "findActiveSingleFlightJob X a None None s = Inr (row, s') \<Longrightarrow> row = None"
  by (auto simp: findActiveSingleFlightJob_def judge_rows_def truthy_eq_def Let_def and_then_Inr_iff split: option.splits)

lemma enqueue_deployment:
  assumes "enqueueJobInTransaction X ck jobId a createdBy None s = Inr (job, s')"
  obtains p where "x_parseAction X a = Inr p" "d_jobs s' = d_jobs s @ [new_job ck jobId p createdBy None]"
    "d_stacks s' = d_stacks s" "d_versions s' = d_versions s"
proof -
  obtain p s1 act s2 where p: "x_parseAction X a = Inr p" and s1: "lockJobHostsForEnqueue p s = Inr s1"
    and f: "findActiveSingleFlightJob X p None None s1 = Inr (act, s2)"
    and rest: "(case act of Some row \<Rightarrow> Inr (mapJob row, s2)
       | None \<Rightarrow> and_then (jobInsert ck jobId p createdBy None s2) (\<lambda>(row, s3).
           Inr (sanitizeOperationJobForRead X (mapJob row), s3))) = Inr (job, s')"
    using assms by (auto simp: enqueueJobInTransaction_def and_then_Inr_iff)
  have s1': "d_jobs s1 = d_jobs s" "d_stacks s1 = d_stacks s" "d_versions s1 = d_versions s"
    using s1 by (auto simp: lockJobHostsForEnqueue_def Let_def split: if_splits)
  have s2': "d_jobs s2 = d_jobs s1" "d_stacks s2 = d_stacks s1" "d_versions s2 = d_versions s1"
    using f by (auto simp: findActiveSingleFlightJob_def Let_def and_then_Inr_iff split: option.splits)
  have "act = None" by (rule findActive_no_key [OF f])
  with rest have "d_jobs s' = d_jobs s2 @ [new_job ck jobId p createdBy None]" "d_stacks s' = d_stacks s2"
    "d_versions s' = d_versions s2"
    by (auto simp: and_then_Inr_iff jobInsert_def Let_def split: if_splits)
  with s1' s2' p that show ?thesis by simp
qed

text \<open>The callback of a rollback, which writes the audit event, keeps the stacks, their versions and the jobs.\<close>

definition keeps_history :: "(stack_version \<times> operation_job \<Rightarrow> db \<Rightarrow> db result) \<Rightarrow> bool" where
  "keeps_history onQueued \<longleftrightarrow> (\<forall>q s s'. onQueued q s = Inr s' \<longrightarrow>
     d_stacks s' = d_stacks s \<and> d_versions s' = d_versions s \<and> d_jobs s' = d_jobs s)"

lemma getStackVersion_row:
  assumes "getStackVersion stackId versionId s = Inr v"
  obtains r where "r \<in> set (d_versions s)" "sv_stack_id r = stackId" "sv_id r = versionId" "v = mapStackVersion r"
proof -
  obtain r where "first_row (filter (\<lambda>v. sv_stack_id v = stackId \<and> sv_id v = versionId) (d_versions s)) = Some r"
    and "v = mapStackVersion r"
    using assms by (auto simp: getStackVersion_def split: option.splits)
  with that show ?thesis by (auto dest!: first_row_SomeD)
qed

lemma rollback_input_stack [simp]: "vi_stackId (rollback_input i y e c n other) = i"
  by (simp add: rollback_input_def)

lemma rollback_cases:
  assumes "rollback_in_transaction X ck snapshotId restoredId jobId stackId versionId createdBy note onQueued s
     = Inr ((version, job), s')" and "history_wf s" and "keeps_history onQueued"
  obtains row n p where "row \<in> set (d_stacks s)" "cs_id row = stackId"
    "\<not> truthy_text (cs_source_working_dir row)" "\<not> truthy_text (cs_source_compose_path row)"
    "getStackVersion stackId versionId s = Inr version"
    "n = highest (version_numbers stackId s)"
    "d_versions s' = d_versions s @ [recorded_row ck snapshotId (rollback_input stackId (cs_compose_yaml row) (cs_env row)
       createdBy note (''Snapshot before rollback to v'' @ show_int (ov_versionNumber version))) (n + 1),
       recorded_row ck restoredId (rollback_input stackId (ov_composeYaml version)
       (ov_env version) createdBy note (''Rolled back to v'' @ show_int (ov_versionNumber version))) (n + 2)]"
    "d_stacks s' = update_where (\<lambda>st. cs_id st = stackId) (\<lambda>st. st\<lparr>cs_compose_yaml := ov_composeYaml version,
       cs_env := ov_env version, cs_current_version_id := Some restoredId, cs_updated_at := ck_now ck\<rparr>) (d_stacks s)"
    "history_wf s'" "x_parseAction X (deploy_action (cs_host_id row) stackId) = Inr p"
    "d_jobs s' = d_jobs s @ [new_job ck jobId p createdBy None]"
proof -
  let ?in1 = "\<lambda>row. rollback_input stackId (cs_compose_yaml row) (cs_env row) createdBy note
    (''Snapshot before rollback to v'' @ show_int (ov_versionNumber version))"
  let ?in2 = "rollback_input stackId (ov_composeYaml version) (ov_env version) createdBy note
    (''Rolled back to v'' @ show_int (ov_versionNumber version))"
  let ?restore = "\<lambda>st. st\<lparr>cs_compose_yaml := ov_composeYaml version, cs_env := ov_env version, cs_updated_at := ck_now ck\<rparr>"
  obtain row s1 v2 s2 v4 s4 s5 where v: "getStackVersion stackId versionId s = Inr version"
    and l: "lockComposeStackForMutation stackId s = Inr (Some row, s1)"
    and nt: "\<not> truthy_text (cs_source_working_dir row)" "\<not> truthy_text (cs_source_compose_path row)"
    and r1: "recordStackVersionInTransaction ck snapshotId (?in1 row) s1 = Inr (v2, s2)"
    and r2: "recordStackVersionInTransaction ck restoredId ?in2 (update_stack stackId ?restore s2) = Inr (v4, s4)"
    and e: "enqueueJobInTransaction X ck jobId (deploy_action (cs_host_id row) stackId) createdBy None s4 = Inr (job, s5)"
    and q: "onQueued (version, job) s5 = Inr s'"
    using assms(1)
    by (auto simp: rollback_in_transaction_def and_then_Inr_iff Let_def split: option.splits if_splits)
  obtain k where row: "row \<in> set (d_stacks s)" "cs_id row = stackId" and s1: "s1 = advisory_lock k s"
    by (rule lockComposeStack_cases [OF l])
  have wf1: "history_wf s1" using assms(2) s1 history_wf_frame [of s1 s] by simp
  note f1 = record_version_facts [OF r1 wf1, unfolded rollback_input_stack]
  have wf3: "history_wf (update_stack stackId ?restore s2)"
    by (rule update_stack_wf [OF f1(4)]) (auto simp: stack_place_def current_ok_def split: option.splits)
  note f2 = record_version_facts [OF r2 wf3, unfolded rollback_input_stack]
  obtain p where p: "x_parseAction X (deploy_action (cs_host_id row) stackId) = Inr p"
    and s5: "d_jobs s5 = d_jobs s4 @ [new_job ck jobId p createdBy None]" "d_stacks s5 = d_stacks s4" "d_versions s5 = d_versions s4"
    by (rule enqueue_deployment [OF e])
  have s': "d_stacks s' = d_stacks s5" "d_versions s' = d_versions s5" "d_jobs s' = d_jobs s5"
    using assms(3) q by (auto simp: keeps_history_def)
  have u: "update_where (\<lambda>st. cs_id st = stackId) (\<lambda>st. st\<lparr>cs_current_version_id := Some restoredId, cs_updated_at := ck_now ck\<rparr>)
      (update_where (\<lambda>st. cs_id st = stackId) ?restore (update_where (\<lambda>st. cs_id st = stackId)
        (\<lambda>st. st\<lparr>cs_current_version_id := Some snapshotId, cs_updated_at := ck_now ck\<rparr>) xs))
    = update_where (\<lambda>st. cs_id st = stackId) (\<lambda>st. st\<lparr>cs_compose_yaml := ov_composeYaml version,
       cs_env := ov_env version, cs_current_version_id := Some restoredId, cs_updated_at := ck_now ck\<rparr>) xs" for xs
    by (induction xs) simp_all
  let ?n = "highest (version_numbers stackId s)"
  have vs2: "d_versions s2 = d_versions s @ [recorded_row ck snapshotId (?in1 row) (?n + 1)]"
    using f1(1) s1 by (simp add: version_numbers_def)
  have "version_numbers stackId (update_stack stackId ?restore s2) = version_numbers stackId s @ [?n + 1]"
    by (simp add: version_numbers_def vs2 recorded_row_def)
  then have n2: "highest (version_numbers stackId (update_stack stackId ?restore s2)) + 1 = ?n + 2"
    by (simp add: highest_snoc)
  have vs: "d_versions s' = d_versions s @ [recorded_row ck snapshotId (?in1 row) (?n + 1),
      recorded_row ck restoredId ?in2 (?n + 2)]"
    using f2(1) s' s5 vs2 n2 by simp
  have st: "d_stacks s' = update_where (\<lambda>st. cs_id st = stackId) (\<lambda>st. st\<lparr>cs_compose_yaml := ov_composeYaml version,
      cs_env := ov_env version, cs_current_version_id := Some restoredId, cs_updated_at := ck_now ck\<rparr>) (d_stacks s)"
    using f2(2) f1(2) s' s5 s1 u by simp
  have wf: "history_wf s'" using f2(4) s' s5 history_wf_frame [of s' s4] by simp
  have jobs: "d_jobs s' = d_jobs s @ [new_job ck jobId p createdBy None]" using f2(3) f1(3) s' s5 s1 by simp
  show ?thesis by (rule that [OF row nt v refl vs st wf p jobs])
qed

section \<open>Properties\<close>

text \<open>
  A rollback restores the chosen version and can itself be undone. When it commits, the stack is not folder-backed
  and holds the Compose file and environment of the chosen version; two versions were appended with the next two
  numbers, the first holding exactly what the stack held before, the second what it holds now and current; every earlier
  version, every other stack and the well-formedness of the history are kept; and one deployment of the stack was
  queued in the same transaction. A rollback that throws changes nothing.
\<close>

theorem rollback_restores_and_snapshots:
  assumes "history_wf s" and "keeps_history onQueued"
    and "rollbackStackVersion X ck snapshotId restoredId jobId stackId versionId createdBy note onQueued s = (r, s')"
  shows "case r of
     Inl e \<Rightarrow> s' = s
   | Inr (version, job) \<Rightarrow> history_wf s' \<and> (\<exists>v\<in>set (d_versions s). sv_id v = versionId \<and> sv_stack_id v = stackId
       \<and> (\<exists>st\<in>set (d_stacks s). cs_id st = stackId \<and> \<not> truthy_text (cs_source_working_dir st)
         \<and> (\<exists>snapshot restored p. d_versions s' = d_versions s @ [snapshot, restored]
            \<and> sv_stack_id snapshot = stackId \<and> sv_compose_yaml snapshot = cs_compose_yaml st \<and> sv_env snapshot = cs_env st
            \<and> sv_version_number snapshot = highest (version_numbers stackId s) + 1
            \<and> sv_stack_id restored = stackId \<and> sv_compose_yaml restored = sv_compose_yaml v \<and> sv_env restored = sv_env v
            \<and> sv_version_number restored = highest (version_numbers stackId s) + 2
            \<and> d_stacks s' = update_where (\<lambda>st. cs_id st = stackId) (\<lambda>st. st\<lparr>cs_compose_yaml := sv_compose_yaml v,
                cs_env := sv_env v, cs_current_version_id := Some (sv_id restored), cs_updated_at := ck_now ck\<rparr>) (d_stacks s)
            \<and> x_parseAction X (deploy_action (cs_host_id st) stackId) = Inr p
            \<and> d_jobs s' = d_jobs s @ [new_job ck jobId p createdBy None])))"
proof (cases r)
  case (Inl e)
  with assms(3) show ?thesis by (auto simp: rollbackStackVersion_def dest: withTransaction_Inl)
next
  case (Inr q)
  obtain version job where q: "q = (version, job)" by (cases q)
  obtain t where t: "rollback_in_transaction X ck snapshotId restoredId jobId stackId versionId createdBy note onQueued
      (s\<lparr>d_locks := []\<rparr>) = Inr ((version, job), t)" and s': "s' = t\<lparr>d_locks := d_locks s\<rparr>"
    using assms(3) Inr q by (auto simp: rollbackStackVersion_def withTransaction_Inr)
  have wf0: "history_wf (s\<lparr>d_locks := []\<rparr>)" using assms(1) history_wf_frame [of "s\<lparr>d_locks := []\<rparr>" s] by simp
  show ?thesis
  proof (rule rollback_cases [OF t wf0 assms(2)])
    fix row n p
    assume row: "row \<in> set (d_stacks (s\<lparr>d_locks := []\<rparr>))" "cs_id row = stackId" "\<not> truthy_text (cs_source_working_dir row)"
      and v: "getStackVersion stackId versionId (s\<lparr>d_locks := []\<rparr>) = Inr version"
      and n: "n = highest (version_numbers stackId (s\<lparr>d_locks := []\<rparr>))"
      and vs: "d_versions t = d_versions (s\<lparr>d_locks := []\<rparr>) @ [recorded_row ck snapshotId (rollback_input stackId
          (cs_compose_yaml row) (cs_env row) createdBy note (''Snapshot before rollback to v'' @ show_int (ov_versionNumber version)))
          (n + 1), recorded_row ck restoredId (rollback_input stackId (ov_composeYaml version) (ov_env version) createdBy note
          (''Rolled back to v'' @ show_int (ov_versionNumber version))) (n + 2)]"
      and st: "d_stacks t = update_where (\<lambda>st. cs_id st = stackId) (\<lambda>st. st\<lparr>cs_compose_yaml := ov_composeYaml version,
         cs_env := ov_env version, cs_current_version_id := Some restoredId, cs_updated_at := ck_now ck\<rparr>)
         (d_stacks (s\<lparr>d_locks := []\<rparr>))"
      and rest: "history_wf t" "x_parseAction X (deploy_action (cs_host_id row) stackId) = Inr p"
        "d_jobs t = d_jobs (s\<lparr>d_locks := []\<rparr>) @ [new_job ck jobId p createdBy None]"
    obtain r where r: "r \<in> set (d_versions s)" "sv_stack_id r = stackId" "sv_id r = versionId" "version = mapStackVersion r"
      using getStackVersion_row [OF v] by auto
    have wf: "history_wf s'" using rest(1) s' history_wf_frame [of s' t] by simp
    obtain a b where ab: "d_versions s' = d_versions s @ [a, b]"
        "sv_stack_id a = stackId" "sv_compose_yaml a = cs_compose_yaml row" "sv_env a = cs_env row"
        "sv_version_number a = highest (version_numbers stackId s) + 1"
        "sv_stack_id b = stackId" "sv_compose_yaml b = sv_compose_yaml r" "sv_env b = sv_env r"
        "sv_version_number b = highest (version_numbers stackId s) + 2" "sv_id b = restoredId"
    proof
      show "d_versions s' = d_versions s @ [recorded_row ck snapshotId (rollback_input stackId
          (cs_compose_yaml row) (cs_env row) createdBy note (''Snapshot before rollback to v'' @ show_int (ov_versionNumber version)))
          (n + 1), recorded_row ck restoredId (rollback_input stackId (ov_composeYaml version) (ov_env version) createdBy note
          (''Rolled back to v'' @ show_int (ov_versionNumber version))) (n + 2)]"
        using vs s' by simp
    qed (use n r(4) in \<open>simp_all add: recorded_row_def rollback_input_def mapStackVersion_def version_numbers_def\<close>)
    have st': "d_stacks s' = update_where (\<lambda>st. cs_id st = stackId) (\<lambda>st. st\<lparr>cs_compose_yaml := sv_compose_yaml r,
        cs_env := sv_env r, cs_current_version_id := Some (sv_id b), cs_updated_at := ck_now ck\<rparr>) (d_stacks s)"
      using st s' r(4) ab(10) by (simp add: mapStackVersion_def)
    have "d_jobs s' = d_jobs s @ [new_job ck jobId p createdBy None]" "row \<in> set (d_stacks s)" using rest(3) s' row(1) by simp_all
    with wf ab(1-9) st' row(2,3) r(1-3) rest(2) show ?thesis unfolding Inr q sum.case prod.case by blast
  qed
qed

text \<open>A stack on one host whose first version is restored.\<close>

definition versioned_stack :: stack_row where
  "versioned_stack = \<lparr>cs_id = ''stack-1'', cs_host_id = ''h1'', cs_name = ''app'', cs_project_name = ''app'',
     cs_compose_yaml = ''new'', cs_env = ''B=2'', cs_status = ''deployed'', cs_source_type = None, cs_source_repository_url = None,
     cs_source_branch = None, cs_source_working_dir = None, cs_source_compose_path = None,
     cs_source_current_commit_sha = None, cs_source_latest_commit_sha = None, cs_source_checked_at = None,
     cs_source_check_error = None, cs_source_environment_encrypted = None, cs_source_environment_binding = None,
     cs_deployment_source_id = None, cs_current_version_id = Some ''v-1'', cs_last_deploy_error = None, cs_updated_at = 0\<rparr>"

definition first_version :: version_row where
  "first_version = \<lparr>sv_id = ''v-1'', sv_stack_id = ''stack-1'', sv_version_number = 1, sv_compose_yaml = ''old'', sv_env = ''A=1'',
     sv_source = ''ui'', sv_note = None, sv_created_by = None, sv_created_at = 0\<rparr>"

definition versioned_db :: db where
  "versioned_db = empty_db\<lparr>d_hosts := [\<lparr>dh_id = ''h1'', dh_deleted_at = None, dh_tags = []\<rparr>], d_stacks := [versioned_stack],
     d_versions := [first_version]\<rparr>"

definition sample_rollback :: "(stack_version \<times> operation_job) result \<times> db" where
  "sample_rollback = rollbackStackVersion sample_externs (clock_of 5) ''v-2'' ''v-3'' ''job-1'' ''stack-1'' ''v-1'' None None
     (\<lambda>_. Inr) versioned_db"

theorem rollback_restores_and_snapshots_witness:
  "history_wf (snd sample_rollback)
   \<and> (\<exists>snapshot restored. d_versions (snd sample_rollback) = [first_version, snapshot, restored]
       \<and> sv_compose_yaml snapshot = ''new'' \<and> sv_version_number restored = 3 \<and> sv_env restored = ''A=1'')"
proof -
  have wf: "history_wf versioned_db"
    by (simp add: history_wf_def versioned_db_def stacks.keys_unique_def versions.keys_unique_def current_ok_def
        versioned_stack_def first_version_def)
  have k: "keeps_history (\<lambda>_. Inr)" by (simp add: keeps_history_def)
  have "case fst sample_rollback of Inl _ \<Rightarrow> False | Inr _ \<Rightarrow> True" by code_simp
  then obtain v j where r: "fst sample_rollback = Inr (v, j)" by (cases "fst sample_rollback") auto
  have f: "d_versions versioned_db = [first_version]" "d_stacks versioned_db = [versioned_stack]"
    "highest (version_numbers ''stack-1'' versioned_db) = 1"
    by (simp_all add: versioned_db_def version_numbers_def highest_def first_version_def)
  have e: "sv_env first_version = ''A=1''" "cs_compose_yaml versioned_stack = ''new''"
    by (simp_all add: first_version_def versioned_stack_def)
  have "sample_rollback = (fst sample_rollback, snd sample_rollback)" by simp
  from rollback_restores_and_snapshots [OF wf k trans [OF sample_rollback_def [symmetric] this]]
  show ?thesis unfolding r sum.case prod.case f by (auto simp: e)
qed

end
