(* ===== verification/Environment.thy ===== *)
theory Environment
  imports Prelude
begin

text \<open>
  The deployment environment (\<^verbatim>\<open>services/deploymentEnvironment.ts\<close>): the dotenv parser, the interpolation of
  variables, the canonical output the durable job input holds, and the selection of sensitive values. The position
  of the parser is the rest of its input; a \<^verbatim>\<open>Map\<close> is the list of its entries in insertion order.
\<close>

section \<open>Characters\<close>

abbreviation newline :: char where "newline \<equiv> CHR 0x0A"
abbreviation carriage_return :: char where "carriage_return \<equiv> CHR 0x0D"
abbreviation tab :: char where "tab \<equiv> CHR 0x09"
abbreviation single_quote :: char where "single_quote \<equiv> CHR 0x27"
abbreviation double_quote :: char where "double_quote \<equiv> CHR 0x22"
abbreviation backslash :: char where "backslash \<equiv> CHR 0x5C"
abbreviation dollar :: char where "dollar \<equiv> CHR 0x24"

definition is_blank :: "char \<Rightarrow> bool" where
  "is_blank c \<longleftrightarrow> c = CHR '' '' \<or> c = tab"

definition key_start :: "char \<Rightarrow> bool" where
  "key_start c = (let n = (of_char c :: nat) in (65 \<le> n \<and> n \<le> 90) \<or> (97 \<le> n \<and> n \<le> 122) \<or> n = 95)"

definition key_char :: "char \<Rightarrow> bool" where
  "key_char c = (let n = (of_char c :: nat) in key_start c \<or> (48 \<le> n \<and> n \<le> 57))"

text \<open>\<^verbatim>\<open>/^[A-Za-z_][A-Za-z0-9_]*/\<close>: the key at the front of the input and what follows it.\<close>

definition key_match :: "string \<Rightarrow> (string \<times> string) option" where
  "key_match s =
     (case s of [] \<Rightarrow> None
      | c # r \<Rightarrow> if key_start c then Some (c # takeWhile key_char r, dropWhile key_char r) else None)"

section \<open>Maps in insertion order\<close>

type_synonym environment = "(string \<times> string) list"

fun map_set :: "environment \<Rightarrow> string \<Rightarrow> string \<Rightarrow> environment" where
  "map_set [] k v = [(k, v)]"
| "map_set ((k', v') # m) k v = (if k' = k then (k, v) # m else (k', v') # map_set m k v)"

definition map_has :: "environment \<Rightarrow> string \<Rightarrow> bool" where
  "map_has m k \<longleftrightarrow> map_of m k \<noteq> None"

definition map_get :: "environment \<Rightarrow> string \<Rightarrow> string" where
  "map_get m k = (case map_of m k of None \<Rightarrow> [] | Some v \<Rightarrow> v)"

section \<open>Interpolation\<close>

definition escapedDollar :: string where
  "escapedDollar = CHR 0x00 # ''COMPOSEBASTION_DOLLAR'' @ [CHR 0x00]"

fun escape_dollars :: "string \<Rightarrow> string" where
  "escape_dollars (a # b # s) =
     (if a = dollar \<and> b = dollar then escapedDollar @ escape_dollars s else a # escape_dollars (b # s))"
| "escape_dollars s = s"

text \<open>\<^verbatim>\<open>text.replaceAll(pattern, replacement)\<close> of a nonempty pattern\<close>

function replace_all :: "string \<Rightarrow> string \<Rightarrow> string \<Rightarrow> string" where
  "replace_all p q s =
     (if p = [] \<or> s = [] then s
      else if starts_with p s then q @ replace_all p q (drop (length p) s)
      else hd s # replace_all p q (tl s))"
  by pat_completeness auto

termination replace_all
  by (relation "measure (\<lambda>(p, q, s). length s)") auto

declare replace_all.simps [simp del]

text \<open>
  \<^verbatim>\<open>/\{([A-Za-z_][A-Za-z0-9_]*)(?:(:?[-+?])([^}]*))?\}/\<close> after a dollar sign: the key, the operator with its operand,
  and what follows the closing brace.
\<close>

definition close_brace :: "string \<Rightarrow> (string \<times> string) option" where
  "close_brace s =
     (case dropWhile (\<lambda>c. c \<noteq> CHR ''}'') s of [] \<Rightarrow> None | _ # r \<Rightarrow> Some (takeWhile (\<lambda>c. c \<noteq> CHR ''}'') s, r))"

definition operator_match :: "string \<Rightarrow> (string \<times> string) option" where
  "operator_match s =
     (case s of
        CHR '':'' # c # r \<Rightarrow> if c \<in> set ''-+?'' then Some ([CHR '':'', c], r) else None
      | c # r \<Rightarrow> if c \<in> set ''-+?'' then Some ([c], r) else None
      | [] \<Rightarrow> None)"

definition braced_match :: "string \<Rightarrow> (string \<times> (string \<times> string) option \<times> string) option" where
  "braced_match s =
     (case s of
        [] \<Rightarrow> None
      | c # r \<Rightarrow>
          if c \<noteq> CHR ''{'' then None
          else case key_match r of
            None \<Rightarrow> None
          | Some (key, after) \<Rightarrow>
              (case operator_match after of
                 Some (op, body) \<Rightarrow>
                   map_option (\<lambda>(operand, rest). (key, Some (op, operand), rest)) (close_brace body)
               | None \<Rightarrow>
                   (case after of d # rest \<Rightarrow> if d = CHR ''}'' then Some (key, None, rest) else None | [] \<Rightarrow> None)))"

definition required_missing :: "string \<Rightarrow> exn" where
  "required_missing key = PlainError (''Required deployment environment variable '' @ key @ '' is missing.'')"

definition expand :: "environment \<Rightarrow> string \<Rightarrow> (string \<times> string) option \<Rightarrow> string result" where
  "expand m key opr =
     (let present = map_has m key; current = map_get m key; nonempty = present \<and> current \<noteq> [] in
      case opr of
        None \<Rightarrow> Inr current
      | Some (operator, operand) \<Rightarrow>
          if operator = '':-'' then Inr (if nonempty then current else operand)
          else if operator = ''-'' then Inr (if present then current else operand)
          else if operator = '':+'' then Inr (if nonempty then operand else [])
          else if operator = ''+'' then Inr (if present then operand else [])
          else if operator = '':?'' \<and> \<not> nonempty then Inl (required_missing key)
          else if operator = ''?'' \<and> \<not> present then Inl (required_missing key)
          else Inr current)"

lemma key_match_shorter: "key_match s = Some (k, r) \<Longrightarrow> length r < length s"
  by (auto simp: key_match_def le_imp_less_Suc length_dropWhile_le split: list.splits if_splits)

lemma close_brace_shorter: "close_brace s = Some (k, r) \<Longrightarrow> length r < length s"
proof -
  assume "close_brace s = Some (k, r)"
  then obtain c where "dropWhile (\<lambda>c. c \<noteq> CHR ''}'') s = c # r" by (auto simp: close_brace_def split: list.splits)
  then show ?thesis using length_dropWhile_le [of "\<lambda>c. c \<noteq> CHR ''}''" s] by simp
qed

lemma operator_match_shorter: "operator_match s = Some (k, r) \<Longrightarrow> length r < length s"
  by (auto simp: operator_match_def split: list.splits char.splits bool.splits if_splits)

lemma braced_match_shorter [termination_simp]: "braced_match s = Some (k, p, r) \<Longrightarrow> length r < length s"
  by (auto simp: braced_match_def split: list.splits if_splits option.splits prod.splits
      dest!: key_match_shorter close_brace_shorter operator_match_shorter)

text \<open>The first replacement, of \<^verbatim>\<open>${...}\<close>; it throws at the first required variable that is missing.\<close>

function interpolate_braced :: "environment \<Rightarrow> string \<Rightarrow> string result" where
  "interpolate_braced m [] = Inr []"
| "interpolate_braced m (c # s) =
     (case (if c = dollar then braced_match s else None) of
        Some (key, opr, rest) \<Rightarrow>
          and_then (expand m key opr) (\<lambda>v. and_then (interpolate_braced m rest) (\<lambda>t. Inr (v @ t)))
      | None \<Rightarrow> and_then (interpolate_braced m s) (\<lambda>t. Inr (c # t)))"
  by pat_completeness auto

termination interpolate_braced
  by (relation "measure (\<lambda>(m, s). length s)") (auto dest!: braced_match_shorter split: if_splits)

text \<open>The second replacement, of \<^verbatim>\<open>$KEY\<close>.\<close>

function interpolate_plain :: "environment \<Rightarrow> string \<Rightarrow> string" where
  "interpolate_plain m [] = []"
| "interpolate_plain m (c # s) =
     (case (if c = dollar then key_match s else None) of
        Some (key, rest) \<Rightarrow> map_get m key @ interpolate_plain m rest
      | None \<Rightarrow> c # interpolate_plain m s)"
  by pat_completeness auto

termination interpolate_plain
  by (relation "measure (\<lambda>(m, s). length s)") (auto dest!: key_match_shorter split: if_splits)

definition interpolateOnce :: "string \<Rightarrow> environment \<Rightarrow> string result" where
  "interpolateOnce input m = and_then (interpolate_braced m input) (\<lambda>t. Inr (interpolate_plain m t))"

definition interpolateDeploymentEnvironment :: "string \<Rightarrow> environment \<Rightarrow> string result" where
  "interpolateDeploymentEnvironment input m =
     and_then (interpolateOnce (escape_dollars input) m) (\<lambda>t. Inr (replace_all escapedDollar [dollar] t))"

section \<open>The parser\<close>

definition skipToNextLine :: "string \<Rightarrow> string" where
  "skipToNextLine s = tl (dropWhile (\<lambda>c. c \<noteq> newline) s)"

definition decodeDoubleQuotedCharacter :: "char \<Rightarrow> string" where
  "decodeDoubleQuotedCharacter c =
     (if c = CHR ''n'' then [newline] else if c = CHR ''r'' then [carriage_return] else if c = CHR ''t'' then [tab]
      else if c = backslash then [backslash] else if c = double_quote then [double_quote]
      else if c = dollar then [dollar, dollar] else [backslash, c])"

text \<open>The text up to the closing quote and what follows it.\<close>

fun quoted_text :: "char \<Rightarrow> string \<Rightarrow> string \<times> string" where
  "quoted_text q [] = ([], [])"
| "quoted_text q [c] = (if c = q then ([], []) else ([c], []))"
| "quoted_text q (c # d # s) =
     (if c = q then ([], d # s)
      else if c = backslash \<and> q = single_quote \<and> (d = single_quote \<or> d = backslash)
      then apfst (Cons d) (quoted_text q s)
      else if c = backslash \<and> q = double_quote
      then apfst (append (decodeDoubleQuotedCharacter d)) (quoted_text q s)
      else apfst (Cons c) (quoted_text q (d # s)))"

text \<open>\<^verbatim>\<open>raw.slice(0, raw.search(/\s#/))\<close> where the search finds one\<close>

fun strip_comment :: "string \<Rightarrow> string" where
  "strip_comment (a # b # s) = (if is_ws a \<and> b = CHR ''#'' then [] else a # strip_comment (b # s))"
| "strip_comment s = s"

definition chop_return :: "string \<Rightarrow> string" where
  "chop_return s = (if s \<noteq> [] \<and> last s = carriage_return then butlast s else s)"

text \<open>The value at the front of the input, whether it is interpolated, and where the parser goes on.\<close>

definition value_at :: "string \<Rightarrow> string \<times> bool \<times> string" where
  "value_at s =
     (case s of
        c # r \<Rightarrow>
          if c = single_quote \<or> c = double_quote
          then (case quoted_text c r of (parsed, rest) \<Rightarrow> (parsed, c \<noteq> single_quote, skipToNextLine rest))
          else (trim (strip_comment (chop_return (takeWhile (\<lambda>c. c \<noteq> newline) s))), True, skipToNextLine s)
      | [] \<Rightarrow> ([], True, []))"

definition drop_export :: "string \<Rightarrow> string" where
  "drop_export s =
     (case drop 6 s of
        c # _ \<Rightarrow> if take 6 s = ''export'' \<and> is_blank c then dropWhile is_blank (drop 6 s) else s
      | [] \<Rightarrow> s)"

text \<open>An assignment, after the export keyword.\<close>

definition parse_assignment :: "environment \<Rightarrow> string \<Rightarrow> (environment \<times> string) result" where
  "parse_assignment m s =
     (case key_match s of
        None \<Rightarrow> Inr (m, skipToNextLine s)
      | Some (key, s2) \<Rightarrow>
          let s3 = dropWhile is_blank s2 in
          if s3 = [] \<or> hd s3 \<noteq> CHR ''='' then Inr (m, skipToNextLine s3)
          else case value_at (dropWhile is_blank (tl s3)) of
            (parsed, interpolate, rest) \<Rightarrow>
              and_then (if interpolate then interpolateDeploymentEnvironment parsed m else Inr parsed) (\<lambda>v.
                Inr (map_set m key v, rest)))"

definition parse_line :: "environment \<Rightarrow> string \<Rightarrow> (environment \<times> string) result" where
  "parse_line m s =
     (if s \<noteq> [] \<and> hd s = newline then Inr (m, tl s)
      else if s \<noteq> [] \<and> hd s = CHR ''#'' then Inr (m, skipToNextLine s)
      else parse_assignment m (drop_export s))"

text \<open>One round of the loop.\<close>

definition parse_round :: "environment \<Rightarrow> string \<Rightarrow> (environment \<times> string) result" where
  "parse_round m s = parse_line m (dropWhile (\<lambda>c. is_blank c \<or> c = carriage_return) s)"

text \<open>The loop of the source: the absence of a value is a loop that does not end.\<close>

partial_function (option) parse_loop :: "environment \<Rightarrow> string \<Rightarrow> environment result option" where
  [code]: "parse_loop m s =
     (if s = [] then Some (Inr m)
      else case parse_round m s of Inl e \<Rightarrow> Some (Inl e) | Inr p \<Rightarrow> parse_loop (fst p) (snd p))"

definition parseDeploymentEnvironment :: "string \<Rightarrow> environment result option" where
  "parseDeploymentEnvironment input = parse_loop [] input"

section \<open>Canonical output\<close>

definition escape_value :: "string \<Rightarrow> string" where
  "escape_value v = concat (map (\<lambda>c. if c = backslash \<or> c = single_quote then [backslash, c] else [c]) v)"

definition serialize_entry :: "string \<times> string \<Rightarrow> string" where
  "serialize_entry e = fst e @ [CHR ''='', single_quote] @ escape_value (snd e) @ [single_quote]"

definition serializeDeploymentEnvironment :: "environment \<Rightarrow> string" where
  "serializeDeploymentEnvironment values = join_with [newline] (map serialize_entry values)"

section \<open>Sensitive values\<close>

text \<open>\<^verbatim>\<open>SENSITIVE_ENVIRONMENT_NAME\<close>: the alternatives of the pattern, with and without the separators.\<close>

definition sensitive_names :: "string list" where
  "sensitive_names = [''password'', ''passwd'', ''secret'', ''token'', ''apikey'', ''api_key'', ''api-key'',
     ''privatekey'', ''private_key'', ''private-key'', ''credential'', ''auth'', ''databaseurl'', ''database_url'',
     ''database-url'', ''dsn'', ''connectionstring'', ''connection_string'', ''connection-string'']"

definition SENSITIVE_ENVIRONMENT_NAME :: "string \<Rightarrow> bool" where
  "SENSITIVE_ENVIRONMENT_NAME key = list_ex (\<lambda>p. includes_text p (to_lower key)) sensitive_names"

definition longest_first :: "string list \<Rightarrow> string list" where
  "longest_first xs = sort_key (\<lambda>v. - int (length v)) xs"

definition sensitiveDeploymentEnvironmentValues :: "string \<Rightarrow> string list \<Rightarrow> string list result option" where
  "sensitiveDeploymentEnvironmentValues environment explicitSecretKeys =
     map_option (\<lambda>r. and_then r (\<lambda>values.
       let keys = uniq (explicitSecretKeys @ filter SENSITIVE_ENVIRONMENT_NAME (map fst values)) in
       Inr (longest_first (filter (\<lambda>v. v \<noteq> []) (map (map_get values) keys)))))
       (parseDeploymentEnvironment environment)"

section \<open>Every round consumes input\<close>

lemma skipToNextLine_length: "length (skipToNextLine s) \<le> length s - 1"
  using length_dropWhile_le [of "\<lambda>c. c \<noteq> newline" s] by (simp add: skipToNextLine_def)

lemma skipToNextLine_shorter: "length s \<le> n \<Longrightarrow> 0 < n \<Longrightarrow> length (skipToNextLine s) < n"
  using skipToNextLine_length [of s] by linarith

lemma quoted_text_length: "length (snd (quoted_text q s)) \<le> length s"
  by (induction q s rule: quoted_text.induct) (auto simp: apfst_def map_prod_def split: prod.splits)

lemma value_at_length: "length (snd (snd (value_at s))) \<le> length s"
proof (cases s)
  case (Cons c r)
  have "length (skipToNextLine (snd (quoted_text c r))) \<le> length s"
    using skipToNextLine_length [of "snd (quoted_text c r)"] quoted_text_length [of c r] Cons by simp
  moreover have "length (skipToNextLine s) \<le> length s" using skipToNextLine_length [of s] by simp
  ultimately show ?thesis using Cons by (auto simp: value_at_def split: prod.splits)
qed (simp add: value_at_def)

lemma drop_export_length: "length (drop_export s) \<le> length s"
proof -
  have "length (dropWhile is_blank (drop 6 s)) \<le> length s"
    using length_dropWhile_le [of is_blank "drop 6 s"] by simp
  then show ?thesis by (auto simp: drop_export_def split: list.splits)
qed

lemma parse_assignment_shorter:
  assumes "parse_assignment m s = Inr (m', s')" and "length s \<le> n" and "0 < n"
  shows "length s' < n"
proof (cases "key_match s")
  case None
  with assms(1) skipToNextLine_shorter [OF assms(2,3)] show ?thesis by (simp add: parse_assignment_def)
next
  case (Some p)
  obtain key s2 where p: "p = (key, s2)" by (cases p)
  let ?s3 = "dropWhile is_blank s2"
  have s3: "length ?s3 < n"
    using key_match_shorter [OF Some [unfolded p]] assms(2) length_dropWhile_le [of is_blank s2] by linarith
  let ?v = "value_at (dropWhile is_blank (tl ?s3))"
  have v: "length (snd (snd ?v)) < n"
    using value_at_length [of "dropWhile is_blank (tl ?s3)"] length_dropWhile_le [of is_blank "tl ?s3"] s3 by simp
  have "s' = skipToNextLine ?s3 \<or> s' = snd (snd ?v)"
    using assms(1) unfolding parse_assignment_def Some p
    by (auto simp: Let_def and_then_Inr_iff split: prod.splits if_splits)
  then show ?thesis using v skipToNextLine_shorter [of ?s3 n] s3 assms(3) by auto
qed

lemma parse_line_shorter:
  assumes "parse_line m s = Inr (m', s')" and "length s \<le> n" and "0 < n"
  shows "length s' < n"
proof (cases "s \<noteq> [] \<and> (hd s = newline \<or> hd s = CHR ''#'')")
  case True
  with assms(1) have "s' = tl s \<or> s' = skipToNextLine s" by (auto simp: parse_line_def split: if_splits)
  then show ?thesis using assms(2) True skipToNextLine_shorter [OF assms(2,3)] by (cases s) auto
next
  case False
  then have "parse_assignment m (drop_export s) = Inr (m', s')" using assms(1) by (auto simp: parse_line_def)
  then show ?thesis using parse_assignment_shorter assms(2,3) drop_export_length [of s] le_trans by blast
qed

lemma parse_round_shorter:
  assumes "parse_round m s0 = Inr (m', s')" and "s0 \<noteq> []"
  shows "length s' < length s0"
  using parse_line_shorter [OF assms(1) [unfolded parse_round_def], of "length s0"] assms(2)
  by (simp add: length_dropWhile_le)

lemma parse_loop_ends: "\<exists>r. parse_loop m s = Some r"
proof (induction "length s" arbitrary: m s rule: less_induct)
  case less
  show ?case
  proof (cases "s = []")
    case False
    show ?thesis
    proof (cases "parse_round m s")
      case (Inr p)
      obtain m' s' where p: "p = (m', s')" by (cases p)
      have "\<exists>r. parse_loop m' s' = Some r" using less parse_round_shorter [OF Inr [unfolded p] False] by blast
      then show ?thesis using False Inr p by (subst parse_loop.simps) simp
    qed (subst parse_loop.simps, simp)
  qed (subst parse_loop.simps, simp)
qed

section \<open>The canonical output is read back\<close>

definition valid_key :: "string \<Rightarrow> bool" where
  "valid_key k \<longleftrightarrow> k \<noteq> [] \<and> key_start (hd k) \<and> list_all key_char k"

definition canonical :: "environment \<Rightarrow> bool" where
  "canonical m \<longleftrightarrow> list_all valid_key (map fst m) \<and> distinct (map fst m)"

lemma key_start_char: "key_start c \<Longrightarrow> key_char c"
  by (simp add: key_char_def Let_def)

lemma not_key_chars [simp]:
  "\<not> key_char (CHR ''='')" "\<not> key_char (CHR '' '')" "\<not> key_char tab" "\<not> key_char newline" "\<not> key_char carriage_return"
  "\<not> key_char (CHR ''#'')"
  by code_simp+

lemma key_match_valid: "key_match s = Some (k, r) \<Longrightarrow> valid_key k"
  by (auto simp: key_match_def valid_key_def key_start_char list_all_iff split: list.splits if_splits dest: set_takeWhileD)

lemma key_match_entry:
  assumes "valid_key k"
  shows "key_match (k @ CHR ''='' # s) = Some (k, CHR ''='' # s)"
proof -
  obtain c t where k: "k = c # t" using assms by (cases k) (auto simp: valid_key_def)
  with assms have "key_start c" "\<forall>x\<in>set t. key_char x" by (auto simp: valid_key_def list_all_iff)
  then show ?thesis by (simp add: k key_match_def)
qed

lemma drop_export_entry:
  assumes "valid_key k"
  shows "drop_export (k @ CHR ''='' # s) = k @ CHR ''='' # s"
proof -
  let ?t = "k @ CHR ''='' # s"
  have "\<not> is_blank c" if "drop 6 ?t = c # u" and "take 6 ?t = ''export''" for c u
  proof
    assume "is_blank c"
    then have c: "\<not> key_char c" "c \<noteq> CHR ''=''" by (auto simp: is_blank_def)
    have "?t = ''export'' @ c # u" using that append_take_drop_id [of 6 ?t] by simp
    moreover have "\<forall>x\<in>set ''export''. key_char x" by code_simp
    ultimately have "dropWhile key_char ?t = c # u" using c(1) by simp
    moreover have "dropWhile key_char ?t = CHR ''='' # s"
      using assms by (simp add: valid_key_def list_all_iff dropWhile_append2)
    ultimately show False using c(2) by simp
  qed
  then show ?thesis by (auto simp: drop_export_def split: list.splits)
qed

lemma quoted_text_plain:
  "c \<noteq> q \<Longrightarrow> c \<noteq> backslash \<Longrightarrow> quoted_text q (c # s) = apfst (Cons c) (quoted_text q s)"
  by (cases s) simp_all

lemma quoted_text_escaped: "quoted_text single_quote (escape_value v @ single_quote # rest) = (v, rest)"
proof (induction v)
  case Nil
  show ?case by (cases rest) (simp_all add: escape_value_def)
next
  case (Cons c v)
  have e: "escape_value (c # v) = (if c = backslash \<or> c = single_quote then [backslash, c] else [c]) @ escape_value v"
    by (simp add: escape_value_def)
  show ?case
  proof (cases "c = backslash \<or> c = single_quote")
    case True
    then show ?thesis using Cons.IH by (auto simp: e)
  next
    case False
    then show ?thesis using Cons.IH quoted_text_plain [of c single_quote] by (simp add: e)
  qed
qed

lemma parse_round_entry:
  assumes "valid_key k"
  shows "parse_round m (serialize_entry (k, v) @ rest) = Inr (map_set m k v, skipToNextLine rest)"
proof -
  let ?s = "CHR ''='' # single_quote # escape_value v @ single_quote # rest"
  obtain c t where k: "k = c # t" using assms by (cases k) (auto simp: valid_key_def)
  have "key_char c" using assms k by (simp add: valid_key_def)
  then have c: "\<not> is_blank c" "c \<noteq> carriage_return" "c \<noteq> newline" "c \<noteq> CHR ''#''" by (auto simp: is_blank_def)
  have s: "serialize_entry (k, v) @ rest = k @ ?s" by (simp add: serialize_entry_def)
  have b: "\<not> is_blank (CHR ''='')" "\<not> is_blank single_quote" by code_simp+
  have d: "dropWhile (\<lambda>c. is_blank c \<or> c = carriage_return) (k @ ?s) = k @ ?s" using c k by simp
  have h: "k @ ?s \<noteq> []" "hd (k @ ?s) \<noteq> newline" "hd (k @ ?s) \<noteq> CHR ''#''" using c k by simp_all
  show ?thesis
    unfolding s parse_round_def d parse_line_def drop_export_entry [OF assms] parse_assignment_def key_match_entry [OF assms]
    using h b by (simp add: Let_def value_at_def quoted_text_escaped)
qed

lemma parse_loop_serialized:
  "list_all valid_key (map fst es) \<Longrightarrow>
     parse_loop m (serializeDeploymentEnvironment es) = Some (Inr (fold (\<lambda>(k, v) m. map_set m k v) es m))"
proof (induction es arbitrary: m)
  case Nil
  show ?case by (subst parse_loop.simps) (simp add: serializeDeploymentEnvironment_def)
next
  case (Cons e es)
  obtain k v where e: "e = (k, v)" by (cases e)
  with Cons.prems have k: "valid_key k" and es: "list_all valid_key (map fst es)" by simp_all
  let ?rest = "if es = [] then [] else newline # serializeDeploymentEnvironment es"
  have s: "serializeDeploymentEnvironment (e # es) = serialize_entry (k, v) @ ?rest"
    by (cases es) (simp_all add: serializeDeploymentEnvironment_def e)
  have r: "skipToNextLine ?rest = serializeDeploymentEnvironment es"
    by (simp add: skipToNextLine_def serializeDeploymentEnvironment_def)
  have "serialize_entry (k, v) \<noteq> []" by (simp add: serialize_entry_def)
  then show ?case
    unfolding s using parse_round_entry [OF k, of m v ?rest] Cons.IH [OF es]
    by (subst parse_loop.simps) (simp add: r e)
qed

lemma map_set_fresh: "k \<notin> set (map fst m) \<Longrightarrow> map_set m k v = m @ [(k, v)]"
  by (induction m k v rule: map_set.induct) auto

lemma fold_map_set: "distinct (map fst (m @ es)) \<Longrightarrow> fold (\<lambda>(k, v) m. map_set m k v) es m = m @ es"
proof (induction es arbitrary: m)
  case (Cons e es)
  obtain k v where e: "e = (k, v)" by (cases e)
  have "map_set m k v = m @ [(k, v)]" using Cons.prems e by (intro map_set_fresh) auto
  moreover have "distinct (map fst ((m @ [(k, v)]) @ es))" using Cons.prems e by auto
  ultimately show ?case using Cons.IH [of "m @ [(k, v)]"] e by simp
qed simp

lemma keys_map_set: "set (map fst (map_set m k v)) = insert k (set (map fst m))"
  by (induction m k v rule: map_set.induct) auto

lemma canonical_map_set: "canonical m \<Longrightarrow> valid_key k \<Longrightarrow> canonical (map_set m k v)"
proof -
  have "distinct (map fst m) \<Longrightarrow> distinct (map fst (map_set m k v))"
    by (induction m k v rule: map_set.induct) (auto simp: keys_map_set [unfolded list.set_map])
  then show "canonical m \<Longrightarrow> valid_key k \<Longrightarrow> canonical (map_set m k v)"
    using keys_map_set [of m k v] by (auto simp: canonical_def list_all_iff)
qed

lemma parse_round_canonical:
  assumes "parse_round m s = Inr (m', s')" and "canonical m"
  shows "canonical m'"
  using assms
  by (auto simp: parse_round_def parse_line_def parse_assignment_def Let_def and_then_Inr_iff
      intro: canonical_map_set dest: key_match_valid split: if_splits option.splits prod.splits)

lemma parse_loop_canonical: "parse_loop m s = Some (Inr m') \<Longrightarrow> canonical m \<Longrightarrow> canonical m'"
proof (induction "length s" arbitrary: m s rule: less_induct)
  case less
  show ?case
  proof (cases "s = []")
    case True
    with less.prems show ?thesis by (subst (asm) parse_loop.simps) simp
  next
    case False
    then obtain a t where p: "parse_round m s = Inr (a, t)" and l: "parse_loop a t = Some (Inr m')"
      using less.prems(1) by (subst (asm) parse_loop.simps) (auto split: sum.splits)
    show ?thesis
      by (rule less.hyps [OF parse_round_shorter [OF p False] l parse_round_canonical [OF p less.prems(2)]])
  qed
qed

section \<open>Properties\<close>

text \<open>
  C39: the dotenv parser ends on every input, well-formed or not, with an environment or with the error of a required
  variable that is missing; every round of its loop takes at least one character off the input.
\<close>

theorem environment_parser_terminates:
  "(\<exists>r. parseDeploymentEnvironment input = Some r)
   \<and> (\<forall>m s m' s'. s \<noteq> [] \<and> parse_round m s = Inr (m', s') \<longrightarrow> length s' < length s)"
  using parse_loop_ends [of "[]" input] parse_round_shorter by (simp add: parseDeploymentEnvironment_def) blast

text \<open>
  C40: the canonical output keeps the meaning of an environment. Whatever file the environment was read from, with its
  comments, quotes, escapes, dollar signs and line breaks, the environment the parser returns is written out as a text
  that the parser reads back as exactly the same entries in the same order.
\<close>

theorem canonical_environment_roundtrip:
  assumes "parseDeploymentEnvironment input = Some (Inr m)"
  shows "parseDeploymentEnvironment (serializeDeploymentEnvironment m) = Some (Inr m)"
proof -
  have "canonical m"
    using parse_loop_canonical [OF assms [unfolded parseDeploymentEnvironment_def]] by (simp add: canonical_def)
  then show ?thesis
    using parse_loop_serialized [of m "[]"] fold_map_set [of "[]" m]
    by (simp add: canonical_def parseDeploymentEnvironment_def)
qed

text \<open>A file with an export, a comment, escapes in both kinds of quotes, an escaped dollar sign and a reference.\<close>

definition sample_file :: string where
  "sample_file = ''export A = one # note'' @ [newline] @ ''B='' @ [single_quote] @ ''it'' @ [backslash, single_quote]
     @ ''s $A'' @ [single_quote, newline] @ ''C='' @ [double_quote] @ ''${A:-x}'' @ [backslash] @ ''n$$'' @ [double_quote, newline]"

definition sample_environment :: environment where
  "sample_environment = [(''A'', ''one''), (''B'', ''it'' @ [single_quote] @ ''s $A''), (''C'', ''one'' @ [newline, dollar])]"

theorem canonical_environment_roundtrip_witness:
  "parseDeploymentEnvironment sample_file = Some (Inr sample_environment)
   \<and> parseDeploymentEnvironment (serializeDeploymentEnvironment sample_environment) = Some (Inr sample_environment)"
proof -
  have "parseDeploymentEnvironment sample_file = Some (Inr sample_environment)" by code_simp
  then show ?thesis using canonical_environment_roundtrip by blast
qed

theorem environment_parser_terminates_witness:
  "(\<exists>r. parseDeploymentEnvironment sample_file = Some r)
   \<and> parse_round [] [newline, CHR ''A''] = Inr ([], ''A'') \<and> length ''A'' < length [newline, CHR ''A'']"
proof -
  have "parse_round [] [newline, CHR ''A''] = Inr ([], ''A'')" by code_simp
  then show ?thesis using environment_parser_terminates [of sample_file] by blast
qed

text \<open>
  A reference in braces is expanded twice. A variable whose literal value holds a dollar sign is kept by a plain
  reference, but loses the text after the dollar sign in a reference with braces, because the text the first
  replacement inserts is an input of the second.
\<close>

theorem braced_reference_expanded_twice:
  "parseDeploymentEnvironment (''A='' @ [single_quote] @ ''pa$word'' @ [single_quote, newline]
       @ ''B=$A'' @ [newline] @ ''C=${A}'')
   = Some (Inr [(''A'', ''pa$word''), (''B'', ''pa$word''), (''C'', ''pa'')])"
  by code_simp

end
