(* ===== verification/Deployment_Intent.thy ===== *)
theory Deployment_Intent
  imports Stack_Versions Deployment_Binding Environment
begin

text \<open>
  The durable intent of a Compose deployment (\<^verbatim>\<open>services/composeStackDeploymentIntent.ts\<close>): it is encrypted into the
  job's result under the lease before the remote command is sent, and materialised as a stack and a version once the
  command is known to have completed, by the worker or by the reconciliation of an unknown outcome. Also the
  finalisation of a deployment analysis (\<^verbatim>\<open>services/deploymentExecutionFinalization.ts\<close>).
\<close>

section \<open>Intents\<close>

definition COMPOSE_STACK_DEPLOYMENT_INTENT_KEY :: string where
  "COMPOSE_STACK_DEPLOYMENT_INTENT_KEY = ''composeStackDeploymentIntent''"

definition MAX_COMPOSE_BYTES :: int where "MAX_COMPOSE_BYTES = 512 * 1024"
definition MAX_ENVIRONMENT_BYTES :: int where "MAX_ENVIRONMENT_BYTES = 512 * 1024"
definition MAX_ENCRYPTED_INTENT_BYTES :: int where "MAX_ENCRYPTED_INTENT_BYTES = 4 * 1024 * 1024"
definition MAX_SAFE_INTEGER :: int where "MAX_SAFE_INTEGER = 9007199254740991"

record intent_source =
  is_type :: string
  is_repositoryUrl :: "string option"
  is_branch :: "string option"
  is_workingDir :: "string option"
  is_composePath :: "string option"
  is_currentCommitSha :: "string option"
  is_latestCommitSha :: "string option"
  is_environment :: "string option"
  is_deploymentSourceId :: "uuid option"
  is_environmentBinding :: "string option"

record intent_version =
  iv_source :: string
  iv_note :: "string option"
  iv_createdBy :: "uuid option"

record intent_input =
  in_jobId :: uuid
  in_attemptCount :: int
  in_hostId :: uuid
  in_projectName :: string
  in_name :: string
  in_composeYaml :: string
  in_env :: string
  in_source :: intent_source
  in_version :: intent_version
  in_githubCloneOperationJobId :: "uuid option"

record intent = intent_input +
  in_candidateStackId :: uuid
  in_candidateVersionId :: uuid

text \<open>
  Code outside the model: encryption with its random initialisation vector, the name-based identifiers of the
  \<^verbatim>\<open>uuid\<close> package, the shape of an identifier the schema accepts, and the JSON text of an intent, which has no
  value where the text is not the JSON of an object with the fields of an intent.
\<close>

record vault =
  vt_encryptSecret :: "string \<Rightarrow> string \<Rightarrow> string"
  vt_uuidv5 :: "string \<Rightarrow> uuid \<Rightarrow> uuid"
  vt_isUuid :: "string \<Rightarrow> bool"
  vt_stringify :: "intent \<Rightarrow> string"
  vt_parse :: "string \<Rightarrow> intent option"

definition invalidIntent :: exn where
  "invalidIntent = PlainError ''Compose stack deployment intent is invalid.''"

section \<open>Schemas\<close>

definition at_most :: "int \<Rightarrow> string option \<Rightarrow> bool" where
  "at_most n v = (case v of None \<Rightarrow> True | Some s \<Rightarrow> int (length s) \<le> n)"

definition uuid_or_null :: "vault \<Rightarrow> uuid option \<Rightarrow> bool" where
  "uuid_or_null V v = (case v of None \<Rightarrow> True | Some s \<Rightarrow> vt_isUuid V s)"

definition between :: "int \<Rightarrow> int \<Rightarrow> string \<Rightarrow> bool" where
  "between low high s \<longleftrightarrow> low \<le> int (length s) \<and> int (length s) \<le> high"

text \<open>\<^verbatim>\<open>/^[a-z0-9][a-z0-9_-]*$/\<close>\<close>

definition project_char :: "char \<Rightarrow> bool" where
  "project_char c = (let n = (of_char c :: nat) in (97 \<le> n \<and> n \<le> 122) \<or> (48 \<le> n \<and> n \<le> 57))"

definition project_name :: "string \<Rightarrow> bool" where
  "project_name s \<longleftrightarrow> s \<noteq> [] \<and> project_char (hd s) \<and> list_all (\<lambda>c. project_char c \<or> c = CHR ''_'' \<or> c = CHR ''-'') s"

definition stackVersionSources :: "string list" where
  "stackVersionSources = [''ui'', ''catalog'', ''github'', ''host_files'', ''rollback'', ''deploy'', ''proxy_labels'']"

definition identity_schema :: "vault \<Rightarrow> uuid \<Rightarrow> int \<Rightarrow> uuid \<Rightarrow> bool" where
  "identity_schema V jobId attemptCount hostId \<longleftrightarrow>
     vt_isUuid V jobId \<and> 0 < attemptCount \<and> attemptCount \<le> MAX_SAFE_INTEGER \<and> vt_isUuid V hostId"

definition source_schema :: "vault \<Rightarrow> intent_source \<Rightarrow> intent_source option" where
  "source_schema V i =
     (let i' = i\<lparr>is_type := trim (is_type i)\<rparr> in
      if between 1 64 (is_type i') \<and> at_most 2048 (is_repositoryUrl i) \<and> at_most 512 (is_branch i)
         \<and> at_most 1024 (is_workingDir i) \<and> at_most 1024 (is_composePath i) \<and> at_most 128 (is_currentCommitSha i)
         \<and> at_most 128 (is_latestCommitSha i) \<and> at_most MAX_ENVIRONMENT_BYTES (is_environment i)
         \<and> uuid_or_null V (is_deploymentSourceId i)
      then Some i' else None)"

definition version_schema :: "vault \<Rightarrow> intent_version \<Rightarrow> bool" where
  "version_schema V i \<longleftrightarrow> iv_source i \<in> set stackVersionSources \<and> at_most 500 (iv_note i) \<and> uuid_or_null V (iv_createdBy i)"

text \<open>The fields of the input schema, trimmed as the schema does; the extension of the record is kept.\<close>

definition input_schema :: "vault \<Rightarrow> 'm intent_input_scheme \<Rightarrow> 'm intent_input_scheme option" where
  "input_schema V i =
     (case source_schema V (in_source i) of
        None \<Rightarrow> None
      | Some source \<Rightarrow>
          let i' = i\<lparr>in_projectName := trim (in_projectName i), in_name := trim (in_name i), in_source := source\<rparr> in
          if identity_schema V (in_jobId i) (in_attemptCount i) (in_hostId i)
             \<and> between 1 80 (in_projectName i') \<and> project_name (in_projectName i') \<and> between 1 80 (in_name i')
             \<and> between 1 MAX_COMPOSE_BYTES (in_composeYaml i) \<and> int (length (in_env i)) \<le> MAX_ENVIRONMENT_BYTES
             \<and> version_schema V (in_version i) \<and> uuid_or_null V (in_githubCloneOperationJobId i)
          then Some i' else None)"

definition intent_schema :: "vault \<Rightarrow> intent \<Rightarrow> intent option" where
  "intent_schema V i =
     (case input_schema V i of
        None \<Rightarrow> None
      | Some i' \<Rightarrow>
          if vt_isUuid V (in_candidateStackId i) \<and> vt_isUuid V (in_candidateVersionId i)
             \<and> (case is_environmentBinding (in_source i) of None \<Rightarrow> True | Some b \<Rightarrow> hex_string 64 b)
          then Some i' else None)"

section \<open>Creating and reading intents\<close>

definition deriveComposeStackDeploymentIntentIds :: "vault \<Rightarrow> uuid \<Rightarrow> int \<Rightarrow> (uuid \<times> uuid) result" where
  "deriveComposeStackDeploymentIntentIds V jobId attemptCount =
     (if \<not> identity_schema V jobId attemptCount jobId then Inl invalidIntent
      else Inr (vt_uuidv5 V (''compose-stack:'' @ show_int attemptCount) jobId,
                vt_uuidv5 V (''compose-stack-version:'' @ show_int attemptCount) jobId))"

definition environment_binding :: "externs \<Rightarrow> string option \<Rightarrow> string option" where
  "environment_binding X environment = map_option (x_deploymentEnvironmentBinding X) environment"

definition validateIntent :: "externs \<Rightarrow> vault \<Rightarrow> intent \<Rightarrow> intent result" where
  "validateIntent X V value =
     (case intent_schema V value of
        None \<Rightarrow> Inl invalidIntent
      | Some intent \<Rightarrow>
          and_then (deriveComposeStackDeploymentIntentIds V (in_jobId intent) (in_attemptCount intent)) (\<lambda>(stackId, versionId).
          if in_candidateStackId intent \<noteq> stackId \<or> in_candidateVersionId intent \<noteq> versionId
             \<or> is_environmentBinding (in_source intent) \<noteq> environment_binding X (is_environment (in_source intent))
          then Inl invalidIntent else Inr intent))"

definition encryptedIntentFromResult :: "json option \<Rightarrow> string result" where
  "encryptedIntentFromResult result =
     (case as_string (get_prop (objectFields result) COMPOSE_STACK_DEPLOYMENT_INTENT_KEY) of
        None \<Rightarrow> Inl invalidIntent
      | Some encrypted \<Rightarrow>
          if encrypted = [] \<or> int (length encrypted) > MAX_ENCRYPTED_INTENT_BYTES then Inl invalidIntent else Inr encrypted)"

text \<open>Whatever is thrown while the stored text is opened becomes the one error of an invalid intent.\<close>

definition parseComposeStackDeploymentIntent ::
    "externs \<Rightarrow> vault \<Rightarrow> json option \<Rightarrow> uuid \<Rightarrow> int \<Rightarrow> uuid \<Rightarrow> intent result" where
  "parseComposeStackDeploymentIntent X V result jobId attemptCount hostId =
     (if \<not> identity_schema V jobId attemptCount hostId then Inl invalidIntent
      else
        case and_then (encryptedIntentFromResult result) (\<lambda>encrypted.
             and_then (x_decryptSecret X encrypted) (\<lambda>text.
             case vt_parse V text of None \<Rightarrow> Inl invalidIntent | Some value \<Rightarrow> validateIntent X V value)) of
          Inl _ \<Rightarrow> Inl invalidIntent
        | Inr intent \<Rightarrow>
            if in_jobId intent \<noteq> jobId \<or> in_attemptCount intent \<noteq> attemptCount \<or> in_hostId intent \<noteq> hostId
            then Inl invalidIntent else Inr intent)"

definition intent_of :: "externs \<Rightarrow> uuid \<times> uuid \<Rightarrow> intent_input \<Rightarrow> intent" where
  "intent_of X ids i = intent_input.extend
     (i\<lparr>in_source := (in_source i)\<lparr>is_environmentBinding := environment_binding X (is_environment (in_source i))\<rparr>\<rparr>)
     (intent.fields (fst ids) (snd ids))"

definition intent_target :: "intent \<Rightarrow> job_row \<Rightarrow> bool" where
  "intent_target intent r \<longleftrightarrow> j_id r = in_jobId intent \<and> int (j_attempt_count r) = in_attemptCount intent
     \<and> j_host_id r = Some (in_hostId intent) \<and> (j_result r = None \<or> is_object (j_result r))"

definition persist_intent :: "clock \<Rightarrow> intent \<Rightarrow> string \<Rightarrow> db \<Rightarrow> (unit \<times> db) result" where
  "persist_intent ck intent encrypted s =
     (let P = (\<lambda>r. intent_target intent r \<and> j_status r = Running) in
      if length (filter P (d_jobs s)) \<noteq> 1 then Inl invalidIntent
      else Inr ((), update_jobs P (\<lambda>r. r\<lparr>
             j_result := Some (jsonb_merge (j_result r) [(COMPOSE_STACK_DEPLOYMENT_INTENT_KEY, JStr encrypted)]),
             j_updated_at := ck_now ck\<rparr>) s))"

text \<open>\<open>iv\<close> is the random initialisation vector of the encryption.\<close>

definition createAndPersistComposeStackDeploymentIntent ::
    "externs \<Rightarrow> vault \<Rightarrow> clock \<Rightarrow> string \<Rightarrow> intent_input \<Rightarrow> execution_fence option \<Rightarrow> db \<Rightarrow> intent result \<times> db" where
  "createAndPersistComposeStackDeploymentIntent X V ck iv input executionFence s =
     (case input_schema V input of
        None \<Rightarrow> (Inl invalidIntent, s)
      | Some i \<Rightarrow>
          (case and_then (deriveComposeStackDeploymentIntentIds V (in_jobId i) (in_attemptCount i)) (\<lambda>ids.
                  validateIntent X V (intent_of X ids i)) of
             Inl e \<Rightarrow> (Inl e, s)
           | Inr intent \<Rightarrow>
               (case executionFence of
                  None \<Rightarrow> (Inr intent, s)
                | Some fence \<Rightarrow>
                    if ef_jobId fence \<noteq> Some (in_jobId intent)
                       \<or> map_option int (ef_attemptCount fence) \<noteq> Some (in_attemptCount intent)
                    then (Inl invalidIntent, s)
                    else (case withActiveJobLeaseTransaction ck (in_jobId intent) (ef_lease fence)
                                 (persist_intent ck intent (vt_encryptSecret V iv (vt_stringify V intent))) s of
                            (Inl e, s') \<Rightarrow> (Inl e, s')
                          | (Inr _, s') \<Rightarrow> (Inr intent, s')))))"

section \<open>Materialising an intent\<close>

definition sourceEnvironmentCiphertext ::
    "externs \<Rightarrow> vault \<Rightarrow> string \<Rightarrow> intent \<Rightarrow> stack_row option \<Rightarrow> string option result" where
  "sourceEnvironmentCiphertext X V iv intent existing =
     (case is_environment (in_source intent) of
        None \<Rightarrow> Inr None
      | Some environment \<Rightarrow>
          (case existing of
             Some st \<Rightarrow>
               (case cs_source_environment_encrypted st of
                  Some (c # cs) \<Rightarrow>
                    if cs_source_environment_binding st = is_environmentBinding (in_source intent)
                    then (if x_decryptSecret X (c # cs) \<noteq> Inr environment then Inl invalidIntent else Inr (Some (c # cs)))
                    else Inr (Some (vt_encryptSecret V iv environment))
                | _ \<Rightarrow> Inr (Some (vt_encryptSecret V iv environment)))
           | None \<Rightarrow> Inr (Some (vt_encryptSecret V iv environment))))"

definition version_mismatch :: exn where
  "version_mismatch = PlainError (''REMOTE_OUTCOME_UNKNOWN: The deterministic Compose stack version does not match '' @
     ''its deployment intent.'')"

definition validateExistingVersion :: "version_row \<Rightarrow> uuid \<Rightarrow> intent \<Rightarrow> int result" where
  "validateExistingVersion row stackId intent =
     (if sv_id row \<noteq> in_candidateVersionId intent \<or> sv_stack_id row \<noteq> stackId
         \<or> sv_version_number row > MAX_SAFE_INTEGER \<or> sv_version_number row \<le> 0
         \<or> sv_compose_yaml row \<noteq> in_composeYaml intent \<or> sv_env row \<noteq> in_env intent
         \<or> sv_source row \<noteq> iv_source (in_version intent) \<or> sv_note row \<noteq> iv_note (in_version intent)
         \<or> sv_created_by row \<noteq> iv_createdBy (in_version intent)
      then Inl version_mismatch else Inr (sv_version_number row))"

definition same_project :: "intent \<Rightarrow> stack_row \<Rightarrow> bool" where
  "same_project intent st \<longleftrightarrow> cs_host_id st = in_hostId intent \<and> cs_project_name st = in_projectName intent"

text \<open>The columns both the insertion and the update on conflict write.\<close>

definition deployed_stack :: "clock \<Rightarrow> intent \<Rightarrow> string option \<Rightarrow> stack_row \<Rightarrow> stack_row" where
  "deployed_stack ck intent encryptedSourceEnvironment st =
     (let source = in_source intent in
      st\<lparr>cs_name := in_name intent, cs_compose_yaml := in_composeYaml intent, cs_env := in_env intent,
        cs_source_environment_encrypted := encryptedSourceEnvironment,
        cs_source_environment_binding := is_environmentBinding source, cs_status := ''deployed'',
        cs_source_type := Some (is_type source), cs_source_repository_url := is_repositoryUrl source,
        cs_source_branch := is_branch source, cs_source_working_dir := is_workingDir source,
        cs_source_compose_path := is_composePath source, cs_source_current_commit_sha := is_currentCommitSha source,
        cs_source_latest_commit_sha := is_latestCommitSha source,
        cs_source_checked_at := (if is_currentCommitSha source = None \<and> is_latestCommitSha source = None then None
                                 else Some (ck_now ck)),
        cs_source_check_error := None,
        cs_deployment_source_id := coalesce (is_deploymentSourceId source) (cs_deployment_source_id st),
        cs_last_deploy_error := None, cs_updated_at := ck_now ck\<rparr>)"

definition empty_stack :: "intent \<Rightarrow> stack_row" where
  "empty_stack intent =
     \<lparr>cs_id = in_candidateStackId intent, cs_host_id = in_hostId intent, cs_name = [], cs_project_name = in_projectName intent,
      cs_compose_yaml = [], cs_env = [], cs_status = [], cs_source_type = None, cs_source_repository_url = None,
      cs_source_branch = None, cs_source_working_dir = None, cs_source_compose_path = None,
      cs_source_current_commit_sha = None, cs_source_latest_commit_sha = None, cs_source_checked_at = None,
      cs_source_check_error = None, cs_source_environment_encrypted = None, cs_source_environment_binding = None,
      cs_deployment_source_id = None, cs_current_version_id = None, cs_last_deploy_error = None, cs_updated_at = 0\<rparr>"

text \<open>\<^verbatim>\<open>INSERT ... ON CONFLICT (host_id, project_name) DO UPDATE ... RETURNING id\<close>, with the foreign key of the source.\<close>

definition upsert_stack ::
    "clock \<Rightarrow> intent \<Rightarrow> string option \<Rightarrow> db \<Rightarrow> (uuid \<times> db) result" where
  "upsert_stack ck intent encryptedSourceEnvironment s =
     (if (case is_deploymentSourceId (in_source intent) of None \<Rightarrow> False | Some i \<Rightarrow> i \<notin> ds_id ` set (d_sources s))
      then Inl (CodedError ''23503'' ''insert or update violates foreign key constraint'')
      else case first_row (filter (same_project intent) (d_stacks s)) of
        Some st \<Rightarrow>
          Inr (cs_id st, s\<lparr>d_stacks := update_where (same_project intent)
                 (deployed_stack ck intent encryptedSourceEnvironment) (d_stacks s)\<rparr>)
      | None \<Rightarrow>
          if in_candidateStackId intent \<in> cs_id ` set (d_stacks s)
          then Inl (CodedError ''23505'' ''duplicate key value violates unique constraint'')
          else Inr (in_candidateStackId intent,
                 s\<lparr>d_stacks := d_stacks s @ [deployed_stack ck intent encryptedSourceEnvironment (empty_stack intent)]\<rparr>))"

record finalized_intent =
  fi_stackId :: uuid
  fi_versionId :: uuid
  fi_versionNumber :: int
  fi_replayed :: bool
  fi_githubCloneOperationJobId :: "uuid option"

definition intent_version_row :: "clock \<Rightarrow> intent \<Rightarrow> uuid \<Rightarrow> int \<Rightarrow> version_row" where
  "intent_version_row ck intent stackId versionNumber =
     \<lparr>sv_id = in_candidateVersionId intent, sv_stack_id = stackId, sv_version_number = versionNumber,
      sv_compose_yaml = in_composeYaml intent, sv_env = in_env intent, sv_source = iv_source (in_version intent),
      sv_note = iv_note (in_version intent), sv_created_by = iv_createdBy (in_version intent),
      sv_created_at = ck_now ck\<rparr>"

text \<open>The version with the identifier of the intent, checked where it exists and inserted where it does not.\<close>

definition materialise_version :: "clock \<Rightarrow> intent \<Rightarrow> uuid \<Rightarrow> db \<Rightarrow> ((int \<times> bool) \<times> db) result" where
  "materialise_version ck intent stackId s =
     (case first_row (filter (\<lambda>v. sv_id v = in_candidateVersionId intent) (d_versions s)) of
        Some version \<Rightarrow> and_then (validateExistingVersion version stackId intent) (\<lambda>n. Inr ((n, True), s))
      | None \<Rightarrow>
          and_then (next_version stackId s) (\<lambda>versionNumber.
          if versionNumber \<le> 0 then Inl (PlainError ''Could not allocate a Compose stack version.'')
          else
            and_then (insert_version (intent_version_row ck intent stackId versionNumber) s) (\<lambda>(row, s1).
            and_then (validateExistingVersion row stackId intent) (\<lambda>_.
            Inr ((versionNumber, False), s1)))))"

definition publish_version :: "clock \<Rightarrow> intent \<Rightarrow> uuid \<Rightarrow> db \<Rightarrow> db result" where
  "publish_version ck intent stackId s =
     (if length (filter (\<lambda>st. cs_id st = stackId) (d_stacks s)) \<noteq> 1
      then Inl (PlainError ''Could not publish the Compose stack version.'')
      else Inr (update_stack stackId (\<lambda>st. st\<lparr>cs_current_version_id := Some (in_candidateVersionId intent),
             cs_status := ''deployed'', cs_updated_at := ck_now ck\<rparr>) s))"

definition finalizeComposeStackDeploymentIntent ::
    "externs \<Rightarrow> vault \<Rightarrow> clock \<Rightarrow> string \<Rightarrow> intent \<Rightarrow> db \<Rightarrow> (finalized_intent \<times> db) result" where
  "finalizeComposeStackDeploymentIntent X V ck iv value s =
     and_then (validateIntent X V value) (\<lambda>intent.
     let existing = first_row (filter (same_project intent) (d_stacks s));
         expectedStackId = (case existing of Some st \<Rightarrow> cs_id st | None \<Rightarrow> in_candidateStackId intent) in
     and_then (sourceEnvironmentCiphertext X V iv intent existing) (\<lambda>encrypted.
     and_then (upsert_stack ck intent encrypted s) (\<lambda>(stackId, s1).
     if stackId \<noteq> expectedStackId
     then Inl (PlainError (''REMOTE_OUTCOME_UNKNOWN: The Compose stack identity changed while its deployment '' @
            ''intent was finalized.''))
     else
       and_then (materialise_version ck intent stackId s1) (\<lambda>((versionNumber, replayed), s2).
       and_then (publish_version ck intent stackId s2) (\<lambda>s3.
       Inr (\<lparr>fi_stackId = stackId, fi_versionId = in_candidateVersionId intent, fi_versionNumber = versionNumber,
             fi_replayed = replayed, fi_githubCloneOperationJobId = in_githubCloneOperationJobId intent\<rparr>, s3))))))"

definition remove_key :: "string \<Rightarrow> json \<Rightarrow> json" where
  "remove_key k j = (case j of JObj fs \<Rightarrow> JObj (filter (\<lambda>(k', _). k' \<noteq> k) fs) | _ \<Rightarrow> j)"

definition discardComposeStackDeploymentIntent ::
    "vault \<Rightarrow> clock \<Rightarrow> uuid \<Rightarrow> int \<Rightarrow> uuid \<Rightarrow> db \<Rightarrow> db result" where
  "discardComposeStackDeploymentIntent V ck jobId attemptCount hostId s =
     (if \<not> identity_schema V jobId attemptCount hostId then Inl invalidIntent
      else
        let P = (\<lambda>r. j_id r = jobId \<and> int (j_attempt_count r) = attemptCount \<and> j_host_id r = Some hostId
                   \<and> (j_result r = None \<or> is_object (j_result r))) in
        if length (filter P (d_jobs s)) \<noteq> 1 then Inl invalidIntent
        else Inr (update_jobs P (\<lambda>r. r\<lparr>j_result := map_option (remove_key COMPOSE_STACK_DEPLOYMENT_INTENT_KEY) (j_result r),
               j_updated_at := ck_now ck\<rparr>) s))"

section \<open>Finalising a deployment analysis\<close>

text \<open>The parser ends on every input, so that the last case never arises.\<close>

definition environment_values :: "string \<Rightarrow> environment result" where
  "environment_values text =
     (case parseDeploymentEnvironment text of Some r \<Rightarrow> r | None \<Rightarrow> Inl (PlainError ''unreachable''))"

text \<open>\<^verbatim>\<open>(Array.isArray(row.variables) ? row.variables : []).filter((v) => v?.secret === true).map(...).filter(Boolean)\<close>\<close>

definition declared_secrets :: "json \<Rightarrow> string list" where
  "declared_secrets variables =
     filter (\<lambda>k. k \<noteq> [])
       (map (\<lambda>v. string_or_empty (get_prop (objectFields (Some v)) ''key''))
         (filter (\<lambda>v. get_prop (objectFields (Some v)) ''secret'' = Some (JBool True))
           (case as_array (Some variables) of None \<Rightarrow> [] | Some vs \<Rightarrow> vs)))"

definition blank_secrets :: "string list \<Rightarrow> environment \<Rightarrow> environment" where
  "blank_secrets keys values = fold (\<lambda>key m. if map_has m key then map_set m key [] else m) keys values"

definition protectedDeploymentEnvironment :: "externs \<Rightarrow> analysis_row \<Rightarrow> string result" where
  "protectedDeploymentEnvironment X row =
     and_then (case da_env_encrypted row of Some (c # cs) \<Rightarrow> x_decryptSecret X (c # cs) | _ \<Rightarrow> Inr []) (\<lambda>environment.
     and_then (environment_values environment) (\<lambda>values.
       Inr (serializeDeploymentEnvironment (blank_secrets
         (declared_secrets (da_variables row) @ filter SENSITIVE_ENVIRONMENT_NAME (map fst values)) values))))"

definition required_column :: "'a option \<Rightarrow> 'a result" where
  "required_column v = (case v of Some x \<Rightarrow> Inr x | None \<Rightarrow> Inl (CodedError ''23502'' ''null value violates not-null constraint''))"

definition source_identity :: "deployment_source_row \<Rightarrow> string \<times> string \<times> string \<times> string" where
  "source_identity d = (ds_source_type d, ds_source_locator d, case ds_branch d of None \<Rightarrow> [] | Some b \<Rightarrow> b,
     case ds_compose_path d of None \<Rightarrow> [] | Some p \<Rightarrow> p)"

text \<open>The columns both statements write; the update of a known source also writes its locator.\<close>

definition deployed_source ::
    "clock \<Rightarrow> analysis_row \<Rightarrow> string \<Rightarrow> string \<Rightarrow> deployment_source_row \<Rightarrow> deployment_source_row" where
  "deployed_source ck row name projectName d =
     d\<lparr>ds_name := name, ds_working_dir := da_working_dir row, ds_project_name := projectName,
       ds_compose_yaml := da_compose_yaml row, ds_env_encrypted := da_env_encrypted row,
       ds_credential_username := da_credential_username row,
       ds_credential_secret_encrypted := da_credential_secret_encrypted row, ds_default_host_id := Some (da_host_id row),
       ds_metadata := obj_concat (ds_metadata d) [(''lastAnalysisId'', JStr (da_id row))],
       ds_last_deployed_at := Some (ck_now ck), ds_updated_at := ck_now ck\<rparr>"

definition update_source ::
    "clock \<Rightarrow> analysis_row \<Rightarrow> string \<Rightarrow> string \<Rightarrow> string \<Rightarrow> uuid \<Rightarrow> db \<Rightarrow> (deployment_source_row \<times> db) result" where
  "update_source ck row name locator projectName sourceId s =
     (let f = (\<lambda>d. (deployed_source ck row name projectName d)\<lparr>ds_source_locator := locator, ds_branch := da_branch row,
                  ds_compose_path := da_compose_path row\<rparr>) in
      case first_row (filter (\<lambda>d. ds_id d = sourceId) (d_sources s)) of
        None \<Rightarrow> Inl (PlainError ''The deployment source no longer exists.'')
      | Some d \<Rightarrow>
          if list_ex (\<lambda>e. ds_id e \<noteq> sourceId \<and> source_identity e = source_identity (f d)) (d_sources s)
          then Inl (CodedError ''23505'' ''duplicate key value violates unique constraint'')
          else Inr (f d, s\<lparr>d_sources := update_where (\<lambda>d. ds_id d = sourceId) f (d_sources s)\<rparr>))"

definition new_source :: "analysis_row \<Rightarrow> uuid \<Rightarrow> string \<Rightarrow> deployment_source_row" where
  "new_source row newId locator =
     \<lparr>ds_id = newId, ds_source_type = da_source_type row, ds_name = [], ds_source_locator = locator, ds_branch = da_branch row,
      ds_compose_path = da_compose_path row, ds_working_dir = None, ds_project_name = [], ds_compose_yaml = None,
      ds_env_encrypted = None, ds_credential_username = None, ds_credential_secret_encrypted = None,
      ds_default_host_id = None, ds_metadata = [], ds_last_deployed_at = None, ds_updated_at = 0\<rparr>"

definition insert_source ::
    "clock \<Rightarrow> analysis_row \<Rightarrow> string \<Rightarrow> string \<Rightarrow> string \<Rightarrow> uuid \<Rightarrow> db \<Rightarrow> (deployment_source_row \<times> db) result" where
  "insert_source ck row name locator projectName newId s =
     (let fresh = new_source row newId locator; P = (\<lambda>d. source_identity d = source_identity fresh) in
      case first_row (filter P (d_sources s)) of
        Some d \<Rightarrow> Inr (deployed_source ck row name projectName d,
                    s\<lparr>d_sources := update_where P (deployed_source ck row name projectName) (d_sources s)\<rparr>)
      | None \<Rightarrow>
          if newId \<in> ds_id ` set (d_sources s)
          then Inl (CodedError ''23505'' ''duplicate key value violates unique constraint'')
          else Inr (deployed_source ck row name projectName fresh,
                 s\<lparr>d_sources := d_sources s @ [deployed_source ck row name projectName fresh]\<rparr>))"

definition upsertDeploymentSourceInTransaction ::
    "clock \<Rightarrow> uuid \<Rightarrow> analysis_row \<Rightarrow> db \<Rightarrow> (deployment_source_row \<times> db) result" where
  "upsertDeploymentSourceInTransaction ck newId row s =
     and_then (required_column (da_display_name row)) (\<lambda>name.
     and_then (required_column (da_source_locator row)) (\<lambda>locator.
     and_then (required_column (da_project_name row)) (\<lambda>projectName.
       if truthy_text (da_source_id row) then update_source ck row name locator projectName (the (da_source_id row)) s
       else insert_source ck row name locator projectName newId s)))"

definition analysis_mismatch :: exn where
  "analysis_mismatch = PlainError ''The completed remote deployment no longer matches its durable analysis.''"

definition text_column :: "string option \<Rightarrow> string" where
  "text_column v = (case v of None \<Rightarrow> [] | Some x \<Rightarrow> x)"

definition absolute_under :: "string \<Rightarrow> string \<Rightarrow> string result" where
  "absolute_under directory p =
     (if starts_with ''/'' p then normalizeRemotePath p else normalizeRemotePath (path_join directory p))"

text \<open>The stack the analysis was deployed as, and the version it runs.\<close>

definition matching_stack :: "analysis_row \<Rightarrow> uuid \<Rightarrow> db \<Rightarrow> (stack_row \<times> uuid) result" where
  "matching_stack analysis stackId s =
     and_then (normalizeRemotePath (text_column (da_working_dir analysis))) (\<lambda>expectedWorkingDirectory.
     and_then (absolute_under expectedWorkingDirectory (text_column (da_compose_path analysis))) (\<lambda>expectedComposePath.
     case first_row (filter (\<lambda>st. cs_id st = stackId) (d_stacks s)) of
       None \<Rightarrow> Inl analysis_mismatch
     | Some stack \<Rightarrow>
         if cs_host_id stack \<noteq> da_host_id analysis \<or> Some (cs_project_name stack) \<noteq> da_project_name analysis
            \<or> Some (cs_compose_yaml stack) \<noteq> da_compose_yaml analysis
         then Inl analysis_mismatch
         else
           and_then (normalizeRemotePath (text_column (cs_source_working_dir stack))) (\<lambda>directory.
           if directory \<noteq> expectedWorkingDirectory then Inl analysis_mismatch
           else
             and_then (normalizeRemotePath (text_column (cs_source_compose_path stack))) (\<lambda>file.
             if file \<noteq> expectedComposePath then Inl analysis_mismatch
             else case cs_current_version_id stack of
               None \<Rightarrow> Inl analysis_mismatch
             | Some version \<Rightarrow> Inr (stack, version)))))"

definition finalizable :: "analysis_row \<Rightarrow> bool" where
  "finalizable a \<longleftrightarrow> da_status a = ''deploying'' \<or> da_status a = ''failed''"

definition finish_analysis :: "clock \<Rightarrow> uuid \<Rightarrow> analysis_row \<Rightarrow> analysis_row" where
  "finish_analysis ck sourceId a = a\<lparr>da_status := ''deployed'', da_source_id := Some sourceId, da_env_encrypted := None,
     da_credential_secret_encrypted := None, da_deployed_at := Some (ck_now ck), da_updated_at := ck_now ck, da_error := None\<rparr>"

record finalized_execution =
  fe_analysis :: analysis_row
  fe_source :: deployment_source_row
  fe_stackId :: uuid
  fe_replayed :: bool

definition replay_execution :: "analysis_row \<Rightarrow> stack_row \<Rightarrow> db \<Rightarrow> deployment_source_row result" where
  "replay_execution analysis stack s =
     (if \<not> truthy_text (da_source_id analysis) \<or> cs_deployment_source_id stack \<noteq> da_source_id analysis
      then Inl (PlainError ''The deployed analysis is missing its durable stack/source binding.'')
      else case first_row (filter (\<lambda>d. Some (ds_id d) = da_source_id analysis) (d_sources s)) of
        None \<Rightarrow> Inl (PlainError ''The deployment source no longer exists.'')
      | Some source \<Rightarrow> Inr source)"

definition publish_analysis :: "clock \<Rightarrow> uuid \<Rightarrow> uuid \<Rightarrow> db \<Rightarrow> (analysis_row \<times> db) result" where
  "publish_analysis ck analysisId sourceId s =
     (let P = (\<lambda>a. da_id a = analysisId \<and> finalizable a) in
      case first_row (filter P (d_analyses s)) of
        None \<Rightarrow> Inl (PlainError (''This deployment execution attempt was superseded before terminal state '' @ ''was recorded.''))
      | Some a \<Rightarrow> Inr (finish_analysis ck sourceId a,
                    s\<lparr>d_analyses := update_where P (finish_analysis ck sourceId) (d_analyses s)\<rparr>))"

definition finish_execution ::
    "externs \<Rightarrow> clock \<Rightarrow> uuid \<Rightarrow> analysis_row \<Rightarrow> uuid \<Rightarrow> uuid \<Rightarrow> db \<Rightarrow> (finalized_execution \<times> db) result" where
  "finish_execution X ck newSourceId analysis stackId versionId s =
     and_then (protectedDeploymentEnvironment X analysis) (\<lambda>protectedEnvironment.
     and_then (upsertDeploymentSourceInTransaction ck newSourceId analysis s) (\<lambda>(source, s1).
     let s2 = update_stack stackId (\<lambda>st. st\<lparr>cs_deployment_source_id := Some (ds_id source), cs_env := protectedEnvironment,
                cs_status := ''deployed'', cs_updated_at := ck_now ck\<rparr>) s1;
         s3 = s2\<lparr>d_versions := update_where (\<lambda>v. sv_id v = versionId) (\<lambda>v. v\<lparr>sv_env := protectedEnvironment\<rparr>) (d_versions s2)\<rparr>
     in and_then (publish_analysis ck (da_id analysis) (ds_id source) s3) (\<lambda>(updated, s4).
        Inr (\<lparr>fe_analysis = updated, fe_source = source, fe_stackId = stackId, fe_replayed = False\<rparr>, s4))))"

text \<open>\<open>newSourceId\<close> is the generated identifier of a source that does not exist yet.\<close>

definition finalizeDeploymentExecutionInTransaction ::
    "externs \<Rightarrow> clock \<Rightarrow> uuid \<Rightarrow> uuid \<Rightarrow> uuid \<Rightarrow> db \<Rightarrow> (finalized_execution \<times> db) result" where
  "finalizeDeploymentExecutionInTransaction X ck newSourceId analysisId stackId s =
     (case first_row (filter (\<lambda>a. da_id a = analysisId) (d_analyses s)) of
        None \<Rightarrow> Inl (PlainError ''Deployment analysis not found.'')
      | Some analysis \<Rightarrow>
          and_then (matching_stack analysis stackId s) (\<lambda>(stack, versionId).
          if da_status analysis = ''deployed''
          then and_then (replay_execution analysis stack s) (\<lambda>source.
                 Inr (\<lparr>fe_analysis = analysis, fe_source = source, fe_stackId = stackId, fe_replayed = True\<rparr>, s))
          else if \<not> finalizable analysis
          then Inl (PlainError ''Deployment analysis is not eligible for terminal finalization.'')
          else finish_execution X ck newSourceId analysis stackId versionId s))"

section \<open>Lemmas\<close>

interpretation places: keyed_table stack_place .

lemma stack_places: "history_wf s \<Longrightarrow> places.keys_unique (d_stacks s)"
  by (simp add: history_wf_def places.keys_unique_def)

lemma same_project_place: "same_project i st \<longleftrightarrow> stack_place st = (in_hostId i, in_projectName i)"
  by (auto simp: same_project_def stack_place_def)

lemma deployed_stack_frame [simp]:
  "cs_id (deployed_stack ck i e st) = cs_id st" "stack_place (deployed_stack ck i e st) = stack_place st"
  "cs_current_version_id (deployed_stack ck i e st) = cs_current_version_id st"
  "cs_source_environment_encrypted (deployed_stack ck i e st) = e"
  "cs_source_environment_binding (deployed_stack ck i e st) = is_environmentBinding (in_source i)"
  "cs_env (deployed_stack ck i e st) = in_env i" "cs_compose_yaml (deployed_stack ck i e st) = in_composeYaml i"
  by (simp_all add: deployed_stack_def stack_place_def Let_def)

lemma upsert_stack_facts:
  assumes "upsert_stack ck i e s = Inr (stackId, s1)" and "history_wf s"
  obtains st where "st \<in> set (d_stacks s1)" "cs_id st = stackId" "stack_place st = (in_hostId i, in_projectName i)"
    "cs_source_environment_encrypted st = e" "cs_source_environment_binding st = is_environmentBinding (in_source i)"
    "d_versions s1 = d_versions s" "d_sources s1 = d_sources s" "d_jobs s1 = d_jobs s" "history_wf s1"
proof (cases "first_row (filter (same_project i) (d_stacks s))")
  case (Some st)
  with assms(1) have s1: "stackId = cs_id st" "s1 = s\<lparr>d_stacks := update_where (same_project i) (deployed_stack ck i e) (d_stacks s)\<rparr>"
    by (auto simp: upsert_stack_def split: if_splits)
  have st: "st \<in> set (d_stacks s)" "same_project i st" using first_row_SomeD [OF Some] by auto
  have m: "deployed_stack ck i e st \<in> set (d_stacks s1)"
    unfolding s1 using st by (auto simp: set_update_where intro!: image_eqI [of _ _ st])
  have "current_ok vs (deployed_stack ck i e q) = current_ok vs q" for vs q by (simp add: current_ok_def split: option.split)
  then have "list_all (current_ok (d_versions s)) (d_stacks s1)"
    using assms(2) by (auto simp: s1 history_wf_def list_all_iff set_update_where)
  then have "history_wf s1"
    using assms(2) stacks.unique_update [of "deployed_stack ck i e"] map_update_where [of stack_place "deployed_stack ck i e"]
    by (simp add: history_wf_def s1)
  then show ?thesis using that [OF m] st s1 by (simp add: same_project_place)
next
  case None
  then have f: "\<forall>st\<in>set (d_stacks s). stack_place st \<noteq> (in_hostId i, in_projectName i)"
    by (auto simp: filter_eq_Nil_iff same_project_place)
  let ?new = "deployed_stack ck i e (empty_stack i)"
  have s1: "stackId = in_candidateStackId i" "s1 = s\<lparr>d_stacks := d_stacks s @ [?new]\<rparr>"
    "in_candidateStackId i \<notin> cs_id ` set (d_stacks s)"
    using assms(1) None by (auto simp: upsert_stack_def split: if_splits)
  have n: "cs_id ?new = in_candidateStackId i" "stack_place ?new = (in_hostId i, in_projectName i)" "current_ok vs ?new" for vs
    by (simp_all add: empty_stack_def current_ok_def) (simp add: stack_place_def)
  have "history_wf s1"
    using assms(2) f s1(3) n by (auto simp: history_wf_def s1(2) stacks.keys_unique_def)
  then show ?thesis using that [of ?new] n s1 by simp
qed

lemma validate_number: "validateExistingVersion v stackId i = Inr n \<Longrightarrow> n = sv_version_number v \<and> sv_id v = in_candidateVersionId i
    \<and> sv_stack_id v = stackId \<and> sv_env v = in_env i"
  by (auto simp: validateExistingVersion_def split: if_splits)

lemma materialise_version_cases:
  assumes "materialise_version ck i stackId s = Inr ((n, replayed), s')"
  shows "(replayed \<and> s' = s \<and> (\<exists>v\<in>set (d_versions s). validateExistingVersion v stackId i = Inr n))
    \<or> (\<not> replayed \<and> next_version stackId s = Inr n
       \<and> insert_version (intent_version_row ck i stackId n) s = Inr (intent_version_row ck i stackId n, s')
       \<and> validateExistingVersion (intent_version_row ck i stackId n) stackId i = Inr n)"
proof (cases "first_row (filter (\<lambda>v. sv_id v = in_candidateVersionId i) (d_versions s))")
  case (Some v)
  have "v \<in> set (d_versions s)" using first_row_SomeD [OF Some] by simp
  with Some assms show ?thesis by (auto simp: materialise_version_def and_then_Inr_iff)
next
  case None
  obtain row m where n: "next_version stackId s = Inr n" and r: "\<not> replayed"
    and i: "insert_version (intent_version_row ck i stackId n) s = Inr (row, s')"
    and v: "validateExistingVersion row stackId i = Inr m"
    using assms None by (simp add: materialise_version_def and_then_Inr_iff split: if_splits) blast
  have row: "row = intent_version_row ck i stackId n" by (rule insert_version_facts(1) [OF i])
  then have "m = n" using validate_number [OF v] by (simp add: intent_version_row_def)
  with n r i v row show ?thesis by simp
qed

lemma materialise_version_facts:
  assumes "materialise_version ck i stackId s = Inr ((n, replayed), s')" and "history_wf s"
  obtains v where "v \<in> set (d_versions s')" "validateExistingVersion v stackId i = Inr n"
    "d_versions s' = (if replayed then d_versions s else d_versions s @ [v])" "d_stacks s' = d_stacks s"
    "d_sources s' = d_sources s" "d_jobs s' = d_jobs s" "history_wf s'"
    "\<not> replayed \<Longrightarrow> n = highest (version_numbers stackId s) + 1"
proof -
  consider (old) v where "replayed" "s' = s" "v \<in> set (d_versions s)" "validateExistingVersion v stackId i = Inr n"
    | (new) "\<not> replayed" "next_version stackId s = Inr n"
        "insert_version (intent_version_row ck i stackId n) s = Inr (intent_version_row ck i stackId n, s')"
        "validateExistingVersion (intent_version_row ck i stackId n) stackId i = Inr n"
    using materialise_version_cases [OF assms(1)] by blast
  then show ?thesis
  proof cases
    case old
    with that [of v] assms(2) show ?thesis by simp
  next
    case new
    note nv = next_version_facts [OF new(2) assms(2)]
    have "history_wf s'" using insert_version_wf [OF new(3) assms(2)] nv(1) by (simp add: intent_version_row_def)
    with that [of "intent_version_row ck i stackId n"] new(1,4) nv(2) insert_version_facts(2) [OF new(3)] show ?thesis by simp
  qed
qed

lemma publish_version_facts:
  assumes "publish_version ck i stackId s = Inr s'" and "history_wf s"
    and "v \<in> set (d_versions s)" and "sv_id v = in_candidateVersionId i" and "sv_stack_id v = stackId"
  shows "history_wf s'" "d_versions s' = d_versions s" "d_sources s' = d_sources s" "d_jobs s' = d_jobs s"
    "d_stacks s' = update_where (\<lambda>st. cs_id st = stackId) (\<lambda>st. st\<lparr>cs_current_version_id := Some (in_candidateVersionId i),
       cs_status := ''deployed'', cs_updated_at := ck_now ck\<rparr>) (d_stacks s)"
proof -
  have s': "s' = update_stack stackId (\<lambda>st. st\<lparr>cs_current_version_id := Some (in_candidateVersionId i),
       cs_status := ''deployed'', cs_updated_at := ck_now ck\<rparr>) s"
    using assms(1) by (simp add: publish_version_def split: if_splits)
  show "history_wf s'"
    unfolding s' using assms(2) by (rule update_stack_wf) (use assms(3-5) in \<open>auto simp: stack_place_def current_ok_def\<close>)
  show "d_versions s' = d_versions s" "d_sources s' = d_sources s" "d_jobs s' = d_jobs s"
    "d_stacks s' = update_where (\<lambda>st. cs_id st = stackId) (\<lambda>st. st\<lparr>cs_current_version_id := Some (in_candidateVersionId i),
       cs_status := ''deployed'', cs_updated_at := ck_now ck\<rparr>) (d_stacks s)"
    by (simp_all add: s')
qed

text \<open>What a materialised intent leaves: its stack, its version, and the source environment under the intent's binding.\<close>

definition materialised :: "intent \<Rightarrow> uuid \<Rightarrow> int \<Rightarrow> string option \<Rightarrow> db \<Rightarrow> bool" where
  "materialised i stackId n e s \<longleftrightarrow>
     (\<exists>st\<in>set (d_stacks s). cs_id st = stackId \<and> stack_place st = (in_hostId i, in_projectName i)
        \<and> cs_source_environment_encrypted st = e \<and> cs_source_environment_binding st = is_environmentBinding (in_source i)
        \<and> cs_current_version_id st = Some (in_candidateVersionId i))
     \<and> (\<exists>v\<in>set (d_versions s). validateExistingVersion v stackId i = Inr n)"

lemma finalize_intent_facts:
  assumes "finalizeComposeStackDeploymentIntent X V ck iv value s = Inr (fin, s')" and "history_wf s"
  obtains i e where "validateIntent X V value = Inr i"
    "sourceEnvironmentCiphertext X V iv i (first_row (filter (same_project i) (d_stacks s))) = Inr e"
    "materialised i (fi_stackId fin) (fi_versionNumber fin) e s'" "history_wf s'" "fi_versionId fin = in_candidateVersionId i"
    "d_sources s' = d_sources s" "d_jobs s' = d_jobs s"
    "\<And>v. v \<in> set (d_versions s) \<Longrightarrow> v \<in> set (d_versions s')"
    "fi_replayed fin \<Longrightarrow> d_versions s' = d_versions s"
    "fi_githubCloneOperationJobId fin = in_githubCloneOperationJobId i"
    "is_deploymentSourceId (in_source i) = None \<or> the (is_deploymentSourceId (in_source i)) \<in> ds_id ` set (d_sources s)"
proof -
  obtain i e stackId s1 n replayed s2 where i: "validateIntent X V value = Inr i"
    and e: "sourceEnvironmentCiphertext X V iv i (first_row (filter (same_project i) (d_stacks s))) = Inr e"
    and u: "upsert_stack ck i e s = Inr (stackId, s1)" and m: "materialise_version ck i stackId s1 = Inr ((n, replayed), s2)"
    and p: "publish_version ck i stackId s2 = Inr s'"
    and fin: "fin = \<lparr>fi_stackId = stackId, fi_versionId = in_candidateVersionId i, fi_versionNumber = n,
             fi_replayed = replayed, fi_githubCloneOperationJobId = in_githubCloneOperationJobId i\<rparr>"
    using assms(1)
    by (auto simp: finalizeComposeStackDeploymentIntent_def Let_def and_then_Inr_iff split: if_splits)
  obtain st where st: "st \<in> set (d_stacks s1)" "cs_id st = stackId" "stack_place st = (in_hostId i, in_projectName i)"
    "cs_source_environment_encrypted st = e" "cs_source_environment_binding st = is_environmentBinding (in_source i)"
    and s1: "d_versions s1 = d_versions s" "d_sources s1 = d_sources s" "d_jobs s1 = d_jobs s" "history_wf s1"
    by (rule upsert_stack_facts [OF u assms(2)])
  obtain v where v: "v \<in> set (d_versions s2)" "validateExistingVersion v stackId i = Inr n"
    and s2: "d_versions s2 = (if replayed then d_versions s1 else d_versions s1 @ [v])" "d_stacks s2 = d_stacks s1"
    "d_sources s2 = d_sources s1" "d_jobs s2 = d_jobs s1" "history_wf s2"
    by (rule materialise_version_facts [OF m s1(4)])
  note vn = validate_number [OF v(2)]
  note s' = publish_version_facts [OF p s2(5) v(1)]
  have s'': "history_wf s'" "d_versions s' = d_versions s2" "d_sources s' = d_sources s2" "d_jobs s' = d_jobs s2"
    "d_stacks s' = update_where (\<lambda>st. cs_id st = stackId) (\<lambda>st. st\<lparr>cs_current_version_id := Some (in_candidateVersionId i),
       cs_status := ''deployed'', cs_updated_at := ck_now ck\<rparr>) (d_stacks s2)"
    using s' vn by simp_all
  let ?st = "st\<lparr>cs_current_version_id := Some (in_candidateVersionId i), cs_status := ''deployed'', cs_updated_at := ck_now ck\<rparr>"
  have "?st \<in> set (d_stacks s')" using st(1,2) s2(2) by (auto simp: s''(5) set_update_where intro!: image_eqI [of _ _ st])
  then have "materialised i stackId n e s'"
    unfolding materialised_def using st v s''(2) by (intro conjI bexI [of _ ?st] bexI [of _ v]) (simp_all add: stack_place_def)
  moreover have "is_deploymentSourceId (in_source i) = None \<or> the (is_deploymentSourceId (in_source i)) \<in> ds_id ` set (d_sources s)"
    using u by (auto simp: upsert_stack_def split: if_splits option.splits)
  ultimately show ?thesis
    using that [OF i e] s'' s2 s1 by (simp add: fin)
qed

lemma source_schema_idem: "source_schema V i = Some j \<Longrightarrow> source_schema V j = Some j"
  by (auto simp: source_schema_def Let_def split: if_splits)

lemma input_schema_idem: "input_schema V i = Some j \<Longrightarrow> input_schema V j = Some j"
  by (auto simp: input_schema_def Let_def source_schema_idem split: if_splits option.splits)

lemma input_schema_keeps:
  assumes "input_schema V i = Some j"
  shows "intent_input.more j = intent_input.more i" "in_jobId j = in_jobId i" "in_attemptCount j = in_attemptCount i"
    "in_hostId j = in_hostId i" "is_environmentBinding (in_source j) = is_environmentBinding (in_source i)"
  using assms by (auto simp: input_schema_def source_schema_def Let_def split: if_splits option.splits)

lemma validate_intent_facts:
  assumes "validateIntent X V i = Inr j"
  shows "intent_schema V i = Some j" "validateIntent X V j = Inr j"
proof -
  show s: "intent_schema V i = Some j"
    using assms by (auto simp: validateIntent_def and_then_Inr_iff split: option.splits if_splits prod.splits)
  then have p: "input_schema V i = Some j" by (auto simp: intent_schema_def split: option.splits if_splits)
  have "in_candidateStackId j = in_candidateStackId i" "in_candidateVersionId j = in_candidateVersionId i"
    using input_schema_keeps(1) [OF p] by (cases i; cases j; simp)+
  then have "intent_schema V j = Some j"
    using s input_schema_idem [OF p] input_schema_keeps(5) [OF p] by (auto simp: intent_schema_def split: option.splits if_splits)
  then show "validateIntent X V j = Inr j" using assms s by (simp add: validateIntent_def)
qed

text \<open>What the development assumes of the cryptography: a secret is decrypted from its ciphertext.\<close>

definition vault_laws :: "externs \<Rightarrow> vault \<Rightarrow> bool" where
  "vault_laws X V \<longleftrightarrow> (\<forall>iv x. x_decryptSecret X (vt_encryptSecret V iv x) = Inr x)"

lemma parse_stored_intent:
  assumes "vault_laws X V" and "vt_parse V (vt_stringify V i) = Some i" and "validateIntent X V i = Inr i" and "mergeable result"
    and "between 1 MAX_ENCRYPTED_INTENT_BYTES (vt_encryptSecret V iv (vt_stringify V i))"
    and "identity_schema V jobId attemptCount hostId"
  shows "parseComposeStackDeploymentIntent X V (Some (jsonb_merge result
      [(COMPOSE_STACK_DEPLOYMENT_INTENT_KEY, JStr (vt_encryptSecret V iv (vt_stringify V i)))])) jobId attemptCount hostId
    = (if in_jobId i = jobId \<and> in_attemptCount i = attemptCount \<and> in_hostId i = hostId then Inr i else Inl invalidIntent)"
proof -
  let ?c = "vt_encryptSecret V iv (vt_stringify V i)"
  have "get_prop (objectFields (Some (jsonb_merge result [(COMPOSE_STACK_DEPLOYMENT_INTENT_KEY, JStr ?c)])))
      COMPOSE_STACK_DEPLOYMENT_INTENT_KEY = Some (JStr ?c)"
    using assms(4) by (cases result; cases "the result") (auto simp: mergeable_def jsonb_merge_def)
  then have "encryptedIntentFromResult (Some (jsonb_merge result [(COMPOSE_STACK_DEPLOYMENT_INTENT_KEY, JStr ?c)])) = Inr ?c"
    using assms(5) by (auto simp: encryptedIntentFromResult_def between_def)
  then show ?thesis
    using assms(1,2,3,6) by (auto simp: parseComposeStackDeploymentIntent_def vault_laws_def)
qed

lemma create_intent_facts:
  assumes "createAndPersistComposeStackDeploymentIntent X V ck iv input (Some fence) s = (Inr i, s')"
  shows "validateIntent X V i = Inr i"
    "withActiveJobLeaseTransaction ck (in_jobId i) (ef_lease fence)
       (persist_intent ck i (vt_encryptSecret V iv (vt_stringify V i))) s = (Inr (), s')"
    "identity_schema V (in_jobId i) (in_attemptCount i) (in_hostId i)"
proof -
  obtain j ids where j: "validateIntent X V (intent_of X ids j) = Inr i"
    and w: "withActiveJobLeaseTransaction ck (in_jobId i) (ef_lease fence)
       (persist_intent ck i (vt_encryptSecret V iv (vt_stringify V i))) s = (Inr (), s')"
    using assms
    by (auto simp: createAndPersistComposeStackDeploymentIntent_def and_then_Inr_iff
        split: option.splits sum.splits prod.splits if_splits)
  show "validateIntent X V i = Inr i" by (rule validate_intent_facts(2) [OF j])
  show "withActiveJobLeaseTransaction ck (in_jobId i) (ef_lease fence)
       (persist_intent ck i (vt_encryptSecret V iv (vt_stringify V i))) s = (Inr (), s')" by (rule w)
  have "input_schema V i = Some i"
    using validate_intent_facts(1) [OF validate_intent_facts(2) [OF j]] by (auto simp: intent_schema_def split: option.splits if_splits)
  then show "identity_schema V (in_jobId i) (in_attemptCount i) (in_hostId i)"
    by (auto simp: input_schema_def Let_def split: option.splits if_splits)
qed

text \<open>A second materialisation of the same intent.\<close>

lemma ciphertext_again:
  assumes "sourceEnvironmentCiphertext X V iv i existing = Inr e" and "vault_laws X V"
    and "cs_source_environment_encrypted st = e" and "cs_source_environment_binding st = is_environmentBinding (in_source i)"
  shows "\<exists>e'. sourceEnvironmentCiphertext X V iv' i (Some st) = Inr e'"
proof (cases "is_environment (in_source i)")
  case (Some env)
  show ?thesis
  proof (cases e)
    case (Some c)
    have "c = [] \<or> x_decryptSecret X c = Inr env"
      using assms(1,2) \<open>is_environment (in_source i) = Some env\<close> Some
      by (auto simp: sourceEnvironmentCiphertext_def vault_laws_def split: option.splits list.splits if_splits)
    then show ?thesis
      using \<open>is_environment (in_source i) = Some env\<close> Some assms(3,4)
      by (cases c) (auto simp: sourceEnvironmentCiphertext_def)
  qed (use Some assms(3) in \<open>simp add: sourceEnvironmentCiphertext_def\<close>)
qed (simp add: sourceEnvironmentCiphertext_def)

text \<open>The stack an intent was materialised as, whatever its version holds now.\<close>

definition bound_stack :: "intent \<Rightarrow> uuid \<Rightarrow> string option \<Rightarrow> stack_row \<Rightarrow> bool" where
  "bound_stack i stackId e st \<longleftrightarrow> cs_id st = stackId \<and> stack_place st = (in_hostId i, in_projectName i)
     \<and> cs_source_environment_encrypted st = e \<and> cs_source_environment_binding st = is_environmentBinding (in_source i)
     \<and> cs_current_version_id st = Some (in_candidateVersionId i)"

definition known_source :: "intent \<Rightarrow> db \<Rightarrow> bool" where
  "known_source i s = (case is_deploymentSourceId (in_source i) of None \<Rightarrow> True | Some d \<Rightarrow> d \<in> ds_id ` set (d_sources s))"

lemma finalize_again:
  assumes "validateIntent X V value = Inr i" and "vault_laws X V" and "history_wf s"
    and "sourceEnvironmentCiphertext X V iv i existing = Inr e" and "st \<in> set (d_stacks s)" and "bound_stack i stackId e st"
    and "v \<in> set (d_versions s)" and "sv_id v = in_candidateVersionId i" and "known_source i s"
  shows "case validateExistingVersion v stackId i of
     Inl x \<Rightarrow> finalizeComposeStackDeploymentIntent X V ck iv' value s = Inl x
   | Inr n \<Rightarrow> \<exists>s'. finalizeComposeStackDeploymentIntent X V ck iv' value s
     = Inr (\<lparr>fi_stackId = stackId, fi_versionId = in_candidateVersionId i, fi_versionNumber = n, fi_replayed = True,
             fi_githubCloneOperationJobId = in_githubCloneOperationJobId i\<rparr>, s') \<and> d_versions s' = d_versions s"
proof -
  have st: "cs_id st = stackId" "stack_place st = (in_hostId i, in_projectName i)"
      "cs_source_environment_encrypted st = e" "cs_source_environment_binding st = is_environmentBinding (in_source i)"
    using assms(6) by (simp_all add: bound_stack_def)
  have "filter (same_project i) (d_stacks s) = [st]"
    using places.filter_key [OF stack_places [OF assms(3)] assms(5)] by (simp add: same_project_place [abs_def] st(2))
  then have ex: "first_row (filter (same_project i) (d_stacks s)) = Some st" by simp
  obtain e' where e': "sourceEnvironmentCiphertext X V iv' i (Some st) = Inr e'"
    using ciphertext_again [OF assms(4,2) st(3,4)] by blast
  let ?s1 = "s\<lparr>d_stacks := update_where (same_project i) (deployed_stack ck i e') (d_stacks s)\<rparr>"
  have u: "upsert_stack ck i e' s = Inr (stackId, ?s1)"
    using ex st(1) assms(9) by (auto simp: upsert_stack_def known_source_def split: option.splits)
  have "filter (\<lambda>v. sv_id v = in_candidateVersionId i) (d_versions s) = [v]"
    using versions.filter_key [of "d_versions s" v] assms(3,7,8) by (simp add: history_wf_def)
  then have m: "materialise_version ck i stackId ?s1 = and_then (validateExistingVersion v stackId i) (\<lambda>n. Inr ((n, True), ?s1))"
    by (simp add: materialise_version_def)
  have "history_wf ?s1" using upsert_stack_facts [OF u assms(3)] by blast
  moreover have "deployed_stack ck i e' st \<in> set (d_stacks ?s1)"
    using st assms(5) by (auto simp: set_update_where same_project_place intro!: image_eqI [of _ _ st])
  ultimately have "filter (\<lambda>q. cs_id q = stackId) (d_stacks ?s1) = [deployed_stack ck i e' st]"
    using stacks.filter_key [of "d_stacks ?s1" "deployed_stack ck i e' st"] st(1) by (simp add: history_wf_def)
  then have p: "publish_version ck i stackId ?s1 = Inr (update_stack stackId (\<lambda>st. st\<lparr>cs_current_version_id := Some (in_candidateVersionId i),
       cs_status := ''deployed'', cs_updated_at := ck_now ck\<rparr>) ?s1)"
    by (simp add: publish_version_def)
  show ?thesis
    using st(1) by (cases "validateExistingVersion v stackId i")
      (simp_all add: finalizeComposeStackDeploymentIntent_def assms(1) ex e' u m p)
qed

lemma materialised_parts:
  assumes "materialised i stackId n e s"
  obtains st v where "st \<in> set (d_stacks s)" "bound_stack i stackId e st" "v \<in> set (d_versions s)"
    "validateExistingVersion v stackId i = Inr n" "sv_id v = in_candidateVersionId i"
  using assms validate_number that unfolding materialised_def bound_stack_def by blast

lemma known_sourceI:
  "is_deploymentSourceId (in_source i) = None \<or> the (is_deploymentSourceId (in_source i)) \<in> ds_id ` set (d_sources s)
   \<Longrightarrow> known_source i s"
  by (auto simp: known_source_def split: option.split)

section \<open>Properties\<close>

text \<open>
  A persisted deployment intent is read back exactly, by its own attempt only. When the intent of a deployment was
  persisted under the lease of its job, with a ciphertext within the limit and a JSON text that is read back, the job's
  result opens to the validated intent for the same job, attempt and host, and is refused for every other identity.
\<close>

theorem persisted_intent_bound_to_attempt:
  assumes "vault_laws X V" and "vt_parse V (vt_stringify V i) = Some i"
    and "between 1 MAX_ENCRYPTED_INTENT_BYTES (vt_encryptSecret V iv (vt_stringify V i))"
    and "createAndPersistComposeStackDeploymentIntent X V ck iv input (Some fence) s = (Inr i, s')"
  shows "\<exists>r\<in>set (d_jobs s'). j_id r = in_jobId i \<and> int (j_attempt_count r) = in_attemptCount i \<and> j_host_id r = Some (in_hostId i)
     \<and> parseComposeStackDeploymentIntent X V (j_result r) (in_jobId i) (in_attemptCount i) (in_hostId i) = Inr i
     \<and> (\<forall>jobId attemptCount hostId. (jobId, attemptCount, hostId) \<noteq> (in_jobId i, in_attemptCount i, in_hostId i) \<longrightarrow>
          parseComposeStackDeploymentIntent X V (j_result r) jobId attemptCount hostId = Inl invalidIntent)"
proof -
  note c = create_intent_facts [OF assms(4)]
  let ?enc = "vt_encryptSecret V iv (vt_stringify V i)"
  let ?P = "\<lambda>r. intent_target i r \<and> j_status r = Running"
  let ?f = "\<lambda>r. r\<lparr>j_result := Some (jsonb_merge (j_result r) [(COMPOSE_STACK_DEPLOYMENT_INTENT_KEY, JStr ?enc)]),
             j_updated_at := ck_now ck\<rparr>"
  have one: "length (filter ?P (d_jobs s)) = 1" and s': "d_jobs s' = update_where ?P ?f (d_jobs s)"
    using c(2) by (auto simp: withActiveJobLeaseTransaction_def withTransaction_Inr persist_intent_def Let_def split: if_splits)
  from one have "filter ?P (d_jobs s) \<noteq> []" by auto
  then obtain r where r: "r \<in> set (d_jobs s)" "?P r" unfolding filter_eq_Nil_iff by blast
  have m: "mergeable (j_result r)" using r(2) by (simp add: intent_target_def mergeable_def)
  note read = parse_stored_intent [OF assms(1,2) c(1) m assms(3)]
  have "?f r \<in> set (d_jobs s')" unfolding s' using r by (auto simp: set_update_where intro!: image_eqI [of _ _ r])
  moreover have "parseComposeStackDeploymentIntent X V (j_result (?f r)) (in_jobId i) (in_attemptCount i) (in_hostId i) = Inr i"
    using read [OF c(3)] by simp
  moreover have "parseComposeStackDeploymentIntent X V (j_result (?f r)) jobId attemptCount hostId = Inl invalidIntent"
    if "(jobId, attemptCount, hostId) \<noteq> (in_jobId i, in_attemptCount i, in_hostId i)" for jobId attemptCount hostId
  proof (cases "identity_schema V jobId attemptCount hostId")
    case True
    then show ?thesis using read [OF True] that by auto
  qed (simp add: parseComposeStackDeploymentIntent_def)
  ultimately show ?thesis using r(2) by (intro bexI [of _ "?f r"]) (auto simp: intent_target_def)
qed


section \<open>Finalised executions\<close>

lemma update_source_facts:
  assumes "update_source ck row name locator project i s = Inr (d, s')"
  shows "d_stacks s' = d_stacks s" "d_versions s' = d_versions s" "d_analyses s' = d_analyses s"
    "ds_id ` set (d_sources s) \<subseteq> ds_id ` set (d_sources s')"
proof -
  let ?f = "\<lambda>d. (deployed_source ck row name project d)\<lparr>ds_source_locator := locator, ds_branch := da_branch row,
                  ds_compose_path := da_compose_path row\<rparr>"
  have s': "s' = s\<lparr>d_sources := update_where (\<lambda>d. ds_id d = i) ?f (d_sources s)\<rparr>"
    using assms by (auto simp: update_source_def Let_def split: option.splits if_splits)
  have "map ds_id (d_sources s') = map ds_id (d_sources s)" by (simp add: s' map_update_where deployed_source_def)
  then have "ds_id ` set (d_sources s') = ds_id ` set (d_sources s)" by (metis list.set_map)
  then show "d_stacks s' = d_stacks s" "d_versions s' = d_versions s" "d_analyses s' = d_analyses s"
    "ds_id ` set (d_sources s) \<subseteq> ds_id ` set (d_sources s')" by (simp_all add: s')
qed

lemma insert_source_facts:
  assumes "insert_source ck row name locator project i s = Inr (d, s')"
  shows "d_stacks s' = d_stacks s" "d_versions s' = d_versions s" "d_analyses s' = d_analyses s"
    "ds_id ` set (d_sources s) \<subseteq> ds_id ` set (d_sources s')"
proof -
  have k: "map ds_id (update_where P (deployed_source ck row name project) xs) = map ds_id xs" for P xs
    by (simp add: map_update_where deployed_source_def)
  have "ds_id ` set (update_where P (deployed_source ck row name project) xs) = ds_id ` set xs" for P xs
    using k [of P xs] by (metis list.set_map)
  then show "d_stacks s' = d_stacks s" "d_versions s' = d_versions s" "d_analyses s' = d_analyses s"
    "ds_id ` set (d_sources s) \<subseteq> ds_id ` set (d_sources s')"
    using assms by (auto simp: insert_source_def Let_def split: option.splits if_splits)
qed

lemma upsert_source_facts:
  assumes "upsertDeploymentSourceInTransaction ck i row s = Inr (d, s')"
  shows "d_stacks s' = d_stacks s" "d_versions s' = d_versions s" "d_analyses s' = d_analyses s"
    "ds_id ` set (d_sources s) \<subseteq> ds_id ` set (d_sources s')"
  using assms
  by (auto simp: upsertDeploymentSourceInTransaction_def and_then_Inr_iff split: if_splits
      dest: update_source_facts insert_source_facts)

lemma finish_execution_not_replayed: "finish_execution X ck newId a stackId versionId s = Inr (fin, s') \<Longrightarrow> \<not> fe_replayed fin"
  by (auto simp: finish_execution_def Let_def and_then_Inr_iff)

lemma publish_analysis_frame:
  assumes "publish_analysis ck i sourceId s = Inr (a, s')"
  shows "d_stacks s' = d_stacks s" "d_versions s' = d_versions s" "d_sources s' = d_sources s" "d_jobs s' = d_jobs s"
  using assms by (auto simp: publish_analysis_def Let_def split: option.splits)

lemma matching_stack_row:
  assumes "matching_stack a stackId s = Inr (stack, versionId)"
  shows "first_row (filter (\<lambda>st. cs_id st = stackId) (d_stacks s)) = Some stack \<and> cs_current_version_id stack = Some versionId"
proof (cases "first_row (filter (\<lambda>st. cs_id st = stackId) (d_stacks s))")
  case None
  with assms show ?thesis by (simp add: matching_stack_def and_then_Inr_iff)
next
  case (Some st)
  with assms show ?thesis
    by (cases "cs_current_version_id st") (auto simp: matching_stack_def and_then_Inr_iff split: if_splits)
qed

text \<open>What a finalised execution did to the stacks and their versions.\<close>

lemma finalize_execution_cases:
  assumes "finalizeDeploymentExecutionInTransaction X ck newId analysisId stackId s = Inr (fin, s')" and "\<not> fe_replayed fin"
  obtains a st versionId env source where "a \<in> set (d_analyses s)" "da_id a = analysisId" "finalizable a"
    "first_row (filter (\<lambda>st. cs_id st = stackId) (d_stacks s)) = Some st" "cs_current_version_id st = Some versionId"
    "protectedDeploymentEnvironment X a = Inr env"
    "d_stacks s' = update_where (\<lambda>st. cs_id st = stackId) (\<lambda>st. st\<lparr>cs_deployment_source_id := Some source, cs_env := env,
                cs_status := ''deployed'', cs_updated_at := ck_now ck\<rparr>) (d_stacks s)"
    "d_versions s' = update_where (\<lambda>v. sv_id v = versionId) (\<lambda>v. v\<lparr>sv_env := env\<rparr>) (d_versions s)"
    "ds_id ` set (d_sources s) \<subseteq> ds_id ` set (d_sources s')"
proof -
  obtain a stack versionId where a: "first_row (filter (\<lambda>a. da_id a = analysisId) (d_analyses s)) = Some a"
    and m: "matching_stack a stackId s = Inr (stack, versionId)" and f: "finalizable a"
    and x: "finish_execution X ck newId a stackId versionId s = Inr (fin, s')"
    using assms
    by (auto simp: finalizeDeploymentExecutionInTransaction_def and_then_Inr_iff split: option.splits if_splits)
  have st: "first_row (filter (\<lambda>st. cs_id st = stackId) (d_stacks s)) = Some stack" "cs_current_version_id stack = Some versionId"
    using matching_stack_row [OF m] by simp_all
  obtain env source s1 where env: "protectedDeploymentEnvironment X a = Inr env"
    and u: "upsertDeploymentSourceInTransaction ck newId a s = Inr (source, s1)"
    and s': "d_stacks s' = d_stacks (update_stack stackId (\<lambda>st. st\<lparr>cs_deployment_source_id := Some (ds_id source), cs_env := env,
                cs_status := ''deployed'', cs_updated_at := ck_now ck\<rparr>) s1)"
      "d_versions s' = update_where (\<lambda>v. sv_id v = versionId) (\<lambda>v. v\<lparr>sv_env := env\<rparr>) (d_versions s1)"
      "d_sources s' = d_sources s1"
    using x by (auto simp: finish_execution_def and_then_Inr_iff Let_def publish_analysis_frame)
  have "a \<in> set (d_analyses s)" "da_id a = analysisId" using first_row_SomeD [OF a] by auto
  with that [of a stack versionId env "ds_id source"] f st env s' upsert_source_facts [OF u] show ?thesis by simp
qed

lemma current_ok_pairs:
  "current_ok vs st = (case cs_current_version_id st of None \<Rightarrow> True
     | Some i \<Rightarrow> (i, cs_id st) \<in> set (map (\<lambda>v. (sv_id v, sv_stack_id v)) vs))"
  by (auto simp: current_ok_def image_iff split: option.split)

lemma finalize_execution_wf:
  assumes "finalizeDeploymentExecutionInTransaction X ck newId analysisId stackId s = Inr (fin, s')" and "history_wf s"
  shows "history_wf s'"
proof (cases "fe_replayed fin")
  case True
  then have "s' = s"
    using assms(1)
    by (auto simp: finalizeDeploymentExecutionInTransaction_def and_then_Inr_iff
        split: option.splits if_splits dest: finish_execution_not_replayed)
  with assms(2) show ?thesis by simp
next
  case False
  then obtain versionId env source where s': "d_stacks s' = update_where (\<lambda>st. cs_id st = stackId) (\<lambda>st. st\<lparr>cs_deployment_source_id := Some source, cs_env := env,
                cs_status := ''deployed'', cs_updated_at := ck_now ck\<rparr>) (d_stacks s)"
    "d_versions s' = update_where (\<lambda>v. sv_id v = versionId) (\<lambda>v. v\<lparr>sv_env := env\<rparr>) (d_versions s)"
    by (rule finalize_execution_cases [OF assms(1)])
  let ?g = "\<lambda>st. st\<lparr>cs_deployment_source_id := Some source, cs_env := env, cs_status := ''deployed'', cs_updated_at := ck_now ck\<rparr>"
  have v: "map sv_id (d_versions s') = map sv_id (d_versions s)" "map version_slot (d_versions s') = map version_slot (d_versions s)"
    "map (\<lambda>v. (sv_id v, sv_stack_id v)) (d_versions s') = map (\<lambda>v. (sv_id v, sv_stack_id v)) (d_versions s)"
    by (simp_all add: s' map_update_where version_slot_def)
  have p: "list_all (\<lambda>v. 0 < sv_version_number v) (d_versions s')"
    using assms(2) by (auto simp: history_wf_def s' list_all_iff set_update_where)
  have c: "current_ok (d_versions s') (if cs_id st = stackId then ?g st else st)" if "current_ok (d_versions s) st" for st
    using that unfolding current_ok_pairs v(3) by (cases "cs_current_version_id st") auto
  have "\<forall>st\<in>set (d_stacks s). current_ok (d_versions s) st" using assms(2) by (simp add: history_wf_def list_all_iff)
  then have "list_all (current_ok (d_versions s')) (d_stacks s')"
    using c unfolding s'(1) list_all_iff set_update_where by blast
  moreover have "map cs_id (d_stacks s') = map cs_id (d_stacks s)" "map stack_place (d_stacks s') = map stack_place (d_stacks s)"
    by (simp_all add: s' map_update_where stack_place_def)
  ultimately show ?thesis
    using assms(2) v p by (simp add: history_wf_def stacks.keys_unique_def versions.keys_unique_def)
qed

text \<open>
  The version a finalised execution left holds the environment without its secrets, and is not the version of the
  intent any more where that environment differs from the one the intent holds.
\<close>

lemma replay_after_execution:
  assumes "vault_laws X V" and "history_wf s"
    and "finalizeComposeStackDeploymentIntent X V ck iv value s = Inr (fin, s1)"
    and "validateIntent X V value = Inr i"
    and "finalizeDeploymentExecutionInTransaction X ck' newId analysisId (fi_stackId fin) s1 = Inr (ex, s2)" and "\<not> fe_replayed ex"
    and "a \<in> set (d_analyses s1)" and "da_id a = analysisId" and "distinct (map da_id (d_analyses s1))"
    and "protectedDeploymentEnvironment X a = Inr env"
  shows "case validateExistingVersion ((intent_version_row ck i (fi_stackId fin) (fi_versionNumber fin))\<lparr>sv_env := env\<rparr>)
           (fi_stackId fin) i of
     Inl x \<Rightarrow> finalizeComposeStackDeploymentIntent X V ck'' iv' value s2 = Inl x
   | Inr n \<Rightarrow> \<exists>s3. finalizeComposeStackDeploymentIntent X V ck'' iv' value s2 = Inr (fin\<lparr>fi_replayed := True\<rparr>, s3)"
proof -
  obtain i' e where i': "validateIntent X V value = Inr i'"
    and e: "sourceEnvironmentCiphertext X V iv i' (first_row (filter (same_project i') (d_stacks s))) = Inr e"
    and m: "materialised i' (fi_stackId fin) (fi_versionNumber fin) e s1" and wf: "history_wf s1"
    and f: "fi_versionId fin = in_candidateVersionId i'" "d_sources s1 = d_sources s"
    and g: "fi_githubCloneOperationJobId fin = in_githubCloneOperationJobId i'"
    and k: "is_deploymentSourceId (in_source i') = None \<or> the (is_deploymentSourceId (in_source i')) \<in> ds_id ` set (d_sources s)"
    using finalize_intent_facts [OF assms(3,2)] by metis
  have i [simp]: "i' = i" using i' assms(4) by simp
  obtain st v where st: "st \<in> set (d_stacks s1)" "bound_stack i (fi_stackId fin) e st"
    and v: "v \<in> set (d_versions s1)" "validateExistingVersion v (fi_stackId fin) i = Inr (fi_versionNumber fin)"
      "sv_id v = in_candidateVersionId i"
    using materialised_parts [OF m] by auto
  obtain a' st' versionId env' source where a': "a' \<in> set (d_analyses s1)" "da_id a' = analysisId"
    and st': "first_row (filter (\<lambda>st. cs_id st = fi_stackId fin) (d_stacks s1)) = Some st'" "cs_current_version_id st' = Some versionId"
    and env': "protectedDeploymentEnvironment X a' = Inr env'"
    and s2: "d_stacks s2 = update_where (\<lambda>st. cs_id st = fi_stackId fin) (\<lambda>st. st\<lparr>cs_deployment_source_id := Some source, cs_env := env',
                cs_status := ''deployed'', cs_updated_at := ck_now ck'\<rparr>) (d_stacks s1)"
      "d_versions s2 = update_where (\<lambda>v. sv_id v = versionId) (\<lambda>v. v\<lparr>sv_env := env'\<rparr>) (d_versions s1)"
      "ds_id ` set (d_sources s1) \<subseteq> ds_id ` set (d_sources s2)"
    using finalize_execution_cases [OF assms(5,6)] by metis
  have "a' = a" using a' assms(7-9) by (metis distinct_map inj_onD)
  then have env [simp]: "env' = env" using env' assms(10) by simp
  have id: "cs_id st = fi_stackId fin" "cs_current_version_id st = Some (in_candidateVersionId i)"
    using st(2) by (simp_all add: bound_stack_def)
  then have "st' = st"
    using stacks.filter_key [of "d_stacks s1" st] st' wf st(1) by (simp add: history_wf_def)
  then have vid [simp]: "versionId = in_candidateVersionId i" using st'(2) id(2) by simp
  let ?st = "st\<lparr>cs_deployment_source_id := Some source, cs_env := env, cs_status := ''deployed'', cs_updated_at := ck_now ck'\<rparr>"
  let ?v = "v\<lparr>sv_env := env\<rparr>"
  have "?st \<in> set (d_stacks s2)" using st(1) id(1) by (auto simp: s2(1) set_update_where intro!: image_eqI [of _ _ st])
  moreover have "bound_stack i (fi_stackId fin) e ?st" using st(2) by (simp add: bound_stack_def stack_place_def)
  moreover have "?v \<in> set (d_versions s2)" using v by (auto simp: s2(2) set_update_where intro!: image_eqI [of _ _ v])
  moreover have "sv_id ?v = in_candidateVersionId i" using v by simp
  moreover have "known_source i s2" using k f(2) s2(3) by (intro known_sourceI) auto
  moreover have "history_wf s2" by (rule finalize_execution_wf [OF assms(5) wf])
  ultimately have again: "case validateExistingVersion ?v (fi_stackId fin) i of
     Inl x \<Rightarrow> finalizeComposeStackDeploymentIntent X V ck'' iv' value s2 = Inl x
   | Inr n \<Rightarrow> \<exists>s'. finalizeComposeStackDeploymentIntent X V ck'' iv' value s2
     = Inr (\<lparr>fi_stackId = fi_stackId fin, fi_versionId = in_candidateVersionId i, fi_versionNumber = n, fi_replayed = True,
             fi_githubCloneOperationJobId = in_githubCloneOperationJobId i\<rparr>, s') \<and> d_versions s' = d_versions s2"
    using finalize_again [OF assms(4,1) _ e [unfolded i]] by blast
  have same: "validateExistingVersion ?v (fi_stackId fin) i
     = validateExistingVersion ((intent_version_row ck i (fi_stackId fin) (fi_versionNumber fin))\<lparr>sv_env := env\<rparr>) (fi_stackId fin) i"
    using v(2) by (auto simp: validateExistingVersion_def intent_version_row_def split: if_splits)
  have "validateExistingVersion ?v (fi_stackId fin) i = Inr n \<Longrightarrow> n = fi_versionNumber fin" for n
    using v(2) by (auto simp: validateExistingVersion_def split: if_splits)
  then show ?thesis
    using again f(1) g unfolding same [symmetric] by (cases fin) (auto split: sum.splits)
qed

text \<open>
  The replay of a deployment whose execution was finalised succeeds exactly when the environment without its secrets
  is the environment the intent holds. Finalising the execution rewrites the environment of the version, so where the
  two differ the version no longer matches the intent, every later reconciliation is refused with an unknown outcome,
  and the transaction that was meant to be replayed never is.
\<close>

theorem replay_refused_after_redaction:
  assumes "vault_laws X V" and "history_wf s"
    and "finalizeComposeStackDeploymentIntent X V ck iv value s = Inr (fin, s1)" and "validateIntent X V value = Inr i"
    and "finalizeDeploymentExecutionInTransaction X ck' newId analysisId (fi_stackId fin) s1 = Inr (ex, s2)" and "\<not> fe_replayed ex"
    and "a \<in> set (d_analyses s1)" and "da_id a = analysisId" and "distinct (map da_id (d_analyses s1))"
    and "protectedDeploymentEnvironment X a = Inr env"
  shows "if env = in_env i
     then \<exists>s3. finalizeComposeStackDeploymentIntent X V ck'' iv' value s2 = Inr (fin\<lparr>fi_replayed := True\<rparr>, s3)
     else finalizeComposeStackDeploymentIntent X V ck'' iv' value s2 = Inl version_mismatch"
proof -
  obtain i' e where m: "validateIntent X V value = Inr i'" "materialised i' (fi_stackId fin) (fi_versionNumber fin) e s1"
    using finalize_intent_facts [OF assms(3,2)] by metis
  then obtain v where "validateExistingVersion v (fi_stackId fin) i = Inr (fi_versionNumber fin)"
    using assms(4) by (auto simp: materialised_def)
  then have "0 < fi_versionNumber fin \<and> fi_versionNumber fin \<le> MAX_SAFE_INTEGER"
    by (auto simp: validateExistingVersion_def split: if_splits)
  then have "validateExistingVersion ((intent_version_row ck i (fi_stackId fin) (fi_versionNumber fin))\<lparr>sv_env := env\<rparr>)
       (fi_stackId fin) i = (if env = in_env i then Inr (fi_versionNumber fin) else Inl version_mismatch)"
    by (auto simp: validateExistingVersion_def intent_version_row_def)
  then show ?thesis using replay_after_execution [OF assms, of ck'' iv'] by (auto split: if_splits)
qed

section \<open>Protected environments\<close>

lemma map_of_map_set: "map_of (map_set m k v) k' = (if k' = k then Some v else map_of m k')"
  by (induction m k v rule: map_set.induct) auto

lemma keys_map_set_present: "map_has m k \<Longrightarrow> map fst (map_set m k v) = map fst m"
  by (induction m k v rule: map_set.induct) (auto simp: map_has_def split: if_splits)

lemma blank_secrets_keys: "map fst (blank_secrets keys m) = map fst m"
  unfolding blank_secrets_def by (induction keys arbitrary: m) (simp_all add: keys_map_set_present)

lemma blank_secrets_lookup:
  "map_of (blank_secrets keys m) k = (if k \<in> set keys \<and> map_has m k then Some [] else map_of m k)"
proof (induction keys arbitrary: m)
  case (Cons key keys)
  let ?m = "if map_has m key then map_set m key [] else m"
  have "map_of (blank_secrets (key # keys) m) k = map_of (blank_secrets keys ?m) k" by (simp add: blank_secrets_def)
  also have "\<dots> = (if k \<in> set keys \<and> map_has ?m k then Some [] else map_of ?m k)" by (rule Cons.IH)
  also have "\<dots> = (if k \<in> set (key # keys) \<and> map_has m k then Some [] else map_of m k)"
    by (auto simp: map_has_def map_of_map_set)
  finally show ?case .
qed (simp add: blank_secrets_def)

lemma canonical_blank_secrets: "canonical m \<Longrightarrow> canonical (blank_secrets keys m)"
  by (simp add: canonical_def blank_secrets_keys)

lemma canonical_environment_read_back:
  "canonical m \<Longrightarrow> parseDeploymentEnvironment (serializeDeploymentEnvironment m) = Some (Inr m)"
  using parse_loop_serialized [of m "[]"] fold_map_set [of "[]" m] by (simp add: canonical_def parseDeploymentEnvironment_def)

lemma environment_values_canonical: "environment_values plain = Inr m \<Longrightarrow> canonical m"
  using parse_loop_canonical [of "[]" plain m]
  by (auto simp: environment_values_def parseDeploymentEnvironment_def canonical_def split: option.splits)

text \<open>
  C38: the environment a finalised deployment keeps holds no secret. It is a text that is read back as an environment with
  the same variables in the same order as the decrypted one; the value of every variable the analysis declares secret, or
  whose name is sensitive, is empty, and every other value is kept.
\<close>

theorem protected_environment_holds_no_secret:
  assumes "da_env_encrypted row = Some encrypted" and "encrypted \<noteq> []" and "x_decryptSecret X encrypted = Inr plain"
    and "environment_values plain = Inr entries" and "protectedDeploymentEnvironment X row = Inr protected"
  shows "\<exists>m. parseDeploymentEnvironment protected = Some (Inr m) \<and> map fst m = map fst entries
    \<and> (\<forall>k\<in>set (map fst entries). map_get m k =
         (if k \<in> set (declared_secrets (da_variables row)) \<or> SENSITIVE_ENVIRONMENT_NAME k then [] else map_get entries k))"
proof -
  let ?keys = "declared_secrets (da_variables row) @ filter SENSITIVE_ENVIRONMENT_NAME (map fst entries)"
  let ?m = "blank_secrets ?keys entries"
  obtain c cs where "encrypted = c # cs" using assms(2) by (cases encrypted) auto
  then have "protected = serializeDeploymentEnvironment ?m"
    using assms(1,3,4,5) by (simp add: protectedDeploymentEnvironment_def)
  moreover have "canonical ?m" by (intro canonical_blank_secrets environment_values_canonical) (rule assms(4))
  ultimately have p: "parseDeploymentEnvironment protected = Some (Inr ?m)" using canonical_environment_read_back by simp
  have "map_get ?m k = (if k \<in> set (declared_secrets (da_variables row)) \<or> SENSITIVE_ENVIRONMENT_NAME k then [] else map_get entries k)"
    if "k \<in> set (map fst entries)" for k
  proof -
    from that obtain v where "map_of entries k = Some v" by (cases "map_of entries k") (auto simp: map_of_eq_None_iff)
    with that show ?thesis by (auto simp: map_get_def blank_secrets_lookup map_has_def)
  qed
  with p blank_secrets_keys [of ?keys entries] show ?thesis by blast
qed

section \<open>Concrete deployments\<close>

definition sample_vault :: vault where
  "sample_vault = \<lparr>vt_encryptSecret = (\<lambda>iv x. x), vt_uuidv5 = (\<lambda>name i. name @ i), vt_isUuid = (\<lambda>_. True),
     vt_stringify = (\<lambda>_. ''intent''), vt_parse = (\<lambda>_. None)\<rparr>"

definition sample_intent_input :: intent_input where
  "sample_intent_input = \<lparr>in_jobId = ''job-1'', in_attemptCount = 1, in_hostId = ''h1'', in_projectName = ''app'', in_name = ''App'',
     in_composeYaml = ''services:'', in_env = ''TOKEN=abc'',
     in_source = \<lparr>is_type = ''host_files'', is_repositoryUrl = None, is_branch = None, is_workingDir = Some ''/srv/app'',
       is_composePath = Some ''/srv/app/compose.yml'', is_currentCommitSha = None, is_latestCommitSha = None,
       is_environment = None, is_deploymentSourceId = None, is_environmentBinding = None\<rparr>,
     in_version = \<lparr>iv_source = ''host_files'', iv_note = None, iv_createdBy = None\<rparr>, in_githubCloneOperationJobId = None\<rparr>"

definition sample_intent :: intent where
  "sample_intent = intent_of sample_externs (''compose-stack:1job-1'', ''compose-stack-version:1job-1'') sample_intent_input"

definition intent_vault :: vault where
  "intent_vault = sample_vault\<lparr>vt_parse := (\<lambda>_. Some sample_intent)\<rparr>"

definition sample_persist :: "intent result \<times> db" where
  "sample_persist = createAndPersistComposeStackDeploymentIntent sample_externs intent_vault (clock_of 1) [] sample_intent_input
     (Some (sample_fence 0)) (jobs_db [leased_job ''compose.deployPath''])"

definition deploying_analysis :: analysis_row where
  "deploying_analysis = \<lparr>da_id = ''analysis-1'', da_host_id = ''h1'', da_source_id = None, da_source_type = ''compose_upload'',
     da_source_locator = Some ''upload'', da_status = ''deploying'', da_display_name = Some ''App'', da_branch = None,
     da_compose_path = Some ''compose.yml'', da_working_dir = Some ''/srv/app'', da_project_name = Some ''app'',
     da_compose_yaml = Some ''services:'', da_env_encrypted = Some ''TOKEN=abc'', da_credential_username = None,
     da_credential_secret_encrypted = None, da_variables = JArr [], da_deployed_at = None, da_expires_at = 0,
     da_error = None, da_updated_at = 0\<rparr>"

definition deploying_db :: db where
  "deploying_db = empty_db\<lparr>d_analyses := [deploying_analysis]\<rparr>"

definition sample_materialised :: "(finalized_intent \<times> db) result" where
  "sample_materialised = finalizeComposeStackDeploymentIntent sample_externs sample_vault (clock_of 1) [] sample_intent deploying_db"

definition materialised_db :: db where
  "materialised_db = (case sample_materialised of Inl _ \<Rightarrow> empty_db | Inr (_, s) \<Rightarrow> s)"

definition sample_finalised :: finalized_intent where
  "sample_finalised = \<lparr>fi_stackId = ''compose-stack:1job-1'', fi_versionId = ''compose-stack-version:1job-1'', fi_versionNumber = 1,
     fi_replayed = False, fi_githubCloneOperationJobId = None\<rparr>"

definition sample_execution :: "(finalized_execution \<times> db) result" where
  "sample_execution = finalizeDeploymentExecutionInTransaction sample_externs (clock_of 2) ''source-1'' ''analysis-1''
     ''compose-stack:1job-1'' materialised_db"

definition executed_db :: db where
  "executed_db = (case sample_execution of Inl _ \<Rightarrow> empty_db | Inr (_, s) \<Rightarrow> s)"

lemma sample_vault_laws: "vault_laws sample_externs sample_vault" "vault_laws sample_externs intent_vault"
  by (simp_all add: vault_laws_def sample_externs_def sample_vault_def intent_vault_def)

lemma sample_finalisation:
  "sample_materialised = Inr (sample_finalised, materialised_db)"
  "validateIntent sample_externs sample_vault sample_intent = Inr sample_intent"
  "\<exists>ex. sample_execution = Inr (ex, executed_db) \<and> \<not> fe_replayed ex"
  "d_analyses materialised_db = [deploying_analysis]" "history_wf deploying_db"
proof -
  have "case sample_materialised of Inl _ \<Rightarrow> False | Inr p \<Rightarrow> fst p = sample_finalised" by code_simp
  then obtain s where m: "sample_materialised = Inr (sample_finalised, s)" by (auto split: sum.splits)
  show "sample_materialised = Inr (sample_finalised, materialised_db)"
    unfolding materialised_db_def by (simp only: m sum.case prod.case)
  show "validateIntent sample_externs sample_vault sample_intent = Inr sample_intent" by code_simp
  have "case sample_execution of Inl _ \<Rightarrow> False | Inr p \<Rightarrow> \<not> fe_replayed (fst p)" by code_simp
  then obtain ex s where x: "sample_execution = Inr (ex, s)" "\<not> fe_replayed ex" by (auto split: sum.splits)
  have "executed_db = s" unfolding executed_db_def by (simp only: x(1) sum.case prod.case)
  with x show "\<exists>ex. sample_execution = Inr (ex, executed_db) \<and> \<not> fe_replayed ex" by blast
  show "d_analyses materialised_db = [deploying_analysis]" by code_simp
  show "history_wf deploying_db"
    by (simp add: history_wf_def deploying_db_def empty_db_def stacks.keys_unique_def versions.keys_unique_def)
qed


theorem replay_refused_after_redaction_witness:
  "finalizeComposeStackDeploymentIntent sample_externs sample_vault (clock_of 7) ''iv'' sample_intent executed_db = Inl version_mismatch"
proof -
  obtain ex where ex: "sample_execution = Inr (ex, executed_db)" "\<not> fe_replayed ex" using sample_finalisation(3) by blast
  have x: "finalizeDeploymentExecutionInTransaction sample_externs (clock_of 2) ''source-1'' ''analysis-1''
      (fi_stackId sample_finalised) materialised_db = Inr (ex, executed_db)"
    using ex(1) by (simp add: sample_execution_def sample_finalised_def)
  have a: "deploying_analysis \<in> set (d_analyses materialised_db)" "da_id deploying_analysis = ''analysis-1''"
    "distinct (map da_id (d_analyses materialised_db))"
    by (simp_all add: sample_finalisation(4) deploying_analysis_def)
  have p: "protectedDeploymentEnvironment sample_externs deploying_analysis = Inr (''TOKEN='' @ [single_quote, single_quote])" by code_simp
  have d: "''TOKEN='' @ [single_quote, single_quote] \<noteq> in_env sample_intent" by code_simp
  from replay_refused_after_redaction [OF sample_vault_laws(1) sample_finalisation(5)
      trans [OF sample_materialised_def [symmetric] sample_finalisation(1)] sample_finalisation(2) x ex(2) a p,
      of "clock_of 7" "''iv''"] d
  show ?thesis by (simp only: if_False)
qed

theorem persisted_intent_bound_to_attempt_witness:
  "\<exists>r\<in>set (d_jobs (snd sample_persist)). j_id r = ''job-1''
     \<and> parseComposeStackDeploymentIntent sample_externs intent_vault (j_result r) ''job-1'' 1 ''h1'' = Inr sample_intent
     \<and> parseComposeStackDeploymentIntent sample_externs intent_vault (j_result r) ''job-1'' 2 ''h1'' = Inl invalidIntent"
proof -
  have "fst sample_persist = Inr sample_intent" by code_simp
  then have c: "sample_persist = (Inr sample_intent, snd sample_persist)" by (simp add: prod_eq_iff)
  have p: "vt_parse intent_vault (vt_stringify intent_vault sample_intent) = Some sample_intent" by (simp add: intent_vault_def)
  have b: "between 1 MAX_ENCRYPTED_INTENT_BYTES (vt_encryptSecret intent_vault [] (vt_stringify intent_vault sample_intent))"
    by (simp add: between_def MAX_ENCRYPTED_INTENT_BYTES_def intent_vault_def sample_vault_def)
  have i: "in_jobId sample_intent = ''job-1''" "in_attemptCount sample_intent = 1" "in_hostId sample_intent = ''h1''" by code_simp+
  obtain r where r: "r \<in> set (d_jobs (snd sample_persist))" "j_id r = ''job-1''"
    "parseComposeStackDeploymentIntent sample_externs intent_vault (j_result r) ''job-1'' 1 ''h1'' = Inr sample_intent"
    and other: "\<And>jobId attemptCount hostId. (jobId, attemptCount, hostId) \<noteq> (''job-1'', 1, ''h1'') \<Longrightarrow>
      parseComposeStackDeploymentIntent sample_externs intent_vault (j_result r) jobId attemptCount hostId = Inl invalidIntent"
    using persisted_intent_bound_to_attempt [OF sample_vault_laws(2) p b trans [OF sample_persist_def [symmetric] c], unfolded i]
    by blast
  have "parseComposeStackDeploymentIntent sample_externs intent_vault (j_result r) ''job-1'' 2 ''h1'' = Inl invalidIntent"
    by (rule other) simp
  with r show ?thesis by blast
qed

theorem protected_environment_holds_no_secret_witness:
  "\<exists>m. parseDeploymentEnvironment (''TOKEN='' @ [single_quote, single_quote]) = Some (Inr m) \<and> map fst m = [''TOKEN''] \<and> map_get m ''TOKEN'' = []"
proof -
  have e: "da_env_encrypted deploying_analysis = Some ''TOKEN=abc''" "x_decryptSecret sample_externs ''TOKEN=abc'' = Inr ''TOKEN=abc''"
    "environment_values ''TOKEN=abc'' = Inr [(''TOKEN'', ''abc'')]"
    "protectedDeploymentEnvironment sample_externs deploying_analysis = Inr (''TOKEN='' @ [single_quote, single_quote])"
    "SENSITIVE_ENVIRONMENT_NAME ''TOKEN''"
    by code_simp+
  from protected_environment_holds_no_secret [OF e(1) _ e(2-4)] e(5) show ?thesis by auto
qed

end
