(* ===== verification/Audit_Log.thy ===== *)
theory Audit_Log
  imports Job_Queue
begin

text \<open>
  The audit log (\<^verbatim>\<open>services/audit.ts\<close>): which fields of an event count as secrets, the redaction of the details
  before they are stored and again when they are read, and the page an operator sees.
\<close>

section \<open>Secrets in details\<close>

definition secretDetailKeys :: "string list" where
  "secretDetailKeys =
     [''password'', ''credentialpassword'', ''dbpassword'', ''passphrase'', ''secret'', ''token'', ''apikey'', ''accesstoken'',
      ''refreshtoken'', ''sessiontoken'', ''clientsecret'', ''privatekey'', ''secretkey'', ''sshprivatekey'', ''sshpassword'',
      ''sshkeypassphrase'', ''agenttoken'', ''githubtoken'', ''credentialsecret'', ''credentials'', ''rcloneconfig'',
      ''rclonecredentials'', ''genericconfig'', ''genericcredentials'', ''registrypassword'', ''smtppassword'', ''webhooksecret'',
      ''accesskeyid'', ''secretaccesskey'', ''appsecret'', ''appsecretkey'']"

definition normalized_key :: "string \<Rightarrow> string" where
  "normalized_key key = to_lower (filter (\<lambda>c. c \<noteq> CHR ''_'' \<and> c \<noteq> CHR ''-'') key)"

definition is_boolean :: "json \<Rightarrow> bool" where
  "is_boolean v = (case v of JBool _ \<Rightarrow> True | _ \<Rightarrow> False)"

definition encryptedSuffix :: string where
  "encryptedSuffix = ''encrypted''"

definition isSecretDetailKey :: "string \<Rightarrow> json \<Rightarrow> bool" where
  "isSecretDetailKey key v =
     (let normalized = normalized_key key in
      if is_boolean v \<and> (normalized = ''secret'' \<or> starts_with ''has'' normalized) then False
      else if normalized \<in> set secretDetailKeys then True
      else if ends_with encryptedSuffix normalized
              \<and> take (length normalized - length encryptedSuffix) normalized \<in> set secretDetailKeys then True
      else if \<not> is_boolean v
              \<and> (includes_text ''secret'' normalized \<or> includes_text ''apikey'' normalized
                 \<or> ends_with ''credential'' normalized \<or> ends_with ''credentials'' normalized) then True
      else list_ex (\<lambda>suffix. ends_with suffix normalized) [''password'', ''passphrase'', ''token'', ''privatekey''])"

definition redacted :: json where
  "redacted = JStr ''[redacted]''"

fun redactAuditSecretFields :: "json \<Rightarrow> json" where
  "redactAuditSecretFields (JArr vs) = JArr (map redactAuditSecretFields vs)"
| "redactAuditSecretFields (JObj fs) =
     JObj (map (\<lambda>(key, item). (key, if isSecretDetailKey key item then redacted else redactAuditSecretFields item)) fs)"
| "redactAuditSecretFields v = v"

definition sanitizeAuditDetails :: "externs \<Rightarrow> json option \<Rightarrow> json" where
  "sanitizeAuditDetails X v =
     (case v of Some (JObj fs) \<Rightarrow> redactAuditSecretFields (x_sanitizeFields X (JObj fs)) | _ \<Rightarrow> JObj [])"

section \<open>Events\<close>

record audit_event =
  au_id :: uuid
  au_userId :: "uuid option"
  au_hostId :: "uuid option"
  au_action :: string
  au_targetKind :: "string option"
  au_targetId :: "string option"
  au_details :: json
  au_createdAt :: timestamp

definition mapAudit :: "externs \<Rightarrow> audit_row \<Rightarrow> audit_event" where
  "mapAudit X row =
     \<lparr>au_id = ae_id row, au_userId = ae_user_id row, au_hostId = ae_host_id row, au_action = ae_action row,
      au_targetKind = ae_target_kind row, au_targetId = ae_target_id row,
      au_details = sanitizeAuditDetails X (Some (ae_details row)), au_createdAt = ae_created_at row\<rparr>"

record audit_input =
  ai_userId :: "uuid option"
  ai_hostId :: "uuid option"
  ai_action :: string
  ai_targetKind :: "string option"
  ai_targetId :: "string option"
  ai_details :: "json option"
  ai_ipAddress :: "string option"
  ai_userAgent :: "string option"

definition audit_entry :: "externs \<Rightarrow> clock \<Rightarrow> uuid \<Rightarrow> audit_input \<Rightarrow> audit_row" where
  "audit_entry X ck newId input =
     \<lparr>ae_id = newId, ae_user_id = ai_userId input, ae_host_id = ai_hostId input, ae_action = ai_action input,
      ae_target_kind = ai_targetKind input, ae_target_id = ai_targetId input,
      ae_details = sanitizeAuditDetails X (ai_details input), ae_ip_address = ai_ipAddress input,
      ae_user_agent = ai_userAgent input, ae_created_at = ck_now ck\<rparr>"

definition writeAuditEvent :: "externs \<Rightarrow> clock \<Rightarrow> uuid \<Rightarrow> audit_input \<Rightarrow> db \<Rightarrow> (unit \<times> db) result" where
  "writeAuditEvent X ck newId input s =
     (if newId \<in> ae_id ` set (d_audit s)
      then Inl (CodedError ''23505'' ''duplicate key value violates unique constraint'')
      else Inr ((), s\<lparr>d_audit := d_audit s @ [audit_entry X ck newId input]\<rparr>))"

text \<open>The page and the total are read by two statements; here both read one state.\<close>

definition listAuditEvents :: "externs \<Rightarrow> nat \<Rightarrow> nat \<Rightarrow> db \<Rightarrow> audit_event list \<times> nat" where
  "listAuditEvents X limit offset s =
     (map (mapAudit X) (take limit (drop offset (rev (sort_key ae_created_at (d_audit s))))), length (d_audit s))"

section \<open>What redaction leaves\<close>

text \<open>The fields of a value at every depth.\<close>

fun fields_of :: "json \<Rightarrow> (string \<times> json) list" where
  "fields_of (JArr vs) = concat (map fields_of vs)"
| "fields_of (JObj fs) = concat (map (\<lambda>(key, item). (key, item) # fields_of item) fs)"
| "fields_of v = []"

definition exposes_secret :: "json \<Rightarrow> bool" where
  "exposes_secret v \<longleftrightarrow> list_ex (\<lambda>(key, item). isSecretDetailKey key item \<and> item \<noteq> redacted) (fields_of v)"

lemma is_boolean_redact [simp]: "is_boolean (redactAuditSecretFields v) = is_boolean v"
  by (cases v) (simp_all add: is_boolean_def)

lemma isSecretDetailKey_cong: "is_boolean v = is_boolean w \<Longrightarrow> isSecretDetailKey key v = isSecretDetailKey key w"
  by (simp add: isSecretDetailKey_def)

lemma isSecretDetailKey_redact [simp]:
  "isSecretDetailKey key (redactAuditSecretFields v) = isSecretDetailKey key v"
  by (rule isSecretDetailKey_cong) simp

lemma exposes_redacted [simp]: "\<not> exposes_secret redacted"
  by (simp add: exposes_secret_def redacted_def)

lemma exposes_arr: "exposes_secret (JArr vs) \<longleftrightarrow> list_ex exposes_secret vs"
  by (induction vs) (simp_all add: exposes_secret_def)

lemma exposes_obj:
  "exposes_secret (JObj fs)
   \<longleftrightarrow> list_ex (\<lambda>(key, item). (isSecretDetailKey key item \<and> item \<noteq> redacted) \<or> exposes_secret item) fs"
  by (induction fs) (auto simp: exposes_secret_def)

lemma redact_exposes_nothing: "\<not> exposes_secret (redactAuditSecretFields v)"
proof (induction v rule: redactAuditSecretFields.induct)
  case (1 vs)
  then show ?case by (auto simp: exposes_arr list_ex_iff)
next
  case (2 fs)
  then show ?case by (fastforce simp: exposes_obj list_ex_iff split: if_splits)
qed (simp_all add: exposes_secret_def)

lemma redact_harmless: "\<not> exposes_secret v \<Longrightarrow> redactAuditSecretFields v = v"
proof (induction v rule: redactAuditSecretFields.induct)
  case (1 vs)
  then show ?case by (auto simp: exposes_arr list_ex_iff map_idI)
next
  case (2 fs)
  have "map (\<lambda>(key, item). (key, if isSecretDetailKey key item then redacted else redactAuditSecretFields item)) fs = fs"
  proof (rule map_idI)
    fix f assume f: "f \<in> set fs"
    obtain key item where e: "f = (key, item)" by force
    from 2(2) f e have "\<not> (isSecretDetailKey key item \<and> item \<noteq> redacted)" "\<not> exposes_secret item"
      by (auto simp: exposes_obj list_ex_iff)
    with 2(1) [OF f e [symmetric]] show "(case f of (key, item) \<Rightarrow>
        (key, if isSecretDetailKey key item then redacted else redactAuditSecretFields item)) = f"
      unfolding e by auto
  qed
  then show ?case by simp
qed simp_all

lemma sanitized_exposes_nothing: "\<not> exposes_secret (sanitizeAuditDetails X v)"
  by (simp add: sanitizeAuditDetails_def redact_exposes_nothing exposes_obj split: option.split json.split)

section \<open>Properties\<close>

text \<open>
  C33: the audit log holds no secret. The details an event is stored with, and those of every event an operator lists, have
  no field at any depth whose name marks it as a secret and whose value is not replaced; details without such a field are
  stored as they are, and no event that was there is changed.
\<close>

theorem audit_log_holds_no_secret:
  assumes "writeAuditEvent X ck newId input s = Inr ((), s')"
  shows "\<exists>e. d_audit s' = d_audit s @ [e] \<and> \<not> exposes_secret (ae_details e)
    \<and> (\<forall>fs. ai_details input = Some (JObj fs) \<and> \<not> exposes_secret (x_sanitizeFields X (JObj fs))
          \<longrightarrow> ae_details e = x_sanitizeFields X (JObj fs))
    \<and> (\<forall>event\<in>set (fst (listAuditEvents X limit offset s')). \<not> exposes_secret (au_details event))"
proof (intro exI [of _ "audit_entry X ck newId input"] conjI allI impI ballI)
  show "d_audit s' = d_audit s @ [audit_entry X ck newId input]"
    using assms by (auto simp: writeAuditEvent_def split: if_splits)
  show "\<not> exposes_secret (ae_details (audit_entry X ck newId input))"
    by (simp add: audit_entry_def sanitized_exposes_nothing)
next
  fix fs assume "ai_details input = Some (JObj fs) \<and> \<not> exposes_secret (x_sanitizeFields X (JObj fs))"
  then show "ae_details (audit_entry X ck newId input) = x_sanitizeFields X (JObj fs)"
    by (simp add: audit_entry_def sanitizeAuditDetails_def redact_harmless)
next
  fix event assume "event \<in> set (fst (listAuditEvents X limit offset s'))"
  then show "\<not> exposes_secret (au_details event)"
    by (auto simp: listAuditEvents_def mapAudit_def sanitized_exposes_nothing dest!: in_set_takeD in_set_dropD)
qed

section \<open>Witnesses\<close>

definition sample_event :: audit_input where
  "sample_event = \<lparr>ai_userId = None, ai_hostId = Some ''h1'', ai_action = ''host.update'', ai_targetKind = Some ''host'',
     ai_targetId = Some ''h1'', ai_details = Some (JObj [(''name'', JStr ''db''),
       (''connection'', JArr [JObj [(''ssh_password'', JStr ''hunter2''), (''hasPassword'', JBool True)]])]),
     ai_ipAddress = None, ai_userAgent = None\<rparr>"

definition audited_db :: db where
  "audited_db = empty_db\<lparr>d_audit := [audit_entry sample_externs (clock_of 1) ''event-1'' sample_event]\<rparr>"

theorem audit_log_holds_no_secret_witness:
  "ae_details (hd (d_audit audited_db)) = JObj [(''name'', JStr ''db''),
     (''connection'', JArr [JObj [(''ssh_password'', redacted), (''hasPassword'', JBool True)]])]
   \<and> \<not> exposes_secret (ae_details (hd (d_audit audited_db)))
   \<and> \<not> list_ex (\<lambda>event. exposes_secret (au_details event)) (fst (listAuditEvents sample_externs 10 0 audited_db))"
proof -
  have w: "writeAuditEvent sample_externs (clock_of 1) ''event-1'' sample_event empty_db = Inr ((), audited_db)"
    by (simp add: writeAuditEvent_def audited_db_def empty_db_def)
  have "ae_details (hd (d_audit audited_db)) = JObj [(''name'', JStr ''db''),
     (''connection'', JArr [JObj [(''ssh_password'', redacted), (''hasPassword'', JBool True)]])]" by code_simp
  with audit_log_holds_no_secret [OF w, of 10 0] show ?thesis by (auto simp: empty_db_def list_ex_iff)
qed

end
