(* ===== verification/Registry.thy ===== *)
theory Registry
  imports Prelude
begin

text \<open>
  Registry names (\<^verbatim>\<open>packages/shared/src/registry.ts\<close>): the validation of a host name, the canonical
  \<^verbatim>\<open>hostname[:port]\<close> authority, the origin of a saved registry and the aliases of Docker Hub. The URL parser of the
  platform is a parameter.
\<close>

section \<open>Host names\<close>

definition registryDomainLabel :: "string \<Rightarrow> bool" where
  "registryDomainLabel s \<longleftrightarrow> s \<noteq> [] \<and> length s \<le> 63 \<and> is_alnum (hd s) \<and> is_alnum (last s)
     \<and> list_all (\<lambda>c. is_alnum c \<or> c = CHR ''-'') s"

definition dockerHubAliases :: "string list" where
  "dockerHubAliases = [''docker.io'', ''index.docker.io'', ''registry-1.docker.io'']"

definition isCanonicalIpv4 :: "string \<Rightarrow> bool" where
  "isCanonicalIpv4 v \<longleftrightarrow> (let octets = split_on (CHR ''.'') v in
     length octets = 4 \<and> list_all (\<lambda>octet. octet \<noteq> [] \<and> length octet \<le> 3 \<and> list_all is_digit octet
       \<and> (octet = ''0'' \<or> hd octet \<noteq> CHR ''0'') \<and> digits_value octet \<le> 255) octets)"

definition ip_text :: "string \<Rightarrow> bool" where
  "ip_text v \<longleftrightarrow> v \<noteq> [] \<and> list_all (\<lambda>c. is_digit c \<or> c = CHR ''.'') v"

definition ipv6_char :: "char \<Rightarrow> bool" where
  "ipv6_char c = (let n = (of_char c :: nat) in
     (48 \<le> n \<and> n \<le> 57) \<or> (97 \<le> n \<and> n \<le> 102) \<or> (65 \<le> n \<and> n \<le> 70) \<or> c = CHR '':'' \<or> c = CHR ''.'')"

definition bracketed_ipv6 :: "string \<Rightarrow> bool" where
  "bracketed_ipv6 v \<longleftrightarrow> length v \<ge> 3 \<and> hd v = CHR ''['' \<and> last v = CHR '']''
     \<and> list_all ipv6_char (butlast (tl v)) \<and> CHR '':'' \<in> set v"

definition validateRegistryHostname :: "string \<Rightarrow> unit result" where
  "validateRegistryHostname v =
     (if starts_with ''['' v \<or> ends_with '']'' v
      then if bracketed_ipv6 v then Inr () else Inl (PlainError ''Registry hostname must be a valid bracketed IPv6 address'')
      else if ip_text v
      then if isCanonicalIpv4 v then Inr () else Inl (PlainError ''Registry hostname must be a valid IPv4 address'')
      else if length v > 253 \<or> ends_with ''.'' v
      then Inl (PlainError ''Registry hostname is too long or has a trailing dot'')
      else if list_all registryDomainLabel (split_on (CHR ''.'') v) then Inr ()
      else Inl (PlainError ''Registry hostname contains an invalid DNS label''))"

section \<open>Authorities\<close>

text \<open>The parts of a URL the code reads; the parser gives nothing where \<^verbatim>\<open>new URL\<close> throws.\<close>

record parsed_url =
  pu_protocol :: string
  pu_username :: string
  pu_password :: string
  pu_hostname :: string
  pu_pathname :: string
  pu_search :: string
  pu_hash :: string
  pu_origin :: string

type_synonym url_parser = "string \<Rightarrow> parsed_url option"

definition forbidden_char :: "char \<Rightarrow> bool" where
  "forbidden_char c = ((of_char c :: nat) \<le> 32 \<or> (of_char c :: nat) = 127
     \<or> c \<in> set [CHR 0x5C, CHR ''/'', CHR ''?'', CHR ''#'', CHR ''@''])"

text \<open>The host name before an optional numeric port; \<open>None\<close> where the regular expression does not match.\<close>

definition port_suffix :: "string \<Rightarrow> string option option" where
  "port_suffix rest =
     (case rest of
        [] \<Rightarrow> Some None
      | c # digits \<Rightarrow> if c = CHR '':'' \<and> digits \<noteq> [] \<and> list_all is_digit digits then Some (Some digits) else None)"

definition split_authority :: "string \<Rightarrow> (string \<times> string option) result" where
  "split_authority v =
     (if starts_with ''['' v
      then let inner = takeWhile (\<lambda>c. c \<noteq> CHR '']'') (tl v); rest = dropWhile (\<lambda>c. c \<noteq> CHR '']'') (tl v) in
        if inner = [] \<or> rest = [] then Inl (PlainError ''Registry IPv6 hosts must be bracketed and may include one numeric port'')
        else case port_suffix (tl rest) of
          None \<Rightarrow> Inl (PlainError ''Registry IPv6 hosts must be bracketed and may include one numeric port'')
        | Some port \<Rightarrow> Inr (''['' @ inner @ '']'', port)
      else let host = takeWhile (\<lambda>c. c \<noteq> CHR '':'') v in
        if host = [] then Inl (PlainError ''Registry host may include one numeric port'')
        else case port_suffix (dropWhile (\<lambda>c. c \<noteq> CHR '':'') v) of
          None \<Rightarrow> Inl (PlainError ''Registry host may include one numeric port'')
        | Some port \<Rightarrow> Inr (host, port))"

definition valid_port :: "string \<Rightarrow> bool" where
  "valid_port port \<longleftrightarrow> port \<noteq> [] \<and> length port \<le> 5 \<and> hd port \<noteq> CHR ''0'' \<and> list_all is_digit port \<and> digits_value port \<le> 65535"

definition with_port :: "string \<Rightarrow> string option \<Rightarrow> string" where
  "with_port host port = (case port of None \<Rightarrow> host | Some p \<Rightarrow> host @ '':'' @ p)"

definition bare_url :: "parsed_url \<Rightarrow> bool" where
  "bare_url u \<longleftrightarrow> pu_username u = [] \<and> pu_password u = [] \<and> pu_pathname u = ''/'' \<and> pu_search u = [] \<and> pu_hash u = []"

definition normalizeRegistryAuthority :: "url_parser \<Rightarrow> string \<Rightarrow> string result" where
  "normalizeRegistryAuthority url input =
     (let v = trim input in
      if v = [] \<or> length v > 320 then Inl (PlainError ''Registry host is missing or too long'')
      else if list_ex forbidden_char v \<or> includes_text ''://'' v
      then Inl (PlainError ''Registry host must contain only a hostname or IP address and an optional port'')
      else and_then (split_authority v) (\<lambda>(rawHostname, rawPort).
        if (case rawPort of None \<Rightarrow> False | Some port \<Rightarrow> \<not> valid_port port)
        then Inl (PlainError ''Registry port must be between 1 and 65535'')
        else and_then (validateRegistryHostname rawHostname) (\<lambda>_.
        case url (''https://'' @ v) of
          None \<Rightarrow> Inl (PlainError ''Registry host is malformed'')
        | Some parsed \<Rightarrow>
            if \<not> bare_url parsed then Inl (PlainError ''Registry host is malformed'')
            else if ip_text rawHostname \<and> pu_hostname parsed \<noteq> rawHostname
            then Inl (PlainError ''Registry IPv4 addresses must use canonical dotted-decimal notation'')
            else and_then (validateRegistryHostname (pu_hostname parsed)) (\<lambda>_.
              Inr (with_port (to_lower (pu_hostname parsed)) rawPort)))))"

section \<open>Saved registries\<close>

definition scheme_char :: "char \<Rightarrow> bool" where
  "scheme_char c \<longleftrightarrow> is_alnum c \<or> c = CHR ''+'' \<or> c = CHR ''.'' \<or> c = CHR ''-''"

text \<open>\<^verbatim>\<open>/^([a-z][a-z0-9+.-]*):\/\//i\<close>\<close>

definition url_scheme :: "string \<Rightarrow> string option" where
  "url_scheme v =
     (let scheme = takeWhile scheme_char v in
      if scheme \<noteq> [] \<and> is_alnum (hd scheme) \<and> \<not> is_digit (hd scheme) \<and> starts_with ''://'' (dropWhile scheme_char v)
      then Some scheme else None)"

fun after_text :: "string \<Rightarrow> string \<Rightarrow> string" where
  "after_text p [] = []"
| "after_text p (c # s) = (if starts_with p (c # s) then drop (length p) (c # s) else after_text p s)"

definition saved_parts_ok :: "parsed_url \<Rightarrow> unit result" where
  "saved_parts_ok u =
     (if pu_protocol u \<noteq> ''http:'' \<and> pu_protocol u \<noteq> ''https:'' then Inl (PlainError ''Registry URL must use http or https'')
      else if pu_username u \<noteq> [] \<or> pu_password u \<noteq> [] then Inl (PlainError ''Registry URL must not contain credentials'')
      else if pu_pathname u \<noteq> ''/'' then Inl (PlainError ''Registry URL must not contain a path'')
      else if pu_search u \<noteq> [] then Inl (PlainError ''Registry URL must not contain a query string'')
      else if pu_hash u \<noteq> [] then Inl (PlainError ''Registry URL must not contain a fragment'')
      else Inr ())"

definition normalizeSavedRegistryOrigin :: "url_parser \<Rightarrow> string \<Rightarrow> string option \<Rightarrow> string result" where
  "normalizeSavedRegistryOrigin url input defaultProtocol =
     (let v = trim input in
      if v = [] \<or> length v > 512 then Inl (PlainError ''Registry URL is missing or too long'')
      else if list_ex (\<lambda>c. (of_char c :: nat) \<le> 32 \<or> (of_char c :: nat) = 127 \<or> c = CHR 0x5C) v
      then Inl (PlainError ''Registry URL contains whitespace, control characters, or backslashes'')
      else if CHR ''?'' \<in> set v then Inl (PlainError ''Registry URL must not contain a query string'')
      else if CHR ''#'' \<in> set v then Inl (PlainError ''Registry URL must not contain a fragment'')
      else let scheme = url_scheme v in
        if (case scheme of None \<Rightarrow> False | Some p \<Rightarrow> to_lower p \<notin> {''http'', ''https''})
        then Inl (PlainError ''Registry URL must use http or https'')
        else if scheme = None \<and> includes_text ''://'' v then Inl (PlainError ''Registry URL scheme is malformed'')
        else let protocol = (case scheme of
                   Some p \<Rightarrow> to_lower p
                 | None \<Rightarrow> (case defaultProtocol of Some p \<Rightarrow> p | None \<Rightarrow> ''https''));
                 candidate = (if scheme = None then protocol @ ''://'' @ v else v);
                 rawTarget = after_text ''://'' candidate;
                 rawAuthority = takeWhile (\<lambda>c. c \<noteq> CHR ''/'') rawTarget;
                 rawPath = dropWhile (\<lambda>c. c \<noteq> CHR ''/'') rawTarget in
          if rawPath \<noteq> [] \<and> rawPath \<noteq> ''/'' then Inl (PlainError ''Registry URL must not contain a path'')
          else case url candidate of
            None \<Rightarrow> Inl (PlainError ''Registry URL is malformed'')
          | Some parsed \<Rightarrow>
              and_then (saved_parts_ok parsed) (\<lambda>_.
              and_then (normalizeRegistryAuthority url rawAuthority) (\<lambda>authority.
              case url (pu_protocol parsed @ ''//'' @ authority) of
                None \<Rightarrow> Inl (PlainError ''Invalid URL'')
              | Some u \<Rightarrow> Inr (pu_origin u))))"

definition canonicalizeDockerRegistryAuthority :: "url_parser \<Rightarrow> string \<Rightarrow> string result" where
  "canonicalizeDockerRegistryAuthority url input =
     and_then (normalizeRegistryAuthority url input) (\<lambda>authority.
       let defaultTlsHost = (if ends_with '':443'' authority then take (length authority - 4) authority else authority)
       in Inr (if defaultTlsHost \<in> set dockerHubAliases then ''registry-1.docker.io'' else authority))"

end
