(* ===== verification/Reconciliation_Claims.thy ===== *)
theory Reconciliation_Claims
  imports Deployment_Intent Audit_Log Registry
begin

text \<open>
  The durable side of the reconciliation of unknown remote outcomes (\<^verbatim>\<open>services/remoteOutcomeReconciliation.ts\<close>): the
  rows a pass considers, the claim of a reconciler inside the result of a failed job with its heartbeat and retry delay,
  the target a job names, and the transaction that records an outcome together with the deployment it finishes. The
  inspection of hosts is in \<open>Outcome_Reconciliation\<close>.

  Times inside the result column are those this service wrote; an unreadable one does not occur and counts as absent.
\<close>

section \<open>Constants\<close>

definition REMOTE_OUTCOME_QUIESCENCE_SECONDS :: int where
  "REMOTE_OUTCOME_QUIESCENCE_SECONDS = 11 * 60"

definition REMOTE_OUTCOME_CLAIM_LEASE_SECONDS :: int where
  "REMOTE_OUTCOME_CLAIM_LEASE_SECONDS = 3 * 60"

definition REMOTE_OUTCOME_RETRY_BASE_SECONDS :: int where
  "REMOTE_OUTCOME_RETRY_BASE_SECONDS = 60"

definition REMOTE_OUTCOME_RETRY_MAX_SECONDS :: int where
  "REMOTE_OUTCOME_RETRY_MAX_SECONDS = 60 * 60"

definition REMOTE_OUTCOME_NO_DISPATCH_TYPES :: "string list" where
  "REMOTE_OUTCOME_NO_DISPATCH_TYPES = RECONCILABLE_DOCKER_MUTATION_TYPES
     @ [''compose.deploy'', ''compose.stop'', ''compose.remove'', ''deploy.analyze'', ''deploy.execute'',
        ''host.configureRegistryTrust'']"

definition composeStackIntentJobTypes :: "string list" where
  "composeStackIntentJobTypes = [''compose.deployPath'', ''compose.writeDeployPath'', ''deploy.execute'', ''git.cloneDeploy'']"

section \<open>Candidate rows\<close>

text \<open>A job with the columns of the stack and the analysis its payload names.\<close>

record ambiguous_row =
  ar_job :: job_row
  ar_proof_absent :: bool
  ar_stack_project_name :: "string option"
  ar_stack_working_dir :: "string option"
  ar_stack_compose_path :: "string option"
  ar_analysis_project_name :: "string option"
  ar_analysis_working_dir :: "string option"
  ar_analysis_compose_path :: "string option"

abbreviation ar_id :: "ambiguous_row \<Rightarrow> uuid" where
  "ar_id row \<equiv> j_id (ar_job row)"

abbreviation ar_type :: "ambiguous_row \<Rightarrow> string" where
  "ar_type row \<equiv> j_type (ar_job row)"

abbreviation ar_host_id :: "ambiguous_row \<Rightarrow> string" where
  "ar_host_id row \<equiv> host_string (ar_job row)"

definition ar_payload :: "ambiguous_row \<Rightarrow> string \<Rightarrow> unknown" where
  "ar_payload row k = get_prop (objectFields (Some (j_payload (ar_job row)))) k"

definition proof_absent :: "job_row \<Rightarrow> bool" where
  "proof_absent r = (case j_result r of
     None \<Rightarrow> True
   | Some v \<Rightarrow> is_object (Some v) \<and> get_prop (objectFields (Some v)) REMOTE_MUTATION_PROOF_KEY = None)"

definition joined_stack :: "db \<Rightarrow> job_row \<Rightarrow> stack_row option" where
  "joined_stack s r = first_row (filter (\<lambda>st. payload_text (j_payload r) ''stackId'' = Some (cs_id st)) (d_stacks s))"

definition joined_analysis :: "db \<Rightarrow> job_row \<Rightarrow> analysis_row option" where
  "joined_analysis s r =
     first_row (filter (\<lambda>a. payload_text (j_payload r) ''analysisId'' = Some (da_id a)) (d_analyses s))"

definition join_row :: "db \<Rightarrow> job_row \<Rightarrow> ambiguous_row" where
  "join_row s r =
     \<lparr>ar_job = r, ar_proof_absent = proof_absent r,
      ar_stack_project_name = map_option cs_project_name (joined_stack s r),
      ar_stack_working_dir = Option.bind (joined_stack s r) cs_source_working_dir,
      ar_stack_compose_path = Option.bind (joined_stack s r) cs_source_compose_path,
      ar_analysis_project_name = Option.bind (joined_analysis s r) da_project_name,
      ar_analysis_working_dir = Option.bind (joined_analysis s r) da_working_dir,
      ar_analysis_compose_path = Option.bind (joined_analysis s r) da_compose_path\<rparr>"

section \<open>The state of a reconciliation\<close>

definition stored_state :: "job_row \<Rightarrow> unknown" where
  "stored_state r = get_prop (objectFields (j_result r)) REMOTE_OUTCOME_RECONCILIATION_KEY"

definition state_text :: "job_row \<Rightarrow> string \<Rightarrow> string option" where
  "state_text r k = text_prop (objectFields (stored_state r)) k"

definition state_time :: "job_row \<Rightarrow> string \<Rightarrow> timestamp option" where
  "state_time r k = Option.bind (state_text r k) parse_ts"

definition ambiguous_error :: "string option \<Rightarrow> bool" where
  "ambiguous_error e \<longleftrightarrow> like_prefix WORKER_LOST e \<or> like_prefix REMOTE_OUTCOME_UNKNOWN e"

text \<open>Nobody inspects the job, or its inspector fell silent, or the retry delay is over.\<close>

definition state_open :: "clock \<Rightarrow> job_row \<Rightarrow> bool" where
  "state_open ck r \<longleftrightarrow> stored_state r = None
     \<or> state_text r ''status'' \<noteq> Some ''inspecting'' \<and> state_text r ''status'' \<noteq> Some ''pending''
     \<or> state_text r ''status'' = Some ''inspecting''
       \<and> (case coalesce (state_time r ''heartbeatAt'') (state_time r ''startedAt'') of
            None \<Rightarrow> True
          | Some t \<Rightarrow> t < ck_now ck - seconds REMOTE_OUTCOME_CLAIM_LEASE_SECONDS)
     \<or> state_text r ''status'' = Some ''pending''
       \<and> (case state_time r ''nextAttemptAt'' of None \<Rightarrow> True | Some t \<Rightarrow> t \<le> ck_now ck)"

definition candidate :: "clock \<Rightarrow> db \<Rightarrow> job_row \<Rightarrow> bool" where
  "candidate ck s r \<longleftrightarrow> j_status r = Failed \<and> j_type r \<in> set REMOTE_OUTCOME_NO_DISPATCH_TYPES
     \<and> j_lease_owner r = None \<and> j_lease_expires_at r = None
     \<and> (ambiguous_error (j_error r)
        \<or> (case joined_analysis s r of
             None \<Rightarrow> False
           | Some a \<Rightarrow> like_prefix ''WORKER_LOST:'' (da_error a) \<or> like_prefix REMOTE_OUTCOME_UNKNOWN (da_error a)))
     \<and> (case j_completed_at r of None \<Rightarrow> False | Some t \<Rightarrow> t \<le> ck_now ck - seconds REMOTE_OUTCOME_QUIESCENCE_SECONDS)
     \<and> state_text r ''status'' \<noteq> Some ''reconciled'' \<and> state_open ck r"

definition candidates :: "int \<Rightarrow> clock \<Rightarrow> db \<Rightarrow> ambiguous_row list" where
  "candidates limit ck s = map (join_row s)
     (take (nat (max 1 (min limit 100))) (sort_key (\<lambda>r. the (j_completed_at r)) (filter (candidate ck s) (d_jobs s))))"

section \<open>Claims\<close>

record reconciliation_claim =
  cl_token :: uuid
  cl_attemptCount :: int

definition claimed_state :: "clock \<Rightarrow> uuid \<Rightarrow> int \<Rightarrow> json" where
  "claimed_state ck token attempts = JObj
     [(''status'', JStr ''inspecting''), (''claimToken'', JStr token), (''startedAt'', ts_json (ck_clock ck)),
      (''heartbeatAt'', ts_json (ck_clock ck)), (''attemptCount'', JNum attempts)]"

definition next_attempt :: "job_row \<Rightarrow> int" where
  "next_attempt r = (case state_text r ''attemptCount'' of
     None \<Rightarrow> 1
   | Some t \<Rightarrow> if t \<noteq> [] \<and> list_all is_digit t then int (digits_value t) + 1 else 1)"

definition with_state :: "clock \<Rightarrow> json \<Rightarrow> job_row \<Rightarrow> job_row" where
  "with_state ck st r = r\<lparr>j_result := Some (jsonb_merge (j_result r) [(REMOTE_OUTCOME_RECONCILIATION_KEY, st)]),
     j_updated_at := ck_now ck\<rparr>"

definition claim_ready :: "clock \<Rightarrow> uuid \<Rightarrow> job_row \<Rightarrow> bool" where
  "claim_ready ck jobId r \<longleftrightarrow> j_id r = jobId \<and> j_status r = Failed \<and> ambiguous_error (j_error r) \<and> state_open ck r"

text \<open>The attempt number is a PostgreSQL integer, so that a claim past its range throws.\<close>

definition claimReconciliation :: "uuid \<Rightarrow> uuid \<Rightarrow> clock \<Rightarrow> db \<Rightarrow> reconciliation_claim option result \<times> db" where
  "claimReconciliation token jobId ck s =
     (case first_row (filter (claim_ready ck jobId) (d_jobs s)) of
        None \<Rightarrow> (Inr None, s)
      | Some r \<Rightarrow>
          if next_attempt r > 2147483647 then (Inl (CodedError ''22003'' ''integer out of range''), s)
          else (Inr (Some \<lparr>cl_token = token, cl_attemptCount = max 1 (next_attempt r)\<rparr>),
                update_jobs (claim_ready ck jobId) (\<lambda>r. with_state ck (claimed_state ck token (next_attempt r)) r) s))"

definition holds_reconciliation :: "uuid \<Rightarrow> uuid \<Rightarrow> job_row \<Rightarrow> bool" where
  "holds_reconciliation token jobId r \<longleftrightarrow> j_id r = jobId \<and> j_status r = Failed
     \<and> state_text r ''status'' = Some ''inspecting'' \<and> state_text r ''claimToken'' = Some token"

text \<open>Whether a row was renewed.\<close>

definition heartbeatReconciliation :: "uuid \<Rightarrow> uuid \<Rightarrow> clock \<Rightarrow> db \<Rightarrow> bool \<times> db" where
  "heartbeatReconciliation token jobId ck s =
     (filter (holds_reconciliation token jobId) (d_jobs s) \<noteq> [],
      update_jobs (holds_reconciliation token jobId)
        (\<lambda>r. with_state ck (jsonb_merge (stored_state r) [(''heartbeatAt'', ts_json (ck_clock ck))]) r) s)"

definition reconciliationRetryDelaySeconds :: "int \<Rightarrow> int" where
  "reconciliationRetryDelaySeconds attemptCount =
     min REMOTE_OUTCOME_RETRY_MAX_SECONDS (REMOTE_OUTCOME_RETRY_BASE_SECONDS * 2 ^ nat (max 0 (min (attemptCount - 1) 16)))"

section \<open>Targets\<close>

definition normalized_registry :: "url_parser \<Rightarrow> unknown \<Rightarrow> string result" where
  "normalized_registry url v =
     (let input = strip_slashes (strip_scheme (trim (string_or_empty v))) in
      if input = [] then Inr [] else normalizeRegistryAuthority url input)"

definition workerLostBeforeRemoteMutationDispatch :: "ambiguous_row \<Rightarrow> bool" where
  "workerLostBeforeRemoteMutationDispatch row \<longleftrightarrow> like_prefix WORKER_LOST (j_error (ar_job row))
     \<and> ar_type row \<in> set REMOTE_OUTCOME_NO_DISPATCH_TYPES \<and> ar_proof_absent row"

record remote_outcome_target =
  rt_hostId :: uuid
  rt_workingDir :: string
  rt_projectName :: string
  rt_composePath :: string

definition path_deploy :: "string \<Rightarrow> bool" where
  "path_deploy type \<longleftrightarrow> type = ''compose.deployPath'' \<or> type = ''compose.writeDeployPath''"

definition target_project :: "ambiguous_row \<Rightarrow> string option" where
  "target_project row =
     (if ar_type row = ''deploy.execute'' then ar_analysis_project_name row
      else if ar_type row = ''git.cloneDeploy'' \<or> path_deploy (ar_type row) then as_string (ar_payload row ''projectName'')
      else ar_stack_project_name row)"

definition target_directory :: "ambiguous_row \<Rightarrow> string option" where
  "target_directory row =
     (if ar_type row = ''deploy.execute'' then ar_analysis_working_dir row
      else if ar_type row = ''git.cloneDeploy'' then as_string (ar_payload row ''directory'')
      else if path_deploy (ar_type row) then as_string (ar_payload row ''workingDir'')
      else case ar_stack_working_dir row of
        Some d \<Rightarrow> Some d
      | None \<Rightarrow> map_option stackRemoteDirectory (nonempty (as_string (ar_payload row ''stackId''))))"

definition target_compose_path :: "ambiguous_row \<Rightarrow> string option" where
  "target_compose_path row =
     (if ar_type row = ''deploy.execute'' then ar_analysis_compose_path row
      else if ar_type row = ''git.cloneDeploy'' \<or> path_deploy (ar_type row) then as_string (ar_payload row ''composePath'')
      else ar_stack_compose_path row)"

definition trimmed_or_none :: "string option \<Rightarrow> string option" where
  "trimmed_or_none v = nonempty (map_option trim v)"

definition targetForJob :: "ambiguous_row \<Rightarrow> remote_outcome_target option result" where
  "targetForJob row =
     (case (trimmed_or_none (target_project row), target_directory row) of
        (Some project, Some workingDir) \<Rightarrow>
          if trim workingDir = [] then Inr None
          else and_then (normalizeRemotePath workingDir) (\<lambda>normalizedWorkingDir.
            and_then (case (trimmed_or_none (target_compose_path row), target_compose_path row) of
                        (Some _, Some configured) \<Rightarrow> absolute_under normalizedWorkingDir configured
                      | _ \<Rightarrow> normalizeRemotePath (path_join normalizedWorkingDir ''compose.yml'')) (\<lambda>composePath.
            Inr (Some \<lparr>rt_hostId = ar_host_id row, rt_workingDir = normalizedWorkingDir, rt_projectName = project,
                       rt_composePath = composePath\<rparr>)))
      | _ \<Rightarrow> Inr None)"

definition scopeFromRow :: "ambiguous_row \<Rightarrow> mutation_scope option result" where
  "scopeFromRow row =
     (case dockerMutationScope (row_claim (ar_job row)) of
        Some direct \<Rightarrow> Inr (Some direct)
      | None \<Rightarrow> and_then (targetForJob row) (\<lambda>target.
          Inr (case target of
                 None \<Rightarrow> None
               | Some t \<Rightarrow> deploy_path_claim scope_known (rt_hostId t) (rt_workingDir t) (rt_projectName t))))"

text \<open>Active jobs that may own the target of a failed one.\<close>

definition other_active :: "uuid \<Rightarrow> job_row \<Rightarrow> bool" where
  "other_active jobId r \<longleftrightarrow> j_id r \<noteq> jobId \<and> is_active r"

definition active_mutations :: "uuid \<Rightarrow> uuid list \<Rightarrow> db \<Rightarrow> ambiguous_row list" where
  "active_mutations failedJobId hostIds s = map (join_row s)
     (filter (\<lambda>r. other_active failedJobId r \<and> j_type r \<in> set CROSS_TARGET_JOB_TYPES \<and> on_hosts hostIds r) (d_jobs s))"

definition hasActiveRegistryTrustOperation :: "url_parser \<Rightarrow> uuid \<Rightarrow> uuid \<Rightarrow> string \<Rightarrow> db \<Rightarrow> bool" where
  "hasActiveRegistryTrustOperation url failedJobId hostId registry s =
     list_ex (\<lambda>r. normalized_registry url (payload_prop r ''registry'') = Inr registry)
       (filter (\<lambda>r. other_active failedJobId r \<and> j_host_id r = Some hostId \<and> j_type r = ''host.configureRegistryTrust'') (d_jobs s))"

section \<open>Recording an outcome\<close>

text \<open>Random values of one transaction: the initialisation vector of the cipher and new identifiers.\<close>

record fresh_values =
  fr_token :: uuid
  fr_iv :: string
  fr_sourceId :: uuid
  fr_auditId :: uuid

text \<open>What is known of the remote operation.\<close>

record remote_operation =
  ro_source :: string
  ro_operationId :: "string option"
  ro_phase :: string
  ro_transport :: "string option"
  ro_hostId :: "uuid option"
  ro_state :: "string option"

definition status_name :: "resolution_status \<Rightarrow> string" where
  "status_name st = (case st of Deployed \<Rightarrow> ''deployed'' | DeployFailed \<Rightarrow> ''failed'')"

definition binding_json :: "binding_resolution \<Rightarrow> json option" where
  "binding_json b = (case b of
     NotApplicable \<Rightarrow> None
   | Resolution st repositoryId stackId candidateCommit deployedCommit composeSha256 customCompose \<Rightarrow> Some (JObj
       [(''status'', JStr (status_name st)), (''repositoryId'', JStr repositoryId), (''stackId'', JStr stackId),
        (''candidateSourceCommitSha'', JStr candidateCommit), (''deployedSourceCommitSha'', opt_json deployedCommit),
        (''composeSha256'', JStr composeSha256), (''customCompose'', JBool customCompose)]))"

definition clone_json :: "clone_resolution \<Rightarrow> json option" where
  "clone_json c = (case c of
     CloneNotApplicable \<Rightarrow> None
   | CloneResolution st repositoryId stackId commit composeSha256 environmentBinding projectName workingDir \<Rightarrow> Some (JObj
       [(''status'', JStr (status_name st)), (''repositoryId'', JStr repositoryId), (''stackId'', opt_json stackId),
        (''sourceCommitSha'', JStr commit), (''composeSha256'', JStr composeSha256),
        (''environmentBinding'', JStr environmentBinding), (''projectName'', JStr projectName), (''workingDir'', JStr workingDir)]))"

type_synonym detail = "(string \<times> json) list"

definition detail_of :: "string \<Rightarrow> json option \<Rightarrow> detail option" where
  "detail_of k v = map_option (\<lambda>j. [(k, j)]) v"

definition finalizeGithubDeploymentBinding ::
    "externs \<Rightarrow> clock \<Rightarrow> ambiguous_row \<Rightarrow> remote_operation \<Rightarrow> db \<Rightarrow> (detail option \<times> db) result" where
  "finalizeGithubDeploymentBinding X ck row remoteOperation s =
     (if ar_type row = ''git.cloneDeploy''
      then and_then (resolveGithubCloneDeploymentBindingAfterReconciliation X ck (ar_id row)
               (ro_phase remoteOperation) (ro_state remoteOperation) s) (\<lambda>(resolution, s1).
             Inr (detail_of ''githubCloneDeploymentBinding'' (clone_json resolution), s1))
      else if ar_type row = ''compose.deploy''
      then and_then (resolveGithubDeploymentBindingAfterReconciliation X ck (ar_id row)
               (ro_phase remoteOperation) (ro_state remoteOperation) s) (\<lambda>(resolution, s1).
             Inr (detail_of ''githubDeploymentBinding'' (binding_json resolution), s1))
      else Inr (None, s))"

definition stack_detail :: "finalized_intent \<Rightarrow> json" where
  "stack_detail fin = JObj [(''status'', JStr ''deployed''), (''stackId'', JStr (fi_stackId fin)),
     (''versionId'', JStr (fi_versionId fin)), (''versionNumber'', JNum (fi_versionNumber fin)), (''replayed'', JBool (fi_replayed fin))]"

definition execution_detail :: "uuid \<Rightarrow> uuid \<Rightarrow> finalized_execution \<Rightarrow> json" where
  "execution_detail analysisId stackId ex = JObj [(''status'', JStr ''deployed''), (''analysisId'', JStr analysisId),
     (''sourceId'', JStr (ds_id (fe_source ex))), (''stackId'', JStr stackId), (''replayed'', JBool (fe_replayed ex))]"

text \<open>The deployment the remote operation finished is published: the stack, and for an execution its analysis.\<close>

definition materialise_outcome ::
    "externs \<Rightarrow> vault \<Rightarrow> clock \<Rightarrow> fresh_values \<Rightarrow> ambiguous_row \<Rightarrow> db \<Rightarrow> (detail \<times> db) result" where
  "materialise_outcome X V ck fresh row s =
     and_then (parseComposeStackDeploymentIntent X V (j_result (ar_job row)) (ar_id row)
                 (int (j_attempt_count (ar_job row))) (ar_host_id row)) (\<lambda>intent.
     if ar_type row = ''git.cloneDeploy'' \<and> in_githubCloneOperationJobId intent \<noteq> Some (ar_id row)
     then Inl (PlainError ''Compose stack deployment intent is missing its exact tracked-clone binding.'')
     else and_then (finalizeComposeStackDeploymentIntent X V ck (fr_iv fresh) intent s) (\<lambda>(finalized, s1).
       let detail = [(''composeStackDeployment'', stack_detail finalized)] in
       if ar_type row = ''deploy.execute''
       then (case nonempty (as_string (ar_payload row ''analysisId'')) of
               None \<Rightarrow> Inl (PlainError ''Deployment execution reconciliation is missing its analysis identity.'')
             | Some analysisId \<Rightarrow>
                 and_then (finalizeDeploymentExecutionInTransaction X ck (fr_sourceId fresh) analysisId (fi_stackId finalized) s1)
                   (\<lambda>(deployment, s2).
                   Inr (detail @ [(''deploymentExecution'', execution_detail analysisId (fi_stackId finalized) deployment)], s2)))
       else Inr (detail, s1)))"

definition finalizeReconciledOutcome ::
    "externs \<Rightarrow> vault \<Rightarrow> clock \<Rightarrow> fresh_values \<Rightarrow> ambiguous_row \<Rightarrow> remote_operation \<Rightarrow> db \<Rightarrow> (detail option \<times> db) result" where
  "finalizeReconciledOutcome X V ck fresh row remoteOperation s =
     (if ar_type row \<in> set composeStackIntentJobTypes
      then
        and_then (if ro_phase remoteOperation = ''compose.deployPath.up'' \<and> ro_state remoteOperation = Some ''completed''
                  then materialise_outcome X V ck fresh row s
                  else Inr ([(''composeStackDeployment'', JObj [(''status'', JStr ''not_materialized''),
                         (''phase'', JStr (ro_phase remoteOperation)), (''state'', opt_json (ro_state remoteOperation))])], s))
          (\<lambda>(detail, s1).
        and_then (finalizeGithubDeploymentBinding X ck row remoteOperation s1) (\<lambda>(githubDetail, s2).
        and_then (discardComposeStackDeploymentIntent V ck (ar_id row) (int (j_attempt_count (ar_job row))) (ar_host_id row) s2)
          (\<lambda>s3.
        Inr (Some (obj_concat detail (case githubDetail of None \<Rightarrow> [] | Some g \<Rightarrow> g)), s3))))
      else finalizeGithubDeploymentBinding X ck row remoteOperation s)"

type_synonym finalizer = "clock \<Rightarrow> fresh_values \<Rightarrow> db \<Rightarrow> (detail option \<times> db) result"

definition reconciledOutcomeFinalizer :: "externs \<Rightarrow> vault \<Rightarrow> ambiguous_row \<Rightarrow> remote_operation \<Rightarrow> finalizer option" where
  "reconciledOutcomeFinalizer X V row remoteOperation =
     (if ar_type row \<in> set composeStackIntentJobTypes \<or> ar_type row = ''compose.deploy'' \<or> ar_type row = ''git.cloneDeploy''
      then Some (\<lambda>ck fresh. finalizeReconciledOutcome X V ck fresh row remoteOperation)
      else None)"

text \<open>The evidence of an outcome, and the guarded update that records it.\<close>

definition evidence :: "externs \<Rightarrow> reconciliation_claim \<Rightarrow> string \<Rightarrow> detail \<Rightarrow> timestamp option \<Rightarrow> json" where
  "evidence X claim status detail nextAttemptAt = x_sanitizeFields X (JObj (obj_concat detail
     ([(''status'', JStr status), (''attemptCount'', JNum (cl_attemptCount claim))]
      @ (case nextAttemptAt of None \<Rightarrow> [] | Some t \<Rightarrow> [(''nextAttemptAt'', ts_json t)]))))"

definition persist_ready :: "reconciliation_claim \<Rightarrow> uuid \<Rightarrow> bool \<Rightarrow> job_row \<Rightarrow> bool" where
  "persist_ready claim jobId requireRemoteMutationProofAbsent r \<longleftrightarrow>
     holds_reconciliation (cl_token claim) jobId r \<and> ambiguous_error (j_error r)
     \<and> (requireRemoteMutationProofAbsent \<longrightarrow> is_object (j_result r)
          \<and> get_prop (objectFields (j_result r)) REMOTE_MUTATION_PROOF_KEY = None)"

definition record_state :: "reconciliation_claim \<Rightarrow> uuid \<Rightarrow> bool \<Rightarrow> json \<Rightarrow> clock \<Rightarrow> db \<Rightarrow> bool \<times> db" where
  "record_state claim jobId absent ev ck s =
     (length (filter (persist_ready claim jobId absent) (d_jobs s)) = 1,
      update_jobs (persist_ready claim jobId absent) (with_state ck ev) s)"

text \<open>\<open>now\<close> is the time of the process.\<close>

definition persist_pending ::
    "externs \<Rightarrow> ambiguous_row \<Rightarrow> reconciliation_claim \<Rightarrow> detail \<Rightarrow> timestamp \<Rightarrow> clock \<Rightarrow> db \<Rightarrow> bool \<times> db" where
  "persist_pending X row claim detail now =
     record_state claim (ar_id row) False
       (evidence X claim ''pending'' detail (Some (now + seconds (reconciliationRetryDelaySeconds (cl_attemptCount claim)))))"

definition reconciled_event :: "ambiguous_row \<Rightarrow> json \<Rightarrow> audit_input" where
  "reconciled_event row details =
     \<lparr>ai_userId = None, ai_hostId = j_host_id (ar_job row), ai_action = ''operation.remote_outcome.reconciled'',
      ai_targetKind = Some ''operation_job'', ai_targetId = Some (ar_id row), ai_details = Some details,
      ai_ipAddress = None, ai_userAgent = None\<rparr>"

definition merge_detail :: "json \<Rightarrow> detail \<Rightarrow> json" where
  "merge_detail ev detail = JObj (obj_concat (objectFields (Some ev)) detail)"

text \<open>What the finalisation adds to the evidence is recorded by a second update.\<close>

definition record_finalized :: "externs \<Rightarrow> clock \<Rightarrow> uuid \<Rightarrow> json \<Rightarrow> detail option \<Rightarrow> db \<Rightarrow> json \<times> db" where
  "record_finalized X ck jobId ev finalizedDetail s =
     (case finalizedDetail of
        None \<Rightarrow> (ev, s)
      | Some d \<Rightarrow> let e = x_sanitizeFields X (merge_detail ev d) in (e, update_jobs (\<lambda>r. j_id r = jobId) (with_state ck e) s))"

definition persist_reconciled ::
    "externs \<Rightarrow> ambiguous_row \<Rightarrow> reconciliation_claim \<Rightarrow> detail \<Rightarrow> finalizer option \<Rightarrow> bool \<Rightarrow> fresh_values \<Rightarrow> clock \<Rightarrow> db
     \<Rightarrow> bool result \<times> db" where
  "persist_reconciled X row claim detail finalize absent fresh ck = withTransaction (\<lambda>s.
     let ev = evidence X claim ''reconciled'' detail None;
         (updated, s1) = record_state claim (ar_id row) absent ev ck s in
     if \<not> updated then Inr (False, s1)
     else and_then (case finalize of None \<Rightarrow> Inr (None, s1) | Some f \<Rightarrow> f ck fresh s1) (\<lambda>(finalizedDetail, s2).
       let (ev', s3) = record_finalized X ck (ar_id row) ev finalizedDetail s2 in
       and_then (writeAuditEvent X ck (fr_auditId fresh) (reconciled_event row ev') s3) (\<lambda>(_, s4).
       Inr (True, s4))))"

section \<open>One job of the table\<close>

text \<open>A row of the job table, identified by its primary key.\<close>

definition job_at :: "db \<Rightarrow> job_row \<Rightarrow> bool" where
  "job_at s r \<longleftrightarrow> jobs.keys_unique (d_jobs s) \<and> r \<in> set (d_jobs s)"

lemma filter_at:
  assumes "job_at s r" and "\<And>q. P q \<Longrightarrow> j_id q = j_id r"
  shows "filter P (d_jobs s) = (if P r then [r] else [])"
proof -
  have "filter P (d_jobs s) = filter P (filter (\<lambda>q. j_id q = j_id r) (d_jobs s))"
    unfolding filter_filter using assms(2) by (intro filter_cong) auto
  also have "\<dots> = filter P [r]" using assms(1) jobs.filter_key [of "d_jobs s" r] by (simp add: job_at_def)
  finally show ?thesis by simp
qed

lemma update_at:
  assumes "job_at s r" and "\<And>q. j_id (f q) = j_id q"
  shows "job_at (update_jobs P f s) (if P r then f r else r)"
  using assms by (auto simp: job_at_def jobs.unique_update set_update_where)

lemma with_state_id [simp]: "j_id (with_state ck st r) = j_id r" "j_status (with_state ck st r) = j_status r"
  "j_error (with_state ck st r) = j_error r"
  by (simp_all add: with_state_def)

lemma mergeable_with_state [simp]: "mergeable (j_result r) \<Longrightarrow> mergeable (j_result (with_state ck st r))"
  using merge_object by (simp add: with_state_def mergeable_def)

lemma stored_state_with_state [simp]: "mergeable (j_result r) \<Longrightarrow> stored_state (with_state ck st r) = Some st"
  by (cases "j_result r"; cases "the (j_result r)")
     (auto simp: stored_state_def with_state_def jsonb_merge_def mergeable_def)

lemma claimed_state_text:
  assumes "mergeable (j_result r)"
  shows "state_text (with_state ck (claimed_state ck token n) r) ''status'' = Some ''inspecting''"
    and "state_text (with_state ck (claimed_state ck token n) r) ''claimToken'' = Some token"
    and "state_time (with_state ck (claimed_state ck token n) r) ''heartbeatAt'' = Some (ck_clock ck)"
    and "state_text (with_state ck (claimed_state ck token n) r) ''attemptCount'' = Some (show_int n)"
  using assms by (simp_all add: state_time_def state_text_def claimed_state_def text_prop_def get_prop_def ts_json_def)

lemma next_attempt_positive: "1 \<le> next_attempt r"
  by (simp add: next_attempt_def split: option.split)

lemma next_attempt_of_number: "state_text r ''attemptCount'' = Some (show_int n) \<Longrightarrow> 0 \<le> n \<Longrightarrow> next_attempt r = n + 1"
  using show_nat_digits [of "nat n"] by (simp add: next_attempt_def show_int_def)

lemma claim_at:
  assumes "job_at s r"
  shows "claimReconciliation token (j_id r) ck s =
    (if \<not> (j_status r = Failed \<and> ambiguous_error (j_error r) \<and> state_open ck r) then (Inr None, s)
     else if next_attempt r > 2147483647 then (Inl (CodedError ''22003'' ''integer out of range''), s)
     else (Inr (Some \<lparr>cl_token = token, cl_attemptCount = max 1 (next_attempt r)\<rparr>),
       update_jobs (claim_ready ck (j_id r)) (\<lambda>r. with_state ck (claimed_state ck token (next_attempt r)) r) s))"
proof -
  have "filter (claim_ready ck (j_id r)) (d_jobs s) = (if claim_ready ck (j_id r) r then [r] else [])"
    by (rule filter_at [OF assms]) (simp add: claim_ready_def)
  then show ?thesis by (simp add: claimReconciliation_def claim_ready_def)
qed

lemma claimed_at:
  assumes "job_at s r" and "claimReconciliation token (j_id r) ck s = (Inr (Some claim), s1)"
  shows "job_at s1 (with_state ck (claimed_state ck token (next_attempt r)) r)"
    and "claim = \<lparr>cl_token = token, cl_attemptCount = max 1 (next_attempt r)\<rparr>"
    and "j_status r = Failed" and "ambiguous_error (j_error r)" and "state_open ck r"
proof -
  have c: "j_status r = Failed" "ambiguous_error (j_error r)" "state_open ck r"
    "claim = \<lparr>cl_token = token, cl_attemptCount = max 1 (next_attempt r)\<rparr>"
    "s1 = update_jobs (claim_ready ck (j_id r)) (\<lambda>r. with_state ck (claimed_state ck token (next_attempt r)) r) s"
    using assms(2) unfolding claim_at [OF assms(1)] by (simp_all split: if_splits)
  have "claim_ready ck (j_id r) r" using c(1-3) by (simp add: claim_ready_def)
  then show "job_at s1 (with_state ck (claimed_state ck token (next_attempt r)) r)"
    using update_at [OF assms(1), of "\<lambda>r. with_state ck (claimed_state ck token (next_attempt r)) r" "claim_ready ck (j_id r)"]
    unfolding c(5) by simp
  show "claim = \<lparr>cl_token = token, cl_attemptCount = max 1 (next_attempt r)\<rparr>" by (fact c(4))
qed (use assms(2) in \<open>simp_all add: claim_at [OF assms(1)] split: if_splits\<close>)

lemma heartbeat_at:
  assumes "job_at s r"
  shows "fst (heartbeatReconciliation token (j_id r) ck s) = holds_reconciliation token (j_id r) r"
    and "\<not> holds_reconciliation token (j_id r) r \<Longrightarrow> heartbeatReconciliation token (j_id r) ck s = (False, s)"
proof -
  have f: "filter (holds_reconciliation token (j_id r)) (d_jobs s) = (if holds_reconciliation token (j_id r) r then [r] else [])"
    by (rule filter_at [OF assms]) (simp add: holds_reconciliation_def)
  then show "fst (heartbeatReconciliation token (j_id r) ck s) = holds_reconciliation token (j_id r) r"
    by (simp add: heartbeatReconciliation_def)
  assume "\<not> holds_reconciliation token (j_id r) r"
  with f have "\<forall>q\<in>set (d_jobs s). \<not> holds_reconciliation token (j_id r) q" by (simp add: filter_eq_Nil_iff)
  with f show "heartbeatReconciliation token (j_id r) ck s = (False, s)"
    by (simp add: heartbeatReconciliation_def update_jobs_none filter_eq_Nil_iff)
qed

lemma record_state_at:
  assumes "job_at s r" and "\<not> holds_reconciliation (cl_token claim) (j_id r) r"
  shows "record_state claim (j_id r) absent ev ck s = (False, s)"
proof -
  have "filter (persist_ready claim (j_id r) absent) (d_jobs s) = (if persist_ready claim (j_id r) absent r then [r] else [])"
    by (rule filter_at [OF assms(1)]) (simp add: persist_ready_def holds_reconciliation_def)
  then have "filter (persist_ready claim (j_id r) absent) (d_jobs s) = []" using assms(2) by (simp add: persist_ready_def)
  then show ?thesis by (simp add: record_state_def update_jobs_none filter_eq_Nil_iff)
qed

definition beaten :: "clock \<Rightarrow> job_row \<Rightarrow> job_row" where
  "beaten ck r = with_state ck (jsonb_merge (stored_state r) [(''heartbeatAt'', ts_json (ck_clock ck))]) r"

lemma beaten_text:
  assumes "mergeable (j_result r)" and "state_text r ''status'' = Some ''inspecting''"
  shows "state_text (beaten ck r) k = (if k = ''heartbeatAt'' then Some (show_int (ck_clock ck)) else state_text r k)"
proof -
  obtain fs where "stored_state r = Some (JObj fs)"
    using assms(2) by (cases "stored_state r"; cases "the (stored_state r)") (auto simp: state_text_def text_prop_def)
  with assms(1) show ?thesis
    by (simp add: state_text_def beaten_def jsonb_merge_def text_prop_def ts_json_def)
qed

lemma beaten_holds:
  assumes "mergeable (j_result r)" and "holds_reconciliation token (j_id r) r"
  shows "holds_reconciliation token (j_id (beaten ck r)) (beaten ck r)" and "state_time (beaten ck r) ''heartbeatAt'' = Some (ck_clock ck)"
proof -
  have h: "j_status r = Failed" "state_text r ''status'' = Some ''inspecting''" "state_text r ''claimToken'' = Some token"
    using assms(2) by (simp_all add: holds_reconciliation_def)
  note t = beaten_text [OF assms(1) h(2)]
  show "state_time (beaten ck r) ''heartbeatAt'' = Some (ck_clock ck)" by (simp add: state_time_def t)
  show "holds_reconciliation token (j_id (beaten ck r)) (beaten ck r)"
    unfolding holds_reconciliation_def t using h by (simp add: beaten_def)
qed

lemma heartbeat_beats:
  assumes "job_at s r" and "holds_reconciliation token (j_id r) r"
  shows "fst (heartbeatReconciliation token (j_id r) ck s)" and "job_at (snd (heartbeatReconciliation token (j_id r) ck s)) (beaten ck r)"
proof -
  show "fst (heartbeatReconciliation token (j_id r) ck s)" using assms heartbeat_at(1) by simp
  have "job_at (update_jobs (holds_reconciliation token (j_id r)) (beaten ck) s) (beaten ck r)"
    using update_at [OF assms(1), of "beaten ck" "holds_reconciliation token (j_id r)"] assms(2) by (simp add: beaten_def)
  then show "job_at (snd (heartbeatReconciliation token (j_id r) ck s)) (beaten ck r)"
    by (simp add: heartbeatReconciliation_def beaten_def [abs_def])
qed

lemma holder_excludes:
  assumes "job_at s r" and "holds_reconciliation token (j_id r) r" and "state_time r ''heartbeatAt'' = Some c"
    and "ck_now ck \<le> c + seconds REMOTE_OUTCOME_CLAIM_LEASE_SECONDS"
  shows "claimReconciliation token' (j_id r) ck s = (Inr None, s)"
proof -
  have "stored_state r \<noteq> None"
    using assms(2) by (cases "stored_state r") (auto simp: holds_reconciliation_def state_text_def text_prop_def)
  moreover have "state_text r ''status'' = Some ''inspecting''" using assms(2) by (simp add: holds_reconciliation_def)
  ultimately have "\<not> state_open ck r" using assms(3,4) by (simp add: state_open_def coalesce_def)
  then show ?thesis by (simp add: claim_at [OF assms(1)])
qed

lemma persist_lost:
  assumes "job_at s r" and "\<not> holds_reconciliation (cl_token claim) (j_id r) r" and "ar_id row = j_id r"
  shows "persist_pending X row claim detail now ck s = (False, s)"
    and "persist_reconciled X row claim detail finalize absent fresh ck s = (Inr False, s)"
proof -
  show "persist_pending X row claim detail now ck s = (False, s)"
    by (simp add: persist_pending_def assms(3) record_state_at [OF assms(1,2)])
  have "job_at (s\<lparr>d_locks := []\<rparr>) r" using assms(1) by (simp add: job_at_def)
  from record_state_at [OF this assms(2)]
  show "persist_reconciled X row claim detail finalize absent fresh ck s = (Inr False, s)"
    by (simp add: persist_reconciled_def withTransaction_def assms(3))
qed

section \<open>Properties\<close>

text \<open>
  C7: a claim on an unknown outcome is exclusive and fenced. Once a reconciler claimed a failed job, no other claim succeeds
  until three minutes after the claim or the last heartbeat; when those passed without a heartbeat the next claim
  succeeds; and once another reconciler took the job over, the first one
  can neither renew its claim nor record an outcome, whatever it was about to record: every such write changes nothing.
\<close>

theorem reconciliation_claim_exclusive:
  assumes "job_at s r" and "mergeable (j_result r)" and "claimReconciliation token (j_id r) ck s = (Inr (Some claim), s1)"
    and "ar_id row = j_id r"
  shows "(\<forall>token' ck'. ck_now ck' \<le> ck_clock ck + seconds REMOTE_OUTCOME_CLAIM_LEASE_SECONDS \<longrightarrow>
        claimReconciliation token' (j_id r) ck' s1 = (Inr None, s1))
    \<and> (\<forall>token' ck'. ck_clock ck + seconds REMOTE_OUTCOME_CLAIM_LEASE_SECONDS < ck_now ck' \<and> cl_attemptCount claim < 2147483647 \<longrightarrow>
        fst (claimReconciliation token' (j_id r) ck' s1) = Inr (Some \<lparr>cl_token = token', cl_attemptCount = cl_attemptCount claim + 1\<rparr>))
    \<and> (\<forall>ckh token' ck'. let (renewed, s1h) = heartbeatReconciliation token (j_id r) ckh s1 in
        renewed \<and> (ck_now ck' \<le> ck_clock ckh + seconds REMOTE_OUTCOME_CLAIM_LEASE_SECONDS \<longrightarrow>
          claimReconciliation token' (j_id r) ck' s1h = (Inr None, s1h)))
    \<and> (\<forall>token' ck' claim' s2. token' \<noteq> token \<and> claimReconciliation token' (j_id r) ck' s1 = (Inr (Some claim'), s2) \<longrightarrow>
        heartbeatReconciliation token (j_id r) ck'' s2 = (False, s2)
        \<and> persist_pending X row claim detail now ck'' s2 = (False, s2)
        \<and> persist_reconciled X row claim detail finalize absent fresh ck'' s2 = (Inr False, s2))"
proof (intro conjI allI impI)
  let ?r = "with_state ck (claimed_state ck token (next_attempt r)) r"
  note at = claimed_at(1) [OF assms(1,3)] and cl = claimed_at(2) [OF assms(1,3)]
  have id: "j_id ?r = j_id r" and m: "mergeable (j_result ?r)" using assms(2) by simp_all
  have h: "holds_reconciliation token (j_id ?r) ?r"
    using claimed_at(3) [OF assms(1,3)] by (simp add: holds_reconciliation_def claimed_state_text [OF assms(2)])
  note t = claimed_state_text(3) [OF assms(2)]
  show "claimReconciliation token' (j_id r) ck' s1 = (Inr None, s1)"
    if "ck_now ck' \<le> ck_clock ck + seconds REMOTE_OUTCOME_CLAIM_LEASE_SECONDS" for token' ck'
    using holder_excludes [OF at h t that] by simp
  have n: "next_attempt ?r = cl_attemptCount claim + 1"
    using next_attempt_of_number claimed_state_text(4) [OF assms(2)] next_attempt_positive [of r] cl by simp
  show "fst (claimReconciliation token' (j_id r) ck' s1) = Inr (Some \<lparr>cl_token = token', cl_attemptCount = cl_attemptCount claim + 1\<rparr>)"
    if late: "ck_clock ck + seconds REMOTE_OUTCOME_CLAIM_LEASE_SECONDS < ck_now ck' \<and> cl_attemptCount claim < 2147483647" for token' ck'
  proof -
    have "state_open ck' ?r" using late t claimed_state_text(1) [OF assms(2)] by (simp add: state_open_def coalesce_def)
    then show ?thesis
      using claim_at [OF at, of token' ck'] claimed_at(3,4) [OF assms(1,3)] late n next_attempt_positive [of ?r] by simp
  qed
  show "let (renewed, s1h) = heartbeatReconciliation token (j_id r) ckh s1 in
      renewed \<and> (ck_now ck' \<le> ck_clock ckh + seconds REMOTE_OUTCOME_CLAIM_LEASE_SECONDS \<longrightarrow>
        claimReconciliation token' (j_id r) ck' s1h = (Inr None, s1h))" for ckh token' ck'
    using heartbeat_beats [OF at h, of ckh] holder_excludes [OF _ beaten_holds [OF m h]]
    by (auto simp: beaten_def split: prod.split)
  fix token' ck' claim' s2
  assume o: "token' \<noteq> token \<and> claimReconciliation token' (j_id r) ck' s1 = (Inr (Some claim'), s2)"
  let ?q = "with_state ck' (claimed_state ck' token' (next_attempt ?r)) ?r"
  have at2: "job_at s2 ?q" using claimed_at(1) [OF at, of token' ck' claim' s2] o by simp
  have n: "\<not> holds_reconciliation token (j_id ?q) ?q"
    using o by (simp add: holds_reconciliation_def claimed_state_text [OF m])
  show "heartbeatReconciliation token (j_id r) ck'' s2 = (False, s2)" using heartbeat_at(2) [OF at2 n] by simp
  show "persist_pending X row claim detail now ck'' s2 = (False, s2)"
    and "persist_reconciled X row claim detail finalize absent fresh ck'' s2 = (Inr False, s2)"
    using persist_lost [OF at2] n cl assms(4) by simp_all
qed

text \<open>
  The sanitiser of URLs keeps the object it is given and every number, time and status name inside it, which hold no URL.
\<close>

definition holds_no_url :: "json \<Rightarrow> bool" where
  "holds_no_url v \<longleftrightarrow> (\<exists>n. v = JNum n) \<or> (\<exists>t. v = ts_json t) \<or> v = JStr ''pending'' \<or> v = JStr ''reconciled''"

definition sanitizer_keeps :: "externs \<Rightarrow> bool" where
  "sanitizer_keeps X \<longleftrightarrow> (\<forall>fs. \<exists>gs. x_sanitizeFields X (JObj fs) = JObj gs
     \<and> (\<forall>k v. get_prop fs k = Some v \<and> holds_no_url v \<longrightarrow> get_prop gs k = Some v))"

lemma evidence_fields:
  assumes "sanitizer_keeps X" and "status = ''pending'' \<or> status = ''reconciled''"
  obtains gs where "evidence X claim status detail next = JObj gs" and "get_prop gs ''status'' = Some (JStr status)"
    and "get_prop gs ''attemptCount'' = Some (JNum (cl_attemptCount claim))"
    and "\<And>t. next = Some t \<Longrightarrow> get_prop gs ''nextAttemptAt'' = Some (ts_json t)"
proof -
  let ?fs = "obj_concat detail ([(''status'', JStr status), (''attemptCount'', JNum (cl_attemptCount claim))]
      @ (case next of None \<Rightarrow> [] | Some t \<Rightarrow> [(''nextAttemptAt'', ts_json t)]))"
  obtain gs where gs: "evidence X claim status detail next = JObj gs"
    and keep: "\<And>k v. get_prop ?fs k = Some v \<Longrightarrow> holds_no_url v \<Longrightarrow> get_prop gs k = Some v"
    using assms(1) [unfolded sanitizer_keeps_def, rule_format, of ?fs] unfolding evidence_def by (elim exE conjE) blast
  have "get_prop ?fs ''status'' = Some (JStr status)" by (simp add: obj_concat_def split: option.split)
  moreover have "holds_no_url (JStr status)" using assms(2) by (simp only: holds_no_url_def) simp
  ultimately have 1: "get_prop gs ''status'' = Some (JStr status)" by (rule keep)
  have "get_prop ?fs ''attemptCount'' = Some (JNum (cl_attemptCount claim))" by (simp add: obj_concat_def split: option.split)
  then have 2: "get_prop gs ''attemptCount'' = Some (JNum (cl_attemptCount claim))"
    by (rule keep) (simp add: holds_no_url_def)
  have 3: "get_prop gs ''nextAttemptAt'' = Some (ts_json t)" if "next = Some t" for t
    by (rule keep) (use that in \<open>simp add: obj_concat_def\<close>, auto simp only: holds_no_url_def)
  show thesis by (rule that [OF gs 1 2 3])
qed

lemma retry_delay_bounds:
  "60 \<le> reconciliationRetryDelaySeconds n" "reconciliationRetryDelaySeconds n \<le> 3600"
  "1 \<le> n \<Longrightarrow> reconciliationRetryDelaySeconds (n + 1) = min 3600 (2 * reconciliationRetryDelaySeconds n)"
proof -
  note c = reconciliationRetryDelaySeconds_def REMOTE_OUTCOME_RETRY_MAX_SECONDS_def REMOTE_OUTCOME_RETRY_BASE_SECONDS_def
  show "60 \<le> reconciliationRetryDelaySeconds n" "reconciliationRetryDelaySeconds n \<le> 3600" by (simp_all add: c)
  assume n: "1 \<le> n"
  show "reconciliationRetryDelaySeconds (n + 1) = min 3600 (2 * reconciliationRetryDelaySeconds n)"
  proof (cases "n \<le> 16")
    case True
    with n have "nat (max 0 (min (n + 1 - 1) 16)) = Suc (nat (max 0 (min (n - 1) 16)))" by simp
    moreover have "min 3600 (60 * (2::int) ^ Suc k) = min 3600 (2 * min 3600 (60 * 2 ^ k))" for k by simp
    ultimately show ?thesis by (simp only: c) simp
  next
    case False
    then have "nat (max 0 (min (n + 1 - 1) 16)) = 16" "nat (max 0 (min (n - 1) 16)) = 16" by auto
    then show ?thesis unfolding c by simp
  qed
qed

lemma persisted_at:
  assumes "job_at s r" and "record_state claim (j_id r) absent ev ck s = (True, s1)"
  shows "job_at s1 (with_state ck ev r)" and "persist_ready claim (j_id r) absent r"
proof -
  have f: "filter (persist_ready claim (j_id r) absent) (d_jobs s) = (if persist_ready claim (j_id r) absent r then [r] else [])"
    by (rule filter_at [OF assms(1)]) (simp add: persist_ready_def holds_reconciliation_def)
  then show p: "persist_ready claim (j_id r) absent r" using assms(2) by (simp add: record_state_def split: if_splits)
  show "job_at s1 (with_state ck ev r)"
    using update_at [OF assms(1), of "with_state ck ev" "persist_ready claim (j_id r) absent"] assms(2) p
    by (simp add: record_state_def)
qed

lemma record_state_ready:
  assumes "job_at s r" and "persist_ready claim (j_id r) absent r"
  shows "fst (record_state claim (j_id r) absent ev ck s)"
proof -
  have "filter (persist_ready claim (j_id r) absent) (d_jobs s) = (if persist_ready claim (j_id r) absent r then [r] else [])"
    by (rule filter_at [OF assms(1)]) (simp add: persist_ready_def holds_reconciliation_def)
  with assms(2) show ?thesis by (simp add: record_state_def)
qed

text \<open>
  C24: an outcome that could not be settled is tried again, later each time. The delay is at least one minute and at most
  one hour and doubles with every attempt up to that hour; before it is over no reconciler can claim the job, and from
  then on the first one that tries does, under the next attempt number.
\<close>

theorem pending_outcome_backs_off:
  assumes "job_at s r" and "mergeable (j_result r)" and "sanitizer_keeps X" and "ar_id row = j_id r"
    and "persist_pending X row claim detail now ck s = (True, s1)"
    and "1 \<le> cl_attemptCount claim" and "cl_attemptCount claim < 2147483647"
  shows "let delay = reconciliationRetryDelaySeconds (cl_attemptCount claim) in
    60 \<le> delay \<and> delay \<le> 3600 \<and> reconciliationRetryDelaySeconds (cl_attemptCount claim + 1) = min 3600 (2 * delay)
    \<and> (\<forall>token ck'. if ck_now ck' < now + seconds delay
         then claimReconciliation token (j_id r) ck' s1 = (Inr None, s1)
         else fst (claimReconciliation token (j_id r) ck' s1)
              = Inr (Some \<lparr>cl_token = token, cl_attemptCount = cl_attemptCount claim + 1\<rparr>))"
proof -
  let ?delay = "reconciliationRetryDelaySeconds (cl_attemptCount claim)"
  let ?ev = "evidence X claim ''pending'' detail (Some (now + seconds ?delay))"
  let ?r = "with_state ck ?ev r"
  have rec: "record_state claim (j_id r) False ?ev ck s = (True, s1)"
    using assms(5) by (simp add: persist_pending_def assms(4))
  note at = persisted_at(1) [OF assms(1) rec]
  have p: "j_status ?r = Failed" "ambiguous_error (j_error ?r)"
    using persisted_at(2) [OF assms(1) rec] by (simp_all add: persist_ready_def holds_reconciliation_def)
  obtain gs where gs: "?ev = JObj gs" "get_prop gs ''status'' = Some (JStr ''pending'')"
    "get_prop gs ''attemptCount'' = Some (JNum (cl_attemptCount claim))" "get_prop gs ''nextAttemptAt'' = Some (ts_json (now + seconds ?delay))"
    using evidence_fields [OF assms(3), of "''pending''" claim detail "Some (now + seconds ?delay)"] by metis
  then have st: "stored_state ?r = Some (JObj gs)" using assms(2) by simp
  with gs have open_iff: "state_open ck' ?r \<longleftrightarrow> now + seconds ?delay \<le> ck_now ck'" for ck'
    by (simp add: state_open_def state_text_def state_time_def text_prop_def ts_json_def)
  have "next_attempt ?r = cl_attemptCount claim + 1"
    using assms(6) st gs(3) by (intro next_attempt_of_number) (simp_all add: state_text_def text_prop_def)
  then have c: "claimReconciliation token (j_id r) ck' s1 = (if ck_now ck' < now + seconds ?delay then (Inr None, s1)
      else (Inr (Some \<lparr>cl_token = token, cl_attemptCount = cl_attemptCount claim + 1\<rparr>),
        update_jobs (claim_ready ck' (j_id r)) (\<lambda>r. with_state ck' (claimed_state ck' token (next_attempt r)) r) s1))" for token ck'
    using claim_at [OF at, of token ck'] p open_iff assms(6,7) by simp
  show ?thesis using retry_delay_bounds(1,2) retry_delay_bounds(3) [OF assms(6)] by (simp add: c Let_def)
qed

lemma with_state_other:
  assumes "mergeable (j_result r)" and "k \<noteq> REMOTE_OUTCOME_RECONCILIATION_KEY"
  shows "get_prop (objectFields (j_result (with_state ck st r))) k = get_prop (objectFields (j_result r)) k"
  using assms by (cases "j_result r"; cases "the (j_result r)") (auto simp: with_state_def jsonb_merge_def mergeable_def)

lemma reconciled_state:
  assumes "hasReconciledRemoteOutcome (j_result r)"
  shows "mergeable (j_result r)" and "state_text r ''status'' = Some ''reconciled''"
proof -
  obtain fs where "j_result r = Some (JObj fs)"
    using assms by (cases "j_result r"; cases "the (j_result r)") (auto simp: hasReconciledRemoteOutcome_def reconciliationState_def)
  with assms show "mergeable (j_result r)" "state_text r ''status'' = Some ''reconciled''"
    by (auto simp: hasReconciledRemoteOutcome_def reconciliationState_def mergeable_def state_text_def stored_state_def
          text_prop_def Let_def split: if_splits)
qed

lemma missing_intent_refused:
  assumes "get_prop (objectFields (j_result (ar_job row))) COMPOSE_STACK_DEPLOYMENT_INTENT_KEY = None"
    and "ar_type row \<in> set composeStackIntentJobTypes"
    and "ro_phase operation = ''compose.deployPath.up''" and "ro_state operation = Some ''completed''"
  shows "finalizeReconciledOutcome X V ck fresh row operation s = Inl invalidIntent"
  using assms(2-4) by (simp add: finalizeReconciledOutcome_def materialise_outcome_def parseComposeStackDeploymentIntent_def
      encryptedIntentFromResult_def assms(1))

text \<open>
  C13: a settled outcome can be claimed again. The guard of a claim excludes only jobs under inspection or awaiting a retry, so
  a reconciler that read its candidates before another one settled a job replaces the recorded outcome by its own
  inspection: the job counts as unreconciled again. Where the job deploys a stack its intent was discarded with the first
  settlement, so that from then on the completed deployment can no longer be published and the job stays unreconciled.
\<close>

theorem reconciled_outcome_reopened:
  assumes "job_at s r" and "isAmbiguousRemoteOutcome r" and "hasReconciledRemoteOutcome (j_result r)"
    and "next_attempt r \<le> 2147483647"
  shows "\<exists>claim s1 r1. claimReconciliation token (j_id r) ck s = (Inr (Some claim), s1) \<and> job_at s1 r1 \<and> j_id r1 = j_id r
    \<and> isUnreconciledRemoteOutcome r1
    \<and> (j_type r \<in> set composeStackIntentJobTypes
        \<and> get_prop (objectFields (j_result r)) COMPOSE_STACK_DEPLOYMENT_INTENT_KEY = None
        \<and> ro_phase operation = ''compose.deployPath.up'' \<and> ro_state operation = Some ''completed''
       \<longrightarrow> finalizeReconciledOutcome X V ck' fresh (join_row d r1) operation s' = Inl invalidIntent)"
proof -
  let ?r = "with_state ck (claimed_state ck token (next_attempt r)) r"
  note rec = reconciled_state [OF assms(3)]
  have g: "j_status r = Failed" "ambiguous_error (j_error r)"
    using assms(2) by (simp_all add: isAmbiguousRemoteOutcome_def ambiguous_error_def)
  have "state_open ck r" using rec(2) by (simp add: state_open_def)
  then obtain claim s1 where c: "claimReconciliation token (j_id r) ck s = (Inr (Some claim), s1)"
    using claim_at [OF assms(1), of token ck] g assms(4) by simp
  have "isUnreconciledRemoteOutcome ?r"
    using assms(2) claimed_state_text(1) [OF rec(1), of ck token "next_attempt r"]
    by (auto simp: isUnreconciledRemoteOutcome_def isAmbiguousRemoteOutcome_def dest: reconciled_state)
  moreover have "finalizeReconciledOutcome X V ck' fresh (join_row d ?r) operation s' = Inl invalidIntent"
    if "j_type r \<in> set composeStackIntentJobTypes" "get_prop (objectFields (j_result r)) COMPOSE_STACK_DEPLOYMENT_INTENT_KEY = None"
      "ro_phase operation = ''compose.deployPath.up''" "ro_state operation = Some ''completed''"
  proof (rule missing_intent_refused [OF _ _ that(3,4)])
    show "get_prop (objectFields (j_result (ar_job (join_row d ?r)))) COMPOSE_STACK_DEPLOYMENT_INTENT_KEY = None"
      using that(2) with_state_other [OF rec(1), of COMPOSE_STACK_DEPLOYMENT_INTENT_KEY]
      by (simp add: join_row_def COMPOSE_STACK_DEPLOYMENT_INTENT_KEY_def REMOTE_OUTCOME_RECONCILIATION_KEY_def)
    show "ar_type (join_row d ?r) \<in> set composeStackIntentJobTypes" using that(1) by (simp add: join_row_def with_state_def)
  qed
  ultimately show ?thesis using c claimed_at(1) [OF assms(1) c] by (intro exI [of _ claim] exI [of _ s1] exI [of _ ?r]) simp
qed

section \<open>Witnesses\<close>

definition lost_job :: "json option \<Rightarrow> job_row" where
  "lost_job result = (sample_job ''compose.deployPath'' Failed)\<lparr>j_error := Some ''WORKER_LOST: lease expired'',
     j_host_id := Some ''h1'', j_attempt_count := 1, j_result := result, j_completed_at := Some 0\<rparr>"

definition lost_row :: ambiguous_row where
  "lost_row = join_row empty_db (lost_job None)"

definition first_claim :: reconciliation_claim where
  "first_claim = \<lparr>cl_token = ''t1'', cl_attemptCount = 1\<rparr>"

definition claimed_db :: db where
  "claimed_db = snd (claimReconciliation ''t1'' ''job-1'' (clock_of 5) (jobs_db [lost_job None]))"

definition pending_db :: db where
  "pending_db = snd (persist_pending sample_externs lost_row first_claim [] 10 (clock_of 9) claimed_db)"

lemma sanitizer_keeps_sample: "sanitizer_keeps sample_externs"
  by (simp add: sanitizer_keeps_def sample_externs_def)

lemma job_at_singleton: "job_at (jobs_db [r]) r"
  by (simp add: job_at_def jobs_db_def empty_db_def jobs.keys_unique_def)

lemma first_claim_taken: "claimReconciliation ''t1'' (j_id (lost_job None)) (clock_of 5) (jobs_db [lost_job None])
    = (Inr (Some first_claim), claimed_db)"
proof -
  have "fst (claimReconciliation ''t1'' ''job-1'' (clock_of 5) (jobs_db [lost_job None])) = Inr (Some first_claim)" by code_simp
  moreover have "j_id (lost_job None) = ''job-1''" by code_simp
  ultimately show ?thesis by (simp add: claimed_db_def prod_eq_iff)
qed

lemma lost_ids: "j_id (lost_job result) = ''job-1''" "ar_id lost_row = j_id (lost_job None)" "mergeable (j_result (lost_job None))"
  by (simp_all add: lost_job_def sample_job_def lost_row_def join_row_def mergeable_def)

theorem reconciliation_claim_exclusive_witness:
  "claimReconciliation ''t2'' ''job-1'' (clock_of (seconds 180)) claimed_db = (Inr None, claimed_db)
   \<and> (\<exists>claim s2. claimReconciliation ''t2'' ''job-1'' (clock_of (seconds 181)) claimed_db = (Inr (Some claim), s2)
       \<and> heartbeatReconciliation ''t1'' ''job-1'' (clock_of (seconds 182)) s2 = (False, s2))"
proof -
  note ex = reconciliation_claim_exclusive [OF job_at_singleton lost_ids(3) first_claim_taken lost_ids(2),
      unfolded lost_ids(1), of "clock_of (seconds 182)" sample_externs "[]" 0 None False
        "\<lparr>fr_token = ''t'', fr_iv = [], fr_sourceId = [], fr_auditId = []\<rparr>"]
  have "ck_now (clock_of (seconds 180)) \<le> ck_clock (clock_of 5) + seconds REMOTE_OUTCOME_CLAIM_LEASE_SECONDS"
    by (simp add: clock_of_def REMOTE_OUTCOME_CLAIM_LEASE_SECONDS_def)
  with ex have 1: "claimReconciliation ''t2'' ''job-1'' (clock_of (seconds 180)) claimed_db = (Inr None, claimed_db)" by blast
  have "ck_clock (clock_of 5) + seconds REMOTE_OUTCOME_CLAIM_LEASE_SECONDS < ck_now (clock_of (seconds 181))
      \<and> cl_attemptCount first_claim < 2147483647"
    by (simp add: clock_of_def REMOTE_OUTCOME_CLAIM_LEASE_SECONDS_def first_claim_def)
  with ex have "fst (claimReconciliation ''t2'' ''job-1'' (clock_of (seconds 181)) claimed_db)
      = Inr (Some \<lparr>cl_token = ''t2'', cl_attemptCount = cl_attemptCount first_claim + 1\<rparr>)" by blast
  then obtain claim s2 where c: "claimReconciliation ''t2'' ''job-1'' (clock_of (seconds 181)) claimed_db = (Inr (Some claim), s2)"
    by (metis prod.collapse)
  have "''t2'' \<noteq> ''t1''" by simp
  with c ex [THEN conjunct2, THEN conjunct2, THEN conjunct2, rule_format, of "''t2''" "clock_of (seconds 181)" claim s2]
  have "heartbeatReconciliation ''t1'' ''job-1'' (clock_of (seconds 182)) s2 = (False, s2)" by (simp only: simp_thms)
  with 1 c show ?thesis by (simp only: simp_thms) blast
qed

theorem pending_outcome_backs_off_witness:
  "claimReconciliation ''t2'' ''job-1'' (clock_of (seconds 60)) pending_db = (Inr None, pending_db)
   \<and> fst (claimReconciliation ''t2'' ''job-1'' (clock_of (10 + seconds 60)) pending_db)
       = Inr (Some \<lparr>cl_token = ''t2'', cl_attemptCount = 2\<rparr>)"
proof -
  let ?r = "with_state (clock_of 5) (claimed_state (clock_of 5) ''t1'' (next_attempt (lost_job None))) (lost_job None)"
  have at: "job_at claimed_db ?r" by (rule claimed_at(1) [OF job_at_singleton first_claim_taken])
  have m: "mergeable (j_result ?r)" using lost_ids(3) by simp
  have i: "ar_id lost_row = j_id ?r" using lost_ids(2) by simp
  have "persist_ready first_claim (j_id ?r) False ?r"
    using claimed_at(3,4) [OF job_at_singleton first_claim_taken]
    by (simp add: persist_ready_def holds_reconciliation_def claimed_state_text [OF lost_ids(3)] first_claim_def)
  then have "fst (persist_pending sample_externs lost_row first_claim [] 10 (clock_of 9) claimed_db)"
    by (simp only: persist_pending_def i record_state_ready [OF at])
  then have p: "persist_pending sample_externs lost_row first_claim [] 10 (clock_of 9) claimed_db = (True, pending_db)"
    by (simp add: pending_db_def prod_eq_iff)
  have c: "1 \<le> cl_attemptCount first_claim" "cl_attemptCount first_claim < 2147483647" by (simp_all add: first_claim_def)
  have d: "reconciliationRetryDelaySeconds (cl_attemptCount first_claim) = 60" "cl_attemptCount first_claim + 1 = 2" by code_simp+
  from pending_outcome_backs_off [OF at m sanitizer_keeps_sample i p c]
  have "if ck_now ck < 10 + seconds 60 then claimReconciliation ''t2'' ''job-1'' ck pending_db = (Inr None, pending_db)
     else fst (claimReconciliation ''t2'' ''job-1'' ck pending_db) = Inr (Some \<lparr>cl_token = ''t2'', cl_attemptCount = 2\<rparr>)" for ck
    unfolding d Let_def with_state_id lost_ids(1) by blast
  from this [of "clock_of (seconds 60)"] this [of "clock_of (10 + seconds 60)"] show ?thesis by (simp add: clock_of_def)
qed

definition settled_job :: job_row where
  "settled_job = lost_job (Some (JObj [(REMOTE_OUTCOME_RECONCILIATION_KEY, JObj [(''status'', JStr ''reconciled'')])]))"

theorem reconciled_outcome_reopened_witness:
  "\<exists>claim s1 r1. claimReconciliation ''t2'' ''job-1'' (clock_of 5) (jobs_db [settled_job]) = (Inr (Some claim), s1)
     \<and> r1 \<in> set (d_jobs s1) \<and> isUnreconciledRemoteOutcome r1
     \<and> finalizeReconciledOutcome sample_externs sample_vault (clock_of 9)
         \<lparr>fr_token = ''t'', fr_iv = [], fr_sourceId = [], fr_auditId = []\<rparr> (join_row s1 r1)
         \<lparr>ro_source = ''ssh'', ro_operationId = None, ro_phase = ''compose.deployPath.up'', ro_transport = Some ''ssh'',
          ro_hostId = None, ro_state = Some ''completed''\<rparr> s1 = Inl invalidIntent"
proof -
  have f: "isAmbiguousRemoteOutcome settled_job" "hasReconciledRemoteOutcome (j_result settled_job)" "next_attempt settled_job \<le> 2147483647"
    "j_type settled_job \<in> set composeStackIntentJobTypes"
    "get_prop (objectFields (j_result settled_job)) COMPOSE_STACK_DEPLOYMENT_INTENT_KEY = None"
    by code_simp+
  have i: "j_id settled_job = ''job-1''" by (simp add: settled_job_def lost_ids(1))
  let ?op = "\<lparr>ro_source = ''ssh'', ro_operationId = None, ro_phase = ''compose.deployPath.up'', ro_transport = Some ''ssh'',
          ro_hostId = None, ro_state = Some ''completed''\<rparr>"
  let ?s1 = "snd (claimReconciliation ''t2'' ''job-1'' (clock_of 5) (jobs_db [settled_job]))"
  from reconciled_outcome_reopened [OF job_at_singleton f(1-3), of "''t2''" "clock_of 5" ?op sample_externs sample_vault "clock_of 9"
      "\<lparr>fr_token = ''t'', fr_iv = [], fr_sourceId = [], fr_auditId = []\<rparr>" ?s1 ?s1, unfolded i] f(4,5)
  show ?thesis unfolding job_at_def by (elim exE conjE) (auto simp: job_at_def)
qed

end
