(* ===== verification/Outcome_Reconciliation.thy ===== *)
theory Outcome_Reconciliation
  imports Reconciliation_Claims Session Commands
begin

text \<open>
  A pass of the reconciler over jobs whose remote outcome is unknown (\<^verbatim>\<open>services/remoteOutcomeReconciliation.ts\<close>): the
  proof that the remote operation ended, the read-only inspections of its target, and the loop over the candidates. A pass
  is a session: other transactions run before each statement, hosts answer as they like, and every answer and every write
  is logged in order. The transports, the JSON and URL parsers and the connection details of hosts are parameters.
\<close>

section \<open>Sessions of a pass\<close>

record path_stat =
  ps_path :: string
  ps_exists :: bool
  ps_type :: "string option"
  ps_size :: "int option"

datatype reconciliation_error =
    ReconciliationClaimLost uuid
  | Thrown exn

datatype reconciliation_entry =
    Inspected uuid string "string result"
  | Commanded uuid string "command_result result"
  | Statted uuid string "path_stat result"
  | Cleaned uuid string "unit result"
  | Wrote db db

type_synonym ('h, 'a) recon = "(reconciliation_error, 'h, reconciliation_entry, 'a) program"

record 'h world =
  w_externs :: externs
  w_vault :: vault
  w_turns :: turns
  w_fresh :: "nat \<Rightarrow> fresh_values"
  w_getHost :: "uuid \<Rightarrow> db \<Rightarrow> host_connection result"
  w_ssh :: "uuid \<Rightarrow> string \<Rightarrow> int \<Rightarrow> 'h \<Rightarrow> command_result result \<times> 'h"
  w_agentDocker :: "uuid \<Rightarrow> string \<Rightarrow> int \<Rightarrow> 'h \<Rightarrow> command_result result \<times> 'h"
  w_agentStat :: "uuid \<Rightarrow> string \<Rightarrow> 'h \<Rightarrow> path_stat result \<times> 'h"
  w_demoStat :: "uuid \<Rightarrow> string \<Rightarrow> 'h \<Rightarrow> path_stat result \<times> 'h"
  w_inspectSsh :: "uuid \<Rightarrow> string \<Rightarrow> 'h \<Rightarrow> string result \<times> 'h"
  w_inspectAgent :: "uuid \<Rightarrow> string \<Rightarrow> 'h \<Rightarrow> string result \<times> 'h"
  w_cleanupSsh :: "uuid \<Rightarrow> string \<Rightarrow> 'h \<Rightarrow> unit result \<times> 'h"
  w_parseJson :: "string \<Rightarrow> json result"
  w_url :: url_parser

definition thrown :: "'a result \<Rightarrow> reconciliation_error + 'a" where
  "thrown r = (case r of Inl e \<Rightarrow> Inl (Thrown e) | Inr x \<Rightarrow> Inr x)"

definition lift_result :: "'a result \<Rightarrow> ('h, 'a) recon" where
  "lift_result r = (case r of Inl e \<Rightarrow> step_throw (Thrown e) | Inr x \<Rightarrow> step_return x)"

definition fail_with :: "string \<Rightarrow> ('h, 'a) recon" where
  "fail_with message = step_throw (Thrown (PlainError message))"

text \<open>A statement that writes, logged with the database before and after.\<close>

definition writing ::
    "'h world \<Rightarrow> (fresh_values \<Rightarrow> clock \<Rightarrow> db \<Rightarrow> (reconciliation_error + 'a) \<times> db) \<Rightarrow> ('h, 'a) recon" where
  "writing W f s =
     (let (ck, others) = w_turns W (ss_tick s);
          before = others (ss_db s);
          (r, after) = f (w_fresh W (ss_tick s)) ck before
      in (r, s\<lparr>ss_db := after, ss_tick := ss_tick s + 1, ss_log := ss_log s @ [Wrote before after]\<rparr>))"

definition getHostForWorker :: "'h world \<Rightarrow> uuid \<Rightarrow> ('h, host_connection) recon" where
  "getHostForWorker W hostId = reading (w_turns W) (\<lambda>_ s. thrown (w_getHost W hostId s))"

definition heartbeat :: "'h world \<Rightarrow> ambiguous_row \<Rightarrow> reconciliation_claim \<Rightarrow> ('h, unit) recon" where
  "heartbeat W row claim = writing W (\<lambda>_ ck s.
     case heartbeatReconciliation (cl_token claim) (ar_id row) ck s of
       (renewed, s') \<Rightarrow> (if renewed then Inr () else Inl (ReconciliationClaimLost (ar_id row)), s'))"

definition ssh_command :: "'h world \<Rightarrow> uuid \<Rightarrow> string \<Rightarrow> int \<Rightarrow> ('h, command_result) recon" where
  "ssh_command W hostId command timeoutMs =
     call (w_ssh W hostId command timeoutMs) (\<lambda>r _. Commanded hostId command r) thrown"

definition agent_command :: "'h world \<Rightarrow> uuid \<Rightarrow> string \<Rightarrow> int \<Rightarrow> ('h, command_result) recon" where
  "agent_command W hostId command timeoutMs =
     call (w_agentDocker W hostId command timeoutMs) (\<lambda>r _. Commanded hostId command r) thrown"

definition check_code :: "string \<Rightarrow> command_result \<Rightarrow> ('h, command_result) recon" where
  "check_code message result =
     (if cr_code result \<noteq> 0 then fail_with (first_text (cr_stderr result) (cr_stdout result) message) else step_return result)"

section \<open>Proof of the end of a remote operation\<close>

definition terminalRemoteState :: "string \<Rightarrow> bool" where
  "terminalRemoteState state \<longleftrightarrow> state = ''completed'' \<or> state = ''failed'' \<or> state = ''timed_out''"

definition inspect_call ::
    "(uuid \<Rightarrow> string \<Rightarrow> 'h \<Rightarrow> string result \<times> 'h) \<Rightarrow> uuid \<Rightarrow> string \<Rightarrow> ('h, string) recon" where
  "inspect_call run hostId operationId = call (run hostId operationId) (\<lambda>r _. Inspected hostId operationId r) thrown"

definition inspectRemoteOperationProofOnHost ::
    "'h world \<Rightarrow> ('h, unit) recon \<Rightarrow> uuid \<Rightarrow> remote_mutation_proof \<Rightarrow> ('h, string) recon" where
  "inspectRemoteOperationProofOnHost W beat hostId proof =
     step_bind beat (\<lambda>_.
     step_bind (getHostForWorker W hostId) (\<lambda>host.
     if rm_transport proof = ''agent''
     then if hc_connectionMode host \<noteq> ''agent'' \<or> \<not> hc_agent host then step_return ''missing''
          else step_bind (inspect_call (w_inspectAgent W) hostId (rm_operationId proof)) (\<lambda>status.
               step_bind beat (\<lambda>_. step_return status))
     else if hc_connectionMode host \<noteq> ''ssh'' then step_return ''missing''
          else step_bind (inspect_call (w_inspectSsh W) hostId (rm_operationId proof)) (\<lambda>status.
               step_bind beat (\<lambda>_. step_return status))))"

definition matching_proof :: "ambiguous_row \<Rightarrow> remote_mutation_proof option" where
  "matching_proof row =
     (case remoteMutationProofFromResult (j_result (ar_job row)) of
        None \<Rightarrow> None
      | Some p \<Rightarrow> if rm_jobId p \<noteq> ar_id row \<or> rm_attemptCount p \<noteq> int (j_attempt_count (ar_job row)) then None else Some p)"

definition proof_hosts :: "ambiguous_row \<Rightarrow> mutation_scope option \<Rightarrow> uuid list" where
  "proof_hosts row scope = (case scope of
     None \<Rightarrow> [ar_host_id row] | Some sc \<Rightarrow> if ms_hostIds sc = [] then [ar_host_id row] else ms_hostIds sc)"

definition requireTerminalRemoteOperationProof ::
    "'h world \<Rightarrow> ambiguous_row \<Rightarrow> ('h, unit) recon \<Rightarrow> ('h, remote_operation) recon" where
  "requireTerminalRemoteOperationProof W row beat =
     (case matching_proof row of
        None \<Rightarrow> fail_with ''Durable remote-operation proof is absent or does not match this exact job attempt''
      | Some proof \<Rightarrow>
          if rm_status proof = ''terminal''
          then step_return \<lparr>ro_source = ''operation_job'', ro_operationId = Some (rm_operationId proof), ro_phase = rm_phase proof,
                 ro_transport = Some (rm_transport proof), ro_hostId = None, ro_state = rm_terminalState proof\<rparr>
          else
            step_bind (lift_result (scopeFromRow row)) (\<lambda>scope.
            step_bind (step_map (\<lambda>hostId. step_bind (inspectRemoteOperationProofOnHost W beat hostId proof)
                         (\<lambda>status. step_return (hostId, status))) (proof_hosts row scope)) (\<lambda>statuses.
            if list_ex (\<lambda>(_, status). status = ''running'') statuses
            then fail_with (''Remote operation '' @ rm_operationId proof @ '' is still running; target inspection remains locked'')
            else case find (\<lambda>(_, status). terminalRemoteState status) statuses of
              None \<Rightarrow> fail_with (''Remote operation '' @ rm_operationId proof @ '' has no authoritative terminal proof'')
            | Some (hostId, status) \<Rightarrow> step_return \<lparr>ro_source = rm_transport proof, ro_operationId = Some (rm_operationId proof),
                ro_phase = rm_phase proof, ro_transport = Some (rm_transport proof), ro_hostId = Some hostId, ro_state = Some status\<rparr>)))"

definition operation_json :: "remote_operation \<Rightarrow> json" where
  "operation_json ro = JObj ([(''source'', JStr (ro_source ro))]
     @ (case ro_operationId ro of None \<Rightarrow> [] | Some v \<Rightarrow> [(''operationId'', JStr v)])
     @ [(''phase'', JStr (ro_phase ro)), (''transport'', opt_json (ro_transport ro))]
     @ (case ro_hostId ro of None \<Rightarrow> [] | Some v \<Rightarrow> [(''hostId'', JStr v)])
     @ (case ro_state ro of None \<Rightarrow> [] | Some v \<Rightarrow> [(''state'', JStr v)]))"

section \<open>Other owners of the target\<close>

definition canonicalizeScope :: "'h world \<Rightarrow> mutation_scope \<Rightarrow> ('h, mutation_scope) recon" where
  "canonicalizeScope W scope = reading (w_turns W) (\<lambda>_ s. Inr (canonicalizeDockerMutationScope (d_snapshots s) scope))"

fun any_owner :: "'h world \<Rightarrow> mutation_scope \<Rightarrow> ambiguous_row list \<Rightarrow> ('h, bool) recon" where
  "any_owner W canonicalRequested [] = step_return False"
| "any_owner W canonicalRequested (row # rows) =
     step_bind (lift_result (scopeFromRow row)) (\<lambda>candidate.
     case candidate of
       None \<Rightarrow> any_owner W canonicalRequested rows
     | Some sc \<Rightarrow> step_bind (canonicalizeScope W sc) (\<lambda>canonicalCandidate.
         if dockerMutationScopesConflict canonicalRequested canonicalCandidate then step_return True
         else any_owner W canonicalRequested rows))"

definition hasActiveMutationForScope :: "'h world \<Rightarrow> uuid \<Rightarrow> mutation_scope \<Rightarrow> ('h, bool) recon" where
  "hasActiveMutationForScope W failedJobId requestedScope =
     step_bind (reading (w_turns W) (\<lambda>_ s. Inr (active_mutations failedJobId (ms_hostIds requestedScope) s))) (\<lambda>active.
     step_bind (canonicalizeScope W requestedScope) (\<lambda>canonicalRequested.
     any_owner W canonicalRequested active))"

section \<open>Inspections\<close>

definition backslashed :: "char \<Rightarrow> string" where
  "backslashed c = [CHR 0x5C, c]"

definition single_quoted :: "string \<Rightarrow> string" where
  "single_quoted t = [quote_mark] @ t @ [quote_mark]"

definition double_quoted :: "string \<Rightarrow> string" where
  "double_quoted t = [CHR 0x22] @ t @ [CHR 0x22]"

text \<open>\<^verbatim>\<open>services/files.ts\<close>\<close>

definition stat_command :: "string \<Rightarrow> string" where
  "stat_command normalized =
     (let q = shQuote normalized; tab = backslashed (CHR ''t''); nl = backslashed (CHR ''n'') in join_with '' ''
       [''if test -f '' @ q @ ''; then printf '' @ single_quoted (''file'' @ tab @ ''%s'' @ nl) @ '' ''
          @ double_quoted (''$(wc -c < '' @ q @ '')'') @ '';'',
        ''elif test -d '' @ q @ ''; then printf '' @ single_quoted (''directory'' @ tab @ ''0'' @ nl) @ '';'',
        ''elif test -e '' @ q @ ''; then printf '' @ single_quoted (''other'' @ tab @ ''0'' @ nl) @ '';'',
        ''else printf '' @ single_quoted (''missing'' @ tab @ ''0'' @ nl) @ ''; fi''])"

text \<open>\<^verbatim>\<open>Number(size) || 0\<close> on the output of a character count.\<close>

definition size_number :: "string \<Rightarrow> int" where
  "size_number t = (let d = trim t in if d \<noteq> [] \<and> list_all is_digit d then int (digits_value d) else 0)"

definition tab_fields :: "string \<Rightarrow> string list" where
  "tab_fields out = split_on (CHR 0x09) (trim out)"

definition parse_stat :: "string \<Rightarrow> string \<Rightarrow> path_stat" where
  "parse_stat normalized out =
     (let fields = tab_fields out;
          type = (case fields of [] \<Rightarrow> ''missing'' | w # _ \<Rightarrow> w);
          size = (case fields of _ # w # _ \<Rightarrow> w | _ \<Rightarrow> ''0'')
      in \<lparr>ps_path = normalized, ps_exists = (type \<noteq> ''missing''), ps_type = (if type = ''missing'' then None else Some type),
          ps_size = (if type = ''file'' then Some (size_number size) else None)\<rparr>)"

definition stat_call ::
    "(uuid \<Rightarrow> string \<Rightarrow> 'h \<Rightarrow> path_stat result \<times> 'h) \<Rightarrow> uuid \<Rightarrow> string \<Rightarrow> ('h, path_stat) recon" where
  "stat_call run hostId filePath = call (run hostId filePath) (\<lambda>r _. Statted hostId filePath r) thrown"

definition statHostPath :: "'h world \<Rightarrow> uuid \<Rightarrow> string \<Rightarrow> ('h, path_stat) recon" where
  "statHostPath W hostId filePath =
     step_bind (getHostForWorker W hostId) (\<lambda>host.
     if ''demo'' \<in> set (hc_tags host) then stat_call (w_demoStat W) hostId filePath
     else step_bind (lift_result (normalizeRemotePath filePath)) (\<lambda>normalized.
       if hc_connectionMode host = ''agent''
       then if \<not> hc_agent host then fail_with ''Agent host is missing agent connection details''
            else stat_call (w_agentStat W) hostId normalized
       else step_bind (ssh_command W hostId (stat_command normalized) 30000) (\<lambda>result.
            step_bind (check_code ''Failed to stat path'' result) (\<lambda>_.
            step_return (parse_stat normalized (cr_stdout result))))))"

definition stat_json :: "path_stat \<Rightarrow> json" where
  "stat_json st = JObj [(''path'', JStr (ps_path st)), (''exists'', JBool (ps_exists st)), (''type'', opt_json (ps_type st)),
     (''size'', (case ps_size st of None \<Rightarrow> JNull | Some n \<Rightarrow> JNum n))]"

definition beaten_stat :: "'h world \<Rightarrow> ('h, unit) recon \<Rightarrow> uuid \<Rightarrow> string \<Rightarrow> ('h, path_stat) recon" where
  "beaten_stat W beat hostId filePath =
     step_bind beat (\<lambda>_. step_bind (statHostPath W hostId filePath) (\<lambda>st. step_bind beat (\<lambda>_. step_return st)))"

definition runDockerInspection :: "'h world \<Rightarrow> ('h, unit) recon \<Rightarrow> uuid \<Rightarrow> string \<Rightarrow> ('h, command_result) recon" where
  "runDockerInspection W beat hostId command =
     step_bind beat (\<lambda>_.
     step_bind (getHostForWorker W hostId) (\<lambda>host.
     step_bind (if hc_connectionMode host = ''agent''
                then if hc_agent host then agent_command W hostId command 60000
                     else fail_with ''Agent host is missing agent connection details''
                else ssh_command W hostId (withDockerEnv command (Some (hc_dockerSocketPath host))) 60000) (\<lambda>result.
     step_bind beat (\<lambda>_. check_code ''Docker target inspection failed'' result))))"

fun all_results :: "'a result list \<Rightarrow> 'a list result" where
  "all_results [] = Inr []"
| "all_results (r # rs) = and_then r (\<lambda>x. and_then (all_results rs) (\<lambda>xs. Inr (x # xs)))"

text \<open>Docker prints one object per line; any other value counts as a row without columns.\<close>

definition parseDockerRows :: "'h world \<Rightarrow> string \<Rightarrow> (string \<times> json) list list result" where
  "parseDockerRows W stdout =
     and_then (all_results (map (w_parseJson W) (filter (\<lambda>line. line \<noteq> []) (map trim (split_on (CHR 0x0A) stdout)))))
       (\<lambda>rows. Inr (map (\<lambda>row. objectFields (Some row)) rows))"

definition column :: "(string \<times> json) list \<Rightarrow> string \<Rightarrow> string" where
  "column row k = string_or_empty (get_prop row k)"

definition drop_slash :: "string \<Rightarrow> string" where
  "drop_slash v = (case v of c # cs \<Rightarrow> if c = CHR ''/'' then cs else v | [] \<Rightarrow> [])"

definition dockerRowIdentities :: "mutation_target_kind \<Rightarrow> (string \<times> json) list \<Rightarrow> string list" where
  "dockerRowIdentities kind row = filter (\<lambda>v. v \<noteq> [])
     (case kind of
        Container \<Rightarrow> [column row ''ID'', drop_slash (column row ''Names'')]
      | Image \<Rightarrow>
          (let repository = column row ''Repository''; tag = column row ''Tag'' in
           [column row ''ID'', if repository \<noteq> [] \<and> tag \<noteq> [] then repository @ '':'' @ tag else [], column row ''Digest''])
      | Network \<Rightarrow> [column row ''ID'', column row ''Name'']
      | _ \<Rightarrow> [column row ''Name''])"

definition safeDockerRow :: "mutation_target_kind \<Rightarrow> (string \<times> json) list \<Rightarrow> json" where
  "safeDockerRow kind row = JObj (map (\<lambda>(k, v). (k, JStr v))
     (case kind of
        Container \<Rightarrow> [(''id'', column row ''ID''), (''name'', drop_slash (column row ''Names'')), (''image'', column row ''Image''),
          (''state'', column row ''State''), (''status'', column row ''Status'')]
      | Image \<Rightarrow> [(''id'', column row ''ID''), (''repository'', column row ''Repository''), (''tag'', column row ''Tag''),
          (''digest'', column row ''Digest'')]
      | Network \<Rightarrow> [(''id'', column row ''ID''), (''name'', column row ''Name''), (''driver'', column row ''Driver''),
          (''scope'', column row ''Scope'')]
      | _ \<Rightarrow> [(''name'', column row ''Name''), (''driver'', column row ''Driver''), (''scope'', column row ''Scope'')]))"

definition inventoryCommands :: "mutation_target_kind \<Rightarrow> string" where
  "inventoryCommands kind = (case kind of
     Container \<Rightarrow> ''docker ps --all --size --no-trunc --format '' @ single_quoted ''{{json .}}''
   | Image \<Rightarrow> ''docker image ls --all --no-trunc --digests --format '' @ single_quoted ''{{json .}}''
   | Network \<Rightarrow> ''docker network ls --no-trunc --format '' @ single_quoted ''{{json .}}''
   | _ \<Rightarrow> ''docker volume ls --format '' @ single_quoted ''{{json .}}'')"

text \<open>The parts are joined by blanks, as the source joins them.\<close>

definition git_command :: "string \<Rightarrow> string" where
  "git_command workingDir = join_with '' ''
     [''cd '' @ shQuote workingDir,
      ''if test -d .git; then'',
      ''remote=$(git remote get-url origin 2>/dev/null || true);'',
      ''commit=$(git rev-parse HEAD 2>/dev/null || true);'',
      ''printf '' @ single_quoted (''%s'' @ backslashed (CHR ''t'') @ ''%s'' @ backslashed (CHR ''n'')) @ '' ''
        @ double_quoted ''$remote'' @ '' '' @ double_quoted ''$commit'' @ '';'',
      ''fi'']"

definition git_fields :: "string \<Rightarrow> string option \<times> string option" where
  "git_fields out =
     (let fields = tab_fields out in
      (nonempty (first_row fields), nonempty (first_row (tl fields))))"

definition git_json :: "externs \<Rightarrow> string option \<times> string option \<Rightarrow> json" where
  "git_json X g = x_sanitizeFields X (JObj [(''repositoryUrl'', opt_json (fst g)), (''currentCommitSha'', opt_json (snd g))])"

definition read_git :: "'h world \<Rightarrow> ('h, unit) recon \<Rightarrow> uuid \<Rightarrow> string \<Rightarrow> ('h, string option \<times> string option) recon" where
  "read_git W beat hostId workingDir =
     step_bind (ssh_command W hostId (git_command workingDir) 30000) (\<lambda>inspected.
     step_bind beat (\<lambda>_.
     step_bind (check_code ''Could not inspect the Git working tree'' inspected) (\<lambda>_.
     step_return (git_fields (cr_stdout inspected)))))"

definition index_lock :: "string \<Rightarrow> string" where
  "index_lock workingDir = path_normalize (join_with ''/'' (filter (\<lambda>w. w \<noteq> []) [workingDir, ''.git'', ''index.lock'']))"

definition git_locked :: "('h, 'a) recon" where
  "git_locked = fail_with ''Git index remains locked; remote outcome is not yet safe to reconcile''"

definition inspectGitPath :: "'h world \<Rightarrow> ('h, unit) recon \<Rightarrow> uuid \<Rightarrow> string \<Rightarrow> ('h, json) recon" where
  "inspectGitPath W beat hostId workingDir =
     step_bind beat (\<lambda>_.
     step_bind (statHostPath W hostId workingDir) (\<lambda>directory.
     step_bind beat (\<lambda>_.
     step_bind (statHostPath W hostId (index_lock workingDir)) (\<lambda>indexLock.
     step_bind beat (\<lambda>_.
     if ps_exists indexLock then git_locked
     else step_bind (getHostForWorker W hostId) (\<lambda>host.
       step_bind (if ps_exists directory \<and> hc_connectionMode host = ''ssh''
                  then step_bind (read_git W beat hostId workingDir) (\<lambda>g. step_return (git_json (w_externs W) g))
                  else step_return JNull) (\<lambda>git.
       step_return (JObj [(''path'', JStr workingDir), (''exists'', JBool (ps_exists directory)), (''type'', opt_json (ps_type directory)),
         (''gitIndexLocked'', JBool False), (''git'', git)]))))))))"

definition dockerMutationScopeEvidence :: "mutation_scope \<Rightarrow> json" where
  "dockerMutationScopeEvidence scope = encode_scope scope"

definition rows_of :: "'h world \<Rightarrow> ('h, unit) recon \<Rightarrow> uuid \<Rightarrow> string \<Rightarrow> ('h, (string \<times> json) list list) recon" where
  "rows_of W beat hostId command =
     step_bind (runDockerInspection W beat hostId command) (\<lambda>result. lift_result (parseDockerRows W (cr_stdout result)))"

definition count_json :: "nat \<Rightarrow> json" where
  "count_json n = JNum (int n)"

definition inspectKind ::
    "'h world \<Rightarrow> ('h, unit) recon \<Rightarrow> uuid \<Rightarrow> mutation_target list \<Rightarrow> mutation_target_kind \<Rightarrow> ('h, string \<times> json) recon" where
  "inspectKind W beat hostId hostTargets kind =
     step_bind (rows_of W beat hostId (inventoryCommands kind)) (\<lambda>rows.
     let values = map mt_value (filter (\<lambda>t. mt_kind t = kind) hostTargets);
         matches = filter (\<lambda>item. ''*'' \<in> set values \<or> list_ex (\<lambda>i. i \<in> set values) (dockerRowIdentities kind item)) rows
     in step_return (kind_name kind, JObj [(''inventoryCount'', count_json (length rows)), (''matchedCount'', count_json (length matches)),
          (''matches'', JArr (map (safeDockerRow kind) (take 50 matches))), (''truncated'', JBool (50 < length matches))]))"

definition inspectDocker ::
    "'h world \<Rightarrow> ('h, unit) recon \<Rightarrow> uuid \<Rightarrow> mutation_target list \<Rightarrow> ('h, (string \<times> json) list) recon" where
  "inspectDocker W beat hostId hostTargets =
     (let requestedKinds = filter (\<lambda>kind. list_ex (\<lambda>t. mt_kind t = kind) hostTargets) [Container, Image, Network, Volume] in
      if requestedKinds = [] \<and> \<not> list_ex (\<lambda>t. mt_kind t = RegistryAuth) hostTargets then step_return []
      else step_bind (runDockerInspection W beat hostId (''docker info --format '' @ single_quoted ''{{json .ServerVersion}}'')) (\<lambda>info.
        let text = trim (cr_stdout info);
            serverVersion = (case w_parseJson W text of Inl _ \<Rightarrow> text | Inr j \<Rightarrow> string_or_empty (Some j))
        in step_bind (step_map (inspectKind W beat hostId hostTargets) requestedKinds) (\<lambda>kinds.
           step_return ((''serverVersion'', JStr serverVersion) # kinds))))"

definition inspectHost ::
    "'h world \<Rightarrow> ('h, unit) recon \<Rightarrow> ambiguous_row \<Rightarrow> mutation_scope \<Rightarrow> uuid \<Rightarrow> ('h, json) recon" where
  "inspectHost W beat row scope hostId =
     (let hostTargets = filter (\<lambda>t. mt_hostId t = hostId) (ms_targets scope) in
      step_bind (step_map (\<lambda>t. if ar_type row = ''git.clone'' \<or> ar_type row = ''git.pull'' then inspectGitPath W beat hostId (mt_value t)
                   else step_bind (beaten_stat W beat hostId (mt_value t)) (\<lambda>st. step_return (stat_json st)))
                 (filter (\<lambda>t. mt_kind t = HostPath) hostTargets)) (\<lambda>pathEvidence.
      step_bind (inspectDocker W beat hostId hostTargets) (\<lambda>dockerEvidence.
      step_return (JObj [(''hostId'', JStr hostId), (''paths'', JArr pathEvidence), (''docker'', JObj dockerEvidence)]))))"

definition inspectGenericMutation ::
    "'h world \<Rightarrow> ('h, unit) recon \<Rightarrow> ambiguous_row \<Rightarrow> mutation_scope \<Rightarrow> ('h, json) recon" where
  "inspectGenericMutation W beat row scope =
     step_bind (step_map (inspectHost W beat row scope) (ms_hostIds scope)) (\<lambda>hosts.
     step_bind (process_time (w_turns W)) (\<lambda>now.
     step_return (x_sanitizeFields (w_externs W) (JObj [(''inspectedAt'', ts_json now),
       (''scope'', dockerMutationScopeEvidence scope), (''hosts'', JArr hosts)]))))"

section \<open>Registry trust\<close>

definition dockerRuntimeTrust :: "url_parser \<Rightarrow> json \<Rightarrow> string \<Rightarrow> bool" where
  "dockerRuntimeTrust url indexConfigs registry =
     list_ex (\<lambda>(authority, raw). normalized_registry url (Some (JStr authority)) = Inr registry
       \<and> get_prop (objectFields (Some raw)) ''Secure'' = Some (JBool False)) (objectFields (Some indexConfigs))"

definition daemon_command :: string where
  "daemon_command = ''if sudo -n test -f /etc/docker/daemon.json; then sudo -n cat /etc/docker/daemon.json; else printf ''
     @ single_quoted ''{}'' @ ''; fi''"

definition index_command :: string where
  "index_command = ''docker info --format '' @ single_quoted ''{{json .RegistryConfig.IndexConfigs}}''"

definition text_or_object :: "string \<Rightarrow> string" where
  "text_or_object out = (if out = [] then ''{}'' else out)"

definition configured_authorities :: "url_parser \<Rightarrow> (string \<times> json) list \<Rightarrow> string list" where
  "configured_authorities url daemonConfig =
     (case as_array (get_prop daemonConfig ''insecure-registries'') of
        None \<Rightarrow> []
      | Some vs \<Rightarrow> concat (map (\<lambda>v. case v of
            JStr t \<Rightarrow> (case normalized_registry url (Some (JStr t)) of Inl _ \<Rightarrow> [] | Inr a \<Rightarrow> [a])
          | _ \<Rightarrow> []) vs))"

definition inspectRegistryTrustRemoteOutcome ::
    "'h world \<Rightarrow> ('h, unit) recon \<Rightarrow> uuid \<Rightarrow> string \<Rightarrow> ('h, json) recon" where
  "inspectRegistryTrustRemoteOutcome W beat hostId registryInput =
     step_bind (lift_result (normalized_registry (w_url W) (Some (JStr registryInput)))) (\<lambda>registry.
     if registry = [] then fail_with ''Registry trust target metadata is incomplete''
     else step_bind beat (\<lambda>_.
       step_bind (getHostForWorker W hostId) (\<lambda>host.
       if hc_connectionMode host \<noteq> ''ssh'' then fail_with ''Registry trust reconciliation requires the original SSH host''
       else step_bind (ssh_command W hostId daemon_command 30000) (\<lambda>daemon.
         step_bind beat (\<lambda>_.
         step_bind (check_code ''Could not inspect Docker daemon configuration'' daemon) (\<lambda>_.
         case w_parseJson W (text_or_object (cr_stdout daemon)) of
           Inr (JObj daemonConfig) \<Rightarrow>
             step_bind (ssh_command W hostId (withDockerEnv index_command (Some (hc_dockerSocketPath host))) 60000) (\<lambda>docker.
             step_bind beat (\<lambda>_.
             step_bind (check_code ''Docker is not ready'' docker) (\<lambda>_.
             case w_parseJson W (text_or_object (trim (cr_stdout docker))) of
               Inl _ \<Rightarrow> fail_with ''Docker returned malformed registry trust state''
             | Inr indexConfigs \<Rightarrow>
                 let daemonConfigured = registry \<in> set (configured_authorities (w_url W) daemonConfig);
                     runtimeTrusted = dockerRuntimeTrust (w_url W) indexConfigs registry in
                 if daemonConfigured \<noteq> runtimeTrusted
                 then fail_with ''Docker daemon configuration and running registry trust state do not agree''
                 else step_bind (process_time (w_turns W)) (\<lambda>now.
                   step_return (JObj [(''inspectedAt'', ts_json now), (''hostId'', JStr hostId), (''registry'', JStr registry),
                     (''dockerReady'', JBool True), (''daemonConfigured'', JBool daemonConfigured),
                     (''runtimeTrusted'', JBool runtimeTrusted)])))))
         | _ \<Rightarrow> fail_with ''Docker daemon configuration is not valid JSON''))))))"

text \<open>\<^verbatim>\<open>services/registryTrustArtifacts.ts\<close>\<close>

definition is_hex_any :: "char \<Rightarrow> bool" where
  "is_hex_any c = is_hex (lower_char c)"

definition uuid_text :: "string \<Rightarrow> bool" where
  "uuid_text v \<longleftrightarrow> length v = 36
     \<and> list_all (\<lambda>i. if i \<in> {8, 13, 18, 23} then v ! i = CHR ''-'' else is_hex_any (v ! i)) [0..<36]
     \<and> v ! 14 \<in> set ''12345678'' \<and> lower_char (v ! 19) \<in> set ''89ab''"

definition registryTrustArtifactPaths :: "uuid \<Rightarrow> nat \<Rightarrow> (string \<times> string) result" where
  "registryTrustArtifactPaths jobId attemptCount =
     (if \<not> uuid_text jobId then Inl (PlainError ''Registry trust artifact ownership requires a valid job id.'')
      else if attemptCount < 1 \<or> attemptCount > 1000
      then Inl (PlainError ''Registry trust artifact ownership requires a valid job attempt.'')
      else let owner = jobId @ ''-'' @ show_nat attemptCount in
        Inr (''/tmp/composebastion-daemon-'' @ owner @ ''.json'', ''/etc/docker/daemon.json.composebastion-'' @ owner @ ''.bak''))"

definition remove_candidate_command :: "string \<Rightarrow> string" where
  "remove_candidate_command candidatePath =
     (let q = shQuote candidatePath; nl = backslashed (CHR ''n'') in join_with '' && ''
       [''if [ -L '' @ q @ '' ]; then exit 73; fi'',
        ''if [ ! -e '' @ q @ '' ]; then printf '' @ single_quoted (''absent'' @ nl) @ ''; exit 0; fi'',
        ''test -f '' @ q,
        ''test '' @ double_quoted (''$(stat -c %u -- '' @ q @ '')'') @ '' = '' @ double_quoted ''$(id -u)'',
        ''rm -f -- '' @ q,
        ''test ! -e '' @ q @ '' && test ! -L '' @ q,
        ''printf '' @ single_quoted (''removed'' @ nl)])"

definition cleanupRegistryTrustCandidate ::
    "'h world \<Rightarrow> ('h, unit) recon \<Rightarrow> uuid \<Rightarrow> uuid \<Rightarrow> nat \<Rightarrow> ('h, json) recon" where
  "cleanupRegistryTrustCandidate W beat hostId jobId attemptCount =
     step_bind (lift_result (registryTrustArtifactPaths jobId attemptCount)) (\<lambda>(candidatePath, _).
     step_bind beat (\<lambda>_.
     step_bind (getHostForWorker W hostId) (\<lambda>host.
     if hc_connectionMode host \<noteq> ''ssh'' then fail_with ''Registry trust candidate cleanup requires the original SSH host''
     else step_bind (ssh_command W hostId (remove_candidate_command candidatePath) 30000) (\<lambda>cleanup.
       step_bind beat (\<lambda>_.
       step_bind (check_code ''Could not remove the owned registry trust candidate'' cleanup) (\<lambda>_.
       step_return (JObj [(''state'', JStr (if trim (cr_stdout cleanup) = ''removed'' then ''removed'' else ''absent''))])))))))"

section \<open>Inspection of a deployment target\<close>

text \<open>\<^verbatim>\<open>Promise.all\<close>: every promise runs, and the first failure is thrown.\<close>

definition attempted :: "('h, 'a) recon \<Rightarrow> ('h, reconciliation_error + 'a) recon" where
  "attempted m s = (case m s of (r, s') \<Rightarrow> (Inr r, s'))"

definition outcome_of :: "reconciliation_error + 'a \<Rightarrow> ('h, 'a) recon" where
  "outcome_of r = (case r of Inl e \<Rightarrow> step_throw e | Inr x \<Rightarrow> step_return x)"

definition stat_all :: "'h world \<Rightarrow> uuid \<Rightarrow> string list \<Rightarrow> ('h, path_stat list) recon" where
  "stat_all W hostId paths =
     step_bind (step_map (\<lambda>p. attempted (statHostPath W hostId p)) paths) (\<lambda>results. step_map outcome_of results)"

definition projectFilter :: "string \<Rightarrow> string" where
  "projectFilter projectName = ''--filter '' @ shQuote (''label=com.docker.compose.project='' @ projectName)"

definition json_format :: string where
  "json_format = ''--format '' @ single_quoted ''{{json .}}''"

definition sample_of :: "mutation_target_kind \<Rightarrow> (string \<times> json) list list \<Rightarrow> json" where
  "sample_of kind rows = JArr (map (safeDockerRow kind) (take 100 rows))"

definition project_json ::
    "(string \<times> json) list list \<Rightarrow> (string \<times> json) list list \<Rightarrow> (string \<times> json) list list \<Rightarrow> (string \<times> json) list list \<Rightarrow> json" where
  "project_json containers networks volumes images = JObj
     [(''containerCount'', count_json (length containers)),
      (''states'', JArr (map JStr (sorted_set (filter (\<lambda>v. v \<noteq> []) (map (\<lambda>row. column row ''State'') containers))))),
      (''containers'', sample_of Container containers), (''containersTruncated'', JBool (100 < length containers)),
      (''networkCount'', count_json (length networks)), (''networks'', sample_of Network networks),
      (''networksTruncated'', JBool (100 < length networks)),
      (''volumeCount'', count_json (length volumes)), (''volumes'', sample_of Volume volumes),
      (''volumesTruncated'', JBool (100 < length volumes)),
      (''referencedImageCount'', count_json (length images)), (''images'', sample_of Image images),
      (''imagesTruncated'', JBool (100 < length images))]"

definition inspectProject ::
    "'h world \<Rightarrow> ('h, unit) recon \<Rightarrow> remote_outcome_target \<Rightarrow> ('h, json) recon" where
  "inspectProject W beat tgt =
     (let only = projectFilter (rt_projectName tgt) in
      step_bind (rows_of W beat (rt_hostId tgt) (join_with '' '' [''docker ps --all'', only, ''--no-trunc'', json_format])) (\<lambda>containers.
      step_bind (rows_of W beat (rt_hostId tgt) (join_with '' '' [''docker network ls'', only, ''--no-trunc'', json_format])) (\<lambda>networks.
      step_bind (rows_of W beat (rt_hostId tgt) (join_with '' '' [''docker volume ls'', only, json_format])) (\<lambda>volumes.
      let referencedImages = filter (\<lambda>v. v \<noteq> []) (map (\<lambda>row. column row ''Image'') containers) in
      step_bind (if referencedImages = [] then step_return []
                 else step_bind (rows_of W beat (rt_hostId tgt) (inventoryCommands Image)) (\<lambda>rows.
                   step_return (filter (\<lambda>row. list_ex (\<lambda>i. i \<in> set referencedImages) (dockerRowIdentities Image row)) rows))) (\<lambda>images.
      step_return (project_json containers networks volumes images))))))"

definition inspectGit ::
    "'h world \<Rightarrow> ('h, unit) recon \<Rightarrow> host_connection \<Rightarrow> remote_outcome_target \<Rightarrow> path_stat \<Rightarrow> ('h, json) recon" where
  "inspectGit W beat host tgt directory =
     (if hc_connectionMode host = ''ssh'' \<and> ps_exists directory
      then step_bind (read_git W beat (rt_hostId tgt) (rt_workingDir tgt)) (\<lambda>g.
        step_return (if fst g \<noteq> None \<or> snd g \<noteq> None then git_json (w_externs W) g else JNull))
      else step_return JNull)"

definition inspectRemoteOutcomeTarget ::
    "'h world \<Rightarrow> ('h, unit) recon \<Rightarrow> remote_outcome_target \<Rightarrow> ('h, json) recon" where
  "inspectRemoteOutcomeTarget W beat tgt =
     step_bind beat (\<lambda>_.
     step_bind (getHostForWorker W (rt_hostId tgt)) (\<lambda>host.
     step_bind (stat_all W (rt_hostId tgt) [rt_workingDir tgt, rt_composePath tgt, index_lock (rt_workingDir tgt)]) (\<lambda>stats.
     step_bind beat (\<lambda>_.
     case stats of
       [directory, composeFile, gitIndexLock] \<Rightarrow>
         if ps_exists gitIndexLock then git_locked
         else step_bind (inspectProject W beat tgt) (\<lambda>composeProject.
           step_bind (inspectGit W beat host tgt directory) (\<lambda>git.
           step_bind (process_time (w_turns W)) (\<lambda>now.
           step_return (x_sanitizeFields (w_externs W) (JObj
             [(''inspectedAt'', ts_json now), (''hostId'', JStr (rt_hostId tgt)), (''workingDir'', JStr (rt_workingDir tgt)),
              (''projectName'', JStr (rt_projectName tgt)), (''composePath'', JStr (rt_composePath tgt)),
              (''directoryExists'', JBool (ps_exists directory)), (''composeFileExists'', JBool (ps_exists composeFile)),
              (''gitIndexLocked'', JBool False), (''git'', git), (''composeProject'', composeProject)])))))
     | _ \<Rightarrow> fail_with ''unreachable''))))"

section \<open>Recording the outcome\<close>

definition persistReconciliationPending ::
    "'h world \<Rightarrow> ambiguous_row \<Rightarrow> reconciliation_claim \<Rightarrow> string \<Rightarrow> ('h, nat \<times> nat) recon" where
  "persistReconciliationPending W row claim message =
     step_bind (process_time (w_turns W)) (\<lambda>now.
     step_bind (writing W (\<lambda>_ ck s. case persist_pending (w_externs W) row claim
         [(''inspectedAt'', ts_json now), (''error'', JStr message)] now ck s of (persisted, s') \<Rightarrow> (Inr persisted, s'))) (\<lambda>persisted.
     step_return (0, if persisted then 1 else 0)))"

definition persistReconciled ::
    "'h world \<Rightarrow> ambiguous_row \<Rightarrow> reconciliation_claim \<Rightarrow> detail \<Rightarrow> finalizer option \<Rightarrow> bool \<Rightarrow> ('h, bool) recon" where
  "persistReconciled W row claim detail finalize absent = writing W (\<lambda>fresh ck s.
     case persist_reconciled (w_externs W) row claim detail finalize absent fresh ck s of (r, s') \<Rightarrow> (thrown r, s'))"

text \<open>The hosts that may hold the marker of the operation; a scope that cannot be computed adds none.\<close>

definition marker_hosts :: "ambiguous_row \<Rightarrow> remote_operation \<Rightarrow> uuid list" where
  "marker_hosts row ro = uniq ([ar_host_id row]
     @ (case nonempty (as_string (ar_payload row ''targetHostId'')) of None \<Rightarrow> [] | Some h \<Rightarrow> [h])
     @ (case scopeFromRow row of Inr (Some sc) \<Rightarrow> ms_hostIds sc | _ \<Rightarrow> [])
     @ (case nonempty (ro_hostId ro) of None \<Rightarrow> [] | Some h \<Rightarrow> [h]))"

definition cleanup_marker :: "'h world \<Rightarrow> string \<Rightarrow> uuid \<Rightarrow> ('h, unit) recon" where
  "cleanup_marker W operationId hostId =
     step_catch (step_bind (getHostForWorker W hostId) (\<lambda>host.
         if hc_connectionMode host = ''ssh''
         then call (w_cleanupSsh W hostId operationId) (\<lambda>r _. Cleaned hostId operationId r) thrown
         else step_return ()))
       (\<lambda>_. step_return ())"

definition cleanupPersistedTerminalRemoteOperation :: "'h world \<Rightarrow> ambiguous_row \<Rightarrow> remote_operation \<Rightarrow> ('h, unit) recon" where
  "cleanupPersistedTerminalRemoteOperation W row ro =
     (case (ro_transport ro, ro_operationId ro) of
        (Some transport, Some operationId) \<Rightarrow>
          if transport \<noteq> ''ssh'' then step_return () else step_each (cleanup_marker W operationId) (marker_hosts row ro)
      | _ \<Rightarrow> step_return ())"

definition persistTerminalReconciliation ::
    "'h world \<Rightarrow> ambiguous_row \<Rightarrow> reconciliation_claim \<Rightarrow> remote_operation \<Rightarrow> detail \<Rightarrow> ('h, nat \<times> nat) recon" where
  "persistTerminalReconciliation W row claim ro detail =
     step_bind (persistReconciled W row claim detail (reconciledOutcomeFinalizer (w_externs W) (w_vault W) row ro) False) (\<lambda>persisted.
     if persisted
     then step_bind (cleanupPersistedTerminalRemoteOperation W row ro) (\<lambda>_. step_return (1, 0))
     else step_return (0, 0))"

section \<open>A pass\<close>

text \<open>\<^verbatim>\<open>services/operationLogs.ts\<close>: runs of line breaks and tabs become one blank, and the text is cut.\<close>

fun single_line :: "string \<Rightarrow> string" where
  "single_line [] = []"
| "single_line (c # s) =
     (if c \<in> set [CHR 0x0D, CHR 0x0A, CHR 0x09]
      then (case single_line s of d # r \<Rightarrow> if d = CHR '' '' \<and> s \<noteq> [] \<and> hd s \<in> set [CHR 0x0D, CHR 0x0A, CHR 0x09] then d # r else CHR '' '' # d # r
            | [] \<Rightarrow> [CHR '' ''])
      else c # single_line s)"

definition safeErrorMessage :: "exn \<Rightarrow> string" where
  "safeErrorMessage e = take 500 (single_line (exn_message e))"

text \<open>A lost claim ends the work on the row; any other failure is recorded for a later attempt.\<close>

definition retry_later ::
    "'h world \<Rightarrow> ambiguous_row \<Rightarrow> reconciliation_claim \<Rightarrow> reconciliation_error \<Rightarrow> ('h, nat \<times> nat) recon" where
  "retry_later W row claim e =
     (case e of
        ReconciliationClaimLost _ \<Rightarrow> step_return (0, 0)
      | Thrown x \<Rightarrow> persistReconciliationPending W row claim (x_sanitizeText (w_externs W) (safeErrorMessage x)))"

definition not_dispatched :: remote_operation where
  "not_dispatched = \<lparr>ro_source = ''operation_job'', ro_operationId = None, ro_phase = ''not_dispatched'', ro_transport = None,
     ro_hostId = None, ro_state = Some ''not_dispatched''\<rparr>"

definition no_dispatch_note :: string where
  "no_dispatch_note = ''No durable remote-mutation dispatch proof exists for this exact failed attempt; no remote mutation was launched.''"

definition reconcileUndispatched :: "'h world \<Rightarrow> ambiguous_row \<Rightarrow> reconciliation_claim \<Rightarrow> ('h, nat \<times> nat) recon" where
  "reconcileUndispatched W row claim =
     step_catch
       (step_bind (if ar_type row = ''host.configureRegistryTrust''
                   then step_bind (cleanupRegistryTrustCandidate W (heartbeat W row claim) (ar_host_id row) (ar_id row)
                          (j_attempt_count (ar_job row))) (\<lambda>c. step_return [(''registryTrustCandidateCleanup'', c)])
                   else step_return []) (\<lambda>cleanup.
        step_bind (process_time (w_turns W)) (\<lambda>now.
        step_bind (persistReconciled W row claim
            ([(''inspectedAt'', ts_json now), (''remoteOperation'', operation_json not_dispatched)] @ cleanup @ [(''note'', JStr no_dispatch_note)])
            (reconciledOutcomeFinalizer (w_externs W) (w_vault W) row not_dispatched) True) (\<lambda>persisted.
        step_return (if persisted then 1 else 0, 0)))))
       (retry_later W row claim)"

definition reconcileAnalysis ::
    "'h world \<Rightarrow> ambiguous_row \<Rightarrow> reconciliation_claim \<Rightarrow> remote_operation \<Rightarrow> ('h, nat \<times> nat) recon" where
  "reconcileAnalysis W row claim ro =
     step_bind (process_time (w_turns W)) (\<lambda>now.
     persistTerminalReconciliation W row claim ro [(''inspectedAt'', ts_json now), (''remoteOperation'', operation_json ro),
       (''note'', JStr ''The isolated analysis operation is terminal; no production deployment was executed.'')])"

definition reconcileRegistryTrust ::
    "'h world \<Rightarrow> ambiguous_row \<Rightarrow> reconciliation_claim \<Rightarrow> remote_operation \<Rightarrow> ('h, nat \<times> nat) recon" where
  "reconcileRegistryTrust W row claim ro =
     (let registry = (case normalized_registry (w_url W) (ar_payload row ''registry'') of Inl _ \<Rightarrow> [] | Inr a \<Rightarrow> a);
          beat = heartbeat W row claim in
      if registry = []
      then persistReconciliationPending W row claim ''Registry trust target metadata is incomplete and requires operator reconciliation''
      else step_bind beat (\<lambda>_.
        step_bind (reading (w_turns W) (\<lambda>_ s. Inr (hasActiveRegistryTrustOperation (w_url W) (ar_id row) (ar_host_id row) registry s))) (\<lambda>owned.
        if owned then persistReconciliationPending W row claim ''A newer registry trust operation still owns this target''
        else step_catch
          (step_bind (inspectRegistryTrustRemoteOutcome W beat (ar_host_id row) registry) (\<lambda>inspection.
           step_bind (cleanupRegistryTrustCandidate W beat (ar_host_id row) (ar_id row) (j_attempt_count (ar_job row))) (\<lambda>cleanup.
           persistTerminalReconciliation W row claim ro [(''inspection'', inspection), (''registryTrustCandidateCleanup'', cleanup)])))
          (retry_later W row claim))))"

definition reconcileInspected ::
    "'h world \<Rightarrow> ambiguous_row \<Rightarrow> reconciliation_claim \<Rightarrow> remote_operation \<Rightarrow> mutation_scope \<Rightarrow> ('h, json) recon \<Rightarrow> ('h, nat \<times> nat) recon" where
  "reconcileInspected W row claim ro scope inspect =
     step_bind (heartbeat W row claim) (\<lambda>_.
     step_bind (hasActiveMutationForScope W (ar_id row) scope) (\<lambda>owned.
     if owned then persistReconciliationPending W row claim ''A newer remote mutation still owns this target''
     else step_catch
       (step_bind inspect (\<lambda>inspection. persistTerminalReconciliation W row claim ro [(''inspection'', inspection)]))
       (retry_later W row claim)))"

definition reconcileTarget ::
    "'h world \<Rightarrow> ambiguous_row \<Rightarrow> reconciliation_claim \<Rightarrow> remote_operation \<Rightarrow> ('h, nat \<times> nat) recon" where
  "reconcileTarget W row claim ro =
     step_bind (lift_result (targetForJob row)) (\<lambda>target.
     step_bind (lift_result (scopeFromRow row)) (\<lambda>mutationScope.
     case (target, mutationScope) of
       (Some t, Some scope) \<Rightarrow>
         reconcileInspected W row claim ro scope (inspectRemoteOutcomeTarget W (heartbeat W row claim) t)
     | (None, Some scope) \<Rightarrow>
         reconcileInspected W row claim ro scope (inspectGenericMutation W (heartbeat W row claim) row scope)
     | (_, None) \<Rightarrow> persistReconciliationPending W row claim
         ''Remote mutation target metadata is incomplete and requires operator reconciliation''))"

definition reconcileTerminal ::
    "'h world \<Rightarrow> ambiguous_row \<Rightarrow> reconciliation_claim \<Rightarrow> remote_operation \<Rightarrow> ('h, nat \<times> nat) recon" where
  "reconcileTerminal W row claim ro =
     (if ar_type row = ''deploy.analyze'' then reconcileAnalysis W row claim ro
      else if ar_type row = ''host.configureRegistryTrust'' then reconcileRegistryTrust W row claim ro
      else reconcileTarget W row claim ro)"

definition reconcile_row :: "'h world \<Rightarrow> ambiguous_row \<Rightarrow> reconciliation_claim \<Rightarrow> ('h, nat \<times> nat) recon" where
  "reconcile_row W row claim =
     (if workerLostBeforeRemoteMutationDispatch row then reconcileUndispatched W row claim
      else step_bind (attempted (requireTerminalRemoteOperationProof W row (heartbeat W row claim))) (\<lambda>terminalOperation.
        case terminalOperation of
          Inl e \<Rightarrow> retry_later W row claim e
        | Inr ro \<Rightarrow> reconcileTerminal W row claim ro))"

definition claim_row :: "'h world \<Rightarrow> ambiguous_row \<Rightarrow> ('h, reconciliation_claim option) recon" where
  "claim_row W row = writing W (\<lambda>fresh ck s.
     case claimReconciliation (fr_token fresh) (ar_id row) ck s of (r, s') \<Rightarrow> (thrown r, s'))"

fun reconcile_rows :: "'h world \<Rightarrow> ambiguous_row list \<Rightarrow> nat \<times> nat \<Rightarrow> ('h, nat \<times> nat) recon" where
  "reconcile_rows W [] counts = step_return counts"
| "reconcile_rows W (row # rows) counts =
     step_bind (claim_row W row) (\<lambda>claimed.
     case claimed of
       None \<Rightarrow> reconcile_rows W rows counts
     | Some claim \<Rightarrow> step_bind (reconcile_row W row claim) (\<lambda>(reconciled, pending).
         reconcile_rows W rows (fst counts + reconciled, snd counts + pending)))"

text \<open>How many rows were considered, reconciled and left pending.\<close>

definition reconcileAmbiguousRemoteOutcomes :: "'h world \<Rightarrow> int \<Rightarrow> ('h, nat \<times> nat \<times> nat) recon" where
  "reconcileAmbiguousRemoteOutcomes W limit =
     step_bind (reading (w_turns W) (\<lambda>ck s. Inr (candidates limit ck s))) (\<lambda>rows.
     step_bind (reconcile_rows W rows (0, 0)) (\<lambda>counts.
     step_return (length rows, counts)))"

end
