(* ===== verification/Outcome_Evidence.thy ===== *)
theory Outcome_Evidence
  imports Outcome_Reconciliation
begin

text \<open>
  What a reconciliation pass may conclude, and from what. The log of a pass holds every answer of a host and every write in
  order; \<open>evidenced\<close> is the property of such a log that each write which settles an outcome is preceded by the evidence it
  needs. Every part of a pass keeps it, whatever hosts answer and other transactions do.
\<close>

section \<open>What a recorded outcome changes\<close>

text \<open>The rows of other jobs are untouched.\<close>

definition touches :: "uuid \<Rightarrow> job_row list \<Rightarrow> job_row list \<Rightarrow> bool" where
  "touches jobId = list_all2 (\<lambda>r r'. j_id r' = j_id r \<and> (j_id r \<noteq> jobId \<longrightarrow> r' = r))"

lemma touches_refl: "touches jobId rows rows"
  by (simp add: touches_def list_all2_refl)

lemma touches_trans: "touches jobId a b \<Longrightarrow> touches jobId b c \<Longrightarrow> touches jobId a c"
  unfolding touches_def by (rule list_all2_trans [of _ _ _ a b c]) auto

lemma touches_update:
  "(\<And>r. P r \<Longrightarrow> j_id r = jobId \<and> j_id (f r) = jobId) \<Longrightarrow> touches jobId rows (update_where P f rows)"
  unfolding touches_def by (induction rows) auto

lemma touches_other:
  "touches jobId a b \<Longrightarrow> (r, r') \<in> set (zip a b) \<Longrightarrow> j_id r \<noteq> jobId \<Longrightarrow> r' = r"
  unfolding touches_def list_all2_iff by auto

lemma insert_version_jobs: "insert_version v s = Inr (row, s') \<Longrightarrow> d_jobs s' = d_jobs s"
  by (auto simp: insert_version_def split: if_splits)

lemma upsert_stack_jobs: "upsert_stack ck i e s = Inr (stackId, s') \<Longrightarrow> d_jobs s' = d_jobs s"
  by (cases "first_row (filter (same_project i) (d_stacks s))") (auto simp: upsert_stack_def split: if_splits)

lemma materialise_version_jobs: "materialise_version ck i stackId s = Inr (n, s') \<Longrightarrow> d_jobs s' = d_jobs s"
  by (cases "first_row (filter (\<lambda>v. sv_id v = in_candidateVersionId i) (d_versions s))")
     (auto simp: materialise_version_def and_then_Inr_iff dest: insert_version_jobs split: if_splits)

lemma publish_version_jobs: "publish_version ck i stackId s = Inr s' \<Longrightarrow> d_jobs s' = d_jobs s"
  by (auto simp: publish_version_def split: if_splits)

lemma finalize_intent_jobs: "finalizeComposeStackDeploymentIntent X V ck iv i s = Inr (fin, s') \<Longrightarrow> d_jobs s' = d_jobs s"
  unfolding finalizeComposeStackDeploymentIntent_def Let_def
  by (auto simp: and_then_Inr_iff split: if_splits dest!: upsert_stack_jobs materialise_version_jobs publish_version_jobs)

lemma upsert_source_jobs: "upsertDeploymentSourceInTransaction ck newId row s = Inr (d, s') \<Longrightarrow> d_jobs s' = d_jobs s"
  by (auto simp: upsertDeploymentSourceInTransaction_def and_then_Inr_iff update_source_def insert_source_def Let_def
      split: if_splits option.splits)

lemma finish_execution_jobs: "finish_execution X ck newId a stackId versionId s = Inr (ex, s') \<Longrightarrow> d_jobs s' = d_jobs s"
  by (auto simp: finish_execution_def and_then_Inr_iff Let_def dest!: upsert_source_jobs publish_analysis_frame(4))

lemma finalize_execution_jobs:
  "finalizeDeploymentExecutionInTransaction X ck newId analysisId stackId s = Inr (ex, s') \<Longrightarrow> d_jobs s' = d_jobs s"
  by (cases "first_row (filter (\<lambda>a. da_id a = analysisId) (d_analyses s))")
     (auto simp: finalizeDeploymentExecutionInTransaction_def and_then_Inr_iff split: if_splits dest: finish_execution_jobs)

lemma resolve_binding_jobs:
  "resolveGithubDeploymentBindingAfterReconciliation X ck j phase state s = Inr (b, s') \<Longrightarrow> d_jobs s' = d_jobs s"
  by (cases "lockGithubDeploymentBinding j s")
     (auto simp: resolveGithubDeploymentBindingAfterReconciliation_def recordLockedGithubDeploymentFailure_def Let_def
       split: if_splits elim!: apply_locked_cases)

lemma resolve_clone_jobs:
  "resolveGithubCloneDeploymentBindingAfterReconciliation X ck j phase state s = Inr (b, s') \<Longrightarrow> d_jobs s' = d_jobs s"
  by (cases "lockGithubCloneDeploymentBinding j s")
     (auto simp: resolveGithubCloneDeploymentBindingAfterReconciliation_def recordLockedGithubCloneDeploymentFailure_def Let_def
       split: if_splits option.splits elim!: apply_clone_cases)

lemma finalize_binding_jobs: "finalizeGithubDeploymentBinding X ck row ro s = Inr (d, s') \<Longrightarrow> d_jobs s' = d_jobs s"
  by (auto simp: finalizeGithubDeploymentBinding_def and_then_Inr_iff split: if_splits dest: resolve_binding_jobs resolve_clone_jobs)

lemma materialise_outcome_jobs: "materialise_outcome X V ck fresh row s = Inr (d, s') \<Longrightarrow> d_jobs s' = d_jobs s"
  by (auto simp: materialise_outcome_def and_then_Inr_iff Let_def split: if_splits option.splits
      dest!: finalize_intent_jobs finalize_execution_jobs)

lemma discard_intent_touches:
  "discardComposeStackDeploymentIntent V ck jobId n hostId s = Inr s' \<Longrightarrow> touches jobId (d_jobs s) (d_jobs s')"
  by (auto simp: discardComposeStackDeploymentIntent_def Let_def split: if_splits intro!: touches_update)

lemma finalizer_touches:
  assumes "finalizeReconciledOutcome X V ck fresh row ro s = Inr (d, s')"
  shows "touches (ar_id row) (d_jobs s) (d_jobs s')"
proof (cases "ar_type row \<in> set composeStackIntentJobTypes")
  case True
  then obtain detail s1 g s2 where
    "(if ro_phase ro = ''compose.deployPath.up'' \<and> ro_state ro = Some ''completed'' then materialise_outcome X V ck fresh row s
      else Inr ([(''composeStackDeployment'', JObj [(''status'', JStr ''not_materialized''),
             (''phase'', JStr (ro_phase ro)), (''state'', opt_json (ro_state ro))])], s)) = Inr (detail, s1)"
    and "finalizeGithubDeploymentBinding X ck row ro s1 = Inr (g, s2)"
    and "discardComposeStackDeploymentIntent V ck (ar_id row) (int (j_attempt_count (ar_job row))) (ar_host_id row) s2 = Inr s'"
    using assms unfolding finalizeReconciledOutcome_def if_P [OF True]
    by (auto elim!: and_then_InrE split del: if_split)
  then show ?thesis
    by (auto dest!: materialise_outcome_jobs finalize_binding_jobs discard_intent_touches split: if_splits)
next
  case False
  with assms have "d_jobs s' = d_jobs s" by (simp add: finalizeReconciledOutcome_def finalize_binding_jobs)
  then show ?thesis by (simp add: touches_refl)
qed

lemma record_state_touches: "record_state claim jobId absent ev ck s = (b, s') \<Longrightarrow> touches jobId (d_jobs s) (d_jobs s')"
  by (auto simp: record_state_def persist_ready_def holds_reconciliation_def intro!: touches_update)

lemma persisted_touches:
  assumes "persist_reconciled X row claim detail (reconciledOutcomeFinalizer X V row ro) absent fresh ck s = (res, s')"
  shows "touches (ar_id row) (d_jobs s) (d_jobs s')"
proof -
  let ?ev = "evidence X claim ''reconciled'' detail None"
  obtain b s1 where s1: "record_state claim (ar_id row) absent ?ev ck (s\<lparr>d_locks := []\<rparr>) = (b, s1)" by force
  have t1: "touches (ar_id row) (d_jobs s) (d_jobs s1)" using record_state_touches [OF s1] by simp
  let ?fin = "case reconciledOutcomeFinalizer X V row ro of None \<Rightarrow> Inr (None, s1) | Some f \<Rightarrow> f ck fresh s1"
  show ?thesis
  proof (cases res)
    case (Inl e)
    then show ?thesis using assms by (auto simp: persist_reconciled_def touches_refl dest!: withTransaction_Inl)
  next
    case (Inr ok)
    show ?thesis
    proof (cases b)
      case False
      then show ?thesis using assms s1 t1 Inr by (auto simp: persist_reconciled_def withTransaction_Inr)
    next
      case True
      have "withTransaction (\<lambda>_. and_then ?fin (\<lambda>(d, s2). case record_finalized X ck (ar_id row) ?ev d s2 of (e, s3) \<Rightarrow>
          and_then (writeAuditEvent X ck (fr_auditId fresh) (reconciled_event row e) s3) (\<lambda>(_, s4). Inr (True, s4)))) s = (Inr ok, s')"
        using assms s1 True Inr by (simp add: persist_reconciled_def withTransaction_def Let_def)
      then obtain d s2 where fin: "?fin = Inr (d, s2)" and rest: "d_jobs s' = d_jobs (snd (record_finalized X ck (ar_id row) ?ev d s2))"
        by (auto simp: withTransaction_Inr writeAuditEvent_def case_prod_beta elim!: and_then_InrE split: if_splits)
      have "touches (ar_id row) (d_jobs s1) (d_jobs s2)"
        using fin by (auto simp: reconciledOutcomeFinalizer_def touches_refl finalizer_touches split: if_splits)
      moreover have "touches (ar_id row) (d_jobs s2) (d_jobs s')"
        unfolding rest by (auto simp: record_finalized_def Let_def touches_refl intro!: touches_update split: option.splits)
      ultimately show ?thesis using t1 by (metis touches_trans)
    qed
  qed
qed

lemma persisted_ready:
  assumes "persist_reconciled X row claim detail (reconciledOutcomeFinalizer X V row ro) absent fresh ck s = (res, s')"
    and "jobs.keys_unique (d_jobs s)" and "(r, r') \<in> set (zip (d_jobs s) (d_jobs s'))" and "r' \<noteq> r"
  shows "j_id r = ar_id row" and "persist_ready claim (ar_id row) absent r"
proof -
  show id: "j_id r = ar_id row" using touches_other [OF persisted_touches [OF assms(1)] assms(3)] assms(4) by blast
  show "persist_ready claim (ar_id row) absent r"
  proof (rule ccontr)
    assume n: "\<not> persist_ready claim (ar_id row) absent r"
    have at: "job_at (s\<lparr>d_locks := []\<rparr>) r" using assms(2,3) by (auto simp: job_at_def dest: set_zip_leftD)
    have "filter (persist_ready claim (j_id r) absent) (d_jobs (s\<lparr>d_locks := []\<rparr>)) = []"
      using filter_at [OF at, of "persist_ready claim (j_id r) absent"] n id by (simp add: persist_ready_def holds_reconciliation_def)
    then have "record_state claim (ar_id row) absent ev ck (s\<lparr>d_locks := []\<rparr>) = (False, s\<lparr>d_locks := []\<rparr>)" for ev
      unfolding id by (simp add: record_state_def update_jobs_none filter_eq_Nil_iff)
    then have "s' = s" using assms(1) by (simp add: persist_reconciled_def withTransaction_def)
    then show False using assms(3,4) by (simp add: zip_same_conv_map image_iff)
  qed
qed

section \<open>Evidence\<close>

text \<open>The answers of a round of inspections show that an operation ended: some host says so, and none says that it runs.\<close>

definition inspected_end :: "string \<Rightarrow> reconciliation_entry list \<Rightarrow> bool" where
  "inspected_end operationId round \<longleftrightarrow>
     (\<exists>hostId state. Inspected hostId operationId (Inr state) \<in> set round \<and> terminalRemoteState state)
     \<and> (\<forall>hostId state. Inspected hostId operationId (Inr state) \<in> set round \<longrightarrow> state \<noteq> ''running'')"

definition has_ended :: "remote_mutation_proof \<Rightarrow> reconciliation_entry list \<Rightarrow> bool" where
  "has_ended p log \<longleftrightarrow> rm_status p = ''terminal'' \<or> (\<exists>a round b. log = a @ round @ b \<and> inspected_end (rm_operationId p) round)"

text \<open>
  Why the outcome of a job may be settled, given what the log held before: the write is made under a claim of this pass on
  a failed job whose outcome is unknown, and either no mutation was dispatched or the dispatched one has ended. \<open>known\<close> is
  the end of the operation where it was shown before the log began.
\<close>

definition justified :: "'h world \<Rightarrow> bool \<Rightarrow> ambiguous_row \<Rightarrow> reconciliation_entry list \<Rightarrow> job_row \<Rightarrow> bool" where
  "justified W known row log r \<longleftrightarrow> j_id r = ar_id row \<and> isAmbiguousRemoteOutcome r
     \<and> state_text r ''status'' = Some ''inspecting'' \<and> (\<exists>k. state_text r ''claimToken'' = Some (fr_token (w_fresh W k)))
     \<and> (workerLostBeforeRemoteMutationDispatch row \<and> proof_absent r
        \<or> (\<exists>p. matching_proof row = Some p \<and> (known \<or> has_ended p log)))"

definition settles :: "db \<Rightarrow> db \<Rightarrow> job_row \<Rightarrow> bool" where
  "settles d d' r \<longleftrightarrow> \<not> hasReconciledRemoteOutcome (j_result r)
     \<and> (\<exists>r'. (r, r') \<in> set (zip (d_jobs d) (d_jobs d')) \<and> hasReconciledRemoteOutcome (j_result r'))"

definition evidenced ::
    "'h world \<Rightarrow> ambiguous_row set \<Rightarrow> ambiguous_row set \<Rightarrow> reconciliation_entry list \<Rightarrow> bool" where
  "evidenced W rows known log \<longleftrightarrow> (\<forall>a d d' b r. log = a @ Wrote d d' # b \<and> jobs.keys_unique (d_jobs d) \<and> settles d d' r \<longrightarrow>
     (\<exists>row\<in>rows. justified W (row \<in> known) row a r))"

lemma has_ended_append: "has_ended p log \<Longrightarrow> has_ended p (a @ log @ b)"
  unfolding has_ended_def by (metis append_assoc)

lemma justified_append: "justified W known row log r \<Longrightarrow> justified W known row (a @ log) r"
  using has_ended_append [of _ log a "[]"] unfolding justified_def by (metis append_Nil2)

lemma append_split:
  assumes "a @ b = p @ x # q"
  obtains q' where "a = p @ x # q'" | p' where "p = a @ p'" "b = p' @ x # q"
proof -
  from assms consider (1) us where "a = p @ us" "us @ b = x # q" | (2) us where "a @ us = p" "b = us @ x # q"
    unfolding append_eq_append_conv2 by blast
  then show thesis
  proof cases
    case 1
    show thesis
    proof (cases us)
      case Nil
      with 1 that(2) [of "[]"] show thesis by simp
    next
      case (Cons c cs)
      with 1 that(1) show thesis by simp
    qed
  next
    case 2
    with that(2) show thesis by blast
  qed
qed

interpretation outcome_log: log_property "evidenced W rows known" for W rows known
proof
  show "evidenced W rows known []" by (simp add: evidenced_def)
  fix a b assume a: "evidenced W rows known a" and b: "evidenced W rows known b"
  show "evidenced W rows known (a @ b)"
    unfolding evidenced_def
  proof (intro allI impI, elim conjE)
    fix p d d' q r assume l: "a @ b = p @ Wrote d d' # q" and u: "jobs.keys_unique (d_jobs d)" "settles d d' r"
    from l show "\<exists>row\<in>rows. justified W (row \<in> known) row p r"
    proof (cases rule: append_split)
      case (1 q')
      with a u show ?thesis unfolding evidenced_def by blast
    next
      case (2 p')
      with b u have "\<exists>row\<in>rows. justified W (row \<in> known) row p' r" unfolding evidenced_def by blast
      with 2(1) justified_append show ?thesis by blast
    qed
  qed
qed

section \<open>Single entries\<close>

abbreviation keeps_evidence ::
    "'h world \<Rightarrow> ambiguous_row set \<Rightarrow> ambiguous_row set \<Rightarrow> ('h, 'a) recon \<Rightarrow> bool" where
  "keeps_evidence W rows known m \<equiv> log_property.logs (evidenced W rows known) m"

named_theorems evidence_intros \<open>programs whose logs are evidenced\<close>

lemmas [evidence_intros] =
  outcome_log.logs_return outcome_log.logs_throw outcome_log.logs_reading outcome_log.logs_process_time outcome_log.logs_bind
  outcome_log.logs_catch outcome_log.logs_each outcome_log.logs_map outcome_log.logs_if outcome_log.logs_option
  outcome_log.logs_sum outcome_log.logs_pair

lemma evidenced_answer:
  "evidenced W rows known [Inspected h v i]" "evidenced W rows known [Commanded h v c]"
  "evidenced W rows known [Statted h v p]" "evidenced W rows known [Cleaned h v u]"
  by (auto simp: evidenced_def Cons_eq_append_conv)

lemma evidenced_write:
  "evidenced W rows known [Wrote d d'] \<longleftrightarrow>
     (jobs.keys_unique (d_jobs d) \<longrightarrow> (\<forall>r. settles d d' r \<longrightarrow> (\<exists>row\<in>rows. justified W (row \<in> known) row [] r)))"
  by (auto simp: evidenced_def Cons_eq_append_conv)

lemma zip_update_where: "(r, r') \<in> set (zip rows (update_where P f rows)) \<Longrightarrow> r' = (if P r then f r else r)"
  by (induction rows) (auto split: if_splits)

lemma quiet_update:
  assumes "d_jobs d' = update_where P f (d_jobs d)"
    and "\<And>r. P r \<Longrightarrow> hasReconciledRemoteOutcome (j_result (f r)) \<Longrightarrow> hasReconciledRemoteOutcome (j_result r)"
  shows "evidenced W rows known [Wrote d d']"
  using assms by (auto simp: evidenced_write settles_def dest!: zip_update_where split: if_splits)

lemma quiet_same: "d_jobs d' = d_jobs d \<Longrightarrow> evidenced W rows known [Wrote d d']"
  by (rule quiet_update [of _ "\<lambda>_. False" id]) (simp_all add: update_where_none)

lemma reconciled_with_state:
  assumes "hasReconciledRemoteOutcome (j_result (with_state ck st r))"
  shows "get_prop (objectFields (Some st)) ''status'' = Some (JStr ''reconciled'')"
proof -
  have "mergeable (j_result r)"
    using assms by (cases "j_result r"; cases "the (j_result r)")
      (auto simp: mergeable_def hasReconciledRemoteOutcome_def reconciliationState_def with_state_def jsonb_merge_def)
  with assms show ?thesis
    using stored_state_with_state [of r ck st]
    by (auto simp: hasReconciledRemoteOutcome_def reconciliationState_def stored_state_def Let_def split: if_splits)
qed

lemma keeps_writing:
  "(\<And>fresh ck s. evidenced W rows known [Wrote s (snd (f fresh ck s))]) \<Longrightarrow> keeps_evidence W rows known (writing W f)"
  by (auto simp: outcome_log.logs_def writing_def Let_def case_prod_beta)

lemma keeps_call:
  "(\<And>r d. evidenced W rows known [entry r d]) \<Longrightarrow> keeps_evidence W rows known (call run entry answer)"
  by (rule outcome_log.logs_call)

section \<open>Writes that settle nothing\<close>

lemma keeps_heartbeat [evidence_intros]: "keeps_evidence W rows known (heartbeat W row claim)"
  unfolding heartbeat_def
proof (rule keeps_writing)
  fix fresh ck s
  let ?P = "holds_reconciliation (cl_token claim) (ar_id row)"
  have "d_jobs (snd (heartbeatReconciliation (cl_token claim) (ar_id row) ck s)) = update_where ?P (beaten ck) (d_jobs s)"
    by (simp add: heartbeatReconciliation_def beaten_def [abs_def])
  moreover have "\<not> hasReconciledRemoteOutcome (j_result (beaten ck r))" if "?P r" for r
  proof
    assume rec: "hasReconciledRemoteOutcome (j_result (beaten ck r))"
    have "state_text r ''status'' = Some ''inspecting''" using that by (simp add: holds_reconciliation_def)
    then obtain fs where fs: "stored_state r = Some (JObj fs)" and st: "text_prop fs ''status'' = Some ''inspecting''"
      by (cases "stored_state r"; cases "the (stored_state r)") (auto simp: state_text_def text_prop_def)
    from reconciled_with_state [OF rec [unfolded beaten_def]] fs st show False
      by (simp add: jsonb_merge_def text_prop_def)
  qed
  ultimately show "evidenced W rows known [Wrote s (snd (case heartbeatReconciliation (cl_token claim) (ar_id row) ck s of
      (renewed, s') \<Rightarrow> (if renewed then Inr () else Inl (ReconciliationClaimLost (ar_id row)), s')))]"
    by (intro quiet_update [of _ ?P "beaten ck"]) (auto simp: case_prod_beta)
qed

lemma keeps_claim [evidence_intros]: "keeps_evidence W rows known (claim_row W row)"
  unfolding claim_row_def
proof (rule keeps_writing)
  fix fresh ck s
  let ?c = "claimReconciliation (fr_token fresh) (ar_id row) ck s"
  let ?f = "\<lambda>r. with_state ck (claimed_state ck (fr_token fresh) (next_attempt r)) r"
  have "snd ?c = s \<or> d_jobs (snd ?c) = update_where (claim_ready ck (ar_id row)) ?f (d_jobs s)"
    by (auto simp: claimReconciliation_def split: option.split)
  moreover have "\<not> hasReconciledRemoteOutcome (j_result (?f r))" for r
    by (auto dest!: reconciled_with_state simp: claimed_state_def get_prop_def)
  ultimately show "evidenced W rows known [Wrote s (snd (case ?c of (r, s') \<Rightarrow> (thrown r, s')))]"
    by (auto simp: case_prod_beta intro: quiet_same quiet_update [of _ "claim_ready ck (ar_id row)" ?f])
qed

lemma keeps_pending [evidence_intros]:
  assumes "sanitizer_keeps (w_externs W)"
  shows "keeps_evidence W rows known (persistReconciliationPending W row claim message)"
proof -
  have "evidenced W rows known [Wrote s (snd (persist_pending (w_externs W) row claim detail now ck s))]" for detail now ck s
  proof (rule quiet_update)
    let ?next = "Some (now + seconds (reconciliationRetryDelaySeconds (cl_attemptCount claim)))"
    let ?ev = "evidence (w_externs W) claim ''pending'' detail ?next"
    show "d_jobs (snd (persist_pending (w_externs W) row claim detail now ck s))
        = update_where (persist_ready claim (ar_id row) False) (with_state ck ?ev) (d_jobs s)"
      by (simp add: persist_pending_def record_state_def)
    fix r assume "hasReconciledRemoteOutcome (j_result (with_state ck ?ev r))"
    moreover obtain gs where "?ev = JObj gs" "get_prop gs ''status'' = Some (JStr ''pending'')"
      using evidence_fields [OF assms, of "''pending''" claim detail ?next] by metis
    ultimately show "hasReconciledRemoteOutcome (j_result r)" by (auto dest!: reconciled_with_state)
  qed
  then have w: "keeps_evidence W rows known (writing W (\<lambda>_ ck s. case persist_pending (w_externs W) row claim detail now ck s of
      (persisted, s') \<Rightarrow> (Inr persisted, s')))" for detail now
    by (intro keeps_writing) (simp add: case_prod_beta)
  show ?thesis unfolding persistReconciliationPending_def by (intro evidence_intros w)
qed

section \<open>The write that settles an outcome\<close>

lemma keeps_reconciled:
  assumes "row \<in> rows" and "cl_token claim = fr_token (w_fresh W k)"
    and "absent \<and> workerLostBeforeRemoteMutationDispatch row \<or> row \<in> known \<and> matching_proof row \<noteq> None"
  shows "keeps_evidence W rows known
    (persistReconciled W row claim detail (reconciledOutcomeFinalizer (w_externs W) (w_vault W) row ro) absent)"
  unfolding persistReconciled_def
proof (rule keeps_writing)
  fix fresh ck s
  let ?p = "persist_reconciled (w_externs W) row claim detail (reconciledOutcomeFinalizer (w_externs W) (w_vault W) row ro) absent fresh ck s"
  have "justified W (row \<in> known) row [] r" if u: "jobs.keys_unique (d_jobs s)" and st: "settles s (snd ?p) r" for r
  proof -
    obtain r' where r': "(r, r') \<in> set (zip (d_jobs s) (d_jobs (snd ?p)))" "r' \<noteq> r" using st by (auto simp: settles_def)
    note ready = persisted_ready [OF prod.collapse [symmetric] u r'(1) r'(2)]
    have "isAmbiguousRemoteOutcome r" "state_text r ''status'' = Some ''inspecting''"
      "state_text r ''claimToken'' = Some (fr_token (w_fresh W k))"
      using ready(2) assms(2)
      by (simp_all add: persist_ready_def holds_reconciliation_def isAmbiguousRemoteOutcome_def ambiguous_error_def)
    moreover have "proof_absent r" if absent
      using ready(2) that by (auto simp: persist_ready_def proof_absent_def split: option.split)
    ultimately show ?thesis using assms(3) ready(1) unfolding justified_def by blast
  qed
  with assms(1) show "evidenced W rows known [Wrote s (snd (case ?p of (r, s') \<Rightarrow> (thrown r, s')))]"
    by (auto simp: evidenced_write case_prod_beta)
qed

section \<open>Inspections settle nothing\<close>

text \<open>An inspection beats the claim of the row; \<open>beat\<close> is any program whose log is evidenced.\<close>

lemma keeps_result [evidence_intros]: "keeps_evidence W rows known (lift_result r)"
  unfolding lift_result_def by (intro evidence_intros)

lemma keeps_fail [evidence_intros]: "keeps_evidence W rows known (fail_with message)"
  unfolding fail_with_def by (intro evidence_intros)

lemma keeps_commands [evidence_intros]:
  "keeps_evidence W rows known (ssh_command W' hostId command timeoutMs)"
  "keeps_evidence W rows known (agent_command W' hostId command timeoutMs)"
  "keeps_evidence W rows known (inspect_call run hostId operationId)"
  "keeps_evidence W rows known (stat_call run' hostId filePath)"
  unfolding ssh_command_def agent_command_def inspect_call_def stat_call_def by (intro keeps_call evidenced_answer)+

lemma keeps_attempted [evidence_intros]:
  assumes "keeps_evidence W rows known m"
  shows "keeps_evidence W rows known (attempted m)"
  using assms by (auto simp: outcome_log.logs_def attempted_def split: prod.splits)

lemma keeps_reads [evidence_intros]:
  "keeps_evidence W rows known (getHostForWorker W' hostId)" "keeps_evidence W rows known (canonicalizeScope W' scope)"
  "keeps_evidence W rows known (check_code message result)" "keeps_evidence W rows known (outcome_of r)"
  "keeps_evidence W rows known git_locked"
  unfolding getHostForWorker_def canonicalizeScope_def check_code_def outcome_of_def git_locked_def by (intro evidence_intros)+

lemma keeps_any_owner [evidence_intros]: "keeps_evidence W rows known (any_owner W' scope active)"
proof (induction active)
  case (Cons row active)
  then show ?case unfolding any_owner.simps by (intro evidence_intros)
qed (simp add: evidence_intros)

lemma keeps_ownership [evidence_intros]: "keeps_evidence W rows known (hasActiveMutationForScope W' jobId scope)"
  unfolding hasActiveMutationForScope_def by (intro evidence_intros)

lemma keeps_stat [evidence_intros]: "keeps_evidence W rows known (statHostPath W' hostId filePath)"
  unfolding statHostPath_def by (intro evidence_intros)

lemma keeps_stat_all [evidence_intros]: "keeps_evidence W rows known (stat_all W' hostId paths)"
  unfolding stat_all_def by (intro evidence_intros)

lemma keeps_beaten_stat [evidence_intros]:
  assumes "keeps_evidence W rows known beat"
  shows "keeps_evidence W rows known (beaten_stat W' beat hostId filePath)"
  unfolding beaten_stat_def by (intro evidence_intros assms)

lemma keeps_docker [evidence_intros]:
  assumes "keeps_evidence W rows known beat"
  shows "keeps_evidence W rows known (runDockerInspection W' beat hostId command)"
  unfolding runDockerInspection_def by (intro evidence_intros assms)

lemma keeps_rows_of [evidence_intros]:
  assumes "keeps_evidence W rows known beat"
  shows "keeps_evidence W rows known (rows_of W' beat hostId command)"
  unfolding rows_of_def by (intro evidence_intros assms)

lemma keeps_git [evidence_intros]:
  assumes "keeps_evidence W rows known beat"
  shows "keeps_evidence W rows known (read_git W' beat hostId dir)"
    and "keeps_evidence W rows known (inspectGitPath W' beat hostId dir)"
    and "keeps_evidence W rows known (inspectGit W' beat host tgt directory)"
  unfolding inspectGitPath_def inspectGit_def read_git_def by (intro evidence_intros assms)+

lemma keeps_inspect_host [evidence_intros]:
  assumes "keeps_evidence W rows known beat"
  shows "keeps_evidence W rows known (inspectHost W' beat row scope hostId)"
  unfolding inspectHost_def inspectDocker_def inspectKind_def Let_def by (intro evidence_intros assms)

lemma keeps_inspect_generic [evidence_intros]:
  assumes "keeps_evidence W rows known beat"
  shows "keeps_evidence W rows known (inspectGenericMutation W' beat row scope)"
  unfolding inspectGenericMutation_def by (intro evidence_intros assms)

lemma keeps_inspect_project [evidence_intros]:
  assumes "keeps_evidence W rows known beat"
  shows "keeps_evidence W rows known (inspectProject W' beat tgt)"
  unfolding inspectProject_def Let_def by (intro evidence_intros assms)

lemma keeps_inspect_target [evidence_intros]:
  assumes "keeps_evidence W rows known beat"
  shows "keeps_evidence W rows known (inspectRemoteOutcomeTarget W' beat tgt)"
  unfolding inspectRemoteOutcomeTarget_def
  by (intro outcome_log.logs_bind) (auto intro!: evidence_intros assms split: list.split)

lemma keeps_inspect_trust [evidence_intros]:
  assumes "keeps_evidence W rows known beat"
  shows "keeps_evidence W rows known (inspectRegistryTrustRemoteOutcome W' beat hostId registry)"
proof -
  have checked: "keeps_evidence W rows known (case parsed of Inr (JObj cfg) \<Rightarrow> f cfg | _ \<Rightarrow> fail_with message)"
    if "\<And>cfg. keeps_evidence W rows known (f cfg)" for f parsed message
    using that by (auto intro: evidence_intros split: sum.split json.split)
  show ?thesis
    unfolding inspectRegistryTrustRemoteOutcome_def Let_def by (intro evidence_intros assms checked)
qed

lemma keeps_cleanup_candidate [evidence_intros]:
  assumes "keeps_evidence W rows known beat"
  shows "keeps_evidence W rows known (cleanupRegistryTrustCandidate W' beat hostId jobId n)"
  unfolding cleanupRegistryTrustCandidate_def by (intro evidence_intros assms)

lemma keeps_proof_on_host [evidence_intros]:
  assumes "keeps_evidence W rows known beat"
  shows "keeps_evidence W rows known (inspectRemoteOperationProofOnHost W' beat hostId p)"
  unfolding inspectRemoteOperationProofOnHost_def by (intro evidence_intros assms)

lemma keeps_require [evidence_intros]:
  assumes "keeps_evidence W rows known beat"
  shows "keeps_evidence W rows known (requireTerminalRemoteOperationProof W' row beat)"
  unfolding requireTerminalRemoteOperationProof_def by (intro evidence_intros assms)

lemma keeps_cleanup_marker [evidence_intros]: "keeps_evidence W rows known (cleanupPersistedTerminalRemoteOperation W' row ro)"
  unfolding cleanupPersistedTerminalRemoteOperation_def cleanup_marker_def
  by (intro evidence_intros keeps_call evidenced_answer)

section \<open>The end of the remote operation\<close>

text \<open>What one host answers is in the log, and nothing else is taken for an answer.\<close>

definition answered :: "string \<Rightarrow> (uuid \<times> string) list \<Rightarrow> reconciliation_entry list \<Rightarrow> bool" where
  "answered operationId statuses new \<longleftrightarrow>
     (\<forall>hostId i v. Inspected hostId i v \<in> set new \<longrightarrow> (\<exists>state. v = Inr state \<and> (hostId, state) \<in> set statuses))
     \<and> (\<forall>(hostId, state)\<in>set statuses. state \<noteq> ''missing'' \<longrightarrow> Inspected hostId operationId (Inr state) \<in> set new)"

lemma answered_append: "answered i a n \<Longrightarrow> answered i b m \<Longrightarrow> answered i (a @ b) (n @ m)"
  unfolding answered_def by fastforce

lemma answered_ended:
  assumes "answered i statuses new" and "\<not> list_ex (\<lambda>(_, state). state = ''running'') statuses"
    and "find (\<lambda>(_, state). terminalRemoteState state) statuses = Some (hostId, state)"
  shows "inspected_end i new"
proof -
  have "(hostId, state) \<in> set statuses" "terminalRemoteState state"
    using assms(3) nth_mem unfolding find_Some_iff by (fastforce, fastforce)
  moreover from this have "state \<noteq> ''missing''" by (auto simp: terminalRemoteState_def)
  ultimately have "Inspected hostId i (Inr state) \<in> set new" using assms(1) unfolding answered_def by blast
  moreover have "st \<noteq> ''running''" if "Inspected h i (Inr st) \<in> set new" for h st
    using that assms(1,2) unfolding answered_def list_ex_iff by blast
  ultimately show ?thesis using \<open>terminalRemoteState state\<close> unfolding inspected_end_def by blast
qed

lemma heartbeat_log: "heartbeat W row claim s = (r, s') \<Longrightarrow> \<exists>d d'. ss_log s' = ss_log s @ [Wrote d d']"
  by (auto simp: heartbeat_def writing_def Let_def split: prod.splits)

lemma host_answer:
  assumes "inspectRemoteOperationProofOnHost W (heartbeat W row claim) hostId p s = (Inr state, s')"
  shows "\<exists>new. ss_log s' = ss_log s @ new \<and> answered (rm_operationId p) [(hostId, state)] new"
proof -
  obtain t1 host t2 where b: "heartbeat W row claim s = (Inr (), t1)" and g: "getHostForWorker W hostId t1 = (Inr host, t2)"
    and tail: "(if rm_transport p = ''agent''
        then if hc_connectionMode host \<noteq> ''agent'' \<or> \<not> hc_agent host then step_return ''missing''
             else step_bind (inspect_call (w_inspectAgent W) hostId (rm_operationId p)) (\<lambda>status.
                  step_bind (heartbeat W row claim) (\<lambda>_. step_return status))
        else if hc_connectionMode host \<noteq> ''ssh'' then step_return ''missing''
             else step_bind (inspect_call (w_inspectSsh W) hostId (rm_operationId p)) (\<lambda>status.
                  step_bind (heartbeat W row claim) (\<lambda>_. step_return status))) t2 = (Inr state, s')"
    using assms unfolding inspectRemoteOperationProofOnHost_def step_bind_Inr by auto
  have rest: "state = ''missing'' \<and> s' = t2 \<or> (\<exists>run t3. inspect_call run hostId (rm_operationId p) t2 = (Inr state, t3)
      \<and> heartbeat W row claim t3 = (Inr (), s'))"
    using tail by (auto simp: step_bind_Inr step_return_iff split: if_splits)
  obtain d d' where l1: "ss_log t1 = ss_log s @ [Wrote d d']" using heartbeat_log [OF b] by blast
  have l2: "ss_log t2 = ss_log t1" using g by (auto simp: getHostForWorker_def reading_def statement_def split: prod.splits)
  from rest show ?thesis
  proof (elim disjE exE conjE)
    assume "state = ''missing''" "s' = t2"
    then show ?thesis using l1 l2 by (auto simp: answered_def intro!: exI [of _ "[Wrote d d']"])
  next
    fix run t3 assume c: "inspect_call run hostId (rm_operationId p) t2 = (Inr state, t3)" and h: "heartbeat W row claim t3 = (Inr (), s')"
    have "ss_log t3 = ss_log t2 @ [Inspected hostId (rm_operationId p) (Inr state)]"
      using c by (auto simp: inspect_call_def call_def thrown_def split: prod.splits sum.splits)
    moreover obtain e e' where "ss_log s' = ss_log t3 @ [Wrote e e']" using heartbeat_log [OF h] by blast
    ultimately show ?thesis
      using l1 l2 by (auto simp: answered_def
        intro!: exI [of _ "[Wrote d d', Inspected hostId (rm_operationId p) (Inr state), Wrote e e']"])
  qed
qed

lemma round_answered:
  "step_map (\<lambda>hostId. step_bind (inspectRemoteOperationProofOnHost W (heartbeat W row claim) hostId p)
     (\<lambda>status. step_return (hostId, status))) hosts s = (Inr statuses, s')
   \<Longrightarrow> \<exists>new. ss_log s' = ss_log s @ new \<and> answered (rm_operationId p) statuses new"
proof (induction hosts arbitrary: s statuses)
  case Nil
  then show ?case by (auto simp: step_return_iff answered_def)
next
  case (Cons hostId hosts)
  then obtain state t rest where h: "inspectRemoteOperationProofOnHost W (heartbeat W row claim) hostId p s = (Inr state, t)"
    and m: "step_map (\<lambda>hostId. step_bind (inspectRemoteOperationProofOnHost W (heartbeat W row claim) hostId p)
     (\<lambda>status. step_return (hostId, status))) hosts t = (Inr rest, s')" and st: "statuses = (hostId, state) # rest"
    by (auto simp: step_bind_Inr step_return_iff)
  obtain n1 where n1: "ss_log t = ss_log s @ n1" "answered (rm_operationId p) [(hostId, state)] n1"
    using host_answer [OF h] by blast
  obtain n2 where n2: "ss_log s' = ss_log t @ n2" "answered (rm_operationId p) rest n2" using Cons.IH [OF m] by blast
  show ?case using n1 n2 answered_append [OF n1(2) n2(2)] st by auto
qed

lemma require_ended:
  assumes "requireTerminalRemoteOperationProof W row (heartbeat W row claim) s = (Inr ro, s')"
  obtains p new where "matching_proof row = Some p" "ss_log s' = ss_log s @ new" "has_ended p new"
proof (cases "matching_proof row")
  case None
  with assms show thesis by (simp add: requireTerminalRemoteOperationProof_def fail_with_def step_throw_iff)
next
  case (Some p)
  show thesis
  proof (cases "rm_status p = ''terminal''")
    case True
    with assms Some have "s' = s" by (simp add: requireTerminalRemoteOperationProof_def step_return_iff)
    with True Some that [of p "[]"] show thesis by (simp add: has_ended_def)
  next
    case False
    from assms obtain scope t statuses where sc: "lift_result (scopeFromRow row) s = (Inr scope, t)"
      and m: "step_map (\<lambda>hostId. step_bind (inspectRemoteOperationProofOnHost W (heartbeat W row claim) hostId p)
         (\<lambda>status. step_return (hostId, status))) (proof_hosts row scope) t = (Inr statuses, s')"
      and run: "\<not> list_ex (\<lambda>(_, status). status = ''running'') statuses"
      and found: "\<exists>hostId state. find (\<lambda>(_, status). terminalRemoteState status) statuses = Some (hostId, state)"
      unfolding requireTerminalRemoteOperationProof_def Some option.case if_not_P [OF False]
      by (auto simp: step_bind_Inr step_return_iff step_throw_iff fail_with_def split: if_splits option.splits)
    have "t = s" using sc by (auto simp: lift_result_def step_return_iff step_throw_iff split: sum.splits)
    then obtain new where new: "ss_log s' = ss_log s @ new" "answered (rm_operationId p) statuses new"
      using round_answered [OF m] by blast
    obtain hostId state where "find (\<lambda>(_, status). terminalRemoteState status) statuses = Some (hostId, state)" using found by blast
    from answered_ended [OF new(2) run this] have "has_ended p new"
      unfolding has_ended_def by (metis append_Nil append_Nil2)
    with Some new(1) that show thesis by blast
  qed
qed

section \<open>The branches of a row\<close>

lemma keeps_retry [evidence_intros]:
  assumes "sanitizer_keeps (w_externs W)"
  shows "keeps_evidence W rows known (retry_later W row claim e)"
  unfolding retry_later_def by (cases e) (auto intro: evidence_intros assms)

lemma keeps_undispatched:
  assumes "sanitizer_keeps (w_externs W)" and "row \<in> rows" and "cl_token claim = fr_token (w_fresh W k)"
    and "workerLostBeforeRemoteMutationDispatch row"
  shows "keeps_evidence W rows known (reconcileUndispatched W row claim)"
  unfolding reconcileUndispatched_def
  using assms by (intro evidence_intros keeps_reconciled [where k = k]) simp_all

text \<open>Once the operation is known to have ended, every branch may settle the outcome.\<close>

lemma keeps_settled:
  assumes "row \<in> rows" and "cl_token claim = fr_token (w_fresh W k)" and "matching_proof row \<noteq> None"
  shows "keeps_evidence W rows {row} (persistTerminalReconciliation W row claim ro detail)"
  unfolding persistTerminalReconciliation_def
  using assms by (intro evidence_intros keeps_reconciled [where k = k]) simp_all

lemma keeps_terminal:
  assumes "sanitizer_keeps (w_externs W)" and "row \<in> rows" and "cl_token claim = fr_token (w_fresh W k)"
    and "matching_proof row \<noteq> None"
  shows "keeps_evidence W rows {row} (reconcileTerminal W row claim ro)"
  unfolding reconcileTerminal_def reconcileAnalysis_def reconcileRegistryTrust_def reconcileTarget_def reconcileInspected_def Let_def
  by (intro evidence_intros keeps_settled [OF assms(2,3,4)] assms(1))

lemma evidenced_known:
  assumes "evidenced W rows {} a" and "evidenced W rows {row} b" and "matching_proof row = Some p" and "has_ended p a"
  shows "evidenced W rows {} (a @ b)"
  unfolding evidenced_def
proof (intro allI impI, elim conjE)
  fix x d d' y r assume l: "a @ b = x @ Wrote d d' # y" and u: "jobs.keys_unique (d_jobs d)" "settles d d' r"
  from l show "\<exists>row\<in>rows. justified W (row \<in> {}) row x r"
  proof (cases rule: append_split)
    case (1 y')
    with assms(1) u show ?thesis unfolding evidenced_def by blast
  next
    case (2 x')
    then obtain row' where "row' \<in> rows" and j: "justified W (row' \<in> {row}) row' x' r"
      using assms(2) u unfolding evidenced_def by blast
    moreover have "justified W False row' (a @ x') r"
    proof (cases "row' = row")
      case True
      with j assms(3) show ?thesis using has_ended_append [OF assms(4), of "[]" x'] by (auto simp: justified_def)
    next
      case False
      with j justified_append [of W False row' x' r a] show ?thesis by simp
    qed
    ultimately show ?thesis using 2(1) by auto
  qed
qed

lemma keeps_row:
  assumes "sanitizer_keeps (w_externs W)" and "row \<in> rows" and "cl_token claim = fr_token (w_fresh W k)"
  shows "keeps_evidence W rows {} (reconcile_row W row claim)"
proof (cases "workerLostBeforeRemoteMutationDispatch row")
  case True
  with keeps_undispatched [OF assms] show ?thesis by (simp add: reconcile_row_def)
next
  case False
  let ?require = "requireTerminalRemoteOperationProof W row (heartbeat W row claim)"
  show ?thesis
    unfolding outcome_log.logs_def
  proof (intro allI impI)
    fix s r s' assume run: "reconcile_row W row claim s = (r, s')"
    obtain q t where q: "?require s = (q, t)" by force
    obtain a where a: "ss_log t = ss_log s @ a" "evidenced W rows {} a"
      using outcome_log.logs_run [OF keeps_require [OF keeps_heartbeat] q] by blast
    have rest: "(case q of Inl e \<Rightarrow> retry_later W row claim e | Inr ro \<Rightarrow> reconcileTerminal W row claim ro) t = (r, s')"
      using run q False by (simp add: reconcile_row_def step_bind_def attempted_def)
    show "\<exists>new. ss_log s' = ss_log s @ new \<and> evidenced W rows {} new"
    proof (cases q)
      case (Inl e)
      with rest have "retry_later W row claim e t = (r, s')" by simp
      from outcome_log.logs_run [OF keeps_retry [OF assms(1)] this] a show ?thesis
        using outcome_log.good_append [OF a(2)] by force
    next
      case (Inr ro)
      obtain p a' where p: "matching_proof row = Some p" and a': "ss_log t = ss_log s @ a'" "has_ended p a'"
        using require_ended [of W row claim s ro t] q Inr by blast
      with a(1) have "has_ended p a" by simp
      moreover obtain b where b: "ss_log s' = ss_log t @ b" "evidenced W rows {row} b"
        using outcome_log.logs_run [OF keeps_terminal [OF assms]] rest Inr p by fastforce
      ultimately have "evidenced W rows {} (a @ b)" using evidenced_known a(2) p by blast
      with a(1) b(1) show ?thesis by auto
    qed
  qed
qed

lemma claim_token: "claim_row W row s = (Inr (Some claim), t) \<Longrightarrow> cl_token claim = fr_token (w_fresh W (ss_tick s))"
  by (auto simp: claim_row_def writing_def claimReconciliation_def thrown_def Let_def split: prod.splits option.splits sum.splits if_splits)

lemma keeps_rows:
  assumes "sanitizer_keeps (w_externs W)" and "set list \<subseteq> rows"
  shows "keeps_evidence W rows {} (reconcile_rows W list counts)"
  using assms(2)
proof (induction list arbitrary: counts)
  case Nil
  then show ?case by (simp add: evidence_intros)
next
  case (Cons row list)
  have rest: "keeps_evidence W rows {} (reconcile_rows W list counts)" for counts using Cons by simp
  show ?case
    unfolding reconcile_rows.simps
  proof (rule outcome_log.logs_bind_result)
    fix claimed s t assume "claim_row W row s = (Inr claimed, t)"
    then have "keeps_evidence W rows {} (reconcile_row W row claim)" if "claimed = Some claim" for claim
      using keeps_row [OF assms(1) _ claim_token, of row rows row s claim t] that Cons.prems by simp
    then show "keeps_evidence W rows {} (case claimed of None \<Rightarrow> reconcile_rows W list counts
        | Some claim \<Rightarrow> step_bind (reconcile_row W row claim) (\<lambda>(reconciled, pending).
            reconcile_rows W list (fst counts + reconciled, snd counts + pending)))"
      by (intro evidence_intros rest)
  qed (rule keeps_claim)
qed

section \<open>A whole pass\<close>

lemma reading_log: "reading turns f s = (r, t) \<Longrightarrow> ss_log t = ss_log s"
  by (auto simp: reading_def statement_def Let_def split: prod.splits)

lemma pass_evidenced:
  assumes "sanitizer_keeps (w_externs W)" and "reconcileAmbiguousRemoteOutcomes W limit s = (res, s')"
  shows "\<exists>new. ss_log s' = ss_log s @ new
    \<and> evidenced W (set (candidates limit (fst (w_turns W (ss_tick s))) (snd (w_turns W (ss_tick s)) (ss_db s)))) {} new"
proof -
  let ?list = "candidates limit (fst (w_turns W (ss_tick s))) (snd (w_turns W (ss_tick s)) (ss_db s))"
  obtain q :: "reconciliation_error + ambiguous_row list" and t where
    q: "reading (w_turns W) (\<lambda>ck s. Inr (candidates limit ck s)) s = (q, t)" by force
  have "q = Inr ?list" using q by (auto simp: reading_def statement_def Let_def split: prod.splits)
  with q assms(2) have "step_bind (reconcile_rows W ?list (0, 0)) (\<lambda>counts. step_return (length ?list, counts)) t = (res, s')"
    by (simp add: reconcileAmbiguousRemoteOutcomes_def step_bind_def [of "reading _ _"])
  from outcome_log.logs_run [OF outcome_log.logs_bind [OF keeps_rows [OF assms(1) order_refl] outcome_log.logs_return] this]
  show ?thesis using reading_log [OF q] by simp
qed


section \<open>Witnesses\<close>

definition sample_world :: "unit world" where
  "sample_world = \<lparr>w_externs = sample_externs, w_vault = sample_vault, w_turns = (\<lambda>_. (clock_of 0, id)),
     w_fresh = (\<lambda>_. \<lparr>fr_token = ''t1'', fr_iv = [], fr_sourceId = ''s1'', fr_auditId = ''a1''\<rparr>),
     w_getHost = (\<lambda>_ _. Inr \<lparr>hc_connectionMode = ''ssh'', hc_agent = False, hc_dockerSocketPath = [], hc_tags = []\<rparr>),
     w_ssh = (\<lambda>_ _ _ h. (Inr \<lparr>cr_code = 0, cr_stdout = [], cr_stderr = []\<rparr>, h)),
     w_agentDocker = (\<lambda>_ _ _ h. (Inl (PlainError ''no agent''), h)), w_agentStat = (\<lambda>_ _ h. (Inl (PlainError ''no agent''), h)),
     w_demoStat = (\<lambda>_ _ h. (Inl (PlainError ''no demo''), h)), w_inspectSsh = (\<lambda>_ _ h. (Inr ''completed'', h)),
     w_inspectAgent = (\<lambda>_ _ h. (Inl (PlainError ''no agent''), h)), w_cleanupSsh = (\<lambda>_ _ h. (Inr (), h)),
     w_parseJson = (\<lambda>_. Inr (JObj [])), w_url = (\<lambda>_. None)\<rparr>"

definition dispatched_job :: job_row where
  "dispatched_job = (sample_job ''deploy.analyze'' Failed)\<lparr>j_error := Some ''REMOTE_OUTCOME_UNKNOWN: connection lost'', j_attempt_count := 1,
     j_completed_at := Some (- seconds 660),
     j_result := Some (JObj [(REMOTE_MUTATION_PROOF_KEY, JObj [(''operationId'', JStr (replicate 64 (CHR ''a''))), (''jobId'', JStr ''job-1''),
       (''attemptCount'', JNum 1), (''sequence'', JNum 1), (''phase'', JStr ''analyze''), (''transport'', JStr ''ssh''),
       (''timeoutMs'', JNum 1000), (''status'', JStr ''dispatched'')])])\<rparr>"

definition sample_session :: "(unit, reconciliation_entry) session" where
  "sample_session = \<lparr>ss_db = jobs_db [dispatched_job], ss_host = (), ss_tick = 0, ss_log = []\<rparr>"

definition sample_pass :: "reconciliation_entry list" where
  "sample_pass = ss_log (snd (reconcileAmbiguousRemoteOutcomes sample_world 20 sample_session))"

definition settling_write :: "reconciliation_entry list \<Rightarrow> bool" where
  "settling_write log = (case log of
     Wrote d d' # _ \<Rightarrow> (case (d_jobs d, d_jobs d') of
       ([r], [r']) \<Rightarrow> \<not> hasReconciledRemoteOutcome (j_result r) \<and> hasReconciledRemoteOutcome (j_result r')
     | _ \<Rightarrow> False)
   | _ \<Rightarrow> False)"

lemma sample_pass_settles: "settling_write (drop 4 sample_pass)"
  by code_simp

lemma settling_writeE:
  assumes "settling_write log"
  obtains d d' rest r where "log = Wrote d d' # rest" "jobs.keys_unique (d_jobs d)" "settles d d' r"
proof -
  from assms obtain d d' rest where log: "log = Wrote d d' # rest"
    by (cases log; cases "hd log") (auto simp: settling_write_def)
  with assms obtain r r' where j: "d_jobs d = [r]" "d_jobs d' = [r']"
    and h: "\<not> hasReconciledRemoteOutcome (j_result r)" "hasReconciledRemoteOutcome (j_result r')"
    by (cases "d_jobs d"; cases "tl (d_jobs d)"; cases "d_jobs d'"; cases "tl (d_jobs d')") (auto simp: settling_write_def)
  from log show thesis
    by (rule that [of d d' rest r]) (simp_all add: settles_def jobs.keys_unique_def j h)
qed


end
