(* ===== verification/Git_Inspection.thy ===== *)
theory Git_Inspection
  imports Outcome_Evidence
begin

text \<open>
  The Git inspection of the reconciler on an SSH host (\<^verbatim>\<open>services/remoteOutcomeReconciliation.ts\<close>): what a shell makes of
  the command it sends, and what follows for the two inspections that send it.
\<close>

section \<open>A reserved word out of place\<close>

text \<open>The words that a POSIX shell reads as a part of its grammar where a command begins.\<close>

definition reserved_words :: "string list" where
  "reserved_words = [''if'', ''elif'', ''else'', ''then'', ''while'', ''until'', ''for'', ''case'', ''do'', ''done'', ''fi'', ''esac'', ''in'',
     ''{'', ''}'', ''!'']"

definition simple_command :: "string \<Rightarrow> bool" where
  "simple_command line = (case sh_words line of Some (w # _) \<Rightarrow> w \<notin> set reserved_words | _ \<Rightarrow> False)"

fun stray_from :: "string \<Rightarrow> string \<Rightarrow> bool" where
  "stray_from before [] = False"
| "stray_from before (c # rest) =
     (if c = CHR '';''
      then if take 6 rest = '' then '' then simple_command before \<or> stray_from (before @ [c]) rest
           else stray_from (before @ [c]) rest
      else stray_from (before @ [c]) rest)"

text \<open>The line is a simple command, a semicolon and the word \<open>then\<close>; an \<open>if\<close> among the arguments opens nothing.\<close>

definition stray_then :: "string \<Rightarrow> bool" where
  "stray_then command = stray_from [] command"

lemma stray_from_append: "simple_command (before @ first) \<Longrightarrow> stray_from before (first @ ''; then '' @ rest)"
proof (induction first arbitrary: before)
  case (Cons c first)
  then have "stray_from (before @ [c]) (first @ ''; then '' @ rest)" by simp
  then show ?case by (simp only: append_Cons stray_from.simps if_cancel simp_thms split: if_split)
qed simp

lemma git_words:
  assumes "no_null dir"
  shows "sh_words (join_with '' '' [''cd'', shQuote dir, ''if'', ''test'', ''-d'', ''.git'']) = Some [''cd'', dir, ''if'', ''test'', ''-d'', ''.git'']"
proof -
  have plain: "denotes w [w]" if "w \<in> set [''cd'', ''if'', ''test'', ''-d'', ''.git'']" for w
    using that by (intro denotes_plain) (auto simp: is_plain_def)
  have "pieces [''cd'', shQuote dir, ''if'', ''test'', ''-d'', ''.git''] ([''cd''] @ [dir] @ [''if''] @ [''test''] @ [''-d''] @ [''.git''] @ [])"
    by (intro pieces.intros plain denotes_shQuote assms) simp_all
  from denotes_words [OF pieces_join [OF this]] show ?thesis by simp
qed

lemma git_command_stray: "no_null dir \<Longrightarrow> stray_then (git_command dir)"
  using stray_from_append [of "[]" "join_with '' '' [''cd'', shQuote dir, ''if'', ''test'', ''-d'', ''.git'']"] git_words [of dir]
  by (simp add: stray_then_def simple_command_def git_command_def reserved_words_def)

section \<open>The inspections that send it\<close>

text \<open>A shell does not run a line that is no sentence of its grammar: the command fails, or the connection does.\<close>

definition refuses_stray :: "'h world \<Rightarrow> bool" where
  "refuses_stray W \<longleftrightarrow> (\<forall>hostId command timeoutMs h. stray_then command \<longrightarrow>
     (case fst (w_ssh W hostId command timeoutMs h) of Inl _ \<Rightarrow> True | Inr r \<Rightarrow> cr_code r \<noteq> 0))"

lemma read_git_fails:
  assumes "refuses_stray W" and "no_null dir"
  shows "read_git W beat hostId dir s \<noteq> (Inr g, s')"
proof
  assume "read_git W beat hostId dir s = (Inr g, s')"
  then obtain r t t' c where "ssh_command W hostId (git_command dir) 30000 s = (Inr r, t)"
    and "check_code ''Could not inspect the Git working tree'' r t' = (Inr c, s')"
    by (auto simp: read_git_def step_bind_Inr step_return_iff)
  then have "fst (w_ssh W hostId (git_command dir) 30000 (ss_host s)) = Inr r" "cr_code r = 0"
    by (auto simp: ssh_command_def call_def thrown_def check_code_def fail_with_def step_throw_iff
        split: prod.splits sum.splits if_splits)
  moreover have "case fst (w_ssh W hostId (git_command dir) 30000 (ss_host s)) of Inl _ \<Rightarrow> True | Inr r \<Rightarrow> cr_code r \<noteq> 0"
    using assms git_command_stray unfolding refuses_stray_def by blast
  ultimately show False by simp
qed

definition ssh_host :: "'h world \<Rightarrow> uuid \<Rightarrow> bool" where
  "ssh_host W hostId \<longleftrightarrow> (\<forall>d host. w_getHost W hostId d = Inr host \<longrightarrow> hc_connectionMode host = ''ssh'')"

lemma get_ssh_host: "ssh_host W hostId \<Longrightarrow> getHostForWorker W hostId s = (Inr host, t) \<Longrightarrow> hc_connectionMode host = ''ssh''"
  by (auto simp: ssh_host_def getHostForWorker_def reading_def statement_def thrown_def Let_def split: prod.splits sum.splits)

lemma path_inspection_missing:
  assumes "refuses_stray W" and "no_null dir" and "ssh_host W hostId" and "inspectGitPath W beat hostId dir s = (Inr j, s')"
  shows "get_prop (objectFields (Some j)) ''exists'' = Some (JBool False)"
  using assms(4) unfolding inspectGitPath_def
  by (auto simp: step_bind_Inr step_return_iff read_git_fails [OF assms(1,2)] git_locked_def fail_with_def step_throw_iff get_prop_def
      split: if_split_asm dest: get_ssh_host [OF assms(3)])

lemma step_map_length: "step_map f xs s = (Inr ys, t) \<Longrightarrow> length ys = length xs"
  by (induction xs arbitrary: s ys) (auto simp: step_return_iff step_bind_Inr)

lemma stat_all_length: "stat_all W hostId paths s = (Inr stats, t) \<Longrightarrow> length stats = length paths"
  by (auto simp: stat_all_def step_bind_Inr dest!: step_map_length)

lemma target_inspection_missing:
  assumes "refuses_stray W" and "no_null (rt_workingDir tgt)" and "ssh_host W (rt_hostId tgt)"
    and "inspectRemoteOutcomeTarget W beat tgt s = (Inr j, s')"
  shows "\<exists>fields. j = x_sanitizeFields (w_externs W) (JObj fields) \<and> get_prop fields ''directoryExists'' = Some (JBool False)"
proof -
  have git: "\<not> ps_exists directory" if "inspectGit W beat host tgt directory t = (Inr g, t')" "hc_connectionMode host = ''ssh''" for host directory t g t'
    using that by (auto simp: inspectGit_def step_bind_Inr read_git_fails [OF assms(1,2)] split: if_split_asm)
  let ?paths = "[rt_workingDir tgt, rt_composePath tgt, index_lock (rt_workingDir tgt)]"
  let ?tail = "\<lambda>host stats. (case stats of
       [directory, composeFile, gitIndexLock] \<Rightarrow>
         if ps_exists gitIndexLock then git_locked
         else step_bind (inspectProject W beat tgt) (\<lambda>composeProject.
           step_bind (inspectGit W beat host tgt directory) (\<lambda>git.
           step_bind (process_time (w_turns W)) (\<lambda>now.
           step_return (x_sanitizeFields (w_externs W) (JObj
             [(''inspectedAt'', ts_json now), (''hostId'', JStr (rt_hostId tgt)), (''workingDir'', JStr (rt_workingDir tgt)),
              (''projectName'', JStr (rt_projectName tgt)), (''composePath'', JStr (rt_composePath tgt)),
              (''directoryExists'', JBool (ps_exists directory)), (''composeFileExists'', JBool (ps_exists composeFile)),
              (''gitIndexLocked'', JBool False), (''git'', git), (''composeProject'', composeProject)])))))
     | _ \<Rightarrow> fail_with ''unreachable'')"
  from assms(4) obtain t1 host t2 stats t3 t4 where host: "getHostForWorker W (rt_hostId tgt) t1 = (Inr host, t2)"
    and stats: "stat_all W (rt_hostId tgt) ?paths t2 = (Inr stats, t3)" and tail: "?tail host stats t4 = (Inr j, s')"
    unfolding inspectRemoteOutcomeTarget_def step_bind_Inr [of beat] step_bind_Inr [of "getHostForWorker _ _"] step_bind_Inr [of "stat_all _ _ _"]
    by blast
  obtain directory composeFile gitIndexLock where "stats = [directory, composeFile, gitIndexLock]"
    using stat_all_length [OF stats] by (auto simp: length_Suc_conv)
  with tail get_ssh_host [OF assms(3) host] show ?thesis
    by (auto simp: step_bind_Inr step_return_iff git_locked_def fail_with_def step_throw_iff get_prop_def split: if_split_asm dest!: git)
qed

text \<open>
  C14: On an SSH host the reconciler never completes an inspection of a Git working tree that exists. The command it sends
  joins \<open>cd dir\<close> and \<open>if test -d .git; then\<close> with a blank, so that \<open>if\<close> is an argument of \<open>cd\<close> and \<open>then\<close> stands where
  no \<open>if\<close> is open; a shell refuses such a line. Whatever the hosts answer otherwise, the inspection of a deployment target
  returns only with a missing directory, and so does the inspection of a Git path: every other outcome stays pending.
\<close>

theorem git_inspection_only_of_missing_directories:
  assumes "refuses_stray W" and "ssh_host W (rt_hostId tgt)" and "no_null (rt_workingDir tgt)"
  shows "stray_then (git_command (rt_workingDir tgt))
    \<and> (inspectRemoteOutcomeTarget W beat tgt s = (Inr j, s') \<longrightarrow>
        (\<exists>fields. j = x_sanitizeFields (w_externs W) (JObj fields) \<and> get_prop fields ''directoryExists'' = Some (JBool False)))
    \<and> (inspectGitPath W beat (rt_hostId tgt) (rt_workingDir tgt) s = (Inr j, s') \<longrightarrow>
        get_prop (objectFields (Some j)) ''exists'' = Some (JBool False))"
  using assms git_command_stray target_inspection_missing path_inspection_missing by blast

section \<open>Witnesses\<close>

text \<open>A shell that refuses the line and finds no path.\<close>

definition shell_world :: "unit world" where
  "shell_world = sample_world\<lparr>w_ssh := (\<lambda>_ command _ h. (Inr (if stray_then command
       then \<lparr>cr_code = 2, cr_stdout = [], cr_stderr = ''syntax error''\<rparr>
       else \<lparr>cr_code = 0, cr_stdout = ''missing'' @ [CHR 0x09] @ ''0'', cr_stderr = []\<rparr>), h))\<rparr>"

definition srv_app :: remote_outcome_target where
  "srv_app = \<lparr>rt_hostId = ''h1'', rt_workingDir = ''/srv/app'', rt_projectName = ''app'', rt_composePath = ''/srv/app/compose.yaml''\<rparr>"

lemma shell_world_laws: "refuses_stray shell_world" "ssh_host shell_world hostId"
  by (simp_all add: refuses_stray_def ssh_host_def shell_world_def sample_world_def)

theorem git_inspection_only_of_missing_directories_witness:
  "stray_then (git_command ''/srv/app'')
   \<and> (\<exists>j s'. inspectGitPath shell_world (step_return ()) ''h1'' ''/srv/app'' sample_session = (Inr j, s')
        \<and> get_prop (objectFields (Some j)) ''exists'' = Some (JBool False))"
proof -
  have "case fst (inspectGitPath shell_world (step_return ()) ''h1'' ''/srv/app'' sample_session) of Inr _ \<Rightarrow> True | Inl _ \<Rightarrow> False"
    by code_simp
  then obtain j s' where run: "inspectGitPath shell_world (step_return ()) ''h1'' ''/srv/app'' sample_session = (Inr j, s')"
    by (auto split: sum.splits) (metis prod.collapse)
  have "no_null (rt_workingDir srv_app)" by code_simp
  from git_inspection_only_of_missing_directories [OF shell_world_laws(1) shell_world_laws(2) this, of "step_return ()" sample_session j s'] run
  show ?thesis unfolding srv_app_def by auto
qed

end
