(* ===== verification/Accounts.thy ===== *)
theory Accounts
  imports Audit_Log Session
begin

text \<open>
  User accounts and sessions (\<^verbatim>\<open>services/auth.ts\<close>, \<^verbatim>\<open>services/users.ts\<close>, \<^verbatim>\<open>services/loginAttempts.ts\<close>, and the handlers of
  \<^verbatim>\<open>routes/auth.ts\<close>): the first owner, passwords, sessions and their revocation, the changes of accounts, and the lockout after
  failed logins. Bodies of requests are parsed; the password hash, random tokens and new identifiers are arguments, and so
  are the callbacks that write audit events inside a transaction.
\<close>

section \<open>Users\<close>

record admin_user =
  am_id :: uuid
  am_name :: "string option"
  am_username :: "string option"
  am_email :: string
  am_role :: role
  am_isActive :: bool
  am_lastLoginAt :: "timestamp option"
  am_createdAt :: timestamp

definition mapAdmin :: "user_row \<Rightarrow> admin_user" where
  "mapAdmin u = \<lparr>am_id = us_id u, am_name = us_name u, am_username = us_username u, am_email = us_email u, am_role = us_role u,
     am_isActive = us_is_active u, am_lastLoginAt = us_last_login_at u, am_createdAt = us_created_at u\<rparr>"

text \<open>The password hash: \<open>ps_hash salt password\<close> and the comparison.\<close>

record password_scheme =
  ps_hash :: "string \<Rightarrow> string \<Rightarrow> string"
  ps_compare :: "string \<Rightarrow> string \<Rightarrow> bool"

type_synonym callback = "db \<Rightarrow> (unit \<times> db) result"

definition no_callback :: callback where
  "no_callback s = Inr ((), s)"

definition unique_violation :: exn where
  "unique_violation = CodedError ''23505'' ''duplicate key value violates unique constraint''"

definition username_key :: "user_row \<Rightarrow> string option" where
  "username_key u = map_option to_lower (us_username u)"

definition users_clash :: "user_row \<Rightarrow> user_row \<Rightarrow> bool" where
  "users_clash u v \<longleftrightarrow> us_email u = us_email v \<or> username_key u \<noteq> None \<and> username_key u = username_key v"

definition insert_user :: "user_row \<Rightarrow> db \<Rightarrow> (user_row \<times> db) result" where
  "insert_user u s =
     (if list_ex (\<lambda>v. us_id v = us_id u \<or> users_clash v u) (d_users s) then Inl unique_violation
      else Inr (u, s\<lparr>d_users := d_users s @ [u]\<rparr>))"

section \<open>The first owner\<close>

record initial_admin =
  ia_email :: "string option"
  ia_username :: "string option"
  ia_password :: string
  ia_name :: "string option"

record prepared_admin =
  pa_username :: "string option"
  pa_email :: string
  pa_name :: "string option"
  pa_passwordHash :: string

definition lowered :: "string option \<Rightarrow> string option" where
  "lowered v = nonempty (map_option (\<lambda>t. to_lower (trim t)) v)"

definition prepareInitialAdmin :: "password_scheme \<Rightarrow> string \<Rightarrow> initial_admin \<Rightarrow> prepared_admin result" where
  "prepareInitialAdmin PS salt input =
     (let username = lowered (ia_username input) in
      case (lowered (ia_email input), username) of
        (None, None) \<Rightarrow> Inl (PlainError ''Username or email is required'')
      | (e, u) \<Rightarrow> Inr \<lparr>pa_username = username,
          pa_email = (case e of Some email \<Rightarrow> email | None \<Rightarrow> the u @ ''@local.composebastion''),
          pa_name = ia_name input, pa_passwordHash = ps_hash PS salt (ia_password input)\<rparr>)"

definition OWNER_INVARIANT_LOCK_KEY :: string where
  "OWNER_INVARIANT_LOCK_KEY = ''763291407''"

definition insertInitialAdmin ::
    "clock \<Rightarrow> uuid \<Rightarrow> prepared_admin \<Rightarrow> (admin_user \<Rightarrow> callback) \<Rightarrow> db \<Rightarrow> (admin_user \<times> db) result" where
  "insertInitialAdmin ck newId prepared onChanged s =
     (let s1 = advisory_lock OWNER_INVARIANT_LOCK_KEY s in
      if d_users s1 \<noteq> [] then Inl (StatusError 409 ''Initial admin already exists'' None)
      else and_then (insert_user \<lparr>us_id = newId, us_name = pa_name prepared, us_username = pa_username prepared,
             us_email = pa_email prepared, us_password_hash = pa_passwordHash prepared, us_role = Owner, us_is_active = True,
             us_last_login_at = None, us_created_at = ck_now ck\<rparr> s1) (\<lambda>(u, s2).
           and_then (onChanged (mapAdmin u) s2) (\<lambda>(_, s3). Inr (mapAdmin u, s3))))"

definition createAdmin ::
    "password_scheme \<Rightarrow> string \<Rightarrow> clock \<Rightarrow> uuid \<Rightarrow> initial_admin \<Rightarrow> (admin_user \<Rightarrow> callback) \<Rightarrow> db \<Rightarrow> admin_user result \<times> db" where
  "createAdmin PS salt ck newId input onChanged s =
     (case prepareInitialAdmin PS salt input of
        Inl e \<Rightarrow> (Inl e, s)
      | Inr prepared \<Rightarrow> withTransaction (insertInitialAdmin ck newId prepared onChanged) s)"

definition adminCount :: "db \<Rightarrow> nat" where
  "adminCount s = length (d_users s)"

text \<open>An unknown account costs the same comparison as a known one.\<close>

definition UNKNOWN_ACCOUNT_PASSWORD_HASH :: string where
  "UNKNOWN_ACCOUNT_PASSWORD_HASH = ''$2b$12$LQv3c1yqBWVHxkd0LHAkCOYz6Ttx1KnmK2w2S7tVY6B7cXWVCI0e.''"

definition named_by :: "string \<Rightarrow> user_row \<Rightarrow> bool" where
  "named_by normalized u \<longleftrightarrow> to_lower (us_email u) = normalized \<or> username_key u = Some normalized"

definition verifyAdmin :: "password_scheme \<Rightarrow> string \<Rightarrow> string \<Rightarrow> db \<Rightarrow> admin_user option" where
  "verifyAdmin PS identifier password s =
     (let row = first_row (filter (\<lambda>u. us_is_active u \<and> named_by (to_lower (trim identifier)) u) (d_users s));
          valid = ps_compare PS password (case row of None \<Rightarrow> UNKNOWN_ACCOUNT_PASSWORD_HASH | Some u \<Rightarrow> us_password_hash u)
      in case row of None \<Rightarrow> None | Some u \<Rightarrow> if valid then Some (mapAdmin u) else None)"

section \<open>Sessions\<close>

definition SESSION_DAYS :: int where "SESSION_DAYS = 7"

definition session_lifetime :: timestamp where
  "session_lifetime = seconds (SESSION_DAYS * 24 * 60 * 60)"

record session_context =
  sc_ipAddress :: "string option"
  sc_userAgent :: "string option"

definition hashToken :: "externs \<Rightarrow> string \<Rightarrow> string" where
  "hashToken X token = x_sha256 X token"

definition insert_session :: "session_row \<Rightarrow> db \<Rightarrow> (unit \<times> db) result" where
  "insert_session row s =
     (if se_user_id row \<notin> us_id ` set (d_users s)
      then Inl (CodedError ''23503'' ''insert or update violates foreign key constraint'')
      else if list_ex (\<lambda>r. se_id r = se_id row \<or> se_token_hash r = se_token_hash row) (d_sessions s) then Inl unique_violation
      else Inr ((), s\<lparr>d_sessions := d_sessions s @ [row]\<rparr>))"

definition new_session :: "externs \<Rightarrow> clock \<Rightarrow> timestamp \<Rightarrow> uuid \<Rightarrow> string \<Rightarrow> uuid \<Rightarrow> session_context \<Rightarrow> session_row" where
  "new_session X ck now newId token userId context =
     \<lparr>se_id = newId, se_user_id = userId, se_token_hash = hashToken X token, se_expires_at = now + session_lifetime,
      se_ip_address = sc_ipAddress context, se_user_agent = sc_userAgent context, se_last_seen_at = Some (ck_now ck),
      se_created_at = ck_now ck\<rparr>"

text \<open>\<open>now\<close> is the time of the process.\<close>

definition createSession ::
    "externs \<Rightarrow> clock \<Rightarrow> timestamp \<Rightarrow> uuid \<Rightarrow> string \<Rightarrow> uuid \<Rightarrow> session_context \<Rightarrow> db \<Rightarrow> (string \<times> timestamp) result \<times> db" where
  "createSession X ck now newId token userId context s =
     (case insert_session (new_session X ck now newId token userId context) s of
        Inl e \<Rightarrow> (Inl e, s)
      | Inr (_, s1) \<Rightarrow> (Inr (token, now + session_lifetime), s1))"

definition update_users :: "(user_row \<Rightarrow> bool) \<Rightarrow> (user_row \<Rightarrow> user_row) \<Rightarrow> db \<Rightarrow> db" where
  "update_users P f s = s\<lparr>d_users := update_where P f (d_users s)\<rparr>"

definition touchLastLogin :: "clock \<Rightarrow> uuid \<Rightarrow> db \<Rightarrow> db" where
  "touchLastLogin ck userId = update_users (\<lambda>u. us_id u = userId) (\<lambda>u. u\<lparr>us_last_login_at := Some (ck_now ck)\<rparr>)"

definition create_login ::
    "externs \<Rightarrow> clock \<Rightarrow> timestamp \<Rightarrow> uuid \<Rightarrow> string \<Rightarrow> uuid \<Rightarrow> session_context \<Rightarrow> callback \<Rightarrow> db
     \<Rightarrow> ((string \<times> timestamp) \<times> db) result" where
  "create_login X ck now newId token userId context onCreated s =
     and_then (insert_session (new_session X ck now newId token userId context) s) (\<lambda>(_, s1).
     and_then (onCreated (touchLastLogin ck userId s1)) (\<lambda>(_, s2).
     Inr ((token, now + session_lifetime), s2)))"

definition createLoginSession ::
    "externs \<Rightarrow> clock \<Rightarrow> timestamp \<Rightarrow> uuid \<Rightarrow> string \<Rightarrow> uuid \<Rightarrow> session_context \<Rightarrow> callback \<Rightarrow> db
     \<Rightarrow> (string \<times> timestamp) result \<times> db" where
  "createLoginSession X ck now newId token userId context onCreated =
     withTransaction (create_login X ck now newId token userId context onCreated)"

record setup_input = initial_admin +
  si_includeDemoData :: bool

definition setupInitialAdmin ::
    "password_scheme \<Rightarrow> externs \<Rightarrow> string \<Rightarrow> clock \<Rightarrow> timestamp \<Rightarrow> uuid \<Rightarrow> uuid \<Rightarrow> string \<Rightarrow> setup_input \<Rightarrow> session_context
     \<Rightarrow> (admin_user \<Rightarrow> callback) \<Rightarrow> (uuid \<Rightarrow> callback) \<Rightarrow> db \<Rightarrow> (admin_user \<times> string \<times> timestamp) result \<times> db" where
  "setupInitialAdmin PS X salt ck now userId sessionId token input context onCreated seedDemoWorkspace s =
     (case prepareInitialAdmin PS salt (initial_admin.truncate input) of
        Inl e \<Rightarrow> (Inl e, s)
      | Inr prepared \<Rightarrow> withTransaction (\<lambda>s.
          and_then (insertInitialAdmin ck userId prepared onCreated s) (\<lambda>(user, s1).
          and_then (if si_includeDemoData input then seedDemoWorkspace (am_id user) s1 else Inr ((), s1)) (\<lambda>(_, s2).
          and_then (create_login X ck now sessionId token (am_id user) context no_callback s2) (\<lambda>(session, s3).
          Inr ((user, session), s3))))) s)"

text \<open>The session of a cookie and its user.\<close>

definition live_session :: "clock \<Rightarrow> string \<Rightarrow> session_row \<Rightarrow> bool" where
  "live_session ck tokenHash r \<longleftrightarrow> se_token_hash r = tokenHash \<and> ck_now ck < se_expires_at r"

definition session_users :: "clock \<Rightarrow> string \<Rightarrow> db \<Rightarrow> user_row list" where
  "session_users ck tokenHash s = concat (map (\<lambda>r. filter (\<lambda>u. us_id u = se_user_id r \<and> us_is_active u) (d_users s))
     (filter (live_session ck tokenHash) (d_sessions s)))"

definition session_user :: "externs \<Rightarrow> clock \<Rightarrow> string option \<Rightarrow> db \<Rightarrow> admin_user option" where
  "session_user X ck cookie s = (case nonempty cookie of
     None \<Rightarrow> None
   | Some token \<Rightarrow> map_option mapAdmin (first_row (session_users ck (hashToken X token) s)))"

definition touch_session :: "clock \<Rightarrow> string \<Rightarrow> db \<Rightarrow> db" where
  "touch_session ck tokenHash s = s\<lparr>d_sessions := update_where
     (\<lambda>r. se_token_hash r = tokenHash
        \<and> (case se_last_seen_at r of None \<Rightarrow> True | Some t \<Rightarrow> t < ck_now ck - seconds 60))
     (\<lambda>r. r\<lparr>se_last_seen_at := Some (ck_now ck)\<rparr>) (d_sessions s)\<rparr>"

text \<open>\<^verbatim>\<open>readSession\<close>: the query and, for a request that counts as activity, the update; both are statements of their own.\<close>

definition readSession :: "externs \<Rightarrow> turns \<Rightarrow> string option \<Rightarrow> bool \<Rightarrow> (exn, 'h, 'l, admin_user option) program" where
  "readSession X turns cookie touch =
     step_bind (reading turns (\<lambda>ck s. Inr (session_user X ck cookie s))) (\<lambda>user.
     case user of
       None \<Rightarrow> step_return None
     | Some u \<Rightarrow>
         if touch then step_bind (statement turns (\<lambda>ck s. (Inr (), touch_session ck (hashToken X (the cookie)) s)))
                         (\<lambda>_. step_return (Some u))
         else step_return (Some u))"

definition delete_sessions :: "(session_row \<Rightarrow> bool) \<Rightarrow> db \<Rightarrow> db" where
  "delete_sessions P s = s\<lparr>d_sessions := filter (\<lambda>r. \<not> P r) (d_sessions s)\<rparr>"

definition destroySession :: "externs \<Rightarrow> string option \<Rightarrow> (uuid \<Rightarrow> callback) \<Rightarrow> db \<Rightarrow> bool result \<times> db" where
  "destroySession X token onChanged s =
     (case nonempty token of
        None \<Rightarrow> (Inr False, s)
      | Some t \<Rightarrow> withTransaction (\<lambda>s.
          let P = (\<lambda>r. se_token_hash r = hashToken X t); s1 = delete_sessions P s in
          case first_row (filter P (d_sessions s)) of
            None \<Rightarrow> Inr (False, s1)
          | Some r \<Rightarrow> and_then (onChanged (se_user_id r) s1) (\<lambda>(_, s2). Inr (True, s2))) s)"

definition destroyAllSessionsForUser :: "uuid \<Rightarrow> callback \<Rightarrow> db \<Rightarrow> unit result \<times> db" where
  "destroyAllSessionsForUser userId onChanged =
     withTransaction (\<lambda>s. onChanged (delete_sessions (\<lambda>r. se_user_id r = userId) s))"

record session_info =
  sn_id :: uuid
  sn_ipAddress :: "string option"
  sn_userAgent :: "string option"
  sn_createdAt :: timestamp
  sn_lastSeenAt :: "timestamp option"
  sn_expiresAt :: timestamp
  sn_current :: bool

definition mapSession :: "string \<Rightarrow> session_row \<Rightarrow> session_info" where
  "mapSession currentTokenHash r = \<lparr>sn_id = se_id r, sn_ipAddress = se_ip_address r, sn_userAgent = se_user_agent r,
     sn_createdAt = se_created_at r, sn_lastSeenAt = se_last_seen_at r, sn_expiresAt = se_expires_at r,
     sn_current = (se_token_hash r = currentTokenHash)\<rparr>"

text \<open>The most recently seen session first, sessions that were never seen last, the younger first.\<close>

definition listSessionsForUser :: "clock \<Rightarrow> uuid \<Rightarrow> string \<Rightarrow> db \<Rightarrow> session_info list" where
  "listSessionsForUser ck userId currentTokenHash s =
     (let rows = sort_key (\<lambda>r. - se_created_at r) (filter (\<lambda>r. se_user_id r = userId \<and> ck_now ck < se_expires_at r) (d_sessions s))
      in map (mapSession currentTokenHash)
           (sort_key (\<lambda>r. - the (se_last_seen_at r)) (filter (\<lambda>r. se_last_seen_at r \<noteq> None) rows)
            @ filter (\<lambda>r. se_last_seen_at r = None) rows))"

definition revokeSessionForUser ::
    "uuid \<Rightarrow> uuid \<Rightarrow> string \<Rightarrow> (bool \<Rightarrow> callback) \<Rightarrow> db \<Rightarrow> (bool \<times> bool) result \<times> db" where
  "revokeSessionForUser sessionId userId currentTokenHash onChanged = withTransaction (\<lambda>s.
     let P = (\<lambda>r. se_id r = sessionId \<and> se_user_id r = userId); s1 = delete_sessions P s in
     case nonempty (map_option se_token_hash (first_row (filter P (d_sessions s)))) of
       None \<Rightarrow> Inr ((False, False), s1)
     | Some tokenHash \<Rightarrow>
         let wasCurrent = (tokenHash = currentTokenHash) in
         and_then (onChanged wasCurrent s1) (\<lambda>(_, s2). Inr ((True, wasCurrent), s2)))"

definition deleteExpiredSessions :: "clock \<Rightarrow> db \<Rightarrow> db" where
  "deleteExpiredSessions ck = delete_sessions (\<lambda>r. se_expires_at r < ck_now ck)"

datatype access = Granted admin_user | Unauthenticated | Forbidden

definition requireAuth :: "externs \<Rightarrow> turns \<Rightarrow> string option \<Rightarrow> (exn, 'h, 'l, access) program" where
  "requireAuth X turns cookie = step_bind (readSession X turns cookie True) (\<lambda>user.
     step_return (case user of None \<Rightarrow> Unauthenticated | Some u \<Rightarrow> Granted u))"

definition requireRole :: "externs \<Rightarrow> turns \<Rightarrow> role list \<Rightarrow> string option \<Rightarrow> (exn, 'h, 'l, access) program" where
  "requireRole X turns roles cookie = step_bind (requireAuth X turns cookie) (\<lambda>access.
     step_return (case access of Granted u \<Rightarrow> if am_role u \<in> set roles then Granted u else Forbidden | _ \<Rightarrow> access))"

section \<open>Changes of accounts\<close>

definition conflict :: "string \<Rightarrow> exn" where
  "conflict message = StatusError 409 message None"

definition listUsers :: "db \<Rightarrow> admin_user list" where
  "listUsers s = map mapAdmin (sort_key us_created_at (d_users s))"

definition active_owner :: "user_row \<Rightarrow> bool" where
  "active_owner u \<longleftrightarrow> us_role u = Owner \<and> us_is_active u"

definition other_owners :: "uuid \<Rightarrow> db \<Rightarrow> nat" where
  "other_owners excludeUserId s = length (filter (\<lambda>u. active_owner u \<and> us_id u \<noteq> excludeUserId) (d_users s))"

definition countActiveOwners :: "uuid option \<Rightarrow> db \<Rightarrow> nat" where
  "countActiveOwners excludeUserId s = (case nonempty excludeUserId of
     Some i \<Rightarrow> other_owners i s
   | None \<Rightarrow> length (filter active_owner (d_users s)))"

record user_create =
  uc_name :: "string option"
  uc_username :: "string option"
  uc_email :: string
  uc_password :: string
  uc_role :: role

definition created_user :: "password_scheme \<Rightarrow> string \<Rightarrow> clock \<Rightarrow> uuid \<Rightarrow> user_create \<Rightarrow> user_row" where
  "created_user PS salt ck newId body = \<lparr>us_id = newId, us_name = uc_name body, us_username = map_option to_lower (uc_username body),
     us_email = to_lower (uc_email body), us_password_hash = ps_hash PS salt (uc_password body), us_role = uc_role body,
     us_is_active = True, us_last_login_at = None, us_created_at = ck_now ck\<rparr>"

definition createUser ::
    "password_scheme \<Rightarrow> string \<Rightarrow> clock \<Rightarrow> uuid \<Rightarrow> user_create \<Rightarrow> (admin_user \<Rightarrow> callback) \<Rightarrow> db \<Rightarrow> admin_user result \<times> db" where
  "createUser PS salt ck newId body onChanged = withTransaction (\<lambda>s.
     and_then (insert_user (created_user PS salt ck newId body) (advisory_lock OWNER_INVARIANT_LOCK_KEY s)) (\<lambda>(u, s1).
     and_then (onChanged (mapAdmin u) s1) (\<lambda>(_, s2). Inr (mapAdmin u, s2))))"

text \<open>A field that is absent keeps the column; a null name or user name clears it.\<close>

record user_update =
  up_name :: "string option option"
  up_username :: "string option option"
  up_role :: "role option"
  up_isActive :: "bool option"
  up_password :: "string option"

definition or_else :: "'a option \<Rightarrow> 'a \<Rightarrow> 'a" where
  "or_else v d = (case v of None \<Rightarrow> d | Some x \<Rightarrow> x)"

definition updated_user :: "password_scheme \<Rightarrow> string \<Rightarrow> user_update \<Rightarrow> user_row \<Rightarrow> user_row" where
  "updated_user PS salt body u = u\<lparr>us_name := or_else (up_name body) (us_name u), us_role := or_else (up_role body) (us_role u),
     us_is_active := or_else (up_isActive body) (us_is_active u),
     us_password_hash := (case nonempty (up_password body) of None \<Rightarrow> us_password_hash u | Some pw \<Rightarrow> ps_hash PS salt pw),
     us_username := (case up_username body of None \<Rightarrow> us_username u | Some v \<Rightarrow> map_option to_lower v)\<rparr>"

text \<open>The guards of an update: nobody changes or disables himself, and an active owner remains.\<close>

definition check_update :: "uuid \<Rightarrow> uuid option \<Rightarrow> user_update \<Rightarrow> user_row \<Rightarrow> db \<Rightarrow> unit result" where
  "check_update userId actorId body row s =
     (let nextRole = or_else (up_role body) (us_role row); nextActive = or_else (up_isActive body) (us_is_active row) in
      if actorId = Some userId \<and> up_role body \<noteq> None \<and> up_role body \<noteq> Some (us_role row) then Inl (conflict ''You cannot change your own role'')
      else if actorId = Some userId \<and> up_isActive body = Some False then Inl (conflict ''You cannot disable your own account'')
      else if active_owner row \<and> (nextRole \<noteq> Owner \<or> \<not> nextActive) \<and> other_owners userId s = 0
      then Inl (conflict (if nextRole \<noteq> Owner then ''Cannot demote the last active owner'' else ''Cannot disable the last active owner''))
      else Inr ())"

definition revokes_sessions :: "user_update \<Rightarrow> user_row \<Rightarrow> bool" where
  "revokes_sessions body row \<longleftrightarrow> nonempty (up_password body) \<noteq> None
     \<or> us_is_active row \<and> \<not> or_else (up_isActive body) (us_is_active row)"

definition updateUser ::
    "password_scheme \<Rightarrow> string \<Rightarrow> uuid \<Rightarrow> user_update \<Rightarrow> uuid option \<Rightarrow> (admin_user \<Rightarrow> callback) \<Rightarrow> db
     \<Rightarrow> admin_user option result \<times> db" where
  "updateUser PS salt userId body actorId onChanged = withTransaction (\<lambda>s.
     let s0 = advisory_lock OWNER_INVARIANT_LOCK_KEY s in
     case first_row (filter (\<lambda>u. us_id u = userId) (d_users s0)) of
       None \<Rightarrow> Inr (None, s0)
     | Some row \<Rightarrow>
         and_then (check_update userId actorId body row s0) (\<lambda>_.
         let row' = updated_user PS salt body row in
         if list_ex (\<lambda>v. us_id v \<noteq> userId \<and> users_clash v row') (d_users s0) then Inl unique_violation
         else
           let s1 = update_users (\<lambda>u. us_id u = userId) (updated_user PS salt body) s0;
               s2 = (if revokes_sessions body row then delete_sessions (\<lambda>r. se_user_id r = userId) s1 else s1) in
           and_then (onChanged (mapAdmin row') s2) (\<lambda>(_, s3). Inr (Some (mapAdmin row'), s3))))"

text \<open>The sessions of a deleted user go with it; other references to it are cleared.\<close>

definition clear_user :: "uuid \<Rightarrow> uuid option \<Rightarrow> uuid option" where
  "clear_user userId v = (if v = Some userId then None else v)"

definition delete_user_row :: "uuid \<Rightarrow> db \<Rightarrow> db" where
  "delete_user_row userId s = delete_sessions (\<lambda>r. se_user_id r = userId) (s\<lparr>d_users := filter (\<lambda>u. us_id u \<noteq> userId) (d_users s),
     d_jobs := map (\<lambda>r. r\<lparr>j_created_by := clear_user userId (j_created_by r)\<rparr>) (d_jobs s),
     d_versions := map (\<lambda>v. v\<lparr>sv_created_by := clear_user userId (sv_created_by v)\<rparr>) (d_versions s),
     d_audit := map (\<lambda>e. e\<lparr>ae_user_id := clear_user userId (ae_user_id e)\<rparr>) (d_audit s)\<rparr>)"

definition deleteUser :: "uuid \<Rightarrow> uuid option \<Rightarrow> callback \<Rightarrow> db \<Rightarrow> bool result \<times> db" where
  "deleteUser userId actorId onChanged = withTransaction (\<lambda>s.
     let s0 = advisory_lock OWNER_INVARIANT_LOCK_KEY s in
     case first_row (filter (\<lambda>u. us_id u = userId) (d_users s0)) of
       None \<Rightarrow> Inr (False, s0)
     | Some row \<Rightarrow>
         if actorId = Some userId then Inl (conflict ''You cannot delete your own account'')
         else if active_owner row \<and> other_owners userId s0 = 0 then Inl (conflict ''Cannot delete the last active owner account'')
         else and_then (onChanged (delete_user_row userId s0)) (\<lambda>(_, s1). Inr (True, s1)))"

section \<open>Failed logins\<close>

definition WINDOW :: timestamp where "WINDOW = seconds (15 * 60)"
definition MAX_IP_FAILURES :: nat where "MAX_IP_FAILURES = 10"
definition MAX_IDENTIFIER_FAILURES :: nat where "MAX_IDENTIFIER_FAILURES = 30"
definition MIN_IDENTIFIER_LOCK_IPS :: nat where "MIN_IDENTIFIER_LOCK_IPS = 3"

record login_failure_snapshot =
  lf_ipFailures :: nat
  lf_identifierFailures :: nat
  lf_identifierDistinctIps :: nat

definition normalizeIdentifier :: "string \<Rightarrow> string" where
  "normalizeIdentifier identifier = to_lower (trim identifier)"

definition normalizeIpAddress :: "string \<Rightarrow> string" where
  "normalizeIpAddress ipAddress = (if trim ipAddress = [] then ''unknown'' else trim ipAddress)"

definition isLoginLockedForSnapshot :: "login_failure_snapshot \<Rightarrow> bool" where
  "isLoginLockedForSnapshot f \<longleftrightarrow> lf_ipFailures f \<ge> MAX_IP_FAILURES
     \<or> lf_identifierFailures f \<ge> MAX_IDENTIFIER_FAILURES \<and> lf_identifierDistinctIps f \<ge> MIN_IDENTIFIER_LOCK_IPS"

definition login_attempt :: "clock \<Rightarrow> string \<Rightarrow> string \<Rightarrow> bool \<Rightarrow> login_row" where
  "login_attempt ck identifier ipAddress success = \<lparr>la_identifier = normalizeIdentifier identifier,
     la_ip_address = Some (normalizeIpAddress ipAddress), la_attempted_at = ck_now ck, la_success = success\<rparr>"

definition recordLoginAttempt :: "clock \<Rightarrow> string \<Rightarrow> string \<Rightarrow> bool \<Rightarrow> callback \<Rightarrow> db \<Rightarrow> unit result \<times> db" where
  "recordLoginAttempt ck identifier ipAddress success onRecorded = withTransaction (\<lambda>s.
     onRecorded (s\<lparr>d_logins := d_logins s @ [login_attempt ck identifier ipAddress success]\<rparr>))"

definition attempt_ip :: "login_row \<Rightarrow> string" where
  "attempt_ip r = or_else (la_ip_address r) ''unknown''"

definition recent_failures :: "timestamp \<Rightarrow> db \<Rightarrow> login_row list" where
  "recent_failures now s = filter (\<lambda>r. \<not> la_success r \<and> now - WINDOW \<le> la_attempted_at r) (d_logins s)"

definition same_identifier :: "string \<Rightarrow> login_row \<Rightarrow> bool" where
  "same_identifier identifier r \<longleftrightarrow> to_lower (la_identifier r) = to_lower (normalizeIdentifier identifier)"

definition failure_snapshot :: "timestamp \<Rightarrow> string \<Rightarrow> string \<Rightarrow> db \<Rightarrow> login_failure_snapshot" where
  "failure_snapshot now identifier ipAddress s =
     (let failures = recent_failures now s; byIdentifier = filter (same_identifier identifier) failures in
      \<lparr>lf_ipFailures = length (filter (\<lambda>r. attempt_ip r = normalizeIpAddress ipAddress) failures),
       lf_identifierFailures = length byIdentifier, lf_identifierDistinctIps = length (uniq (map attempt_ip byIdentifier))\<rparr>)"

definition isLoginLocked :: "timestamp \<Rightarrow> string \<Rightarrow> string \<Rightarrow> db \<Rightarrow> bool" where
  "isLoginLocked now identifier ipAddress s = isLoginLockedForSnapshot (failure_snapshot now identifier ipAddress s)"

section \<open>Requests\<close>

text \<open>
  The handlers of \<^verbatim>\<open>routes/auth.ts\<close> and \<^verbatim>\<open>routes/users.ts\<close> as programs of statements: other transactions run before each of
  them, and each draws its own random values.
\<close>

record account_fresh =
  fa_id :: uuid
  fa_sessionId :: uuid
  fa_token :: string
  fa_salt :: string
  fa_auditId :: uuid

record account_world =
  aw_externs :: externs
  aw_passwords :: password_scheme
  aw_turns :: turns
  aw_fresh :: "nat \<Rightarrow> account_fresh"

record request =
  rq_cookie :: "string option"
  rq_ip :: "string option"
  rq_userAgent :: "string option"

datatype 'a reply = Answer 'a | ApiError nat string

type_synonym 'a handler = "(exn, unit, unit, 'a reply) program"

definition transact :: "account_world \<Rightarrow> (account_fresh \<Rightarrow> clock \<Rightarrow> db \<Rightarrow> 'a result \<times> db) \<Rightarrow> (exn, unit, unit, 'a) program" where
  "transact W f s = statement (aw_turns W) (f (aw_fresh W (ss_tick s))) s"

definition request_context :: "request \<Rightarrow> session_context" where
  "request_context rq = \<lparr>sc_ipAddress = rq_ip rq, sc_userAgent = rq_userAgent rq\<rparr>"

definition audit_of ::
    "request \<Rightarrow> string \<Rightarrow> string \<Rightarrow> uuid option \<Rightarrow> uuid option \<Rightarrow> (string \<times> json) list \<Rightarrow> audit_input" where
  "audit_of rq action targetKind targetId userId details =
     \<lparr>ai_userId = userId, ai_hostId = None, ai_action = action, ai_targetKind = Some targetKind, ai_targetId = targetId,
      ai_details = (if details = [] then None else Some (JObj details)), ai_ipAddress = rq_ip rq, ai_userAgent = rq_userAgent rq\<rparr>"

definition audit_statement :: "account_world \<Rightarrow> audit_input \<Rightarrow> (exn, unit, unit, unit) program" where
  "audit_statement W event = transact W (\<lambda>fresh ck s.
     case writeAuditEvent (aw_externs W) ck (fa_auditId fresh) event s of Inl e \<Rightarrow> (Inl e, s) | Inr (u, s') \<Rightarrow> (Inr u, s'))"

abbreviation audited :: "account_world \<Rightarrow> account_fresh \<Rightarrow> clock \<Rightarrow> audit_input \<Rightarrow> callback" where
  "audited W fresh ck event \<equiv> writeAuditEvent (aw_externs W) ck (fa_auditId fresh) event"

definition post_setup ::
    "account_world \<Rightarrow> request \<Rightarrow> setup_input \<Rightarrow> (uuid \<Rightarrow> callback) \<Rightarrow> (admin_user \<times> string \<times> timestamp) handler" where
  "post_setup W rq body seed =
     step_bind (process_time (aw_turns W)) (\<lambda>now.
     step_bind (transact W (\<lambda>fresh ck. setupInitialAdmin (aw_passwords W) (aw_externs W) (fa_salt fresh) ck now (fa_id fresh)
         (fa_sessionId fresh) (fa_token fresh) body (request_context rq)
         (\<lambda>created. audited W fresh ck (audit_of rq ''auth.setup'' ''user'' (Some (am_id created)) (Some (am_id created))
            [(''includeDemoData'', JBool (si_includeDemoData body))])) seed)) (\<lambda>result.
     step_return (Answer result)))"

definition post_login ::
    "account_world \<Rightarrow> request \<Rightarrow> string \<Rightarrow> string \<Rightarrow> (admin_user \<times> string \<times> timestamp) handler" where
  "post_login W rq identifier password =
     (let ipAddress = or_else (rq_ip rq) ''unknown'' in
      step_bind (process_time (aw_turns W)) (\<lambda>now.
      step_bind (reading (aw_turns W) (\<lambda>_ s. Inr (isLoginLocked now identifier ipAddress s))) (\<lambda>locked.
      if locked
      then step_bind (audit_statement W (audit_of rq ''auth.lockout'' ''authentication'' None None [(''reason'', JStr ''failure_threshold'')]))
             (\<lambda>_. step_return (ApiError 429 ''ACCOUNT_LOCKED''))
      else step_bind (reading (aw_turns W) (\<lambda>_ s. Inr (verifyAdmin (aw_passwords W) identifier password s))) (\<lambda>user.
        case user of
          None \<Rightarrow> step_bind (transact W (\<lambda>fresh ck. recordLoginAttempt ck identifier ipAddress False
              (audited W fresh ck (audit_of rq ''auth.login_failed'' ''authentication'' None None [(''reason'', JStr ''invalid_credentials'')]))))
            (\<lambda>_. step_return (ApiError 401 ''AUTH_REQUIRED''))
        | Some u \<Rightarrow>
            step_bind (transact W (\<lambda>fresh ck. recordLoginAttempt ck identifier ipAddress True no_callback)) (\<lambda>_.
            step_bind (process_time (aw_turns W)) (\<lambda>now'.
            step_bind (transact W (\<lambda>fresh ck. createLoginSession (aw_externs W) ck now' (fa_sessionId fresh) (fa_token fresh) (am_id u)
                (request_context rq) (audited W fresh ck (audit_of rq ''auth.login'' ''user'' (Some (am_id u)) (Some (am_id u)) [])))) (\<lambda>session.
            step_return (Answer (u, session)))))))))"

definition post_logout :: "account_world \<Rightarrow> request \<Rightarrow> unit handler" where
  "post_logout W rq =
     step_bind (transact W (\<lambda>fresh ck. destroySession (aw_externs W) (rq_cookie rq)
       (\<lambda>userId. audited W fresh ck (audit_of rq ''auth.logout'' ''user'' (Some userId) (Some userId) [])))) (\<lambda>_.
     step_return (Answer ()))"

definition authenticated :: "account_world \<Rightarrow> request \<Rightarrow> (admin_user \<Rightarrow> 'a handler) \<Rightarrow> 'a handler" where
  "authenticated W rq f = step_bind (readSession (aw_externs W) (aw_turns W) (rq_cookie rq) True) (\<lambda>user.
     case user of None \<Rightarrow> step_return (ApiError 401 ''AUTH_REQUIRED'') | Some u \<Rightarrow> f u)"

definition current_hash :: "account_world \<Rightarrow> request \<Rightarrow> string" where
  "current_hash W rq = (case nonempty (rq_cookie rq) of None \<Rightarrow> [] | Some token \<Rightarrow> hashToken (aw_externs W) token)"

definition post_logout_all :: "account_world \<Rightarrow> request \<Rightarrow> unit handler" where
  "post_logout_all W rq = authenticated W rq (\<lambda>user.
     step_bind (transact W (\<lambda>fresh ck. destroyAllSessionsForUser (am_id user)
       (audited W fresh ck (audit_of rq ''auth.logout_all'' ''user'' (Some (am_id user)) (Some (am_id user)) [])))) (\<lambda>_.
     step_return (Answer ())))"

definition get_sessions :: "account_world \<Rightarrow> request \<Rightarrow> session_info list handler" where
  "get_sessions W rq = authenticated W rq (\<lambda>user.
     step_bind (audit_statement W (audit_of rq ''auth.sessions_read'' ''session'' None (Some (am_id user)) [])) (\<lambda>_.
     step_bind (reading (aw_turns W) (\<lambda>ck s. Inr (listSessionsForUser ck (am_id user) (current_hash W rq) s))) (\<lambda>sessions.
     step_return (Answer sessions))))"

text \<open>Whether the cookie is cleared.\<close>

definition delete_session :: "account_world \<Rightarrow> request \<Rightarrow> uuid \<Rightarrow> bool handler" where
  "delete_session W rq sessionId = authenticated W rq (\<lambda>user.
     step_bind (transact W (\<lambda>fresh ck. revokeSessionForUser sessionId (am_id user) (current_hash W rq)
       (\<lambda>_. audited W fresh ck (audit_of rq ''auth.session.revoke'' ''session'' (Some sessionId) (Some (am_id user)) []))))
       (\<lambda>(revoked, wasCurrent).
     step_return (if revoked then Answer wasCurrent else ApiError 404 ''NOT_FOUND'')))"

definition get_me :: "account_world \<Rightarrow> request \<Rightarrow> admin_user handler" where
  "get_me W rq = authenticated W rq (\<lambda>user. step_return (Answer user))"

definition administered :: "account_world \<Rightarrow> request \<Rightarrow> (admin_user \<Rightarrow> 'a handler) \<Rightarrow> 'a handler" where
  "administered W rq f = step_bind (requireRole (aw_externs W) (aw_turns W) [Owner, Admin] (rq_cookie rq)) (\<lambda>access.
     case access of
       Granted u \<Rightarrow> f u
     | Unauthenticated \<Rightarrow> step_return (ApiError 401 ''AUTH_REQUIRED'')
     | Forbidden \<Rightarrow> step_return (ApiError 403 ''FORBIDDEN''))"

definition get_users :: "account_world \<Rightarrow> request \<Rightarrow> admin_user list handler" where
  "get_users W rq = administered W rq (\<lambda>actor.
     step_bind (audit_statement W (audit_of rq ''user.list_read'' ''user'' None (Some (am_id actor)) [])) (\<lambda>_.
     step_bind (reading (aw_turns W) (\<lambda>_ s. Inr (listUsers s))) (\<lambda>users. step_return (Answer users))))"

definition post_user :: "account_world \<Rightarrow> request \<Rightarrow> user_create \<Rightarrow> admin_user handler" where
  "post_user W rq body = administered W rq (\<lambda>actor.
     step_bind (transact W (\<lambda>fresh ck. createUser (aw_passwords W) (fa_salt fresh) ck (fa_id fresh) body
       (\<lambda>created. audited W fresh ck (audit_of rq ''user.create'' ''user'' (Some (am_id created)) (Some (am_id actor)) [])))) (\<lambda>user.
     step_return (Answer user)))"

text \<open>The user, and whether the cookie of the request is cleared.\<close>

definition put_user :: "account_world \<Rightarrow> request \<Rightarrow> uuid \<Rightarrow> user_update \<Rightarrow> (admin_user \<times> bool) handler" where
  "put_user W rq userId body = administered W rq (\<lambda>actor.
     step_bind (transact W (\<lambda>fresh ck. updateUser (aw_passwords W) (fa_salt fresh) userId body (Some (am_id actor))
       (\<lambda>_. audited W fresh ck (audit_of rq ''user.update'' ''user'' (Some userId) (Some (am_id actor)) [])))) (\<lambda>user.
     step_return (case user of
       None \<Rightarrow> ApiError 404 ''User not found''
     | Some u \<Rightarrow> Answer (u, userId = am_id actor \<and> up_password body \<noteq> None))))"

definition delete_user :: "account_world \<Rightarrow> request \<Rightarrow> uuid \<Rightarrow> unit handler" where
  "delete_user W rq userId = administered W rq (\<lambda>actor.
     step_catch
       (step_bind (transact W (\<lambda>fresh ck. deleteUser userId (Some (am_id actor))
          (audited W fresh ck (audit_of rq ''user.delete'' ''user'' (Some userId) (Some (am_id actor)) [])))) (\<lambda>deleted.
        step_return (if deleted then Answer () else ApiError 404 ''User not found'')))
       (\<lambda>e. case e of StatusError code message _ \<Rightarrow> if code = 409 then step_return (ApiError 409 ''CONFLICT'') else step_throw e
             | _ \<Rightarrow> step_throw e))"

text \<open>The route table; \<open>serve\<close> forgets what the client is told.\<close>

datatype account_request =
    PostSetup setup_input
  | PostLogin string string
  | PostLogout
  | PostLogoutAll
  | GetSessions
  | DeleteSession uuid
  | GetMe
  | GetUsers
  | PostUser user_create
  | PutUser uuid user_update
  | DeleteUser uuid

definition forget :: "'a handler \<Rightarrow> (exn, unit, unit, unit) program" where
  "forget h = step_bind h (\<lambda>_. step_return ())"

definition serve :: "account_world \<Rightarrow> (uuid \<Rightarrow> callback) \<Rightarrow> request \<Rightarrow> account_request \<Rightarrow> (exn, unit, unit, unit) program" where
  "serve W seed rq route = (case route of
     PostSetup body \<Rightarrow> forget (post_setup W rq body seed)
   | PostLogin identifier password \<Rightarrow> forget (post_login W rq identifier password)
   | PostLogout \<Rightarrow> forget (post_logout W rq)
   | PostLogoutAll \<Rightarrow> forget (post_logout_all W rq)
   | GetSessions \<Rightarrow> forget (get_sessions W rq)
   | DeleteSession i \<Rightarrow> forget (delete_session W rq i)
   | GetMe \<Rightarrow> forget (get_me W rq)
   | GetUsers \<Rightarrow> forget (get_users W rq)
   | PostUser body \<Rightarrow> forget (post_user W rq body)
   | PutUser i body \<Rightarrow> forget (put_user W rq i body)
   | DeleteUser i \<Rightarrow> forget (delete_user W rq i))"

end
