(* ===== verification/Account_Safety.thy ===== *)
theory Account_Safety
  imports Accounts
begin

text \<open>
  What holds of accounts and sessions over all interleavings of requests: the transactions that change them as a step
  relation, the handlers as programs that move the database by it, the owner that always remains, revoked sessions that
  stay revoked, and the lockout.
\<close>

section \<open>Steps\<close>

text \<open>A callback inside a transaction leaves accounts and sessions alone.\<close>

definition frames :: "callback \<Rightarrow> bool" where
  "frames f \<longleftrightarrow> (\<forall>s u s'. f s = Inr (u, s') \<longrightarrow> d_users s' = d_users s \<and> d_sessions s' = d_sessions s)"

text \<open>\<open>T\<close> are the tokens that new sessions may draw.\<close>

inductive account_step :: "password_scheme \<Rightarrow> externs \<Rightarrow> string set \<Rightarrow> db \<Rightarrow> db \<Rightarrow> bool" for PS X T where
  set_up: "setupInitialAdmin PS X salt ck now userId sessionId token input ctx onCreated seed s = (r, s') \<Longrightarrow> token \<in> T
    \<Longrightarrow> (\<And>u. frames (onCreated u)) \<Longrightarrow> (\<And>i. frames (seed i)) \<Longrightarrow> account_step PS X T s s'"
| create_admin: "createAdmin PS salt ck newId admin onChanged s = (r1, s') \<Longrightarrow> (\<And>u. frames (onChanged u)) \<Longrightarrow> account_step PS X T s s'"
| create_user: "createUser PS salt ck newId body onChanged s = (r1, s') \<Longrightarrow> (\<And>u. frames (onChanged u)) \<Longrightarrow> account_step PS X T s s'"
| update_user: "updateUser PS salt userId change actorId onChanged s = (r2, s') \<Longrightarrow> (\<And>u. frames (onChanged u)) \<Longrightarrow> account_step PS X T s s'"
| delete_user: "deleteUser userId actorId onDeleted s = (r3, s') \<Longrightarrow> frames onDeleted \<Longrightarrow> account_step PS X T s s'"
| create_session: "createSession X ck now newId token userId ctx s = (r4, s') \<Longrightarrow> token \<in> T \<Longrightarrow> account_step PS X T s s'"
| login: "createLoginSession X ck now newId token userId ctx onDeleted s = (r4, s') \<Longrightarrow> token \<in> T \<Longrightarrow> frames onDeleted
    \<Longrightarrow> account_step PS X T s s'"
| logout: "destroySession X cookie onUser s = (r3, s') \<Longrightarrow> (\<And>i. frames (onUser i)) \<Longrightarrow> account_step PS X T s s'"
| logout_all: "destroyAllSessionsForUser userId onDeleted s = (r5, s') \<Longrightarrow> frames onDeleted \<Longrightarrow> account_step PS X T s s'"
| revoke: "revokeSessionForUser sessionId userId current onRevoked s = (r6, s') \<Longrightarrow> (\<And>b. frames (onRevoked b)) \<Longrightarrow> account_step PS X T s s'"
| expire: "account_step PS X T s (deleteExpiredSessions ck s)"
| touch: "account_step PS X T s (touch_session ck tokenHash s)"
| touch_login: "account_step PS X T s (touchLastLogin ck userId s)"
| other: "d_users s' = d_users s \<Longrightarrow> d_sessions s' = d_sessions s \<Longrightarrow> account_step PS X T s s'"

interpretation accounts: transition_system "account_step PS X T" for PS X T .

lemma framesD: "frames f \<Longrightarrow> f s = Inr (u, s') \<Longrightarrow> d_users s' = d_users s \<and> d_sessions s' = d_sessions s"
  unfolding frames_def by blast

lemma lock_frame [simp]: "d_users (advisory_lock k s) = d_users s" "d_sessions (advisory_lock k s) = d_sessions s"
  by (simp_all add: advisory_lock_def)

lemma delete_sessions_frame [simp]: "d_users (delete_sessions P s) = d_users s"
  "d_sessions (delete_sessions P s) = filter (\<lambda>r. \<not> P r) (d_sessions s)"
  by (simp_all add: delete_sessions_def)

lemma update_users_frame [simp]: "d_sessions (update_users P f s) = d_sessions s" "d_users (update_users P f s) = update_where P f (d_users s)"
  by (simp_all add: update_users_def)

text \<open>The effect of a transaction that commits; one that throws changes nothing.\<close>

lemma in_transaction:
  assumes "withTransaction fn s = (r, s')"
  obtains e where "s' = s" "r = Inl e" | x t where "fn (s\<lparr>d_locks := []\<rparr>) = Inr (x, t)" "d_users s' = d_users t" "d_sessions s' = d_sessions t" "r = Inr x"
  using assms by (auto simp: withTransaction_def split: sum.splits prod.splits)

section \<open>An active owner remains\<close>

interpretation users: keyed_table us_id .

definition accounts_ok :: "user_row list \<Rightarrow> bool" where
  "accounts_ok users \<longleftrightarrow> users.keys_unique users \<and> list_ex active_owner users"

lemma list_ex_update: "list_ex Q (update_where P f rows) \<longleftrightarrow> (\<exists>r\<in>set rows. Q (if P r then f r else r))"
  by (induction rows) (auto simp: update_where_def)

lemma accounts_ok_insert:
  "accounts_ok (d_users s) \<Longrightarrow> insert_user u s = Inr (v, s') \<Longrightarrow> accounts_ok (d_users s')"
  by (fastforce simp: accounts_ok_def insert_user_def users.keys_unique_def list_ex_iff split: if_splits)

lemma accounts_ok_same:
  assumes "accounts_ok users" and "\<And>u. us_id (f u) = us_id u \<and> us_role (f u) = us_role u \<and> us_is_active (f u) = us_is_active u"
  shows "accounts_ok (update_where P f users)"
  using assms by (auto simp: accounts_ok_def users.unique_update list_ex_update list_ex_iff [of _ users] active_owner_def)

lemma other_owner:
  "other_owners userId s \<noteq> 0 \<Longrightarrow> \<exists>u\<in>set (d_users s). active_owner u \<and> us_id u \<noteq> userId"
  by (auto simp: other_owners_def filter_empty_conv)

lemma owner_after_update:
  assumes "accounts_ok (d_users s)" and "row \<in> set (d_users s)" "us_id row = userId" and "check_update userId actorId change row s = Inr ()"
  shows "accounts_ok (update_where (\<lambda>u. us_id u = userId) (updated_user PS salt change) (d_users s))"
proof -
  let ?f = "updated_user PS salt change"
  have same: "u = row" if "u \<in> set (d_users s)" "us_id u = userId" for u
    using users.same_key_same_row assms(1-3) that unfolding accounts_ok_def by metis
  have "\<exists>u\<in>set (d_users s). active_owner (if us_id u = userId then ?f u else u)"
  proof (cases "active_owner row \<and> \<not> active_owner (?f row)")
    case True
    then have "other_owners userId s \<noteq> 0"
      using assms(4) by (auto simp: check_update_def active_owner_def updated_user_def Let_def split: if_splits)
    then show ?thesis using other_owner by fastforce
  next
    case False
    obtain u where u: "u \<in> set (d_users s)" "active_owner u" using assms(1) by (auto simp: accounts_ok_def list_ex_iff)
    show ?thesis
    proof (cases "us_id u = userId")
      case True
      with u same False have "active_owner (?f u)" by auto
      with u True show ?thesis by auto
    qed (use u in auto)
  qed
  moreover have "users.keys_unique (update_where (\<lambda>u. us_id u = userId) ?f (d_users s))"
    using assms(1) by (simp add: accounts_ok_def users.unique_update updated_user_def)
  ultimately show ?thesis by (simp add: accounts_ok_def list_ex_update)
qed

lemma insert_initial_ok:
  assumes "insertInitialAdmin ck newId prepared onChanged s = Inr (u, s')" and "\<And>u. frames (onChanged u)"
  shows "accounts_ok (d_users s')" and "d_sessions s' = d_sessions s"
  using assms(1) unfolding insertInitialAdmin_def Let_def
  by (auto simp: insert_user_def accounts_ok_def active_owner_def users.keys_unique_def elim!: and_then_InrE dest!: framesD [OF assms(2)]
      split: if_splits)

lemma insert_session_frame:
  "insert_session row s = Inr (x, s') \<Longrightarrow> d_users s' = d_users s \<and> d_sessions s' = d_sessions s @ [row]"
  by (auto simp: insert_session_def split: if_splits)

lemma create_login_effect:
  assumes "create_login X ck now newId token userId context onCreated s = Inr (r, s')" and "frames onCreated"
  shows "d_users s' = update_where (\<lambda>u. us_id u = userId) (\<lambda>u. u\<lparr>us_last_login_at := Some (ck_now ck)\<rparr>) (d_users s)"
    and "d_sessions s' = d_sessions s @ [new_session X ck now newId token userId context]"
  using assms(1) unfolding create_login_def
  by (auto simp: touchLastLogin_def elim!: and_then_InrE dest!: insert_session_frame framesD [OF assms(2)])

text \<open>What the transactions that change or delete accounts and sessions do when they commit.\<close>

lemma update_effect:
  assumes "updateUser PS salt userId change actorId onChanged s = (r, s')" and "\<And>u. frames (onChanged u)"
  obtains "d_users s' = d_users s" "d_sessions s' = d_sessions s" "\<And>u. r \<noteq> Inr (Some u)"
  | row where "row \<in> set (d_users s)" "us_id row = userId" "check_update userId actorId change row s = Inr ()"
      "d_users s' = update_where (\<lambda>u. us_id u = userId) (updated_user PS salt change) (d_users s)"
      "d_sessions s' = (if revokes_sessions change row then filter (\<lambda>r. se_user_id r \<noteq> userId) (d_sessions s) else d_sessions s)"
      "r = Inr (Some (mapAdmin (updated_user PS salt change row)))"
  using assms(1) [unfolded updateUser_def]
proof (cases rule: in_transaction)
  case 1
  with that(1) show thesis by simp
next
  case (2 x t)
  have f: "d_users t' = d_users a \<and> d_sessions t' = d_sessions a" if "onChanged u a = Inr (y, t')" for u a y t'
    using framesD [OF assms(2) that] .
  let ?s = "advisory_lock OWNER_INVARIANT_LOCK_KEY (s\<lparr>d_locks := []\<rparr>)"
  show thesis
  proof (cases "first_row (filter (\<lambda>u. us_id u = userId) (d_users s))")
    case None
    with 2 show thesis by (intro that(1)) (auto simp: Let_def)
  next
    case (Some row)
    then have row: "row \<in> set (d_users s)" "us_id row = userId"
      by (auto simp: first_row_def filter_eq_Cons_iff split: list.splits)
    have "other_owners userId ?s = other_owners userId s" by (simp add: other_owners_def)
    then have "check_update userId actorId change row ?s = check_update userId actorId change row s"
      unfolding check_update_def by (rule arg_cong)
    with 2 Some show thesis
      by (intro that(2) [OF row]) (auto simp: Let_def elim!: and_then_InrE dest!: f split: if_splits)
  qed
qed

lemma delete_effect:
  assumes "deleteUser userId actorId onChanged s = (r, s')" and "frames onChanged"
  obtains "d_users s' = d_users s" "d_sessions s' = d_sessions s" "r \<noteq> Inr True"
  | row where "row \<in> set (d_users s)" "us_id row = userId" "active_owner row \<Longrightarrow> other_owners userId s \<noteq> 0"
      "d_users s' = filter (\<lambda>u. us_id u \<noteq> userId) (d_users s)" "d_sessions s' = filter (\<lambda>r. se_user_id r \<noteq> userId) (d_sessions s)"
  using assms(1) [unfolded deleteUser_def]
proof (cases rule: in_transaction)
  case 1
  with that(1) show thesis by simp
next
  case (2 x t)
  show thesis
  proof (cases "first_row (filter (\<lambda>u. us_id u = userId) (d_users s))")
    case None
    with 2 show thesis by (intro that(1)) (auto simp: Let_def)
  next
    case (Some row)
    then have row: "row \<in> set (d_users s)" "us_id row = userId"
      by (auto simp: first_row_def filter_eq_Cons_iff split: list.splits)
    have "other_owners userId (advisory_lock OWNER_INVARIANT_LOCK_KEY (s\<lparr>d_locks := []\<rparr>)) = other_owners userId s"
      by (simp add: other_owners_def)
    with 2 Some show thesis
      by (intro that(2) [OF row]) (auto simp: Let_def delete_user_row_def elim!: and_then_InrE dest!: framesD [OF assms(2)] split: if_splits)
  qed
qed

lemma logout_effect:
  assumes "destroySession X cookie onUser s = (r, s')" and "\<And>i. frames (onUser i)"
  shows "d_users s' = d_users s" and "\<exists>P. d_sessions s' = filter P (d_sessions s)"
    and "r = Inr x \<Longrightarrow> cookie = Some token \<Longrightarrow> token \<noteq> [] \<Longrightarrow>
      d_sessions s' = filter (\<lambda>r. se_token_hash r \<noteq> hashToken X token) (d_sessions s)"
proof -
  have all: "d_users s' = d_users s \<and> (d_sessions s' = d_sessions s \<and> (\<forall>x. r = Inr x \<longrightarrow> nonempty cookie = None)
      \<or> (\<exists>t. nonempty cookie = Some t \<and> d_sessions s' = filter (\<lambda>r. se_token_hash r \<noteq> hashToken X t) (d_sessions s)))"
  proof (cases "nonempty cookie")
    case None
    with assms(1) show ?thesis by (simp add: destroySession_def)
  next
    case (Some t)
    from assms(1) [unfolded destroySession_def Some option.case] show ?thesis
    proof (cases rule: in_transaction)
      case (2 y u)
      then show ?thesis
        by (auto simp: Let_def Some elim!: and_then_InrE dest!: framesD [OF assms(2)] split: option.splits)
    qed simp
  qed
  then show "d_users s' = d_users s" by blast
  show "\<exists>P. d_sessions s' = filter P (d_sessions s)" using all filter_True [of "d_sessions s" "\<lambda>_. True"] by metis
  show "d_sessions s' = filter (\<lambda>r. se_token_hash r \<noteq> hashToken X token) (d_sessions s)"
    if "r = Inr x" "cookie = Some token" "token \<noteq> []"
    using all that by (cases token) (auto simp: nonempty_def)
qed

lemma revoke_effect:
  assumes "revokeSessionForUser sessionId userId current onRevoked s = (r, s')" and "\<And>b. frames (onRevoked b)"
  shows "d_users s' = d_users s"
    and "d_sessions s' = d_sessions s \<or> d_sessions s' = filter (\<lambda>r. \<not> (se_id r = sessionId \<and> se_user_id r = userId)) (d_sessions s)"
    and "r = Inr x \<Longrightarrow> d_sessions s' = filter (\<lambda>r. \<not> (se_id r = sessionId \<and> se_user_id r = userId)) (d_sessions s)"
proof -
  have "d_users s' = d_users s \<and> (d_sessions s' = d_sessions s \<and> (\<forall>x. r \<noteq> Inr x)
      \<or> d_sessions s' = filter (\<lambda>r. \<not> (se_id r = sessionId \<and> se_user_id r = userId)) (d_sessions s))"
    using assms(1) [unfolded revokeSessionForUser_def]
  proof (cases rule: in_transaction)
    case (2 y u)
    then show ?thesis
      by (auto simp: Let_def elim!: and_then_InrE dest!: framesD [OF assms(2)] split: option.splits)
  qed simp
  then show "d_users s' = d_users s"
    and "d_sessions s' = d_sessions s \<or> d_sessions s' = filter (\<lambda>r. \<not> (se_id r = sessionId \<and> se_user_id r = userId)) (d_sessions s)"
    and "r = Inr x \<Longrightarrow> d_sessions s' = filter (\<lambda>r. \<not> (se_id r = sessionId \<and> se_user_id r = userId)) (d_sessions s)" by auto
qed

lemma logout_all_effect:
  assumes "destroyAllSessionsForUser userId onChanged s = (r, s')" and "frames onChanged"
  shows "d_users s' = d_users s"
    and "d_sessions s' = d_sessions s \<and> (\<forall>x. r \<noteq> Inr x) \<or> d_sessions s' = filter (\<lambda>r. se_user_id r \<noteq> userId) (d_sessions s)"
  using assms(1) [unfolded destroyAllSessionsForUser_def]
  by (cases rule: in_transaction, auto dest!: framesD [OF assms(2)])+

lemma create_user_effect:
  assumes "createUser PS salt ck newId body onChanged s = (r, s')" and "\<And>u. frames (onChanged u)"
  shows "d_sessions s' = d_sessions s"
    and "d_users s' = d_users s \<or> (\<exists>u t. insert_user u s = Inr (u, t) \<and> d_users s' = d_users t)"
  using assms(1) [unfolded createUser_def]
  by (cases rule: in_transaction, auto simp: insert_user_def elim!: and_then_InrE dest!: framesD [OF assms(2)] split: if_splits)+

lemma first_admin_effect:
  assumes "insertInitialAdmin ck newId prepared onChanged s = Inr (u, s')"
  shows "d_users s = []"
  using assms by (auto simp: insertInitialAdmin_def Let_def split: if_splits)

lemma setup_effect:
  assumes "setupInitialAdmin PS X salt ck now userId sessionId token input ctx onCreated seed s = (r, s')"
    and "\<And>u. frames (onCreated u)" and "\<And>i. frames (seed i)"
  obtains "s' = s" | row where "d_users s = []" "accounts_ok (d_users s')" "d_sessions s' = d_sessions s @ [row]" "se_token_hash row = hashToken X token"
proof (cases "prepareInitialAdmin PS salt (initial_admin.truncate input)")
  case (Inl e)
  with assms(1) that(1) show thesis by (simp add: setupInitialAdmin_def)
next
  case (Inr prepared)
  from assms(1) [unfolded setupInitialAdmin_def Inr sum.case] show thesis
  proof (cases rule: in_transaction)
    case 1
    with that(1) show thesis by simp
  next
    case (2 x t)
    then obtain user s1 s2 v session where a: "insertInitialAdmin ck userId prepared onCreated (s\<lparr>d_locks := []\<rparr>) = Inr (user, s1)"
      and b: "(if si_includeDemoData input then seed (am_id user) s1 else Inr ((), s1)) = Inr (v, s2)"
      and c: "create_login X ck now sessionId token (am_id user) ctx no_callback s2 = Inr (session, t)"
      by (auto elim!: and_then_InrE split del: if_split)
    have s2: "d_users s2 = d_users s1" "d_sessions s2 = d_sessions s1"
      using b framesD [OF assms(3)] by (auto split: if_splits)
    have "frames no_callback" by (simp add: frames_def no_callback_def)
    note l = create_login_effect [OF c this]
    show thesis
      using 2 a l s2 insert_initial_ok [OF a assms(2)] first_admin_effect [OF a]
      by (intro that(2) [of "new_session X ck now sessionId token (am_id user) ctx"]) (simp_all add: accounts_ok_same new_session_def)
  qed
qed

lemma step_keeps_owner:
  assumes "account_step PS X T s s'" and "accounts_ok (d_users s)"
  shows "accounts_ok (d_users s')"
  using assms
proof (induction rule: account_step.induct)
  case set_up
  then show ?case by (auto elim!: setup_effect)
next
  case (create_admin salt ck newId admin onChanged s r1 s')
  from create_admin.prems have "d_users s \<noteq> []" by (auto simp: accounts_ok_def)
  then have "s' = s"
    using create_admin.hyps(1) by (auto simp: createAdmin_def insertInitialAdmin_def withTransaction_def Let_def split: sum.splits)
  with create_admin.prems show ?case by simp
next
  case (create_user salt ck newId body onChanged s r1 s')
  from create_user_effect(2) [OF create_user.hyps] create_user.prems show ?case by (auto dest: accounts_ok_insert)
next
  case (update_user salt userId change actorId onChanged s r2 s')
  from update_user.hyps show ?case
    by (rule update_effect) (use update_user.prems in \<open>simp_all add: owner_after_update\<close>)
next
  case (delete_user userId actorId onDeleted s r3 s')
  from delete_user.hyps show ?case
  proof (rule delete_effect)
    fix row assume row: "row \<in> set (d_users s)" "us_id row = userId" "active_owner row \<Longrightarrow> other_owners userId s \<noteq> 0"
      and d: "d_users s' = filter (\<lambda>u. us_id u \<noteq> userId) (d_users s)"
    obtain u where u: "u \<in> set (d_users s)" "active_owner u" using delete_user.prems by (auto simp: accounts_ok_def list_ex_iff)
    have "\<exists>u\<in>set (d_users s). active_owner u \<and> us_id u \<noteq> userId"
    proof (cases "us_id u = userId")
      case True
      with u row delete_user.prems have "u = row" using users.same_key_same_row unfolding accounts_ok_def by metis
      with u row(3) other_owner show ?thesis by blast
    qed (use u in blast)
    with delete_user.prems show "accounts_ok (d_users s')"
      unfolding d accounts_ok_def users.keys_unique_def by (auto simp: list_ex_iff distinct_map inj_on_def)
  qed (use delete_user.prems in simp)
next
  case (create_session ck now newId token userId ctx s r4 s')
  then show ?case
    by (auto simp: createSession_def split: sum.splits prod.splits dest!: insert_session_frame)
next
  case (login ck now newId token userId ctx onDeleted s r4 s')
  from login.hyps(1) [unfolded createLoginSession_def] show ?case
    by (cases rule: in_transaction) (use login.prems in \<open>auto simp: accounts_ok_same dest!: create_login_effect(1) [OF _ login.hyps(3)]\<close>)
qed (simp_all add: logout_effect logout_all_effect revoke_effect deleteExpiredSessions_def touch_session_def touchLastLogin_def accounts_ok_same)

section \<open>Tokens\<close>

abbreviation hashes :: "db \<Rightarrow> string set" where
  "hashes s \<equiv> se_token_hash ` set (d_sessions s)"

lemma hashes_update: "(\<And>r. se_token_hash (f r) = se_token_hash r) \<Longrightarrow> se_token_hash ` set (update_where P f rows) = se_token_hash ` set rows"
  by (induction rows) (auto simp: update_where_def)

lemma step_hashes:
  assumes "account_step PS X T s s'"
  shows "hashes s' \<subseteq> hashes s \<union> hashToken X ` T"
  using assms
proof (induction rule: account_step.induct)
  case (set_up salt ck now userId sessionId token input ctx onCreated seed s r s')
  from set_up.hyps(1,3,4) show ?case by (rule setup_effect) (use set_up.hyps(2) in auto)
next
  case (create_admin salt ck newId admin onChanged s r1 s')
  show ?case
  proof (cases "prepareInitialAdmin PS salt admin")
    case (Inr prepared)
    from create_admin.hyps(1) [unfolded createAdmin_def Inr sum.case] show ?thesis
      by (cases rule: in_transaction) (use insert_initial_ok(2) [OF _ create_admin.hyps(2)] in auto)
  qed (use create_admin in \<open>simp add: createAdmin_def\<close>)
next
  case (create_user salt ck newId body onChanged s r1 s')
  then show ?case using create_user_effect(1) by (metis Un_upper1)
next
  case (update_user salt userId change actorId onChanged s r2 s')
  from update_user.hyps show ?case by (rule update_effect) auto
next
  case (delete_user userId actorId onDeleted s r3 s')
  from delete_user.hyps show ?case by (rule delete_effect) auto
next
  case (create_session ck now newId token userId ctx s r4 s')
  then show ?case
    by (auto simp: createSession_def new_session_def split: sum.splits prod.splits dest!: insert_session_frame)
next
  case (login ck now newId token userId ctx onDeleted s r4 s')
  from login.hyps(1) [unfolded createLoginSession_def] show ?case
    by (cases rule: in_transaction) (use login.hyps(2) in \<open>auto simp: new_session_def dest!: create_login_effect(2) [OF _ login.hyps(3)]\<close>)
next
  case (logout cookie onUser s r3 s')
  then obtain P where "d_sessions s' = filter P (d_sessions s)" using logout_effect(2) by metis
  then show ?case by auto
next
  case (logout_all userId onDeleted s r5 s')
  from logout_all_effect(2) [OF logout_all.hyps] show ?case by auto
next
  case (revoke sessionId userId current onRevoked s r6 s')
  from revoke_effect(2) [OF revoke.hyps] show ?case by auto
qed (auto simp: deleteExpiredSessions_def touch_session_def touchLastLogin_def hashes_update)

section \<open>Requests move by steps\<close>

interpretation account_moves: db_preorder "accounts.run PS X T" for PS X T
  by unfold_locales (auto intro: accounts.run.refl accounts.run_trans)

text \<open>Other transactions are steps too, and the tokens of logins are in \<open>T\<close>.\<close>

definition open_world :: "account_world \<Rightarrow> string set \<Rightarrow> bool" where
  "open_world W T \<longleftrightarrow> (\<forall>k d. accounts.run (aw_passwords W) (aw_externs W) T d (snd (aw_turns W k) d))
     \<and> (\<forall>k. fa_token (aw_fresh W k) \<in> T)"

abbreviation stays :: "account_world \<Rightarrow> string set \<Rightarrow> (exn, unit, unit, 'a) program \<Rightarrow> bool" where
  "stays W T m \<equiv> db_preorder.moves (accounts.run (aw_passwords W) (aw_externs W) T) m"

named_theorems stays_intros \<open>programs that move by account steps\<close>

lemmas [stays_intros] = account_moves.moves_intros

lemma account_step_run: "account_step PS X T d d' \<Longrightarrow> accounts.run PS X T d d'"
  by (rule accounts.run.step [OF accounts.run.refl])

lemma open_world_turns: "open_world W T \<Longrightarrow> accounts.run (aw_passwords W) (aw_externs W) T d (snd (aw_turns W k) d)"
  by (simp add: open_world_def)

lemma audited_frames: "frames (audited W fresh ck event)"
  by (auto simp: frames_def writeAuditEvent_def split: if_splits)

lemma stays_transact:
  assumes "open_world W T" and "\<And>k ck d. account_step (aw_passwords W) (aw_externs W) T d (snd (f (aw_fresh W k) ck d))"
  shows "stays W T (transact W f)"
  unfolding account_moves.moves_def
proof (intro allI impI)
  fix s r s' assume "transact W f s = (r, s')"
  then have "statement (aw_turns W) (f (aw_fresh W (ss_tick s))) s = (r, s')" by (simp add: transact_def)
  moreover have "stays W T (statement (aw_turns W) (f (aw_fresh W (ss_tick s))))"
    by (rule account_moves.moves_statement) (auto intro: open_world_turns assms(1) account_step_run assms(2))
  ultimately show "accounts.run (aw_passwords W) (aw_externs W) T (ss_db s) (ss_db s')" unfolding account_moves.moves_def by blast
qed

lemma stays_reading: "open_world W T \<Longrightarrow> stays W T (reading (aw_turns W) f)"
  by (rule account_moves.moves_reading) (rule open_world_turns)

lemma stays_touch: "open_world W T \<Longrightarrow> stays W T (statement (aw_turns W) (\<lambda>ck s. (Inr (), touch_session ck h s)))"
  by (rule account_moves.moves_statement) (auto intro: open_world_turns account_step_run account_step.touch)

lemma stays_session: "open_world W T \<Longrightarrow> stays W T (readSession (aw_externs W) (aw_turns W) cookie touch)"
  unfolding readSession_def by (intro stays_intros stays_reading stays_touch)

lemma stays_role: "open_world W T \<Longrightarrow> stays W T (requireRole (aw_externs W) (aw_turns W) roles cookie)"
  unfolding requireRole_def requireAuth_def by (intro stays_intros stays_session)

lemma stays_audit: "open_world W T \<Longrightarrow> stays W T (audit_statement W event)"
  unfolding audit_statement_def
  by (rule stays_transact) (auto simp: writeAuditEvent_def intro!: account_step.other split: sum.split if_splits)

lemma stays_authenticated: "open_world W T \<Longrightarrow> (\<And>u. stays W T (f u)) \<Longrightarrow> stays W T (authenticated W rq f)"
  unfolding authenticated_def by (intro stays_intros stays_session)

lemma stays_administered:
  assumes "open_world W T" and "\<And>u. stays W T (f u)"
  shows "stays W T (administered W rq f)"
  unfolding administered_def
proof (intro account_moves.moves_bind stays_role assms(1))
  fix access show "stays W T (case access of Granted u \<Rightarrow> f u | Unauthenticated \<Rightarrow> step_return (ApiError 401 ''AUTH_REQUIRED'')
      | Forbidden \<Rightarrow> step_return (ApiError 403 ''FORBIDDEN''))"
    using assms(2) by (cases access) (simp_all add: account_moves.moves_return)
qed

lemma recorded_step: "frames f \<Longrightarrow> account_step PS X T d (snd (recordLoginAttempt ck identifier ip ok f d))"
  by (rule account_step.other) (auto simp: recordLoginAttempt_def withTransaction_def frames_def split: sum.split prod.split)

lemma token_drawn: "open_world W T \<Longrightarrow> fa_token (aw_fresh W k) \<in> T"
  by (simp add: open_world_def)

lemmas ran = account_step.intros(1-10) [OF surjective_pairing]

lemma stays_handlers:
  assumes "open_world W T" and "\<And>i. frames (seed i)"
  shows "stays W T (post_setup W rq body seed)" and "stays W T (post_login W rq identifier password)"
    and "stays W T (post_logout W rq)" and "stays W T (post_logout_all W rq)" and "stays W T (get_sessions W rq)"
    and "stays W T (delete_session W rq sessionId)" and "stays W T (get_me W rq)" and "stays W T (get_users W rq)"
    and "stays W T (post_user W rq created)" and "stays W T (put_user W rq userId change)"
proof -
  have none: "frames no_callback" by (simp add: frames_def no_callback_def)
  note parts = stays_intros stays_transact [OF assms(1)] stays_reading [OF assms(1)] stays_audit [OF assms(1)]
    stays_authenticated [OF assms(1)] stays_administered [OF assms(1)] recorded_step audited_frames none token_drawn [OF assms(1)] assms(2)
  show "stays W T (post_setup W rq body seed)" unfolding post_setup_def by (intro parts ran(1))
  show "stays W T (post_login W rq identifier password)" unfolding post_login_def Let_def by (intro parts ran(7))
  show "stays W T (post_logout W rq)" unfolding post_logout_def by (intro parts ran(8))
  show "stays W T (post_logout_all W rq)" unfolding post_logout_all_def by (intro parts ran(9))
  show "stays W T (get_sessions W rq)" unfolding get_sessions_def by (intro parts)
  show "stays W T (delete_session W rq sessionId)" unfolding delete_session_def by (intro parts ran(10))
  show "stays W T (get_me W rq)" unfolding get_me_def by (intro parts)
  show "stays W T (get_users W rq)" unfolding get_users_def by (intro parts)
  show "stays W T (post_user W rq created)" unfolding post_user_def by (intro parts ran(3))
  show "stays W T (put_user W rq userId change)" unfolding put_user_def by (intro parts ran(4))
qed

lemma stays_delete_user:
  assumes "open_world W T"
  shows "stays W T (delete_user W rq userId)"
  unfolding delete_user_def
  by (intro stays_intros stays_transact [OF assms] stays_administered [OF assms] audited_frames ran(5))
    (auto simp: account_moves.moves_return account_moves.moves_throw split: exn.split)


text \<open>
  C25: An active owner always remains. From a state with distinct user ids and an active owner, every sequence of account
  transactions (setup, creation, change and deletion of users by any actor, logins, logouts and revocations, in any order)
  leaves such a state: the last active owner can be neither deleted, nor disabled, nor demoted.
\<close>

theorem active_owner_remains:
  assumes "accounts.run PS X T s t" and "accounts_ok (d_users s)"
  shows "accounts_ok (d_users t)"
  using assms by (rule accounts.run_invariant) (rule step_keeps_owner)

section \<open>Revoked sessions\<close>

text \<open>The transactions that end the session of a token; \<open>userId\<close> is its user.\<close>

inductive ends_session :: "password_scheme \<Rightarrow> externs \<Rightarrow> string \<Rightarrow> uuid \<Rightarrow> db \<Rightarrow> db \<Rightarrow> bool" for PS X token userId where
  logged_out: "destroySession X (Some token) onUser s = (Inr b, s') \<Longrightarrow> (\<And>i. frames (onUser i)) \<Longrightarrow> ends_session PS X token userId s s'"
| all_logged_out: "destroyAllSessionsForUser userId onDone s = (Inr (), s') \<Longrightarrow> frames onDone \<Longrightarrow> ends_session PS X token userId s s'"
| revoked: "revokeSessionForUser sessionId userId current onRevoked s = (Inr b', s') \<Longrightarrow> (\<And>b. frames (onRevoked b))
    \<Longrightarrow> (\<And>r. r \<in> set (d_sessions s) \<Longrightarrow> se_token_hash r = hashToken X token \<Longrightarrow> se_id r = sessionId) \<Longrightarrow> ends_session PS X token userId s s'"
| password_changed: "updateUser PS salt userId change actorId onChanged s = (Inr (Some u), s') \<Longrightarrow> (\<And>u. frames (onChanged u))
    \<Longrightarrow> nonempty (up_password change) \<noteq> None \<Longrightarrow> ends_session PS X token userId s s'"
| disabled: "updateUser PS salt userId change actorId onChanged s = (Inr (Some u), s') \<Longrightarrow> (\<And>u. frames (onChanged u))
    \<Longrightarrow> up_isActive change = Some False \<Longrightarrow> (\<And>v. v \<in> set (d_users s) \<Longrightarrow> us_id v = userId \<Longrightarrow> us_is_active v) \<Longrightarrow> ends_session PS X token userId s s'"
| deleted: "deleteUser userId actorId onDone s = (Inr True, s') \<Longrightarrow> frames onDone \<Longrightarrow> ends_session PS X token userId s s'"

lemma ended_absent:
  assumes "ends_session PS X token userId s s'" and "token \<noteq> []"
    and "\<And>r. r \<in> set (d_sessions s) \<Longrightarrow> se_token_hash r = hashToken X token \<Longrightarrow> se_user_id r = userId"
  shows "hashToken X token \<notin> hashes s'"
  using assms
proof (induction rule: ends_session.induct)
  case (logged_out onUser s b s')
  from logout_effect(3) [OF logged_out.hyps] logged_out.prems(1) show ?case by auto
next
  case (all_logged_out onDone s s')
  from logout_all_effect(2) [OF all_logged_out.hyps] all_logged_out.prems(2) show ?case by auto
next
  case (revoked sessionId current onRevoked s b' s')
  from revoke_effect(3) [OF revoked.hyps(1,2)] revoked.hyps(3) revoked.prems(2) show ?case by auto
next
  case (password_changed salt change actorId onChanged s u s')
  from password_changed.hyps(1,2) show ?case
    by (rule update_effect) (use password_changed in \<open>auto simp: revokes_sessions_def\<close>)
next
  case (disabled salt change actorId onChanged s u s')
  from disabled.hyps(1,2) show ?case
    by (rule update_effect) (use disabled in \<open>auto simp: revokes_sessions_def or_else_def\<close>)
next
  case (deleted actorId onDone s s')
  from deleted.hyps show ?case by (rule delete_effect) (use deleted.prems(2) in auto)
qed

lemma absent_refused:
  assumes "hashToken X token \<notin> hashes s"
  shows "session_user X ck (Some token) s = None"
proof -
  have "filter (live_session ck (hashToken X token)) (d_sessions s) = []"
    unfolding filter_empty_conv live_session_def using assms by (metis imageI)
  then have "session_users ck (hashToken X token) s = []" by (simp only: session_users_def list.map concat.simps)
  then show ?thesis by (cases token) (simp_all add: session_user_def nonempty_def)
qed

text \<open>
  C26: A session that was ended stays ended. After a logout, a logout from everywhere, the revocation of the session, a new
  password, or the disabling or deletion of its user, the token is refused after every further sequence of account
  transactions and at every time, unless a later login draws a token with the same hash.
\<close>

theorem ended_session_stays_ended:
  assumes "ends_session PS X token userId s s1" and "token \<noteq> []"
    and "\<forall>r\<in>set (d_sessions s). se_token_hash r = hashToken X token \<longrightarrow> se_user_id r = userId"
    and "accounts.run PS X T s1 t" and "\<forall>u\<in>T. hashToken X u \<noteq> hashToken X token"
  shows "session_user X ck (Some token) t = None"
proof (rule absent_refused)
  have "hashToken X token \<notin> hashes s1" using ended_absent assms(1-3) by blast
  with assms(4) show "hashToken X token \<notin> hashes t"
  proof (rule accounts.run_invariant [where I = "\<lambda>d. hashToken X token \<notin> hashes d"])
    fix a b assume "hashToken X token \<notin> hashes a" "account_step PS X T a b"
    then show "hashToken X token \<notin> hashes b" using step_hashes [of PS X T a b] assms(5) by auto
  qed
qed

section \<open>A login beside a change of password\<close>

definition only_password :: "string \<Rightarrow> user_update" where
  "only_password password = \<lparr>up_name = None, up_username = None, up_role = None, up_isActive = None, up_password = Some password\<rparr>"

lemma first_user:
  "first_row (filter P users) = Some u \<Longrightarrow> (\<And>v. v \<in> set users \<Longrightarrow> P (g v) = P v) \<Longrightarrow> first_row (filter P (map g users)) = Some (g u)"
  by (induction users) (auto split: if_splits)

lemma session_user_new:
  assumes "users.keys_unique (d_users s)" and "v \<in> set (d_users s)" "us_is_active v" and "r \<in> set (d_sessions s)" "se_user_id r = us_id v"
    and "live_session ck (hashToken X token) r" and "\<And>q. q \<in> set (d_sessions s) \<Longrightarrow> se_token_hash q = hashToken X token \<Longrightarrow> q = r"
    and "token \<noteq> []"
  shows "session_user X ck (Some token) s = Some (mapAdmin v)"
proof -
  let ?L = "filter (live_session ck (hashToken X token)) (d_sessions s)"
  have "r \<in> set ?L" using assms(4,6) by simp
  then obtain q L where L: "?L = q # L" by (cases ?L) auto
  then have "q \<in> set (d_sessions s)" "se_token_hash q = hashToken X token"
    by (auto simp: filter_eq_Cons_iff live_session_def)
  then have "q = r" by (rule assms(7))
  moreover have "filter (\<lambda>u. us_id u = us_id v \<and> us_is_active u) (d_users s) = [v]"
    unfolding filter_filter [symmetric] users.filter_key [OF assms(1,2)] using assms(3) by simp
  ultimately have "first_row (session_users ck (hashToken X token) s) = Some v"
    by (simp add: session_users_def L assms(5))
  with assms(8) show ?thesis by (cases token) (simp_all add: session_user_def nonempty_def)
qed

lemma verified_row:
  assumes "verifyAdmin PS identifier old s = Some user"
  obtains u where "first_row (filter (\<lambda>u. us_is_active u \<and> named_by (to_lower (trim identifier)) u) (d_users s)) = Some u"
    "u \<in> set (d_users s)" "us_is_active u" "user = mapAdmin u"
  using assms
  by (auto simp: verifyAdmin_def Let_def first_row_def filter_eq_Cons_iff split: option.splits list.splits if_splits)

text \<open>
  C29: A change of password does not end a login that is under way. When the old password was verified before the change
  committed and the session is created after it, the session is accepted until it expires, seven days later, although the
  change deleted every session of the user and the old password no longer logs in.
\<close>

theorem login_survives_password_change:
  assumes "verifyAdmin PS identifier old s = Some user" and "users.keys_unique (d_users s)"
    and "updateUser PS salt (am_id user) (only_password new) actorId onChanged s = (Inr (Some changed), s1)" and "\<And>u. frames (onChanged u)"
    and "new \<noteq> []" and "\<not> ps_compare PS old (ps_hash PS salt new)"
    and "createLoginSession X ck now sessionId token (am_id user) ctx onCreated s1 = (Inr session, s2)" and "frames onCreated"
    and "token \<noteq> []" and "ck_now ck' < now + session_lifetime"
  shows "(\<forall>r\<in>set (d_sessions s1). se_user_id r \<noteq> am_id user) \<and> verifyAdmin PS identifier old s2 = None
    \<and> (\<exists>u. session_user X ck' (Some token) s2 = Some u \<and> am_id u = am_id user)"
proof -
  obtain u where first: "first_row (filter (\<lambda>u. us_is_active u \<and> named_by (to_lower (trim identifier)) u) (d_users s)) = Some u"
    and u: "u \<in> set (d_users s)" "us_is_active u" "user = mapAdmin u"
    using assms(1) by (rule verified_row)
  then have id: "am_id user = us_id u" by (simp add: mapAdmin_def)
  let ?new = "new_session X ck now sessionId token (us_id u) ctx"
  let ?f = "\<lambda>v. if us_id v = us_id u then (updated_user PS salt (only_password new) v)\<lparr>us_last_login_at := Some (ck_now ck)\<rparr> else v"
  obtain c cs where new: "new = c # cs" using assms(5) by (cases new) auto
  have ends: "revokes_sessions (only_password new) row" for row by (simp add: revokes_sessions_def only_password_def nonempty_def new)
  have s1: "d_users s1 = update_where (\<lambda>v. us_id v = us_id u) (updated_user PS salt (only_password new)) (d_users s)"
    "d_sessions s1 = filter (\<lambda>r. se_user_id r \<noteq> us_id u) (d_sessions s)"
    by (rule update_effect [OF assms(3) [unfolded id] assms(4)]; simp only: ends if_True simp_thms; blast)+
  obtain t y where t: "create_login X ck now sessionId token (us_id u) ctx onCreated (s1\<lparr>d_locks := []\<rparr>) = Inr (y, t)"
    and s2: "d_users s2 = d_users t" "d_sessions s2 = d_sessions t"
    using assms(7) [unfolded createLoginSession_def id] by (rule in_transaction) auto
  have fresh: "se_token_hash q \<noteq> hashToken X token" if "q \<in> set (d_sessions s1)" for q
    using t that by (auto simp: create_login_def insert_session_def new_session_def list_ex_iff elim!: and_then_InrE split: if_splits)
  have us: "d_users s2 = map ?f (d_users s)"
    unfolding s2 create_login_effect(1) [OF t assms(8)] by (simp add: s1 update_where_def updated_user_def)
  have ss: "d_sessions s2 = d_sessions s1 @ [?new]"
    unfolding s2 create_login_effect(2) [OF t assms(8)] by simp
  have active: "us_is_active (?f v) = us_is_active v" "named_by n (?f v) = named_by n v" "us_id (?f v) = us_id v" for n v
    by (simp_all add: updated_user_def only_password_def or_else_def named_by_def username_key_def)
  have "users.keys_unique (d_users s2)" using assms(2) active(3) by (simp add: us users.keys_unique_def comp_def)
  moreover have "?f u \<in> set (d_users s2)" using u(1) by (simp add: us)
  ultimately have "session_user X ck' (Some token) s2 = Some (mapAdmin (?f u))"
    using u(2) fresh assms(9,10) active(1,3) [of u]
    by (intro session_user_new [of s2 "?f u" ?new]) (auto simp: ss new_session_def live_session_def)
  moreover have "am_id (mapAdmin (?f u)) = us_id u" by (simp add: mapAdmin_def updated_user_def)
  moreover have "first_row (filter (\<lambda>u. us_is_active u \<and> named_by (to_lower (trim identifier)) u) (d_users s2)) = Some (?f u)"
    unfolding us using first by (rule first_user) (simp only: active)
  then have "verifyAdmin PS identifier old s2 = None"
    using assms(6) by (simp add: verifyAdmin_def updated_user_def only_password_def nonempty_def new)
  ultimately show ?thesis unfolding id using s1(2) by simp
qed

section \<open>The lockout\<close>

definition failures_from :: "timestamp \<Rightarrow> string \<Rightarrow> db \<Rightarrow> nat" where
  "failures_from now ipAddress s = length (filter (\<lambda>r. attempt_ip r = normalizeIpAddress ipAddress) (recent_failures now s))"

definition attackers :: "timestamp \<Rightarrow> string \<Rightarrow> db \<Rightarrow> string set" where
  "attackers now identifier s = attempt_ip ` set (filter (same_identifier identifier) (recent_failures now s))"

lemma locked_iff:
  "isLoginLocked now identifier ipAddress s \<longleftrightarrow> failures_from now ipAddress s \<ge> 10
     \<or> length (filter (same_identifier identifier) (recent_failures now s)) \<ge> 30 \<and> card (attackers now identifier s) \<ge> 3"
proof -
  have "length (uniq (map attempt_ip (filter (same_identifier identifier) (recent_failures now s)))) = card (attackers now identifier s)"
    unfolding attackers_def by (metis distinct_card distinct_uniq set_uniq list.set_map)
  then show ?thesis
    by (simp add: isLoginLocked_def isLoginLockedForSnapshot_def failure_snapshot_def failures_from_def Let_def
        MAX_IP_FAILURES_def MAX_IDENTIFIER_FAILURES_def MIN_IDENTIFIER_LOCK_IPS_def)
qed

text \<open>The time, the database and the address that the lockout check of a request sees.\<close>

definition check_time :: "account_world \<Rightarrow> (unit, unit) session \<Rightarrow> timestamp" where
  "check_time W s = ck_clock (fst (aw_turns W (ss_tick s)))"

definition check_db :: "account_world \<Rightarrow> (unit, unit) session \<Rightarrow> db" where
  "check_db W s = snd (aw_turns W (ss_tick s)) (ss_db s)"

definition request_ip :: "request \<Rightarrow> string" where
  "request_ip rq = or_else (rq_ip rq) ''unknown''"

lemma login_locked:
  assumes "isLoginLocked (check_time W s) identifier (request_ip rq) (check_db W s)"
  shows "post_login W rq identifier password s = step_bind
      (audit_statement W (audit_of rq ''auth.lockout'' ''authentication'' None None [(''reason'', JStr ''failure_threshold'')]))
      (\<lambda>_. step_return (ApiError 429 ''ACCOUNT_LOCKED'')) (s\<lparr>ss_db := check_db W s, ss_tick := ss_tick s + 1\<rparr>)"
  using assms unfolding post_login_def Let_def check_time_def check_db_def request_ip_def
  by (simp add: bind_process_time bind_reading)

text \<open>
  C28: The lockout stops guessing and spares bystanders. With ten failures from its address in the last fifteen minutes a login
  is refused and answers the same whatever the password, so that nothing can be guessed; and it grants no session. An
  account cannot be locked for others from one or two addresses: a login from an address with fewer than ten failures is
  not locked out while the failures of its identifier come from fewer than three addresses.
\<close>

theorem login_lockout:
  "(failures_from (check_time W s) (request_ip rq) (check_db W s) \<ge> 10 \<longrightarrow>
      post_login W rq identifier guess s = post_login W rq identifier password s
      \<and> (\<forall>a s'. post_login W rq identifier password s \<noteq> (Inr (Answer a), s')))
   \<and> (failures_from (check_time W s) (request_ip rq) (check_db W s) < 10 \<and> card (attackers (check_time W s) identifier (check_db W s)) < 3 \<longrightarrow>
      \<not> isLoginLocked (check_time W s) identifier (request_ip rq) (check_db W s))"
proof (intro conjI impI allI)
  assume "10 \<le> failures_from (check_time W s) (request_ip rq) (check_db W s)"
  then have "isLoginLocked (check_time W s) identifier (request_ip rq) (check_db W s)" by (simp add: locked_iff)
  note locked = login_locked [OF this]
  show "post_login W rq identifier guess s = post_login W rq identifier password s" by (simp only: locked)
  show "post_login W rq identifier password s \<noteq> (Inr (Answer a), s')" for a s'
    unfolding locked by (auto simp: step_bind_Inr step_return_iff)
qed (simp add: locked_iff)

section \<open>Witnesses\<close>

definition plain_passwords :: password_scheme where
  "plain_passwords = \<lparr>ps_hash = (\<lambda>salt p. p), ps_compare = (\<lambda>p h. p = h)\<rparr>"

definition alice :: user_row where
  "alice = \<lparr>us_id = ''u1'', us_name = None, us_username = Some ''alice'', us_email = ''alice@example.test'', us_password_hash = ''old'',
     us_role = Owner, us_is_active = True, us_last_login_at = None, us_created_at = 0\<rparr>"

definition alice_db :: db where
  "alice_db = empty_db\<lparr>d_users := [alice]\<rparr>"

definition no_context :: session_context where
  "no_context = \<lparr>sc_ipAddress = None, sc_userAgent = None\<rparr>"

definition quiet_world :: account_world where
  "quiet_world = \<lparr>aw_externs = sample_externs, aw_passwords = plain_passwords, aw_turns = (\<lambda>_. (clock_of 0, id)),
     aw_fresh = (\<lambda>k. \<lparr>fa_id = show_nat k, fa_sessionId = show_nat k, fa_token = ''t'' @ show_nat k, fa_salt = [], fa_auditId = show_nat k\<rparr>)\<rparr>"

definition browser :: request where
  "browser = \<lparr>rq_cookie = None, rq_ip = Some ''198.51.100.7'', rq_userAgent = None\<rparr>"

definition start :: "db \<Rightarrow> (unit, unit) session" where
  "start d = \<lparr>ss_db = d, ss_host = (), ss_tick = 0, ss_log = []\<rparr>"

lemma no_callback_frames: "frames no_callback"
  by (simp add: frames_def no_callback_def)

lemma quiet_open: "open_world quiet_world UNIV"
  by (simp add: open_world_def quiet_world_def accounts.run.refl)

lemma alice_ok: "accounts_ok (d_users alice_db)"
  by (simp add: alice_db_def alice_def accounts_ok_def users.keys_unique_def active_owner_def)

definition logged_in :: db where
  "logged_in = ss_db (snd (serve quiet_world (\<lambda>_. no_callback) browser (PostLogin ''alice'' ''old'') (start alice_db)))"


theorem active_owner_remains_witness:
  "accounts_ok (d_users (snd (deleteUser ''u1'' (Some ''u2'') no_callback alice_db)))
   \<and> fst (deleteUser ''u1'' (Some ''u2'') no_callback alice_db) = Inl (conflict ''Cannot delete the last active owner account'')"
proof -
  have "accounts.run plain_passwords sample_externs {} alice_db (snd (deleteUser ''u1'' (Some ''u2'') no_callback alice_db))"
    by (intro account_step_run ran(5) no_callback_frames)
  moreover have "fst (deleteUser ''u1'' (Some ''u2'') no_callback alice_db) = Inl (conflict ''Cannot delete the last active owner account'')"
    by code_simp
  ultimately show ?thesis using active_owner_remains alice_ok by blast
qed

theorem ended_session_stays_ended_witness:
  "(case session_user sample_externs (clock_of 1) (Some ''t3'') logged_in of None \<Rightarrow> [] | Some u \<Rightarrow> am_id u) = ''u1''
   \<and> session_user sample_externs (clock_of 1) (Some ''t3'') (snd (destroySession sample_externs (Some ''t3'') (\<lambda>_. no_callback) logged_in)) = None"
proof -
  have live: "(case session_user sample_externs (clock_of 1) (Some ''t3'') logged_in of None \<Rightarrow> [] | Some u \<Rightarrow> am_id u) = ''u1''" by code_simp
  have "fst (destroySession sample_externs (Some ''t3'') (\<lambda>_. no_callback) logged_in) = Inr True" by code_simp
  then have "destroySession sample_externs (Some ''t3'') (\<lambda>_. no_callback) logged_in
      = (Inr True, snd (destroySession sample_externs (Some ''t3'') (\<lambda>_. no_callback) logged_in))"
    by (simp add: prod_eq_iff)
  from ends_session.logged_out [OF this no_callback_frames]
  have ended: "ends_session plain_passwords sample_externs ''t3'' ''u1'' logged_in
      (snd (destroySession sample_externs (Some ''t3'') (\<lambda>_. no_callback) logged_in))" .
  have "list_all (\<lambda>r. se_token_hash r = hashToken sample_externs ''t3'' \<longrightarrow> se_user_id r = ''u1'') (d_sessions logged_in)" by code_simp
  then have "\<forall>r\<in>set (d_sessions logged_in). se_token_hash r = hashToken sample_externs ''t3'' \<longrightarrow> se_user_id r = ''u1''"
    by (simp only: list_all_iff)
  from ended_session_stays_ended [OF ended _ this accounts.run.refl, of "{}" "clock_of 1"] live show ?thesis by simp
qed

definition changed_db :: db where
  "changed_db = snd (updateUser plain_passwords [] ''u1'' (only_password ''new'') None (\<lambda>_. no_callback) alice_db)"

definition raced_db :: db where
  "raced_db = snd (createLoginSession sample_externs (clock_of 0) 0 ''s1'' ''tok'' ''u1'' no_context no_callback changed_db)"

theorem login_survives_password_change_witness:
  "verifyAdmin plain_passwords ''alice'' ''old'' raced_db = None
   \<and> (\<exists>u. session_user sample_externs (clock_of 1) (Some ''tok'') raced_db = Some u \<and> am_id u = ''u1'')"
proof -
  have v: "verifyAdmin plain_passwords ''alice'' ''old'' alice_db = Some (mapAdmin alice)" by code_simp
  have i: "am_id (mapAdmin alice) = ''u1''" by code_simp
  have "case fst (updateUser plain_passwords [] ''u1'' (only_password ''new'') None (\<lambda>_. no_callback) alice_db) of
      Inr (Some _) \<Rightarrow> True | _ \<Rightarrow> False" by code_simp
  then obtain c where c: "updateUser plain_passwords [] ''u1'' (only_password ''new'') None (\<lambda>_. no_callback) alice_db = (Inr (Some c), changed_db)"
    by (auto simp: changed_db_def prod_eq_iff split: sum.splits option.splits)
  have "case fst (createLoginSession sample_externs (clock_of 0) 0 ''s1'' ''tok'' ''u1'' no_context no_callback changed_db) of
      Inr _ \<Rightarrow> True | Inl _ \<Rightarrow> False" by code_simp
  then obtain l where l: "createLoginSession sample_externs (clock_of 0) 0 ''s1'' ''tok'' ''u1'' no_context no_callback changed_db = (Inr l, raced_db)"
    by (auto simp: raced_db_def prod_eq_iff split: sum.splits)
  have u: "users.keys_unique (d_users alice_db)" using alice_ok by (simp add: accounts_ok_def)
  have p: "\<not> ps_compare plain_passwords ''old'' (ps_hash plain_passwords [] ''new'')" by (simp add: plain_passwords_def)
  have e: "ck_now (clock_of 1) < 0 + session_lifetime" by (simp add: clock_of_def session_lifetime_def SESSION_DAYS_def)
  from login_survives_password_change [OF v u, unfolded i, OF c no_callback_frames _ p l no_callback_frames _ e]
  show ?thesis by simp
qed

definition guesses_db :: db where
  "guesses_db = alice_db\<lparr>d_logins := replicate 10 (login_attempt (clock_of 0) ''alice'' ''198.51.100.7'' False)\<rparr>"

theorem login_lockout_witness:
  "post_login quiet_world browser ''alice'' ''guess'' (start guesses_db) = post_login quiet_world browser ''alice'' ''old'' (start guesses_db)
   \<and> \<not> isLoginLocked (check_time quiet_world (start guesses_db)) ''alice'' ''203.0.113.5'' (check_db quiet_world (start guesses_db))"
proof -
  have f: "failures_from (check_time quiet_world (start guesses_db)) (request_ip browser) (check_db quiet_world (start guesses_db)) \<ge> 10"
    by code_simp
  have g: "failures_from (check_time quiet_world (start guesses_db)) (request_ip (browser\<lparr>rq_ip := Some ''203.0.113.5''\<rparr>))
      (check_db quiet_world (start guesses_db)) < 10 \<and> card (attackers (check_time quiet_world (start guesses_db)) ''alice''
        (check_db quiet_world (start guesses_db))) < 3"
    by code_simp
  have r: "request_ip (browser\<lparr>rq_ip := Some ''203.0.113.5''\<rparr>) = ''203.0.113.5''" by code_simp
  from login_lockout [of quiet_world "start guesses_db" browser "''alice''" "''guess''" "''old''"] f
    login_lockout [of quiet_world "start guesses_db" "browser\<lparr>rq_ip := Some ''203.0.113.5''\<rparr>" "''alice''"] g
  show ?thesis unfolding r by blast
qed

end
