(* ===== verification/Backup_Encryption.thy ===== *)
theory Backup_Encryption
  imports Prelude "HOL-Library.Word"
begin

text \<open>
  Encrypted backups (\<^verbatim>\<open>services/backupEncryption.ts\<close>): the keyring, the header of an artifact, its frames, and the two
  stream transforms. A buffer is a list of bytes. The cipher (AES-256-GCM), SHA-256, the JSON parser and the base64url decoder
  of the platform are the fields of \<open>platform\<close>; random bytes are arguments.
\<close>

type_synonym byte = "8 word"
type_synonym bytes = "byte list"

record platform =
  pl_sha256 :: "bytes \<Rightarrow> bytes"
  pl_seal :: "bytes \<Rightarrow> bytes \<Rightarrow> bytes \<Rightarrow> bytes \<Rightarrow> bytes \<times> bytes"
  pl_open :: "bytes \<Rightarrow> bytes \<Rightarrow> bytes \<Rightarrow> bytes \<Rightarrow> bytes \<Rightarrow> bytes option"
  pl_parse :: "bytes \<Rightarrow> json option"
  pl_base64url_decode :: "string \<Rightarrow> bytes"

text \<open>
  \<open>pl_seal key iv aad plaintext\<close> is the ciphertext and the tag; \<open>pl_open key iv aad ciphertext tag\<close> is \<open>None\<close> when the tag does not
  match, where \<^verbatim>\<open>decipher.final\<close> throws.
\<close>

section \<open>Buffers and texts\<close>

definition write_uint32 :: "nat \<Rightarrow> bytes result" where
  "write_uint32 n =
     (if n < 2 ^ 32 then Inr [of_nat (n div 2 ^ 24), of_nat (n div 2 ^ 16), of_nat (n div 2 ^ 8), of_nat n]
      else Inl (CodedError ''ERR_OUT_OF_RANGE'' ''The value of \"value\" is out of range.''))"

fun read_uint32 :: "bytes \<Rightarrow> nat" where
  "read_uint32 (a # b # c # d # _) = unat a * 2 ^ 24 + unat b * 2 ^ 16 + unat c * 2 ^ 8 + unat d"
| "read_uint32 _ = 0"

definition utf8_char :: "char \<Rightarrow> bytes" where
  "utf8_char c = (let n = of_char c :: nat in if n < 128 then [of_nat n] else [of_nat (192 + n div 64), of_nat (128 + n mod 64)])"

definition utf8 :: "string \<Rightarrow> bytes" where
  "utf8 s = concat (map utf8_char s)"

definition nibble_char :: "nat \<Rightarrow> char" where
  "nibble_char n = ''0123456789abcdef'' ! (n mod 16)"

definition hex :: "bytes \<Rightarrow> string" where
  "hex b = concat (map (\<lambda>x. [nibble_char (unat x div 16), nibble_char (unat x)]) b)"

definition base64url_char :: "nat \<Rightarrow> char" where
  "base64url_char n = ''ABCDEFGHIJKLMNOPQRSTUVWXYZabcdefghijklmnopqrstuvwxyz0123456789-_'' ! (n mod 64)"

fun base64url :: "bytes \<Rightarrow> string" where
  "base64url [] = []"
| "base64url [a] = [base64url_char (unat a div 4), base64url_char (unat a * 16)]"
| "base64url [a, b] = [base64url_char (unat a div 4), base64url_char (unat a * 16 + unat b div 16), base64url_char (unat b * 4)]"
| "base64url (a # b # c # rest) = base64url_char (unat a div 4) # base64url_char (unat a * 16 + unat b div 16)
     # base64url_char (unat b * 4 + unat c div 64) # base64url_char (unat c) # base64url rest"

text \<open>\<^verbatim>\<open>JSON.stringify\<close>\<close>

definition json_char :: "char \<Rightarrow> string" where
  "json_char c =
     (if c = CHR 0x22 \<or> c = CHR 0x5C then [CHR 0x5C, c]
      else if c = CHR 0x08 then [CHR 0x5C, CHR ''b''] else if c = CHR 0x09 then [CHR 0x5C, CHR ''t'']
      else if c = CHR 0x0A then [CHR 0x5C, CHR ''n''] else if c = CHR 0x0C then [CHR 0x5C, CHR ''f'']
      else if c = CHR 0x0D then [CHR 0x5C, CHR ''r'']
      else if of_char c < (32 :: nat) then [CHR 0x5C, CHR ''u'', CHR ''0'', CHR ''0'', nibble_char (of_char c div 16), nibble_char (of_char c)]
      else [c])"

definition json_string :: "string \<Rightarrow> string" where
  "json_string s = [CHR 0x22] @ concat (map json_char s) @ [CHR 0x22]"

fun json_text :: "json \<Rightarrow> string" where
  "json_text JNull = ''null''"
| "json_text (JBool b) = (if b then ''true'' else ''false'')"
| "json_text (JNum n) = show_int n"
| "json_text (JStr s) = json_string s"
| "json_text (JArr xs) = ''['' @ join_with '','' (map json_text xs) @ '']''"
| "json_text (JObj fs) = ''{'' @ join_with '','' (map (\<lambda>(k, v). json_string k @ '':'' @ json_text v) fs) @ ''}''"

section \<open>The keyring\<close>

definition MAGIC :: bytes where "MAGIC = utf8 ''DMBKENC1''"
definition CHUNK_SIZE :: nat where "CHUNK_SIZE = 64 * 1024"
definition MAX_FRAME_SIZE :: nat where "MAX_FRAME_SIZE = 16 * 1024 * 1024"
definition IV_BYTES :: nat where "IV_BYTES = 12"
definition TAG_BYTES :: nat where "TAG_BYTES = 16"
definition ARTIFACT_NONCE_BYTES :: nat where "ARTIFACT_NONCE_BYTES = 16"
definition FRAME_METADATA_BYTES :: nat where "FRAME_METADATA_BYTES = 4 + 4 + 1 + IV_BYTES + TAG_BYTES"

definition key_id_char :: "char \<Rightarrow> bool" where
  "key_id_char c \<longleftrightarrow> is_alnum c \<or> c \<in> set ''_.-''"

definition KEY_ID_PATTERN :: "string \<Rightarrow> bool" where
  "KEY_ID_PATTERN s \<longleftrightarrow> s \<noteq> [] \<and> length s \<le> 64 \<and> list_all key_id_char s"

record backup_key =
  bk_id :: string
  bk_key :: bytes
  bk_fingerprint :: string

record backup_keyring =
  kr_activeKey :: backup_key
  kr_keysById :: "(string \<times> backup_key) list"
  kr_keysByFingerprint :: "(string \<times> backup_key) list"

definition keyFingerprint :: "platform \<Rightarrow> bytes \<Rightarrow> string" where
  "keyFingerprint P key = take 16 (hex (pl_sha256 P key))"

text \<open>\<open>None\<close> stands for an index of -1.\<close>

fun index_of :: "char \<Rightarrow> string \<Rightarrow> nat option" where
  "index_of c [] = None"
| "index_of c (d # s) = (if d = c then Some 0 else map_option Suc (index_of c s))"

definition configuredKey :: "platform \<Rightarrow> string \<Rightarrow> backup_key result" where
  "configuredKey P entry = (case index_of CHR '':'' entry of
     None \<Rightarrow> Inl (PlainError ''BACKUP_ENCRYPTION_KEYS entries must use keyId:secret'')
   | Some separator \<Rightarrow>
       if separator = 0 then Inl (PlainError ''BACKUP_ENCRYPTION_KEYS entries must use keyId:secret'')
       else
         let i = trim (take separator entry); secret = drop (separator + 1) entry in
         if \<not> KEY_ID_PATTERN i then Inl (PlainError ''BACKUP_ENCRYPTION_KEYS key ids may only contain letters, digits, '_', '.', '-' and be at most 64 characters'')
         else if length secret < 32 then Inl (PlainError (''Backup encryption key '' @ i @ '' must be at least 32 characters''))
         else let key = pl_sha256 P (utf8 secret) in Inr \<lparr>bk_id = i, bk_key = key, bk_fingerprint = keyFingerprint P key\<rparr>)"

fun configured_keys :: "platform \<Rightarrow> string list \<Rightarrow> backup_key list result" where
  "configured_keys P [] = Inr []"
| "configured_keys P (entry # entries) =
     and_then (configuredKey P entry) (\<lambda>key. and_then (configured_keys P entries) (\<lambda>keys. Inr (key # keys)))"

fun index_keys ::
    "backup_key list \<Rightarrow> (string \<times> backup_key) list \<times> (string \<times> backup_key) list
     \<Rightarrow> ((string \<times> backup_key) list \<times> (string \<times> backup_key) list) result" where
  "index_keys [] maps = Inr maps"
| "index_keys (key # keys) (byId, byFingerprint) =
     (if map_of byId (bk_id key) \<noteq> None then Inl (PlainError (''Duplicate backup encryption key id '' @ bk_id key))
      else if map_of byFingerprint (bk_fingerprint key) \<noteq> None
      then Inl (PlainError (''Duplicate backup encryption key fingerprint '' @ bk_fingerprint key))
      else index_keys keys (byId @ [(bk_id key, key)], byFingerprint @ [(bk_fingerprint key, key)]))"

definition parseBackupEncryptionKeyring :: "platform \<Rightarrow> bytes \<Rightarrow> string option \<Rightarrow> string option \<Rightarrow> backup_keyring result" where
  "parseBackupEncryptionKeyring P appSecretKey configuredKeys activeKeyIdInput =
     (let entries = filter (\<lambda>e. e \<noteq> []) (map trim (split_on CHR '','' (case configuredKeys of None \<Rightarrow> [] | Some t \<Rightarrow> t))) in
      and_then (configured_keys P entries) (\<lambda>configured.
      and_then (index_keys (\<lparr>bk_id = ''app_secret'', bk_key = appSecretKey, bk_fingerprint = keyFingerprint P appSecretKey\<rparr> # configured)
                 ([], [])) (\<lambda>(byId, byFingerprint).
      let activeKeyId = (case nonempty (map_option trim activeKeyIdInput) of None \<Rightarrow> ''app_secret'' | Some i \<Rightarrow> i) in
      if \<not> KEY_ID_PATTERN activeKeyId then Inl (PlainError ''BACKUP_ENCRYPTION_ACTIVE_KEY_ID may only contain letters, digits, '_', '.', '-' and be at most 64 characters'')
      else case map_of byId activeKeyId of
        None \<Rightarrow> Inl (PlainError (''BACKUP_ENCRYPTION_ACTIVE_KEY_ID '' @ activeKeyId @ '' is not configured''))
      | Some key \<Rightarrow> Inr \<lparr>kr_activeKey = key, kr_keysById = byId, kr_keysByFingerprint = byFingerprint\<rparr>)))"

section \<open>The header\<close>

definition ALGORITHM :: string where "ALGORITHM = ''aes-256-gcm-chunked''"

definition header_json :: "backup_key \<Rightarrow> bytes \<Rightarrow> json" where
  "header_json key artifactNonce = JObj
     [(''version'', JNum 3), (''algorithm'', JStr ALGORITHM), (''keySource'', JStr ''keyring''), (''keyId'', JStr (bk_id key)),
      (''keyFingerprint'', JStr (bk_fingerprint key)), (''chunkSize'', JNum (int CHUNK_SIZE)),
      (''artifactNonce'', JStr (base64url artifactNonce))]"

definition headerBytes :: "backup_key \<Rightarrow> bytes \<Rightarrow> bytes result" where
  "headerBytes key artifactNonce =
     (let text = utf8 (json_text (header_json key artifactNonce)) in
      and_then (write_uint32 (length text)) (\<lambda>len. Inr (MAGIC @ len @ text)))"

datatype header_version = V2 | V3

record parsed_header =
  ph_version :: header_version
  ph_key :: backup_key
  ph_artifactNonce :: "bytes option"

abbreviation unsupported :: "'a result" where
  "unsupported \<equiv> Inl (PlainError ''Unsupported encrypted backup format'')"

text \<open>A pattern is tested on the text of its argument, a missing one is the text \<^verbatim>\<open>undefined\<close>.\<close>

definition tested_text :: "unknown \<Rightarrow> string" where
  "tested_text v = (case v of None \<Rightarrow> ''undefined'' | Some j \<Rightarrow> js_String j)"

definition keyed :: "(string \<times> backup_key) list \<Rightarrow> unknown \<Rightarrow> backup_key option" where
  "keyed keys v = Option.bind (as_string v) (map_of keys)"

definition parse_v2 :: "backup_keyring \<Rightarrow> (string \<times> json) list \<Rightarrow> parsed_header result" where
  "parse_v2 keyring parsed =
     (if get_prop parsed ''keySource'' \<noteq> Some (JStr ''app_secret'') \<or> get_prop parsed ''chunkSize'' \<noteq> Some (JNum (int CHUNK_SIZE))
      then unsupported
      else case keyed (kr_keysByFingerprint keyring) (get_prop parsed ''keyFingerprint'') of
        None \<Rightarrow> Inl (PlainError ''Encrypted backup was encrypted with a different APP_SECRET or unavailable backup encryption key. Restore, verify, or download requires the original key material.'')
      | Some key \<Rightarrow> Inr \<lparr>ph_version = V2, ph_key = key, ph_artifactNonce = None\<rparr>)"

definition parse_v3 :: "platform \<Rightarrow> backup_keyring \<Rightarrow> (string \<times> json) list \<Rightarrow> parsed_header result" where
  "parse_v3 P keyring parsed =
     (case get_prop parsed ''artifactNonce'' of
        Some (JStr nonce) \<Rightarrow>
          if get_prop parsed ''keySource'' \<noteq> Some (JStr ''keyring'') \<or> get_prop parsed ''chunkSize'' \<noteq> Some (JNum (int CHUNK_SIZE))
             \<or> \<not> KEY_ID_PATTERN (tested_text (get_prop parsed ''keyId''))
          then unsupported
          else (case keyed (kr_keysById keyring) (get_prop parsed ''keyId'') of
            None \<Rightarrow> Inl (PlainError (''Encrypted backup requires backup encryption key '' @ tested_text (get_prop parsed ''keyId'')
              @ ''. Configure BACKUP_ENCRYPTION_KEYS or restore the original APP_SECRET.''))
          | Some key \<Rightarrow>
              if get_prop parsed ''keyFingerprint'' \<noteq> Some (JStr (bk_fingerprint key))
              then Inl (PlainError (if get_prop parsed ''keyId'' = Some (JStr ''app_secret'')
                     then ''Encrypted backup was encrypted with a different APP_SECRET. Restore, verify, or download requires the original APP_SECRET.''
                     else ''Encrypted backup key '' @ tested_text (get_prop parsed ''keyId'') @ '' fingerprint mismatch. Check BACKUP_ENCRYPTION_KEYS.''))
              else
                let artifactNonce = pl_base64url_decode P nonce in
                if length artifactNonce \<noteq> ARTIFACT_NONCE_BYTES then Inl (PlainError ''Encrypted backup artifact nonce is invalid'')
                else Inr \<lparr>ph_version = V3, ph_key = key, ph_artifactNonce = Some artifactNonce\<rparr>)
      | _ \<Rightarrow> unsupported)"

definition parseHeader :: "platform \<Rightarrow> backup_keyring \<Rightarrow> bytes \<Rightarrow> parsed_header result" where
  "parseHeader P keyring raw = (case pl_parse P raw of
     None \<Rightarrow> Inl (PlainError ''SyntaxError'')
   | Some JNull \<Rightarrow> Inl (PlainError ''Cannot read properties of null'')
   | Some j \<Rightarrow>
       let parsed = objectFields (Some j); version = get_prop parsed ''version'' in
       if get_prop parsed ''algorithm'' \<noteq> Some (JStr ALGORITHM) \<or> version \<noteq> Some (JNum 2) \<and> version \<noteq> Some (JNum 3) then unsupported
       else if version = Some (JNum 2) then parse_v2 keyring parsed
       else parse_v3 P keyring parsed)"

section \<open>Frames\<close>

definition flag_byte :: "bool \<Rightarrow> byte" where
  "flag_byte finalFrame = (if finalFrame then 1 else 0)"

definition frameMarker :: "nat \<Rightarrow> bool \<Rightarrow> bytes result" where
  "frameMarker index finalFrame = and_then (write_uint32 index) (\<lambda>i. Inr (i @ [flag_byte finalFrame]))"

definition frameAad :: "parsed_header \<Rightarrow> bytes \<Rightarrow> nat \<Rightarrow> bool \<Rightarrow> bytes result" where
  "frameAad header headerRaw index finalFrame =
     (case ph_version header of
        V2 \<Rightarrow> frameMarker index finalFrame
      | V3 \<Rightarrow> and_then (frameMarker index finalFrame) (\<lambda>marker.
                Inr (headerRaw @ (case ph_artifactNonce header of None \<Rightarrow> [] | Some nonce \<Rightarrow> nonce) @ marker)))"

definition frameAadV3 :: "bytes \<Rightarrow> bytes \<Rightarrow> nat \<Rightarrow> bool \<Rightarrow> bytes result" where
  "frameAadV3 headerRaw artifactNonce index finalFrame =
     and_then (frameMarker index finalFrame) (\<lambda>marker. Inr (headerRaw @ artifactNonce @ marker))"

definition encryptFrame :: "platform \<Rightarrow> bytes \<Rightarrow> bytes \<Rightarrow> nat \<Rightarrow> bool \<Rightarrow> backup_key \<Rightarrow> bytes \<Rightarrow> bytes \<Rightarrow> bytes result" where
  "encryptFrame P iv plaintext index finalFrame key headerRaw artifactNonce =
     and_then (frameAadV3 headerRaw artifactNonce index finalFrame) (\<lambda>aad.
     let (ciphertext, tag) = pl_seal P (bk_key key) iv aad plaintext in
     and_then (write_uint32 (length ciphertext)) (\<lambda>len.
     and_then (write_uint32 index) (\<lambda>frameIndex.
     Inr (len @ frameIndex @ [flag_byte finalFrame] @ iv @ tag @ ciphertext))))"

definition decryptFrame :: "platform \<Rightarrow> bytes \<Rightarrow> bytes \<Rightarrow> bytes \<Rightarrow> nat \<Rightarrow> bool \<Rightarrow> parsed_header \<Rightarrow> bytes \<Rightarrow> bytes result" where
  "decryptFrame P iv tag ciphertext index finalFrame header headerRaw =
     and_then (frameAad header headerRaw index finalFrame) (\<lambda>aad.
     case pl_open P (bk_key (ph_key header)) iv aad ciphertext tag of
       None \<Rightarrow> Inl (PlainError ''Unsupported state or unable to authenticate data'')
     | Some plaintext \<Rightarrow> Inr plaintext)"

section \<open>The encrypting transform\<close>

text \<open>\<open>es_out\<close> is what the transform has pushed. The initialisation vectors are drawn as the frames are written.\<close>

record encryptor =
  es_key :: backup_key
  es_artifactNonce :: bytes
  es_headerRaw :: bytes
  es_wroteHeader :: bool
  es_frameIndex :: nat
  es_buffer :: bytes
  es_finalized :: bool
  es_out :: bytes

definition new_encryptor :: "backup_keyring \<Rightarrow> bytes \<Rightarrow> encryptor result" where
  "new_encryptor keyring artifactNonce =
     and_then (headerBytes (kr_activeKey keyring) artifactNonce) (\<lambda>raw.
     Inr \<lparr>es_key = kr_activeKey keyring, es_artifactNonce = artifactNonce, es_headerRaw = raw, es_wroteHeader = False,
          es_frameIndex = 0, es_buffer = [], es_finalized = False, es_out = []\<rparr>)"

definition writeHeader :: "encryptor \<Rightarrow> encryptor" where
  "writeHeader s = (if es_wroteHeader s then s else s\<lparr>es_out := es_out s @ es_headerRaw s, es_wroteHeader := True\<rparr>)"

definition pushFrame :: "platform \<Rightarrow> (nat \<Rightarrow> bytes) \<Rightarrow> bytes \<Rightarrow> bool \<Rightarrow> encryptor \<Rightarrow> unit result \<times> encryptor" where
  "pushFrame P ivs plaintext finalFrame s =
     (let s1 = writeHeader s in
      case encryptFrame P (ivs (es_frameIndex s1)) plaintext (es_frameIndex s1) finalFrame (es_key s1) (es_headerRaw s1) (es_artifactNonce s1) of
        Inl e \<Rightarrow> (Inl e, s1)
      | Inr frame \<Rightarrow> (Inr (), s1\<lparr>es_out := es_out s1 @ frame, es_frameIndex := es_frameIndex s1 + 1, es_finalized := finalFrame\<rparr>))"

text \<open>The loop of \<^verbatim>\<open>_transform\<close>: full chunks are written as long as more than one chunk is buffered.\<close>

function push_chunks :: "platform \<Rightarrow> (nat \<Rightarrow> bytes) \<Rightarrow> encryptor \<Rightarrow> unit result \<times> encryptor" where
  "push_chunks P ivs s =
     (if length (es_buffer s) > CHUNK_SIZE then
        (case pushFrame P ivs (take CHUNK_SIZE (es_buffer s)) False s of
           (Inl e, s1) \<Rightarrow> (Inl e, s1)
         | (Inr _, s1) \<Rightarrow> push_chunks P ivs (s1\<lparr>es_buffer := drop CHUNK_SIZE (es_buffer s1)\<rparr>))
      else (Inr (), s))"
  by pat_completeness auto

lemma pushFrame_frame [simp]:
  "es_buffer (snd (pushFrame P ivs p f s)) = es_buffer s" "es_key (snd (pushFrame P ivs p f s)) = es_key s"
  "es_headerRaw (snd (pushFrame P ivs p f s)) = es_headerRaw s" "es_artifactNonce (snd (pushFrame P ivs p f s)) = es_artifactNonce s"
  by (simp_all add: pushFrame_def writeHeader_def Let_def split: sum.split)

lemma pushFrame_buffer: "pushFrame P ivs p f s = (r, s1) \<Longrightarrow> es_buffer s1 = es_buffer s"
  by (metis pushFrame_frame(1) snd_conv)

termination push_chunks
  by (relation "measure (\<lambda>(P, ivs, s). length (es_buffer s))") (auto simp: CHUNK_SIZE_def dest!: sym [THEN pushFrame_buffer])

declare push_chunks.simps [simp del]

definition encrypt_transform :: "platform \<Rightarrow> (nat \<Rightarrow> bytes) \<Rightarrow> bytes \<Rightarrow> encryptor \<Rightarrow> unit result \<times> encryptor" where
  "encrypt_transform P ivs chunk s =
     (if es_finalized s then (Inl (PlainError ''Encrypted backup stream already finalized''), s)
      else push_chunks P ivs (s\<lparr>es_buffer := es_buffer s @ chunk\<rparr>))"

definition encrypt_flush :: "platform \<Rightarrow> (nat \<Rightarrow> bytes) \<Rightarrow> encryptor \<Rightarrow> unit result \<times> encryptor" where
  "encrypt_flush P ivs s = (case pushFrame P ivs (es_buffer s) True s of
     (Inl e, s1) \<Rightarrow> (Inl e, s1)
   | (Inr _, s1) \<Rightarrow> (Inr (), s1\<lparr>es_buffer := []\<rparr>))"

section \<open>The decrypting transform\<close>

record decryptor =
  de_buffer :: bytes
  de_header :: "(parsed_header \<times> bytes) option"
  de_expectedFrameIndex :: nat
  de_finalFrameSeen :: bool
  de_out :: bytes

definition new_decryptor :: decryptor where
  "new_decryptor = \<lparr>de_buffer = [], de_header = None, de_expectedFrameIndex = 0, de_finalFrameSeen = False, de_out = []\<rparr>"

definition drain_header :: "platform \<Rightarrow> backup_keyring \<Rightarrow> decryptor \<Rightarrow> unit result \<times> decryptor" where
  "drain_header P keyring s =
     (let b = de_buffer s; start = length MAGIC + 4 in
      if length b < start then (Inr (), s)
      else if take (length MAGIC) b \<noteq> MAGIC then (Inl (PlainError ''Encrypted backup header is invalid''), s)
      else
        let headerLength = read_uint32 (drop (length MAGIC) b); headerEnd = start + headerLength in
        if headerLength > MAX_FRAME_SIZE then (Inl (PlainError ''Encrypted backup header is too large''), s)
        else if length b < headerEnd then (Inr (), s)
        else case parseHeader P keyring (drop start (take headerEnd b)) of
          Inl e \<Rightarrow> (Inl e, s)
        | Inr parsed \<Rightarrow> (Inr (), s\<lparr>de_header := Some (parsed, take headerEnd b), de_buffer := drop headerEnd b\<rparr>))"

text \<open>One round of the loop; \<open>Inr False\<close> returns, \<open>Inr True\<close> goes on.\<close>

definition drain_frame :: "platform \<Rightarrow> parsed_header \<Rightarrow> bytes \<Rightarrow> decryptor \<Rightarrow> bool result \<times> decryptor" where
  "drain_frame P header headerRaw s =
     (let b = de_buffer s; ciphertextLength = read_uint32 b; frameLength = FRAME_METADATA_BYTES + ciphertextLength in
      if length b < 4 then (Inr False, s)
      else if de_finalFrameSeen s then (Inl (PlainError ''Encrypted backup contains data after its final frame''), s)
      else if ciphertextLength > MAX_FRAME_SIZE then (Inl (PlainError ''Encrypted backup frame is too large''), s)
      else if length b < frameLength then (Inr False, s)
      else
        let frameIndex = read_uint32 (drop 4 b); flag = b ! 8; finalFrame = (flag = 1);
            ivStart = 9; tagStart = ivStart + IV_BYTES; ciphertextStart = tagStart + TAG_BYTES in
        if flag \<noteq> 0 \<and> flag \<noteq> 1 then (Inl (PlainError ''Encrypted backup frame flag is invalid''), s)
        else if frameIndex \<noteq> de_expectedFrameIndex s then (Inl (PlainError ''Encrypted backup frame order is invalid''), s)
        else case decryptFrame P (drop ivStart (take tagStart b)) (drop tagStart (take ciphertextStart b))
                    (drop ciphertextStart (take frameLength b)) frameIndex finalFrame header headerRaw of
          Inl e \<Rightarrow> (Inl e, s)
        | Inr plaintext \<Rightarrow> (Inr True, s\<lparr>de_out := de_out s @ plaintext, de_expectedFrameIndex := de_expectedFrameIndex s + 1,
            de_finalFrameSeen := finalFrame, de_buffer := drop frameLength b\<rparr>))"

function drain_loop :: "platform \<Rightarrow> parsed_header \<Rightarrow> bytes \<Rightarrow> decryptor \<Rightarrow> unit result \<times> decryptor" where
  "drain_loop P header headerRaw s = (case drain_frame P header headerRaw s of
     (Inl e, s1) \<Rightarrow> (Inl e, s1)
   | (Inr again, s1) \<Rightarrow> if again then drain_loop P header headerRaw s1 else (Inr (), s1))"
  by pat_completeness auto

lemma drain_frame_shorter: "drain_frame P h raw s = (Inr True, s1) \<Longrightarrow> length (de_buffer s1) < length (de_buffer s)"
  by (auto simp: drain_frame_def Let_def FRAME_METADATA_BYTES_def split: if_splits sum.splits)

termination drain_loop
  by (relation "measure (\<lambda>(P, h, raw, s). length (de_buffer s))") (auto dest: sym [THEN drain_frame_shorter])

declare drain_loop.simps [simp del]

definition drainFrames :: "platform \<Rightarrow> backup_keyring \<Rightarrow> decryptor \<Rightarrow> unit result \<times> decryptor" where
  "drainFrames P keyring s =
     (case (case de_header s of None \<Rightarrow> drain_header P keyring s | Some _ \<Rightarrow> (Inr (), s)) of
        (Inl e, s1) \<Rightarrow> (Inl e, s1)
      | (Inr _, s1) \<Rightarrow> (case de_header s1 of
            None \<Rightarrow> (Inr (), s1)
          | Some (header, headerRaw) \<Rightarrow> drain_loop P header headerRaw s1))"

definition decrypt_transform :: "platform \<Rightarrow> backup_keyring \<Rightarrow> bytes \<Rightarrow> decryptor \<Rightarrow> unit result \<times> decryptor" where
  "decrypt_transform P keyring chunk s = drainFrames P keyring (s\<lparr>de_buffer := de_buffer s @ chunk\<rparr>)"

definition decrypt_flush :: "platform \<Rightarrow> backup_keyring \<Rightarrow> decryptor \<Rightarrow> unit result \<times> decryptor" where
  "decrypt_flush P keyring s = (case drainFrames P keyring s of
     (Inl e, s1) \<Rightarrow> (Inl e, s1)
   | (Inr _, s1) \<Rightarrow>
       if de_header s1 = None then (Inl (PlainError ''Encrypted backup is missing its header''), s1)
       else if de_buffer s1 \<noteq> [] then (Inl (PlainError ''Encrypted backup ended with a partial frame''), s1)
       else if \<not> de_finalFrameSeen s1 then (Inl (PlainError ''Encrypted backup ended before its final frame''), s1)
       else (Inr (), s1))"

section \<open>Streams\<close>

text \<open>A stream is handed to its transform chunk by chunk and flushed at its end; an error ends it.\<close>

fun feed :: "(bytes \<Rightarrow> 's \<Rightarrow> unit result \<times> 's) \<Rightarrow> bytes list \<Rightarrow> 's \<Rightarrow> unit result \<times> 's" where
  "feed f [] s = (Inr (), s)"
| "feed f (c # cs) s = (case f c s of (Inl e, s1) \<Rightarrow> (Inl e, s1) | (Inr _, s1) \<Rightarrow> feed f cs s1)"

definition stream :: "(bytes \<Rightarrow> 's \<Rightarrow> unit result \<times> 's) \<Rightarrow> ('s \<Rightarrow> unit result \<times> 's) \<Rightarrow> bytes list \<Rightarrow> 's \<Rightarrow> unit result \<times> 's" where
  "stream f flush chunks s = (case feed f chunks s of (Inl e, s1) \<Rightarrow> (Inl e, s1) | (Inr _, s1) \<Rightarrow> flush s1)"

definition encrypt_backup :: "platform \<Rightarrow> (nat \<Rightarrow> bytes) \<Rightarrow> backup_keyring \<Rightarrow> bytes \<Rightarrow> bytes list \<Rightarrow> unit result \<times> bytes" where
  "encrypt_backup P ivs keyring artifactNonce chunks = (case new_encryptor keyring artifactNonce of
     Inl e \<Rightarrow> (Inl e, [])
   | Inr s \<Rightarrow> map_prod id es_out (stream (encrypt_transform P ivs) (encrypt_flush P ivs) chunks s))"

definition decrypt_backup :: "platform \<Rightarrow> backup_keyring \<Rightarrow> bytes list \<Rightarrow> unit result \<times> bytes" where
  "decrypt_backup P keyring chunks =
     map_prod id de_out (stream (decrypt_transform P keyring) (decrypt_flush P keyring) chunks new_decryptor)"

definition isBackupEncrypted :: "string option \<Rightarrow> bool" where
  "isBackupEncrypted encryption \<longleftrightarrow> encryption = Some ''app_secret''"

end
