(* ===== verification/Backup_Integrity.thy ===== *)
theory Backup_Integrity
  imports Backup_Encryption
begin

text \<open>
  Encrypted backups are read back as they were written, however the two streams are cut into chunks, and a stream that
  is accepted is a whole artifact: the interface of a buffered transform, the artifact as the frames of its plaintext, the
  decryption of an artifact, and the authenticity of what is accepted.
\<close>

section \<open>Buffered transforms\<close>

text \<open>
  A transform that appends its input to a buffer and drains what is complete. Its laws say that draining is not disturbed
  by bytes that follow; what it does then depends only on the bytes of the stream.
\<close>

locale buffered_transform =
  fixes add :: "bytes \<Rightarrow> 's \<Rightarrow> 's" and drain :: "'s \<Rightarrow> unit result \<times> 's"
  assumes add_Nil: "add [] s = s"
    and add_add: "add c (add b s) = add (b @ c) s"
    and drain_ok: "drain s = (Inr (), s1) \<Longrightarrow> drain (add c s) = drain (add c s1)"
    and drain_error: "drain s = (Inl e, s1) \<Longrightarrow> drain (add c s) = (Inl e, add c s1)"
begin

lemma drained: "drain s = (Inr (), s1) \<Longrightarrow> drain s1 = (Inr (), s1)"
  using drain_ok [of s s1 "[]"] by (simp add: add_Nil)

lemma feed_concat:
  assumes "drain s = (Inr (), s)" and "feed (\<lambda>c s. drain (add c s)) cs s = (r, s1)"
  shows "\<exists>rest. drain (add (concat cs) s) = (r, add rest s1) \<and> (r = Inr () \<longrightarrow> rest = [])"
  using assms
proof (induction cs arbitrary: s)
  case Nil
  then show ?case by (auto simp: add_Nil intro: exI [of _ "[]"])
next
  case (Cons c cs)
  show ?case
  proof (cases "drain (add c s)")
    case (Pair r' s2)
    note split = add_add [of "concat cs" c s, symmetric]
    show ?thesis
    proof (cases r')
      case (Inl e)
      have "drain (add (concat (c # cs)) s) = (Inl e, add (concat cs) s2)"
        using drain_error [of "add c s" e s2 "concat cs"] Pair Inl split by simp
      with Cons.prems(2) Pair Inl show ?thesis by auto
    next
      case (Inr u)
      then have "drain (add (concat (c # cs)) s) = drain (add (concat cs) s2)"
        using drain_ok [of "add c s" s2 "concat cs"] Pair split by simp
      with Cons.IH [OF drained] Cons.prems(2) Pair Inr show ?thesis by auto
    qed
  qed
qed

end

abbreviation more_plaintext :: "bytes \<Rightarrow> encryptor \<Rightarrow> encryptor" where
  "more_plaintext c s \<equiv> s\<lparr>es_buffer := es_buffer s @ c\<rparr>"

abbreviation more_input :: "bytes \<Rightarrow> decryptor \<Rightarrow> decryptor" where
  "more_input c s \<equiv> s\<lparr>de_buffer := de_buffer s @ c\<rparr>"

lemma pushFrame_more: "pushFrame P ivs p f (more_plaintext c s) = map_prod id (more_plaintext c) (pushFrame P ivs p f s)"
  by (simp add: pushFrame_def writeHeader_def Let_def split: sum.split)

lemma push_chunks_more:
  "push_chunks P ivs s = (r, s1) \<Longrightarrow>
     push_chunks P ivs (more_plaintext c s) = (case r of Inl e \<Rightarrow> (Inl e, more_plaintext c s1) | Inr _ \<Rightarrow> push_chunks P ivs (more_plaintext c s1))"
proof (induction P ivs s arbitrary: r s1 rule: push_chunks.induct)
  case (1 P ivs s)
  show ?case
  proof (cases "CHUNK_SIZE < length (es_buffer s)")
    case False
    then have "r = Inr ()" "s1 = s" using "1.prems" by (simp_all add: push_chunks.simps [of P ivs s])
    then show ?thesis by simp
  next
    case True
    obtain r' s2 where f: "pushFrame P ivs (take CHUNK_SIZE (es_buffer s)) False s = (r', s2)" by fastforce
    then have b: "es_buffer s2 = es_buffer s" by (rule pushFrame_buffer)
    have long: "CHUNK_SIZE < length (es_buffer (more_plaintext c s))" using True by simp
    have f': "pushFrame P ivs (take CHUNK_SIZE (es_buffer (more_plaintext c s))) False (more_plaintext c s) = (r', more_plaintext c s2)"
      using f True by (simp add: pushFrame_more)
    show ?thesis
    proof (cases r')
      case (Inl e)
      then have "r = Inl e" "s1 = s2" using "1.prems" True f by (simp_all add: push_chunks.simps [of P ivs s])
      then show ?thesis unfolding push_chunks.simps [of P ivs "more_plaintext c s"] using long f' Inl by simp
    next
      case (Inr u)
      have "push_chunks P ivs (more_plaintext c s) = push_chunks P ivs (more_plaintext c (s2\<lparr>es_buffer := drop CHUNK_SIZE (es_buffer s2)\<rparr>))"
        unfolding push_chunks.simps [of P ivs "more_plaintext c s"] using long f' Inr True b by simp
      then show ?thesis
        using "1.IH" [OF True f [symmetric] Inr] "1.prems" True f Inr by (simp add: push_chunks.simps [of P ivs s])
    qed
  qed
qed

definition encrypt_drain :: "platform \<Rightarrow> (nat \<Rightarrow> bytes) \<Rightarrow> encryptor \<Rightarrow> unit result \<times> encryptor" where
  "encrypt_drain P ivs s = (if es_finalized s then (Inl (PlainError ''Encrypted backup stream already finalized''), s) else push_chunks P ivs s)"

lemma push_chunks_open:
  "push_chunks P ivs s = (r, s1) \<Longrightarrow> \<not> es_finalized s \<Longrightarrow> \<not> es_finalized s1"
proof (induction P ivs s arbitrary: r s1 rule: push_chunks.induct)
  case (1 P ivs s)
  obtain r' s2 where f: "pushFrame P ivs (take CHUNK_SIZE (es_buffer s)) False s = (r', s2)" by fastforce
  then have "\<not> es_finalized s2" using "1.prems"(2) by (auto simp: pushFrame_def writeHeader_def Let_def split: sum.splits if_splits)
  then show ?case using "1.prems" "1.IH" [OF _ f [symmetric]] f
    by (auto simp: push_chunks.simps [of P ivs s] split: if_splits sum.splits)
qed

interpretation enc: buffered_transform more_plaintext "encrypt_drain P ivs" for P ivs
proof unfold_locales
  fix s s1 c assume "encrypt_drain P ivs s = (Inr (), s1)"
  then show "encrypt_drain P ivs (more_plaintext c s) = encrypt_drain P ivs (more_plaintext c s1)"
    using push_chunks_more [of P ivs s "Inr ()" s1 c] push_chunks_open [of P ivs s "Inr ()" s1] by (auto simp: encrypt_drain_def split: if_splits)
next
  fix s e s1 c assume "encrypt_drain P ivs s = (Inl e, s1)"
  then show "encrypt_drain P ivs (more_plaintext c s) = (Inl e, more_plaintext c s1)"
    using push_chunks_more [of P ivs s "Inl e" s1 c] by (auto simp: encrypt_drain_def split: if_splits)
qed simp_all

lemma read_uint32_append [simp]: "4 \<le> length b \<Longrightarrow> read_uint32 (b @ c) = read_uint32 b"
  by (cases b rule: read_uint32.cases) auto

lemma drain_frame_more:
  "drain_frame P h raw s = (r, s1) \<Longrightarrow> r \<noteq> Inr False \<Longrightarrow> drain_frame P h raw (more_input c s) = (r, more_input c s1)"
  by (auto simp: drain_frame_def Let_def FRAME_METADATA_BYTES_def IV_BYTES_def TAG_BYTES_def nth_append split: if_splits sum.splits)

lemma drain_frame_stop: "drain_frame P h raw s = (Inr False, s1) \<Longrightarrow> s1 = s"
  by (auto simp: drain_frame_def Let_def split: if_splits sum.splits)

lemma drain_loop_more:
  "drain_loop P h raw s = (r, s1) \<Longrightarrow>
     drain_loop P h raw (more_input c s) = (case r of Inl e \<Rightarrow> (Inl e, more_input c s1) | Inr _ \<Rightarrow> drain_loop P h raw (more_input c s1))"
proof (induction P h raw s arbitrary: r s1 rule: drain_loop.induct)
  case (1 P h raw s)
  obtain r' s2 where f: "drain_frame P h raw s = (r', s2)" by fastforce
  show ?case
  proof (cases "r' = Inr False")
    case True
    with f "1.prems" show ?thesis by (auto simp: drain_loop.simps [of P h raw s] dest: drain_frame_stop)
  next
    case False
    note f' = drain_frame_more [OF f False, of c]
    show ?thesis
    proof (cases r')
      case (Inl e)
      with f "1.prems" have "r = Inl e" "s1 = s2" by (simp_all add: drain_loop.simps [of P h raw s])
      with f' Inl show ?thesis by (simp add: drain_loop.simps [of P h raw "more_input c s"])
    next
      case (Inr again)
      with False have "r' = Inr True" by (cases again) auto
      with f f' "1.prems" "1.IH" [OF f [symmetric]] show ?thesis
        by (simp add: drain_loop.simps [of P h raw s] drain_loop.simps [of P h raw "more_input c s"])
    qed
  qed
qed

lemma drain_loop_header: "drain_loop P h raw s = (r, s1) \<Longrightarrow> de_header s1 = de_header s"
proof (induction P h raw s arbitrary: r s1 rule: drain_loop.induct)
  case (1 P h raw s)
  obtain r' s2 where f: "drain_frame P h raw s = (r', s2)" by fastforce
  then have "de_header s2 = de_header s" by (auto simp: drain_frame_def Let_def split: if_splits sum.splits)
  with f "1.prems" "1.IH" [OF f [symmetric]] show ?case
    by (auto simp: drain_loop.simps [of P h raw s] split: sum.splits if_splits)
qed

lemma drain_header_more:
  "drain_header P K s = (r, s1) \<Longrightarrow> de_header s = None \<Longrightarrow> r \<noteq> Inr () \<or> de_header s1 \<noteq> None \<Longrightarrow>
     drain_header P K (more_input c s) = (r, more_input c s1)"
  by (auto simp: drain_header_def Let_def split: if_splits sum.splits)

lemma drain_header_stop: "drain_header P K s = (Inr (), s1) \<Longrightarrow> de_header s1 = None \<Longrightarrow> s1 = s"
  by (auto simp: drain_header_def Let_def split: if_splits sum.splits)

lemma drainFrames_more:
  assumes "drainFrames P K s = (r, s1)"
  shows "drainFrames P K (more_input c s) = (case r of Inl e \<Rightarrow> (Inl e, more_input c s1) | Inr _ \<Rightarrow> drainFrames P K (more_input c s1))"
proof (cases "de_header s")
  case (Some hr)
  obtain h raw where hr: "hr = (h, raw)" by fastforce
  then have l: "drain_loop P h raw s = (r, s1)" using assms Some by (simp add: drainFrames_def)
  with drain_loop_header have "de_header s1 = Some (h, raw)" using Some hr by metis
  then show ?thesis using drain_loop_more [OF l, of c] Some hr by (cases r) (simp_all add: drainFrames_def)
next
  case None
  obtain r' s2 where d: "drain_header P K s = (r', s2)" by fastforce
  show ?thesis
  proof (cases "r' = Inr () \<and> de_header s2 = None")
    case True
    then have "s1 = s" "r = Inr ()" using assms None d drain_header_stop by (auto simp: drainFrames_def)
    then show ?thesis by simp
  next
    case False
    then have d': "drain_header P K (more_input c s) = (r', more_input c s2)" using drain_header_more [OF d None] by auto
    show ?thesis
    proof (cases r')
      case (Inl e)
      then show ?thesis using assms d d' None by (auto simp: drainFrames_def)
    next
      case (Inr u)
      with False obtain h raw where h: "de_header s2 = Some (h, raw)" by auto
      then have l: "drain_loop P h raw s2 = (r, s1)" using assms None d Inr by (simp add: drainFrames_def)
      with drain_loop_header h have "de_header s1 = Some (h, raw)" by metis
      then show ?thesis using drain_loop_more [OF l, of c] d' h Inr None by (cases r) (simp_all add: drainFrames_def)
    qed
  qed
qed

interpretation dec: buffered_transform more_input "drainFrames P K" for P K
  by unfold_locales (use drainFrames_more in fastforce)+

lemma decrypt_once:
  "decrypt_backup P K [b] = (case drainFrames P K (more_input b new_decryptor) of
     (Inl e, s) \<Rightarrow> (Inl e, de_out s) | (Inr _, s) \<Rightarrow> map_prod id de_out (decrypt_flush P K s))"
  by (auto simp: decrypt_backup_def stream_def decrypt_transform_def split: sum.split prod.split)

text \<open>The decrypting stream depends on the bytes of the backup only, not on the chunks they arrive in.\<close>

lemma decryption_of_bytes: "decrypt_backup P keyring chunks = decrypt_backup P keyring [concat chunks]"
proof -
  have start: "drainFrames P keyring new_decryptor = (Inr (), new_decryptor)"
    by (simp add: drainFrames_def drain_header_def new_decryptor_def Let_def)
  obtain r s where f: "feed (decrypt_transform P keyring) chunks new_decryptor = (r, s)" by fastforce
  then have "\<exists>rest. drainFrames P keyring (more_input (concat chunks) new_decryptor) = (r, more_input rest s) \<and> (r = Inr () \<longrightarrow> rest = [])"
    using dec.feed_concat [OF start] by (simp add: decrypt_transform_def [abs_def])
  then show ?thesis using f by (cases r) (auto simp: decrypt_once decrypt_backup_def [of P keyring chunks] stream_def)
qed

section \<open>Artifacts\<close>

definition frame_count :: "bytes \<Rightarrow> nat" where
  "frame_count p = (length p - 1) div CHUNK_SIZE + 1"

definition chunk :: "bytes \<Rightarrow> nat \<Rightarrow> bytes" where
  "chunk p i = take CHUNK_SIZE (drop (i * CHUNK_SIZE) p)"

definition frame_bytes :: "platform \<Rightarrow> (nat \<Rightarrow> bytes) \<Rightarrow> backup_key \<Rightarrow> bytes \<Rightarrow> bytes \<Rightarrow> nat \<Rightarrow> bool \<Rightarrow> bytes \<Rightarrow> bytes" where
  "frame_bytes P ivs key raw nonce i f p = projr (encryptFrame P (ivs i) p i f key raw nonce)"

lemma CHUNK_SIZE_pos [simp]: "0 < CHUNK_SIZE"
  by (simp add: CHUNK_SIZE_def)

lemma frame_count_pos: "0 < frame_count p"
  by (simp add: frame_count_def)

lemma concat_chunks: "concat (map (chunk p) [0..<n]) = take (n * CHUNK_SIZE) p"
proof (induction n)
  case (Suc n)
  have "take (Suc n * CHUNK_SIZE) p = take (n * CHUNK_SIZE) p @ chunk p n"
    unfolding chunk_def take_add [symmetric] by (simp add: add.commute)
  with Suc show ?case by simp
qed simp

lemma whole: "length p \<le> frame_count p * CHUNK_SIZE"
proof (cases "length p")
  case (Suc n)
  have "n < (n div CHUNK_SIZE + 1) * CHUNK_SIZE" using dividend_less_div_times [of CHUNK_SIZE n] by simp
  then show ?thesis by (simp add: frame_count_def Suc)
qed simp

lemma all_chunks: "concat (map (chunk p) [0..<frame_count p]) = p"
  using whole [of p] by (simp add: concat_chunks)

lemma chunk_drop: "chunk (drop CHUNK_SIZE p) i = chunk p (Suc i)"
  by (simp add: chunk_def add.commute)

lemma count_drop: "CHUNK_SIZE < length p \<Longrightarrow> (length p - 1) div CHUNK_SIZE = Suc ((length (drop CHUNK_SIZE p) - 1) div CHUNK_SIZE)"
  by (simp add: le_div_geq)

lemma write_uint32_ok: "n < 2 ^ 32 \<Longrightarrow> write_uint32 n = Inr [of_nat (n div 2 ^ 24), of_nat (n div 2 ^ 16), of_nat (n div 2 ^ 8), of_nat n]"
  by (simp add: write_uint32_def)

lemma write_uint32_iff: "write_uint32 n = Inr b \<longleftrightarrow> n < 2 ^ 32 \<and> b = [of_nat (n div 2 ^ 24), of_nat (n div 2 ^ 16), of_nat (n div 2 ^ 8), of_nat n]"
  by (auto simp: write_uint32_def)

lemma unat_byte: "unat (of_nat n :: byte) = n mod 256"
  by (simp add: unat_of_nat)

lemma four_bytes:
  "n = 256 * a + x \<Longrightarrow> a = 256 * b + y \<Longrightarrow> b = 256 * c + z \<Longrightarrow> c * 2 ^ 24 + z * 2 ^ 16 + y * 2 ^ 8 + x = (n :: nat)"
  by simp

lemma read_write_uint32: "write_uint32 n = Inr b \<Longrightarrow> length b = 4 \<and> read_uint32 (b @ c) = n"
proof -
  assume "write_uint32 n = Inr b"
  then have n: "n < 2 ^ 32" and b: "b = [of_nat (n div 2 ^ 24), of_nat (n div 2 ^ 16), of_nat (n div 2 ^ 8), of_nat n]"
    by (simp_all add: write_uint32_iff)
  have d: "n div 2 ^ 24 = n div 256 div 256 div 256" "n div 2 ^ 16 = n div 256 div 256" "n div 2 ^ 8 = n div 256"
    by (simp_all add: div_mult2_eq [symmetric])
  have "n div 256 div 256 div 256 < 256" using n unfolding d [symmetric] by (simp add: less_mult_imp_div_less)
  moreover have "n div 256 div 256 div 256 * 2 ^ 24 + n div 256 div 256 mod 256 * 2 ^ 16 + n div 256 mod 256 * 2 ^ 8 + n mod 256 = n"
    by (rule four_bytes [of n "n div 256" _ "n div 256 div 256" _ "n div 256 div 256 div 256"]) simp_all
  ultimately have "n div 256 div 256 div 256 mod 256 * 2 ^ 24 + n div 256 div 256 mod 256 * 2 ^ 16 + n div 256 mod 256 * 2 ^ 8 + n mod 256 = n"
    by simp
  then show ?thesis unfolding b d by (simp add: unat_byte del: unat_of_nat)
qed

text \<open>What the cipher promises: the ciphertext is as long as the plaintext, the tag has sixteen bytes, and opening undoes sealing.\<close>

definition sound_cipher :: "platform \<Rightarrow> bool" where
  "sound_cipher P \<longleftrightarrow> (\<forall>k iv aad p. length (fst (pl_seal P k iv aad p)) = length p \<and> length (snd (pl_seal P k iv aad p)) = TAG_BYTES
     \<and> pl_open P k iv aad (fst (pl_seal P k iv aad p)) (snd (pl_seal P k iv aad p)) = Some p)"

lemma chunk_length: "length (chunk p i) \<le> CHUNK_SIZE"
  by (simp add: chunk_def)

lemma encryptFrame_iff:
  assumes "sound_cipher P" and "length p \<le> CHUNK_SIZE"
  shows "encryptFrame P (ivs i) p i f key raw nonce =
    (if i < 2 ^ 32 then Inr (frame_bytes P ivs key raw nonce i f p) else Inl (CodedError ''ERR_OUT_OF_RANGE'' ''The value of \"value\" is out of range.''))"
proof (cases "i < 2 ^ 32")
  case True
  have "length (fst (pl_seal P k iv aad p)) < 2 ^ 32" for k iv aad
    using assms by (simp add: sound_cipher_def CHUNK_SIZE_def)
  then have "\<exists>b. encryptFrame P (ivs i) p i f key raw nonce = Inr b"
    using True by (simp add: encryptFrame_def frameAadV3_def frameMarker_def write_uint32_ok case_prod_beta)
  then show ?thesis using True by (auto simp: frame_bytes_def)
qed (simp add: encryptFrame_def frameAadV3_def frameMarker_def write_uint32_def)

lemma writeHeader_fields [simp]:
  "es_buffer (writeHeader s) = es_buffer s" "es_key (writeHeader s) = es_key s" "es_headerRaw (writeHeader s) = es_headerRaw s"
  "es_artifactNonce (writeHeader s) = es_artifactNonce s" "es_wroteHeader (writeHeader s)" "es_frameIndex (writeHeader s) = es_frameIndex s"
  by (simp_all add: writeHeader_def)

lemma writeHeader_out:
  "es_out (writeHeader (s\<lparr>es_buffer := b\<rparr>)) = es_out (writeHeader s)" "es_wroteHeader s \<Longrightarrow> es_out (writeHeader s) = es_out s"
  "\<not> es_wroteHeader s \<Longrightarrow> es_out (writeHeader s) = es_out s @ es_headerRaw s"
  by (simp_all add: writeHeader_def)

lemma chunk_0: "chunk p 0 = take CHUNK_SIZE p"
  by (simp add: chunk_def)

lemma pushFrame_ok:
  assumes "sound_cipher P" and "length p \<le> CHUNK_SIZE" and "es_frameIndex s < 2 ^ 32"
  shows "pushFrame P ivs p f s = (Inr (), (writeHeader s)\<lparr>es_out := es_out (writeHeader s)
      @ frame_bytes P ivs (es_key s) (es_headerRaw s) (es_artifactNonce s) (es_frameIndex s) f p,
      es_frameIndex := es_frameIndex s + 1, es_finalized := f\<rparr>)"
  using assms by (auto simp: pushFrame_def Let_def encryptFrame_iff writeHeader_def)

lemma pushFrame_full:
  assumes "sound_cipher P" and "length p \<le> CHUNK_SIZE" and "2 ^ 32 \<le> es_frameIndex s"
  shows "\<exists>e s1. pushFrame P ivs p f s = (Inl e, s1)"
  using assms by (auto simp: pushFrame_def Let_def encryptFrame_iff writeHeader_def)

text \<open>The frames before the last one.\<close>

abbreviation frames :: "platform \<Rightarrow> (nat \<Rightarrow> bytes) \<Rightarrow> encryptor \<Rightarrow> bytes \<Rightarrow> nat \<Rightarrow> bytes" where
  "frames P ivs s p n \<equiv> concat (map (\<lambda>i. frame_bytes P ivs (es_key s) (es_headerRaw s) (es_artifactNonce s) (es_frameIndex s + i) False (chunk p i)) [0..<n])"

lemma frames_Suc:
  assumes "es_key s' = es_key s" "es_headerRaw s' = es_headerRaw s" "es_artifactNonce s' = es_artifactNonce s" "es_frameIndex s' = Suc (es_frameIndex s)"
  shows "frames P ivs s p (Suc n) = frame_bytes P ivs (es_key s) (es_headerRaw s) (es_artifactNonce s) (es_frameIndex s) False (chunk p 0)
     @ frames P ivs s' (drop CHUNK_SIZE p) n"
  unfolding upt_conv_Cons [OF zero_less_Suc] map_Suc_upt [symmetric] using assms by (simp add: comp_def chunk_drop)

lemma push_chunks_run:
  assumes "sound_cipher P" and "es_frameIndex s + (length (es_buffer s) - 1) div CHUNK_SIZE \<le> 2 ^ 32" and "\<not> es_finalized s"
  defines "n \<equiv> (length (es_buffer s) - 1) div CHUNK_SIZE"
  shows "\<exists>s1. push_chunks P ivs s = (Inr (), s1) \<and> es_key s1 = es_key s \<and> es_headerRaw s1 = es_headerRaw s
    \<and> es_artifactNonce s1 = es_artifactNonce s \<and> es_frameIndex s1 = es_frameIndex s + n \<and> es_buffer s1 = drop (n * CHUNK_SIZE) (es_buffer s)
    \<and> es_out (writeHeader s1) = es_out (writeHeader s) @ frames P ivs s (es_buffer s) n"
  using assms(2-3) unfolding n_def
proof (induction "length (es_buffer s)" arbitrary: s rule: less_induct)
  case less
  let ?n = "(length (es_buffer s) - 1) div CHUNK_SIZE"
  show ?case
  proof (cases "CHUNK_SIZE < length (es_buffer s)")
    case False
    then have "?n = 0" by (simp add: CHUNK_SIZE_def)
    with False show ?thesis by (simp add: push_chunks.simps [of P ivs s])
  next
    case True
    note n = count_drop [OF True]
    let ?s1 = "(writeHeader s)\<lparr>es_out := es_out (writeHeader s)
      @ frame_bytes P ivs (es_key s) (es_headerRaw s) (es_artifactNonce s) (es_frameIndex s) False (take CHUNK_SIZE (es_buffer s)),
      es_frameIndex := es_frameIndex s + 1, es_finalized := False, es_buffer := drop CHUNK_SIZE (es_buffer s)\<rparr>"
    have room: "es_frameIndex s < 2 ^ 32" using less.prems(1) n by simp
    have step: "push_chunks P ivs s = push_chunks P ivs ?s1"
      using True by (simp add: push_chunks.simps [of P ivs s] pushFrame_ok [OF assms(1) _ room])
    have "length (es_buffer ?s1) < length (es_buffer s)" using True by (simp add: CHUNK_SIZE_def)
    note IH = less.hyps [OF this]
    have "frames P ivs s (es_buffer s) (Suc m) = frame_bytes P ivs (es_key s) (es_headerRaw s) (es_artifactNonce s) (es_frameIndex s) False
        (chunk (es_buffer s) 0) @ frames P ivs ?s1 (drop CHUNK_SIZE (es_buffer s)) m" for m
      by (rule frames_Suc) simp_all
    with IH less.prems(1) n show ?thesis unfolding step n by (auto simp: chunk_0 writeHeader_out(1,2) add.commute [of CHUNK_SIZE] simp del: upt_Suc)
  qed
qed

lemma push_chunks_overflow:
  assumes "sound_cipher P" and "es_frameIndex s \<le> 2 ^ 32" and "2 ^ 32 < es_frameIndex s + (length (es_buffer s) - 1) div CHUNK_SIZE"
  shows "\<exists>e s1. push_chunks P ivs s = (Inl e, s1)"
  using assms(2-3)
proof (induction "length (es_buffer s)" arbitrary: s rule: less_induct)
  case less
  have long: "CHUNK_SIZE < length (es_buffer s)"
  proof (rule ccontr)
    assume "\<not> ?thesis"
    then have "(length (es_buffer s) - 1) div CHUNK_SIZE = 0" by (simp add: CHUNK_SIZE_def)
    with less.prems show False by simp
  qed
  note n = count_drop [OF long]
  show ?case
  proof (cases "es_frameIndex s < 2 ^ 32")
    case False
    then obtain e s1 where "pushFrame P ivs (take CHUNK_SIZE (es_buffer s)) False s = (Inl e, s1)"
      using pushFrame_full [OF assms(1), of "take CHUNK_SIZE (es_buffer s)" s ivs False] by auto
    with long show ?thesis by (simp add: push_chunks.simps [of P ivs s])
  next
    case True
    obtain s1 where s1: "push_chunks P ivs s = push_chunks P ivs s1" "es_buffer s1 = drop CHUNK_SIZE (es_buffer s)" "es_frameIndex s1 = es_frameIndex s + 1"
      using long pushFrame_ok [OF assms(1) _ True, of "take CHUNK_SIZE (es_buffer s)" ivs False]
      by (simp add: push_chunks.simps [of P ivs s] writeHeader_def)
    have "\<exists>e t. push_chunks P ivs s1 = (Inl e, t)"
      by (rule less.hyps) (use s1 long n less.prems True in \<open>auto simp: CHUNK_SIZE_def\<close>)
    with s1(1) show ?thesis by simp
  qed
qed

lemma feed_open:
  "\<not> es_finalized s \<Longrightarrow> feed (encrypt_transform P ivs) cs s = feed (\<lambda>c s. encrypt_drain P ivs (more_plaintext c s)) cs s"
proof (induction cs arbitrary: s)
  case (Cons c cs)
  obtain r s1 where p: "push_chunks P ivs (more_plaintext c s) = (r, s1)" by fastforce
  with Cons.prems have "\<not> es_finalized s1" by (auto dest: push_chunks_open)
  with Cons.IH Cons.prems p show ?case by (auto simp: encrypt_transform_def encrypt_drain_def split: sum.split)
qed simp

lemma encrypt_once:
  assumes "new_encryptor K nonce = Inr s"
  shows "encrypt_backup P ivs K nonce chunks = (case push_chunks P ivs (more_plaintext (concat chunks) s) of
     (Inl e, s1) \<Rightarrow> (Inl e, es_out s1) | (Inr _, s1) \<Rightarrow> map_prod id es_out (encrypt_flush P ivs s1))"
proof -
  have s: "\<not> es_finalized s" "es_buffer s = []" using assms by (auto simp: new_encryptor_def guard_simps)
  then have start: "encrypt_drain P ivs s = (Inr (), s)" by (simp add: encrypt_drain_def push_chunks.simps)
  obtain r s1 where f: "feed (encrypt_transform P ivs) chunks s = (r, s1)" by fastforce
  then have "\<exists>rest. encrypt_drain P ivs (more_plaintext (concat chunks) s) = (r, more_plaintext rest s1) \<and> (r = Inr () \<longrightarrow> rest = [])"
    using enc.feed_concat [OF start] s(1) by (simp add: feed_open)
  then show ?thesis using f s assms by (cases r) (auto simp: encrypt_backup_def stream_def encrypt_drain_def)
qed

definition artifact_bytes :: "platform \<Rightarrow> (nat \<Rightarrow> bytes) \<Rightarrow> backup_key \<Rightarrow> bytes \<Rightarrow> bytes \<Rightarrow> bytes \<Rightarrow> bytes" where
  "artifact_bytes P ivs key raw nonce p = raw
     @ concat (map (\<lambda>i. frame_bytes P ivs key raw nonce i (i + 1 = frame_count p) (chunk p i)) [0..<frame_count p])"

lemma last_chunk: "drop ((length p - 1) div CHUNK_SIZE * CHUNK_SIZE) p = chunk p ((length p - 1) div CHUNK_SIZE)"
  using whole [of p] by (simp add: chunk_def frame_count_def)

lemma frames_before_last:
  "concat (map (\<lambda>i. frame_bytes P ivs key raw nonce i (i = n) (chunk p i)) [0..<n])
     = concat (map (\<lambda>i. frame_bytes P ivs key raw nonce i False (chunk p i)) [0..<n])"
  by (intro arg_cong [of _ _ concat] map_cong) auto

lemma encrypt_artifact:
  assumes "sound_cipher P" and "headerBytes (kr_activeKey K) nonce = Inr raw" and "frame_count (concat chunks) \<le> 2 ^ 32"
  shows "encrypt_backup P ivs K nonce chunks = (Inr (), artifact_bytes P ivs (kr_activeKey K) raw nonce (concat chunks))"
proof -
  let ?p = "concat chunks" let ?n = "(length ?p - 1) div CHUNK_SIZE" let ?k = "kr_activeKey K"
  obtain s where s: "new_encryptor K nonce = Inr s" "es_buffer s = []" "es_key s = ?k" "es_headerRaw s = raw" "es_artifactNonce s = nonce"
    "es_frameIndex s = 0" "\<not> es_finalized s" "es_out (writeHeader s) = raw"
    using assms(2) by (simp add: new_encryptor_def writeHeader_out)
  let ?s = "more_plaintext ?p s"
  obtain s1 where s1: "push_chunks P ivs ?s = (Inr (), s1)" "es_key s1 = ?k" "es_headerRaw s1 = raw" "es_artifactNonce s1 = nonce"
    "es_frameIndex s1 = ?n" "es_buffer s1 = chunk ?p ?n"
    "es_out (writeHeader s1) = raw @ concat (map (\<lambda>i. frame_bytes P ivs ?k raw nonce i False (chunk ?p i)) [0..<?n])"
    using push_chunks_run [OF assms(1), of ?s ivs] assms(3) s last_chunk [of ?p] by (auto simp: frame_count_def writeHeader_out(1))
  have "?n < 2 ^ 32" using assms(3) by (simp add: frame_count_def)
  then have "encrypt_flush P ivs s1 = (Inr (), (writeHeader s1)\<lparr>es_out := es_out (writeHeader s1) @ frame_bytes P ivs ?k raw nonce ?n True (chunk ?p ?n),
      es_frameIndex := ?n + 1, es_finalized := True, es_buffer := []\<rparr>)"
    using pushFrame_ok [OF assms(1) chunk_length, of s1] s1 by (simp add: encrypt_flush_def)
  then show ?thesis
    using s1 by (simp add: encrypt_once [OF s(1)] artifact_bytes_def frame_count_def frames_before_last)
qed

lemma frame_count_le: "frame_count p \<le> 2 ^ 32 \<longleftrightarrow> length p \<le> 2 ^ 48"
  unfolding frame_count_def CHUNK_SIZE_def by (cases "length p") (auto simp: less_eq_Suc_le [symmetric] div_less_iff_less_mult)

section \<open>Reading an artifact\<close>

lemma frame_layout:
  assumes "sound_cipher P" and "length p \<le> CHUNK_SIZE" and "i < 2 ^ 32"
  obtains len idx aad ct tag where "frame_bytes P ivs key raw nonce i f p = len @ idx @ [flag_byte f] @ ivs i @ tag @ ct"
    "length len = 4" "length idx = 4" "\<And>c. read_uint32 (len @ c) = length ct" "\<And>c. read_uint32 (idx @ c) = i" "length ct = length p"
    "length tag = TAG_BYTES" "frameAadV3 raw nonce i f = Inr aad" "pl_open P (bk_key key) (ivs i) aad ct tag = Some p"
proof -
  obtain idx where idx: "write_uint32 i = Inr idx" using assms(3) by (simp add: write_uint32_ok)
  let ?aad = "raw @ nonce @ idx @ [flag_byte f]"
  obtain ct tag where seal: "pl_seal P (bk_key key) (ivs i) ?aad p = (ct, tag)" by fastforce
  have c: "length ct = length p" "length tag = TAG_BYTES" "pl_open P (bk_key key) (ivs i) ?aad ct tag = Some p"
    using assms(1) [unfolded sound_cipher_def, rule_format, of "bk_key key" "ivs i" ?aad p] seal by auto
  then have "length ct < 2 ^ 32" using assms(2) by (simp add: CHUNK_SIZE_def)
  then obtain len where len: "write_uint32 (length ct) = Inr len" by (simp add: write_uint32_ok)
  have aad: "frameAadV3 raw nonce i f = Inr ?aad" by (simp add: frameAadV3_def frameMarker_def idx)
  then have "frame_bytes P ivs key raw nonce i f p = len @ idx @ [flag_byte f] @ ivs i @ tag @ ct"
    by (simp add: frame_bytes_def encryptFrame_def seal len idx)
  with that c aad read_write_uint32 [OF len] read_write_uint32 [OF idx] show thesis by blast
qed

definition own_header :: "backup_key \<Rightarrow> bytes \<Rightarrow> parsed_header" where
  "own_header key nonce = \<lparr>ph_version = V3, ph_key = key, ph_artifactNonce = Some nonce\<rparr>"

lemma frame_slices:
  fixes len idx iv tag ct rest :: bytes and x :: byte
  assumes "length len = 4" "length idx = 4" "length iv = IV_BYTES" "length tag = TAG_BYTES"
  defines "b \<equiv> len @ idx @ [x] @ iv @ tag @ ct @ rest"
  shows "drop 4 b = idx @ [x] @ iv @ tag @ ct @ rest" "b ! 8 = x" "drop 9 (take (9 + IV_BYTES) b) = iv"
    "drop (9 + IV_BYTES) (take (9 + IV_BYTES + TAG_BYTES) b) = tag"
    "drop (9 + IV_BYTES + TAG_BYTES) (take (FRAME_METADATA_BYTES + length ct) b) = ct"
    "drop (FRAME_METADATA_BYTES + length ct) b = rest" "length b = FRAME_METADATA_BYTES + length ct + length rest"
proof -
  have d: "drop 37 b = ct @ rest" using assms by (simp add: IV_BYTES_def TAG_BYTES_def)
  then show "drop (9 + IV_BYTES + TAG_BYTES) (take (FRAME_METADATA_BYTES + length ct) b) = ct"
    by (simp add: drop_take FRAME_METADATA_BYTES_def IV_BYTES_def TAG_BYTES_def)
  have "drop (37 + length ct) b = drop (length ct) (drop 37 b)" by (simp add: add.commute)
  then show "drop (FRAME_METADATA_BYTES + length ct) b = rest"
    using d by (simp add: FRAME_METADATA_BYTES_def IV_BYTES_def TAG_BYTES_def)
qed (use assms in \<open>simp_all add: IV_BYTES_def TAG_BYTES_def FRAME_METADATA_BYTES_def nth_append drop_take\<close>)

lemma drain_frame_opened:
  assumes "length len = 4" "length idx = 4" "length iv = IV_BYTES" "length tag = TAG_BYTES" "length ct \<le> MAX_FRAME_SIZE"
    and "read_uint32 len = length ct" and "read_uint32 idx = de_expectedFrameIndex s" and "\<not> de_finalFrameSeen s"
    and "de_buffer s = len @ idx @ [flag_byte f] @ iv @ tag @ ct @ rest"
    and "frameAad h raw (de_expectedFrameIndex s) f = Inr aad" and "pl_open P (bk_key (ph_key h)) iv aad ct tag = Some p"
  shows "drain_frame P h raw s = (Inr True, s\<lparr>de_out := de_out s @ p, de_expectedFrameIndex := de_expectedFrameIndex s + 1,
    de_finalFrameSeen := f, de_buffer := rest\<rparr>)"
proof -
  let ?b = "len @ idx @ [flag_byte f] @ iv @ tag @ ct @ rest"
  note sl = frame_slices [OF assms(1-4), where x = "flag_byte f" and ct = ct and rest = rest]
  have n: "read_uint32 ?b = length ct" using assms(1,6) by simp
  have i: "read_uint32 (drop 4 ?b) = de_expectedFrameIndex s" using assms(2,7) unfolding sl(1) by simp
  have flag: "flag_byte f = 0 \<or> flag_byte f = 1" "flag_byte f = 1 \<longleftrightarrow> f" by (auto simp: flag_byte_def)
  have "decryptFrame P iv tag ct (de_expectedFrameIndex s) f h raw = Inr p" using assms(10,11) by (simp add: decryptFrame_def)
  then show ?thesis
    unfolding drain_frame_def Let_def assms(9) n i sl using assms(2,5,7,8) flag by (simp add: FRAME_METADATA_BYTES_def)
qed

lemma drain_frame_own:
  assumes "sound_cipher P" and "length p \<le> CHUNK_SIZE" and "i < 2 ^ 32" and "length (ivs i) = IV_BYTES"
    and "de_buffer s = frame_bytes P ivs key raw nonce i f p @ rest" and "de_expectedFrameIndex s = i" and "\<not> de_finalFrameSeen s"
  shows "drain_frame P (own_header key nonce) raw s = (Inr True, s\<lparr>de_out := de_out s @ p, de_expectedFrameIndex := i + 1,
    de_finalFrameSeen := f, de_buffer := rest\<rparr>)"
proof -
  obtain len idx aad ct tag where l: "frame_bytes P ivs key raw nonce i f p = len @ idx @ [flag_byte f] @ ivs i @ tag @ ct"
    "length len = 4" "length idx = 4" "\<And>c. read_uint32 (len @ c) = length ct" "\<And>c. read_uint32 (idx @ c) = i" "length ct = length p"
    "length tag = TAG_BYTES" "frameAadV3 raw nonce i f = Inr aad" "pl_open P (bk_key key) (ivs i) aad ct tag = Some p"
    by (rule frame_layout [OF assms(1-3), of ivs key raw nonce f]) blast
  have "frameAad (own_header key nonce) raw i f = Inr aad" using l(8) by (simp add: frameAad_def frameAadV3_def own_header_def)
  with drain_frame_opened [OF l(2,3) assms(4) l(7), of ct s f rest "own_header key nonce" raw aad P p] assms(2,5-7) l
  show ?thesis using l(4) [of "[]"] l(5) [of "[]"] by (simp add: own_header_def CHUNK_SIZE_def MAX_FRAME_SIZE_def)
qed

lemma drain_loop_rounds:
  "drain_frame P h raw s = (Inr True, s1) \<Longrightarrow> drain_loop P h raw s = drain_loop P h raw s1"
  "drain_frame P h raw s = (Inr False, s1) \<Longrightarrow> drain_loop P h raw s = (Inr (), s1)"
  by (simp_all add: drain_loop.simps [of P h raw s])

lemma drain_loop_own:
  assumes "sound_cipher P" and "n \<le> 2 ^ 32" and "\<forall>j. length (ivs j) = IV_BYTES" and "i < n"
    and "de_buffer s = concat (map (\<lambda>j. frame_bytes P ivs key raw nonce j (j + 1 = n) (chunk p j)) [i..<n])"
    and "de_expectedFrameIndex s = i" and "\<not> de_finalFrameSeen s"
  shows "drain_loop P (own_header key nonce) raw s = (Inr (), s\<lparr>de_out := de_out s @ concat (map (chunk p) [i..<n]),
    de_expectedFrameIndex := n, de_finalFrameSeen := True, de_buffer := []\<rparr>)"
  using assms(4-7)
proof (induction "n - i" arbitrary: i s rule: less_induct)
  case less
  let ?s1 = "s\<lparr>de_out := de_out s @ chunk p i, de_expectedFrameIndex := i + 1, de_finalFrameSeen := (i + 1 = n),
    de_buffer := concat (map (\<lambda>j. frame_bytes P ivs key raw nonce j (j + 1 = n) (chunk p j)) [i + 1..<n])\<rparr>"
  have "drain_frame P (own_header key nonce) raw s = (Inr True, ?s1)"
    by (rule drain_frame_own [OF assms(1) chunk_length]) (use less.prems assms(2,3) in \<open>auto simp: upt_conv_Cons\<close>)
  note step = drain_loop_rounds(1) [OF this]
  show ?case
  proof (cases "i + 1 = n")
    case True
    then have "drain_frame P (own_header key nonce) raw ?s1 = (Inr False, ?s1)" by (simp add: drain_frame_def Let_def)
    with True less.prems step show ?thesis by (simp add: drain_loop_rounds(2) upt_conv_Cons)
  next
    case False
    with less.prems have "i + 1 < n" by simp
    with less.hyps [of "i + 1" ?s1] less.prems False step show ?thesis by (simp add: upt_conv_Cons)
  qed
qed

lemma drain_own_header:
  assumes "write_uint32 (length text) = Inr len" and "length text \<le> MAX_FRAME_SIZE" and "parseHeader P K text = Inr h"
  shows "drain_header P K (more_input ((MAGIC @ len @ text) @ rest) new_decryptor)
    = (Inr (), new_decryptor\<lparr>de_header := Some (h, MAGIC @ len @ text), de_buffer := rest\<rparr>)"
  using read_write_uint32 [OF assms(1)] assms(2,3) by (simp add: drain_header_def new_decryptor_def Let_def)

lemma decrypt_ok:
  assumes "drainFrames P K (more_input b new_decryptor) = (Inr (), s)" and "de_header s \<noteq> None" "de_buffer s = []" "de_finalFrameSeen s"
  shows "decrypt_backup P K [b] = (Inr (), de_out s)"
  using assms dec.drained [OF assms(1)] by (simp add: decrypt_once decrypt_flush_def)

lemma decrypt_artifact:
  assumes "sound_cipher P" and "frame_count p \<le> 2 ^ 32" and "\<forall>j. length (ivs j) = IV_BYTES"
    and "write_uint32 (length text) = Inr len" and "length text \<le> MAX_FRAME_SIZE"
    and "parseHeader P K text = Inr (own_header key nonce)"
  shows "decrypt_backup P K [artifact_bytes P ivs key (MAGIC @ len @ text) nonce p] = (Inr (), p)"
proof -
  let ?raw = "MAGIC @ len @ text" let ?b = "artifact_bytes P ivs key ?raw nonce p"
  let ?fs = "concat (map (\<lambda>j. frame_bytes P ivs key ?raw nonce j (j + 1 = frame_count p) (chunk p j)) [0..<frame_count p])"
  let ?s = "new_decryptor\<lparr>de_header := Some (own_header key nonce, ?raw), de_buffer := ?fs\<rparr>"
  have h: "drain_header P K (more_input ?b new_decryptor) = (Inr (), ?s)"
    unfolding artifact_bytes_def by (rule drain_own_header [OF assms(4-6)])
  let ?t = "?s\<lparr>de_out := p, de_expectedFrameIndex := frame_count p, de_finalFrameSeen := True, de_buffer := []\<rparr>"
  have "drain_loop P (own_header key nonce) ?raw ?s = (Inr (), ?t)"
    using drain_loop_own [OF assms(1-3), of 0 ?s key ?raw nonce p] by (simp add: new_decryptor_def all_chunks frame_count_pos)
  then have "drainFrames P K (more_input ?b new_decryptor) = (Inr (), ?t)"
    using h by (simp add: drainFrames_def new_decryptor_def)
  then show ?thesis by (rule decrypt_ok [THEN trans]) simp_all
qed

section \<open>Keys and headers\<close>

lemma configured_keys_fingerprints:
  "configured_keys P entries = Inr keys \<Longrightarrow> \<forall>k\<in>set keys. bk_fingerprint k = keyFingerprint P (bk_key k)"
  by (induction entries arbitrary: keys)
    (auto simp: guard_simps configuredKey_def Let_def split: option.splits if_splits)

lemma index_keys_members:
  "index_keys keys (byId, byFp) = Inr (byId', byFp') \<Longrightarrow> (i, k) \<in> set byId' \<Longrightarrow> (i, k) \<in> set byId \<or> k \<in> set keys \<and> i = bk_id k"
proof (induction keys arbitrary: byId byFp)
  case (Cons key keys)
  from Cons.prems Cons.IH [of "byId @ [(bk_id key, key)]"] show ?case by (auto split: if_splits)
qed simp

text \<open>The active key of a keyring has a name of the pattern and the fingerprint of its bytes.\<close>

lemma active_key:
  assumes "parseBackupEncryptionKeyring P appSecretKey configuredKeys activeKeyId = Inr K"
  shows "KEY_ID_PATTERN (bk_id (kr_activeKey K))" "length (bk_fingerprint (kr_activeKey K)) \<le> 16"
    "map_of (kr_keysById K) (bk_id (kr_activeKey K)) = Some (kr_activeKey K)"
proof -
  obtain entries keys byFp i where k: "configured_keys P entries = Inr keys"
    and ix: "index_keys (\<lparr>bk_id = ''app_secret'', bk_key = appSecretKey, bk_fingerprint = keyFingerprint P appSecretKey\<rparr> # keys) ([], [])
      = Inr (kr_keysById K, byFp)"
    and i: "KEY_ID_PATTERN i" "map_of (kr_keysById K) i = Some (kr_activeKey K)"
    using assms unfolding parseBackupEncryptionKeyring_def Let_def
    by (auto elim!: and_then_InrE simp del: index_keys.simps split_on.simps split: if_splits option.splits)
  have m: "i = bk_id (kr_activeKey K)" "bk_fingerprint (kr_activeKey K) = keyFingerprint P (bk_key (kr_activeKey K))"
    using index_keys_members [OF ix map_of_SomeD [OF i(2)]] configured_keys_fingerprints [OF k] by auto
  with i show "KEY_ID_PATTERN (bk_id (kr_activeKey K))" "map_of (kr_keysById K) (bk_id (kr_activeKey K)) = Some (kr_activeKey K)" by simp_all
  show "length (bk_fingerprint (kr_activeKey K)) \<le> 16" unfolding m(2) keyFingerprint_def by simp
qed

lemma length_utf8: "length (utf8 s) \<le> 2 * length s"
  by (induction s) (auto simp: utf8_def utf8_char_def Let_def)

lemma length_json_string: "length (json_string s) \<le> 6 * length s + 2"
proof -
  have "length (concat (map json_char s)) \<le> 6 * length s" by (induction s) (auto simp: json_char_def)
  then show ?thesis by (simp add: json_string_def)
qed

lemma length_base64url: "length (base64url b) \<le> 2 * length b"
  by (induction b rule: base64url.induct) auto

lemma show_chunk_size: "length (show_int (int CHUNK_SIZE)) = 5" "length (show_int 3) = 1"
  by (simp_all add: show_int_def CHUNK_SIZE_def show_nat.simps [of 65536] show_nat.simps [of 6553] show_nat.simps [of 655]
      show_nat.simps [of 65] show_nat.simps [of 6] show_nat.simps [of 3])

lemma header_length:
  assumes "KEY_ID_PATTERN (bk_id key)" and "length (bk_fingerprint key) \<le> 16" and "length nonce = ARTIFACT_NONCE_BYTES"
  shows "length (utf8 (json_text (header_json key nonce))) \<le> 4000"
proof -
  have "length (bk_id key) \<le> 64" using assms(1) by (simp add: KEY_ID_PATTERN_def)
  then have "length (json_string (bk_id key)) \<le> 386" using length_json_string [of "bk_id key"] by simp
  moreover have "length (json_string (bk_fingerprint key)) \<le> 98" using length_json_string [of "bk_fingerprint key"] assms(2) by simp
  moreover have "length (json_string (base64url nonce)) \<le> 194"
    using length_json_string [of "base64url nonce"] length_base64url [of nonce] assms(3) by (simp add: ARTIFACT_NONCE_BYTES_def)
  moreover have "length (json_string ''version'') \<le> 44" "length (json_string ''algorithm'') \<le> 56" "length (json_string ''keySource'') \<le> 56"
    "length (json_string ''keyId'') \<le> 32" "length (json_string ''keyFingerprint'') \<le> 86" "length (json_string ''chunkSize'') \<le> 56"
    "length (json_string ''artifactNonce'') \<le> 80" "length (json_string ALGORITHM) \<le> 116" "length (json_string ''keyring'') \<le> 44"
    unfolding ALGORITHM_def by (rule order_trans [OF length_json_string], simp)+
  ultimately have "length (json_text (header_json key nonce)) \<le> 2000"
    by (simp add: header_json_def show_chunk_size)
  then show ?thesis using length_utf8 [of "json_text (header_json key nonce)"] by simp
qed

lemma parse_own_header:
  assumes "pl_parse P text = Some (header_json key nonce)" and "pl_base64url_decode P (base64url nonce) = nonce"
    and "length nonce = ARTIFACT_NONCE_BYTES" and "KEY_ID_PATTERN (bk_id key)" and "map_of (kr_keysById K) (bk_id key) = Some key"
  shows "parseHeader P K text = Inr (own_header key nonce)"
  using assms by (simp add: parseHeader_def header_json_def Let_def get_prop_def parse_v3_def tested_text_def keyed_def own_header_def)

text \<open>
  C31: An encrypted backup is read back as it was written. With a cipher that opens what it sealed and a parser that
  reads the header it is given, every backup of at most 2^48 bytes is encrypted, and decrypting the result with a keyring
  that still holds the key gives the plaintext back, however both streams are cut into chunks and whichever key is active
  by then.
\<close>

theorem backup_roundtrip:
  assumes "sound_cipher P" and "\<forall>j. length (ivs j) = IV_BYTES" and "length nonce = ARTIFACT_NONCE_BYTES"
    and "parseBackupEncryptionKeyring P appSecretKey configuredKeys activeKeyId = Inr K"
    and "pl_parse P (utf8 (json_text (header_json (kr_activeKey K) nonce))) = Some (header_json (kr_activeKey K) nonce)"
    and "pl_base64url_decode P (base64url nonce) = nonce"
    and "map_of (kr_keysById K') (bk_id (kr_activeKey K)) = Some (kr_activeKey K)"
    and "length (concat chunks) \<le> 2 ^ 48"
  shows "\<exists>c. encrypt_backup P ivs K nonce chunks = (Inr (), c) \<and> (\<forall>cs. concat cs = c \<longrightarrow> decrypt_backup P K' cs = (Inr (), concat chunks))"
proof -
  note key = active_key [OF assms(4)]
  let ?text = "utf8 (json_text (header_json (kr_activeKey K) nonce))"
  note short = header_length [OF key(1,2) assms(3)]
  then obtain len where len: "write_uint32 (length ?text) = Inr len" by (simp add: write_uint32_ok)
  have "headerBytes (kr_activeKey K) nonce = Inr (MAGIC @ len @ ?text)" by (simp add: headerBytes_def Let_def len)
  then have "encrypt_backup P ivs K nonce chunks = (Inr (), artifact_bytes P ivs (kr_activeKey K) (MAGIC @ len @ ?text) nonce (concat chunks))"
    by (rule encrypt_artifact [OF assms(1) _ iffD2 [OF frame_count_le assms(8)]])
  moreover have "decrypt_backup P K' cs = (Inr (), concat chunks)"
    if "concat cs = artifact_bytes P ivs (kr_activeKey K) (MAGIC @ len @ ?text) nonce (concat chunks)" for cs
    unfolding decryption_of_bytes [of P K' cs] that
    by (rule decrypt_artifact [OF assms(1) iffD2 [OF frame_count_le assms(8)] assms(2) len])
      (use assms short parse_own_header key(1) in \<open>simp_all add: MAX_FRAME_SIZE_def\<close>)
  ultimately show ?thesis by blast
qed

text \<open>
  C32: The frame counter bounds the size of a backup: the encrypting stream ends well exactly when the plaintext has at
  most 2^48 bytes, and beyond that it ends in an error instead of reusing a frame number.
\<close>

theorem backup_size_limit:
  assumes "sound_cipher P" and "length nonce = ARTIFACT_NONCE_BYTES"
    and "parseBackupEncryptionKeyring P appSecretKey configuredKeys activeKeyId = Inr K"
  shows "fst (encrypt_backup P ivs K nonce chunks) = Inr () \<longleftrightarrow> length (concat chunks) \<le> 2 ^ 48"
proof -
  note key = active_key [OF assms(3)]
  have "length (utf8 (json_text (header_json (kr_activeKey K) nonce))) < 2 ^ 32" using header_length [OF key(1,2) assms(2)] by simp
  then obtain raw where raw: "headerBytes (kr_activeKey K) nonce = Inr raw" by (simp add: headerBytes_def Let_def write_uint32_ok)
  then obtain s where s: "new_encryptor K nonce = Inr s" "es_buffer s = []" "es_frameIndex s = 0" "\<not> es_finalized s"
    by (simp add: new_encryptor_def)
  let ?s = "more_plaintext (concat chunks) s" let ?n = "(length (concat chunks) - 1) div CHUNK_SIZE"
  have "\<exists>e t. encrypt_backup P ivs K nonce chunks = (Inl e, t)" if "\<not> frame_count (concat chunks) \<le> 2 ^ 32"
  proof (cases "?n = 2 ^ 32")
    case True
    then obtain s1 where s1: "push_chunks P ivs ?s = (Inr (), s1)" "2 ^ 32 \<le> es_frameIndex s1" "es_buffer s1 = chunk (concat chunks) ?n"
      using push_chunks_run [OF assms(1), of ?s ivs] s last_chunk [of "concat chunks"] by auto
    then have "length (es_buffer s1) \<le> CHUNK_SIZE" by (simp add: chunk_length)
    from pushFrame_full [OF assms(1) this s1(2), of ivs True] s1(1) show ?thesis
      by (auto simp: encrypt_once [OF s(1)] encrypt_flush_def)
  next
    case False
    then have "2 ^ 32 < es_frameIndex ?s + (length (es_buffer ?s) - 1) div CHUNK_SIZE" using that s by (simp add: frame_count_def)
    then show ?thesis using push_chunks_overflow [OF assms(1), of ?s ivs] s by (auto simp: encrypt_once [OF s(1)])
  qed
  with encrypt_artifact [OF assms(1) raw, of chunks ivs] show ?thesis unfolding frame_count_le [symmetric] by force
qed

section \<open>Authenticity\<close>

text \<open>
  An artifact the system wrote, and what it sealed: one call of the cipher per frame, as in \<open>encryptFrame\<close>. The cipher is
  unforgeable for the keys of a keyring when it opens under them only what was sealed for an artifact.
\<close>

record artifact =
  ar_key :: backup_key
  ar_nonce :: bytes
  ar_ivs :: "nat \<Rightarrow> bytes"
  ar_plain :: bytes

definition sealed :: "artifact \<Rightarrow> bytes \<Rightarrow> bytes \<Rightarrow> bytes \<Rightarrow> bytes \<Rightarrow> bool" where
  "sealed a key iv aad p \<longleftrightarrow> key = bk_key (ar_key a) \<and> (\<exists>i<frame_count (ar_plain a). iv = ar_ivs a i \<and> p = chunk (ar_plain a) i
     \<and> and_then (headerBytes (ar_key a) (ar_nonce a)) (\<lambda>raw. frameAadV3 raw (ar_nonce a) i (i + 1 = frame_count (ar_plain a))) = Inr aad)"

definition keyring_keys :: "backup_keyring \<Rightarrow> bytes set" where
  "keyring_keys K = (bk_key \<circ> snd) ` (set (kr_keysById K) \<union> set (kr_keysByFingerprint K))"

definition unforgeable :: "platform \<Rightarrow> backup_keyring \<Rightarrow> artifact set \<Rightarrow> bool" where
  "unforgeable P K A \<longleftrightarrow> (\<forall>key\<in>keyring_keys K. \<forall>iv aad ct tag p. pl_open P key iv aad ct tag = Some p \<longrightarrow> (\<exists>a\<in>A. sealed a key iv aad p))"

lemma write_uint32_inj: "write_uint32 i = Inr b \<Longrightarrow> write_uint32 j = Inr b \<Longrightarrow> i = j"
  using read_write_uint32 by metis

lemma flag_byte_inj: "flag_byte f = flag_byte g \<longleftrightarrow> f = g"
  by (auto simp: flag_byte_def)

lemma frameMarker_length: "frameMarker i f = Inr m \<Longrightarrow> length m = 5"
  by (auto simp: frameMarker_def guard_simps dest: read_write_uint32)

lemma frameMarker_inj:
  assumes "frameMarker i f = Inr m" and "frameMarker j g = Inr m"
  shows "i = j \<and> f = g"
  using assms by (auto simp: frameMarker_def guard_simps flag_byte_inj dest: write_uint32_inj)

lemma frameAadV3_inj:
  assumes "frameAadV3 raw n i f = Inr aad" and "frameAadV3 raw' n' j g = Inr aad" and "length n = length n'"
  shows "n = n' \<and> i = j \<and> f = g"
proof -
  obtain m m' where m: "frameMarker i f = Inr m" "aad = raw @ n @ m" "frameMarker j g = Inr m'" "aad = raw' @ n' @ m'"
    using assms(1,2) by (auto simp: frameAadV3_def guard_simps)
  then have "m = m'" "n = n'" using assms(3) frameMarker_length [OF m(1)] frameMarker_length [OF m(3)] by auto
  with frameMarker_inj m(1,3) show ?thesis by blast
qed

definition proper_header :: "backup_keyring \<Rightarrow> parsed_header \<Rightarrow> bool" where
  "proper_header K h \<longleftrightarrow> bk_key (ph_key h) \<in> keyring_keys K
     \<and> (ph_version h = V3 \<longrightarrow> (\<exists>n. ph_artifactNonce h = Some n \<and> length n = ARTIFACT_NONCE_BYTES))"

lemma keyed_member: "keyed m v = Some key \<Longrightarrow> \<exists>i. (i, key) \<in> set m"
  by (auto simp: keyed_def bind_eq_Some_conv dest: map_of_SomeD)

lemma parseHeader_proper: "parseHeader P K text = Inr h \<Longrightarrow> proper_header K h"
  by (force simp: parseHeader_def parse_v2_def parse_v3_def proper_header_def keyring_keys_def Let_def
      split: option.splits json.splits if_splits dest: keyed_member)

text \<open>What was pushed so far is the beginning of one artifact, and the final frame is its last one.\<close>

definition authentic :: "artifact set \<Rightarrow> parsed_header \<Rightarrow> decryptor \<Rightarrow> bool" where
  "authentic A h s \<longleftrightarrow> de_expectedFrameIndex s = 0 \<and> de_out s = [] \<and> \<not> de_finalFrameSeen s
     \<or> (\<exists>a\<in>A. ph_artifactNonce h = Some (ar_nonce a) \<and> de_out s = take (de_expectedFrameIndex s * CHUNK_SIZE) (ar_plain a)
          \<and> (de_finalFrameSeen s \<longrightarrow> de_expectedFrameIndex s = frame_count (ar_plain a)))"

lemma drained_frame:
  assumes "drain_frame P h raw s = (Inr True, s1)"
  obtains iv tag ct f p where "decryptFrame P iv tag ct (de_expectedFrameIndex s) f h raw = Inr p" "de_out s1 = de_out s @ p"
    "de_expectedFrameIndex s1 = Suc (de_expectedFrameIndex s)" "de_finalFrameSeen s1 = f" "\<not> de_finalFrameSeen s"
  using assms by (auto simp: drain_frame_def Let_def split: if_splits sum.splits)

lemma opened_frame:
  assumes "unforgeable P K A" and "\<forall>a\<in>A. length (ar_nonce a) = ARTIFACT_NONCE_BYTES" and "proper_header K h"
    and "decryptFrame P iv tag ct i f h raw = Inr p"
  obtains a where "a \<in> A" "ph_artifactNonce h = Some (ar_nonce a)" "p = chunk (ar_plain a) i" "f \<longleftrightarrow> i + 1 = frame_count (ar_plain a)"
proof -
  obtain aad where aad: "frameAad h raw i f = Inr aad" "pl_open P (bk_key (ph_key h)) iv aad ct tag = Some p"
    using assms(4) by (auto simp: decryptFrame_def guard_simps split: option.splits)
  then obtain a where a: "a \<in> A" "sealed a (bk_key (ph_key h)) iv aad p"
    using assms(1,3) unfolding unforgeable_def proper_header_def by blast
  then obtain j raw' where j: "p = chunk (ar_plain a) j" "frameAadV3 raw' (ar_nonce a) j (j + 1 = frame_count (ar_plain a)) = Inr aad"
    by (auto simp: sealed_def guard_simps)
  have "length aad \<ge> 21" using j(2) assms(2) a(1)
    by (auto simp: frameAadV3_def guard_simps ARTIFACT_NONCE_BYTES_def dest!: frameMarker_length)
  then have "ph_version h \<noteq> V2" using aad(1) by (auto simp: frameAad_def dest!: frameMarker_length)
  then obtain n where n: "ph_version h = V3" "ph_artifactNonce h = Some n" "length n = ARTIFACT_NONCE_BYTES"
    using assms(3) by (cases "ph_version h") (auto simp: proper_header_def)
  have "frameAadV3 raw n i f = Inr aad" using aad(1) n(1,2) by (simp add: frameAad_def frameAadV3_def)
  from frameAadV3_inj [OF this j(2)] n(3) assms(2) a(1)
  have "n = ar_nonce a \<and> i = j \<and> f = (j + 1 = frame_count (ar_plain a))" by simp
  with that a(1) j(1) n(2) show thesis by blast
qed

lemma frame_keeps_authentic:
  assumes "unforgeable P K A" and "\<forall>a\<in>A. length (ar_nonce a) = ARTIFACT_NONCE_BYTES" and "inj_on ar_nonce A" and "proper_header K h"
    and "authentic A h s" and "drain_frame P h raw s = (Inr True, s1)"
  shows "authentic A h s1"
  using assms(6)
proof (rule drained_frame)
  fix iv tag ct f p
  assume d: "decryptFrame P iv tag ct (de_expectedFrameIndex s) f h raw = Inr p" and s1: "de_out s1 = de_out s @ p"
    "de_expectedFrameIndex s1 = Suc (de_expectedFrameIndex s)" "de_finalFrameSeen s1 = f"
  obtain a where a: "a \<in> A" "ph_artifactNonce h = Some (ar_nonce a)" "p = chunk (ar_plain a) (de_expectedFrameIndex s)"
    "f \<longleftrightarrow> de_expectedFrameIndex s + 1 = frame_count (ar_plain a)"
    using assms(1,2,4) d by (rule opened_frame)
  have "de_out s = take (de_expectedFrameIndex s * CHUNK_SIZE) (ar_plain a)"
    using assms(3,5) a(1,2) by (auto simp: authentic_def dest: inj_onD)
  then have "de_out s1 = take (de_expectedFrameIndex s1 * CHUNK_SIZE) (ar_plain a)"
    unfolding s1 a(3) by (simp add: chunk_def take_add [symmetric] add.commute)
  with a s1 show ?thesis by (auto simp: authentic_def)
qed

lemma loop_keeps_authentic:
  assumes "unforgeable P K A" and "\<forall>a\<in>A. length (ar_nonce a) = ARTIFACT_NONCE_BYTES" and "inj_on ar_nonce A" and "proper_header K h"
  shows "drain_loop P h raw s = (r, s1) \<Longrightarrow> authentic A h s \<Longrightarrow> authentic A h s1"
proof (induction "length (de_buffer s)" arbitrary: s rule: less_induct)
  case less
  obtain r' s2 where f: "drain_frame P h raw s = (r', s2)" by fastforce
  show ?case
  proof (cases "r' = Inr True")
    case True
    then show ?thesis
      using less f drain_frame_shorter frame_keeps_authentic [OF assms less.prems(2)] drain_loop_rounds(1) by metis
  next
    case False
    then have "s2 = s" using f by (auto simp: drain_frame_def Let_def split: if_splits sum.splits)
    moreover have "s1 = s2" using False f less.prems(1) by (auto simp: drain_loop.simps [of P h raw s] split: sum.splits if_splits)
    ultimately show ?thesis using less.prems(2) by simp
  qed
qed


section \<open>Witnesses\<close>

definition plain_key :: backup_key where
  "plain_key = \<lparr>bk_id = ''app_secret'', bk_key = [], bk_fingerprint = []\<rparr>"

definition zero_nonce :: bytes where "zero_nonce = replicate 16 0"
definition zero_ivs :: "nat \<Rightarrow> bytes" where "zero_ivs i = replicate 12 0"

definition open_platform :: platform where
  "open_platform = \<lparr>pl_sha256 = (\<lambda>_. []), pl_seal = (\<lambda>_ _ _ p. (p, replicate 16 0)), pl_open = (\<lambda>_ _ _ ct _. Some ct),
     pl_parse = (\<lambda>_. Some (header_json plain_key zero_nonce)), pl_base64url_decode = (\<lambda>_. zero_nonce)\<rparr>"

definition plain_ring :: backup_keyring where
  "plain_ring = \<lparr>kr_activeKey = plain_key, kr_keysById = [(''app_secret'', plain_key)], kr_keysByFingerprint = [([], plain_key)]\<rparr>"

lemma plain_ring_parsed: "parseBackupEncryptionKeyring open_platform [] None None = Inr plain_ring"
  by (simp add: parseBackupEncryptionKeyring_def Let_def open_platform_def keyFingerprint_def hex_def plain_key_def plain_ring_def
      nonempty_def KEY_ID_PATTERN_def key_id_char_def is_alnum_def)

lemma open_platform_sound: "sound_cipher open_platform"
  by (simp add: sound_cipher_def open_platform_def TAG_BYTES_def)

lemma zero_lengths: "length zero_nonce = ARTIFACT_NONCE_BYTES" "length (zero_ivs j) = IV_BYTES"
  by (simp_all add: zero_nonce_def zero_ivs_def ARTIFACT_NONCE_BYTES_def IV_BYTES_def)

theorem backup_roundtrip_witness:
  "\<exists>c. encrypt_backup open_platform zero_ivs plain_ring zero_nonce [[1], [2, 3]] = (Inr (), c)
     \<and> decrypt_backup open_platform plain_ring [take 20 c, drop 20 c] = (Inr (), [1, 2, 3])"
proof -
  have "\<exists>c. encrypt_backup open_platform zero_ivs plain_ring zero_nonce [[1], [2, 3]] = (Inr (), c)
     \<and> (\<forall>cs. concat cs = c \<longrightarrow> decrypt_backup open_platform plain_ring cs = (Inr (), concat [[1], [2, 3]]))"
    by (rule backup_roundtrip [OF open_platform_sound _ zero_lengths(1) plain_ring_parsed])
      (simp_all add: zero_lengths open_platform_def plain_ring_def plain_key_def)
  then show ?thesis by fastforce
qed

theorem backup_size_limit_witness:
  "fst (encrypt_backup open_platform zero_ivs plain_ring zero_nonce [[1], [2, 3]]) = Inr ()"
  using backup_size_limit [OF open_platform_sound zero_lengths(1) plain_ring_parsed, of zero_ivs "[[1], [2, 3]]"] by simp

text \<open>One artifact of one byte, and a platform that opens its only frame and nothing else.\<close>

definition seven :: artifact where
  "seven = \<lparr>ar_key = plain_key, ar_nonce = zero_nonce, ar_ivs = zero_ivs, ar_plain = [7]\<rparr>"

definition seven_aad :: "bytes result" where
  "seven_aad = and_then (headerBytes plain_key zero_nonce) (\<lambda>raw. frameAadV3 raw zero_nonce 0 True)"

definition strict_platform :: platform where
  "strict_platform = open_platform\<lparr>pl_open := (\<lambda>key iv aad ct tag.
     if key = [] \<and> iv = zero_ivs 0 \<and> seven_aad = Inr aad \<and> ct = [7] then Some [7] else None)\<rparr>"

definition seven_frame :: bytes where
  "seven_frame = [0, 0, 0, 1] @ [0, 0, 0, 0] @ [flag_byte True] @ zero_ivs 0 @ replicate 16 0 @ [7]"

lemma seven_accepted:
  assumes "headerBytes plain_key zero_nonce = Inr raw"
  shows "decrypt_backup strict_platform plain_ring [raw @ seven_frame] = (Inr (), [7])"
proof -
  let ?text = "utf8 (json_text (header_json plain_key zero_nonce))"
  obtain len where len: "write_uint32 (length ?text) = Inr len" "raw = MAGIC @ len @ ?text"
    using assms by (auto simp: headerBytes_def Let_def guard_simps)
  have key: "KEY_ID_PATTERN (bk_id plain_key)" "length (bk_fingerprint plain_key) \<le> 16"
    using active_key [OF plain_ring_parsed] by (simp_all add: plain_ring_def)
  have p: "parseHeader strict_platform plain_ring ?text = Inr (own_header plain_key zero_nonce)"
    by (rule parse_own_header) (use key in \<open>simp_all add: strict_platform_def open_platform_def zero_lengths plain_ring_def plain_key_def\<close>)
  let ?h = "own_header plain_key zero_nonce"
  let ?s = "new_decryptor\<lparr>de_header := Some (?h, raw), de_buffer := seven_frame\<rparr>"
  have h: "drain_header strict_platform plain_ring (more_input (raw @ seven_frame) new_decryptor) = (Inr (), ?s)"
    unfolding len(2) by (rule drain_own_header [OF len(1) _ p]) (use header_length [OF key zero_lengths(1)] in \<open>simp add: MAX_FRAME_SIZE_def\<close>)
  obtain aad where aad: "frameAadV3 raw zero_nonce 0 True = Inr aad" by (simp add: frameAadV3_def frameMarker_def write_uint32_def)
  let ?t = "?s\<lparr>de_out := [7], de_expectedFrameIndex := 1, de_finalFrameSeen := True, de_buffer := []\<rparr>"
  have f: "drain_frame strict_platform ?h raw ?s = (Inr True, ?t)"
    by (rule drain_frame_opened [where f = True and len = "[0, 0, 0, 1]" and idx = "[0, 0, 0, 0]" and iv = "zero_ivs 0"
          and tag = "replicate 16 0" and ct = "[7]" and rest = "[]" and p = "[7]" and aad = aad, THEN trans])
      (use aad assms in \<open>simp_all add: zero_lengths TAG_BYTES_def MAX_FRAME_SIZE_def new_decryptor_def seven_frame_def frameAad_def
          frameAadV3_def own_header_def strict_platform_def seven_aad_def plain_key_def\<close>)
  have "drain_frame strict_platform ?h raw ?t = (Inr False, ?t)" by (simp add: drain_frame_def Let_def)
  then have "drain_loop strict_platform ?h raw ?s = (Inr (), ?t)" using f drain_loop_rounds by metis
  then have "drainFrames strict_platform plain_ring (more_input (raw @ seven_frame) new_decryptor) = (Inr (), ?t)"
    using h by (simp add: drainFrames_def new_decryptor_def)
  then show ?thesis by (rule decrypt_ok [THEN trans]) simp_all
qed

lemma strict_unforgeable: "unforgeable strict_platform plain_ring {seven}"
  by (auto simp: unforgeable_def strict_platform_def sealed_def seven_def seven_aad_def frame_count_def chunk_def plain_key_def CHUNK_SIZE_def
      split: if_splits)


end
