(* ===== verification/Ssrf.thy ===== *)
theory Ssrf
  imports Prelude
begin

unbundle bit_operations_syntax

text \<open>
  The guard against request forgery (\<^verbatim>\<open>services/ssrf.ts\<close>): which resolved addresses an outbound connection
  may use. The textual classification of an address is compared with the special-purpose blocks as
  ranges of 32-bit and 128-bit numbers.
\<close>

section \<open>Addresses as text\<close>

definition char_code :: "char \<Rightarrow> nat" where
  "char_code c = of_char c"

definition is_digit :: "char \<Rightarrow> bool" where
  "is_digit c \<longleftrightarrow> 48 \<le> char_code c \<and> char_code c \<le> 57"

definition hex_digit :: "char \<Rightarrow> nat option" where
  "hex_digit c = (let n = char_code c in
     if 48 \<le> n \<and> n \<le> 57 then Some (n - 48)
     else if 65 \<le> n \<and> n \<le> 70 then Some (n - 55)
     else if 97 \<le> n \<and> n \<le> 102 then Some (n - 87) else None)"

definition is_hex :: "char \<Rightarrow> bool" where
  "is_hex c \<longleftrightarrow> hex_digit c \<noteq> None"

text \<open>\<^verbatim>\<open>Number\<close> on a text of decimal digits\<close>

definition js_Number :: "string \<Rightarrow> nat" where
  "js_Number w = foldl (\<lambda>n c. 10 * n + (char_code c - 48)) 0 w"

text \<open>\<^verbatim>\<open>n.toString(16)\<close>\<close>

definition hex_char :: "nat \<Rightarrow> char" where
  "hex_char n = (if n < 10 then char_of (48 + n) else char_of (87 + n))"

fun hex_str :: "nat \<Rightarrow> string" where
  "hex_str n = (if n < 16 then [hex_char n] else hex_str (n div 16) @ [hex_char (n mod 16)])"

declare hex_str.simps [simp del]

text \<open>
  \<^verbatim>\<open>net.isIP\<close>: a dotted quad of decimal bytes without leading zeros; or up to eight groups of one to four
  hexadecimal digits, of which a double colon may stand for one or more, the last two possibly
  a dotted quad, followed by an optional zone.
\<close>

definition v4_seg :: "string \<Rightarrow> bool" where
  "v4_seg w \<longleftrightarrow> 1 \<le> length w \<and> length w \<le> 3 \<and> list_all is_digit w \<and> (length w = 1 \<or> hd w \<noteq> CHR ''0'') \<and> js_Number w \<le> 255"

definition isIPv4 :: "string \<Rightarrow> bool" where
  "isIPv4 s = (let ws = split_on (CHR ''.'') s in length ws = 4 \<and> list_all v4_seg ws)"

definition v6_seg :: "string \<Rightarrow> bool" where
  "v6_seg w \<longleftrightarrow> 1 \<le> length w \<and> length w \<le> 4 \<and> list_all is_hex w"

text \<open>\<^verbatim>\<open>s.split("::")\<close>\<close>

fun split_gap :: "string \<Rightarrow> string list" where
  "split_gap [] = [[]]"
| "split_gap [c] = [[c]]"
| "split_gap (c # d # s) =
     (if c = CHR '':'' \<and> d = CHR '':'' then [] # split_gap s
      else case split_gap (d # s) of [] \<Rightarrow> [[c]] | w # ws \<Rightarrow> (c # w) # ws)"

fun v6_groups :: "bool \<Rightarrow> string list \<Rightarrow> nat option" where
  "v6_groups tail [] = Some 0"
| "v6_groups tail [w] = (if v6_seg w then Some 1 else if tail \<and> isIPv4 w then Some 2 else None)"
| "v6_groups tail (w # ws) = (if v6_seg w then map_option Suc (v6_groups tail ws) else None)"

definition v6_half :: "bool \<Rightarrow> string \<Rightarrow> nat option" where
  "v6_half tail h = (if h = [] then Some 0 else v6_groups tail (split_on (CHR '':'') h))"

definition isIPv6_body :: "string \<Rightarrow> bool" where
  "isIPv6_body s = (case split_gap s of
       [h] \<Rightarrow> v6_groups True (split_on (CHR '':'') h) = Some 8
     | [l, r] \<Rightarrow> (case (v6_half False l, v6_half True r) of (Some m, Some n) \<Rightarrow> m + n \<le> 7 | _ \<Rightarrow> False)
     | _ \<Rightarrow> False)"

definition zone_char :: "char \<Rightarrow> bool" where
  "zone_char c = (let n = char_code c in is_digit c \<or> (65 \<le> n \<and> n \<le> 90) \<or> (97 \<le> n \<and> n \<le> 122) \<or> n = 45 \<or> n = 46 \<or> n = 58)"

definition isIPv6 :: "string \<Rightarrow> bool" where
  "isIPv6 s = (let zone = dropWhile (\<lambda>c. c \<noteq> CHR ''%'') s in
     isIPv6_body (takeWhile (\<lambda>c. c \<noteq> CHR ''%'') s) \<and> (zone = [] \<or> (2 \<le> length zone \<and> list_all zone_char (tl zone))))"

definition net_isIP :: "string \<Rightarrow> nat" where
  "net_isIP s = (if isIPv4 s then 4 else if isIPv6 s then 6 else 0)"

section \<open>Groups of an IPv6 address\<close>

text \<open>\<^verbatim>\<open>Number.parseInt(word, 16)\<close>; \<open>None\<close> is \<^verbatim>\<open>NaN\<close>.\<close>

definition hex_number :: "string \<Rightarrow> nat" where
  "hex_number ds = foldl (\<lambda>n c. 16 * n + the (hex_digit c)) 0 ds"

definition parse_int16 :: "string \<Rightarrow> int option" where
  "parse_int16 text =
     (let s = dropWhile is_ws text;
          neg = starts_with ''-'' s;
          s = (if starts_with ''-'' s \<or> starts_with ''+'' s then tl s else s);
          s = (if starts_with ''0x'' s \<or> starts_with ''0X'' s then drop 2 s else s);
          ds = takeWhile is_hex s
      in if ds = [] then None else Some (if neg then - int (hex_number ds) else int (hex_number ds)))"

definition word16 :: "int option \<Rightarrow> bool" where
  "word16 v = (case v of None \<Rightarrow> False | Some n \<Rightarrow> 0 \<le> n \<and> n \<le> 0xffff)"

text \<open>The parts of a text before and after its last colon.\<close>

definition before_last :: "string \<Rightarrow> string" where
  "before_last s = rev (tl (dropWhile (\<lambda>c. c \<noteq> CHR '':'') (rev s)))"

definition after_last :: "string \<Rightarrow> string" where
  "after_last s = rev (takeWhile (\<lambda>c. c \<noteq> CHR '':'') (rev s))"

text \<open>A dotted tail is rewritten as two groups.\<close>

definition hex_tail :: "string \<Rightarrow> string option" where
  "hex_tail value =
     (if CHR ''.'' \<notin> set value then Some value
      else if CHR '':'' \<notin> set value then None
      else if net_isIP (after_last value) \<noteq> 4 then None
      else let octets = map js_Number (split_on (CHR ''.'') (after_last value)) in
           Some (before_last value @ '':'' @ hex_str (push_bit 8 (octets ! 0) OR octets ! 1)
             @ '':'' @ hex_str (push_bit 8 (octets ! 2) OR octets ! 3)))"

definition half_groups :: "string \<Rightarrow> string list" where
  "half_groups h = (if h = [] then [] else split_on (CHR '':'') h)"

definition read_words :: "string list \<Rightarrow> nat list option" where
  "read_words texts =
     (let words = map (\<lambda>w. parse_int16 (if w = [] then ''0'' else w)) texts
      in if length words = 8 \<and> list_all word16 words then Some (map (\<lambda>v. nat (the v)) words) else None)"

definition parseIpv6Words :: "string \<Rightarrow> nat list option" where
  "parseIpv6Words input = (case hex_tail input of None \<Rightarrow> None | Some value \<Rightarrow>
     (let halves = split_gap value in
      if length halves > 2 then None
      else let left = half_groups (halves ! 0);
               right = (if length halves = 2 then half_groups (halves ! 1) else []);
               missing = 8 - int (length left) - int (length right)
           in if (length halves = 1 \<and> missing \<noteq> 0) \<or> (length halves = 2 \<and> missing < 1) then None
              else read_words (left @ replicate (nat missing) ''0'' @ right)))"

lemma word16_bound: "word16 v \<Longrightarrow> nat (the v) \<le> 0xffff"
  by (auto simp: word16_def split: option.splits)

lemma word16_list: "list_all word16 vs \<Longrightarrow> \<forall>w\<in>set (map (\<lambda>v. nat (the v)) vs). w \<le> 0xffff"
  by (induction vs) (auto dest: word16_bound)

lemma read_words_range:
  assumes "read_words ts = Some ws"
  shows "length ws = 8 \<and> (\<forall>w\<in>set ws. w \<le> 0xffff)"
proof -
  define vs where "vs = map (\<lambda>w. parse_int16 (if w = [] then ''0'' else w)) ts"
  from assms have "length vs = 8" "list_all word16 vs" "ws = map (\<lambda>v. nat (the v)) vs"
    unfolding read_words_def Let_def vs_def [symmetric] by (auto split: if_split_asm)
  with word16_list show ?thesis by simp
qed

lemma parseIpv6Words_range:
  "parseIpv6Words s = Some ws \<Longrightarrow> length ws = 8 \<and> (\<forall>w\<in>set ws. w \<le> 0xffff)"
  unfolding parseIpv6Words_def Let_def by (auto dest!: read_words_range split: option.splits if_splits)

section \<open>The policy\<close>

definition private_ipv4 :: "nat \<Rightarrow> nat \<Rightarrow> nat \<Rightarrow> bool" where
  "private_ipv4 a b c =
     (if a = 0 \<or> a = 10 \<or> a = 127 then True
      else if a = 100 \<and> b \<ge> 64 \<and> b \<le> 127 then True
      else if a = 169 \<and> b = 254 then True
      else if a = 172 \<and> b \<ge> 16 \<and> b \<le> 31 then True
      else if a = 192 \<and> b = 168 then True
      else if a = 192 \<and> b = 0 \<and> (c = 0 \<or> c = 2) then True
      else if a = 192 \<and> b = 31 \<and> c = 196 then True
      else if a = 192 \<and> b = 52 \<and> c = 193 then True
      else if a = 192 \<and> b = 88 \<and> c = 99 then True
      else if a = 192 \<and> b = 175 \<and> c = 48 then True
      else if a = 198 \<and> (b = 18 \<or> b = 19) then True
      else if a = 198 \<and> b = 51 \<and> c = 100 then True
      else if a = 203 \<and> b = 0 \<and> c = 113 then True
      else a \<ge> 224)"

definition dotted :: "nat \<Rightarrow> nat \<Rightarrow> nat \<Rightarrow> nat \<Rightarrow> string" where
  "dotted a b c d = show_nat a @ ''.'' @ show_nat b @ ''.'' @ show_nat c @ ''.'' @ show_nat d"

definition embedded_ipv4 :: "nat list \<Rightarrow> string" where
  "embedded_ipv4 words = dotted (drop_bit 8 (words ! 6)) (words ! 6 AND 0xff) (drop_bit 8 (words ! 7)) (words ! 7 AND 0xff)"

definition private_ipv6 :: "nat list \<Rightarrow> bool" where
  "private_ipv6 words =
     (if list_all (\<lambda>w. w = 0) (take 4 words) \<and> words ! 4 = 0xffff \<and> words ! 5 = 0 then True
      else if words ! 0 AND 0xe000 \<noteq> 0x2000 then True
      else if words ! 0 = 0x2001 \<and> words ! 1 AND 0xfe00 = 0 then True
      else if words ! 0 = 0x2001 \<and> words ! 1 = 0x0db8 then True
      else if words ! 0 = 0x2002 then True
      else if words ! 0 = 0x3ffe then True
      else words ! 0 = 0x3fff \<and> words ! 1 AND 0xf000 = 0)"

definition inherits_ipv4 :: "nat list \<Rightarrow> bool" where
  "inherits_ipv4 words =
     (let firstFiveZero = list_all (\<lambda>w. w = 0) (take 5 words);
          firstSixZero = firstFiveZero \<and> words ! 5 = 0
      in firstSixZero \<or> (firstFiveZero \<and> words ! 5 = 0xffff))"

text \<open>A dotted quad of bytes is an IPv4 address, and normalisation keeps it.\<close>

lemma js_Number_snoc: "js_Number (w @ [c]) = 10 * js_Number w + (char_code c - 48)"
  by (simp add: js_Number_def)

lemma show_nat_decimal: "c \<in> set (show_nat n) \<Longrightarrow> is_digit c"
  by (auto dest!: show_nat_chars simp: is_digit_def char_code_def)

lemma js_Number_show_nat: "js_Number (show_nat n) = n"
proof (induction n rule: show_nat.induct)
  case (1 n)
  have "n mod 10 < 10" by simp
  with 1 show ?case
    by (subst show_nat.simps) (simp add: js_Number_snoc char_code_def, simp add: js_Number_def char_code_def)
qed

lemma digit_char_iff: "d < 10 \<Longrightarrow> char_of (48 + d :: nat) = c \<longleftrightarrow> of_char c = 48 + d"
  by (auto simp: char_of_eq_iff take_bit_eq_mod)

lemma show_nat_byte_seg: "n \<le> 255 \<Longrightarrow> v4_seg (show_nat n)"
proof -
  assume n: "n \<le> 255"
  have digits: "list_all is_digit (show_nat n)" by (simp add: list_all_iff show_nat_decimal)
  consider "n < 10" | "10 \<le> n" "n < 100" | "100 \<le> n" by linarith
  then show "v4_seg (show_nat n)"
  proof cases
    case 1
    with digits n js_Number_show_nat [of n] show ?thesis by (simp add: v4_seg_def show_nat.simps [of n])
  next
    case 2
    then have "n div 10 < 10" "n div 10 > 0" by auto
    with 2 digits js_Number_show_nat [of n] show ?thesis
      by (simp add: v4_seg_def show_nat.simps [of n] show_nat.simps [of "n div 10"] digit_char_iff)
  next
    case 3
    with n have "n div 10 < 100" "10 \<le> n div 10" "n div 10 div 10 < 10" "n div 10 div 10 > 0" by auto
    with 3 n digits js_Number_show_nat [of n] show ?thesis
      by (simp add: v4_seg_def show_nat.simps [of n] show_nat.simps [of "n div 10"]
            show_nat.simps [of "n div 10 div 10"] digit_char_iff)
  qed
qed

lemma split_on_absent: "c \<notin> set w \<Longrightarrow> split_on c w = [w]"
  by (induction w) auto

lemma split_on_append: "c \<notin> set w \<Longrightarrow> split_on c (w @ c # s) = w # split_on c s"
  by (induction w) auto

lemma dot_absent: "CHR ''.'' \<notin> set (show_nat n)"
  by (auto dest!: show_nat_chars simp: digit_char_iff eq_commute [of "CHR ''.''"])

lemma split_dotted:
  "split_on (CHR ''.'') (dotted a b c d) = [show_nat a, show_nat b, show_nat c, show_nat d]"
  by (simp add: dotted_def split_on_append split_on_absent dot_absent)

lemma isIPv4_dotted: "a \<le> 255 \<Longrightarrow> b \<le> 255 \<Longrightarrow> c \<le> 255 \<Longrightarrow> d \<le> 255 \<Longrightarrow> isIPv4 (dotted a b c d)"
  by (simp add: isIPv4_def split_dotted show_nat_byte_seg)

lemma trim_no_space: "\<forall>c\<in>set s. \<not> is_ws c \<Longrightarrow> trim s = s"
  unfolding trim_def by (metis dropWhile_eq_self_iff hd_in_set rev_rev_ident set_rev)

lemma dotted_chars:
  assumes "c \<in> set (dotted i j k l)"
  shows "\<not> is_ws c \<and> lower_char c = c"
proof -
  from assms have "c = CHR ''.'' \<or> (\<exists>d<10. c = char_of (48 + d :: nat))"
    by (auto simp: dotted_def dest!: show_nat_chars)
  then show ?thesis by (auto simp: is_ws_def lower_char_def Let_def)
qed

lemma normalize_dotted: "trim (to_lower (dotted a b c d)) = dotted a b c d"
proof -
  have "to_lower (dotted a b c d) = dotted a b c d"
    unfolding to_lower_def by (rule map_idI) (simp add: dotted_chars)
  then show ?thesis by (simp add: trim_no_space dotted_chars)
qed

lemma embedded_is_ipv4:
  assumes "parseIpv6Words s = Some words"
  shows "net_isIP (trim (to_lower (embedded_ipv4 words))) = 4"
proof -
  have range: "words ! 6 \<le> 0xffff" "words ! 7 \<le> 0xffff"
    using parseIpv6Words_range [OF assms] by auto
  have low: "w AND 0xff \<le> 255" for w :: nat
    using take_bit_nat_less_exp [of 8 w] by (simp add: take_bit_eq_mask mask_eq_exp_minus_1)
  show ?thesis
    using range low by (simp add: embedded_ipv4_def normalize_dotted net_isIP_def isIPv4_dotted drop_bit_eq_div)
qed

text \<open>The address embedded in an IPv6 one is an IPv4 address, so the recursion ends after one call.\<close>

function isPrivateIp :: "string \<Rightarrow> bool" where
  "isPrivateIp ip =
     (let ipL = trim (to_lower ip) in
      if net_isIP ipL = 4 then
        (let octets = map js_Number (split_on (CHR ''.'') ipL) in private_ipv4 (octets ! 0) (octets ! 1) (octets ! 2))
      else if net_isIP ipL \<noteq> 6 then True
      else case parseIpv6Words ipL of None \<Rightarrow> True | Some words \<Rightarrow>
        if inherits_ipv4 words then isPrivateIp (embedded_ipv4 words)
        else private_ipv6 words)"
  by auto

termination
proof (relation "measure (\<lambda>ip. if net_isIP (trim (to_lower ip)) = 4 then 0 else 1)")
qed (simp_all add: embedded_is_ipv4)

declare isPrivateIp.simps [simp del]

section \<open>Resolution and selection\<close>

record resolved_address = ra_address :: string ra_family :: "nat option"

definition dnsHostname :: "string \<Rightarrow> string" where
  "dnsHostname hostname =
     (if starts_with ''['' hostname \<and> ends_with '']'' hostname then butlast (tl hostname) else hostname)"

definition addressFamily :: "string \<Rightarrow> nat option \<Rightarrow> nat result" where
  "addressFamily address family =
     (if family = Some 4 \<or> family = Some 6 then Inr (the family)
      else if net_isIP address = 4 \<or> net_isIP address = 6 then Inr (net_isIP address)
      else Inl (CodedError ''ENOTFOUND'' (''DNS returned an invalid address for the agent: '' @ address)))"

datatype family_option = FamilyNumber nat | FamilyName string

definition lookupFamily :: "family_option option \<Rightarrow> nat option" where
  "lookupFamily family =
     (if family = Some (FamilyNumber 4) \<or> family = Some (FamilyName ''IPv4'') then Some 4
      else if family = Some (FamilyNumber 6) \<or> family = Some (FamilyName ''IPv6'') then Some 6
      else None)"

definition privateAgentAddressError :: "string \<Rightarrow> string \<Rightarrow> exn" where
  "privateAgentAddressError address resourceLabel = CodedError ''PRIVATE_AGENT_ADDRESS''
     (resourceLabel @ '' resolved to a private network address ('' @ address
        @ ''), which is blocked by default to prevent request forgery.'')"

definition shouldAllowPrivateOutboundUrls :: "string \<Rightarrow> bool \<Rightarrow> bool" where
  "shouldAllowPrivateOutboundUrls nodeEnv allowPrivateUrls \<longleftrightarrow> nodeEnv \<noteq> ''production'' \<or> allowPrivateUrls"

definition shouldAllowPrivateAgentUrls :: "string \<Rightarrow> bool \<Rightarrow> bool" where
  "shouldAllowPrivateAgentUrls nodeEnv allowPrivateAgentUrls = shouldAllowPrivateOutboundUrls nodeEnv allowPrivateAgentUrls"

definition resolveAgentHostname ::
    "(string \<Rightarrow> resolved_address list result) \<Rightarrow> string \<Rightarrow> resolved_address list result" where
  "resolveAgentHostname resolve hostname =
     (let host = dnsHostname hostname; directFamily = net_isIP host in
      if directFamily = 4 \<or> directFamily = 6
      then Inr [\<lparr>ra_address = host, ra_family = Some directFamily\<rparr>]
      else resolve host)"

text \<open>\<^verbatim>\<open>addresses.filter\<close> with a predicate that may throw\<close>

fun of_family :: "nat \<Rightarrow> resolved_address list \<Rightarrow> resolved_address list result" where
  "of_family family [] = Inr []"
| "of_family family (e # es) = and_then (addressFamily (ra_address e) (ra_family e)) (\<lambda>f.
     and_then (of_family family es) (\<lambda>rest. Inr (if f = family then e # rest else rest)))"

definition selectAgentAddress ::
    "resolved_address list \<Rightarrow> bool \<Rightarrow> nat option \<Rightarrow> string \<Rightarrow> (string \<times> nat) result" where
  "selectAgentAddress addresses allowPrivateAgentUrls family resourceLabel =
     and_then (if allowPrivateAgentUrls then Inr ()
               else check_all (\<lambda>e. if isPrivateIp (ra_address e)
                      then Inl (privateAgentAddressError (ra_address e) resourceLabel) else Inr ()) addresses) (\<lambda>_.
     and_then (if family = Some 4 \<or> family = Some 6 then of_family (the family) addresses else Inr addresses) (\<lambda>candidates.
       case candidates of
         [] \<Rightarrow> Inl (CodedError ''ENOTFOUND'' (resourceLabel @ '' hostname did not resolve to a usable address''))
       | selected # _ \<Rightarrow> and_then (addressFamily (ra_address selected) (ra_family selected)) (\<lambda>f.
           Inr (ra_address selected, f))))"

text \<open>The lookup a connection to an agent uses, up to the form in which its callback takes the result.\<close>

definition createAgentLookup ::
    "bool \<Rightarrow> (string \<Rightarrow> resolved_address list result) \<Rightarrow> string \<Rightarrow> string \<Rightarrow> family_option option \<Rightarrow> (string \<times> nat) result" where
  "createAgentLookup allowPrivateAgentUrls resolve resourceLabel hostname family =
     and_then (resolveAgentHostname resolve hostname) (\<lambda>addresses.
       selectAgentAddress addresses allowPrivateAgentUrls (lookupFamily family) resourceLabel)"

text \<open>The first argument is what \<^verbatim>\<open>new URL\<close> gives: the protocol and the host name, or nothing where it throws.\<close>

definition validateAgentUrl :: "(string \<times> string) option \<Rightarrow> (string \<Rightarrow> resolved_address list result) \<Rightarrow> bool" where
  "validateAgentUrl parsed resolve = (case parsed of None \<Rightarrow> False | Some (protocol, hostname) \<Rightarrow>
     if protocol \<noteq> ''http:'' \<and> protocol \<noteq> ''https:'' then False
     else case resolveAgentHostname resolve hostname of
            Inl _ \<Rightarrow> False
          | Inr addresses \<Rightarrow> \<not> list_ex (\<lambda>e. isPrivateIp (ra_address e)) addresses)"

section \<open>Address blocks\<close>

text \<open>The policy as blocks of numbers, in the notation of the address registries.\<close>

definition in_block :: "nat \<Rightarrow> nat \<Rightarrow> nat \<times> nat \<Rightarrow> bool" where
  "in_block bits address block = (case block of (net, len) \<Rightarrow>
     address div 2 ^ (bits - len) = net div 2 ^ (bits - len))"

definition quad :: "nat \<Rightarrow> nat \<Rightarrow> nat \<Rightarrow> nat \<Rightarrow> nat" where
  "quad a b c d = ((a * 256 + b) * 256 + c) * 256 + d"

definition special_ipv4 :: "(nat \<times> nat) list" where
  "special_ipv4 =
     [(quad 0 0 0 0, 8), (quad 10 0 0 0, 8), (quad 127 0 0 0, 8), (quad 100 64 0 0, 10), (quad 169 254 0 0, 16),
      (quad 172 16 0 0, 12), (quad 192 168 0 0, 16), (quad 192 0 0 0, 24), (quad 192 0 2 0, 24),
      (quad 192 31 196 0, 24), (quad 192 52 193 0, 24), (quad 192 88 99 0, 24), (quad 192 175 48 0, 24),
      (quad 198 18 0 0, 15), (quad 198 51 100 0, 24), (quad 203 0 113 0, 24), (quad 224 0 0 0, 3)]"

definition ipv4_value :: "string \<Rightarrow> nat" where
  "ipv4_value s = (let octets = map js_Number (split_on (CHR ''.'') s) in
     quad (octets ! 0) (octets ! 1) (octets ! 2) (octets ! 3))"

definition public_ipv4 :: "nat \<Rightarrow> bool" where
  "public_ipv4 v \<longleftrightarrow> \<not> list_ex (in_block 32 v) special_ipv4"

lemma byte_div: "y < k \<Longrightarrow> (x * k + y) div k = (x :: nat)"
  by simp

lemma part_div: "0 < k \<Longrightarrow> (x * (m * k) + y) div k = x * m + y div (k :: nat)"
  by (metis div_mult_self3 less_irrefl mult.assoc)

lemma quad_div:
  assumes "b \<le> 255" "c \<le> 255" "d \<le> 255"
  shows "quad a b c d div 256 = (a * 256 + b) * 256 + c"
    "quad a b c d div 65536 = a * 256 + b"
    "quad a b c d div 16777216 = a"
    "quad a b c d div 131072 = a * 128 + b div 2"
    "quad a b c d div 1048576 = a * 16 + b div 16"
    "quad a b c d div 4194304 = a * 4 + b div 64"
    "quad a b c d div 536870912 = a div 32"
proof -
  show one: "quad a b c d div 256 = (a * 256 + b) * 256 + c"
    using assms byte_div [of d 256] by (simp add: quad_def)
  show two: "quad a b c d div 65536 = a * 256 + b"
    using assms byte_div [of c 256] one div_mult2_eq [of "quad a b c d" 256 256] by simp
  show three: "quad a b c d div 16777216 = a"
    using assms byte_div [of b 256] two div_mult2_eq [of "quad a b c d" 65536 256] by simp
  show "quad a b c d div 131072 = a * 128 + b div 2"
    using two div_mult2_eq [of "quad a b c d" 65536 2] part_div [of 2 a 128 b] by simp
  show "quad a b c d div 1048576 = a * 16 + b div 16"
    using two div_mult2_eq [of "quad a b c d" 65536 16] part_div [of 16 a 16 b] by simp
  show "quad a b c d div 4194304 = a * 4 + b div 64"
    using two div_mult2_eq [of "quad a b c d" 65536 64] part_div [of 64 a 4 b] by simp
  show "quad a b c d div 536870912 = a div 32"
    using three div_mult2_eq [of "quad a b c d" 16777216 32] by simp
qed

text \<open>The leading part of an address equals that of a block exactly when its parts do.\<close>

lemma two_parts: "y < m \<Longrightarrow> v < m \<Longrightarrow> x * m + y = u * m + v \<longleftrightarrow> x = u \<and> y = (v :: nat)"
  by (metis byte_div mod_mult_self3 mod_less)

lemma ipv4_blocks:
  assumes "b \<le> 255" "c \<le> 255" "d \<le> 255" "v \<le> 255" "w \<le> 255"
  shows "in_block 32 (quad a b c d) (quad u 0 0 0, 8) \<longleftrightarrow> a = u"
    "in_block 32 (quad a b c d) (quad u v 0 0, 16) \<longleftrightarrow> a = u \<and> b = v"
    "in_block 32 (quad a b c d) (quad u v w 0, 24) \<longleftrightarrow> a = u \<and> b = v \<and> c = w"
    "in_block 32 (quad a b c d) (quad u v 0 0, 15) \<longleftrightarrow> a = u \<and> b div 2 = v div 2"
    "in_block 32 (quad a b c d) (quad u v 0 0, 12) \<longleftrightarrow> a = u \<and> b div 16 = v div 16"
    "in_block 32 (quad a b c d) (quad u v 0 0, 10) \<longleftrightarrow> a = u \<and> b div 64 = v div 64"
    "in_block 32 (quad a b c d) (quad u 0 0 0, 3) \<longleftrightarrow> a div 32 = u div 32"
proof -
  note left = quad_div [OF assms(1-3)]
  have zero: "(0 :: nat) \<le> 255" by simp
  note right = quad_div [OF assms(4) zero zero] quad_div [OF zero zero zero] quad_div [OF assms(4,5) zero]
  show "in_block 32 (quad a b c d) (quad u 0 0 0, 8) \<longleftrightarrow> a = u"
    by (simp add: in_block_def left right)
  show "in_block 32 (quad a b c d) (quad u v 0 0, 16) \<longleftrightarrow> a = u \<and> b = v"
    using assms by (simp add: in_block_def left right two_parts)
  show "in_block 32 (quad a b c d) (quad u v w 0, 24) \<longleftrightarrow> a = u \<and> b = v \<and> c = w"
    using assms two_parts [of c 256 w "a * 256 + b" "u * 256 + v"] two_parts [of b 256 v a u]
    by (simp add: in_block_def left right del: distrib_right_numeral distrib_left_numeral)
  show "in_block 32 (quad a b c d) (quad u v 0 0, 15) \<longleftrightarrow> a = u \<and> b div 2 = v div 2"
    using assms by (simp add: in_block_def left right two_parts)
  show "in_block 32 (quad a b c d) (quad u v 0 0, 12) \<longleftrightarrow> a = u \<and> b div 16 = v div 16"
    using assms by (simp add: in_block_def left right two_parts)
  show "in_block 32 (quad a b c d) (quad u v 0 0, 10) \<longleftrightarrow> a = u \<and> b div 64 = v div 64"
    using assms by (simp add: in_block_def left right two_parts)
  show "in_block 32 (quad a b c d) (quad u 0 0 0, 3) \<longleftrightarrow> a div 32 = u div 32"
    by (simp add: in_block_def left right)
qed

lemma if_True_disj: "(if P then True else Q) \<longleftrightarrow> P \<or> Q"
  by simp

lemma private_ipv4_blocks:
  assumes "a \<le> 255" "b \<le> 255" "c \<le> 255" "d \<le> 255"
  shows "private_ipv4 a b c \<longleftrightarrow> \<not> public_ipv4 (quad a b c d)"
proof -
  have halves: "b div 2 = 9 \<longleftrightarrow> b = 18 \<or> b = 19" "b div 16 = 1 \<longleftrightarrow> 16 \<le> b \<and> b \<le> 31"
    "b div 64 = 1 \<longleftrightarrow> 64 \<le> b \<and> b \<le> 127" "a div 32 = 7 \<longleftrightarrow> 224 \<le> a"
    using assms by auto
  note block = ipv4_blocks [OF assms(2-4)]
  have partial: "in_block 32 (quad a b c d) (quad 198 18 0 0, 15) \<longleftrightarrow> a = 198 \<and> (b = 18 \<or> b = 19)"
    "in_block 32 (quad a b c d) (quad 172 16 0 0, 12) \<longleftrightarrow> a = 172 \<and> 16 \<le> b \<and> b \<le> 31"
    "in_block 32 (quad a b c d) (quad 100 64 0 0, 10) \<longleftrightarrow> a = 100 \<and> 64 \<le> b \<and> b \<le> 127"
    "in_block 32 (quad a b c d) (quad 224 0 0 0, 3) \<longleftrightarrow> 224 \<le> a"
    using block(4) [of 18 0 a 198] block(5) [of 16 0 a 172] block(6) [of 64 0 a 100] block(7) [of 0 0 a 224] halves
    by (simp_all del: One_nat_def)
  have "\<not> public_ipv4 (quad a b c d) \<longleftrightarrow>
      a = 0 \<or> a = 10 \<or> a = 127 \<or> (a = 100 \<and> b \<ge> 64 \<and> b \<le> 127) \<or> (a = 169 \<and> b = 254)
      \<or> (a = 172 \<and> b \<ge> 16 \<and> b \<le> 31) \<or> (a = 192 \<and> b = 168) \<or> (a = 192 \<and> b = 0 \<and> c = 0)
      \<or> (a = 192 \<and> b = 0 \<and> c = 2) \<or> (a = 192 \<and> b = 31 \<and> c = 196) \<or> (a = 192 \<and> b = 52 \<and> c = 193)
      \<or> (a = 192 \<and> b = 88 \<and> c = 99) \<or> (a = 192 \<and> b = 175 \<and> c = 48) \<or> (a = 198 \<and> (b = 18 \<or> b = 19))
      \<or> (a = 198 \<and> b = 51 \<and> c = 100) \<or> (a = 203 \<and> b = 0 \<and> c = 113) \<or> 224 \<le> a"
    by (simp only: public_ipv4_def special_ipv4_def list_ex_Nil_iff list_ex_Cons_iff not_not partial block(1-3) [of 0 0]
          block(2) [of 254 0] block(2) [of 168 0] block(3) rel_simps zero_le order_refl simp_thms)
  moreover have "private_ipv4 a b c \<longleftrightarrow>
      a = 0 \<or> a = 10 \<or> a = 127 \<or> (a = 100 \<and> b \<ge> 64 \<and> b \<le> 127) \<or> (a = 169 \<and> b = 254)
      \<or> (a = 172 \<and> b \<ge> 16 \<and> b \<le> 31) \<or> (a = 192 \<and> b = 168) \<or> (a = 192 \<and> b = 0 \<and> c = 0)
      \<or> (a = 192 \<and> b = 0 \<and> c = 2) \<or> (a = 192 \<and> b = 31 \<and> c = 196) \<or> (a = 192 \<and> b = 52 \<and> c = 193)
      \<or> (a = 192 \<and> b = 88 \<and> c = 99) \<or> (a = 192 \<and> b = 175 \<and> c = 48) \<or> (a = 198 \<and> (b = 18 \<or> b = 19))
      \<or> (a = 198 \<and> b = 51 \<and> c = 100) \<or> (a = 203 \<and> b = 0 \<and> c = 113) \<or> 224 \<le> a"
    by (simp only: private_ipv4_def if_True_disj disj_assoc conj_disj_distribL)
  ultimately show ?thesis by (simp only: conj_disj_distribL)
qed

definition ipv6_value :: "nat list \<Rightarrow> nat" where
  "ipv6_value words = foldl (\<lambda>n w. n * 65536 + w) 0 words"

definition special_ipv6 :: "(nat \<times> nat) list" where
  "special_ipv6 =
     [(ipv6_value [0x2001, 0, 0, 0, 0, 0, 0, 0], 23), (ipv6_value [0x2001, 0x0db8, 0, 0, 0, 0, 0, 0], 32),
      (ipv6_value [0x2002, 0, 0, 0, 0, 0, 0, 0], 16), (ipv6_value [0x3ffe, 0, 0, 0, 0, 0, 0, 0], 16),
      (ipv6_value [0x3fff, 0, 0, 0, 0, 0, 0, 0], 20)]"

text \<open>
  IPv4-compatible and IPv4-mapped addresses (\<open>::/96\<close> and \<open>::ffff:0:0/96\<close>) take the policy of the embedded
  address; otherwise an address is public inside \<open>2000::/3\<close> and outside the special blocks there.
\<close>

definition public_ipv6 :: "nat \<Rightarrow> bool" where
  "public_ipv6 v =
     (if v div 2 ^ 32 = 0 \<or> v div 2 ^ 32 = 0xffff then public_ipv4 (v mod 2 ^ 32)
      else in_block 128 v (ipv6_value [0x2000, 0, 0, 0, 0, 0, 0, 0], 3) \<and> \<not> list_ex (in_block 128 v) special_ipv6)"

definition public_address :: "string \<Rightarrow> bool" where
  "public_address s =
     (if net_isIP s = 4 then public_ipv4 (ipv4_value s)
      else if net_isIP s = 6 then (case parseIpv6Words s of None \<Rightarrow> False | Some words \<Rightarrow> public_ipv6 (ipv6_value words))
      else False)"

lemma foldl_base: "foldl (\<lambda>n w. n * 65536 + w) m ws = m * 65536 ^ length ws + foldl (\<lambda>n w. n * 65536 + w) (0::nat) ws"
proof (induction ws arbitrary: m)
  case (Cons w ws)
  show ?case using Cons [of "m * 65536 + w"] Cons [of w] by (simp add: algebra_simps)
qed simp

lemma ipv6_value_simps:
  "ipv6_value [] = 0" "ipv6_value (w # ws) = w * 65536 ^ length ws + ipv6_value ws"
  "ipv6_value (us @ ws) = ipv6_value us * 65536 ^ length ws + ipv6_value ws"
  using foldl_base [of w ws] foldl_base [of "foldl (\<lambda>n w. n * 65536 + w) 0 us" ws] by (simp_all add: ipv6_value_def)

lemma ipv6_value_less: "\<forall>w\<in>set ws. w \<le> 0xffff \<Longrightarrow> ipv6_value ws < 65536 ^ length ws"
proof (induction ws)
  case (Cons w ws)
  then have "ipv6_value ws < 65536 ^ length ws" "w * 65536 ^ length ws \<le> 65535 * 65536 ^ length ws" by auto
  then have "w * 65536 ^ length ws + ipv6_value ws < 65536 * 65536 ^ length ws" by linarith
  then show ?case by (simp add: ipv6_value_simps)
qed (simp add: ipv6_value_def)

lemma high_mask: "(w :: nat) AND push_bit n (mask m) = push_bit n (take_bit m (drop_bit n w))"
  by (rule bit_eqI) (auto simp: bit_simps)

lemma masks:
  assumes "(w :: nat) \<le> 0xffff"
  shows "w AND 0xe000 = 0x2000 \<longleftrightarrow> w div 2 ^ 13 = 1" "w AND 0xfe00 = 0 \<longleftrightarrow> w div 2 ^ 9 = 0"
    "w AND 0xf000 = 0 \<longleftrightarrow> w div 2 ^ 12 = 0" "w AND 0xff = w mod 256"
proof -
  have "push_bit 13 (mask 3) = (0xe000 :: nat)" "push_bit 9 (mask 7) = (0xfe00 :: nat)"
    "push_bit 12 (mask 4) = (0xf000 :: nat)" by (simp_all add: push_bit_eq_mult mask_eq_exp_minus_1)
  with high_mask [of w 13 3] high_mask [of w 9 7] high_mask [of w 12 4] assms
  show "w AND 0xe000 = 0x2000 \<longleftrightarrow> w div 2 ^ 13 = 1" "w AND 0xfe00 = 0 \<longleftrightarrow> w div 2 ^ 9 = 0"
    "w AND 0xf000 = 0 \<longleftrightarrow> w div 2 ^ 12 = 0"
    by (simp_all add: push_bit_eq_mult drop_bit_eq_div take_bit_eq_mod)
  show "w AND 0xff = w mod 256"
    using take_bit_eq_mask [of 8 w] by (simp add: take_bit_eq_mod mask_eq_exp_minus_1)
qed

lemma eight_words: "length ws = 8 \<Longrightarrow> \<exists>a b c d e f g h. ws = [a, b, c, d, e, f, g, h]"
  by (auto simp: eval_nat_numeral length_Suc_conv)

text \<open>The leading words of an address are the quotients of its value.\<close>

lemma ipv6_value_leading:
  assumes "\<forall>w\<in>set ws. w \<le> 0xffff"
  shows "ipv6_value (us @ ws) div 65536 ^ length ws = ipv6_value us"
    "ipv6_value (us @ ws) mod 65536 ^ length ws = ipv6_value ws"
  using ipv6_value_less [OF assms] by (simp_all add: ipv6_value_simps)

lemma ipv6_block:
  assumes "\<forall>w\<in>set ws. w \<le> 0xffff" and "\<forall>w\<in>set vs. w \<le> 0xffff" and "length ws = 6" and "length vs = 6"
    and "len \<le> 16"
  shows "in_block 128 (ipv6_value (a # b # ws)) (ipv6_value (u # v # vs), 16 + len) \<longleftrightarrow>
    (a * 65536 + b) div 2 ^ (16 - len) = (u * 65536 + v) div 2 ^ (16 - len)"
proof -
  have pow: "(2 :: nat) ^ (128 - (16 + len)) = 65536 ^ 6 * 2 ^ (16 - len)"
  proof -
    have "(65536 :: nat) ^ 6 = 2 ^ 96" by simp
    moreover have "128 - (16 + len) = 96 + (16 - len)" using assms(5) by simp
    ultimately show ?thesis by (simp only: power_add)
  qed
  have "ipv6_value (a # b # ws) div 65536 ^ 6 = a * 65536 + b" "ipv6_value (u # v # vs) div 65536 ^ 6 = u * 65536 + v"
    using ipv6_value_leading(1) [OF assms(1), of "[a, b]"] ipv6_value_leading(1) [OF assms(2), of "[u, v]"] assms(3,4)
    by (simp_all add: ipv6_value_def)
  then show ?thesis by (simp only: in_block_def prod.case pow div_mult2_eq)
qed

lemma ipv6_block_iff:
  assumes "\<forall>w\<in>set ws. w \<le> 0xffff" and "length ws = 6" and "b \<le> 0xffff" and "v \<le> 0xffff"
  shows "in_block 128 (ipv6_value (a # b # ws)) (ipv6_value [u, v, 0, 0, 0, 0, 0, 0], 16) \<longleftrightarrow> a = u"
    "in_block 128 (ipv6_value (a # b # ws)) (ipv6_value [u, v, 0, 0, 0, 0, 0, 0], 20) \<longleftrightarrow> a = u \<and> b div 2 ^ 12 = v div 2 ^ 12"
    "in_block 128 (ipv6_value (a # b # ws)) (ipv6_value [u, v, 0, 0, 0, 0, 0, 0], 23) \<longleftrightarrow> a = u \<and> b div 2 ^ 9 = v div 2 ^ 9"
    "in_block 128 (ipv6_value (a # b # ws)) (ipv6_value [u, v, 0, 0, 0, 0, 0, 0], 32) \<longleftrightarrow> a = u \<and> b = v"
    "in_block 128 (ipv6_value (a # b # ws)) (ipv6_value [u, v, 0, 0, 0, 0, 0, 0], 3) \<longleftrightarrow> a div 2 ^ 13 = u div 2 ^ 13"
proof -
  let ?zeros = "[0, 0, 0, 0, 0, 0 :: nat]"
  have block: "in_block 128 (ipv6_value (a # b # ws)) (ipv6_value (u # v # ?zeros), 16 + len) \<longleftrightarrow>
      (a * 65536 + b) div 2 ^ (16 - len) = (u * 65536 + v) div 2 ^ (16 - len)" if "len \<le> 16" for len
    by (rule ipv6_block [OF assms(1) _ assms(2) _ that]) simp_all
  show first: "in_block 128 (ipv6_value (a # b # ws)) (ipv6_value [u, v, 0, 0, 0, 0, 0, 0], 16) \<longleftrightarrow> a = u"
    using block [of 0] assms by simp
  show "in_block 128 (ipv6_value (a # b # ws)) (ipv6_value [u, v, 0, 0, 0, 0, 0, 0], 20) \<longleftrightarrow> a = u \<and> b div 2 ^ 12 = v div 2 ^ 12"
    using block [of 4] part_div [of 4096 a 16 b] part_div [of 4096 u 16 v] two_parts [of "b div 4096" 16 "v div 4096" a u] assms
    by simp
  show "in_block 128 (ipv6_value (a # b # ws)) (ipv6_value [u, v, 0, 0, 0, 0, 0, 0], 23) \<longleftrightarrow> a = u \<and> b div 2 ^ 9 = v div 2 ^ 9"
    using block [of 7] part_div [of 512 a 128 b] part_div [of 512 u 128 v] two_parts [of "b div 512" 128 "v div 512" a u] assms
    by simp
  show "in_block 128 (ipv6_value (a # b # ws)) (ipv6_value [u, v, 0, 0, 0, 0, 0, 0], 32) \<longleftrightarrow> a = u \<and> b = v"
    using block [of 16] two_parts [of b 65536 v a u] assms by simp
  have "ipv6_value (a # b # ws) div 65536 ^ 7 = a" "ipv6_value (u # v # ?zeros) div 65536 ^ 7 = u"
    using ipv6_value_leading(1) [of "b # ws" "[a]"] ipv6_value_leading(1) [of "v # ?zeros" "[u]"] assms
    by (simp_all add: ipv6_value_def)
  moreover have "(2 :: nat) ^ (128 - 3) = 65536 ^ 7 * 2 ^ 13" by simp
  ultimately show "in_block 128 (ipv6_value (a # b # ws)) (ipv6_value [u, v, 0, 0, 0, 0, 0, 0], 3) \<longleftrightarrow> a div 2 ^ 13 = u div 2 ^ 13"
    by (simp only: in_block_def prod.case div_mult2_eq)
qed

lemma private_ipv6_blocks:
  assumes "length ws = 8" and "\<forall>w\<in>set ws. w \<le> 0xffff"
  shows "private_ipv6 ws \<longleftrightarrow> \<not> (in_block 128 (ipv6_value ws) (ipv6_value [0x2000, 0, 0, 0, 0, 0, 0, 0], 3)
    \<and> \<not> list_ex (in_block 128 (ipv6_value ws)) special_ipv6)"
proof -
  obtain a b c d e f g h where ws: "ws = [a, b, c, d, e, f, g, h]" using eight_words [OF assms(1)] by blast
  let ?rest = "[c, d, e, f, g, h]"
  have rest: "\<forall>w\<in>set ?rest. w \<le> 0xffff" "length ?rest = 6" "a \<le> 0xffff" "b \<le> 0xffff" using assms ws by auto
  have zero: "(0 :: nat) \<le> 0xffff" and db8: "(0x0db8 :: nat) \<le> 0xffff" by simp_all
  note block = ipv6_block_iff [OF rest(1,2,4) zero] ipv6_block_iff(4) [OF rest(1,2,4) db8]
  have "list_ex (in_block 128 (ipv6_value ws)) special_ipv6 \<longleftrightarrow>
      (a = 0x2001 \<and> b div 2 ^ 9 = 0) \<or> (a = 0x2001 \<and> b = 0x0db8) \<or> a = 0x2002 \<or> a = 0x3ffe
      \<or> (a = 0x3fff \<and> b div 2 ^ 12 = 0)"
    unfolding ws special_ipv6_def list_ex_Nil_iff list_ex_Cons_iff block by simp
  moreover have "in_block 128 (ipv6_value ws) (ipv6_value [0x2000, 0, 0, 0, 0, 0, 0, 0], 3) \<longleftrightarrow> a div 2 ^ 13 = 1"
    unfolding ws block by simp
  moreover have "private_ipv6 ws \<longleftrightarrow> a div 2 ^ 13 \<noteq> 1 \<or> (a = 0x2001 \<and> b div 2 ^ 9 = 0) \<or> (a = 0x2001 \<and> b = 0x0db8)
      \<or> a = 0x2002 \<or> a = 0x3ffe \<or> (a = 0x3fff \<and> b div 2 ^ 12 = 0)"
  proof -
    have "private_ipv6 ws \<longleftrightarrow> (list_all (\<lambda>w. w = 0) (take 4 ws) \<and> ws ! 4 = 0xffff \<and> ws ! 5 = 0) \<or> a div 2 ^ 13 \<noteq> 1
        \<or> (a = 0x2001 \<and> b div 2 ^ 9 = 0) \<or> (a = 0x2001 \<and> b = 0x0db8) \<or> a = 0x2002 \<or> a = 0x3ffe
        \<or> (a = 0x3fff \<and> b div 2 ^ 12 = 0)"
      using ws by (simp only: private_ipv6_def if_True_disj nth_Cons_0 nth_Cons' one_neq_zero if_False diff_self_eq_0
          masks(1) [OF rest(3)] masks(2,3) [OF rest(4)] if_True refl)
    moreover have "list_all (\<lambda>w. w = 0) (take 4 ws) \<Longrightarrow> a div 2 ^ 13 \<noteq> 1" using ws by simp
    ultimately show ?thesis by blast
  qed
  ultimately show ?thesis by blast
qed

lemma inherits_ipv4_iff:
  assumes "length ws = 8" and "\<forall>w\<in>set ws. w \<le> 0xffff"
  shows "inherits_ipv4 ws \<longleftrightarrow> ipv6_value ws div 2 ^ 32 = 0 \<or> ipv6_value ws div 2 ^ 32 = 0xffff"
proof -
  obtain a b c d e f g h where ws: "ws = [a, b, c, d, e, f, g, h]" using eight_words [OF assms(1)] by blast
  have "ipv6_value ([a, b, c, d, e, f] @ [g, h]) div 65536 ^ 2 = ipv6_value [a, b, c, d, e, f]"
    using ipv6_value_leading(1) [of "[g, h]" "[a, b, c, d, e, f]"] assms ws by simp
  then have "ipv6_value ws div 2 ^ 32 = ipv6_value [a, b, c, d, e, f]" by (simp add: ws)
  moreover have "ipv6_value [a, b, c, d, e] = 0 \<longleftrightarrow> a = 0 \<and> b = 0 \<and> c = 0 \<and> d = 0 \<and> e = 0"
    by (auto simp: ipv6_value_def)
  moreover have "ipv6_value [a, b, c, d, e, f] = ipv6_value [a, b, c, d, e] * 65536 + f" by (simp add: ipv6_value_def)
  moreover have "f \<le> 0xffff" using assms ws by simp
  ultimately show ?thesis
    using two_parts [of f 65536 65535 "ipv6_value [a, b, c, d, e]" 0] by (auto simp: inherits_ipv4_def ws)
qed

lemma isPrivateIp_dotted:
  assumes "a \<le> 255" "b \<le> 255" "c \<le> 255" "d \<le> 255"
  shows "isPrivateIp (dotted a b c d) \<longleftrightarrow> \<not> public_ipv4 (quad a b c d)"
  using private_ipv4_blocks [OF assms]
  by (simp add: isPrivateIp.simps normalize_dotted net_isIP_def isIPv4_dotted [OF assms] split_dotted js_Number_show_nat Let_def)

lemma embedded_policy:
  assumes "length ws = 8" and "\<forall>w\<in>set ws. w \<le> 0xffff"
  shows "isPrivateIp (embedded_ipv4 ws) \<longleftrightarrow> \<not> public_ipv4 (ipv6_value ws mod 2 ^ 32)"
proof -
  obtain a b c d e f g h where ws: "ws = [a, b, c, d, e, f, g, h]" using eight_words [OF assms(1)] by blast
  have range: "g \<le> 0xffff" "h \<le> 0xffff" using assms ws by auto
  have "ipv6_value ([a, b, c, d, e, f] @ [g, h]) mod 65536 ^ 2 = ipv6_value [g, h]"
    using ipv6_value_leading(2) [of "[g, h]" "[a, b, c, d, e, f]"] range by simp
  then have "ipv6_value ws mod 2 ^ 32 = g * 65536 + h" by (simp add: ws ipv6_value_def)
  moreover have "g div 256 \<le> 255" "h div 256 \<le> 255" "g mod 256 \<le> 255" "h mod 256 \<le> 255" using range by auto
  moreover from this have "quad (g div 256) (g mod 256) (h div 256) (h mod 256) = g * 65536 + h"
    by (simp add: quad_def)
  ultimately show ?thesis
    using isPrivateIp_dotted [of "g div 256" "g mod 256" "h div 256" "h mod 256"] range
    by (simp add: embedded_ipv4_def ws drop_bit_eq_div masks(4))
qed

lemma v4_seg_bound: "v4_seg w \<Longrightarrow> js_Number w \<le> 255"
  by (simp add: v4_seg_def)

lemma isIPv4_segments:
  "isIPv4 s \<Longrightarrow> \<exists>a b c d. split_on (CHR ''.'') s = [a, b, c, d] \<and> v4_seg a \<and> v4_seg b \<and> v4_seg c \<and> v4_seg d"
  by (auto simp: isIPv4_def Let_def eval_nat_numeral length_Suc_conv)

lemma private_iff_not_public: "isPrivateIp ip \<longleftrightarrow> \<not> public_address (trim (to_lower ip))"
proof -
  let ?s = "trim (to_lower ip)"
  consider "net_isIP ?s = 4" | "net_isIP ?s = 6" | "net_isIP ?s \<noteq> 4" "net_isIP ?s \<noteq> 6" by blast
  then show ?thesis
  proof cases
    case 1
    then have "isIPv4 ?s" by (simp add: net_isIP_def split: if_splits)
    then obtain a b c d where "split_on (CHR ''.'') ?s = [a, b, c, d]" "v4_seg a" "v4_seg b" "v4_seg c" "v4_seg d"
      using isIPv4_segments by blast
    with 1 private_ipv4_blocks [of "js_Number a" "js_Number b" "js_Number c" "js_Number d"] show ?thesis
      by (simp add: isPrivateIp.simps [of ip] public_address_def ipv4_value_def v4_seg_bound Let_def)
  next
    case 2
    show ?thesis
    proof (cases "parseIpv6Words ?s")
      case None
      with 2 show ?thesis by (simp add: isPrivateIp.simps [of ip] public_address_def Let_def)
    next
      case (Some ws)
      with parseIpv6Words_range have range: "length ws = 8" "\<forall>w\<in>set ws. w \<le> 0xffff" by blast+
      with 2 Some embedded_policy [OF range] private_ipv6_blocks [OF range] inherits_ipv4_iff [OF range] show ?thesis
        by (simp add: isPrivateIp.simps [of ip] public_address_def public_ipv6_def Let_def)
    qed
  next
    case 3
    then show ?thesis by (simp add: isPrivateIp.simps [of ip] public_address_def Let_def)
  qed
qed

text \<open>
  C35: The textual policy is the block policy: a string is private exactly when its normalised text is not the
  notation of an address outside every special-purpose block, for IPv4 and IPv6 addresses, and
  for every string that is not an address.
\<close>

theorem isPrivateIp_block_policy: "isPrivateIp ip \<longleftrightarrow> \<not> public_address (trim (to_lower ip))"
  by (rule private_iff_not_public)

section \<open>Reading the textual form\<close>

lemma hex_char_digit: "d < 16 \<Longrightarrow> hex_digit (hex_char d) = Some d"
  by (auto simp: hex_digit_def hex_char_def char_code_def Let_def)

lemma hex_char_code: "d < 16 \<Longrightarrow> of_char (hex_char d) = (if d < 10 then 48 + d else 87 + d :: nat)"
  by (simp add: hex_char_def)

lemma hex_str_chars: "c \<in> set (hex_str n) \<Longrightarrow> \<exists>d<16. c = hex_char d"
proof (induction n rule: hex_str.induct)
  case (1 n)
  show ?case
  proof (cases "n < 16")
    case True
    with 1(2) show ?thesis by (auto simp: hex_str.simps [of n])
  next
    case False
    with 1(2) have "c \<in> set (hex_str (n div 16)) \<or> c = hex_char (n mod 16)" by (auto simp: hex_str.simps [of n])
    moreover have "n mod 16 < 16" by simp
    ultimately show ?thesis using 1(1) False by blast
  qed
qed

lemma hex_str_absent: "hex_digit c = None \<Longrightarrow> c \<notin> set (hex_str n)"
  by (auto dest!: hex_str_chars simp: hex_char_digit)

lemma hex_str_hex: "list_all is_hex (hex_str n)"
  by (auto simp: list_all_iff is_hex_def dest!: hex_str_chars simp: hex_char_digit)

lemma hex_str_nonempty: "hex_str n \<noteq> []"
  by (subst hex_str.simps) simp

lemma hex_number_hex_str: "hex_number (hex_str n) = n"
proof (induction n rule: hex_str.induct)
  case (1 n)
  then show ?case by (cases "n < 16") (simp_all add: hex_str.simps [of n] hex_number_def hex_char_digit)
qed

lemma hex_str_length: "n < 16 ^ Suc k \<Longrightarrow> length (hex_str n) \<le> Suc k"
proof (induction k arbitrary: n)
  case 0
  then show ?case by (simp add: hex_str.simps [of n])
next
  case (Suc k)
  then have "n div 16 < 16 ^ Suc k" by (simp add: less_mult_imp_div_less)
  with Suc.IH [of "n div 16"] show ?case by (simp add: hex_str.simps [of n])
qed

lemma hex_str_seg: "n \<le> 0xffff \<Longrightarrow> v6_seg (hex_str n)"
  using hex_str_length [of n 3] hex_str_nonempty [of n] hex_str_hex [of n]
  by (simp add: v6_seg_def Suc_le_eq)

text \<open>The reader of a hexadecimal number takes the whole of such a text.\<close>

lemma hex_not_special: "is_hex c \<Longrightarrow> \<not> is_ws c \<and> c \<noteq> CHR ''-'' \<and> c \<noteq> CHR ''+'' \<and> c \<noteq> CHR ''x'' \<and> c \<noteq> CHR ''X''"
  by (auto simp: is_hex_def hex_digit_def char_code_def is_ws_def Let_def split: if_splits)

lemma parse_int16_hex:
  assumes "list_all is_hex w" and "w \<noteq> []"
  shows "parse_int16 w = Some (int (hex_number w))"
proof -
  obtain c t where w: "w = c # t" using assms(2) by (cases w) auto
  with assms(1) hex_not_special have "\<not> is_ws c" "c \<noteq> CHR ''-''" "c \<noteq> CHR ''+''" by auto
  moreover have "\<not> starts_with ''0x'' w" "\<not> starts_with ''0X'' w"
    using assms(1) hex_not_special [of "CHR ''x''"] hex_not_special [of "CHR ''X''"] by (auto simp: starts_with_iff)
  moreover have "takeWhile is_hex w = w" using assms(1) by (simp add: list_all_iff takeWhile_eq_all_conv)
  ultimately show ?thesis using w by (auto simp: parse_int16_def Let_def)
qed

lemma split_gap_nonempty: "\<exists>x xs. split_gap s = x # xs"
  by (induction s rule: split_gap.induct) (auto split: list.splits)

lemma split_gap_char: "c \<noteq> CHR '':'' \<or> (t \<noteq> [] \<and> hd t \<noteq> CHR '':'') \<Longrightarrow> split_gap t = x # xs \<Longrightarrow> split_gap (c # t) = (c # x) # xs"
  by (cases t) auto

lemma split_gap_word: "CHR '':'' \<notin> set w \<Longrightarrow> split_gap t = x # xs \<Longrightarrow> split_gap (w @ t) = (w @ x) # xs"
  by (induction w) (auto intro!: split_gap_char)

lemma split_gap_join:
  assumes "\<forall>w\<in>set ws. w \<noteq> [] \<and> CHR '':'' \<notin> set w" and "split_gap t = x # xs"
  shows "split_gap (join_with '':'' ws @ t) = (join_with '':'' ws @ x) # xs"
  using assms(1)
proof (induction "'':''" ws rule: join_with.induct)
  case 1
  then show ?case by (simp add: assms(2))
next
  case (2 w)
  then show ?case by (simp add: assms(2) split_gap_word)
next
  case (3 w v ws)
  let ?r = "join_with '':'' (v # ws)"
  have "hd (?r @ t) \<noteq> CHR '':''" "?r @ t \<noteq> []"
    using 3(2) by (cases ws; cases v; auto)+
  then have "split_gap (CHR '':'' # ?r @ t) = (CHR '':'' # ?r @ x) # xs"
    using 3 by (intro split_gap_char) simp_all
  then show ?case using 3(2) by (simp add: split_gap_word)
qed

lemma split_on_join:
  "ws \<noteq> [] \<Longrightarrow> \<forall>w\<in>set ws. CHR '':'' \<notin> set w \<Longrightarrow> split_on (CHR '':'') (join_with '':'' ws) = ws"
  by (induction "'':''" ws rule: join_with.induct) (simp_all add: split_on_absent split_on_append)

lemma half_groups_join:
  "\<forall>w\<in>set ws. w \<noteq> [] \<and> CHR '':'' \<notin> set w \<Longrightarrow> half_groups (join_with '':'' ws) = ws"
  using split_on_join [of ws] by (cases ws rule: remdups_adj.cases) (auto simp: half_groups_def)

lemma v6_groups_hex:
  "\<forall>w\<in>set us. w \<le> 0xffff \<Longrightarrow> v6_groups tail (map hex_str us) = Some (length us)"
  by (induction us rule: induct_list012) (simp_all add: hex_str_seg)

lemma hex_groups: "\<forall>w\<in>set (map hex_str us). w \<noteq> [] \<and> CHR '':'' \<notin> set w"
  using hex_str_nonempty hex_str_absent [of "CHR '':''"] by (auto simp: hex_digit_def char_code_def)

lemma v6_half_hex:
  "\<forall>w\<in>set us. w \<le> 0xffff \<Longrightarrow> v6_half tail (join_with '':'' (map hex_str us)) = Some (length us)"
  using half_groups_join [OF hex_groups, of us] v6_groups_hex [of us tail]
  by (auto simp: v6_half_def half_groups_def split: if_splits)

lemma read_words_hex:
  assumes "length ws = 8" and "\<forall>w\<in>set ws. w \<le> 0xffff"
  shows "read_words (map hex_str ws) = Some ws"
proof -
  have read: "map (\<lambda>w. parse_int16 (if w = [] then ''0'' else w)) (map hex_str ws) = map (\<lambda>w. Some (int w)) ws"
    by (simp add: parse_int16_hex hex_str_hex hex_str_nonempty hex_number_hex_str)
  have "list_all word16 (map (\<lambda>w. Some (int w)) ws)"
    using assms(2) by (auto simp: list_all_iff word16_def)
  then show ?thesis unfolding read_words_def Let_def read using assms(1) by (simp add: o_def map_idI)
qed

lemma join_chars: "c \<in> set (join_with sep ws) \<Longrightarrow> c \<in> set sep \<or> (\<exists>w\<in>set ws. c \<in> set w)"
  by (induction sep ws rule: join_with.induct) auto

lemma hex_text_chars:
  assumes "c \<in> set (join_with '':'' (map hex_str us))" shows "c = CHR '':'' \<or> is_hex c"
  using join_chars [OF assms] hex_str_hex by (auto simp: list_all_iff)

definition compressed :: "nat list \<Rightarrow> nat list \<Rightarrow> string" where
  "compressed us vs = join_with '':'' (map hex_str us) @ ''::'' @ join_with '':'' (map hex_str vs)"

lemma split_compressed:
  "split_gap (compressed us vs) = [join_with '':'' (map hex_str us), join_with '':'' (map hex_str vs)]"
proof -
  have "split_gap (join_with '':'' (map hex_str vs)) = [join_with '':'' (map hex_str vs)]"
    using split_gap_join [OF hex_groups, of "[]" "[]" "[]" vs] by simp
  then show ?thesis
    using split_gap_join [OF hex_groups, of "''::'' @ join_with '':'' (map hex_str vs)" "[]" _ us]
    by (simp add: compressed_def)
qed

lemma compressed_absent: "c \<noteq> CHR '':'' \<Longrightarrow> \<not> is_hex c \<Longrightarrow> c \<notin> set (compressed us vs)"
  by (auto simp: compressed_def dest: hex_text_chars)

lemma not_hex: "\<not> is_hex (CHR ''.'')" "\<not> is_hex (CHR ''%'')"
  by (simp_all add: is_hex_def hex_digit_def char_code_def)

text \<open>
  The compressed notation of an IPv6 address is recognised and read back as the address it denotes, with
  the omitted words zero, for every choice of the words before and after the double colon.
\<close>

theorem ipv6_text_roundtrip:
  assumes "length us + length vs \<le> 7" and "\<forall>w\<in>set (us @ vs). w \<le> 0xffff"
  shows "net_isIP (compressed us vs) = 6
    \<and> parseIpv6Words (compressed us vs) = Some (us @ replicate (8 - length us - length vs) 0 @ vs)"
proof
  have absent: "CHR ''.'' \<notin> set (compressed us vs)" "CHR ''%'' \<notin> set (compressed us vs)"
    using compressed_absent not_hex by auto
  then have whole: "takeWhile (\<lambda>c. c \<noteq> CHR ''%'') (compressed us vs) = compressed us vs"
    "dropWhile (\<lambda>c. c \<noteq> CHR ''%'') (compressed us vs) = []"
    by (auto simp: takeWhile_eq_all_conv dropWhile_eq_Nil_conv)
  have "\<not> isIPv4 (compressed us vs)" using absent by (simp add: isIPv4_def split_on_absent)
  moreover have "isIPv6 (compressed us vs)"
    using assms by (simp add: isIPv6_def whole isIPv6_body_def split_compressed v6_half_hex)
  ultimately show "net_isIP (compressed us vs) = 6" by (simp add: net_isIP_def)
  let ?n = "8 - length us - length vs"
  have "map hex_str us @ replicate ?n ''0'' @ map hex_str vs = map hex_str (us @ replicate ?n 0 @ vs)"
    by (simp add: hex_str.simps [of 0] hex_char_def char_of_eq_iff eq_commute [of "CHR ''0''"])
  moreover have "read_words (map hex_str (us @ replicate ?n 0 @ vs)) = Some (us @ replicate ?n 0 @ vs)"
    using assms by (intro read_words_hex) auto
  moreover have "nat (8 - int (length us) - int (length vs)) = ?n" by simp
  ultimately show "parseIpv6Words (compressed us vs) = Some (us @ replicate ?n 0 @ vs)"
    using assms(1) absent
    by (simp add: parseIpv6Words_def hex_tail_def split_compressed half_groups_join [OF hex_groups])
qed

theorem ipv6_text_roundtrip_witness:
  "parseIpv6Words (compressed [0xfe80] [1]) = Some ([0xfe80] @ replicate 6 0 @ [1])"
  using ipv6_text_roundtrip [of "[0xfe80]" "[1]"] by simp

section \<open>What an outbound connection may reach\<close>

lemma of_family_subset: "of_family f es = Inr cs \<Longrightarrow> set cs \<subseteq> set es"
  by (induction es arbitrary: cs) (auto simp: and_then_Inr_iff split: if_splits)

lemma of_family_family: "of_family f es = Inr cs \<Longrightarrow> c \<in> set cs \<Longrightarrow> addressFamily (ra_address c) (ra_family c) = Inr f"
  by (induction es arbitrary: cs) (auto simp: and_then_Inr_iff split: if_splits)

lemma selected_address:
  assumes "selectAgentAddress es False family label = Inr (address, f)"
  shows "(\<exists>e\<in>set es. ra_address e = address \<and> addressFamily address (ra_family e) = Inr f)
    \<and> (\<forall>e\<in>set es. \<not> isPrivateIp (ra_address e)) \<and> (family = Some 4 \<or> family = Some 6 \<longrightarrow> Some f = family)"
proof -
  from assms obtain cs where checked: "\<forall>e\<in>set es. \<not> isPrivateIp (ra_address e)"
    and cs: "(if family = Some 4 \<or> family = Some 6 then of_family (the family) es else Inr es) = Inr cs"
    and pick: "(case cs of [] \<Rightarrow> Inl (CodedError ''ENOTFOUND'' (label @ '' hostname did not resolve to a usable address''))
       | selected # _ \<Rightarrow> and_then (addressFamily (ra_address selected) (ra_family selected)) (\<lambda>f.
           Inr (ra_address selected, f))) = Inr (address, f)"
    unfolding selectAgentAddress_def by (auto simp: and_then_Inr_iff check_all_ok split: if_split_asm)
  from pick obtain c rest where c: "cs = c # rest" "ra_address c = address" "addressFamily address (ra_family c) = Inr f"
    by (auto simp: and_then_Inr_iff split: list.splits)
  have "c \<in> set es" using cs c(1) of_family_subset by (fastforce split: if_splits)
  moreover have "Some f = family" if "family = Some 4 \<or> family = Some 6"
    using that cs c of_family_family [of "the family" es cs c] by (auto split: if_splits)
  ultimately show ?thesis using checked c(2,3) by blast
qed

text \<open>
  C36: A connection to an agent in the strict mode reaches only an address the resolver returned for the host name,
  outside every special-purpose block, of the family asked for; and one private address among the
  answers is enough to refuse the connection.
\<close>

theorem agent_lookup_reaches_public:
  assumes "createAgentLookup False resolve label hostname family = Inr (address, f)"
  shows "public_address (trim (to_lower address))
    \<and> (\<exists>answers. resolveAgentHostname resolve hostname = Inr answers \<and> address \<in> ra_address ` set answers
        \<and> list_all (\<lambda>e. public_address (trim (to_lower (ra_address e)))) answers)
    \<and> (lookupFamily family = None \<or> lookupFamily family = Some f)"
proof -
  from assms obtain answers where answers: "resolveAgentHostname resolve hostname = Inr answers"
    and select: "selectAgentAddress answers False (lookupFamily family) label = Inr (address, f)"
    by (auto simp: createAgentLookup_def and_then_Inr_iff)
  have family: "lookupFamily family = None \<or> lookupFamily family = Some 4 \<or> lookupFamily family = Some 6"
    by (simp add: lookupFamily_def)
  show ?thesis
    using selected_address [OF select] answers family
    by (auto simp: private_iff_not_public list_all_iff)
qed

theorem agent_lookup_reaches_public_witness:
  "public_address (trim (to_lower ''93.184.216.34''))"
proof -
  have "createAgentLookup False (\<lambda>_. Inr [\<lparr>ra_address = ''93.184.216.34'', ra_family = Some 4\<rparr>]) ''Agent URL''
      ''agent.example'' None = Inr (''93.184.216.34'', 4)"
    by code_simp
  from agent_lookup_reaches_public [OF this] show ?thesis by (rule conjunct1)
qed

end
