(* ===== verification/Spec2Isabelle.thy ===== *)
theory Spec2Isabelle
  imports Recovery_Exclusion Restore_Lifecycle Git_Inspection Account_Safety Backup_Integrity Ssrf
begin

text \<open>
  \<^bold>\<open>ComposeBastion: the durable job queue, the admission of remote mutations, and the safety of remote commands\<close>

  ComposeBastion manages Docker hosts. Its API enqueues operations as rows of \<^verbatim>\<open>operation_jobs\<close>; workers
  claim them under a lease, run them on the hosts, and record the outcome. The safety of the system rests on
  few mechanisms, all in \<^verbatim>\<open>src/apps/api/src/services\<close>: a lease fenced by an attempt number, claims on Docker
  objects, host paths and Compose projects that keep conflicting jobs apart, evidence of remote commands that is
  written before they are sent, bindings that keep a deployment target locked while its outcome is
  unknown, and reconcilers that settle such outcomes. This development models these mechanisms as functions on the database.

  \<^bold>\<open>Theories, from the bottom\<close>

  \<^item> \<open>Prelude\<close>: JSON values, strings and POSIX paths of the language, exceptions as \<open>Inl\<close> values, the
    relational primitives of the SQL statements, and the interface locales \<open>keyed_table\<close> (a table with a primary
    key), \<open>conflict_relation\<close> (a symmetric conflict between claims) and \<open>transition_system\<close> (runs and invariants).
  \<^item> \<open>Mutation_Scope\<close> (\<^verbatim>\<open>dockerMutationScope.ts\<close>): the claim of an action, conflicts of claims, the advisory
    keys, and the widening of a claim through the inventory. Claims are well-formed, aliases and unknown
    references conflict, widening loses no conflict, conflicting claims share a lock.
  \<^item> \<open>Store\<close>: one record per table, the database, transactions with rollback (\<^verbatim>\<open>db/pool.ts\<close>), and \<open>externs\<close>, the
    functions of code outside the model: SHA-256, secret decryption, schema validation, YAML and URL handling.
  \<^item> \<open>Job_Queue\<close> (\<^verbatim>\<open>jobs.ts\<close>): claiming, leases, progress, the self-update handoff.
  \<^item> \<open>Remote_Proof\<close> (\<^verbatim>\<open>remoteMutationProof.ts\<close>): dispatch and terminal records under the lease, which are read back
    as written, and the classification of unknown outcomes.
  \<^item> \<open>Deployment_Binding\<close> (\<^verbatim>\<open>githubDeploymentBinding.ts\<close>, \<^verbatim>\<open>githubCloneDeploymentBinding.ts\<close>).
  \<^item> \<open>Job_Finalization\<close> (\<^verbatim>\<open>jobs.ts\<close>): completion, failure, cancellation, recovery of expired jobs, with the
    finalisation of the linked restore attempts, migrations, backups and drills.
  \<^item> \<open>Recovery_Admission\<close> (\<^verbatim>\<open>recoveryOperationAdmission.ts\<close>): claims of recovery operations, their
    persistence, their conflicts, and the two admission checks.
  \<^item> \<open>Job_Admission\<close> and \<open>Job_Retry\<close> (\<^verbatim>\<open>jobs.ts\<close>): single-flight scopes, enqueueing, guards of stack and repository
    changes, and the manual retry.
  \<^item> \<open>Workers\<close> (\<^verbatim>\<open>jobs.ts\<close>): the worker registry and the readiness report.
  \<^item> \<open>Self_Update\<close> (\<^verbatim>\<open>selfUpdate.ts\<close>): the outcome file and the reconciliation of handed-off updates.
  \<^item> \<open>Job_Lifecycle\<close>: the life of a job as a relation \<open>job_step\<close> on one row, and the refinement: every operation of
    the queue moves every row by that relation or adds a fresh one. Invariants over all runs follow by rule
    induction; \<open>fenced_operation\<close> is the interface of the writes a lease protects, interpreted by each of them.
  \<^item> \<open>Single_Flight\<close>: active jobs never have conflicting claims, on every run; enqueueing is idempotent.
  \<^item> \<open>Recovery_Exclusion\<close>: mutations and recovery operations spare each other.
  \<^item> \<open>Commands\<close> (\<^verbatim>\<open>commands.ts\<close>): the command lines sent to hosts and a scanner of the part of the shell's language
    they use. The shell splits each line into exactly the intended arguments.
  \<^item> \<open>Session\<close>: background work that talks to hosts, as programs over the database, the remote side and a log of commands,
    answers and writes, in which an arbitrary function stands for the other transactions before each statement
    (\<open>turns\<close>). The locale \<open>log_property\<close> carries a property of the log from the parts of a program to the whole; both
    reconcilers interpret it. \<open>db_preorder\<close> does the same for a relation between the databases before and after.
  \<^item> \<open>Restore_Attempts\<close> (\<^verbatim>\<open>recoveryRestoreAttempts.ts\<close>): the durable record of a restore attempt, the claim of a
    reconciler, and its cleanup on the host, a session. \<open>authorised\<close> is the language of logs the cleanup may produce.
  \<^item> \<open>Restore_Lifecycle\<close>: the life of an attempt as a relation on one row, the refinement of it by every statement,
    the finality of settled attempts, the conditions of a claim, and the fencing of a superseded reconciler.
  \<^item> \<open>Environment\<close> (\<^verbatim>\<open>deploymentEnvironment.ts\<close>): the parser of environment files, interpolation, the canonical text, which
    is read back as the environment, and the sensitive values.
  \<^item> \<open>Stack_Versions\<close> (\<^verbatim>\<open>stackVersions.ts\<close>): recording, comparing and rolling back versions of a stack.
  \<^item> \<open>Deployment_Intent\<close> (\<^verbatim>\<open>composeStackDeploymentIntent.ts\<close>, \<^verbatim>\<open>deploymentExecutionFinalization.ts\<close>): the encrypted intent of
    a deployment, bound to one attempt, its publication, which a replay does not repeat, and the finished analysis.
  \<^item> \<open>Audit_Log\<close> (\<^verbatim>\<open>audit.ts\<close>): redaction, writing and listing of events; no secret field reaches the table or a reader.
  \<^item> \<open>Registry\<close> (\<^verbatim>\<open>packages/shared/src/registry.ts\<close>): registry names.
  \<^item> \<open>Reconciliation_Claims\<close> (\<^verbatim>\<open>remoteOutcomeReconciliation.ts\<close>): the jobs with an unknown outcome a pass selects, the claim
    stored in their result with its heartbeat and retry delay, the target they name, and the transaction that records an
    outcome and publishes the deployment it finished. A claim excludes others and fences a superseded reconciler.
  \<^item> \<open>Outcome_Reconciliation\<close>: the pass itself as a session, with every inspection of a host it makes.
  \<^item> \<open>Outcome_Evidence\<close>: an outcome is settled only with evidence. \<open>evidenced\<close> is the property of a log that every write
    which settles an outcome follows the answers that justify it; each part of a pass keeps it.
  \<^item> \<open>Git_Inspection\<close>: what a shell makes of the Git command of the pass, and what follows for the inspections.
  \<^item> \<open>Accounts\<close> (\<^verbatim>\<open>auth.ts\<close>, \<^verbatim>\<open>users.ts\<close>, \<^verbatim>\<open>loginAttempts.ts\<close>, \<^verbatim>\<open>routes/auth.ts\<close>, \<^verbatim>\<open>routes/users.ts\<close>): the first owner, users, sessions,
    the lockout after failed logins, and the handlers of requests as programs of statements.
  \<^item> \<open>Account_Safety\<close>: the transactions on accounts as a step relation, which every request refines; an active owner
    remains, an ended session stays ended, the lockout, and the race of a login with a change of password.
  \<^item> \<open>Backup_Encryption\<close> (\<^verbatim>\<open>backupEncryption.ts\<close>): keyring, header, frames, and the two stream transforms.
  \<^item> \<open>Backup_Integrity\<close>: the locale \<open>buffered_transform\<close>, whose laws make a stream independent of its chunks, interpreted by
    both transforms; an encrypted backup is read back, an accepted one is whole and genuine, and the counter bounds its size.
  \<^item> \<open>Ssrf\<close> (\<^verbatim>\<open>ssrf.ts\<close>): the classification of addresses as text against blocks of 32-bit and 128-bit numbers, the
    reading of IPv6 notation, and the lookup of agent connections.

  \<^bold>\<open>Conventions\<close>

  Each service function is a definition with the name of the source. A transaction is a function from the
  database to a result and a database; concurrency is the arbitrary interleaving of transactions, which the
  advisory and row locks of the source provide, and \<open>SKIP LOCKED\<close> and \<open>NOWAIT\<close> are arguments that name the rows other
  transactions hold. \<open>clock\<close> carries the two clocks of PostgreSQL, the start of the transaction and the current
  time. Identifiers and random tokens are arguments. Loops over rows, hosts and characters are recursions over lists. The
  address embedded in another and the loops of the backup streams end by termination proofs, and the loop of the environment parser is a partial function
  into \<open>option\<close> that is proved to return on every input; no fuel is used.

  \<^bold>\<open>Not modelled\<close>

  The transports (SSH, agent) and the scripts other than the Docker and Compose command lines and those of the
  inspections, the web interface, HTTP routes other than those of accounts, cookie attributes and rate limits, Redis wake-ups, which carry no durable state, the
  bodies of the jobs, backup jobs and schedules, capture and restore pipelines, migration planning, alerts and the schema library. The DNS
  resolver, the URL and JSON parsers, encryption and its cipher, name-based identifiers, the keyed hash of an environment, the
  sanitiser of repository addresses, the password hash, the demo data, the script that removes an owned directory and the connection details of hosts are
  parameters; what a theorem relies on of them is one of its hypotheses.
  The bounds of PostgreSQL integers and JavaScript numbers are modelled where a count can reach them, the attempts of a
  reconciliation; attempts of jobs are at most three, and times are microseconds.
\<close>

end
